(* ===== verification/Kube_Prelude.thy ===== *)
theory Kube_Prelude
  imports Main "HOL-Library.Sublist"
begin

text \<open>
  Shared vocabulary of the development: the operations of Go's \<open>strings\<close> package that the
  program uses, on byte strings, and the generic lemmas on lists, options and maps that the
  components share.

  A Go string is a sequence of bytes, modelled by \<open>string\<close>. Case mapping and white space are
  those of ASCII: \<open>strings.ToLower\<close> and \<open>strings.TrimSpace\<close> take the ASCII path on every
  name, key and label the program builds itself.
\<close>

named_theorems go_strings \<open>characterisations of the modelled string operations\<close>

section \<open>Characters\<close>

definition char_code :: "char \<Rightarrow> nat" where
  "char_code c = of_char c"

definition is_lower :: "char \<Rightarrow> bool" where
  "is_lower c \<longleftrightarrow> 97 \<le> char_code c \<and> char_code c \<le> 122"

definition is_digit :: "char \<Rightarrow> bool" where
  "is_digit c \<longleftrightarrow> 48 \<le> char_code c \<and> char_code c \<le> 57"

definition is_upper :: "char \<Rightarrow> bool" where
  "is_upper c \<longleftrightarrow> 65 \<le> char_code c \<and> char_code c \<le> 90"

definition is_space :: "char \<Rightarrow> bool" where
  "is_space c \<longleftrightarrow> char_code c \<in> {9, 10, 11, 12, 13, 32}"

definition char_lower :: "char \<Rightarrow> char" where
  "char_lower c = (if is_upper c then char_of (char_code c + 32) else c)"

section \<open>Go's strings package\<close>

definition ToLower :: "string \<Rightarrow> string" where
  "ToLower = map char_lower"

text \<open>\<open>strings.Trim(s, cutset)\<close>, the cut set given as a predicate.\<close>

definition trim_by :: "(char \<Rightarrow> bool) \<Rightarrow> string \<Rightarrow> string" where
  "trim_by p s = rev (dropWhile p (rev (dropWhile p s)))"

definition TrimSpace :: "string \<Rightarrow> string" where
  "TrimSpace = trim_by is_space"

definition HasPrefix :: "string \<Rightarrow> string \<Rightarrow> bool" where
  "HasPrefix s p \<longleftrightarrow> take (length p) s = p"

fun Contains :: "string \<Rightarrow> string \<Rightarrow> bool" where
  "Contains [] sub = (sub = [])"
| "Contains (c # s) sub = (HasPrefix (c # s) sub \<or> Contains s sub)"

text \<open>\<open>strings.ReplaceAll\<close> for a non-empty pattern: leftmost, non-overlapping occurrences.\<close>

fun ReplaceAll :: "string \<Rightarrow> string \<Rightarrow> string \<Rightarrow> string" where
  "ReplaceAll [] old new = []"
| "ReplaceAll (c # s) old new =
     (if old \<noteq> [] \<and> HasPrefix (c # s) old
      then new @ ReplaceAll (drop (length old - 1) s) old new
      else c # ReplaceAll s old new)"

fun Join :: "string list \<Rightarrow> string \<Rightarrow> string" where
  "Join [] sep = []"
| "Join [s] sep = s"
| "Join (s # t # ss) sep = s @ sep @ Join (t # ss) sep"

text \<open>Decimal rendering, \<open>%d\<close> and \<open>strconv.FormatInt\<close>.\<close>

fun nat_str :: "nat \<Rightarrow> string" where
  "nat_str n = (if n < 10 then [char_of (48 + n)] else nat_str (n div 10) @ [char_of (48 + n mod 10)])"

definition int_str :: "int \<Rightarrow> string" where
  "int_str i = (if i < 0 then CHR ''-'' # nat_str (nat (- i)) else nat_str (nat i))"

declare nat_str.simps [simp del]

lemma length_dropWhile_less_Suc [termination_simp, simp]: "length (dropWhile p xs) < Suc (length xs)"
  by (simp add: length_dropWhile_le less_Suc_eq_le)

section \<open>Errors as values\<close>

text \<open>Go's pair of a result and an error: the error on the left, the result on the right.\<close>

definition bind_err :: "'e + 'a \<Rightarrow> ('a \<Rightarrow> 'e + 'b) \<Rightarrow> 'e + 'b" where
  "bind_err r f = (case r of Inl e \<Rightarrow> Inl e | Inr a \<Rightarrow> f a)"

text \<open>The end of a call that may panic; the string is the panic value as \<open>%v\<close> prints it.\<close>

datatype 'a outcome = Panic string | Return 'a

abbreviation nil_deref :: string where
  "nil_deref \<equiv> ''runtime error: invalid memory address or nil pointer dereference''"

section \<open>Lemmas\<close>

lemma bind_err_simps [simp]:
  "bind_err (Inl e) f = Inl e"
  "bind_err (Inr a) f = f a"
  by (simp_all add: bind_err_def)

lemma bind_err_Inr_iff: "bind_err r f = Inr b \<longleftrightarrow> (\<exists>a. r = Inr a \<and> f a = Inr b)"
  by (cases r) auto

lemma HasPrefix_iff [go_strings]: "HasPrefix s p \<longleftrightarrow> prefix p s"
  by (auto simp: HasPrefix_def prefix_def) (metis append_take_drop_id)

lemma HasPrefix_append [simp]: "HasPrefix (p @ s) p"
  by (simp add: HasPrefix_def)

lemma Contains_iff [go_strings]: "Contains s sub \<longleftrightarrow> sublist sub s"
  by (induction s) (auto simp: HasPrefix_iff sublist_Cons_right)

lemma Contains_mono: "sublist s t \<Longrightarrow> Contains s sub \<Longrightarrow> Contains t sub"
  by (auto simp: Contains_iff intro: sublist_order.order_trans)

lemma length_ReplaceAll_le:
  "length new \<le> length old \<Longrightarrow> length (ReplaceAll s old new) \<le> length s"
proof (induction s old new rule: ReplaceAll.induct)
  case (2 c s old new)
  show ?case
  proof (cases "old \<noteq> [] \<and> HasPrefix (c # s) old")
    case True
    then have "length old \<le> Suc (length s)"
      using prefix_length_le by (fastforce simp: HasPrefix_iff)
    with 2 True show ?thesis by (auto simp: Suc_diff_le)
  next
    case False
    with 2 show ?thesis by auto
  qed
qed simp

lemma length_ReplaceAll_less:
  assumes "length new < length old" and "Contains s old"
  shows "length (ReplaceAll s old new) < length s"
  using assms
proof (induction s old new rule: ReplaceAll.induct)
  case (2 c s old new)
  show ?case
  proof (cases "old \<noteq> [] \<and> HasPrefix (c # s) old")
    case True
    then have "length old \<le> Suc (length s)"
      using prefix_length_le by (fastforce simp: HasPrefix_iff)
    with 2(3) True length_ReplaceAll_le [of new old "drop (length old - 1) s"]
    show ?thesis by auto
  next
    case False
    with 2 show ?thesis by auto
  qed
qed simp

lemma set_ReplaceAll: "set (ReplaceAll s old new) \<subseteq> set s \<union> set new"
  by (induction s old new rule: ReplaceAll.induct) (auto dest: in_set_dropD)

lemma sublist_trim_by: "sublist (trim_by p s) s"
proof -
  have "suffix (dropWhile p s) s" by (rule suffix_dropWhile)
  moreover have "prefix (trim_by p s) (dropWhile p s)"
    using suffix_dropWhile [of p "rev (dropWhile p s)"]
    by (simp add: trim_by_def suffix_to_prefix)
  ultimately show ?thesis
    by (meson prefix_imp_sublist sublist_order.order_trans suffix_imp_sublist)
qed

lemma set_trim_by: "set (trim_by p s) \<subseteq> set s"
  using sublist_trim_by set_mono_sublist by blast

lemma length_trim_by: "length (trim_by p s) \<le> length s"
  using sublist_trim_by sublist_length_le by blast

lemma hd_dropWhile_not: "dropWhile p s \<noteq> [] \<Longrightarrow> \<not> p (hd (dropWhile p s))"
  by (induction s) auto

lemma hd_trim_by: "trim_by p s \<noteq> [] \<Longrightarrow> \<not> p (hd (trim_by p s))"
proof -
  assume ne: "trim_by p s \<noteq> []"
  have "prefix (trim_by p s) (dropWhile p s)"
    using suffix_dropWhile [of p "rev (dropWhile p s)"]
    by (simp add: trim_by_def suffix_to_prefix)
  then obtain zs where "dropWhile p s = trim_by p s @ zs"
    by (auto simp: prefix_def)
  with ne hd_dropWhile_not [of p s] show ?thesis
    by simp
qed

lemma last_trim_by: "trim_by p s \<noteq> [] \<Longrightarrow> \<not> p (last (trim_by p s))"
  using hd_dropWhile_not [of p "rev (dropWhile p s)"]
  by (simp add: trim_by_def last_rev del: dropWhile_eq_Nil_conv)

lemma trim_by_id: "s = [] \<or> (\<not> p (hd s) \<and> \<not> p (last s)) \<Longrightarrow> trim_by p s = s"
proof (cases "s = []")
  case False
  assume "s = [] \<or> (\<not> p (hd s) \<and> \<not> p (last s))"
  with False have "dropWhile p s = s" and "dropWhile p (rev s) = rev s"
    by (auto simp: dropWhile_eq_self_iff hd_rev)
  then show ?thesis by (simp add: trim_by_def)
qed (simp add: trim_by_def)

lemma trim_by_idem [simp]: "trim_by p (trim_by p s) = trim_by p s"
  by (rule trim_by_id) (auto dest: hd_trim_by last_trim_by)

lemma trim_by_nonempty: "s \<noteq> [] \<Longrightarrow> \<not> p (hd s) \<Longrightarrow> trim_by p s \<noteq> []"
  by (cases s) (auto simp: trim_by_def dropWhile_append)

lemma hd_trim_by_keep: "s \<noteq> [] \<Longrightarrow> \<not> p (hd s) \<Longrightarrow> hd (trim_by p s) = hd s"
  by (cases s) (auto simp: trim_by_def dropWhile_append hd_append)

text \<open>Reading an association list backwards, for the tables of enumeration constants.\<close>

lemma map_of_swap_table:
  "distinct (map snd t) \<Longrightarrow> (k, v) \<in> set t \<Longrightarrow> map_of (map prod.swap t) v = Some k"
  by (intro map_of_is_SomeI) (auto simp: comp_def)

text \<open>The decimal rendering of a natural number determines it and has no hyphen.\<close>

lemma nat_str_codes: "c \<in> set (nat_str n) \<Longrightarrow> 48 \<le> (of_char c :: nat) \<and> (of_char c :: nat) \<le> 57"
proof (induction n rule: nat_str.induct)
  case (1 n)
  have d: "(of_char (char_of (48 + k) :: char) :: nat) = 48 + k" if "k < 10" for k :: nat
    using that by simp
  show ?case
  proof (cases "n < 10")
    case True
    with 1(2) d [of n] show ?thesis by (subst (asm) nat_str.simps) simp
  next
    case False
    with 1 d [of "n mod 10"] show ?thesis by (subst (asm) (2) nat_str.simps) auto
  qed
qed

lemma nat_str_no_hyphen: "CHR ''-'' \<notin> set (nat_str n)"
  using nat_str_codes [of "CHR ''-''" n] by auto

definition str_nat :: "string \<Rightarrow> nat" where
  "str_nat s = foldl (\<lambda>a c. 10 * a + (of_char c - 48)) 0 s"

lemma str_nat_nat_str: "str_nat (nat_str n) = n"
proof (induction n rule: nat_str.induct)
  case (1 n)
  show ?case
  proof (cases "n < 10")
    case True
    then show ?thesis by (subst nat_str.simps) (simp add: str_nat_def)
  next
    case False
    with 1 show ?thesis by (subst nat_str.simps) (simp add: str_nat_def)
  qed
qed

lemma nat_str_inj: "nat_str m = nat_str n \<longleftrightarrow> m = n"
  by (metis str_nat_nat_str)

lemma find_append: "find P (xs @ ys) = (case find P xs of None \<Rightarrow> find P ys | Some x \<Rightarrow> Some x)"
  by (induction xs) auto

end
