(* ===== verification/Kube_Config.thy ===== *)
theory Kube_Config
  imports Kube_Prelude
begin

text \<open>
  Constants and enumerations of \<open>config/consts.go\<close>, \<open>config/share.go\<close> and
  \<open>config/resources.go\<close>. A Go string enumeration is a datatype with one constructor per
  declared constant and one constructor for every other string; \<open>Status_string\<close>,
  \<open>JobType_string\<close> and \<open>WorkflowMode_string\<close> give the stored spelling and
  \<open>Status_of\<close>, \<open>JobType_of\<close> and \<open>WorkflowMode_of\<close> read it back.
\<close>

section \<open>Status\<close>

datatype Status =
    StatusCompleted | StatusDisabled | StatusCreated | StatusRunning | StatusPassed
  | StatusSkipped | StatusFailed | StatusTimeout | StatusCancelled | StatusPause
  | StatusWaiting | StatusQueued | StatusBlocked | QueueItemPending | StatusChanged
  | StatusNotRun | StatusPrepare | StatusReject | StatusDistributed | StatusWaitingApprove
  | StatusDebugBefore | StatusDebugAfter | StatusUnstable | StatusManualApproval
  | StatusOther string

definition Status_table :: "(Status \<times> string) list" where
  "Status_table =
    [(StatusCompleted, ''completed''), (StatusDisabled, ''disabled''),
     (StatusCreated, ''created''), (StatusRunning, ''running''),
     (StatusPassed, ''passed''), (StatusSkipped, ''skipped''),
     (StatusFailed, ''failed''), (StatusTimeout, ''timeout''),
     (StatusCancelled, ''cancelled''), (StatusPause, ''pause''),
     (StatusWaiting, ''waiting''), (StatusQueued, ''queued''),
     (StatusBlocked, ''blocked''), (QueueItemPending, ''pending''),
     (StatusChanged, ''changed''), (StatusNotRun, ''not_run''),
     (StatusPrepare, ''prepare''), (StatusReject, ''reject''),
     (StatusDistributed, ''distributed''), (StatusWaitingApprove, ''wait_for_approval''),
     (StatusDebugBefore, ''debug_before''), (StatusDebugAfter, ''debug_after''),
     (StatusUnstable, ''unstable''),
     (StatusManualApproval, ''wait_for_manual_error_handling'')]"

fun Status_string :: "Status \<Rightarrow> string" where
  "Status_string (StatusOther s) = s"
| "Status_string st = the (map_of Status_table st)"

definition Status_of :: "string \<Rightarrow> Status" where
  "Status_of s = (case map_of (map prod.swap Status_table) s of
     Some st \<Rightarrow> st | None \<Rightarrow> StatusOther s)"

abbreviation StatusEmpty :: Status where
  "StatusEmpty \<equiv> StatusOther ''''"

text \<open>The representation is canonical when a declared constant is never spelled \<open>StatusOther\<close>.\<close>

definition canonical_Status :: "Status \<Rightarrow> bool" where
  "canonical_Status st \<longleftrightarrow> Status_of (Status_string st) = st"

section \<open>Job types, workflow modes, priorities\<close>

datatype JobType =
    ServerJob | StoreJob | ConfJob | SecretJob | ServiceJob
  | JobDeploy | JobDeployService | JobDeployStore | JobDeployPVC | JobDeployConfigMap
  | JobDeploySecret | JobDeployIngress | JobDeployServiceAccount | JobDeployRole
  | JobDeployRoleBinding | JobDeployClusterRole | JobDeployClusterRoleBinding
  | JobTypeOther string

definition JobType_table :: "(JobType \<times> string) list" where
  "JobType_table =
    [(ServerJob, ''webservice''), (StoreJob, ''store''), (ConfJob, ''config''),
     (SecretJob, ''secret''), (ServiceJob, ''service''),
     (JobDeploy, ''deploy''), (JobDeployService, ''service_deploy''),
     (JobDeployStore, ''store_deploy''), (JobDeployPVC, ''store_pvc_deploy''),
     (JobDeployConfigMap, ''configmap_deploy''), (JobDeploySecret, ''secret_deploy''),
     (JobDeployIngress, ''ingress_deploy''),
     (JobDeployServiceAccount, ''service_account_deploy''),
     (JobDeployRole, ''role_deploy''), (JobDeployRoleBinding, ''role_binding_deploy''),
     (JobDeployClusterRole, ''cluster_role_deploy''),
     (JobDeployClusterRoleBinding, ''cluster_role_binding_deploy'')]"

fun JobType_string :: "JobType \<Rightarrow> string" where
  "JobType_string (JobTypeOther s) = s"
| "JobType_string t = the (map_of JobType_table t)"

definition JobType_of :: "string \<Rightarrow> JobType" where
  "JobType_of s = (case map_of (map prod.swap JobType_table) s of
     Some t \<Rightarrow> t | None \<Rightarrow> JobTypeOther s)"

datatype WorkflowMode = WorkflowModeStepByStep | WorkflowModeDAG | WorkflowModeOther string

fun WorkflowMode_string :: "WorkflowMode \<Rightarrow> string" where
  "WorkflowMode_string WorkflowModeStepByStep = ''StepByStep''"
| "WorkflowMode_string WorkflowModeDAG = ''DAG''"
| "WorkflowMode_string (WorkflowModeOther s) = s"

definition WorkflowMode_of :: "string \<Rightarrow> WorkflowMode" where
  "WorkflowMode_of s =
    (if s = ''DAG'' then WorkflowModeDAG
     else if s = ''StepByStep'' then WorkflowModeStepByStep
     else WorkflowModeOther s)"

definition ParseWorkflowMode :: "string \<Rightarrow> WorkflowMode" where
  "ParseWorkflowMode mode =
    (case WorkflowMode_of mode of
       WorkflowModeDAG \<Rightarrow> WorkflowModeDAG
     | WorkflowModeStepByStep \<Rightarrow> WorkflowModeStepByStep
     | _ \<Rightarrow> WorkflowModeStepByStep)"

definition IsParallel :: "WorkflowMode \<Rightarrow> bool" where
  "IsParallel m \<longleftrightarrow> m = WorkflowModeDAG"

definition JobPriorityMaxHigh :: int where "JobPriorityMaxHigh = 0"

definition JobPriorityHigh :: int where "JobPriorityHigh = 1"

definition JobPriorityNormal :: int where "JobPriorityNormal = 10"

definition JobPriorityLow :: int where "JobPriorityLow = 20"

lemmas JobPriority_defs =
  JobPriorityMaxHigh_def JobPriorityHigh_def JobPriorityNormal_def JobPriorityLow_def

section \<open>Durations and defaults\<close>

text \<open>\<open>time.Duration\<close> counts nanoseconds in an \<open>int64\<close>; no constant below comes near its range.\<close>

definition Millisecond :: int where "Millisecond = 1000000"

definition Second :: int where "Second = 1000 * Millisecond"

definition Minute :: int where "Minute = 60 * Second"

definition DefaultNamespace :: string where "DefaultNamespace = ''default''"

definition DeployTimeout :: int where "DeployTimeout = 60 * 20"

definition DefaultJobTaskTimeout :: int where "DefaultJobTaskTimeout = 20 * Minute"

definition DefaultMaxConcurrentWorkflows :: int where "DefaultMaxConcurrentWorkflows = 10"

definition DefaultWorkerBackoffMin :: int where
  "DefaultWorkerBackoffMin = 200 * Millisecond"

definition DefaultWorkerBackoffMax :: int where
  "DefaultWorkerBackoffMax = 5 * Minute"

definition DefaultWorkerMaxReadFailures :: int where "DefaultWorkerMaxReadFailures = 10"

definition DefaultWorkerMaxClaimFailures :: int where "DefaultWorkerMaxClaimFailures = 10"

lemmas duration_defs = Millisecond_def Second_def Minute_def

section \<open>Share strategies, update strategies, component actions, resource kinds\<close>

abbreviation ShareStrategyDefault :: string where "ShareStrategyDefault \<equiv> ''default''"
abbreviation ShareStrategyIgnore :: string where "ShareStrategyIgnore \<equiv> ''ignore''"
abbreviation ShareStrategyForce :: string where "ShareStrategyForce \<equiv> ''force''"

abbreviation LabelCli :: string where "LabelCli \<equiv> ''kube-min-cli''"
abbreviation LabelAppID :: string where "LabelAppID \<equiv> ''kube-min-cli-appId''"
abbreviation LabelComponentID :: string where "LabelComponentID \<equiv> ''kube-min-cli-componentId''"
abbreviation LabelComponentName :: string where "LabelComponentName \<equiv> ''kube-min-cli-componentName''"
abbreviation LabelStorageRole :: string where "LabelStorageRole \<equiv> ''storage.kubemin.cli/pvc-role''"
abbreviation LabelShareName :: string where "LabelShareName \<equiv> ''kubemin-share-name''"
abbreviation LabelShareStrategy :: string where "LabelShareStrategy \<equiv> ''kubemin-share-strategy''"

definition NormalizeShareStrategy :: "string \<Rightarrow> string \<times> bool" where
  "NormalizeShareStrategy strategy =
    (let normalized = ToLower (TrimSpace strategy) in
     if normalized = '''' then (ShareStrategyDefault, True)
     else if normalized = ShareStrategyDefault then (ShareStrategyDefault, True)
     else if normalized = ShareStrategyIgnore then (ShareStrategyIgnore, True)
     else if normalized = ShareStrategyForce then (ShareStrategyForce, True)
     else (ShareStrategyDefault, False))"

datatype UpdateStrategy =
  UpdateStrategyRolling | UpdateStrategyRecreate | UpdateStrategyCanary | UpdateStrategyBlueGreen

definition ParseUpdateStrategy :: "string \<Rightarrow> UpdateStrategy" where
  "ParseUpdateStrategy s =
    (if s = ''recreate'' then UpdateStrategyRecreate
     else if s = ''canary'' then UpdateStrategyCanary
     else if s = ''blue-green'' then UpdateStrategyBlueGreen
     else if s = ''rolling'' then UpdateStrategyRolling
     else UpdateStrategyRolling)"

datatype ComponentAction = ComponentActionUpdate | ComponentActionAdd | ComponentActionRemove

definition ParseComponentAction :: "string \<Rightarrow> ComponentAction" where
  "ParseComponentAction s =
    (if s = ''add'' then ComponentActionAdd
     else if s = ''remove'' then ComponentActionRemove
     else if s = ''update'' then ComponentActionUpdate
     else ComponentActionUpdate)"

text \<open>Storage types of the API and the volume kinds they map to; an absent key reads as \<open>''''\<close>.\<close>

definition StorageTypeMapping :: "string \<Rightarrow> string" where
  "StorageTypeMapping t =
    (if t = ''persistent'' then ''pvc''
     else if t = ''ephemeral'' then ''emptyDir''
     else if t = ''host-mounted'' then ''hostPath''
     else if t = ''config'' then ''configMap''
     else if t = ''secret'' then ''secret''
     else '''')"

section \<open>Lemmas\<close>

lemma Status_table_strings:
  "list_all (\<lambda>(st, s). Status_string st = s) Status_table"
  by (simp add: Status_table_def)

lemma JobType_table_strings:
  "list_all (\<lambda>(t, s). JobType_string t = s) JobType_table"
  by (simp add: JobType_table_def)

lemma Status_string_of: "Status_string (Status_of s) = s"
proof (cases "map_of (map prod.swap Status_table) s")
  case (Some st)
  then have "(s, st) \<in> set (map prod.swap Status_table)" by (rule map_of_SomeD)
  then show ?thesis
    using Some Status_table_strings by (auto simp: Status_of_def list_all_iff)
qed (simp add: Status_of_def)

lemma canonical_Status_of [simp]: "canonical_Status (Status_of s)"
  by (simp add: canonical_Status_def Status_string_of)

lemma JobType_string_of: "JobType_string (JobType_of s) = s"
proof (cases "map_of (map prod.swap JobType_table) s")
  case (Some t)
  then have "(s, t) \<in> set (map prod.swap JobType_table)" by (rule map_of_SomeD)
  then show ?thesis
    using Some JobType_table_strings by (auto simp: JobType_of_def list_all_iff)
qed (simp add: JobType_of_def)

lemma Status_of_table: "(st, s) \<in> set Status_table \<Longrightarrow> Status_of s = st"
proof -
  assume "(st, s) \<in> set Status_table"
  moreover have "distinct (map snd Status_table)" by (simp add: Status_table_def)
  ultimately show ?thesis by (simp add: Status_of_def map_of_swap_table)
qed

lemma WorkflowMode_string_of: "WorkflowMode_string (WorkflowMode_of s) = s"
  by (simp add: WorkflowMode_of_def)

lemma NormalizeShareStrategy_range:
  "fst (NormalizeShareStrategy s) \<in> {ShareStrategyDefault, ShareStrategyIgnore, ShareStrategyForce}"
  by (simp add: NormalizeShareStrategy_def Let_def)

lemma NormalizeShareStrategy_nonempty [simp]: "fst (NormalizeShareStrategy s) \<noteq> ''''"
  using NormalizeShareStrategy_range [of s] by auto

end
