(* ===== verification/Kube_Json.thy ===== *)
theory Kube_Json
  imports Kube_Config
begin

text \<open>
  The stored JSON documents (\<open>model.JSONStruct\<close>) and their decoding into the program's types.
  The program decodes by marshalling the stored map and unmarshalling the text into a struct, so
  the model decodes the value itself: \<open>conforms\<close> says when \<open>json.Unmarshal\<close> into a type
  succeeds, and the accessors read the fields of a value that conforms.

  The types are \<open>WorkflowSteps\<close>, \<open>WorkflowStep\<close>, \<open>WorkflowSubStep\<close> and \<open>Policies\<close> of
  \<open>domain/model/workflow.go\<close>, and \<open>Properties\<close> and \<open>Traits\<close> of \<open>domain/spec/traits.go\<close>.
\<close>

section \<open>Values and schemas\<close>

text \<open>\<open>JFloat\<close> is a number that is not an integer; no decoded field accepts one.\<close>

datatype json =
    JNull | JBool bool | JNum int | JFloat string | JStr string
  | JArr "json list" | JObj "(string \<times> json) list"

datatype schema =
    SStr | SBool | SInt nat | SArr schema | SMap schema
  | SStruct "(string \<times> schema) list" | STraits

text \<open>A key selects the field whose name it equals up to case.\<close>

definition field_of :: "string \<Rightarrow> (string \<times> 'a) list \<Rightarrow> 'a option" where
  "field_of k fs = map_option snd (find (\<lambda>f. ToLower (fst f) = ToLower k) fs)"

definition properties_schema :: schema where
  "properties_schema = SStruct
    [(''image'', SStr), (''ports'', SArr (SStruct [(''port'', SInt 32)])),
     (''env'', SMap SStr), (''conf'', SMap SStr), (''secret'', SMap SStr),
     (''command'', SArr SStr), (''labels'', SMap SStr)]"

definition traits_schema :: schema where
  "traits_schema = SStruct
    [(''init'', SArr (SStruct
        [(''name'', SStr), (''traits'', STraits), (''properties'', properties_schema)])),
     (''storage'', SArr (SStruct
        [(''name'', SStr), (''type'', SStr), (''mount_path'', SStr), (''sub_path'', SStr),
         (''read_only'', SBool), (''source_name'', SStr), (''tmp_create'', SBool),
         (''size'', SStr), (''claim_name'', SStr), (''storage_class'', SStr)])),
     (''sidecar'', SArr (SStruct
        [(''name'', SStr), (''image'', SStr), (''command'', SArr SStr), (''args'', SArr SStr),
         (''env'', SMap SStr), (''traits'', STraits)])),
     (''ingress'', SArr (SStruct
        [(''name'', SStr), (''namespace'', SStr), (''hosts'', SArr SStr), (''label'', SMap SStr),
         (''annotations'', SMap SStr), (''ingress_class_name'', SStr),
         (''default_path_type'', SStr),
         (''tls'', SArr (SStruct [(''secret_name'', SStr), (''hosts'', SArr SStr)])),
         (''routes'', SArr (SStruct
            [(''path'', SStr), (''path_type'', SStr), (''host'', SStr),
             (''backend'', SStruct
                [(''service_name'', SStr), (''service_port'', SInt 32), (''weight'', SInt 32),
                 (''headers'', SMap SStr)]),
             (''rewrite'', SStruct
                [(''type'', SStr), (''match'', SStr), (''replacement'', SStr)])]))])),
     (''rbac'', SArr (SStruct
        [(''service_account'', SStr), (''namespace'', SStr), (''cluster_scope'', SBool),
         (''role_name'', SStr), (''binding_name'', SStr),
         (''service_accountLabels'', SMap SStr), (''service_accountAnnotations'', SMap SStr),
         (''role_labels'', SMap SStr), (''binding_labels'', SMap SStr),
         (''rules'', SArr (SStruct
            [(''api_groups'', SArr SStr), (''resources'', SArr SStr),
             (''resource_names'', SArr SStr), (''non_resource_urls'', SArr SStr),
             (''verbs'', SArr SStr)])),
         (''automount_service_account_token'', SBool)])),
     (''env_from'', SArr (SStruct [(''type'', SStr), (''source_name'', SStr)])),
     (''envs'', SArr (SStruct
        [(''name'', SStr),
         (''value_from'', SStruct
            [(''static'', SStr),
             (''secret'', SStruct [(''name'', SStr), (''key'', SStr)]),
             (''config'', SStruct [(''name'', SStr), (''key'', SStr)]),
             (''field'', SStr)])])),
     (''probes'', SArr (SStruct
        [(''type'', SStr), (''initial_delay_seconds'', SInt 32), (''period_seconds'', SInt 32),
         (''timeout_seconds'', SInt 32), (''failure_threshold'', SInt 32),
         (''success_threshold'', SInt 32),
         (''exec'', SStruct [(''command'', SArr SStr)]),
         (''http_get'', SStruct
            [(''path'', SStr), (''port'', SInt 64), (''host'', SStr), (''scheme'', SStr)]),
         (''tcp_socket'', SStruct [(''port'', SInt 64), (''host'', SStr)])])),
     (''resources'', SStruct [(''cpu'', SStr), (''memory'', SStr), (''gpu'', SStr)]),
     (''share'', SStruct [(''strategy'', SStr)])]"

definition policies_schema :: schema where
  "policies_schema = SArr (SStruct [(''policies'', SArr SStr)])"

definition steps_schema :: schema where
  "steps_schema = SStruct
    [(''steps'', SArr (SStruct
       [(''name'', SStr), (''level'', SInt 64), (''workflow_type'', SStr), (''mode'', SStr),
        (''properties'', policies_schema),
        (''sub_steps'', SArr (SStruct
           [(''name'', SStr), (''workflow_type'', SStr), (''properties'', policies_schema)]))]))]"

definition resolve :: "schema \<Rightarrow> schema" where
  "resolve s = (if s = STraits then traits_schema else s)"

section \<open>json.Unmarshal\<close>

text \<open>\<open>null\<close> leaves a value of any type at its zero value; an unknown key is ignored.\<close>

function (sequential) conforms :: "json \<Rightarrow> schema \<Rightarrow> bool" where
  "conforms JNull s = True"
| "conforms (JBool b) s = (resolve s = SBool)"
| "conforms (JStr t) s = (resolve s = SStr)"
| "conforms (JFloat t) s = False"
| "conforms (JNum n) s =
     (case resolve s of SInt w \<Rightarrow> - (2 ^ (w - 1)) \<le> n \<and> n < 2 ^ (w - 1) | _ \<Rightarrow> False)"
| "conforms (JArr js) s =
     (case resolve s of SArr s' \<Rightarrow> (\<forall>j\<in>set js. conforms j s') | _ \<Rightarrow> False)"
| "conforms (JObj kvs) s =
     (case resolve s of
        SMap s' \<Rightarrow> (\<forall>kv\<in>set kvs. conforms (snd kv) s')
      | SStruct fs \<Rightarrow>
         (\<forall>kv\<in>set kvs. case field_of (fst kv) fs of None \<Rightarrow> True | Some s' \<Rightarrow> conforms (snd kv) s')
      | _ \<Rightarrow> False)"
  by pat_completeness auto
termination
proof (relation "measure (\<lambda>(j, s). size j)", goal_cases)
  case (2 js s s' j)
  then show ?case by (induction js) auto
next
  case (3 kvs s s' kv)
  then show ?case by (induction kvs) (auto simp: prod.size_neq split: prod.splits)
next
  case (4 kvs s fs kv s')
  then show ?case by (induction kvs) (auto split: prod.splits)
qed simp

text \<open>
  Reading a field. Keys that differ only in case write the same field in turn, in the order of
  the encoded map, so the last one is the one read.
\<close>

definition json_get :: "string \<Rightarrow> json \<Rightarrow> json" where
  "json_get k j =
    (case j of
       JObj kvs \<Rightarrow>
         (case find (\<lambda>kv. ToLower (fst kv) = ToLower k) (rev kvs) of
            Some kv \<Rightarrow> snd kv | None \<Rightarrow> JNull)
     | _ \<Rightarrow> JNull)"

fun json_str :: "json \<Rightarrow> string" where
  "json_str (JStr s) = s"
| "json_str _ = ''''"

fun json_int :: "json \<Rightarrow> int" where
  "json_int (JNum n) = n"
| "json_int _ = 0"

fun json_list :: "json \<Rightarrow> json list" where
  "json_list (JArr js) = js"
| "json_list _ = []"

fun json_entries :: "json \<Rightarrow> (string \<times> json) list" where
  "json_entries (JObj kvs) = kvs"
| "json_entries _ = []"

definition json_strs :: "json \<Rightarrow> string list" where
  "json_strs j = map json_str (json_list j)"

definition json_strmap :: "json \<Rightarrow> (string \<times> string) list" where
  "json_strmap j = map (\<lambda>(k, v). (k, json_str v)) (json_entries j)"

text \<open>A map whose absence matters: \<open>None\<close> is the nil map.\<close>

definition json_strmap_ptr :: "json \<Rightarrow> (string \<times> string) list option" where
  "json_strmap_ptr j = (if j = JNull then None else Some (json_strmap j))"

section \<open>Workflow steps\<close>

record WorkflowSubStep =
  sub_Name :: string
  sub_WorkflowType :: JobType
  sub_Properties :: "string list list"

record WorkflowStep =
  step_Name :: string
  step_Level :: int
  step_WorkflowType :: JobType
  step_Mode :: WorkflowMode
  step_Properties :: "string list list"
  step_SubSteps :: "WorkflowSubStep option list"

text \<open>A \<open>Policies\<close> value is its list of names; a \<open>null\<close> element of a list of pointers is \<open>None\<close>.\<close>

definition decode_policies :: "json \<Rightarrow> string list list" where
  "decode_policies j = map (\<lambda>p. json_strs (json_get ''policies'' p)) (json_list j)"

definition decode_substep :: "json \<Rightarrow> WorkflowSubStep option" where
  "decode_substep j =
    (if j = JNull then None
     else Some \<lparr>sub_Name = json_str (json_get ''name'' j),
       sub_WorkflowType = JobType_of (json_str (json_get ''workflow_type'' j)),
       sub_Properties = decode_policies (json_get ''properties'' j)\<rparr>)"

definition decode_step :: "json \<Rightarrow> WorkflowStep option" where
  "decode_step j =
    (if j = JNull then None
     else Some \<lparr>step_Name = json_str (json_get ''name'' j),
       step_Level = json_int (json_get ''level'' j),
       step_WorkflowType = JobType_of (json_str (json_get ''workflow_type'' j)),
       step_Mode = WorkflowMode_of (json_str (json_get ''mode'' j)),
       step_Properties = decode_policies (json_get ''properties'' j),
       step_SubSteps = map decode_substep (json_list (json_get ''sub_steps'' j))\<rparr>)"

definition decode_steps :: "json \<Rightarrow> WorkflowStep option list option" where
  "decode_steps j =
    (if conforms j steps_schema
     then Some (map decode_step (json_list (json_get ''steps'' j))) else None)"

text \<open>The stored form of a workflow, as \<open>NewJSONStructByStruct\<close> writes it (\<open>omitempty\<close> fields dropped).\<close>

definition omit_str :: "string \<Rightarrow> string \<Rightarrow> (string \<times> json) list" where
  "omit_str k s = (if s = '''' then [] else [(k, JStr s)])"

definition encode_policies :: "string list list \<Rightarrow> json" where
  "encode_policies ps = JArr (map (\<lambda>p. JObj [(''policies'', JArr (map JStr p))]) ps)"

definition encode_substep :: "WorkflowSubStep \<Rightarrow> json" where
  "encode_substep s = JObj
    ([(''name'', JStr (sub_Name s))]
     @ (if sub_Properties s = [] then [] else [(''properties'', encode_policies (sub_Properties s))])
     @ omit_str ''workflow_type'' (JobType_string (sub_WorkflowType s)))"

definition encode_step :: "WorkflowStep \<Rightarrow> json" where
  "encode_step s = JObj
    ((if step_Level s = 0 then [] else [(''level'', JNum (step_Level s))])
     @ omit_str ''mode'' (WorkflowMode_string (step_Mode s))
     @ [(''name'', JStr (step_Name s))]
     @ (if step_Properties s = [] then [] else [(''properties'', encode_policies (step_Properties s))])
     @ (if step_SubSteps s = [] then []
        else [(''sub_steps'', JArr (map (\<lambda>o1. case o1 of None \<Rightarrow> JNull | Some x \<Rightarrow> encode_substep x)
                (step_SubSteps s)))])
     @ omit_str ''workflow_type'' (JobType_string (step_WorkflowType s)))"

definition encode_steps :: "WorkflowStep list \<Rightarrow> json" where
  "encode_steps ss = JObj [(''steps'', JArr (map encode_step ss))]"

text \<open>Values the encoding can represent: canonical enumeration values and a 64-bit level.\<close>

definition canonical_JobType :: "JobType \<Rightarrow> bool" where
  "canonical_JobType t \<longleftrightarrow> JobType_of (JobType_string t) = t"

definition canonical_Mode :: "WorkflowMode \<Rightarrow> bool" where
  "canonical_Mode m \<longleftrightarrow> WorkflowMode_of (WorkflowMode_string m) = m"

definition wf_step :: "WorkflowStep \<Rightarrow> bool" where
  "wf_step s \<longleftrightarrow>
    canonical_JobType (step_WorkflowType s) \<and> canonical_Mode (step_Mode s) \<and>
    - (2 ^ 63) \<le> step_Level s \<and> step_Level s < 2 ^ 63 \<and>
    (\<forall>x. Some x \<in> set (step_SubSteps s) \<longrightarrow> canonical_JobType (sub_WorkflowType x))"

section \<open>Component names\<close>

definition extractPolicyNames :: "string list list \<Rightarrow> string list" where
  "extractPolicyNames policies = concat policies"

definition WorkflowStep_ComponentNames :: "WorkflowStep option \<Rightarrow> string list" where
  "WorkflowStep_ComponentNames w =
    (case w of None \<Rightarrow> []
     | Some s \<Rightarrow> (let names = extractPolicyNames (step_Properties s) in
         if names = [] \<and> step_Name s \<noteq> '''' then [step_Name s] else names))"

definition WorkflowSubStep_ComponentNames :: "WorkflowSubStep option \<Rightarrow> string list" where
  "WorkflowSubStep_ComponentNames w =
    (case w of None \<Rightarrow> []
     | Some s \<Rightarrow> (let names = extractPolicyNames (sub_Properties s) in
         if names = [] \<and> sub_Name s \<noteq> '''' then [sub_Name s] else names))"

section \<open>Component properties and the share trait\<close>

record Properties =
  pr_Image :: string
  pr_Ports :: "int list"
  pr_Env :: "(string \<times> string) list"
  pr_Conf :: "(string \<times> string) list option"
  pr_Secret :: "(string \<times> string) list option"
  pr_Command :: "string list"
  pr_Labels :: "(string \<times> string) list"

definition Properties_zero :: Properties where
  "Properties_zero = \<lparr>pr_Image = '''', pr_Ports = [], pr_Env = [], pr_Conf = None, pr_Secret = None,
     pr_Command = [], pr_Labels = []\<rparr>"

text \<open>A nil \<open>*JSONStruct\<close> is marshalled as \<open>null\<close>.\<close>

definition json_of_ptr :: "json option \<Rightarrow> json" where
  "json_of_ptr p = (case p of None \<Rightarrow> JNull | Some j \<Rightarrow> j)"

definition decode_properties :: "json \<Rightarrow> Properties" where
  "decode_properties j =
    \<lparr>pr_Image = json_str (json_get ''image'' j),
     pr_Ports = map (\<lambda>p. json_int (json_get ''port'' p)) (json_list (json_get ''ports'' j)),
     pr_Env = json_strmap (json_get ''env'' j),
     pr_Conf = json_strmap_ptr (json_get ''conf'' j),
     pr_Secret = json_strmap_ptr (json_get ''secret'' j),
     pr_Command = json_strs (json_get ''command'' j),
     pr_Labels = json_strmap (json_get ''labels'' j)\<rparr>"

definition ParseProperties :: "json option \<Rightarrow> Properties" where
  "ParseProperties properties =
    (let j = json_of_ptr properties in
     if conforms j properties_schema then decode_properties j else Properties_zero)"

text \<open>\<open>traits.Share\<close> after decoding: \<open>None\<close> when the pointer is nil.\<close>

definition decode_share :: "json \<Rightarrow> string option" where
  "decode_share j =
    (let s = json_get ''share'' j in if s = JNull then None else Some (json_str (json_get ''strategy'' s)))"

section \<open>Round trip of the stored steps\<close>

lemmas json_lower = ToLower_def char_lower_def is_upper_def char_code_def

lemma step_key_lower [simp]:
  "ToLower ''steps'' = ''steps''" "ToLower ''name'' = ''name''" "ToLower ''level'' = ''level''"
  "ToLower ''workflow_type'' = ''workflow_type''" "ToLower ''mode'' = ''mode''"
  "ToLower ''properties'' = ''properties''" "ToLower ''sub_steps'' = ''sub_steps''"
  "ToLower ''policies'' = ''policies''"
  by (simp_all add: json_lower)

lemma json_list_JArr_map [simp]: "json_strs (JArr (map JStr p)) = p"
  by (simp add: json_strs_def comp_def)

lemma decode_encode_policies: "decode_policies (encode_policies ps) = ps"
  by (simp add: decode_policies_def encode_policies_def json_get_def comp_def)

lemma decode_policies_JNull [simp]: "decode_policies JNull = []"
  by (simp add: decode_policies_def)

lemma canonical_empty:
  "canonical_JobType t \<Longrightarrow> JobType_string t = [] \<Longrightarrow> JobType_of [] = t"
  "canonical_Mode m \<Longrightarrow> WorkflowMode_string m = [] \<Longrightarrow> WorkflowMode_of [] = m"
  by (metis canonical_JobType_def) (metis canonical_Mode_def)

lemma decode_encode_substep:
  "canonical_JobType (sub_WorkflowType s) \<Longrightarrow> decode_substep (encode_substep s) = Some s"
  by (cases s)
    (simp add: encode_substep_def decode_substep_def json_get_def omit_str_def
      decode_encode_policies canonical_JobType_def canonical_empty)

lemma decode_encode_substeps:
  "(\<forall>x. Some x \<in> set xs \<longrightarrow> canonical_JobType (sub_WorkflowType x)) \<Longrightarrow>
   map (decode_substep \<circ> (\<lambda>o1. case o1 of None \<Rightarrow> JNull | Some x \<Rightarrow> encode_substep x)) xs = xs"
  by (rule map_idI) (auto simp: decode_substep_def [of JNull] decode_encode_substep split: option.splits)

lemma decode_encode_step:
  assumes "wf_step s"
  shows "decode_step (encode_step s) = Some s"
proof -
  from assms have "JobType_string (step_WorkflowType s) = '''' \<longrightarrow> JobType_of '''' = step_WorkflowType s"
    and "WorkflowMode_string (step_Mode s) = '''' \<longrightarrow> WorkflowMode_of '''' = step_Mode s"
    by (simp_all add: wf_step_def canonical_empty)
  with assms decode_encode_substeps [of "step_SubSteps s"] show ?thesis
    by (cases s)
      (simp add: encode_step_def decode_step_def json_get_def omit_str_def wf_step_def
        decode_encode_policies canonical_JobType_def canonical_Mode_def)
qed

text \<open>What the encoder writes is accepted by the decoder.\<close>

lemma conforms_encode_policies [simp]: "conforms (encode_policies ps) policies_schema"
  by (auto simp: encode_policies_def policies_schema_def resolve_def field_of_def)

lemma conforms_encode_substep:
  "conforms (encode_substep s) (SStruct
     [(''name'', SStr), (''workflow_type'', SStr), (''properties'', policies_schema)])"
  by (auto simp: encode_substep_def resolve_def field_of_def omit_str_def)

lemma conforms_encode_steps:
  "\<forall>s\<in>set ss. wf_step s \<Longrightarrow> conforms (encode_steps ss) steps_schema"
  using conforms_encode_substep
  by (auto simp: encode_steps_def steps_schema_def encode_step_def resolve_def field_of_def
      omit_str_def wf_step_def split: option.splits)

lemma decode_encode_steps:
  assumes "\<forall>s\<in>set ss. wf_step s"
  shows "decode_steps (encode_steps ss) = Some (map Some ss)"
  using assms conforms_encode_steps [OF assms]
  by (auto simp: decode_steps_def encode_steps_def json_get_def decode_encode_step)

text \<open>A decoded mode or type always has its canonical form.\<close>

lemma canonical_JobType_of [simp]: "canonical_JobType (JobType_of s)"
  by (simp add: canonical_JobType_def JobType_string_of)

lemma canonical_Mode_of [simp]: "canonical_Mode (WorkflowMode_of s)"
  by (simp add: canonical_Mode_def WorkflowMode_string_of)

end
