(* ===== verification/Kube_Naming.thy ===== *)
theory Kube_Naming
  imports Kube_Config
begin

text \<open>
  Resource names: \<open>utils/strings.go\<close> (\<open>NormalizeLowerStrip\<close>), \<open>utils/random.go\<close>
  (\<open>ToRFC1123Name\<close>) and \<open>workflow/naming/naming.go\<close>. The lemmas show that every name the
  program derives is a DNS-1123 label of at most 63 bytes, whatever the inputs are.
\<close>

section \<open>Definitions\<close>

definition rfc1123_char :: "char \<Rightarrow> bool" where
  "rfc1123_char c \<longleftrightarrow> is_lower c \<or> is_digit c \<or> c = CHR ''-''"

definition alnum_char :: "char \<Rightarrow> bool" where
  "alnum_char c \<longleftrightarrow> is_lower c \<or> is_digit c"

text \<open>The four substrings that \<open>trimLowerReplacer\<close> deletes are single characters.\<close>

definition stripped_char :: "char \<Rightarrow> bool" where
  "stripped_char c \<longleftrightarrow> char_code c \<in> {32, 10, 13, 9}"

definition NormalizeLowerStrip :: "string \<Rightarrow> string" where
  "NormalizeLowerStrip val =
    (if val = '''' then '''' else filter (\<lambda>c. \<not> stripped_char c) (ToLower val))"

text \<open>\<open>rfc1123Pattern.ReplaceAllString(s, "-")\<close>: each maximal run of other bytes becomes one hyphen.\<close>

fun rfc1123_replace :: "string \<Rightarrow> string" where
  "rfc1123_replace [] = []"
| "rfc1123_replace (c # s) =
     (if rfc1123_char c then c # rfc1123_replace s
      else CHR ''-'' # rfc1123_replace (dropWhile (\<lambda>d. \<not> rfc1123_char d) s))"

text \<open>The loop \<open>for strings.Contains(s, "--")\<close>; every pass shortens the string.\<close>

function collapse_hyphens :: "string \<Rightarrow> string" where
  "collapse_hyphens s =
    (if Contains s ''--'' then collapse_hyphens (ReplaceAll s ''--'' ''-'') else s)"
  by pat_completeness auto
termination
  by (relation "measure length") (auto intro: length_ReplaceAll_less)

declare collapse_hyphens.simps [simp del]

definition is_hyphen :: "char \<Rightarrow> bool" where
  "is_hyphen c \<longleftrightarrow> c = CHR ''-''"

definition ToRFC1123Name :: "string \<Rightarrow> string" where
  "ToRFC1123Name s =
    (let s1 = ToLower s;
         s2 = rfc1123_replace s1;
         s3 = collapse_hyphens s2;
         s4 = trim_by is_hyphen s3
     in if length s4 = 0 then ''port'' else s4)"

definition maxResourceNameLength :: nat where "maxResourceNameLength = 63"

definition normalizeSegment :: "string \<Rightarrow> string \<Rightarrow> string" where
  "normalizeSegment value fallback =
    (let normalized = NormalizeLowerStrip value
     in if normalized = '''' then fallback else normalized)"

definition buildResourceName :: "string \<Rightarrow> string \<Rightarrow> string \<Rightarrow> string" where
  "buildResourceName prefx componentName appID =
    (let component = normalizeSegment componentName ''component'';
         app = normalizeSegment appID ''app'';
         parts = (if prefx \<noteq> '''' then [prefx] else []) @
                 (if component \<noteq> '''' then [component] else []) @
                 (if app \<noteq> '''' then [app] else []);
         result = ToRFC1123Name (Join parts ''-'');
         result2 = (if length result > maxResourceNameLength
                    then trim_by is_hyphen (take maxResourceNameLength result) else result)
     in if result2 = ''''
        then (if prefx = '''' then ''component'' else prefx)
        else result2)"

definition WebServiceName :: "string \<Rightarrow> string \<Rightarrow> string" where
  "WebServiceName name appID = buildResourceName ''deploy'' name appID"

definition ServiceName :: "string \<Rightarrow> string \<Rightarrow> string" where
  "ServiceName name appID = buildResourceName ''svc'' name appID"

definition StoreServerName :: "string \<Rightarrow> string \<Rightarrow> string" where
  "StoreServerName name appID = buildResourceName ''store'' name appID"

definition IngressName :: "string \<Rightarrow> string \<Rightarrow> string" where
  "IngressName name appID = buildResourceName ''ing'' name appID"

definition PVCName :: "string \<Rightarrow> string \<Rightarrow> string" where
  "PVCName traitName appID =
    (let name = (let n = NormalizeLowerStrip traitName in if n = '''' then ''data'' else n);
         suffix = NormalizeLowerStrip appID
     in if suffix = '''' then ''pvc-'' @ name else ''pvc-'' @ name @ ''-'' @ suffix)"

text \<open>
  The DNS-1123 label form, as the expression \<open>^[a-z0-9]([-a-z0-9]*[a-z0-9])?$\<close> of
  \<open>domain/service/validation.go\<close> accepts it.
\<close>

definition is_dns1123_label :: "string \<Rightarrow> bool" where
  "is_dns1123_label s \<longleftrightarrow>
    s \<noteq> [] \<and> list_all rfc1123_char s \<and> alnum_char (hd s) \<and> alnum_char (last s)"

text \<open>What \<open>ToRFC1123Name\<close> delivers: a label with no two adjacent hyphens.\<close>

definition clean_name :: "string \<Rightarrow> bool" where
  "clean_name s \<longleftrightarrow>
    s \<noteq> [] \<and> list_all rfc1123_char s \<and> hd s \<noteq> CHR ''-'' \<and> last s \<noteq> CHR ''-'' \<and>
    \<not> Contains s ''--''"

section \<open>Characters\<close>

lemma rfc1123_not_upper: "rfc1123_char c \<Longrightarrow> \<not> is_upper c"
  by (auto simp: rfc1123_char_def is_upper_def is_lower_def is_digit_def char_code_def)

lemma char_lower_rfc1123 [simp]: "rfc1123_char c \<Longrightarrow> char_lower c = c"
  by (simp add: char_lower_def rfc1123_not_upper)

lemma ToLower_rfc1123: "list_all rfc1123_char s \<Longrightarrow> ToLower s = s"
  by (induction s) (auto simp: ToLower_def)

lemma rfc1123_hyphen [simp]: "rfc1123_char CHR ''-''"
  by (simp add: rfc1123_char_def)

lemma alnum_iff: "alnum_char c \<longleftrightarrow> rfc1123_char c \<and> c \<noteq> CHR ''-''"
  by (auto simp: alnum_char_def rfc1123_char_def is_lower_def is_digit_def char_code_def)

lemma clean_name_label: "clean_name s \<Longrightarrow> is_dns1123_label s"
  by (auto simp: clean_name_def is_dns1123_label_def alnum_iff list_all_iff)

section \<open>ToRFC1123Name\<close>

lemma list_all_rfc1123_replace: "list_all rfc1123_char (rfc1123_replace s)"
  by (induction s rule: rfc1123_replace.induct) auto

lemma rfc1123_replace_id: "list_all rfc1123_char s \<Longrightarrow> rfc1123_replace s = s"
  by (induction s) auto

lemma collapse_hyphens_no_double: "\<not> Contains (collapse_hyphens s) ''--''"
proof (induction s rule: collapse_hyphens.induct)
  case (1 s)
  then show ?case by (cases "Contains s ''--''") (simp_all add: collapse_hyphens.simps [of s])
qed

lemma set_collapse_hyphens: "set (collapse_hyphens s) \<subseteq> set s \<union> {CHR ''-''}"
proof (induction s rule: collapse_hyphens.induct)
  case (1 s)
  then show ?case
    using set_ReplaceAll [of s "''--''" "''-''"]
    by (cases "Contains s ''--''") (auto simp add: collapse_hyphens.simps [of s])
qed

lemma collapse_hyphens_id: "\<not> Contains s ''--'' \<Longrightarrow> collapse_hyphens s = s"
  by (simp add: collapse_hyphens.simps [of s])

lemma clean_name_port: "clean_name ''port''"
  by (simp add: clean_name_def rfc1123_char_def is_lower_def char_code_def HasPrefix_def)

lemma ToRFC1123Name_clean: "clean_name (ToRFC1123Name s)"
proof -
  let ?s3 = "collapse_hyphens (rfc1123_replace (ToLower s))"
  let ?s4 = "trim_by is_hyphen ?s3"
  have all3: "list_all rfc1123_char ?s3"
    using set_collapse_hyphens [of "rfc1123_replace (ToLower s)"] list_all_rfc1123_replace
    by (fastforce simp: list_all_iff)
  have all4: "list_all rfc1123_char ?s4"
    using all3 set_trim_by [of is_hyphen ?s3] by (auto simp: list_all_iff)
  have no4: "\<not> Contains ?s4 ''--''"
    using collapse_hyphens_no_double Contains_mono [OF sublist_trim_by] by blast
  show ?thesis
  proof (cases "?s4 = []")
    case True
    then show ?thesis by (simp add: ToRFC1123Name_def clean_name_port)
  next
    case False
    then show ?thesis
      using all4 no4 hd_trim_by [OF False] last_trim_by [OF False]
      by (simp add: ToRFC1123Name_def clean_name_def is_hyphen_def)
  qed
qed

lemma ToRFC1123Name_id: "clean_name s \<Longrightarrow> ToRFC1123Name s = s"
  by (simp add: ToRFC1123Name_def clean_name_def ToLower_rfc1123 rfc1123_replace_id
      collapse_hyphens_id trim_by_id is_hyphen_def)

section \<open>Resource names\<close>

lemma clean_name_truncate:
  assumes "clean_name s" and "0 < n"
  shows "clean_name (trim_by is_hyphen (take n s))"
proof -
  let ?t = "trim_by is_hyphen (take n s)"
  have ne: "take n s \<noteq> []" and hd: "\<not> is_hyphen (hd (take n s))"
    using assms by (auto simp: clean_name_def is_hyphen_def)
  have t: "?t \<noteq> []" using trim_by_nonempty [of "take n s" is_hyphen] ne hd by simp
  have sub: "sublist ?t s"
    by (meson sublist_trim_by prefix_imp_sublist sublist_order.order_trans take_is_prefix)
  have "list_all rfc1123_char ?t"
    using assms(1) set_mono_sublist [OF sub] by (auto simp: clean_name_def list_all_iff)
  moreover have "\<not> Contains ?t ''--''"
    using assms(1) Contains_mono [OF sub] by (auto simp: clean_name_def)
  ultimately show ?thesis
    using t hd_trim_by [OF t] last_trim_by [OF t] by (simp add: clean_name_def is_hyphen_def)
qed

text \<open>Cutting a clean name at 63 bytes and trimming, as \<open>naming.go\<close> and \<open>job_builder.go\<close> both do.\<close>

definition cut63 :: "string \<Rightarrow> string" where
  "cut63 s = (if length s > 63 then trim_by is_hyphen (take 63 s) else s)"

lemma clean_name_cut63: "clean_name s \<Longrightarrow> clean_name (cut63 s)"
  by (simp add: cut63_def clean_name_truncate)

lemma length_cut63: "length (cut63 s) \<le> 63"
  using length_trim_by [of is_hyphen "take 63 s"] by (simp add: cut63_def)

lemma buildResourceName_cut63:
  "\<exists>parts. buildResourceName prefx name app = cut63 (ToRFC1123Name (Join parts ''-''))"
proof -
  define parts where "parts = (if prefx \<noteq> '''' then [prefx] else []) @
     (if normalizeSegment name ''component'' \<noteq> '''' then [normalizeSegment name ''component''] else []) @
     (if normalizeSegment app ''app'' \<noteq> '''' then [normalizeSegment app ''app''] else [])"
  have "clean_name (cut63 (ToRFC1123Name (Join parts ''-'')))"
    by (intro clean_name_cut63 ToRFC1123Name_clean)
  then have "cut63 (ToRFC1123Name (Join parts ''-'')) \<noteq> ''''"
    by (simp add: clean_name_def)
  then have "buildResourceName prefx name app = cut63 (ToRFC1123Name (Join parts ''-''))"
    unfolding buildResourceName_def Let_def parts_def cut63_def maxResourceNameLength_def
    by simp
  then show ?thesis by blast
qed

lemma buildResourceName_clean: "clean_name (buildResourceName prefx name app)"
  using buildResourceName_cut63 [of prefx name app] clean_name_cut63 ToRFC1123Name_clean
  by metis

lemma buildResourceName_length: "length (buildResourceName prefx name app) \<le> 63"
  using buildResourceName_cut63 [of prefx name app] length_cut63 by metis

end
