(* ===== verification/Kube_Store.thy ===== *)
theory Kube_Store
  imports Kube_Config "HOL-Library.List_Lexorder"
begin

text \<open>
  The datastore: the error values and query options of \<open>infrastructure/datastore/datastore.go\<close>,
  the SQL driver of \<open>infrastructure/datastore/sql/driver.go\<close> and the column naming of
  \<open>infrastructure/datastore/sqlnamer/sqlnamer.go\<close>.

  The driver calls the GORM library, which is not part of the repository: it is the parameter
  \<open>gorm_client\<close>, one record field per library call the driver makes, over an abstract database
  state. What the driver relies on is the locale \<open>gorm_backend\<close>; what it promises its
  own callers is the locale \<open>table_store\<close>, and a \<open>sublocale\<close> shows that the driver's definitions
  keep that promise over every conforming library.
\<close>

section \<open>Values, queries, errors\<close>

datatype sqlval = SqlStr string | SqlTime int

datatype sql_expr = ExprEq string sqlval | ExprLike string string | ExprIN string "string list"

record sql_query =
  q_where :: "sql_expr list"
  q_limit :: "(int \<times> int) option"
  q_order :: "(string \<times> bool) list"

datatype gorm_error = ErrDuplicatedKey | ErrRecordNotFound | GormOther string

datatype DBError =
    ErrPrimaryEmpty | ErrTableNameEmpty | ErrNilEntity | ErrRecordExist | ErrRecordNotExist
  | ErrIndexInvalid | ErrEntityInvalid
  | DBErrorGorm gorm_error
  | DBErrorBatch DBError
  | ErrNoCondition

record FilterOptions =
  fo_Queries :: "(string \<times> string) list"
  fo_In :: "(string \<times> string list) list"
  fo_IsNotExist :: "string list"

record ListOptions =
  lo_Filter :: FilterOptions
  lo_Page :: int
  lo_PageSize :: int
  lo_SortBy :: "(string \<times> int) list"

definition SortOrderAscending :: int where "SortOrderAscending = 1"

definition SortOrderDescending :: int where "SortOrderDescending = -1"

definition noFilter :: FilterOptions where
  "noFilter = \<lparr>fo_Queries = [], fo_In = [], fo_IsNotExist = []\<rparr>"

definition noListOptions :: ListOptions where
  "noListOptions = \<lparr>lo_Filter = noFilter, lo_Page = 0, lo_PageSize = 0, lo_SortBy = []\<rparr>"

section \<open>Entities and the GORM client\<close>

text \<open>The methods of the Go interface \<open>Entity\<close>, for an entity type \<open>'e\<close>.\<close>

record 'e Entity =
  PrimaryKey :: "'e \<Rightarrow> string"
  TableName :: "'e \<Rightarrow> string"
  Index :: "'e \<Rightarrow> (string \<times> string) list"
  SetCreateTime :: "int \<Rightarrow> 'e \<Rightarrow> 'e"
  SetUpdateTime :: "int \<Rightarrow> 'e \<Rightarrow> 'e"

text \<open>
  The library calls of the driver on one entity type. Every call gets the database state; a
  call that may write returns the new state. \<open>g_Rows\<close> returns the scanned rows (each scan may
  fail) and the error that ended the iteration, if any; counts are \<open>RowsAffected\<close>.
\<close>

record ('db, 'e) gorm_client =
  g_Create :: "'db \<Rightarrow> 'e \<Rightarrow> gorm_error option \<times> 'db"
  g_First :: "'db \<Rightarrow> 'e \<Rightarrow> gorm_error + 'e"
  g_Updates :: "'db \<Rightarrow> 'e \<Rightarrow> gorm_error option \<times> 'db"
  g_Delete :: "'db \<Rightarrow> 'e \<Rightarrow> gorm_error option \<times> 'db"
  g_DeleteWhere :: "'db \<Rightarrow> sql_expr list \<Rightarrow> gorm_error option \<times> 'db"
  g_FindLimit1 :: "'db \<Rightarrow> (string \<times> string) list \<Rightarrow> gorm_error + nat"
  g_Rows :: "'db \<Rightarrow> sql_query \<Rightarrow> gorm_error + (gorm_error + 'e) list \<times> gorm_error option"
  g_Count :: "'db \<Rightarrow> sql_expr list \<Rightarrow> gorm_error + int"
  g_UpdatesWhere ::
    "'db \<Rightarrow> 'e \<Rightarrow> string \<times> sqlval \<Rightarrow> (string \<times> sqlval) list \<Rightarrow> (gorm_error + nat) \<times> 'db"

section \<open>The SQL driver\<close>

text \<open>\<open>now\<close> is the value of \<open>time.Now()\<close> during the call.\<close>

definition Driver_Add ::
  "'e Entity \<Rightarrow> ('db, 'e) gorm_client \<Rightarrow> int \<Rightarrow> 'db \<Rightarrow> 'e \<Rightarrow> DBError option \<times> 'db" where
  "Driver_Add E cl now db entity =
    (if PrimaryKey E entity = '''' then (Some ErrPrimaryEmpty, db)
     else if TableName E entity = '''' then (Some ErrTableNameEmpty, db)
     else
       let entity' = SetUpdateTime E now (SetCreateTime E now entity) in
       case g_Create cl db entity' of
         (Some ErrDuplicatedKey, db') \<Rightarrow> (Some ErrRecordExist, db')
       | (Some e, db') \<Rightarrow> (Some (DBErrorGorm e), db')
       | (None, db') \<Rightarrow> (None, db'))"

definition Driver_Get ::
  "'e Entity \<Rightarrow> ('db, 'e) gorm_client \<Rightarrow> 'db \<Rightarrow> 'e \<Rightarrow> DBError + 'e" where
  "Driver_Get E cl db entity =
    (if PrimaryKey E entity = '''' then Inl ErrPrimaryEmpty
     else if TableName E entity = '''' then Inl ErrTableNameEmpty
     else case g_First cl db entity of
         Inl ErrRecordNotFound \<Rightarrow> Inl ErrRecordNotExist
       | Inl e \<Rightarrow> Inl (DBErrorGorm e)
       | Inr row \<Rightarrow> Inr row)"

definition Driver_Put ::
  "'e Entity \<Rightarrow> ('db, 'e) gorm_client \<Rightarrow> int \<Rightarrow> 'db \<Rightarrow> 'e \<Rightarrow> DBError option \<times> 'db" where
  "Driver_Put E cl now db entity =
    (if PrimaryKey E entity = '''' then (Some ErrPrimaryEmpty, db)
     else if TableName E entity = '''' then (Some ErrTableNameEmpty, db)
     else case g_Updates cl db (SetUpdateTime E now entity) of
         (Some ErrRecordNotFound, db') \<Rightarrow> (Some ErrRecordNotExist, db')
       | (Some e, db') \<Rightarrow> (Some (DBErrorGorm e), db')
       | (None, db') \<Rightarrow> (None, db'))"

definition Driver_Delete ::
  "'e Entity \<Rightarrow> ('db, 'e) gorm_client \<Rightarrow> 'db \<Rightarrow> 'e \<Rightarrow> DBError option \<times> 'db" where
  "Driver_Delete E cl db entity =
    (if PrimaryKey E entity = '''' then (Some ErrPrimaryEmpty, db)
     else if TableName E entity = '''' then (Some ErrTableNameEmpty, db)
     else case Driver_Get E cl db entity of
         Inl e \<Rightarrow> (Some e, db)
       | Inr loaded \<Rightarrow>
           (case g_Delete cl db loaded of
              (Some e, db') \<Rightarrow> (Some (DBErrorGorm e), db')
            | (None, db') \<Rightarrow> (None, db')))"

text \<open>The rollback loop of \<open>BatchAdd\<close>: errors of the deletions are only logged.\<close>

fun batch_rollback ::
  "'e Entity \<Rightarrow> ('db, 'e) gorm_client \<Rightarrow> string list \<Rightarrow> 'e list \<Rightarrow> 'db \<Rightarrow> 'db" where
  "batch_rollback E cl notRollback [] db = db"
| "batch_rollback E cl notRollback (d # ds) db =
     batch_rollback E cl notRollback ds
       (if PrimaryKey E d \<in> set notRollback then db else snd (Driver_Delete E cl db d))"

text \<open>The loop over the entities; \<open>added\<close> is \<open>entities[:i]\<close>. A failing entity ends the loop.\<close>

fun batch_add_loop ::
  "'e Entity \<Rightarrow> ('db, 'e) gorm_client \<Rightarrow> int \<Rightarrow> 'e list \<Rightarrow> 'e list \<Rightarrow> 'db \<Rightarrow>
   DBError option \<times> 'db" where
  "batch_add_loop E cl now added [] db = (None, db)"
| "batch_add_loop E cl now added (e # es) db =
     (case Driver_Add E cl now db e of
        (None, db') \<Rightarrow> batch_add_loop E cl now (added @ [e]) es db'
      | (Some err, db') \<Rightarrow>
          (let notRollback = (if err = ErrRecordExist then [PrimaryKey E e] else [])
           in (Some (DBErrorBatch err), batch_rollback E cl notRollback added db')))"

definition Driver_BatchAdd ::
  "'e Entity \<Rightarrow> ('db, 'e) gorm_client \<Rightarrow> int \<Rightarrow> 'db \<Rightarrow> 'e list \<Rightarrow> DBError option \<times> 'db" where
  "Driver_BatchAdd E cl now db entities = batch_add_loop E cl now [] entities db"

definition Driver_IsExist ::
  "'e Entity \<Rightarrow> ('db, 'e) gorm_client \<Rightarrow> 'db \<Rightarrow> 'e option \<Rightarrow> DBError + bool" where
  "Driver_IsExist E cl db entity =
    (case entity of None \<Rightarrow> Inl ErrNilEntity
     | Some e \<Rightarrow>
        (if TableName E e = '''' then Inl ErrTableNameEmpty
         else if Index E e = [] then Inl ErrNoCondition
         else case g_FindLimit1 cl db (Index E e) of
             Inl ErrRecordNotFound \<Rightarrow> Inr False
           | Inl er \<Rightarrow> Inl (DBErrorGorm er)
           | Inr n \<Rightarrow> Inr (n \<noteq> 0)))"

definition toColumnName :: "string \<Rightarrow> string" where
  "toColumnName columnName = ToLower columnName"

definition applyFilterOptions :: "sql_expr list \<Rightarrow> FilterOptions \<Rightarrow> sql_expr list" where
  "applyFilterOptions clauses fo =
    clauses
    @ map (\<lambda>(k, q). ExprLike (toColumnName k) (''%'' @ q @ ''%'')) (fo_Queries fo)
    @ map (\<lambda>(k, vs). ExprIN (toColumnName k) vs) (fo_In fo)
    @ map (\<lambda>k. ExprEq (toColumnName k) (SqlStr '''')) (fo_IsNotExist fo)"

definition index_exprs :: "'e Entity \<Rightarrow> 'e \<Rightarrow> sql_expr list" where
  "index_exprs E entity = map (\<lambda>(k, v). ExprEq (ToLower k) (SqlStr v)) (Index E entity)"

definition Driver_DeleteByFilter ::
  "'e Entity \<Rightarrow> ('db, 'e) gorm_client \<Rightarrow> 'db \<Rightarrow> 'e option \<Rightarrow> FilterOptions option \<Rightarrow>
   DBError option \<times> 'db" where
  "Driver_DeleteByFilter E cl db entity options =
    (case entity of None \<Rightarrow> (Some ErrNilEntity, db)
     | Some e \<Rightarrow>
        (if TableName E e = '''' then (Some ErrTableNameEmpty, db)
         else
           let exprs = (case options of None \<Rightarrow> index_exprs E e
                        | Some fo \<Rightarrow> applyFilterOptions (index_exprs E e) fo) in
           if exprs = [] then (Some ErrNoCondition, db)
           else case g_DeleteWhere cl db exprs of
               (Some er, db') \<Rightarrow> (Some (DBErrorGorm er), db')
             | (None, db') \<Rightarrow> (None, db')))"

definition list_query :: "'e Entity \<Rightarrow> 'e \<Rightarrow> ListOptions option \<Rightarrow> sql_query" where
  "list_query E entity op =
    (case op of
       None \<Rightarrow> \<lparr>q_where = index_exprs E entity, q_limit = None, q_order = []\<rparr>
     | Some o1 \<Rightarrow>
        \<lparr>q_where = applyFilterOptions (index_exprs E entity) (lo_Filter o1),
         q_limit = (if lo_PageSize o1 > 0 \<and> lo_Page o1 > 0
                    then Some (lo_PageSize o1, lo_PageSize o1 * (lo_Page o1 - 1)) else None),
         q_order = map (\<lambda>(k, ord). (ToLower k, ord = SortOrderDescending)) (lo_SortBy o1)\<rparr>)"

text \<open>The scan loop over the rows: the first failing scan ends it.\<close>

fun scan_rows :: "(gorm_error + 'e) list \<Rightarrow> 'e list \<Rightarrow> DBError + 'e list" where
  "scan_rows [] acc = Inr acc"
| "scan_rows (Inl e # rs) acc = Inl (DBErrorGorm e)"
| "scan_rows (Inr x # rs) acc = scan_rows rs (acc @ [x])"

definition Driver_List ::
  "'e Entity \<Rightarrow> ('db, 'e) gorm_client \<Rightarrow> 'db \<Rightarrow> 'e option \<Rightarrow> ListOptions option \<Rightarrow>
   DBError + 'e list" where
  "Driver_List E cl db entity op =
    (case entity of None \<Rightarrow> Inl ErrNilEntity
     | Some e \<Rightarrow>
        (if TableName E e = '''' then Inl ErrTableNameEmpty
         else case g_Rows cl db (list_query E e op) of
             Inl er \<Rightarrow> Inl (DBErrorGorm er)
           | Inr (rs, final) \<Rightarrow>
              (case scan_rows rs [] of
                 Inl er \<Rightarrow> Inl er
               | Inr items \<Rightarrow>
                  (case final of Some er \<Rightarrow> Inl (DBErrorGorm er) | None \<Rightarrow> Inr items))))"

definition Driver_Count ::
  "'e Entity \<Rightarrow> ('db, 'e) gorm_client \<Rightarrow> 'db \<Rightarrow> 'e \<Rightarrow> FilterOptions option \<Rightarrow> DBError + int" where
  "Driver_Count E cl db entity options =
    (if TableName E entity = '''' then Inl ErrTableNameEmpty
     else case g_Count cl db (case options of None \<Rightarrow> index_exprs E entity
                     | Some fo \<Rightarrow> applyFilterOptions (index_exprs E entity) fo) of
         Inl er \<Rightarrow> Inl (DBErrorGorm er)
       | Inr n \<Rightarrow> Inr n)"

definition Driver_CompareAndSwap ::
  "'e Entity \<Rightarrow> ('db, 'e) gorm_client \<Rightarrow> int \<Rightarrow> 'db \<Rightarrow> 'e \<Rightarrow> string \<Rightarrow> sqlval \<Rightarrow>
   (string \<times> sqlval) list \<Rightarrow> (DBError + bool) \<times> 'db" where
  "Driver_CompareAndSwap E cl now db entity conditionField conditionValue updates =
    (if PrimaryKey E entity = '''' then (Inl ErrPrimaryEmpty, db)
     else if TableName E entity = '''' then (Inl ErrTableNameEmpty, db)
     else
       let updates' = updates @ [(''updatetime'', SqlTime now)] in
       case g_UpdatesWhere cl db entity (toColumnName conditionField, conditionValue) updates' of
         (Inl er, db') \<Rightarrow> (Inl (DBErrorGorm er), db')
       | (Inr n, db') \<Rightarrow> (Inr (0 < n), db'))"

text \<open>
  The interface \<open>DataStore\<close> as its callers hold it, on one entity type, and the driver as a
  value of it.
\<close>

record ('db, 'e) DataStore =
  ds_Add :: "int \<Rightarrow> 'db \<Rightarrow> 'e \<Rightarrow> DBError option \<times> 'db"
  ds_BatchAdd :: "int \<Rightarrow> 'db \<Rightarrow> 'e list \<Rightarrow> DBError option \<times> 'db"
  ds_Put :: "int \<Rightarrow> 'db \<Rightarrow> 'e \<Rightarrow> DBError option \<times> 'db"
  ds_Delete :: "'db \<Rightarrow> 'e \<Rightarrow> DBError option \<times> 'db"
  ds_Get :: "'db \<Rightarrow> 'e \<Rightarrow> DBError + 'e"
  ds_List :: "'db \<Rightarrow> 'e option \<Rightarrow> ListOptions option \<Rightarrow> DBError + 'e list"
  ds_IsExist :: "'db \<Rightarrow> 'e option \<Rightarrow> DBError + bool"
  ds_CompareAndSwap :: "int \<Rightarrow> 'db \<Rightarrow> 'e \<Rightarrow> string \<Rightarrow> sqlval \<Rightarrow> (string \<times> sqlval) list \<Rightarrow>
    (DBError + bool) \<times> 'db"

definition Driver :: "'e Entity \<Rightarrow> ('db, 'e) gorm_client \<Rightarrow> ('db, 'e) DataStore" where
  "Driver E cl =
    \<lparr>ds_Add = Driver_Add E cl, ds_BatchAdd = Driver_BatchAdd E cl, ds_Put = Driver_Put E cl,
     ds_Delete = Driver_Delete E cl, ds_Get = Driver_Get E cl, ds_List = Driver_List E cl,
     ds_IsExist = Driver_IsExist E cl, ds_CompareAndSwap = Driver_CompareAndSwap E cl\<rparr>"

text \<open>Meaning of the conditions and of the sort order, for a column reader \<open>col\<close>.\<close>

fun val_time :: "sqlval \<Rightarrow> int" where
  "val_time (SqlTime t) = t"
| "val_time (SqlStr s) = 0"

fun expr_simple :: "sql_expr \<Rightarrow> bool" where
  "expr_simple (ExprLike c p) = False"
| "expr_simple e = True"

fun expr_holds :: "('e \<Rightarrow> string \<Rightarrow> sqlval) \<Rightarrow> 'e \<Rightarrow> sql_expr \<Rightarrow> bool" where
  "expr_holds col r (ExprEq c v) = (col r c = v)"
| "expr_holds col r (ExprIN c vs) = (col r c \<in> SqlStr ` set vs)"
| "expr_holds col r (ExprLike c p) = False"

definition order_key ::
  "('e \<Rightarrow> string \<Rightarrow> sqlval) \<Rightarrow> (string \<times> bool) list \<Rightarrow> 'e \<Rightarrow> int list" where
  "order_key col ord r =
    map (\<lambda>(c, desc). if desc then - val_time (col r c) else val_time (col r c)) ord"

section \<open>Column names\<close>

definition UniqueName :: "string \<Rightarrow> string \<Rightarrow> string" where
  "UniqueName table column =
    (let maxLength = 64; uk = ''uk_'';
         availableLength = maxLength - length uk - 1;
         tableMaxLen = availableLength div 2;
         columnMaxLen = availableLength - tableMaxLen;
         long = length table + length column > availableLength;
         table' = (if long \<and> length table > tableMaxLen then take tableMaxLen table else table);
         column' = (if long \<and> length column > columnMaxLen then take columnMaxLen column else column)
     in uk @ table' @ ''_'' @ column')"

definition ColumnName :: "string \<Rightarrow> string \<Rightarrow> string" where
  "ColumnName table column = ToLower column"

section \<open>What the driver relies on and what it promises\<close>

text \<open>
  The contract of a table as the callers of the datastore see it: \<open>rows\<close> is the table's
  content by primary key, \<open>merged old new\<close> the row after a \<open>Put\<close>, \<open>col\<close> the value of a column
  and \<open>set_cols\<close> the effect of a column update. An operation that reports an error has no
  effect on the rows.
\<close>

locale table_store =
  fixes pk :: "'e \<Rightarrow> string"
    and rows :: "'db \<Rightarrow> string \<Rightarrow> 'e option"
    and merged :: "'e \<Rightarrow> 'e \<Rightarrow> 'e"
    and col :: "'e \<Rightarrow> string \<Rightarrow> sqlval"
    and set_cols :: "(string \<times> sqlval) list \<Rightarrow> 'e \<Rightarrow> 'e"
    and stamp :: "int \<Rightarrow> 'e \<Rightarrow> 'e"
    and stamp2 :: "int \<Rightarrow> 'e \<Rightarrow> 'e"
    and add :: "int \<Rightarrow> 'db \<Rightarrow> 'e \<Rightarrow> DBError option \<times> 'db"
    and get :: "'db \<Rightarrow> 'e \<Rightarrow> DBError + 'e"
    and put :: "int \<Rightarrow> 'db \<Rightarrow> 'e \<Rightarrow> DBError option \<times> 'db"
    and del :: "'db \<Rightarrow> 'e \<Rightarrow> DBError option \<times> 'db"
    and cas :: "int \<Rightarrow> 'db \<Rightarrow> 'e \<Rightarrow> string \<Rightarrow> sqlval \<Rightarrow> (string \<times> sqlval) list \<Rightarrow>
                (DBError + bool) \<times> 'db"
  assumes add_ok: "add now db e = (None, db') \<Longrightarrow>
      rows db (pk e) = None \<and> rows db' = (rows db)(pk e \<mapsto> stamp2 now e)"
    and add_err: "add now db e = (Some err, db') \<Longrightarrow> rows db' = rows db"
    and add_exist: "add now db e = (Some ErrRecordExist, db') \<Longrightarrow> rows db (pk e) \<noteq> None"
    and get_ok: "get db e = Inr r \<Longrightarrow> rows db (pk e) = Some r"
    and get_absent: "get db e = Inl ErrRecordNotExist \<Longrightarrow> rows db (pk e) = None"
    and put_ok: "put now db e = (None, db') \<Longrightarrow>
      rows db' = (case rows db (pk e) of None \<Rightarrow> rows db
                  | Some r \<Rightarrow> (rows db)(pk e \<mapsto> merged r (stamp now e)))"
    and put_err: "put now db e = (Some err, db') \<Longrightarrow> rows db' = rows db"
    and del_ok: "del db e = (None, db') \<Longrightarrow>
      rows db (pk e) \<noteq> None \<and> rows db' = (rows db)(pk e := None)"
    and del_err: "del db e = (Some err, db') \<Longrightarrow> rows db' = rows db"
    and cas_ok: "cas now db e f v us = (Inr True, db') \<Longrightarrow>
      \<exists>r. rows db (pk e) = Some r \<and> col r (toColumnName f) = v \<and>
          rows db' = (rows db)(pk e \<mapsto> set_cols (us @ [(''updatetime'', SqlTime now)]) r)"
    and cas_miss: "cas now db e f v us = (Inr False, db') \<Longrightarrow>
      rows db' = rows db \<and> (\<forall>r. rows db (pk e) = Some r \<longrightarrow> col r (toColumnName f) \<noteq> v)"
    and cas_err: "cas now db e f v us = (Inl err, db') \<Longrightarrow> rows db' = rows db"
    and row_pk: "rows db k = Some r \<Longrightarrow> pk r = k"
begin

text \<open>No operation touches a row under another key.\<close>

lemma add_frame: "add now db e = (r, db') \<Longrightarrow> k \<noteq> pk e \<Longrightarrow> rows db' k = rows db k"
  by (cases r) (auto dest: add_ok add_err)

lemma put_frame: "put now db e = (r, db') \<Longrightarrow> k \<noteq> pk e \<Longrightarrow> rows db' k = rows db k"
  by (cases r) (auto dest: put_ok put_err split: option.splits)

lemma cas_frame: "cas now db e f v us = (r, db') \<Longrightarrow> k \<noteq> pk e \<Longrightarrow> rows db' k = rows db k"
proof (cases r)
  case (Inr b)
  assume "cas now db e f v us = (r, db')" and "k \<noteq> pk e"
  with Inr show ?thesis by (cases b) (auto dest: cas_ok cas_miss)
qed (auto dest: cas_err)

text \<open>A \<open>Put\<close> never creates a row.\<close>

lemma put_absent: "put now db e = (r, db') \<Longrightarrow> rows db (pk e) = None \<Longrightarrow> rows db' = rows db"
  by (cases r) (auto dest: put_ok put_err)

text \<open>The swap is exclusive: once it has succeeded, a second swap from the same old value fails.\<close>

lemma cas_exclusive:
  assumes "cas now db e f v us = (Inr True, db')"
    and "\<And>r. col (set_cols (us @ [(''updatetime'', SqlTime now)]) r) (toColumnName f) \<noteq> v"
    and "pk e' = pk e"
  shows "fst (cas now' db' e' f v us') \<noteq> Inr True"
proof
  assume "fst (cas now' db' e' f v us') = Inr True"
  then obtain db'' where "cas now' db' e' f v us' = (Inr True, db'')"
    by (metis prod.collapse)
  from cas_ok [OF this] cas_ok [OF assms(1)] assms(3)
  obtain r where "col (set_cols (us @ [(''updatetime'', SqlTime now)]) r) (toColumnName f) = v"
    by auto
  with assms(2) show False by blast
qed

end

text \<open>
  The documented behaviour of GORM that the driver relies on: a write statement runs in its own
  transaction, so a failing one leaves the rows alone; \<open>First\<close> and \<open>Delete\<close> address the row
  by primary key; \<open>Updates\<close> with a struct writes the non-zero fields of that row (\<open>merged\<close>)
  and reports no error when no row matches; \<open>Where(..).Updates(map)\<close> writes the columns of the
  matching row and reports the number of rows it changed.
\<close>

locale gorm_backend =
  fixes E :: "'e Entity"
    and cl :: "('db, 'e) gorm_client"
    and rows :: "'db \<Rightarrow> string \<Rightarrow> 'e option"
    and merged :: "'e \<Rightarrow> 'e \<Rightarrow> 'e"
    and col :: "'e \<Rightarrow> string \<Rightarrow> sqlval"
    and set_cols :: "(string \<times> sqlval) list \<Rightarrow> 'e \<Rightarrow> 'e"
  assumes Create_ok: "g_Create cl db e = (None, db') \<Longrightarrow>
      rows db (PrimaryKey E e) = None \<and> rows db' = (rows db)(PrimaryKey E e \<mapsto> e)"
    and Create_err: "g_Create cl db e = (Some er, db') \<Longrightarrow> rows db' = rows db"
    and Create_dup: "g_Create cl db e = (Some ErrDuplicatedKey, db') \<Longrightarrow>
      rows db (PrimaryKey E e) \<noteq> None"
    and First_ok: "g_First cl db e = Inr r \<Longrightarrow> rows db (PrimaryKey E e) = Some r"
    and First_absent: "g_First cl db e = Inl ErrRecordNotFound \<Longrightarrow> rows db (PrimaryKey E e) = None"
    and Updates_ok: "g_Updates cl db e = (None, db') \<Longrightarrow>
      rows db' = (case rows db (PrimaryKey E e) of None \<Rightarrow> rows db
                  | Some r \<Rightarrow> (rows db)(PrimaryKey E e \<mapsto> merged r e))"
    and Updates_err: "g_Updates cl db e = (Some er, db') \<Longrightarrow> rows db' = rows db"
    and Delete_ok: "g_Delete cl db e = (None, db') \<Longrightarrow> rows db' = (rows db)(PrimaryKey E e := None)"
    and Delete_err: "g_Delete cl db e = (Some er, db') \<Longrightarrow> rows db' = rows db"
    and UpdatesWhere_ok: "g_UpdatesWhere cl db e (c, v) us = (Inr n, db') \<Longrightarrow>
      (case rows db (PrimaryKey E e) of
         None \<Rightarrow> n = 0 \<and> rows db' = rows db
       | Some r \<Rightarrow> if col r c = v
                   then 0 < n \<and> rows db' = (rows db)(PrimaryKey E e \<mapsto> set_cols us r)
                   else n = 0 \<and> rows db' = rows db)"
    and UpdatesWhere_err: "g_UpdatesWhere cl db e cv us = (Inl er, db') \<Longrightarrow> rows db' = rows db"
    and row_key: "rows db k = Some r \<Longrightarrow> PrimaryKey E r = k"
    and key_SetCreateTime [simp]: "PrimaryKey E (SetCreateTime E t e) = PrimaryKey E e"
    and key_SetUpdateTime [simp]: "PrimaryKey E (SetUpdateTime E t e) = PrimaryKey E e"

text \<open>The driver keeps the promise of \<open>table_store\<close> over every conforming library.\<close>

sublocale gorm_backend \<subseteq> drv: table_store "PrimaryKey E" rows merged col set_cols
  "SetUpdateTime E" "\<lambda>t e. SetUpdateTime E t (SetCreateTime E t e)"
  "Driver_Add E cl" "Driver_Get E cl" "Driver_Put E cl" "Driver_Delete E cl"
  "Driver_CompareAndSwap E cl"
proof (unfold_locales, goal_cases)
  case (1 now db e db')
  then show ?case
    using Create_ok by (fastforce simp: Driver_Add_def Let_def split: if_splits prod.splits option.splits gorm_error.splits)
next
  case (2 now db e err db')
  then show ?case
    using Create_err by (fastforce simp: Driver_Add_def Let_def split: if_splits prod.splits option.splits gorm_error.splits)
next
  case (3 now db e db')
  then show ?case
    using Create_dup by (fastforce simp: Driver_Add_def Let_def split: if_splits prod.splits option.splits gorm_error.splits)
next
  case (4 db e r)
  then show ?case
    using First_ok by (fastforce simp: Driver_Get_def split: if_splits sum.splits gorm_error.splits)
next
  case (5 db e)
  then show ?case
    using First_absent by (fastforce simp: Driver_Get_def split: if_splits sum.splits gorm_error.splits)
next
  case (6 now db e db')
  then have "g_Updates cl db (SetUpdateTime E now e) = (None, db')"
    by (auto simp: Driver_Put_def split: if_splits prod.splits option.splits gorm_error.splits)
  from Updates_ok [OF this] show ?case by (cases "rows db (PrimaryKey E e)") simp_all
next
  case (7 now db e err db')
  then show ?case
    using Updates_err by (fastforce simp: Driver_Put_def split: if_splits prod.splits option.splits gorm_error.splits)
next
  case (8 db e db')
  then obtain r where g: "Driver_Get E cl db e = Inr r" and d: "g_Delete cl db r = (None, db')"
    by (auto simp: Driver_Delete_def split: if_splits sum.splits prod.splits option.splits)
  from g have "rows db (PrimaryKey E e) = Some r"
    using First_ok by (fastforce simp: Driver_Get_def split: if_splits sum.splits gorm_error.splits)
  with Delete_ok [OF d] row_key show ?case by simp
next
  case (9 db e err db')
  then show ?case
    using Delete_err by (fastforce simp: Driver_Delete_def split: if_splits sum.splits prod.splits option.splits)
next
  case (10 now db e f v us db')
  then obtain n where u: "g_UpdatesWhere cl db e (toColumnName f, v) (us @ [(''updatetime'', SqlTime now)]) = (Inr n, db')"
    and n: "0 < n"
    by (auto simp: Driver_CompareAndSwap_def Let_def split: if_splits sum.splits prod.splits)
  from UpdatesWhere_ok [OF u] n show ?case by (auto split: option.splits if_splits)
next
  case (11 now db e f v us db')
  then have u: "g_UpdatesWhere cl db e (toColumnName f, v) (us @ [(''updatetime'', SqlTime now)]) = (Inr 0, db')"
    by (auto simp: Driver_CompareAndSwap_def Let_def split: if_splits sum.splits prod.splits)
  from UpdatesWhere_ok [OF u] show ?case by (auto split: option.splits if_splits)
next
  case (12 now db e f v us err db')
  then show ?case
    using UpdatesWhere_err by (fastforce simp: Driver_CompareAndSwap_def Let_def split: if_splits sum.splits prod.splits)
next
  case (13 db k r)
  then show ?case by (rule row_key)
qed

text \<open>
  The query side: a listing without a page limit returns exactly the rows that satisfy the
  conditions, once each, in the order of the time columns it sorts by.
\<close>

locale table_query = table_store +
  fixes indexed :: "'b \<Rightarrow> sql_expr list"
    and lst :: "'a \<Rightarrow> 'b option \<Rightarrow> ListOptions option \<Rightarrow> DBError + 'b list"
  assumes lst_ok: "lst db (Some q) (Some opt) = Inr xs \<Longrightarrow>
      lo_PageSize opt = 0 \<Longrightarrow> fo_Queries (lo_Filter opt) = [] \<Longrightarrow>
      set xs = {r. (\<exists>k. rows db k = Some r) \<and>
                   (\<forall>x\<in>set (applyFilterOptions (indexed q) (lo_Filter opt)). expr_holds col r x)} \<and>
      distinct (map pk xs) \<and>
      sorted (map (order_key col
        (map (\<lambda>(k, ord). (ToLower k, ord = SortOrderDescending)) (lo_SortBy opt))) xs)"

locale gorm_query = gorm_backend +
  assumes Rows_ok: "g_Rows cl db q = Inr (map Inr xs, None) \<Longrightarrow> q_limit q = None \<Longrightarrow>
      list_all expr_simple (q_where q) \<Longrightarrow>
      set xs = {r. (\<exists>k. rows db k = Some r) \<and> (\<forall>x\<in>set (q_where q). expr_holds col r x)} \<and>
      distinct (map (PrimaryKey E) xs) \<and> sorted (map (order_key col (q_order q)) xs)"

lemma scan_rows_Inr: "scan_rows rs acc = Inr xs \<Longrightarrow> \<exists>ys. rs = map Inr ys \<and> xs = acc @ ys"
proof (induction rs acc rule: scan_rows.induct)
  case (3 x rs acc)
  then obtain ys where "rs = map Inr ys" and "xs = (acc @ [x]) @ ys" by auto
  then show ?case by (intro exI [of _ "x # ys"]) simp
qed auto

sublocale gorm_query \<subseteq> drvq: table_query "PrimaryKey E" rows merged col set_cols
  "SetUpdateTime E" "\<lambda>t e. SetUpdateTime E t (SetCreateTime E t e)"
  "Driver_Add E cl" "Driver_Get E cl" "Driver_Put E cl" "Driver_Delete E cl"
  "Driver_CompareAndSwap E cl" "index_exprs E" "Driver_List E cl"
proof unfold_locales
  fix db q opt xs
  assume l: "Driver_List E cl db (Some q) (Some opt) = Inr xs" and p: "lo_PageSize opt = 0"
    and n: "fo_Queries (lo_Filter opt) = []"
  let ?q = "list_query E q (Some opt)"
  obtain rs where rs: "g_Rows cl db ?q = Inr (rs, None)" and "scan_rows rs [] = Inr xs"
    using l by (auto simp: Driver_List_def split: if_splits sum.splits prod.splits option.splits)
  then have "g_Rows cl db ?q = Inr (map Inr xs, None)" using scan_rows_Inr by fastforce
  moreover have "q_limit ?q = None" using p by (simp add: list_query_def)
  moreover have "list_all expr_simple (q_where ?q)"
    using n by (auto simp: list_query_def applyFilterOptions_def index_exprs_def list_all_iff)
  ultimately show "set xs = {r. (\<exists>k. rows db k = Some r) \<and>
        (\<forall>x\<in>set (applyFilterOptions (index_exprs E q) (lo_Filter opt)). expr_holds col r x)} \<and>
      distinct (map (PrimaryKey E) xs) \<and>
      sorted (map (order_key col
        (map (\<lambda>(k, ord). (ToLower k, ord = SortOrderDescending)) (lo_SortBy opt))) xs)"
    using Rows_ok [of db ?q xs] by (simp add: list_query_def)
qed

context gorm_query
begin

lemma Driver_table_query:
  "table_query (PrimaryKey E) rows merged col set_cols
    (SetUpdateTime E) (\<lambda>t e. SetUpdateTime E t (SetCreateTime E t e))
    (ds_Add (Driver E cl)) (ds_Get (Driver E cl)) (ds_Put (Driver E cl)) (ds_Delete (Driver E cl))
    (ds_CompareAndSwap (Driver E cl)) (index_exprs E) (ds_List (Driver E cl))"
  using drvq.table_query_axioms by (simp add: Driver_def)

end

text \<open>
  A library on which no read or deletion of an existing row fails. \<open>BatchAdd\<close> can only undo
  its insertions when its own deletions succeed.
\<close>

locale gorm_healthy = gorm_backend +
  assumes First_total: "rows db (PrimaryKey E e) \<noteq> None \<Longrightarrow> \<exists>r. g_First cl db e = Inr r"
    and Delete_total: "\<exists>db'. g_Delete cl db e = (None, db')"
begin

lemma Driver_Delete_present:
  assumes "PrimaryKey E d \<noteq> ''''" and "TableName E d \<noteq> ''''" and "rows db (PrimaryKey E d) \<noteq> None"
  shows "rows (snd (Driver_Delete E cl db d)) = (rows db)(PrimaryKey E d := None)"
proof -
  obtain r where r: "g_First cl db d = Inr r" using First_total [OF assms(3)] by blast
  obtain db' where d: "g_Delete cl db r = (None, db')" using Delete_total by blast
  have "PrimaryKey E r = PrimaryKey E d" using First_ok [OF r] row_key by blast
  with Delete_ok [OF d] r d assms(1,2) show ?thesis
    by (simp add: Driver_Delete_def Driver_Get_def)
qed

lemma batch_rollback_rows:
  assumes "distinct (map (PrimaryKey E) ds)"
    and "\<forall>d\<in>set ds. PrimaryKey E d \<noteq> '''' \<and> TableName E d \<noteq> '''' \<and>
           rows db (PrimaryKey E d) \<noteq> None \<and> PrimaryKey E d \<notin> set nr"
  shows "rows (batch_rollback E cl nr ds db) =
         (\<lambda>k. if k \<in> PrimaryKey E ` set ds then None else rows db k)"
  using assms
proof (induction ds arbitrary: db)
  case (Cons d ds)
  let ?db = "snd (Driver_Delete E cl db d)"
  have del: "rows ?db = (rows db)(PrimaryKey E d := None)"
    using Cons.prems by (intro Driver_Delete_present) auto
  have "\<forall>x\<in>set ds. PrimaryKey E x \<noteq> PrimaryKey E d" using Cons.prems(1) by (force simp: image_iff)
  with Cons.prems del have "\<forall>x\<in>set ds. PrimaryKey E x \<noteq> '''' \<and> TableName E x \<noteq> '''' \<and>
           rows ?db (PrimaryKey E x) \<noteq> None \<and> PrimaryKey E x \<notin> set nr" by auto
  with Cons.IH [of ?db] Cons.prems del show ?case by auto
qed simp

lemma batch_add_loop_error:
  assumes "batch_add_loop E cl now added es db = (Some err, db')"
    and "distinct (map (PrimaryKey E) (added @ es))"
    and "\<forall>d\<in>set added. PrimaryKey E d \<noteq> '''' \<and> TableName E d \<noteq> '''' \<and>
           rows db (PrimaryKey E d) \<noteq> None \<and> rows0 (PrimaryKey E d) = None"
    and "\<forall>k. k \<notin> PrimaryKey E ` set added \<longrightarrow> rows db k = rows0 k"
  shows "rows db' = rows0"
  using assms
proof (induction es arbitrary: added db)
  case (Cons e es)
  obtain r db1 where add: "Driver_Add E cl now db e = (r, db1)" by fastforce
  show ?case
  proof (cases r)
    case None
    have ne: "PrimaryKey E e \<noteq> '''' \<and> TableName E e \<noteq> ''''"
      using add None by (auto simp: Driver_Add_def split: if_splits)
    have fresh: "PrimaryKey E e \<notin> PrimaryKey E ` set added" using Cons.prems(2) by auto
    from drv.add_ok add None have ok: "rows db (PrimaryKey E e) = None"
      "rows db1 = (rows db)(PrimaryKey E e \<mapsto> SetUpdateTime E now (SetCreateTime E now e))" by auto
    have loop: "batch_add_loop E cl now (added @ [e]) es db1 = (Some err, db')"
      using Cons.prems(1) add None by simp
    show ?thesis
    proof (rule Cons.IH [OF loop])
      show "distinct (map (PrimaryKey E) ((added @ [e]) @ es))" using Cons.prems(2) by simp
      show "\<forall>d\<in>set (added @ [e]). PrimaryKey E d \<noteq> '''' \<and> TableName E d \<noteq> '''' \<and>
           rows db1 (PrimaryKey E d) \<noteq> None \<and> rows0 (PrimaryKey E d) = None"
        using Cons.prems(3,4) ne ok fresh by auto
      show "\<forall>k. k \<notin> PrimaryKey E ` set (added @ [e]) \<longrightarrow> rows db1 k = rows0 k"
        using Cons.prems(4) ok by auto
    qed
  next
    case (Some er)
    define nr where "nr = (if er = ErrRecordExist then [PrimaryKey E e] else [])"
    have db': "db' = batch_rollback E cl nr added db1"
      using Cons.prems(1) add Some by (simp add: nr_def)
    have same: "rows db1 = rows db" using drv.add_err add Some by blast
    have "\<forall>d\<in>set added. PrimaryKey E d \<noteq> PrimaryKey E e"
      using Cons.prems(2) by (force simp: image_iff)
    then have "rows db' = (\<lambda>k. if k \<in> PrimaryKey E ` set added then None else rows db1 k)"
      unfolding db' using Cons.prems(2,3) same
      by (intro batch_rollback_rows) (auto simp: nr_def)
    with Cons.prems(3,4) same show ?thesis by (auto simp: fun_eq_iff)
  qed
qed simp

lemma BatchAdd_atomic:
  assumes "Driver_BatchAdd E cl now db es = (Some err, db')"
    and "distinct (map (PrimaryKey E) es)"
  shows "rows db' = rows db"
  using batch_add_loop_error [of now "[]" es db err db' "rows db"] assms
  by (simp add: Driver_BatchAdd_def)

end

lemma UniqueName_bound: "length (UniqueName table column) \<le> 64"
  by (simp add: UniqueName_def Let_def)

end
