(* ===== verification/Kube_Memory.thy ===== *)
theory Kube_Memory
  imports Kube_Store
begin

text \<open>
  Tables in memory that behave as GORM documents: a list of rows for any entity type, and such a
  table as one field of a larger database. They instantiate the parameter \<open>gorm_client\<close> of the
  driver, and show that the contracts of the datastore can be kept.
\<close>

section \<open>A list of rows\<close>

definition list_rows :: "'e Entity \<Rightarrow> 'e list \<Rightarrow> string \<Rightarrow> 'e option" where
  "list_rows E db k = find (\<lambda>r. PrimaryKey E r = k) db"

definition list_contents :: "'e Entity \<Rightarrow> 'e list \<Rightarrow> 'e list" where
  "list_contents E db = map (\<lambda>k. the (list_rows E db k)) (remdups (map (PrimaryKey E) db))"

definition list_client ::
  "'e Entity \<Rightarrow> ('e \<Rightarrow> 'e \<Rightarrow> 'e) \<Rightarrow> ('e \<Rightarrow> string \<Rightarrow> sqlval) \<Rightarrow> ((string \<times> sqlval) list \<Rightarrow> 'e \<Rightarrow> 'e) \<Rightarrow>
   ('e list, 'e) gorm_client" where
  "list_client E merged col set_cols =
    \<lparr>g_Create = (\<lambda>db e. if list_rows E db (PrimaryKey E e) = None then (None, db @ [e])
                        else (Some ErrDuplicatedKey, db)),
     g_First = (\<lambda>db e. case list_rows E db (PrimaryKey E e) of
                  None \<Rightarrow> Inl ErrRecordNotFound | Some r \<Rightarrow> Inr r),
     g_Updates = (\<lambda>db e. (None, map (\<lambda>r. if PrimaryKey E r = PrimaryKey E e then merged r e else r) db)),
     g_Delete = (\<lambda>db e. (None, filter (\<lambda>r. PrimaryKey E r \<noteq> PrimaryKey E e) db)),
     g_DeleteWhere = (\<lambda>db xs. (None, filter (\<lambda>r. \<not> list_all (expr_holds col r) xs) db)),
     g_FindLimit1 = (\<lambda>db cs. Inr (min 1 (length (filter
        (\<lambda>r. list_all (\<lambda>(k, v). col r k = SqlStr v) cs) db)))),
     g_Rows = (\<lambda>db q. Inr (map Inr (sort_key (order_key col (q_order q))
        (filter (\<lambda>r. list_all (expr_holds col r) (q_where q)) (list_contents E db))), None)),
     g_Count = (\<lambda>db xs. Inr (int (length (filter (\<lambda>r. list_all (expr_holds col r) xs) db)))),
     g_UpdatesWhere = (\<lambda>db e (c, v) us.
        (case list_rows E db (PrimaryKey E e) of
           None \<Rightarrow> (Inr 0, db)
         | Some r \<Rightarrow> if col r c = v
             then (Inr 1, map (\<lambda>x. if PrimaryKey E x = PrimaryKey E e then set_cols us x else x) db)
             else (Inr 0, db)))\<rparr>"

lemma list_rows_key: "list_rows E db k = Some r \<Longrightarrow> PrimaryKey E r = k"
  by (auto simp: list_rows_def find_Some_iff)

lemma list_rows_append:
  "list_rows E (db @ db') k = (case list_rows E db k of None \<Rightarrow> list_rows E db' k | Some r \<Rightarrow> Some r)"
  by (induction db) (auto simp: list_rows_def)

lemma list_rows_map:
  assumes "\<And>r. PrimaryKey E (f r) = PrimaryKey E r"
  shows "list_rows E (map (\<lambda>r. if PrimaryKey E r = t then f r else r) db) k =
     (if k = t then map_option f (list_rows E db k) else list_rows E db k)"
  using assms by (induction db) (auto simp: list_rows_def)

lemma list_rows_filter:
  "list_rows E (filter (\<lambda>r. PrimaryKey E r \<noteq> t) db) = (list_rows E db)(t := None)"
  by (induction db) (auto simp: list_rows_def fun_eq_iff)

lemma list_rows_None: "list_rows E db k = None \<longleftrightarrow> k \<notin> PrimaryKey E ` set db"
  by (auto simp: list_rows_def find_None_iff)

lemma keys_list_contents [simp]: "map (PrimaryKey E) (list_contents E db) = remdups (map (PrimaryKey E) db)"
proof -
  have "PrimaryKey E (the (list_rows E db k)) = k" if "k \<in> set (map (PrimaryKey E) db)" for k
    using that list_rows_key [of E db k] list_rows_None [of E db k] by (cases "list_rows E db k") auto
  then show ?thesis by (auto simp: list_contents_def intro: map_idI)
qed

lemma set_list_contents: "set (list_contents E db) = {r. \<exists>k. list_rows E db k = Some r}"
proof -
  have "list_rows E db k = Some r \<Longrightarrow> r \<in> set (list_contents E db)" for k r
    using list_rows_None [of E db k] by (force simp: list_contents_def)
  moreover have "r \<in> set (list_contents E db) \<Longrightarrow> \<exists>k. list_rows E db k = Some r" for r
    using list_rows_None [of E db] by (fastforce simp: list_contents_def)
  ultimately show ?thesis by blast
qed

text \<open>The list conforms when updates and time stamps leave the key of an entity alone.\<close>

locale list_table =
  fixes E :: "'e Entity"
    and merged :: "'e \<Rightarrow> 'e \<Rightarrow> 'e"
    and col :: "'e \<Rightarrow> string \<Rightarrow> sqlval"
    and set_cols :: "(string \<times> sqlval) list \<Rightarrow> 'e \<Rightarrow> 'e"
  assumes key_merged [simp]: "PrimaryKey E (merged old new) = PrimaryKey E old"
    and key_set_cols [simp]: "PrimaryKey E (set_cols us e) = PrimaryKey E e"
    and key_created [simp]: "PrimaryKey E (SetCreateTime E t e) = PrimaryKey E e"
    and key_updated [simp]: "PrimaryKey E (SetUpdateTime E t e) = PrimaryKey E e"

sublocale list_table \<subseteq> lt: gorm_query E "list_client E merged col set_cols" "list_rows E" merged col set_cols
proof (unfold_locales, goal_cases)
  case (1 db e db')
  then show ?case
    by (auto simp: list_client_def list_rows_append fun_eq_iff split: if_splits option.splits)
      (auto simp: list_rows_def)
next
  case (2 db e er db')
  then show ?case by (auto simp: list_client_def split: if_splits)
next
  case (3 db e db')
  then show ?case by (auto simp: list_client_def split: if_splits)
next
  case (4 db e r)
  then show ?case by (auto simp: list_client_def split: option.splits)
next
  case (5 db e)
  then show ?case by (auto simp: list_client_def split: option.splits)
next
  case (6 db e db')
  then have "db' = map (\<lambda>r. if PrimaryKey E r = PrimaryKey E e then merged r e else r) db"
    by (simp add: list_client_def)
  then show ?case by (auto simp: list_rows_map fun_eq_iff split: option.splits)
next
  case (7 db e er db')
  then show ?case by (simp add: list_client_def)
next
  case (8 db e db')
  then show ?case by (auto simp: list_client_def list_rows_filter)
next
  case (9 db e er db')
  then show ?case by (simp add: list_client_def)
next
  case (10 db e c v us n db')
  then show ?case
    by (cases "list_rows E db (PrimaryKey E e)")
      (auto simp: list_client_def list_rows_map fun_eq_iff split: if_splits)
next
  case (11 db e cv us er db')
  then show ?case by (cases cv) (auto simp: list_client_def split: option.splits if_splits)
next
  case (12 db k r)
  then show ?case by (rule list_rows_key)
next
  case (15 db q xs)
  then have xs: "xs = sort_key (order_key col (q_order q))
        (filter (\<lambda>r. list_all (expr_holds col r) (q_where q)) (list_contents E db))"
    by (simp add: list_client_def)
  have "distinct (map (PrimaryKey E) (list_contents E db))" by simp
  then have "distinct (list_contents E db)" and "inj_on (PrimaryKey E) (set (list_contents E db))"
    by (simp_all only: distinct_map)
  then have "distinct (map (PrimaryKey E) xs)"
    by (auto simp: xs distinct_map inj_on_def)
  then show ?case by (auto simp: xs set_list_contents list_all_iff)
qed simp_all

text \<open>No operation of the list fails on an existing row, so \<open>BatchAdd\<close> can undo its insertions.\<close>

sublocale list_table \<subseteq> lh: gorm_healthy E "list_client E merged col set_cols" "list_rows E" merged col set_cols
  by unfold_locales (auto simp: list_client_def)

section \<open>A table as a field of a database\<close>

definition on_field :: "('s \<Rightarrow> 'db) \<Rightarrow> ('db \<Rightarrow> 's \<Rightarrow> 's) \<Rightarrow> ('db, 'e) gorm_client \<Rightarrow> ('s, 'e) gorm_client" where
  "on_field field update cl =
    (let lift = (\<lambda>s (r, db). (r, update db s)) in
     \<lparr>g_Create = (\<lambda>s e. lift s (g_Create cl (field s) e)),
      g_First = (\<lambda>s e. g_First cl (field s) e),
      g_Updates = (\<lambda>s e. lift s (g_Updates cl (field s) e)),
      g_Delete = (\<lambda>s e. lift s (g_Delete cl (field s) e)),
      g_DeleteWhere = (\<lambda>s xs. lift s (g_DeleteWhere cl (field s) xs)),
      g_FindLimit1 = (\<lambda>s cs. g_FindLimit1 cl (field s) cs),
      g_Rows = (\<lambda>s q. g_Rows cl (field s) q),
      g_Count = (\<lambda>s xs. g_Count cl (field s) xs),
      g_UpdatesWhere = (\<lambda>s e cv us. case g_UpdatesWhere cl (field s) e cv us of (r, db) \<Rightarrow> (r, update db s))\<rparr>)"

context gorm_query
begin

lemma on_field_backend:
  assumes f: "\<And>db s. field (update db s) = db"
  shows "gorm_backend E (on_field field update cl) (\<lambda>s. rows (field s)) merged col set_cols"
proof (unfold_locales, goal_cases)
  case (1 s e s') then show ?case
    using Create_ok by (fastforce simp: on_field_def f split: prod.splits)
next
  case (2 s e er s') then show ?case
    using Create_err by (fastforce simp: on_field_def f split: prod.splits)
next
  case (3 s e s') then show ?case
    using Create_dup by (fastforce simp: on_field_def f split: prod.splits)
next
  case (4 s e r) then show ?case using First_ok by (simp add: on_field_def)
next
  case (5 s e) then show ?case using First_absent by (simp add: on_field_def)
next
  case (6 s e s')
  then obtain db where "g_Updates cl (field s) e = (None, db)" "s' = update db s"
    by (auto simp: on_field_def split: prod.splits)
  with Updates_ok show ?case by (simp add: f)
next
  case (7 s e er s') then show ?case
    using Updates_err by (fastforce simp: on_field_def f split: prod.splits)
next
  case (8 s e s') then show ?case
    using Delete_ok by (fastforce simp: on_field_def f split: prod.splits)
next
  case (9 s e er s') then show ?case
    using Delete_err by (fastforce simp: on_field_def f split: prod.splits)
next
  case (10 s e c v us n s')
  then obtain db where "g_UpdatesWhere cl (field s) e (c, v) us = (Inr n, db)" "s' = update db s"
    by (auto simp: on_field_def split: prod.splits)
  with UpdatesWhere_ok show ?case by (simp add: f)
next
  case (11 s e cv us er s') then show ?case
    using UpdatesWhere_err by (fastforce simp: on_field_def f split: prod.splits)
next
  case (12 s k r) then show ?case by (rule row_key)
qed simp_all

lemma on_field_query:
  assumes f: "\<And>db s. field (update db s) = db"
  shows "gorm_query E (on_field field update cl) (\<lambda>s. rows (field s)) merged col set_cols"
proof (intro gorm_query.intro gorm_query_axioms.intro, rule on_field_backend [where field = field, OF f])
  fix s q xs
  assume "g_Rows (on_field field update cl) s q = Inr (map Inr xs, None)" "q_limit q = None"
    "list_all expr_simple (q_where q)"
  then show "set xs = {r. (\<exists>k. rows (field s) k = Some r) \<and> (\<forall>x\<in>set (q_where q). expr_holds col r x)} \<and>
      distinct (map (PrimaryKey E) xs) \<and> sorted (map (order_key col (q_order q)) xs)"
    using Rows_ok by (simp add: on_field_def)
qed

end

end
