(* ===== verification/Kube_Tasks.thy ===== *)
theory Kube_Tasks
  imports Kube_Memory
begin

text \<open>
  The task queue: the entity \<open>WorkflowQueue\<close> of \<open>domain/model/workflow_queue.go\<close> and the
  task functions of \<open>domain/repository/workflow.go\<close>, over any datastore. The lemmas describe
  the atomic status transition on which claiming a task rests.
\<close>

section \<open>The entity\<close>

record WorkflowQueue =
  wq_TaskID :: string
  wq_ProjectID :: string
  wq_WorkflowName :: string
  wq_AppID :: string
  wq_WorkflowID :: string
  wq_WorkflowDisplayName :: string
  wq_Status :: Status
  wq_TaskCreator :: string
  wq_TaskRevoker :: string
  wq_Type :: string
  wq_CreateTime :: int
  wq_UpdateTime :: int

text \<open>The zero value \<open>model.WorkflowQueue{}\<close>.\<close>

definition wq_zero :: WorkflowQueue where
  "wq_zero = \<lparr>wq_TaskID = '''', wq_ProjectID = '''', wq_WorkflowName = '''', wq_AppID = '''',
     wq_WorkflowID = '''', wq_WorkflowDisplayName = '''', wq_Status = StatusEmpty,
     wq_TaskCreator = '''', wq_TaskRevoker = '''', wq_Type = '''', wq_CreateTime = 0,
     wq_UpdateTime = 0\<rparr>"

definition WorkflowQueue_Index :: "WorkflowQueue \<Rightarrow> (string \<times> string) list" where
  "WorkflowQueue_Index wq =
    (if wq_AppID wq \<noteq> '''' then [(''app_id'', wq_AppID wq)] else []) @
    (if wq_TaskID wq \<noteq> '''' then [(''task_id'', wq_TaskID wq)] else []) @
    (if Status_string (wq_Status wq) \<noteq> '''' then [(''status'', Status_string (wq_Status wq))] else [])"

definition WorkflowQueue_Entity :: "WorkflowQueue Entity" where
  "WorkflowQueue_Entity =
    \<lparr>PrimaryKey = wq_TaskID,
     TableName = (\<lambda>_. ''min_workflow_queue''),
     Index = WorkflowQueue_Index,
     SetCreateTime = (\<lambda>t wq. wq\<lparr>wq_CreateTime := t\<rparr>),
     SetUpdateTime = (\<lambda>t wq. wq\<lparr>wq_UpdateTime := t\<rparr>)\<rparr>"

text \<open>
  The columns of the table: \<open>SQLNamer.ColumnName\<close> of each field name, but for the two fields
  whose tag names the column.
\<close>

definition WorkflowQueue_columns :: "string list" where
  "WorkflowQueue_columns =
    map (ColumnName ''min_workflow_queue'')
      [''TaskID'', ''ProjectID'', ''WorkflowName'', ''AppID'', ''WorkflowDisplayName'',
       ''TaskCreator'', ''TaskRevoker'', ''Type'', ''CreateTime'', ''UpdateTime'']
    @ [''workflowId'', ''status'']"

section \<open>Repository functions\<close>

definition CreateWorkflowQueue ::
  "('db, WorkflowQueue) DataStore \<Rightarrow> int \<Rightarrow> 'db \<Rightarrow> WorkflowQueue \<Rightarrow> DBError option \<times> 'db" where
  "CreateWorkflowQueue store now db queue = ds_Add store now db queue"

definition WaitingTasks ::
  "('db, WorkflowQueue) DataStore \<Rightarrow> 'db \<Rightarrow> DBError + WorkflowQueue list" where
  "WaitingTasks store db =
    ds_List store db (Some (wq_zero\<lparr>wq_Status := StatusWaiting\<rparr>))
      (Some (noListOptions\<lparr>lo_SortBy := [(''createTime'', SortOrderAscending)]\<rparr>))"

definition UpdateTask ::
  "('db, WorkflowQueue) DataStore \<Rightarrow> int \<Rightarrow> 'db \<Rightarrow> WorkflowQueue \<Rightarrow> DBError option \<times> 'db" where
  "UpdateTask store now db task = ds_Put store now db task"

definition running_statuses :: "Status list" where
  "running_statuses =
    [StatusCreated, StatusRunning, StatusWaiting, StatusQueued, StatusBlocked,
     QueueItemPending, StatusPrepare, StatusWaitingApprove, StatusEmpty]"

definition TaskRunning ::
  "('db, WorkflowQueue) DataStore \<Rightarrow> 'db \<Rightarrow> DBError + WorkflowQueue list" where
  "TaskRunning store db =
    ds_List store db (Some wq_zero)
      (Some (noListOptions\<lparr>lo_Filter := noFilter\<lparr>
         fo_In := [(''status'', map Status_string running_statuses)]\<rparr>\<rparr>))"

definition TaskByID ::
  "('db, WorkflowQueue) DataStore \<Rightarrow> 'db \<Rightarrow> string \<Rightarrow> DBError + WorkflowQueue" where
  "TaskByID store db taskID = ds_Get store db (wq_zero\<lparr>wq_TaskID := taskID\<rparr>)"

definition UpdateTaskStatus ::
  "('db, WorkflowQueue) DataStore \<Rightarrow> int \<Rightarrow> 'db \<Rightarrow> string \<Rightarrow> Status \<Rightarrow> Status \<Rightarrow>
   (DBError + bool) \<times> 'db" where
  "UpdateTaskStatus store now db taskID from to =
    (let task = wq_zero\<lparr>wq_TaskID := taskID\<rparr> in
     if Status_string from = '''' then
       (case ds_Get store db task of
          Inl ErrRecordNotExist \<Rightarrow> (Inr False, db)
        | Inl e \<Rightarrow> (Inl e, db)
        | Inr t \<Rightarrow>
           (case ds_Put store now db (t\<lparr>wq_Status := to\<rparr>) of
              (Some e, db') \<Rightarrow> (Inl e, db')
            | (None, db') \<Rightarrow> (Inr True, db')))
     else ds_CompareAndSwap store now db task ''status'' (SqlStr (Status_string from))
            [(''status'', SqlStr (Status_string to))])"

section \<open>The table as a GORM table\<close>

text \<open>\<open>Updates\<close> with a struct: the non-zero fields of the argument replace those of the row.\<close>

definition or_old :: "string \<Rightarrow> string \<Rightarrow> string" where
  "or_old old new = (if new = '''' then old else new)"

definition wq_merge :: "WorkflowQueue \<Rightarrow> WorkflowQueue \<Rightarrow> WorkflowQueue" where
  "wq_merge old new =
    \<lparr>wq_TaskID = wq_TaskID old,
     wq_ProjectID = or_old (wq_ProjectID old) (wq_ProjectID new),
     wq_WorkflowName = or_old (wq_WorkflowName old) (wq_WorkflowName new),
     wq_AppID = or_old (wq_AppID old) (wq_AppID new),
     wq_WorkflowID = or_old (wq_WorkflowID old) (wq_WorkflowID new),
     wq_WorkflowDisplayName = or_old (wq_WorkflowDisplayName old) (wq_WorkflowDisplayName new),
     wq_Status = (if Status_string (wq_Status new) = '''' then wq_Status old else wq_Status new),
     wq_TaskCreator = or_old (wq_TaskCreator old) (wq_TaskCreator new),
     wq_TaskRevoker = or_old (wq_TaskRevoker old) (wq_TaskRevoker new),
     wq_Type = or_old (wq_Type old) (wq_Type new),
     wq_CreateTime = (if wq_CreateTime new = 0 then wq_CreateTime old else wq_CreateTime new),
     wq_UpdateTime = (if wq_UpdateTime new = 0 then wq_UpdateTime old else wq_UpdateTime new)\<rparr>"

definition wq_col :: "WorkflowQueue \<Rightarrow> string \<Rightarrow> sqlval" where
  "wq_col r c =
    (if c = ''status'' then SqlStr (Status_string (wq_Status r))
     else if c = ''createtime'' then SqlTime (wq_CreateTime r)
     else if c = ''updatetime'' then SqlTime (wq_UpdateTime r)
     else if c = ''taskid'' then SqlStr (wq_TaskID r)
     else if c = ''appid'' then SqlStr (wq_AppID r)
     else if c = ''projectid'' then SqlStr (wq_ProjectID r)
     else if c = ''workflowname'' then SqlStr (wq_WorkflowName r)
     else if c = ''workflowId'' then SqlStr (wq_WorkflowID r)
     else if c = ''workflowdisplayname'' then SqlStr (wq_WorkflowDisplayName r)
     else if c = ''taskcreator'' then SqlStr (wq_TaskCreator r)
     else if c = ''taskrevoker'' then SqlStr (wq_TaskRevoker r)
     else SqlStr (wq_Type r))"

fun wq_set_col :: "string \<times> sqlval \<Rightarrow> WorkflowQueue \<Rightarrow> WorkflowQueue" where
  "wq_set_col (c, SqlStr s) r = (if c = ''status'' then r\<lparr>wq_Status := Status_of s\<rparr> else r)"
| "wq_set_col (c, SqlTime t) r = (if c = ''updatetime'' then r\<lparr>wq_UpdateTime := t\<rparr> else r)"

definition wq_set_cols :: "(string \<times> sqlval) list \<Rightarrow> WorkflowQueue \<Rightarrow> WorkflowQueue" where
  "wq_set_cols us r = fold wq_set_col us r"

text \<open>An in-memory table that behaves as GORM documents, to instantiate the library with.\<close>

type_synonym mem_db = "WorkflowQueue list"

abbreviation mem_rows :: "mem_db \<Rightarrow> string \<Rightarrow> WorkflowQueue option" where
  "mem_rows \<equiv> list_rows WorkflowQueue_Entity"

abbreviation mem_client :: "(mem_db, WorkflowQueue) gorm_client" where
  "mem_client \<equiv> list_client WorkflowQueue_Entity wq_merge wq_col wq_set_cols"

lemmas mem_rows_def = list_rows_def [of WorkflowQueue_Entity]
lemmas mem_client_def = list_client_def [of WorkflowQueue_Entity wq_merge wq_col wq_set_cols]

abbreviation mem_store :: "(mem_db, WorkflowQueue) DataStore" where
  "mem_store \<equiv> Driver WorkflowQueue_Entity mem_client"

section \<open>The interface of the task table\<close>

locale task_store =
  table_query wq_TaskID rows wq_merge wq_col wq_set_cols
    "SetUpdateTime WorkflowQueue_Entity"
    "\<lambda>t e. SetUpdateTime WorkflowQueue_Entity t (SetCreateTime WorkflowQueue_Entity t e)"
    "ds_Add store" "ds_Get store" "ds_Put store" "ds_Delete store" "ds_CompareAndSwap store"
    "index_exprs WorkflowQueue_Entity" "ds_List store"
  for store :: "('db, WorkflowQueue) DataStore"
  and rows :: "'db \<Rightarrow> string \<Rightarrow> WorkflowQueue option"

lemma ToLower_status [simp]: "toColumnName ''status'' = ''status''"
  by (simp add: toColumnName_def ToLower_def char_lower_def is_upper_def char_code_def)

lemma ToLower_status' [simp]: "ToLower ''status'' = ''status''"
  using ToLower_status by (simp add: toColumnName_def)

lemma ToLower_createTime [simp]: "ToLower ''createTime'' = ''createtime''"
  by code_simp

lemma wq_TaskID_set_col [simp]: "wq_TaskID (wq_set_col cv r) = wq_TaskID r"
  by (cases cv, rename_tac c v, case_tac v) auto

lemma wq_TaskID_set_cols [simp]: "wq_TaskID (wq_set_cols us r) = wq_TaskID r"
  unfolding wq_set_cols_def by (induction us arbitrary: r) auto

lemma wq_TaskID_merge [simp]: "wq_TaskID (wq_merge old new) = wq_TaskID old"
  by (simp add: wq_merge_def)

text \<open>The column update of \<open>UpdateTaskStatus\<close>: the new status and the time stamp, nothing else.\<close>

lemma wq_set_cols_status [simp]:
  "wq_set_cols [(''status'', SqlStr (Status_string to)), (''updatetime'', SqlTime t)] r =
     r\<lparr>wq_Status := Status_of (Status_string to), wq_UpdateTime := t\<rparr>"
  by (simp add: wq_set_cols_def)

context task_store
begin

lemma UpdateTaskStatus_true:
  assumes "UpdateTaskStatus store now db t from to = (Inr True, db')" and "Status_string from \<noteq> ''''"
  shows "\<exists>r. rows db t = Some r \<and> Status_string (wq_Status r) = Status_string from \<and>
     rows db' = (rows db)(t \<mapsto> r\<lparr>wq_Status := Status_of (Status_string to), wq_UpdateTime := now\<rparr>)"
  using assms cas_ok [of now db "wq_zero\<lparr>wq_TaskID := t\<rparr>" "''status''" "SqlStr (Status_string from)"
    "[(''status'', SqlStr (Status_string to))]" db']
  by (auto simp: UpdateTaskStatus_def Let_def wq_col_def)

lemma UpdateTaskStatus_false:
  assumes "UpdateTaskStatus store now db t from to = (Inr False, db')" and "Status_string from \<noteq> ''''"
  shows "rows db' = rows db \<and>
     (\<forall>r. rows db t = Some r \<longrightarrow> Status_string (wq_Status r) \<noteq> Status_string from)"
  using assms cas_miss [of now db "wq_zero\<lparr>wq_TaskID := t\<rparr>" "''status''" "SqlStr (Status_string from)"
    "[(''status'', SqlStr (Status_string to))]" db']
  by (auto simp: UpdateTaskStatus_def Let_def wq_col_def)

lemma UpdateTaskStatus_error:
  assumes "UpdateTaskStatus store now db t from to = (Inl e, db')" and "Status_string from \<noteq> ''''"
  shows "rows db' = rows db"
  using assms cas_err [of now db "wq_zero\<lparr>wq_TaskID := t\<rparr>" "''status''" "SqlStr (Status_string from)"
    "[(''status'', SqlStr (Status_string to))]" e db']
  by (simp add: UpdateTaskStatus_def Let_def)

lemma UpdateTaskStatus_exclusive:
  assumes "UpdateTaskStatus store now db t from to = (Inr True, db')"
    and "Status_string from \<noteq> ''''" and "Status_string from \<noteq> Status_string to"
  shows "fst (UpdateTaskStatus store now' db' t from to') \<noteq> Inr True"
proof
  assume "fst (UpdateTaskStatus store now' db' t from to') = Inr True"
  then obtain db'' where "UpdateTaskStatus store now' db' t from to' = (Inr True, db'')"
    by (metis prod.collapse)
  from UpdateTaskStatus_true [OF this assms(2)] UpdateTaskStatus_true [OF assms(1,2)] assms(3)
  show False by (auto simp: Status_string_of)
qed

lemma WaitingTasks_exact:
  assumes "WaitingTasks store db = Inr ts"
  shows "set ts = {r. (\<exists>k. rows db k = Some r) \<and> Status_string (wq_Status r) = ''waiting''}"
    and "distinct (map wq_TaskID ts)" and "sorted (map wq_CreateTime ts)"
proof -
  let ?opt = "noListOptions\<lparr>lo_SortBy := [(''createTime'', SortOrderAscending)]\<rparr>"
  let ?q = "wq_zero\<lparr>wq_Status := StatusWaiting\<rparr>"
  have "Status_string StatusWaiting = ''waiting''" by (simp add: Status_table_def)
  then have ix: "index_exprs WorkflowQueue_Entity ?q = [ExprEq ''status'' (SqlStr ''waiting'')]"
    by (simp add: index_exprs_def WorkflowQueue_Entity_def WorkflowQueue_Index_def wq_zero_def)
  have key: "order_key wq_col [(''createtime'', False)] = (\<lambda>r. [wq_CreateTime r])"
    by (simp add: order_key_def wq_col_def fun_eq_iff)
  from lst_ok [of db ?q ?opt ts] assms
  have *: "set ts = {r. (\<exists>k. rows db k = Some r) \<and> Status_string (wq_Status r) = ''waiting''} \<and>
     distinct (map wq_TaskID ts) \<and> sorted (map (\<lambda>r. [wq_CreateTime r]) ts)"
    by (simp add: WaitingTasks_def noListOptions_def noFilter_def ix applyFilterOptions_def key
        SortOrderAscending_def SortOrderDescending_def wq_col_def cong: conj_cong)
  then show "set ts = {r. (\<exists>k. rows db k = Some r) \<and> Status_string (wq_Status r) = ''waiting''}"
    and "distinct (map wq_TaskID ts)" by blast+
  from * show "sorted (map wq_CreateTime ts)"
    by (simp add: sorted_map sorted_wrt_iff_nth_less le_less)
qed

lemma TaskRunning_exact:
  assumes "TaskRunning store db = Inr ts"
  shows "set ts = {r. (\<exists>k. rows db k = Some r) \<and>
           Status_string (wq_Status r) \<in> Status_string ` set running_statuses}"
proof -
  let ?opt = "noListOptions\<lparr>lo_Filter := noFilter\<lparr>
         fo_In := [(''status'', map Status_string running_statuses)]\<rparr>\<rparr>"
  have ix: "index_exprs WorkflowQueue_Entity wq_zero = []"
    by (simp add: index_exprs_def WorkflowQueue_Entity_def WorkflowQueue_Index_def wq_zero_def)
  from lst_ok [of db wq_zero ?opt ts] assms show ?thesis
    by (simp add: TaskRunning_def noListOptions_def noFilter_def ix applyFilterOptions_def
        wq_col_def image_image) (auto simp: image_iff)
qed

end

section \<open>The driver over a conforming library is a task store\<close>

lemma WorkflowQueue_Entity_simps [simp]:
  "PrimaryKey WorkflowQueue_Entity = wq_TaskID"
  "TableName WorkflowQueue_Entity wq = ''min_workflow_queue''"
  "Index WorkflowQueue_Entity = WorkflowQueue_Index"
  by (simp_all add: WorkflowQueue_Entity_def)

lemma Driver_task_store:
  assumes "gorm_query WorkflowQueue_Entity cl rows wq_merge wq_col wq_set_cols"
  shows "task_store (Driver WorkflowQueue_Entity cl) rows"
  using gorm_query.Driver_table_query [OF assms] by (simp add: task_store_def)

section \<open>The in-memory table conforms\<close>

interpretation memt: list_table WorkflowQueue_Entity wq_merge wq_col wq_set_cols
  by unfold_locales (simp_all add: WorkflowQueue_Entity_def)

interpretation mem: task_store mem_store mem_rows
  by (rule Driver_task_store) (rule memt.lt.gorm_query_axioms)

end
