(* ===== verification/Kube_Builder.thy ===== *)
theory Kube_Builder
  imports Kube_Json Kube_Naming Kube_Tasks "HOL-Library.AList" "HOL-Library.Multiset"
begin

text \<open>
  From a stored workflow to the jobs that deploy it: \<open>event/workflow/job_builder.go\<close>, the
  object generators of \<open>event/workflow/job/job_*.go\<close> and the entities \<open>Workflow\<close>,
  \<open>ApplicationComponent\<close> and \<open>JobTask\<close> of \<open>domain/model\<close>.

  A Kubernetes object is its kind, name, namespace, labels and the rest of its specification.
  The trait processors run behind \<open>ApplyTraits\<close>; here they are a parameter, which gets the
  component and the workload and returns the additional objects with the workload as the
  processors left it, or fails. A nil map is the empty list where only its content is read.
\<close>

section \<open>Entities\<close>

record Workflow =
  wf_ID :: string
  wf_Name :: string
  wf_Namespace :: string
  wf_Alias :: string
  wf_Disabled :: bool
  wf_ProjectID :: string
  wf_AppID :: string
  wf_UserID :: string
  wf_Description :: string
  wf_WorkflowType :: string
  wf_Status :: Status
  wf_Steps :: "json option"
  wf_CreateTime :: int
  wf_UpdateTime :: int

record ApplicationComponent =
  ac_ID :: int
  ac_AppID :: string
  ac_Name :: string
  ac_Namespace :: string
  ac_Image :: string
  ac_Replicas :: int
  ac_ComponentType :: JobType
  ac_Properties :: "json option"
  ac_Traits :: "json option"
  ac_Status :: string
  ac_ReadyReplicas :: int
  ac_CreateTime :: int
  ac_UpdateTime :: int

definition Workflow_zero :: Workflow where
  "Workflow_zero = \<lparr>wf_ID = '''', wf_Name = '''', wf_Namespace = '''', wf_Alias = '''',
     wf_Disabled = False, wf_ProjectID = '''', wf_AppID = '''', wf_UserID = '''',
     wf_Description = '''', wf_WorkflowType = '''', wf_Status = StatusEmpty, wf_Steps = None,
     wf_CreateTime = 0, wf_UpdateTime = 0\<rparr>"

definition ApplicationComponent_zero :: ApplicationComponent where
  "ApplicationComponent_zero = \<lparr>ac_ID = 0, ac_AppID = '''', ac_Name = '''', ac_Namespace = '''',
     ac_Image = '''', ac_Replicas = 0, ac_ComponentType = JobTypeOther '''',
     ac_Properties = None, ac_Traits = None, ac_Status = '''', ac_ReadyReplicas = 0,
     ac_CreateTime = 0, ac_UpdateTime = 0\<rparr>"

section \<open>Objects and jobs\<close>

type_synonym labels = "(string \<times> string) list"

datatype ObjectKind =
    KindDeployment | KindStatefulSet | KindPersistentVolumeClaim | KindIngress
  | KindServiceAccount | KindRole | KindRoleBinding | KindClusterRole | KindClusterRoleBinding
  | KindOther string

record workload_spec =
  wl_Replicas :: int
  wl_ContainerName :: string
  wl_Image :: string
  wl_Ports :: "int list"
  wl_Env :: "(string \<times> string) list"
  wl_TerminationGracePeriodSeconds :: "int option"

text \<open>
  A freshly generated workload has a \<open>WorkloadSpec\<close>; what the trait processors make of it, or
  create besides it, is a value of the type \<open>'x\<close>. The generators use one label map for the
  object, its selector and its pod template, so one field stands for all three.
\<close>

datatype 'x object_spec = WorkloadSpec workload_spec | TraitSpec 'x

record 'x client_object =
  co_Kind :: ObjectKind
  co_Name :: string
  co_Namespace :: string
  co_Labels :: labels
  co_Spec :: "'x object_spec"

record ServiceApply =
  sv_Name :: string
  sv_Namespace :: string
  sv_Labels :: labels
  sv_Selector :: labels
  sv_Ports :: "(string \<times> int) list"

record ConfigInput =
  ci_Name :: string
  ci_Namespace :: string
  ci_Labels :: labels
  ci_Data :: "(string \<times> string) list option"
  ci_URL :: string
  ci_FileName :: string

datatype 'x job_info =
    InfoObject "'x client_object"
  | InfoService ServiceApply
  | InfoConfigMap ConfigInput
  | InfoSecret ConfigInput

record 'x JobTask =
  jt_Name :: string
  jt_Namespace :: string
  jt_WorkflowID :: string
  jt_ProjectID :: string
  jt_AppID :: string
  jt_TaskID :: string
  jt_JobInfo :: "'x job_info option"
  jt_JobType :: string
  jt_Status :: Status
  jt_StartTime :: int
  jt_EndTime :: int
  jt_Error :: string
  jt_Timeout :: int
  jt_RetryCount :: int

record 'x GenerateServiceResult =
  gr_Service :: "'x client_object"
  gr_AdditionalObjects :: "'x client_object list"

type_synonym 'x traits_proc =
  "ApplicationComponent \<Rightarrow> 'x client_object \<Rightarrow> string + 'x client_object list \<times> 'x client_object"

section \<open>Generators\<close>

definition BuildLabels :: "ApplicationComponent \<Rightarrow> Properties \<Rightarrow> labels" where
  "BuildLabels c p =
    fold (\<lambda>(k, v). AList.update k v) (pr_Labels p)
      [(LabelCli, ac_AppID c @ ''-'' @ ac_Name c), (LabelComponentID, int_str (ac_ID c)),
       (LabelAppID, ac_AppID c), (LabelComponentName, ac_Name c)]"

definition GenerateWebService ::
  "'x traits_proc \<Rightarrow> ApplicationComponent \<Rightarrow> Properties \<Rightarrow> 'x GenerateServiceResult option" where
  "GenerateWebService ApplyTraits component properties =
    (let deployment =
       \<lparr>co_Kind = KindDeployment,
        co_Name = WebServiceName (ac_Name component) (ac_AppID component),
        co_Namespace = ac_Namespace component,
        co_Labels = BuildLabels component properties,
        co_Spec = WorkloadSpec
          \<lparr>wl_Replicas = ac_Replicas component,
           wl_ContainerName = NormalizeLowerStrip (ac_Name component),
           wl_Image = ac_Image component, wl_Ports = pr_Ports properties,
           wl_Env = pr_Env properties, wl_TerminationGracePeriodSeconds = None\<rparr>\<rparr>
     in case ApplyTraits component deployment of
          Inl err \<Rightarrow> None
        | Inr (objs, deployment') \<Rightarrow>
            Some \<lparr>gr_Service = deployment', gr_AdditionalObjects = objs\<rparr>)"

definition GenerateStoreService ::
  "'x traits_proc \<Rightarrow> ApplicationComponent \<Rightarrow> 'x GenerateServiceResult option" where
  "GenerateStoreService ApplyTraits comp0 =
    (let component = (if ac_Namespace comp0 = '''' then comp0\<lparr>ac_Namespace := DefaultNamespace\<rparr> else comp0);
         properties = ParseProperties (ac_Properties component);
         statefulSet =
       \<lparr>co_Kind = KindStatefulSet,
        co_Name = StoreServerName (ac_Name component) (ac_AppID component),
        co_Namespace = ac_Namespace component,
        co_Labels = fold (\<lambda>(k, v). AList.update k v) (pr_Labels properties)
                      (BuildLabels component properties),
        co_Spec = WorkloadSpec
          \<lparr>wl_Replicas = ac_Replicas component,
           wl_ContainerName = NormalizeLowerStrip (ac_Name component),
           wl_Image = ac_Image component, wl_Ports = pr_Ports properties,
           wl_Env = pr_Env properties, wl_TerminationGracePeriodSeconds = Some 30\<rparr>\<rparr>
     in case ApplyTraits component statefulSet of
          Inl err \<Rightarrow> None
        | Inr (objs, statefulSet') \<Rightarrow>
            Some \<lparr>gr_Service = statefulSet', gr_AdditionalObjects = objs\<rparr>)"

text \<open>The non-empty \<open>config.url\<close> of a map, with the file name to store its content under.\<close>

definition conf_url :: "(string \<times> string) list option \<Rightarrow> (string \<times> string) option" where
  "conf_url conf =
    (case conf of None \<Rightarrow> None
     | Some m \<Rightarrow>
        (case map_of m ''config.url'' of
           Some url \<Rightarrow>
             (if url = '''' then None
              else Some (url, (case map_of m ''config.fileName'' of
                      Some fn \<Rightarrow> if fn = '''' then ''config'' else fn | None \<Rightarrow> ''config'')))
         | None \<Rightarrow> None))"

definition GenerateConfigMap :: "ApplicationComponent \<Rightarrow> Properties \<Rightarrow> ConfigInput" where
  "GenerateConfigMap component properties =
    (let namespace = (if ac_Namespace component = '''' then DefaultNamespace else ac_Namespace component) in
     case conf_url (pr_Conf properties) of
       Some (url, fileName) \<Rightarrow>
         \<lparr>ci_Name = ac_Name component, ci_Namespace = namespace, ci_Labels = pr_Labels properties,
          ci_Data = None, ci_URL = url, ci_FileName = fileName\<rparr>
     | None \<Rightarrow>
         \<lparr>ci_Name = ac_Name component, ci_Namespace = namespace,
          ci_Labels = BuildLabels component properties,
          ci_Data = pr_Conf properties, ci_URL = '''', ci_FileName = ''''\<rparr>)"

text \<open>The URL of a secret is read from \<open>Conf\<close>, and only when \<open>Secret\<close> is set.\<close>

definition GenerateSecret :: "ApplicationComponent \<Rightarrow> Properties \<Rightarrow> ConfigInput" where
  "GenerateSecret component properties =
    (let namespace = (if ac_Namespace component = '''' then DefaultNamespace else ac_Namespace component) in
     case (if pr_Secret properties = None then None else conf_url (pr_Conf properties)) of
       Some (url, fileName) \<Rightarrow>
         \<lparr>ci_Name = ac_Name component, ci_Namespace = namespace, ci_Labels = pr_Labels properties,
          ci_Data = None, ci_URL = url, ci_FileName = fileName\<rparr>
     | None \<Rightarrow>
         \<lparr>ci_Name = ac_Name component, ci_Namespace = namespace,
          ci_Labels = BuildLabels component properties,
          ci_Data = pr_Secret properties, ci_URL = '''', ci_FileName = ''''\<rparr>)"

definition service_port_name :: "string \<Rightarrow> int \<Rightarrow> string" where
  "service_port_name base p =
    (let portName = base @ ''-'' @ int_str p
     in if length portName > 15 then ''p-'' @ int_str p else portName)"

definition GenerateService :: "ApplicationComponent \<Rightarrow> Properties \<Rightarrow> ServiceApply" where
  "GenerateService component properties =
    (let base = ToRFC1123Name (ac_Name component) in
     \<lparr>sv_Name = ServiceName (ac_Name component) (ac_AppID component),
      sv_Namespace = ac_Namespace component,
      sv_Labels = BuildLabels component properties,
      sv_Selector = [(LabelAppID, ac_AppID component)],
      sv_Ports = map (\<lambda>p. (service_port_name base p, p)) (pr_Ports properties)\<rparr>)"

section \<open>Share strategies\<close>

record shareConfig =
  sc_Strategy :: string
  sc_Name :: string

definition shareConfig_zero :: shareConfig where
  "shareConfig_zero = \<lparr>sc_Strategy = '''', sc_Name = ''''\<rparr>"

definition share_enabled :: "shareConfig \<Rightarrow> bool" where
  "share_enabled s \<longleftrightarrow> sc_Strategy s \<noteq> ''''"

definition share_ignore :: "shareConfig \<Rightarrow> bool" where
  "share_ignore s \<longleftrightarrow> sc_Strategy s = ShareStrategyIgnore"

definition shareNameForComponent :: "ApplicationComponent \<Rightarrow> string" where
  "shareNameForComponent component =
    (let ns = TrimSpace (ac_Namespace component);
         nsName = cut63 (ToRFC1123Name ns)
     in if ns \<noteq> '''' \<and> nsName \<noteq> '''' then nsName
        else
          let base = (if ac_Name component = '''' then ''shared'' else ac_Name component);
              kind = JobType_string (ac_ComponentType component);
              base2 = (if kind \<noteq> '''' then base @ ''-'' @ kind else base);
              base3 = cut63 (ToRFC1123Name base2)
          in if base3 = '''' then ''shared'' else base3)"

definition shareConfigForComponent :: "ApplicationComponent \<Rightarrow> shareConfig" where
  "shareConfigForComponent component =
    (case ac_Traits component of
       None \<Rightarrow> shareConfig_zero
     | Some traits \<Rightarrow>
        (if traits = JObj [] \<or> traits = JNull then shareConfig_zero
         else if \<not> conforms traits traits_schema then shareConfig_zero
         else case decode_share traits of
             None \<Rightarrow> shareConfig_zero
           | Some strategy \<Rightarrow>
               \<lparr>sc_Strategy = fst (NormalizeShareStrategy strategy),
                sc_Name = shareNameForComponent component\<rparr>))"

definition applyShareLabels :: "labels \<Rightarrow> shareConfig \<Rightarrow> labels" where
  "applyShareLabels ls share =
    (if \<not> share_enabled share then ls
     else AList.update LabelShareStrategy (sc_Strategy share)
            (AList.update LabelShareName (sc_Name share) ls))"

definition applyShareLabelsToObject :: "'x client_object \<Rightarrow> shareConfig \<Rightarrow> 'x client_object" where
  "applyShareLabelsToObject obj share = obj\<lparr>co_Labels := applyShareLabels (co_Labels obj) share\<rparr>"

fun applyShareLabelsToJobInfo :: "'x job_info \<Rightarrow> shareConfig \<Rightarrow> 'x job_info" where
  "applyShareLabelsToJobInfo (InfoObject o1) share =
     (if \<not> share_enabled share then InfoObject o1 else InfoObject (applyShareLabelsToObject o1 share))"
| "applyShareLabelsToJobInfo (InfoService s) share =
     (if \<not> share_enabled share then InfoService s
      else InfoService (s\<lparr>sv_Labels := applyShareLabels (sv_Labels s) share\<rparr>))"
| "applyShareLabelsToJobInfo (InfoConfigMap c) share =
     (if \<not> share_enabled share then InfoConfigMap c
      else InfoConfigMap (c\<lparr>ci_Labels := applyShareLabels (ci_Labels c) share\<rparr>))"
| "applyShareLabelsToJobInfo (InfoSecret c) share =
     (if \<not> share_enabled share then InfoSecret c
      else InfoSecret (c\<lparr>ci_Labels := applyShareLabels (ci_Labels c) share\<rparr>))"

section \<open>Jobs\<close>

definition NewJobTask ::
  "string \<Rightarrow> string \<Rightarrow> string \<Rightarrow> string \<Rightarrow> string \<Rightarrow> string \<Rightarrow> int \<Rightarrow> 'x JobTask" where
  "NewJobTask name namespace workflowID projectID appID taskID timeoutSeconds =
    \<lparr>jt_Name = name, jt_Namespace = namespace, jt_WorkflowID = workflowID,
     jt_ProjectID = projectID, jt_AppID = appID, jt_TaskID = taskID, jt_JobInfo = None,
     jt_JobType = '''', jt_Status = StatusQueued, jt_StartTime = 0, jt_EndTime = 0,
     jt_Error = '''',
     jt_Timeout = (if timeoutSeconds \<le> 0 then DefaultJobTaskTimeout else timeoutSeconds),
     jt_RetryCount = 0\<rparr>"

definition setDeployTimeout :: "'x JobTask \<Rightarrow> 'x JobTask" where
  "setDeployTimeout jobTask = jobTask\<lparr>jt_Timeout := DeployTimeout\<rparr>"

definition markJobSkippedIfIgnored :: "shareConfig \<Rightarrow> 'x JobTask \<Rightarrow> 'x JobTask" where
  "markJobSkippedIfIgnored share jobTask =
    (if share_ignore share then jobTask\<lparr>jt_Status := StatusSkipped, jt_Error := ''''\<rparr> else jobTask)"

text \<open>The statements every branch of the builder runs on a new job.\<close>

definition deploy_job ::
  "WorkflowQueue \<Rightarrow> int \<Rightarrow> shareConfig \<Rightarrow> string \<Rightarrow> string \<Rightarrow> JobType \<Rightarrow> 'x job_info \<Rightarrow> 'x JobTask" where
  "deploy_job task timeout share name namespace jobType info =
    markJobSkippedIfIgnored share (setDeployTimeout
      ((NewJobTask name namespace (wq_WorkflowID task) (wq_ProjectID task) (wq_AppID task)
          (wq_TaskID task) timeout)
       \<lparr>jt_JobType := JobType_string jobType, jt_JobInfo := Some info\<rparr>))"

definition nameOrFallback :: "string \<Rightarrow> string \<Rightarrow> string" where
  "nameOrFallback name fallback = (if name \<noteq> '''' then name else fallback)"

section \<open>Jobs for the objects of the traits\<close>

definition in_namespace :: "'x client_object \<Rightarrow> ApplicationComponent \<Rightarrow> 'x client_object" where
  "in_namespace obj component =
    (if co_Namespace obj = '''' then obj\<lparr>co_Namespace := ac_Namespace component\<rparr> else obj)"

text \<open>The type of the job for an object; the loop ignores objects of other types.\<close>

fun object_job_type :: "ObjectKind \<Rightarrow> JobType option" where
  "object_job_type KindPersistentVolumeClaim = Some JobDeployPVC"
| "object_job_type KindIngress = Some JobDeployIngress"
| "object_job_type KindServiceAccount = Some JobDeployServiceAccount"
| "object_job_type KindRole = Some JobDeployRole"
| "object_job_type KindRoleBinding = Some JobDeployRoleBinding"
| "object_job_type KindClusterRole = Some JobDeployClusterRole"
| "object_job_type KindClusterRoleBinding = Some JobDeployClusterRoleBinding"
| "object_job_type _ = None"

text \<open>
  The body of the loop. An ingress gets a derived name; a cluster-wide object keeps its empty
  namespace and only its job gets the component's.
\<close>

definition object_job ::
  "ApplicationComponent \<Rightarrow> WorkflowQueue \<Rightarrow> int \<Rightarrow> shareConfig \<Rightarrow> 'x client_object \<Rightarrow> 'x JobTask list" where
  "object_job component task timeout share obj =
    (case object_job_type (co_Kind obj) of
       None \<Rightarrow> []
     | Some t \<Rightarrow>
        (let clusterWide = (co_Kind obj \<in> {KindClusterRole, KindClusterRoleBinding});
             named = (if co_Kind obj = KindIngress
                      then obj\<lparr>co_Name := IngressName (nameOrFallback (co_Name obj) (ac_Name component))
                                  (ac_AppID component)\<rparr>
                      else obj);
             placed = (if clusterWide then named else in_namespace named component);
             labelled = applyShareLabelsToObject placed share
         in [deploy_job task timeout share (co_Name labelled)
               (if clusterWide then ac_Namespace component else co_Namespace labelled)
               t (InfoObject labelled)]))"

definition CreateObjectJobsFromResult ::
  "'x client_object list \<Rightarrow> ApplicationComponent \<Rightarrow> WorkflowQueue \<Rightarrow> 'x JobTask list \<Rightarrow> int \<Rightarrow>
   'x JobTask list" where
  "CreateObjectJobsFromResult additionalObjects component task jobs timeout =
    (if additionalObjects = [] then jobs
     else jobs @ concat (map (object_job component task timeout (shareConfigForComponent component))
                          additionalObjects))"

section \<open>Buckets\<close>

type_synonym 'x buckets = "(int \<times> 'x JobTask list) list"

definition newJobBuckets :: "'x buckets" where
  "newJobBuckets =
    [(JobPriorityMaxHigh, []), (JobPriorityHigh, []), (JobPriorityNormal, []), (JobPriorityLow, [])]"

text \<open>Indexing a map: an absent key reads as the nil slice.\<close>

definition bucket_get :: "'x buckets \<Rightarrow> int \<Rightarrow> 'x JobTask list" where
  "bucket_get b p = (case map_of b p of None \<Rightarrow> [] | Some js \<Rightarrow> js)"

definition bucket_extend :: "int \<Rightarrow> 'x JobTask list \<Rightarrow> 'x buckets \<Rightarrow> 'x buckets" where
  "bucket_extend p js b = AList.update p (bucket_get b p @ js) b"

definition mergeJobBuckets :: "'x buckets \<Rightarrow> 'x buckets \<Rightarrow> 'x buckets" where
  "mergeJobBuckets dst src =
    fold (\<lambda>(p, js) b. if js = [] then b else bucket_extend p js b) src dst"

definition bucketsEmpty :: "'x buckets \<Rightarrow> bool" where
  "bucketsEmpty b \<longleftrightarrow> list_all (\<lambda>(p, js). js = []) b"

definition countJobs :: "'x buckets \<Rightarrow> nat" where
  "countJobs b = fold (\<lambda>(p, js) n. n + length js) b 0"

definition sortedPriorities :: "'x buckets \<Rightarrow> int list" where
  "sortedPriorities b = sort (map fst b)"

definition determineStepConcurrency :: "WorkflowMode \<Rightarrow> int \<Rightarrow> int \<Rightarrow> int" where
  "determineStepConcurrency mode jobCount sequentialLimit =
    (if jobCount \<le> 0 then 0
     else if IsParallel mode then jobCount
     else
       let limit = (if sequentialLimit < 1 then 1 else sequentialLimit)
       in if jobCount < limit then jobCount else limit)"

section \<open>Jobs of a component\<close>

definition queueServiceJobs ::
  "'x buckets \<Rightarrow> ApplicationComponent \<Rightarrow> WorkflowQueue \<Rightarrow> string \<Rightarrow> JobType \<Rightarrow>
   'x GenerateServiceResult option \<Rightarrow> int \<Rightarrow> shareConfig \<Rightarrow> 'x buckets" where
  "queueServiceJobs buckets component task namespace jobType result timeout share =
    (case result of
       None \<Rightarrow> buckets
     | Some r \<Rightarrow>
        (let b1 = (if gr_AdditionalObjects r = [] then buckets
                   else fold (\<lambda>jt. bucket_extend JobPriorityHigh [jt])
                          (CreateObjectJobsFromResult (gr_AdditionalObjects r) component task [] timeout)
                          buckets)
         in bucket_extend JobPriorityNormal
              [deploy_job task timeout share (ac_Name component) namespace jobType
                 (applyShareLabelsToJobInfo (InfoObject (gr_Service r)) share)] b1))"

definition buildJobsForComponent ::
  "'x traits_proc \<Rightarrow> ApplicationComponent \<Rightarrow> WorkflowQueue \<Rightarrow> int \<Rightarrow> 'x buckets" where
  "buildJobsForComponent ApplyTraits comp0 task timeout =
    (let namespace = (if ac_Namespace comp0 = '''' then DefaultNamespace else ac_Namespace comp0);
         component = comp0\<lparr>ac_Namespace := namespace\<rparr>;
         properties = ParseProperties (ac_Properties component);
         share = shareConfigForComponent component;
         b1 = (case ac_ComponentType component of
             ServerJob \<Rightarrow> queueServiceJobs newJobBuckets component task namespace JobDeploy
                 (GenerateWebService ApplyTraits component properties) timeout share
           | StoreJob \<Rightarrow> queueServiceJobs newJobBuckets component task namespace JobDeployStore
                 (GenerateStoreService ApplyTraits component) timeout share
           | ConfJob \<Rightarrow> bucket_extend JobPriorityMaxHigh
                 [deploy_job task timeout share (ac_Name component) namespace JobDeployConfigMap
                    (applyShareLabelsToJobInfo (InfoConfigMap (GenerateConfigMap component properties)) share)]
                 newJobBuckets
           | SecretJob \<Rightarrow> bucket_extend JobPriorityMaxHigh
                 [deploy_job task timeout share (ac_Name component) namespace JobDeploySecret
                    (applyShareLabelsToJobInfo (InfoSecret (GenerateSecret component properties)) share)]
                 newJobBuckets
           | _ \<Rightarrow> newJobBuckets)
     in if pr_Ports properties \<noteq> []
        then bucket_extend JobPriorityNormal
               [deploy_job task timeout share (ac_Name component) namespace JobDeployService
                  (applyShareLabelsToJobInfo (InfoService (GenerateService component properties)) share)]
               b1
        else b1)"

type_synonym component_map = "string \<rightharpoonup> ApplicationComponent"

definition appendComponentGroup ::
  "'x traits_proc \<Rightarrow> component_map \<Rightarrow> WorkflowQueue \<Rightarrow> int \<Rightarrow> string list \<Rightarrow> 'x buckets \<Rightarrow> 'x buckets" where
  "appendComponentGroup ApplyTraits componentMap task timeout names buckets =
    fold (\<lambda>name b. case componentMap name of
             None \<Rightarrow> b
           | Some component \<Rightarrow>
               mergeJobBuckets b (buildJobsForComponent ApplyTraits component task timeout))
      names buckets"

section \<open>Executions of a workflow\<close>

record 'x StepExecution =
  se_Name :: string
  se_Mode :: WorkflowMode
  se_Jobs :: "'x buckets"

abbreviation executions_if :: "'x buckets \<Rightarrow> string \<Rightarrow> WorkflowMode \<Rightarrow> 'x StepExecution list" where
  "executions_if b name mode \<equiv>
    (if bucketsEmpty b then [] else [\<lparr>se_Name = name, se_Mode = mode, se_Jobs = b\<rparr>])"

text \<open>The executions one step adds, in the order in which the loop appends them.\<close>

definition step_executions ::
  "'x traits_proc \<Rightarrow> component_map \<Rightarrow> WorkflowQueue \<Rightarrow> int \<Rightarrow> WorkflowStep \<Rightarrow> 'x StepExecution list" where
  "step_executions ApplyTraits componentMap task timeout step =
    (let mode = (if WorkflowMode_string (step_Mode step) = '''' then WorkflowModeStepByStep
                 else step_Mode step);
         group = (\<lambda>names. appendComponentGroup ApplyTraits componentMap task timeout names)
     in if step_SubSteps step \<noteq> [] then
          (if IsParallel mode then
             executions_if
               (fold (\<lambda>sub. group (WorkflowSubStep_ComponentNames sub)) (step_SubSteps step) newJobBuckets)
               (if step_Name step = '''' then ''parallel-group'' else step_Name step) mode
           else
             concat (map (\<lambda>sub.
               let subComponents = WorkflowSubStep_ComponentNames sub;
                   subName = (case sub of None \<Rightarrow> '''' | Some s \<Rightarrow> sub_Name s)
               in executions_if (group subComponents newJobBuckets)
                    (if subName = '''' \<and> length subComponents = 1 then hd subComponents else subName)
                    WorkflowModeStepByStep) (step_SubSteps step)))
        else
          let componentNames = WorkflowStep_ComponentNames (Some step) in
          if componentNames = [] then []
          else if IsParallel mode \<and> length componentNames > 1 then
            executions_if (group componentNames newJobBuckets)
              (if step_Name step = '''' \<and> length componentNames > 1 then ''parallel-group''
               else step_Name step) mode
          else
            concat (map (\<lambda>name. executions_if (group [name] newJobBuckets) name WorkflowModeStepByStep)
              componentNames))"

text \<open>The loop over the steps: a null step is dereferenced and panics.\<close>

fun steps_loop ::
  "(WorkflowStep \<Rightarrow> 'x StepExecution list) \<Rightarrow> WorkflowStep option list \<Rightarrow> 'x StepExecution list \<Rightarrow>
   'x StepExecution list outcome" where
  "steps_loop f [] executions = Return executions"
| "steps_loop f (None # ss) executions = Panic nil_deref"
| "steps_loop f (Some s # ss) executions = steps_loop f ss (executions @ f s)"

definition component_map_of :: "ApplicationComponent list \<Rightarrow> component_map" where
  "component_map_of comps = foldl (\<lambda>m c. m(ac_Name c \<mapsto> c)) Map.empty comps"

definition GenerateJobTasks ::
  "'x traits_proc \<Rightarrow> ('db, Workflow) DataStore \<Rightarrow> ('db, ApplicationComponent) DataStore \<Rightarrow> 'db \<Rightarrow>
   WorkflowQueue \<Rightarrow> int \<Rightarrow> 'x StepExecution list outcome" where
  "GenerateJobTasks ApplyTraits wfStore compStore db task timeout =
    (case ds_Get wfStore db (Workflow_zero\<lparr>wf_ID := wq_WorkflowID task\<rparr>) of
       Inl err \<Rightarrow> Return []
     | Inr workflow \<Rightarrow>
        (case decode_steps (json_of_ptr (wf_Steps workflow)) of
           None \<Rightarrow> Return []
         | Some steps \<Rightarrow>
            (case ds_List compStore db (Some (ApplicationComponent_zero\<lparr>ac_AppID := wq_AppID task\<rparr>))
                    (Some noListOptions) of
               Inl err \<Rightarrow> Return []
             | Inr comps \<Rightarrow>
                 steps_loop (step_executions ApplyTraits (component_map_of comps) task timeout)
                   steps [])))"

section \<open>Buckets as functions of the priority\<close>

lemma bucket_get_extend [simp]:
  "bucket_get (bucket_extend p js b) q = (if q = p then bucket_get b p @ js else bucket_get b q)"
  by (simp add: bucket_get_def bucket_extend_def update_conv')

lemma keys_bucket_extend [simp]:
  "p \<in> fst ` set b \<Longrightarrow> map fst (bucket_extend p js b) = map fst b"
  by (simp add: bucket_extend_def update_keys)

lemma keys_bucket_extend_set:
  "fst ` set (bucket_extend p js b) = insert p (fst ` set b)"
  using arg_cong [OF update_keys [of p "bucket_get b p @ js" b], of set]
  by (auto simp: bucket_extend_def)

lemma bucket_get_new [simp]: "bucket_get newJobBuckets p = []"
  by (simp add: bucket_get_def newJobBuckets_def)

definition priorities :: "int list" where
  "priorities = [JobPriorityMaxHigh, JobPriorityHigh, JobPriorityNormal, JobPriorityLow]"

lemma keys_new [simp]: "map fst newJobBuckets = priorities"
  by (simp add: newJobBuckets_def priorities_def)

lemma distinct_priorities [simp]: "distinct priorities"
  by (simp add: priorities_def JobPriority_defs)

lemma priorities_mem [simp]:
  "JobPriorityMaxHigh \<in> set priorities" "JobPriorityHigh \<in> set priorities"
  "JobPriorityNormal \<in> set priorities" "JobPriorityLow \<in> set priorities"
  by (simp_all add: priorities_def)

lemma bucket_get_fold_extend:
  "bucket_get (fold (\<lambda>jt. bucket_extend p [jt]) js b) q =
     (if q = p then bucket_get b p @ js else bucket_get b q)"
  by (induction js arbitrary: b) auto

lemma keys_fold_extend:
  "p \<in> fst ` set b \<Longrightarrow> map fst (fold (\<lambda>jt. bucket_extend p [jt]) js b) = map fst b"
  by (induction js arbitrary: b) (simp_all add: keys_bucket_extend_set)

lemma bucket_get_Cons:
  "bucket_get ((p, js) # b) q = (if q = p then js else bucket_get b q)"
  by (simp add: bucket_get_def)

lemma bucket_get_absent: "p \<notin> fst ` set b \<Longrightarrow> bucket_get b p = []"
  by (simp add: bucket_get_def map_of_eq_None_iff [THEN iffD2])

text \<open>Merging appends bucket by bucket, whatever the order in which the source map is read.\<close>

lemma bucket_get_merge:
  "distinct (map fst src) \<Longrightarrow>
   bucket_get (mergeJobBuckets dst src) p = bucket_get dst p @ bucket_get src p"
  unfolding mergeJobBuckets_def
proof (induction src arbitrary: dst)
  case Nil
  then show ?case by (simp add: bucket_get_def)
next
  case (Cons x src)
  obtain q js where x: "x = (q, js)" by (cases x)
  show ?case
  proof (cases "p = q")
    case True
    with Cons.prems x have "bucket_get src p = []" by (intro bucket_get_absent) auto
    with Cons x True show ?thesis by (simp add: bucket_get_Cons)
  qed (use Cons x in \<open>simp add: bucket_get_Cons\<close>)
qed

lemma keys_merge:
  "fst ` set src \<subseteq> fst ` set dst \<Longrightarrow> map fst (mergeJobBuckets dst src) = map fst dst"
  unfolding mergeJobBuckets_def
proof (induction src arbitrary: dst)
  case (Cons x src)
  obtain q js where x: "x = (q, js)" by (cases x)
  with Cons.prems have q: "q \<in> fst ` set dst" by auto
  from Cons.prems have "fst ` set src \<subseteq> fst ` set dst" by auto
  then show ?case
    using Cons.IH [of dst] Cons.IH [of "bucket_extend q js dst"] q
    by (auto simp: x keys_bucket_extend_set insert_absorb)
qed simp

text \<open>All jobs of a bucket map, in the order of the priorities.\<close>

definition bucket_jobs :: "'x buckets \<Rightarrow> 'x JobTask list" where
  "bucket_jobs b = concat (map snd b)"

lemma bucket_jobs_by_priority:
  "distinct (map fst b) \<Longrightarrow> bucket_jobs b = concat (map (bucket_get b) (map fst b))"
proof (induction b)
  case (Cons x b)
  obtain p js where x: "x = (p, js)" by (cases x)
  with Cons.prems have "map (bucket_get (x # b)) (map fst b) = map (bucket_get b) (map fst b)"
    by (auto simp: bucket_get_Cons)
  then have "map (bucket_get (x # b)) (map fst (x # b)) = js # map (bucket_get b) (map fst b)"
    by (simp only: list.map x fst_conv) (simp add: bucket_get_Cons)
  moreover have "bucket_jobs (x # b) = js @ bucket_jobs b" by (simp add: bucket_jobs_def x)
  moreover have "bucket_jobs b = concat (map (bucket_get b) (map fst b))"
    using Cons by auto
  ultimately show ?case by (simp only: concat.simps)
qed (simp add: bucket_jobs_def)

lemma countJobs_length: "countJobs b = length (bucket_jobs b)"
proof -
  have "fold (\<lambda>(p, js) n. n + length js) b n = n + length (bucket_jobs b)" for n
    by (induction b arbitrary: n) (auto simp: bucket_jobs_def)
  then show ?thesis by (simp add: countJobs_def)
qed

lemma bucketsEmpty_iff: "bucketsEmpty b \<longleftrightarrow> bucket_jobs b = []"
  by (auto simp: bucketsEmpty_def bucket_jobs_def list_all_iff)

section \<open>Bucket maps over the declared priorities\<close>

text \<open>\<open>P p j\<close> holds of every job \<open>j\<close> queued at priority \<open>p\<close>, and no other priority has a bucket.\<close>

definition buckets_ok :: "(int \<Rightarrow> 'x JobTask \<Rightarrow> bool) \<Rightarrow> 'x buckets \<Rightarrow> bool" where
  "buckets_ok P b \<longleftrightarrow> map fst b = priorities \<and> (\<forall>p. \<forall>j\<in>set (bucket_get b p). P p j)"

lemma buckets_ok_keys: "buckets_ok P b \<Longrightarrow> map fst b = priorities"
  by (simp add: buckets_ok_def)

lemma buckets_okD: "buckets_ok P b \<Longrightarrow> j \<in> set (bucket_get b p) \<Longrightarrow> P p j"
  by (simp add: buckets_ok_def)

lemma buckets_ok_new [simp]: "buckets_ok P newJobBuckets"
  by (simp add: buckets_ok_def)

lemma buckets_ok_extend:
  "buckets_ok P b \<Longrightarrow> p \<in> set priorities \<Longrightarrow> \<forall>j\<in>set js. P p j \<Longrightarrow> buckets_ok P (bucket_extend p js b)"
  using keys_bucket_extend [of p b js]
  by (auto simp: buckets_ok_def simp flip: set_map)

lemma buckets_ok_fold_extend:
  "buckets_ok P b \<Longrightarrow> p \<in> set priorities \<Longrightarrow> \<forall>j\<in>set js. P p j \<Longrightarrow>
   buckets_ok P (fold (\<lambda>jt. bucket_extend p [jt]) js b)"
  by (induction js arbitrary: b) (simp_all add: buckets_ok_extend)

lemma buckets_ok_merge:
  "buckets_ok P dst \<Longrightarrow> buckets_ok P src \<Longrightarrow> buckets_ok P (mergeJobBuckets dst src)"
  using keys_merge [of src dst]
  by (auto simp: buckets_ok_def bucket_get_merge simp flip: set_map)

lemma mset_bucket_jobs:
  "map fst b = priorities \<Longrightarrow> bucket_jobs b = concat (map (bucket_get b) priorities)"
  using bucket_jobs_by_priority [of b] by simp

lemma mset_bucket_jobs_merge:
  assumes "map fst dst = priorities" and "map fst src = priorities"
  shows "mset (bucket_jobs (mergeJobBuckets dst src)) = mset (bucket_jobs dst) + mset (bucket_jobs src)"
proof -
  have "map fst (mergeJobBuckets dst src) = priorities"
    using assms keys_merge [of src dst] by (simp flip: set_map)
  moreover have "distinct (map fst src)" using assms by simp
  ultimately show ?thesis
    using assms bucket_get_merge [of src dst]
    by (simp add: mset_bucket_jobs del: distinct_map) (simp add: priorities_def)
qed

section \<open>What a generated job looks like\<close>

text \<open>The job types each priority may hold: what others depend on comes first.\<close>

definition priority_types :: "int \<Rightarrow> JobType list" where
  "priority_types p =
    (if p = JobPriorityMaxHigh then [JobDeployConfigMap, JobDeploySecret]
     else if p = JobPriorityHigh then
       [JobDeployPVC, JobDeployIngress, JobDeployServiceAccount, JobDeployRole,
        JobDeployRoleBinding, JobDeployClusterRole, JobDeployClusterRoleBinding]
     else if p = JobPriorityNormal then [JobDeploy, JobDeployStore, JobDeployService]
     else [])"

definition job_ok :: "WorkflowQueue \<Rightarrow> int \<Rightarrow> 'x JobTask \<Rightarrow> bool" where
  "job_ok task p j \<longleftrightarrow>
    jt_TaskID j = wq_TaskID task \<and> jt_WorkflowID j = wq_WorkflowID task \<and>
    jt_ProjectID j = wq_ProjectID task \<and> jt_AppID j = wq_AppID task \<and>
    jt_Timeout j = DeployTimeout \<and> jt_Status j \<in> {StatusQueued, StatusSkipped} \<and>
    jt_Error j = '''' \<and> jt_StartTime j = 0 \<and> jt_EndTime j = 0 \<and> jt_JobInfo j \<noteq> None \<and>
    jt_JobType j \<in> JobType_string ` set (priority_types p)"

fun info_labels :: "'x job_info \<Rightarrow> labels" where
  "info_labels (InfoObject o1) = co_Labels o1"
| "info_labels (InfoService s) = sv_Labels s"
| "info_labels (InfoConfigMap c) = ci_Labels c"
| "info_labels (InfoSecret c) = ci_Labels c"

definition job_shared :: "shareConfig \<Rightarrow> 'x JobTask \<Rightarrow> bool" where
  "job_shared share j \<longleftrightarrow>
    (jt_Status j = StatusSkipped \<longleftrightarrow> share_ignore share) \<and>
    (share_enabled share \<longrightarrow>
       (\<exists>info. jt_JobInfo j = Some info \<and>
          map_of (info_labels info) LabelShareName = Some (sc_Name share) \<and>
          map_of (info_labels info) LabelShareStrategy = Some (sc_Strategy share)))"

lemma deploy_job_ok:
  "t \<in> set (priority_types p) \<Longrightarrow> job_ok task p (deploy_job task timeout share name ns t info)"
  by (auto simp: job_ok_def deploy_job_def markJobSkippedIfIgnored_def setDeployTimeout_def
      NewJobTask_def)

lemma applyShareLabels_read:
  assumes "share_enabled share"
  shows "map_of (applyShareLabels ls share) LabelShareName = Some (sc_Name share)"
    and "map_of (applyShareLabels ls share) LabelShareStrategy = Some (sc_Strategy share)"
  using assms by (simp_all add: applyShareLabels_def update_conv')

lemma info_labels_shared:
  "share_enabled share \<Longrightarrow>
   info_labels (applyShareLabelsToJobInfo info share) = applyShareLabels (info_labels info) share"
  by (cases info) (simp_all add: applyShareLabelsToObject_def)

lemma deploy_job_shared:
  "info_labels info = applyShareLabels ls share \<or> \<not> share_enabled share \<Longrightarrow>
   job_shared share (deploy_job task timeout share name ns t info)"
  by (auto simp: job_shared_def deploy_job_def markJobSkippedIfIgnored_def setDeployTimeout_def
      NewJobTask_def applyShareLabels_read)

lemma deploy_job_shared_info:
  "job_shared share (deploy_job task timeout share name ns t (applyShareLabelsToJobInfo info share))"
  by (rule deploy_job_shared [where ls = "info_labels info"]) (auto simp: info_labels_shared)

declare applyShareLabelsToJobInfo.simps [simp del]

lemma object_job_type_priority:
  "object_job_type k = Some t \<Longrightarrow> t \<in> set (priority_types JobPriorityHigh)"
  by (cases k) (auto simp: priority_types_def JobPriority_defs)

lemma object_job_ok:
  "j \<in> set (object_job c task timeout share obj) \<Longrightarrow> job_ok task JobPriorityHigh j \<and> job_shared share j"
  using object_job_type_priority [of "co_Kind obj"]
  by (auto simp: object_job_def Let_def applyShareLabelsToObject_def split: option.splits if_splits
      intro!: deploy_job_ok deploy_job_shared)

lemma CreateObjectJobs_ok:
  "j \<in> set (CreateObjectJobsFromResult objs c task [] timeout) \<Longrightarrow>
   job_ok task JobPriorityHigh j \<and> job_shared (shareConfigForComponent c) j"
  by (auto simp: CreateObjectJobsFromResult_def dest: object_job_ok split: if_splits)

lemma queueServiceJobs_ok:
  assumes "buckets_ok (\<lambda>p j. job_ok task p j \<and> job_shared (shareConfigForComponent c) j) b"
    and "t \<in> set (priority_types JobPriorityNormal)"
  shows "buckets_ok (\<lambda>p j. job_ok task p j \<and> job_shared (shareConfigForComponent c) j)
    (queueServiceJobs b c task ns t r timeout (shareConfigForComponent c))"
  using assms CreateObjectJobs_ok [of _ _ c task timeout]
  by (auto simp: queueServiceJobs_def Let_def deploy_job_ok deploy_job_shared_info
      intro!: buckets_ok_extend buckets_ok_fold_extend split: option.splits)

text \<open>The component as the builder leaves it, with the default namespace filled in.\<close>

definition with_namespace :: "ApplicationComponent \<Rightarrow> ApplicationComponent" where
  "with_namespace c =
    c\<lparr>ac_Namespace := (if ac_Namespace c = '''' then DefaultNamespace else ac_Namespace c)\<rparr>"

lemma buildJobs_ok:
  "buckets_ok (\<lambda>p j. job_ok task p j \<and> job_shared (shareConfigForComponent (with_namespace c)) j)
     (buildJobsForComponent T c task timeout)"
proof -
  let ?c = "with_namespace c"
  let ?ok = "buckets_ok (\<lambda>p j. job_ok task p j \<and> job_shared (shareConfigForComponent ?c) j)"
  have t: "JobDeployConfigMap \<in> set (priority_types JobPriorityMaxHigh)"
    "JobDeploySecret \<in> set (priority_types JobPriorityMaxHigh)"
    "JobDeploy \<in> set (priority_types JobPriorityNormal)"
    "JobDeployStore \<in> set (priority_types JobPriorityNormal)"
    "JobDeployService \<in> set (priority_types JobPriorityNormal)"
    by (simp_all add: priority_types_def JobPriority_defs)
  have one: "?ok (bucket_extend p [deploy_job task timeout (shareConfigForComponent ?c) n ns t
        (applyShareLabelsToJobInfo info (shareConfigForComponent ?c))] b)"
    if "?ok b" "p \<in> set priorities" "t \<in> set (priority_types p)" for p n ns t info b
    using that by (intro buckets_ok_extend) (auto intro: deploy_job_ok deploy_job_shared_info)
  show ?thesis
    unfolding buildJobsForComponent_def Let_def with_namespace_def [symmetric]
    by (auto intro!: one queueServiceJobs_ok t split: JobType.split)
qed

section \<open>The jobs of a workflow\<close>

definition component_jobs ::
  "'x traits_proc \<Rightarrow> component_map \<Rightarrow> WorkflowQueue \<Rightarrow> int \<Rightarrow> string \<Rightarrow> 'x JobTask list" where
  "component_jobs T cm task timeout name =
    (case cm name of None \<Rightarrow> [] | Some c \<Rightarrow> bucket_jobs (buildJobsForComponent T c task timeout))"

lemma group_ok:
  assumes "\<And>c. buckets_ok P (buildJobsForComponent T c task timeout)" and "buckets_ok P b"
  shows "buckets_ok P (appendComponentGroup T cm task timeout names b)"
  using assms(2) unfolding appendComponentGroup_def
  by (induction names arbitrary: b) (auto intro: buckets_ok_merge assms(1) split: option.splits)

lemma group_jobs:
  assumes "map fst b = priorities"
  shows "mset (bucket_jobs (appendComponentGroup T cm task timeout names b)) =
    mset (bucket_jobs b) + mset (concat (map (component_jobs T cm task timeout) names))"
proof -
  have k: "map fst (buildJobsForComponent T c task timeout) = priorities" for c
    using buildJobs_ok buckets_ok_keys by blast
  have m: "map fst (mergeJobBuckets d (buildJobsForComponent T c task timeout)) = priorities"
    if "map fst d = priorities" for c d
    using that k [of c] keys_merge [of "buildJobsForComponent T c task timeout" d]
    by (simp flip: set_map)
  show ?thesis
    using assms unfolding appendComponentGroup_def
    by (induction names arbitrary: b)
      (auto simp: component_jobs_def mset_bucket_jobs_merge k m split: option.splits)
qed

text \<open>The component names a step refers to: those of its sub-steps, or its own when it has none.\<close>

definition step_refs :: "WorkflowStep \<Rightarrow> string list" where
  "step_refs step =
    (if step_SubSteps step \<noteq> [] then concat (map WorkflowSubStep_ComponentNames (step_SubSteps step))
     else WorkflowStep_ComponentNames (Some step))"

abbreviation execution_jobs :: "'x StepExecution list \<Rightarrow> 'x JobTask list" where
  "execution_jobs es \<equiv> concat (map (\<lambda>e. bucket_jobs (se_Jobs e)) es)"

lemma execution_jobs_if: "execution_jobs (executions_if b name mode) = bucket_jobs b"
  by (simp add: bucketsEmpty_iff)

lemma execution_jobs_concat:
  "execution_jobs (concat (map f xs)) = concat (map (\<lambda>x. execution_jobs (f x)) xs)"
  by (induction xs) auto

lemma mset_concat_cong:
  "(\<And>x. x \<in> set xs \<Longrightarrow> mset (f x) = mset (g x)) \<Longrightarrow> mset (concat (map f xs)) = mset (concat (map g xs))"
  by (induction xs) auto

lemma bucket_jobs_new [simp]: "bucket_jobs newJobBuckets = []"
  by (simp add: bucket_jobs_def newJobBuckets_def)

lemma keys_group:
  "map fst b = priorities \<Longrightarrow> map fst (appendComponentGroup T cm task timeout names b) = priorities"
  using group_ok [of "\<lambda>_ _. True" T task timeout b cm names]
    buildJobs_ok [of task _ T timeout] by (simp add: buckets_ok_def)

lemma fold_group_jobs:
  "map fst b = priorities \<Longrightarrow>
   mset (bucket_jobs (fold (\<lambda>sub. appendComponentGroup T cm task timeout (names sub)) subs b)) =
   mset (bucket_jobs b) + mset (concat (map (component_jobs T cm task timeout) (concat (map names subs))))"
  by (induction subs arbitrary: b) (auto simp: group_jobs keys_group)

lemma fold_group_ok:
  assumes "\<And>c. buckets_ok P (buildJobsForComponent T c task timeout)"
  shows "buckets_ok P b \<Longrightarrow>
    buckets_ok P (fold (\<lambda>sub. appendComponentGroup T cm task timeout (names sub)) subs b)"
  by (induction subs arbitrary: b) (auto intro: group_ok assms)

text \<open>No job is lost, invented or duplicated between the referenced components and the executions.\<close>

lemma step_executions_jobs:
  "mset (execution_jobs (step_executions T cm task timeout step)) =
   mset (concat (map (component_jobs T cm task timeout) (step_refs step)))"
proof (cases "step_SubSteps step = []")
  case True
  have "mset (concat (map (\<lambda>name. bucket_jobs (appendComponentGroup T cm task timeout [name] newJobBuckets)) ns))
    = mset (concat (map (component_jobs T cm task timeout) ns))" for ns
    by (rule mset_concat_cong) (simp add: group_jobs)
  with True show ?thesis
    unfolding step_executions_def Let_def
    by (auto simp: execution_jobs_concat execution_jobs_if group_jobs step_refs_def)
next
  case False
  have "mset (concat (map (\<lambda>sub. bucket_jobs (appendComponentGroup T cm task timeout
      (WorkflowSubStep_ComponentNames sub) newJobBuckets)) subs))
    = mset (concat (map (component_jobs T cm task timeout)
        (concat (map WorkflowSubStep_ComponentNames subs))))" for subs
    by (induction subs) (simp_all add: group_jobs)
  with False show ?thesis
    unfolding step_executions_def Let_def
    by (auto simp: execution_jobs_concat execution_jobs_if fold_group_jobs step_refs_def)
qed

lemma step_executions_ok:
  assumes "\<And>c. buckets_ok P (buildJobsForComponent T c task timeout)"
    and "e \<in> set (step_executions T cm task timeout step)"
  shows "buckets_ok P (se_Jobs e) \<and> bucket_jobs (se_Jobs e) \<noteq> [] \<and>
    se_Mode e \<in> {WorkflowModeStepByStep, step_Mode step}"
proof -
  note g = group_ok [OF assms(1) buckets_ok_new] fold_group_ok [OF assms(1) buckets_ok_new]
  from assms(2) show ?thesis
    unfolding step_executions_def Let_def
    by (auto simp: bucketsEmpty_iff g split: if_splits)
qed

text \<open>Only a DAG step runs jobs of several components together.\<close>

lemma step_executions_mode:
  "e \<in> set (step_executions T cm task timeout step) \<Longrightarrow> IsParallel (se_Mode e) \<Longrightarrow>
   step_Mode step = WorkflowModeDAG"
  unfolding step_executions_def Let_def
  by (auto simp: IsParallel_def split: if_splits)

lemma steps_loop_Return:
  "steps_loop f ss acc = Return es \<longleftrightarrow> None \<notin> set ss \<and> es = acc @ concat (map (f \<circ> the) ss)"
  by (induction f ss acc rule: steps_loop.induct) auto

lemma steps_loop_Panic: "None \<in> set ss \<Longrightarrow> steps_loop f ss acc = Panic nil_deref"
  by (induction f ss acc rule: steps_loop.induct) auto

lemma shareNameForComponent_label:
  "is_dns1123_label (shareNameForComponent c) \<and> length (shareNameForComponent c) \<le> 63"
proof -
  have "clean_name (cut63 (ToRFC1123Name s))" for s
    by (simp add: ToRFC1123Name_clean clean_name_cut63)
  then have "is_dns1123_label (cut63 (ToRFC1123Name s))" and "cut63 (ToRFC1123Name s) \<noteq> ''''" for s
    by (auto simp: clean_name_label) (simp add: clean_name_def)
  then show ?thesis
    by (simp add: shareNameForComponent_def Let_def length_cut63)
qed

lemma shareConfig_cases:
  "share_enabled (shareConfigForComponent c) \<Longrightarrow>
   sc_Name (shareConfigForComponent c) = shareNameForComponent c \<and>
   sc_Strategy (shareConfigForComponent c) \<in> {ShareStrategyDefault, ShareStrategyIgnore, ShareStrategyForce}"
  using NormalizeShareStrategy_range
  by (auto simp: shareConfigForComponent_def share_enabled_def shareConfig_zero_def
      split: option.splits if_splits)

lemma determineStepConcurrency_bounds:
  "0 < jobCount \<Longrightarrow> 1 \<le> determineStepConcurrency mode jobCount limit \<and>
     determineStepConcurrency mode jobCount limit \<le> jobCount"
  by (simp add: determineStepConcurrency_def Let_def)

section \<open>The jobs of a workflow\<close>

text \<open>
  When the workflow and its components are read and the steps have no null entry, the jobs of
  all executions are the jobs of the components the steps refer to.
\<close>

lemma GenerateJobTasks_jobs:
  assumes "ds_Get wfStore db (Workflow_zero\<lparr>wf_ID := wq_WorkflowID task\<rparr>) = Inr workflow"
    and "decode_steps (json_of_ptr (wf_Steps workflow)) = Some (map Some steps)"
    and "ds_List compStore db (Some (ApplicationComponent_zero\<lparr>ac_AppID := wq_AppID task\<rparr>))
           (Some noListOptions) = Inr comps"
  obtains es where "GenerateJobTasks T wfStore compStore db task timeout = Return es"
    "mset (execution_jobs es) =
      mset (concat (map (component_jobs T (component_map_of comps) task timeout)
        (concat (map step_refs steps))))"
    "\<forall>e\<in>set es. bucket_jobs (se_Jobs e) \<noteq> []"
proof -
  let ?f = "step_executions T (component_map_of comps) task timeout"
  have "steps_loop ?f (map Some steps) [] = Return (concat (map ?f steps))"
    by (simp add: steps_loop_Return comp_def)
  with assms have g: "GenerateJobTasks T wfStore compStore db task timeout = Return (concat (map ?f steps))"
    by (simp add: GenerateJobTasks_def)
  have m: "mset (execution_jobs (concat (map ?f ss))) =
      mset (concat (map (component_jobs T (component_map_of comps) task timeout) (concat (map step_refs ss))))" for ss
    by (induction ss) (simp_all add: step_executions_jobs)
  have "\<forall>e\<in>set (concat (map ?f steps)). bucket_jobs (se_Jobs e) \<noteq> []"
    using step_executions_ok [of "\<lambda>_ _. True" T task timeout _ "component_map_of comps"]
      buildJobs_ok [of task _ T timeout] by (auto simp: buckets_ok_def)
  with g m that show ?thesis by blast
qed

end
