(* ===== verification/Kube_Locker.thy ===== *)
theory Kube_Locker
  imports Kube_Config
begin

text \<open>
  Locks: \<open>infrastructure/locker\<close>. The memory locker keeps one entry per key; a mutex value
  refers to its entry by key and remembers the owner identifier of its last acquisition. The
  clients of the memory locker form a step relation over its state, and mutual exclusion is an
  invariant of it. The Redis locker delegates to the \<open>redsync\<close> library, whose results are
  parameters; the noop locker always succeeds.
\<close>

section \<open>Errors and options\<close>

datatype LockError =
    ErrLockNotHeld | ErrLockAlreadyHeld | ErrLockAcquireFailed | ErrLockExtendFailed
  | ErrLockerClosed | CtxErr | LockBackendErr string

definition DefaultTTL :: int where "DefaultTTL = 30 * Second"

definition DefaultRetryDelay :: int where "DefaultRetryDelay = 500 * Millisecond"

definition DefaultRetryCount :: int where "DefaultRetryCount = -1"

record Options =
  TTL :: int
  RetryDelay :: int
  RetryCount :: int
  Metadata :: "(string \<times> string) list"

definition DefaultOptions :: Options where
  "DefaultOptions = \<lparr>TTL = DefaultTTL, RetryDelay = DefaultRetryDelay,
     RetryCount = DefaultRetryCount, Metadata = []\<rparr>"

type_synonym lock_option = "Options \<Rightarrow> Options"

definition ApplyOptions :: "lock_option list \<Rightarrow> Options" where
  "ApplyOptions opts = fold (\<lambda>opt o1. opt o1) opts DefaultOptions"

definition WithTTL :: "int \<Rightarrow> lock_option" where
  "WithTTL ttl o1 = (if ttl > 0 then o1\<lparr>TTL := ttl\<rparr> else o1)"

definition WithRetryDelay :: "int \<Rightarrow> lock_option" where
  "WithRetryDelay delay o1 = (if delay > 0 then o1\<lparr>RetryDelay := delay\<rparr> else o1)"

definition WithRetryCount :: "int \<Rightarrow> lock_option" where
  "WithRetryCount n o1 = o1\<lparr>RetryCount := n\<rparr>"

definition WithMetadata :: "string \<Rightarrow> string \<Rightarrow> lock_option" where
  "WithMetadata key value o1 =
     o1\<lparr>Metadata := (key, value) # filter (\<lambda>kv. fst kv \<noteq> key) (Metadata o1)\<rparr>"

section \<open>The memory locker\<close>

text \<open>The zero \<open>time.Time\<close> is \<open>None\<close>.\<close>

record memoryLockEntry =
  le_held :: bool
  le_owner :: string
  le_expiresAt :: "int option"

definition entry_zero :: memoryLockEntry where
  "entry_zero = \<lparr>le_held = False, le_owner = '''', le_expiresAt = None\<rparr>"

record MemoryMutex =
  mm_key :: string
  mm_options :: Options
  mm_ownerID :: string

record MemoryLocker =
  ml_locks :: "string \<Rightarrow> memoryLockEntry option"
  ml_prefix :: string
  ml_closed :: bool

text \<open>The interface value \<open>NewMutex\<close> returns.\<close>

datatype Mutex = MutexMemory MemoryMutex | MutexDegraded string LockError | MutexNoop string

definition NewMemoryLocker :: "string \<Rightarrow> MemoryLocker" where
  "NewMemoryLocker pre = \<lparr>ml_locks = (\<lambda>_. None), ml_prefix = pre, ml_closed = False\<rparr>"

definition prefixedKey :: "string \<Rightarrow> string \<Rightarrow> string" where
  "prefixedKey pre key = (if pre = '''' then key else pre @ '':'' @ key)"

definition MemoryLocker_NewMutex ::
  "MemoryLocker \<Rightarrow> string \<Rightarrow> lock_option list \<Rightarrow> Mutex \<times> MemoryLocker" where
  "MemoryLocker_NewMutex l key opts =
    (let fullKey = prefixedKey (ml_prefix l) key in
     if ml_closed l then (MutexDegraded fullKey ErrLockerClosed, l)
     else
       let l' = (case ml_locks l fullKey of
                   None \<Rightarrow> l\<lparr>ml_locks := (ml_locks l)(fullKey \<mapsto> entry_zero)\<rparr>
                 | Some _ \<Rightarrow> l)
       in (MutexMemory \<lparr>mm_key = fullKey, mm_options = ApplyOptions opts, mm_ownerID = ''''\<rparr>, l'))"

definition MemoryLocker_Close :: "MemoryLocker \<Rightarrow> MemoryLocker" where
  "MemoryLocker_Close l = l\<lparr>ml_closed := True\<rparr>"

text \<open>\<open>generateOwnerID\<close>: \<open>counter\<close> is the value of \<open>ownerIDCounter\<close> after the increment.\<close>

definition generateOwnerID :: "int \<Rightarrow> nat \<Rightarrow> string" where
  "generateOwnerID now counter = ''mem-'' @ int_str now @ ''-'' @ nat_str counter"

text \<open>
  \<open>tryAcquire\<close> on the entry: the result, the new entry, the new owner identifier of the mutex
  and the new counter.
\<close>

definition entry_expired :: "int \<Rightarrow> memoryLockEntry \<Rightarrow> bool" where
  "entry_expired now e \<longleftrightarrow>
    le_held e \<and> (case le_expiresAt e of None \<Rightarrow> False | Some t \<Rightarrow> now > t)"

definition tryAcquire ::
  "int \<Rightarrow> nat \<Rightarrow> MemoryMutex \<Rightarrow> memoryLockEntry \<Rightarrow> bool \<times> memoryLockEntry \<times> MemoryMutex \<times> nat" where
  "tryAcquire now counter m e =
    (let e1 = (if entry_expired now e then e\<lparr>le_held := False, le_owner := ''''\<rparr> else e) in
     if le_held e1 then (False, e1, m, counter)
     else
       let counter' = Suc counter; oid = generateOwnerID now counter'
       in (True,
           e1\<lparr>le_held := True, le_owner := oid, le_expiresAt := Some (now + TTL (mm_options m))\<rparr>,
           m\<lparr>mm_ownerID := oid\<rparr>, counter'))"

definition MemoryMutex_TryLock ::
  "bool \<Rightarrow> int \<Rightarrow> nat \<Rightarrow> MemoryMutex \<Rightarrow> memoryLockEntry \<Rightarrow>
   LockError option \<times> memoryLockEntry \<times> MemoryMutex \<times> nat" where
  "MemoryMutex_TryLock ctxDone now counter m e =
    (if ctxDone then (Some CtxErr, e, m, counter)
     else case tryAcquire now counter m e of
         (True, r) \<Rightarrow> (None, r)
       | (False, r) \<Rightarrow> (Some ErrLockAcquireFailed, r))"

definition MemoryMutex_Unlock ::
  "bool \<Rightarrow> MemoryMutex \<Rightarrow> memoryLockEntry \<Rightarrow> LockError option \<times> memoryLockEntry" where
  "MemoryMutex_Unlock ctxDone m e =
    (if ctxDone then (Some CtxErr, e)
     else if \<not> le_held e \<or> le_owner e \<noteq> mm_ownerID m then (Some ErrLockNotHeld, e)
     else (None, e\<lparr>le_held := False, le_owner := '''', le_expiresAt := None\<rparr>))"

definition MemoryMutex_Extend ::
  "bool \<Rightarrow> int \<Rightarrow> MemoryMutex \<Rightarrow> memoryLockEntry \<Rightarrow> LockError option \<times> memoryLockEntry" where
  "MemoryMutex_Extend ctxDone now m e =
    (if ctxDone then (Some CtxErr, e)
     else if \<not> le_held e \<or> le_owner e \<noteq> mm_ownerID m then (Some ErrLockNotHeld, e)
     else (None, e\<lparr>le_expiresAt := Some (now + TTL (mm_options m))\<rparr>))"

text \<open>
  The loop of \<open>Lock\<close>. One observation per iteration: whether the context is done before the
  attempt, the clock at the attempt, what the other users of the entry (and of the owner
  counter) do during the wait, and whether the context is done during the wait. \<open>None\<close> when the
  observations end before the loop does.
\<close>

record lock_obs =
  ob_done :: bool
  ob_now :: int
  ob_others :: "memoryLockEntry \<times> nat \<Rightarrow> memoryLockEntry \<times> nat"
  ob_waitDone :: bool

fun lock_loop ::
  "lock_obs list \<Rightarrow> int \<Rightarrow> nat \<Rightarrow> MemoryMutex \<Rightarrow> memoryLockEntry \<Rightarrow>
   (LockError option \<times> memoryLockEntry \<times> MemoryMutex \<times> nat) option" where
  "lock_loop [] attempts counter m e = None"
| "lock_loop (ob # obs) attempts counter m e =
    (if ob_done ob then Some (Some CtxErr, e, m, counter)
     else case tryAcquire (ob_now ob) counter m e of
         (True, r) \<Rightarrow> Some (None, r)
       | (False, e', m', counter') \<Rightarrow>
          (let rc = RetryCount (mm_options m);
               attempts' = (if rc \<ge> 0 then attempts + 1 else attempts) in
           if rc \<ge> 0 \<and> attempts' > rc then Some (Some ErrLockAcquireFailed, e', m', counter')
           else if ob_waitDone ob then Some (Some CtxErr, e', m', counter')
           else (case ob_others ob (e', counter') of
                   (e'', counter'') \<Rightarrow> lock_loop obs attempts' counter'' m' e'')))"

definition MemoryMutex_Lock ::
  "lock_obs list \<Rightarrow> nat \<Rightarrow> MemoryMutex \<Rightarrow> memoryLockEntry \<Rightarrow>
   (LockError option \<times> memoryLockEntry \<times> MemoryMutex \<times> nat) option" where
  "MemoryMutex_Lock obs counter m e = lock_loop obs 0 counter m e"

section \<open>The noop and the degraded mutex, the Redis mutex\<close>

definition NoopLocker_NewMutex :: "string \<Rightarrow> string \<Rightarrow> Mutex" where
  "NoopLocker_NewMutex pre key =
    MutexNoop (if pre \<noteq> '''' then pre @ '':'' @ key else key)"

definition NoopMutex_op :: "bool \<Rightarrow> LockError option" where
  "NoopMutex_op ctxDone = (if ctxDone then Some CtxErr else None)"

definition degradedMutex_op :: "LockError \<Rightarrow> LockError option" where
  "degradedMutex_op err = Some err"

fun Mutex_Key :: "Mutex \<Rightarrow> string" where
  "Mutex_Key (MutexMemory m) = mm_key m"
| "Mutex_Key (MutexDegraded k err) = k"
| "Mutex_Key (MutexNoop k) = k"

text \<open>\<open>redsync\<close> reports an error by its text; \<open>unlocked\<close> and \<open>extended\<close> are its boolean results.\<close>

definition redis_tries :: "Options \<Rightarrow> int" where
  "redis_tries o1 = (if RetryCount o1 \<ge> 0 then RetryCount o1 + 1 else 1000000)"

definition RedisMutex_Lock :: "string \<Rightarrow> bool \<Rightarrow> string option \<Rightarrow> LockError option" where
  "RedisMutex_Lock key ctxDone err =
    (case err of
       None \<Rightarrow> None
     | Some msg \<Rightarrow>
        if ctxDone then Some CtxErr
        else if Contains msg ''lock already taken'' then Some ErrLockAcquireFailed
        else Some (LockBackendErr (''acquire lock '' @ key @ '': '' @ msg)))"

definition RedisMutex_TryLock :: "string \<Rightarrow> bool \<Rightarrow> string option \<Rightarrow> LockError option" where
  "RedisMutex_TryLock key ctxDone err =
    (case err of
       None \<Rightarrow> None
     | Some msg \<Rightarrow>
        if ctxDone then Some CtxErr
        else if Contains msg ''lock already taken'' then Some ErrLockAcquireFailed
        else Some (LockBackendErr (''try lock '' @ key @ '': '' @ msg)))"

definition RedisMutex_Unlock :: "string \<Rightarrow> bool \<Rightarrow> bool \<times> string option \<Rightarrow> LockError option" where
  "RedisMutex_Unlock key ctxDone res =
    (case res of
       (unlocked, Some msg) \<Rightarrow>
         if ctxDone then Some CtxErr else Some (LockBackendErr (''unlock '' @ key @ '': '' @ msg))
     | (unlocked, None) \<Rightarrow> if \<not> unlocked then Some ErrLockNotHeld else None)"

definition RedisMutex_Extend :: "string \<Rightarrow> bool \<Rightarrow> bool \<times> string option \<Rightarrow> LockError option" where
  "RedisMutex_Extend key ctxDone res =
    (case res of
       (extended, Some msg) \<Rightarrow>
         if ctxDone then Some CtxErr else Some (LockBackendErr (''extend lock '' @ key @ '': '' @ msg))
     | (extended, None) \<Rightarrow> if \<not> extended then Some ErrLockNotHeld else None)"

text \<open>The factory \<open>New\<close>: which locker a configuration selects.\<close>

datatype LockerKind = KRedisLocker | KMemoryLocker string | KNoopLocker string

definition locker_New :: "string \<Rightarrow> bool \<Rightarrow> string \<Rightarrow> string + LockerKind" where
  "locker_New typ hasRedisClient pre =
    (if typ = ''redis'' then
       (if hasRedisClient then Inr KRedisLocker else Inl ''invalid redis client in config'')
     else if typ = ''memory'' then Inr (KMemoryLocker pre)
     else if typ = ''noop'' \<or> typ = '''' then Inr (KNoopLocker pre)
     else if typ = ''etcd'' then Inl ''etcd locker not yet implemented''
     else Inl (''unknown locker type: '' @ typ))"

section \<open>Clients of the memory locker as a step relation\<close>

text \<open>
  The mutex values in use are numbered. A step is one call of one client; the clock never runs
  backwards. An iteration of the loop of \<open>Lock\<close> is a \<open>TryLock\<close> step.
\<close>

record lock_sys =
  sy_locker :: MemoryLocker
  sy_mutexes :: "nat \<Rightarrow> MemoryMutex option"
  sy_counter :: nat
  sy_clock :: int

definition sys_init :: "string \<Rightarrow> lock_sys" where
  "sys_init pre = \<lparr>sy_locker = NewMemoryLocker pre, sy_mutexes = (\<lambda>_. None),
     sy_counter = 0, sy_clock = 0\<rparr>"

definition set_entry :: "string \<Rightarrow> memoryLockEntry \<Rightarrow> MemoryLocker \<Rightarrow> MemoryLocker" where
  "set_entry k e l = l\<lparr>ml_locks := (ml_locks l)(k \<mapsto> e)\<rparr>"

inductive lock_step :: "lock_sys \<Rightarrow> lock_sys \<Rightarrow> bool" where
  tick: "sy_clock s \<le> t \<Longrightarrow> lock_step s (s\<lparr>sy_clock := t\<rparr>)"
| new_mutex: "sy_mutexes s i = None \<Longrightarrow>
    MemoryLocker_NewMutex (sy_locker s) key opts = (MutexMemory m, l') \<Longrightarrow>
    lock_step s (s\<lparr>sy_locker := l', sy_mutexes := (sy_mutexes s)(i \<mapsto> m)\<rparr>)"
| close: "lock_step s (s\<lparr>sy_locker := MemoryLocker_Close (sy_locker s)\<rparr>)"
| try_lock: "sy_mutexes s i = Some m \<Longrightarrow> ml_locks (sy_locker s) (mm_key m) = Some e \<Longrightarrow>
    MemoryMutex_TryLock cdone (sy_clock s) (sy_counter s) m e = (r, e', m', c') \<Longrightarrow>
    lock_step s (s\<lparr>sy_locker := set_entry (mm_key m) e' (sy_locker s),
                   sy_mutexes := (sy_mutexes s)(i \<mapsto> m'), sy_counter := c'\<rparr>)"
| unlock: "sy_mutexes s i = Some m \<Longrightarrow> ml_locks (sy_locker s) (mm_key m) = Some e \<Longrightarrow>
    MemoryMutex_Unlock cdone m e = (r, e') \<Longrightarrow>
    lock_step s (s\<lparr>sy_locker := set_entry (mm_key m) e' (sy_locker s)\<rparr>)"
| extend: "sy_mutexes s i = Some m \<Longrightarrow> ml_locks (sy_locker s) (mm_key m) = Some e \<Longrightarrow>
    MemoryMutex_Extend cdone (sy_clock s) m e = (r, e') \<Longrightarrow>
    lock_step s (s\<lparr>sy_locker := set_entry (mm_key m) e' (sy_locker s)\<rparr>)"

inductive lock_reachable :: "string \<Rightarrow> lock_sys \<Rightarrow> bool" for pre where
  start: "lock_reachable pre (sys_init pre)"
| step: "lock_reachable pre s \<Longrightarrow> lock_step s s' \<Longrightarrow> lock_reachable pre s'"

text \<open>Client \<open>i\<close> holds the lock of its key: \<open>Unlock\<close> and \<open>Extend\<close> accept it.\<close>

definition holds :: "lock_sys \<Rightarrow> nat \<Rightarrow> string \<Rightarrow> bool" where
  "holds s i k \<longleftrightarrow>
    (\<exists>m e. sy_mutexes s i = Some m \<and> mm_key m = k \<and> ml_locks (sy_locker s) k = Some e \<and>
           le_held e \<and> le_owner e = mm_ownerID m)"

text \<open>
  The invariant: owner identifiers come from the counter, no two clients share one, and an
  entry is held exactly when it names an owner.
\<close>

definition issued :: "nat \<Rightarrow> string set" where
  "issued c = {generateOwnerID t n | t n. 0 < n \<and> n \<le> c}"

definition lock_inv :: "lock_sys \<Rightarrow> bool" where
  "lock_inv s \<longleftrightarrow>
    (\<forall>i m. sy_mutexes s i = Some m \<longrightarrow> mm_ownerID m = '''' \<or> mm_ownerID m \<in> issued (sy_counter s)) \<and>
    (\<forall>i j m m'. sy_mutexes s i = Some m \<longrightarrow> sy_mutexes s j = Some m' \<longrightarrow>
        mm_ownerID m = mm_ownerID m' \<longrightarrow> mm_ownerID m \<noteq> '''' \<longrightarrow> i = j) \<and>
    (\<forall>k e. ml_locks (sy_locker s) k = Some e \<longrightarrow>
        (if le_held e then le_owner e \<in> issued (sy_counter s) else le_owner e = ''''))"

section \<open>Owner identifiers\<close>

lemma generateOwnerID_inj: "generateOwnerID t n = generateOwnerID t' n' \<Longrightarrow> n = n'"
proof -
  assume eq: "generateOwnerID t n = generateOwnerID t' n'"
  have key: "takeWhile (\<lambda>c. c \<noteq> CHR ''-'') (rev (generateOwnerID t n)) = rev (nat_str n)" for t n
    using nat_str_no_hyphen [of n]
    by (simp add: generateOwnerID_def) (subst takeWhile_append2, auto)
  have "rev (nat_str n) = rev (nat_str n')" using key [of t n] key [of t' n'] eq by simp
  then show ?thesis by (simp add: nat_str_inj)
qed

lemma generateOwnerID_nonempty [simp]: "generateOwnerID t n \<noteq> ''''"
  by (simp add: generateOwnerID_def)

lemma fresh_owner: "generateOwnerID t (Suc c) \<notin> issued c"
  by (auto simp: issued_def dest: generateOwnerID_inj)

lemma issued_Suc: "generateOwnerID t (Suc c) \<in> issued (Suc c)"
  by (auto simp: issued_def)

lemma issued_mono: "x \<in> issued c \<Longrightarrow> x \<in> issued (Suc c)"
  by (fastforce simp: issued_def)

lemma issued_nonempty: "'''' \<notin> issued c"
  by (auto simp: issued_def) (metis generateOwnerID_nonempty)

section \<open>Mutual exclusion\<close>

lemma lock_inv_init: "lock_inv (sys_init pre)"
  by (simp add: lock_inv_def sys_init_def NewMemoryLocker_def)

lemma lock_inv_entry:
  "lock_inv s \<Longrightarrow> ml_locks (sy_locker s) k = Some e \<Longrightarrow>
   (if le_held e then le_owner e \<in> issued (sy_counter s) else le_owner e = '''')"
  by (simp add: lock_inv_def)

text \<open>Writing back an entry that keeps its owner, its owner field cleared with the held flag.\<close>

lemma lock_inv_set_entry:
  assumes "lock_inv s" and "ml_locks (sy_locker s) k = Some e"
    and "le_held e' \<longrightarrow> le_held e \<and> le_owner e' = le_owner e" and "\<not> le_held e' \<longrightarrow> le_owner e' = ''''"
  shows "lock_inv (s\<lparr>sy_locker := set_entry k e' (sy_locker s)\<rparr>)"
  using assms by (auto simp: lock_inv_def set_entry_def)

lemma lock_inv_new_mutex:
  assumes "lock_inv s" and "sy_mutexes s i = None"
    and "MemoryLocker_NewMutex (sy_locker s) key opts = (MutexMemory m, l')"
  shows "lock_inv (s\<lparr>sy_locker := l', sy_mutexes := (sy_mutexes s)(i \<mapsto> m)\<rparr>)"
proof -
  have m: "mm_ownerID m = ''''"
    and l: "\<forall>k e. ml_locks l' k = Some e \<longrightarrow> ml_locks (sy_locker s) k = Some e \<or> e = entry_zero"
    using assms(3) by (auto simp: MemoryLocker_NewMutex_def Let_def split: if_splits option.splits)
  have "\<forall>k e. ml_locks l' k = Some e \<longrightarrow>
      (if le_held e then le_owner e \<in> issued (sy_counter s) else le_owner e = '''')"
    using l lock_inv_entry [OF assms(1)] by (metis entry_zero_def memoryLockEntry.select_convs(1,2))
  with m assms(1) show ?thesis by (auto simp: lock_inv_def)
qed

lemma lock_invI:
  assumes "\<forall>i m. M i = Some m \<longrightarrow> mm_ownerID m = '''' \<or> mm_ownerID m \<in> issued c"
    and "\<forall>i j m m'. M i = Some m \<longrightarrow> M j = Some m' \<longrightarrow>
        mm_ownerID m = mm_ownerID m' \<longrightarrow> mm_ownerID m \<noteq> '''' \<longrightarrow> i = j"
    and "\<forall>k e. L k = Some e \<longrightarrow> (if le_held e then le_owner e \<in> issued c else le_owner e = '''')"
    and "sy_mutexes s = M" and "ml_locks (sy_locker s) = L" and "sy_counter s = c"
  shows "lock_inv s"
  unfolding lock_inv_def assms(4-6) by (intro conjI assms(1-3))

lemma tryAcquire_True:
  "tryAcquire now c m e = (True, e', m', c') \<Longrightarrow>
     c' = Suc c \<and> mm_key m' = mm_key m \<and> mm_options m' = mm_options m \<and>
     mm_ownerID m' = generateOwnerID now (Suc c) \<and> le_held e' \<and> le_owner e' = mm_ownerID m' \<and>
     le_expiresAt e' = Some (now + TTL (mm_options m)) \<and> (le_held e \<longrightarrow> entry_expired now e)"
  by (auto simp: tryAcquire_def Let_def split: if_splits)

lemma tryAcquire_False:
  "tryAcquire now c m e = (False, e', m', c') \<Longrightarrow>
     e' = e \<and> m' = m \<and> c' = c \<and> le_held e \<and> \<not> entry_expired now e"
  by (auto simp: tryAcquire_def Let_def split: if_splits)

lemma lock_inv_acquire:
  assumes inv: "lock_inv s" and m: "sy_mutexes s i = Some m"
    and e: "ml_locks (sy_locker s) (mm_key m) = Some e"
    and acq: "tryAcquire now (sy_counter s) m e = (True, e', m', c')"
  shows "lock_inv (s\<lparr>sy_locker := set_entry (mm_key m) e' (sy_locker s),
                   sy_mutexes := (sy_mutexes s)(i \<mapsto> m'), sy_counter := c'\<rparr>)"
proof -
  let ?o = "generateOwnerID now (Suc (sy_counter s))"
  have t: "c' = Suc (sy_counter s)" "mm_ownerID m' = ?o" "le_held e'" "le_owner e' = ?o"
    using tryAcquire_True [OF acq] by auto
  have new: "mm_ownerID mj \<noteq> ?o" if "sy_mutexes s j = Some mj" for j mj
    using that inv fresh_owner [of now "sy_counter s"] generateOwnerID_nonempty [of now "Suc (sy_counter s)"]
    unfolding lock_inv_def by metis
  have 1: "\<forall>j mj. ((sy_mutexes s)(i \<mapsto> m')) j = Some mj \<longrightarrow>
      mm_ownerID mj = '''' \<or> mm_ownerID mj \<in> issued (Suc (sy_counter s))"
  proof (intro allI impI)
    fix j mj assume j: "((sy_mutexes s)(i \<mapsto> m')) j = Some mj"
    show "mm_ownerID mj = [] \<or> mm_ownerID mj \<in> issued (Suc (sy_counter s))"
    proof (cases "j = i")
      case True
      with j t(2) issued_Suc show ?thesis by simp
    next
      case False
      with j inv issued_mono show ?thesis unfolding lock_inv_def by (metis fun_upd_other)
    qed
  qed
  have 2: "\<forall>j k mj mk. ((sy_mutexes s)(i \<mapsto> m')) j = Some mj \<longrightarrow>
      ((sy_mutexes s)(i \<mapsto> m')) k = Some mk \<longrightarrow>
      mm_ownerID mj = mm_ownerID mk \<longrightarrow> mm_ownerID mj \<noteq> '''' \<longrightarrow> j = k"
    using inv t(2) new unfolding lock_inv_def by (metis fun_upd_apply option.inject)
  have 3: "\<forall>k x. ((ml_locks (sy_locker s))(mm_key m \<mapsto> e')) k = Some x \<longrightarrow>
      (if le_held x then le_owner x \<in> issued (Suc (sy_counter s)) else le_owner x = '''')"
  proof (intro allI impI)
    fix k x assume kx: "((ml_locks (sy_locker s))(mm_key m \<mapsto> e')) k = Some x"
    show "if le_held x then le_owner x \<in> issued (Suc (sy_counter s)) else le_owner x = ''''"
    proof (cases "k = mm_key m")
      case True
      with kx t(3,4) issued_Suc show ?thesis by simp
    next
      case False
      with kx lock_inv_entry [OF inv, of k x] issued_mono show ?thesis by (simp split: if_splits)
    qed
  qed
  show ?thesis by (rule lock_invI [OF 1 2 3]) (simp_all add: set_entry_def t(1) fun_eq_iff)
qed

lemma lock_inv_same_mutex:
  "lock_inv s \<Longrightarrow> sy_mutexes s i = Some m \<Longrightarrow> ml_locks (sy_locker s) k = Some e \<Longrightarrow>
   lock_inv (s\<lparr>sy_locker := set_entry k e (sy_locker s), sy_mutexes := (sy_mutexes s)(i \<mapsto> m),
               sy_counter := sy_counter s\<rparr>)"
  by (simp add: set_entry_def fun_upd_idem)

lemma lock_step_inv: "lock_step s s' \<Longrightarrow> lock_inv s \<Longrightarrow> lock_inv s'"
proof (induction rule: lock_step.induct)
  case (tick s t)
  then show ?case by (simp add: lock_inv_def)
next
  case (new_mutex s i key opts m l')
  then show ?case by (intro lock_inv_new_mutex)
next
  case (close s)
  then show ?case by (simp add: lock_inv_def MemoryLocker_Close_def)
next
  case (try_lock s i m e cdone r e' m' c')
  obtain b e1 m1 c1 where acq: "tryAcquire (sy_clock s) (sy_counter s) m e = (b, e1, m1, c1)"
    by (cases "tryAcquire (sy_clock s) (sy_counter s) m e")
  show ?case
  proof (cases "\<not> cdone \<and> b")
    case True
    with try_lock acq show ?thesis
      by (intro lock_inv_acquire [where now = "sy_clock s"]) (auto simp: MemoryMutex_TryLock_def)
  next
    case False
    with try_lock.hyps(3) acq tryAcquire_False [of "sy_clock s" "sy_counter s" m e e1 m1 c1]
    have "e' = e \<and> m' = m \<and> c' = sy_counter s"
      by (cases b) (auto simp: MemoryMutex_TryLock_def split: if_splits)
    then show ?thesis using lock_inv_same_mutex [OF try_lock.prems try_lock.hyps(1,2)] by simp
  qed
next
  case (unlock s i m e cdone r e')
  then show ?case
    using lock_inv_entry [OF unlock.prems unlock.hyps(2)]
    by (intro lock_inv_set_entry [where e = e])
      (auto simp: MemoryMutex_Unlock_def split: if_splits)
next
  case (extend s i m e cdone r e')
  then show ?case
    using lock_inv_entry [OF extend.prems extend.hyps(2)]
    by (intro lock_inv_set_entry [where e = e])
      (auto simp: MemoryMutex_Extend_def split: if_splits)
qed

lemma lock_reachable_inv: "lock_reachable pre s \<Longrightarrow> lock_inv s"
  by (induction rule: lock_reachable.induct) (auto intro: lock_inv_init lock_step_inv)

lemma lock_inv_exclusive:
  assumes inv: "lock_inv s" and i: "holds s i k" and j: "holds s j k"
  shows "i = j"
proof -
  from i j obtain mi mj e where m: "sy_mutexes s i = Some mi" "sy_mutexes s j = Some mj"
    and e: "ml_locks (sy_locker s) k = Some e" "le_held e"
      "le_owner e = mm_ownerID mi" "le_owner e = mm_ownerID mj"
    by (auto simp: holds_def)
  have "le_owner e \<noteq> ''''" using lock_inv_entry [OF inv e(1)] e(2) issued_nonempty by auto
  then show ?thesis using inv m e(3,4) unfolding lock_inv_def by metis
qed

section \<open>The loop of Lock\<close>

lemma lock_loop_success:
  "lock_loop obs a c m e = Some (None, e', m', c') \<Longrightarrow>
     le_held e' \<and> le_owner e' = mm_ownerID m' \<and> mm_key m' = mm_key m"
proof (induction obs a c m e rule: lock_loop.induct)
  case (2 ob obs a c m e)
  obtain b e1 m1 c1 where acq: "tryAcquire (ob_now ob) c m e = (b, e1, m1, c1)"
    by (cases "tryAcquire (ob_now ob) c m e")
  show ?case
  proof (cases b)
    case True
    with 2(2) acq tryAcquire_True [of "ob_now ob" c m e e1 m1 c1] show ?thesis
      by (auto split: if_splits)
  next
    case False
    with acq have "m1 = m" using tryAcquire_False [of "ob_now ob" c m e e1 m1 c1] by simp
    with 2 acq False show ?thesis
      by (auto simp: Let_def split: if_splits prod.splits)
  qed
qed simp

text \<open>With a non-negative retry count \<open>Lock\<close> returns after at most that many retries.\<close>

lemma lock_loop_terminates:
  "0 \<le> RetryCount (mm_options m) \<Longrightarrow> a \<le> RetryCount (mm_options m) \<Longrightarrow>
   RetryCount (mm_options m) - a < int (length obs) \<Longrightarrow>
   \<exists>r. lock_loop obs a c m e = Some r"
proof (induction obs arbitrary: a c e)
  case (Cons ob obs)
  obtain b e1 m1 c1 where acq: "tryAcquire (ob_now ob) c m e = (b, e1, m1, c1)"
    by (cases "tryAcquire (ob_now ob) c m e")
  show ?case
  proof (cases "b \<or> ob_done ob \<or> a + 1 > RetryCount (mm_options m) \<or> ob_waitDone ob")
    case True
    with acq Cons.prems show ?thesis by (cases b) (auto simp: Let_def)
  next
    case False
    with acq have "m1 = m" using tryAcquire_False [of "ob_now ob" c m e e1 m1 c1] by simp
    obtain e2 c2 where oth: "ob_others ob (e1, c1) = (e2, c2)" by fastforce
    have "\<exists>r. lock_loop obs (a + 1) c2 m e2 = Some r"
      using Cons.prems False by (intro Cons.IH) auto
    with False acq oth \<open>m1 = m\<close> Cons.prems show ?thesis by (simp add: Let_def)
  qed
qed simp

end
