(* ===== verification/Kube_Shared.thy ===== *)
theory Kube_Shared
  imports Kube_Builder Kube_Locker
begin

text \<open>
  Bookkeeping of the job controllers: which resources a failed job has to delete
  (\<open>event/workflow/job/cleanup_tracker.go\<close>) and how jobs of several workflows share one
  resource (\<open>event/workflow/job/shared.go\<close>), with the lock they use as an interface that the
  memory locker implements.
\<close>

section \<open>The cleanup tracker\<close>

record resourceRef =
  rr_Kind :: string
  rr_Namespace :: string
  rr_Name :: string
  rr_Created :: bool

type_synonym cleanupTracker = "resourceRef list"

definition rr_key :: "resourceRef \<Rightarrow> string \<times> string \<times> string" where
  "rr_key r = (rr_Kind r, rr_Namespace r, rr_Name r)"

definition tracker_add :: "cleanupTracker \<Rightarrow> resourceRef \<Rightarrow> cleanupTracker" where
  "tracker_add t ref =
    (if list_ex (\<lambda>existing. rr_Kind existing = rr_Kind ref \<and> rr_Namespace existing = rr_Namespace ref \<and>
                            rr_Name existing = rr_Name ref) t
     then t else t @ [ref])"

definition tracker_list :: "cleanupTracker \<Rightarrow> string \<Rightarrow> resourceRef list" where
  "tracker_list t kind = filter (\<lambda>ref. kind = '''' \<or> rr_Kind ref = kind) t"

text \<open>The tracker of the context, absent in a context that \<open>WithCleanupTracker\<close> never saw.\<close>

definition WithCleanupTracker :: "cleanupTracker option \<Rightarrow> cleanupTracker option" where
  "WithCleanupTracker ctx = (case ctx of Some t \<Rightarrow> Some t | None \<Rightarrow> Some [])"

definition mark_resource ::
  "bool \<Rightarrow> cleanupTracker option \<Rightarrow> string \<Rightarrow> string \<Rightarrow> string \<Rightarrow> cleanupTracker option" where
  "mark_resource created ctx kind namespace name =
    map_option (\<lambda>t. tracker_add t \<lparr>rr_Kind = kind, rr_Namespace = namespace, rr_Name = name,
                                  rr_Created = created\<rparr>) ctx"

definition MarkResourceCreated ::
  "cleanupTracker option \<Rightarrow> string \<Rightarrow> string \<Rightarrow> string \<Rightarrow> cleanupTracker option" where
  "MarkResourceCreated = mark_resource True"

definition markResourceObserved ::
  "cleanupTracker option \<Rightarrow> string \<Rightarrow> string \<Rightarrow> string \<Rightarrow> cleanupTracker option" where
  "markResourceObserved = mark_resource False"

definition resourcesForCleanup :: "cleanupTracker option \<Rightarrow> string \<Rightarrow> resourceRef list" where
  "resourcesForCleanup ctx kind = (case ctx of None \<Rightarrow> [] | Some t \<Rightarrow> tracker_list t kind)"

section \<open>Shared resources\<close>

definition label_read :: "labels \<Rightarrow> string \<Rightarrow> string" where
  "label_read ls k = (case map_of ls k of None \<Rightarrow> '''' | Some v \<Rightarrow> v)"

definition shareInfoFromLabels :: "labels \<Rightarrow> string \<times> string" where
  "shareInfoFromLabels ls =
    (let name = TrimSpace (label_read ls LabelShareName) in
     if name = '''' then ('''', '''')
     else (name, fst (NormalizeShareStrategy (TrimSpace (label_read ls LabelShareStrategy)))))"

definition shareListOptions :: "string \<Rightarrow> string" where
  "shareListOptions name = LabelShareName @ ''='' @ name"

text \<open>\<open>listFn\<close> counts the objects a label selector matches.\<close>

definition hasSharedResources :: "string \<Rightarrow> (string \<Rightarrow> 'e + int) \<Rightarrow> 'e + bool" where
  "hasSharedResources name listFn =
    (if name = '''' then Inr False
     else case listFn (shareListOptions name) of Inl e \<Rightarrow> Inl e | Inr n \<Rightarrow> Inr (n > 0))"

definition shareLockKey :: "string \<Rightarrow> string \<Rightarrow> string" where
  "shareLockKey kind name =
    (if kind = '''' \<or> name = '''' then '''' else ''kubemin-share:'' @ kind @ '':'' @ name)"

text \<open>
  The lock, as its two operations on a state. \<open>Lock\<close> gives \<open>None\<close> as long as it waits. A result
  \<open>True\<close> of \<open>acquireShareLock\<close> is the non-nil unlock function.
\<close>

type_synonym 's lock_op = "string \<Rightarrow> 's \<Rightarrow> (LockError option \<times> 's) option"

definition acquireShareLock ::
  "'s lock_op \<Rightarrow> string \<Rightarrow> 's \<Rightarrow> ((LockError + bool) \<times> 's) option" where
  "acquireShareLock Lock key s =
    (if key = '''' then Some (Inr False, s)
     else case Lock key s of
         None \<Rightarrow> None
       | Some (Some e, s') \<Rightarrow> Some (Inl e, s')
       | Some (None, s') \<Rightarrow> Some (Inr True, s'))"

datatype 'e share_error = ShareLockError LockError | ShareListError 'e

text \<open>
  The result is the error, or the pair of: is an unlock function returned, is the resource
  shared already (the job is then skipped).
\<close>

definition resolveSharedResource ::
  "'s lock_op \<Rightarrow> (string \<Rightarrow> 's \<Rightarrow> 's) \<Rightarrow> (string \<Rightarrow> 'e + int) \<Rightarrow> string \<Rightarrow> string \<Rightarrow> string \<Rightarrow> 's \<Rightarrow>
   (('e share_error + bool \<times> bool) \<times> 's) option" where
  "resolveSharedResource Lock Unlock listFn name strategy kind s =
    (if name = '''' \<or> strategy = '''' then Some (Inr (False, False), s)
     else if strategy = ShareStrategyIgnore then Some (Inr (False, True), s)
     else if strategy \<noteq> ShareStrategyDefault then Some (Inr (False, False), s)
     else
       let key = shareLockKey kind name in
       case acquireShareLock Lock key s of
         None \<Rightarrow> None
       | Some (Inl e, s') \<Rightarrow> Some (Inl (ShareLockError e), s')
       | Some (Inr unlock, s') \<Rightarrow>
          (let released = (if unlock then Unlock key s' else s') in
           case hasSharedResources name listFn of
             Inl e \<Rightarrow> Some (Inl (ShareListError e), released)
           | Inr True \<Rightarrow> Some (Inr (False, True), released)
           | Inr False \<Rightarrow> Some (Inr (unlock, False), s')))"

section \<open>Tracker lemmas\<close>

definition tracker_wf :: "cleanupTracker \<Rightarrow> bool" where
  "tracker_wf t \<longleftrightarrow> distinct (map rr_key t)"

lemma tracker_add_known: "rr_key ref \<in> rr_key ` set t \<Longrightarrow> tracker_add t ref = t"
  by (auto simp: tracker_add_def rr_key_def list_ex_iff)

lemma tracker_add_new: "rr_key ref \<notin> rr_key ` set t \<Longrightarrow> tracker_add t ref = t @ [ref]"
  by (auto simp: tracker_add_def rr_key_def list_ex_iff image_iff)

lemma tracker_wf_add: "tracker_wf t \<Longrightarrow> tracker_wf (tracker_add t ref)"
  by (cases "rr_key ref \<in> rr_key ` set t") (auto simp: tracker_add_known tracker_add_new tracker_wf_def)

lemma tracker_wf_fold: "tracker_wf t \<Longrightarrow> tracker_wf (fold (\<lambda>ref u. tracker_add u ref) refs t)"
  by (induction refs arbitrary: t) (auto simp: tracker_wf_add)

text \<open>The first mention of a resource decides: later mentions neither add nor change an entry.\<close>

lemma tracker_first_mention:
  "r \<in> set (fold (\<lambda>ref u. tracker_add u ref) refs []) \<longleftrightarrow> find (\<lambda>x. rr_key x = rr_key r) refs = Some r"
proof (induction refs arbitrary: r rule: rev_induct)
  case (snoc x xs)
  let ?t = "fold (\<lambda>ref u. tracker_add u ref) xs []"
  have keys: "rr_key x \<in> rr_key ` set ?t \<longleftrightarrow> find (\<lambda>y. rr_key y = rr_key x) xs \<noteq> None"
  proof
    assume "rr_key x \<in> rr_key ` set ?t"
    then obtain y where "y \<in> set ?t" and y: "rr_key x = rr_key y" by auto
    with snoc.IH [of y] show "find (\<lambda>y. rr_key y = rr_key x) xs \<noteq> None" by simp
  next
    assume "find (\<lambda>y. rr_key y = rr_key x) xs \<noteq> None"
    then obtain y where f: "find (\<lambda>y. rr_key y = rr_key x) xs = Some y" by blast
    then have "rr_key y = rr_key x" by (auto simp: find_Some_iff)
    with f snoc.IH [of y] show "rr_key x \<in> rr_key ` set ?t" by (metis image_eqI)
  qed
  show ?case
  proof (cases "rr_key x \<in> rr_key ` set ?t")
    case True
    with keys have "rr_key r = rr_key x \<Longrightarrow> find (\<lambda>y. rr_key y = rr_key r) xs \<noteq> None" by simp
    then show ?thesis
      using snoc.IH [of r] True
      by (auto simp: tracker_add_known find_append split: option.splits)
  next
    case False
    with keys have "find (\<lambda>y. rr_key y = rr_key x) xs = None" by simp
    then show ?thesis
      using snoc.IH [of r] False
      by (auto simp: tracker_add_new find_append split: option.splits)
  qed
qed simp

section \<open>The lock as an interface\<close>

lemma shareLockKey_nonempty: "kind \<noteq> '''' \<Longrightarrow> name \<noteq> '''' \<Longrightarrow> shareLockKey kind name \<noteq> ''''"
  by (simp add: shareLockKey_def)

text \<open>
  What the sharing protocol needs of a locker: after a successful \<open>Lock\<close> the caller holds the
  key, after a failing one it does not, and it does not hold it after \<open>Unlock\<close>.
\<close>

locale share_lock =
  fixes Lock :: "'s lock_op" and Unlock :: "string \<Rightarrow> 's \<Rightarrow> 's" and held :: "'s \<Rightarrow> string \<Rightarrow> bool"
  assumes Lock_ok: "Lock k s = Some (None, s') \<Longrightarrow> held s' k"
    and Lock_error: "Lock k s = Some (Some e, s') \<Longrightarrow> \<not> held s' k"
    and Unlock_ok: "\<not> held (Unlock k s) k"
begin

text \<open>Deploying goes ahead only under the lock, after the check that no such resource exists.\<close>

lemma resolve_proceeds:
  assumes "resolveSharedResource Lock Unlock listFn name ShareStrategyDefault kind s
      = Some (Inr (unlock, False), s')"
    and "name \<noteq> ''''" and "kind \<noteq> ''''"
  shows "unlock \<and> held s' (shareLockKey kind name) \<and>
    (\<exists>n. listFn (shareListOptions name) = Inr n \<and> n \<le> 0)"
  using assms Lock_ok [of "shareLockKey kind name" s]
  by (auto simp: resolveSharedResource_def acquireShareLock_def hasSharedResources_def Let_def
      shareLockKey_nonempty split: option.splits sum.splits if_splits bool.splits)

text \<open>Every other answer leaves the lock free.\<close>

lemma resolve_releases:
  assumes "resolveSharedResource Lock Unlock listFn name ShareStrategyDefault kind s = Some (res, s')"
    and "name \<noteq> ''''" and "kind \<noteq> ''''" and "\<forall>u. res \<noteq> Inr (u, False)"
  shows "\<not> held s' (shareLockKey kind name)"
  using assms Lock_error [of "shareLockKey kind name" s] Unlock_ok [of "shareLockKey kind name"]
  by (auto simp: resolveSharedResource_def acquireShareLock_def hasSharedResources_def Let_def
      shareLockKey_nonempty split: option.splits sum.splits if_splits bool.splits)

end

section \<open>The memory locker provides it\<close>

text \<open>The state of one client of a memory locker: the locker, the mutex it uses, the owner counter.\<close>

record mem_lock_state =
  ms_locker :: MemoryLocker
  ms_mutex :: "MemoryMutex option"
  ms_counter :: nat

definition mem_Lock :: "lock_obs list \<Rightarrow> mem_lock_state lock_op" where
  "mem_Lock obs key s =
    (case MemoryLocker_NewMutex (ms_locker s) key [] of
       (MutexMemory m, l) \<Rightarrow>
         (case ml_locks l (mm_key m) of
            None \<Rightarrow> None
          | Some e \<Rightarrow>
             (case MemoryMutex_Lock obs (ms_counter s) m e of
                None \<Rightarrow> None
              | Some (err, e', m', c) \<Rightarrow>
                  Some (err, \<lparr>ms_locker = l\<lparr>ml_locks := (ml_locks l)(mm_key m' \<mapsto> e')\<rparr>,
                              ms_mutex = Some m', ms_counter = c\<rparr>)))
     | (MutexDegraded k err, l) \<Rightarrow> Some (Some err, s\<lparr>ms_mutex := None\<rparr>)
     | (MutexNoop k, l) \<Rightarrow> None)"

text \<open>The unlock function: its context is fresh, and an error is only logged.\<close>

definition mem_Unlock :: "string \<Rightarrow> mem_lock_state \<Rightarrow> mem_lock_state" where
  "mem_Unlock key s =
    (case ms_mutex s of
       None \<Rightarrow> s
     | Some m \<Rightarrow>
        (case ml_locks (ms_locker s) (mm_key m) of
           None \<Rightarrow> s
         | Some e \<Rightarrow>
             s\<lparr>ms_locker := (ms_locker s)\<lparr>ml_locks :=
                (ml_locks (ms_locker s))(mm_key m \<mapsto> snd (MemoryMutex_Unlock False m e))\<rparr>\<rparr>))"

definition mem_held :: "mem_lock_state \<Rightarrow> string \<Rightarrow> bool" where
  "mem_held s key =
    (case ms_mutex s of
       None \<Rightarrow> False
     | Some m \<Rightarrow>
        (case ml_locks (ms_locker s) (mm_key m) of
           None \<Rightarrow> False
         | Some e \<Rightarrow> mm_key m = prefixedKey (ml_prefix (ms_locker s)) key \<and>
             mm_ownerID m \<noteq> '''' \<and> le_held e \<and> le_owner e = mm_ownerID m))"

lemma lock_loop_owner:
  "lock_loop obs a c m e = Some (err, e', m', c') \<Longrightarrow>
   (err = None \<longrightarrow> mm_ownerID m' \<noteq> '''') \<and> (err \<noteq> None \<longrightarrow> m' = m)"
proof (induction obs a c m e rule: lock_loop.induct)
  case (2 ob obs a c m e)
  obtain b e1 m1 c1 where acq: "tryAcquire (ob_now ob) c m e = (b, e1, m1, c1)"
    by (cases "tryAcquire (ob_now ob) c m e")
  show ?case
  proof (cases b)
    case True
    with 2(2) acq tryAcquire_True [of "ob_now ob" c m e e1 m1 c1] show ?thesis
      by (auto split: if_splits)
  next
    case False
    with acq have "m1 = m" using tryAcquire_False [of "ob_now ob" c m e e1 m1 c1] by simp
    with 2 acq False show ?thesis
      by (auto simp: Let_def split: if_splits prod.splits)
  qed
qed simp

lemma NewMutex_memory:
  "MemoryLocker_NewMutex l key opts = (MutexMemory m, l') \<Longrightarrow>
   mm_key m = prefixedKey (ml_prefix l) key \<and> mm_ownerID m = '''' \<and> ml_prefix l' = ml_prefix l"
  by (auto simp: MemoryLocker_NewMutex_def Let_def split: if_splits option.splits)

interpretation mem_share: share_lock "mem_Lock obs" mem_Unlock mem_held for obs
proof (unfold_locales, goal_cases)
  case (1 k s s')
  then obtain m l e e' m' c where
    nm: "MemoryLocker_NewMutex (ms_locker s) k [] = (MutexMemory m, l)" and
    lk: "lock_loop obs 0 (ms_counter s) m e = Some (None, e', m', c)" and
    s': "s' = \<lparr>ms_locker = l\<lparr>ml_locks := (ml_locks l)(mm_key m' \<mapsto> e')\<rparr>, ms_mutex = Some m', ms_counter = c\<rparr>"
    by (auto simp: mem_Lock_def MemoryMutex_Lock_def split: prod.splits Mutex.splits option.splits)
  from lock_loop_success [OF lk] lock_loop_owner [OF lk] NewMutex_memory [OF nm]
  show ?case by (simp add: mem_held_def s')
next
  case (2 k s e1 s')
  then consider "s' = s\<lparr>ms_mutex := None\<rparr>"
    | m l e e' m' c where
      "MemoryLocker_NewMutex (ms_locker s) k [] = (MutexMemory m, l)"
      "lock_loop obs 0 (ms_counter s) m e = Some (Some e1, e', m', c)"
      "s' = \<lparr>ms_locker = l\<lparr>ml_locks := (ml_locks l)(mm_key m' \<mapsto> e')\<rparr>, ms_mutex = Some m', ms_counter = c\<rparr>"
    by (auto simp: mem_Lock_def MemoryMutex_Lock_def split: prod.splits Mutex.splits option.splits)
  then show ?case
  proof cases
    case 1
    then show ?thesis by (simp add: mem_held_def)
  next
    case 2
    with lock_loop_owner [OF 2(2)] NewMutex_memory [OF 2(1)] show ?thesis
      by (simp add: mem_held_def)
  qed
next
  case (3 k s)
  show ?case
    by (auto simp: mem_held_def mem_Unlock_def MemoryMutex_Unlock_def split: option.splits)
qed

end
