(* ===== verification/Kube_Cancel.thy ===== *)
theory Kube_Cancel
  imports Kube_Config
begin

text \<open>
  Cancellation signals: \<open>workflow/signal/cancel.go\<close>. A watcher is identified by a number; the
  world records, per watcher, the reason in its \<open>cancelState\<close>, whether its derived context has
  been cancelled and whether it was stopped, and the process-wide \<open>localCancelRegistry\<close>.

  With Redis, the signal is a key whose value is the watcher's token or a cancel marker. The
  Redis client is a parameter (\<open>redis_client\<close>); what the code relies on is the locale
  \<open>redis_kv\<close>, where \<open>kv\<close> is the content of the keyspace visible at the time of a call.
\<close>

section \<open>Markers\<close>

definition cancelKeyPrefix :: string where
  "cancelKeyPrefix = ''kubemin:workflow:cancel:''"

definition cancelMarker :: "string \<Rightarrow> string" where
  "cancelMarker reason =
    (let trimmed = TrimSpace reason;
         trimmed' = (if trimmed = '''' then ''cancelled'' else trimmed)
     in ''cancelled:'' @ trimmed')"

definition isCancelledToken :: "string \<Rightarrow> bool" where
  "isCancelledToken val = HasPrefix val ''cancelled:''"

text \<open>\<open>strings.SplitN(s, ":", 2)\<close>.\<close>

definition splitN2 :: "char \<Rightarrow> string \<Rightarrow> string list" where
  "splitN2 sep s =
    (case dropWhile (\<lambda>c. c \<noteq> sep) s of
       [] \<Rightarrow> [s]
     | _ # rest \<Rightarrow> [takeWhile (\<lambda>c. c \<noteq> sep) s, rest])"

definition extractCancelReason :: "string \<Rightarrow> string" where
  "extractCancelReason val =
    (if \<not> isCancelledToken val then ''cancelled''
     else case splitN2 CHR '':'' val of
         [_, r] \<Rightarrow> if r = '''' then ''cancelled'' else r
       | _ \<Rightarrow> ''cancelled'')"

section \<open>State\<close>

record CancelWatcher =
  cw_id :: nat
  cw_redis :: bool
  cw_key :: string
  cw_token :: string
  cw_taskID :: string
  cw_hasCancelFn :: bool

record cancel_world =
  watchers :: "string \<Rightarrow> nat list option"
  state_reason :: "nat \<Rightarrow> string"
  ctx_cancelled :: "nat \<Rightarrow> bool"
  stopped :: "nat \<Rightarrow> bool"
  next_id :: nat

definition cancel_init :: cancel_world where
  "cancel_init = \<lparr>watchers = (\<lambda>_. None), state_reason = (\<lambda>_. ''''),
     ctx_cancelled = (\<lambda>_. False), stopped = (\<lambda>_. False), next_id = 0\<rparr>"

section \<open>The in-memory registry\<close>

definition registry_add :: "string \<Rightarrow> nat \<Rightarrow> cancel_world \<Rightarrow> cancel_world" where
  "registry_add taskID i w =
    (let ls = (case watchers w taskID of None \<Rightarrow> [] | Some ls \<Rightarrow> ls)
     in w\<lparr>watchers := (watchers w)(taskID \<mapsto> (if i \<in> set ls then ls else ls @ [i]))\<rparr>)"

definition registry_remove :: "string \<Rightarrow> nat \<Rightarrow> cancel_world \<Rightarrow> cancel_world" where
  "registry_remove taskID i w =
    (case watchers w taskID of
       None \<Rightarrow> w
     | Some ls \<Rightarrow>
        (let ls' = filter (\<lambda>j. j \<noteq> i) ls
         in w\<lparr>watchers := (if ls' = [] then (watchers w)(taskID := None)
                            else (watchers w)(taskID \<mapsto> ls'))\<rparr>))"

definition registry_cancel :: "string \<Rightarrow> string \<Rightarrow> cancel_world \<Rightarrow> cancel_world" where
  "registry_cancel taskID reason w =
    (let listeners = (case watchers w taskID of None \<Rightarrow> [] | Some ls \<Rightarrow> ls);
         w1 = w\<lparr>watchers := (watchers w)(taskID := None)\<rparr>
     in fold (\<lambda>i w'. w'\<lparr>state_reason := (state_reason w')(i := reason),
                        ctx_cancelled := (ctx_cancelled w')(i := True)\<rparr>) listeners w1)"

section \<open>The Redis client\<close>

datatype redis_get = RedisNil | RedisErr string | RedisVal string

record 'r redis_client =
  rd_SetNX :: "'r \<Rightarrow> string \<Rightarrow> string \<Rightarrow> (string + bool) \<times> 'r"
  rd_Get :: "'r \<Rightarrow> string \<Rightarrow> redis_get"
  rd_Set :: "'r \<Rightarrow> string \<Rightarrow> string \<Rightarrow> string option \<times> 'r"
  rd_Del :: "'r \<Rightarrow> string \<Rightarrow> string option \<times> 'r"
  rd_Expire :: "'r \<Rightarrow> string \<Rightarrow> string option \<times> 'r"

section \<open>Watch, Cancel, Stop, step\<close>

text \<open>A fresh watcher: its number, an empty reason, a live context.\<close>

definition new_watcher :: "cancel_world \<Rightarrow> cancel_world" where
  "new_watcher w = w\<lparr>state_reason := (state_reason w)(next_id w := ''''),
     ctx_cancelled := (ctx_cancelled w)(next_id w := False),
     stopped := (stopped w)(next_id w := False), next_id := Suc (next_id w)\<rparr>"

definition set_reason :: "nat \<Rightarrow> string \<Rightarrow> cancel_world \<Rightarrow> cancel_world" where
  "set_reason i reason w = w\<lparr>state_reason := (state_reason w)(i := reason)\<rparr>"

definition cancel_ctx :: "nat \<Rightarrow> cancel_world \<Rightarrow> cancel_world" where
  "cancel_ctx i w = w\<lparr>ctx_cancelled := (ctx_cancelled w)(i := True)\<rparr>"

text \<open>\<open>token\<close> is the value of \<open>uuid.NewString()\<close>. The error of the first component is its text.\<close>

definition WatchWithClient ::
  "'r redis_client option \<Rightarrow> string \<Rightarrow> string \<Rightarrow> cancel_world \<Rightarrow> 'r \<Rightarrow>
   (string + CancelWatcher) \<times> cancel_world \<times> 'r" where
  "WatchWithClient cli taskID token w rs =
    (case cli of
       None \<Rightarrow>
        (let i = next_id w;
             watcher = \<lparr>cw_id = i, cw_redis = False, cw_key = '''', cw_token = '''',
                        cw_taskID = taskID, cw_hasCancelFn = True\<rparr>
         in (Inr watcher, registry_add taskID i (new_watcher w), rs))
     | Some rd \<Rightarrow>
        (let key = cancelKeyPrefix @ taskID; i = next_id w; w1 = new_watcher w;
             watcher = \<lparr>cw_id = i, cw_redis = True, cw_key = key, cw_token = token,
                        cw_taskID = taskID, cw_hasCancelFn = True\<rparr>
         in case rd_SetNX rd rs key token of
              (Inl err, rs') \<Rightarrow> (Inl (''acquire cancel watcher lock: '' @ err), w1, rs')
            | (Inr True, rs') \<Rightarrow> (Inr watcher, w1, rs')
            | (Inr False, rs') \<Rightarrow>
               (case rd_Get rd rs' key of
                  RedisErr err \<Rightarrow> (Inl (''inspect existing cancel key: '' @ err), w1, rs')
                | g \<Rightarrow>
                   (let existing = (case g of RedisVal v \<Rightarrow> v | _ \<Rightarrow> '''') in
                    if isCancelledToken existing
                    then (Inr (watcher\<lparr>cw_hasCancelFn := False\<rparr>),
                          cancel_ctx i (set_reason i (extractCancelReason existing) w1), rs')
                    else (Inl (''task '' @ taskID @ '' already running''), w1, rs')))))"

definition CancelWithClient ::
  "'r redis_client option \<Rightarrow> string \<Rightarrow> string \<Rightarrow> cancel_world \<Rightarrow> 'r \<Rightarrow>
   string option \<times> cancel_world \<times> 'r" where
  "CancelWithClient cli taskID reason w rs =
    (case cli of
       None \<Rightarrow> (None, registry_cancel taskID (extractCancelReason (cancelMarker reason)) w, rs)
     | Some rd \<Rightarrow>
        (case rd_Set rd rs (cancelKeyPrefix @ taskID) (cancelMarker reason) of
           (err, rs') \<Rightarrow> (err, w, rs')))"

text \<open>\<open>Stop\<close>: \<open>sync.Once\<close> makes a second call a no-op.\<close>

definition CancelWatcher_Stop ::
  "'r redis_client option \<Rightarrow> CancelWatcher \<Rightarrow> cancel_world \<Rightarrow> 'r \<Rightarrow> cancel_world \<times> 'r" where
  "CancelWatcher_Stop cli cw w rs =
    (if stopped w (cw_id cw) then (w, rs)
     else
       let w1 = w\<lparr>stopped := (stopped w)(cw_id cw := True)\<rparr> in
       case (cw_redis cw, cli) of
         (True, Some rd) \<Rightarrow>
           (case rd_Get rd rs (cw_key cw) of
              RedisErr _ \<Rightarrow> (w1, rs)
            | g \<Rightarrow> (let val = (case g of RedisVal v \<Rightarrow> v | _ \<Rightarrow> '''') in
                    if val = cw_token cw then (w1, snd (rd_Del rd rs (cw_key cw))) else (w1, rs)))
       | _ \<Rightarrow> (registry_remove (cw_taskID cw) (cw_id cw) w1, rs))"

text \<open>One tick of \<open>maintain\<close>.\<close>

definition CancelWatcher_step ::
  "'r redis_client option \<Rightarrow> CancelWatcher \<Rightarrow> cancel_world \<Rightarrow> 'r \<Rightarrow> cancel_world \<times> 'r" where
  "CancelWatcher_step cli cw w rs =
    (case cli of
       None \<Rightarrow> (w, rs)
     | Some rd \<Rightarrow>
        (case rd_Get rd rs (cw_key cw) of
           RedisNil \<Rightarrow> (cancel_ctx (cw_id cw) w, rs)
         | RedisErr _ \<Rightarrow> (w, rs)
         | RedisVal val \<Rightarrow>
            (if val \<noteq> cw_token cw
             then (cancel_ctx (cw_id cw) (set_reason (cw_id cw) (extractCancelReason val) w), rs)
             else (w, snd (rd_Expire rd rs (cw_key cw))))))"

definition ReasonFromContext :: "cancel_world \<Rightarrow> CancelWatcher option \<Rightarrow> string" where
  "ReasonFromContext w cwo = (case cwo of None \<Rightarrow> '''' | Some cw \<Rightarrow> state_reason w (cw_id cw))"

section \<open>What the code relies on\<close>

text \<open>
  The documented commands: \<open>SET NX\<close> writes exactly when the key is absent, \<open>GET\<close>, \<open>SET\<close> and
  \<open>DEL\<close> read, write and remove one key, \<open>EXPIRE\<close> keeps the value. A failing command has no
  effect.
\<close>

locale redis_kv =
  fixes rd :: "'r redis_client" and kv :: "'r \<Rightarrow> string \<Rightarrow> string option"
  assumes SetNX_True: "rd_SetNX rd s k v = (Inr True, s') \<Longrightarrow> kv s k = None \<and> kv s' = (kv s)(k \<mapsto> v)"
    and SetNX_False: "rd_SetNX rd s k v = (Inr False, s') \<Longrightarrow> kv s k \<noteq> None \<and> kv s' = kv s"
    and SetNX_err: "rd_SetNX rd s k v = (Inl e, s') \<Longrightarrow> kv s' = kv s"
    and Get_Nil: "rd_Get rd s k = RedisNil \<Longrightarrow> kv s k = None"
    and Get_Val: "rd_Get rd s k = RedisVal v \<Longrightarrow> kv s k = Some v"
    and Set_ok: "rd_Set rd s k v = (None, s') \<Longrightarrow> kv s' = (kv s)(k \<mapsto> v)"
    and Set_err: "rd_Set rd s k v = (Some e, s') \<Longrightarrow> kv s' = kv s"
    and Del_ok: "rd_Del rd s k = (None, s') \<Longrightarrow> kv s' = (kv s)(k := None)"
    and Del_err: "rd_Del rd s k = (Some e, s') \<Longrightarrow> kv s' = kv s"
    and Expire_kv: "kv (snd (rd_Expire rd s k)) = kv s"

section \<open>Markers: lemmas\<close>

lemma isCancelledToken_marker [simp]: "isCancelledToken (''cancelled:'' @ r)"
  unfolding isCancelledToken_def by (rule HasPrefix_append)

lemma splitN2_marker: "splitN2 CHR '':'' (''cancelled:'' @ r) = [''cancelled'', r]"
  by (simp add: splitN2_def)

lemma extractCancelReason_marker:
  "extractCancelReason (''cancelled:'' @ r) = (if r = '''' then ''cancelled'' else r)"
  unfolding extractCancelReason_def splitN2_marker by (simp only: isCancelledToken_marker) simp

lemma extract_cancelMarker:
  "extractCancelReason (cancelMarker reason) =
    (if TrimSpace reason = '''' then ''cancelled'' else TrimSpace reason)"
  by (simp only: cancelMarker_def Let_def extractCancelReason_marker) simp

lemma isCancelledToken_cancelMarker [simp]: "isCancelledToken (cancelMarker reason)"
  by (simp only: cancelMarker_def Let_def isCancelledToken_marker)

lemma extractCancelReason_nonempty: "extractCancelReason val \<noteq> ''''"
  by (auto simp: extractCancelReason_def split: list.splits)

section \<open>The registry: lemmas\<close>

text \<open>Well-formedness: no key with an empty listener set, no listener twice.\<close>

definition registry_wf :: "cancel_world \<Rightarrow> bool" where
  "registry_wf w \<longleftrightarrow> (\<forall>t ls. watchers w t = Some ls \<longrightarrow> ls \<noteq> [] \<and> distinct ls)"

lemma registry_wf_init: "registry_wf cancel_init"
  by (simp add: registry_wf_def cancel_init_def)

lemma registry_wf_add: "registry_wf w \<Longrightarrow> registry_wf (registry_add t i w)"
  by (auto simp: registry_wf_def registry_add_def Let_def split: option.splits)

lemma registry_wf_remove: "registry_wf w \<Longrightarrow> registry_wf (registry_remove t i w)"
  by (auto simp: registry_wf_def registry_remove_def Let_def split: option.splits if_splits)

lemma registry_cancel_fold:
  fixes ls :: "nat list" and w :: cancel_world
  defines "f \<equiv> \<lambda>r i w'. w'\<lparr>state_reason := (state_reason w')(i := r),
                        ctx_cancelled := (ctx_cancelled w')(i := True)\<rparr>"
  shows "watchers (fold (f r) ls w) = watchers w"
    and "stopped (fold (f r) ls w) = stopped w"
    and "next_id (fold (f r) ls w) = next_id w"
    and "ctx_cancelled (fold (f r) ls w) i = (i \<in> set ls \<or> ctx_cancelled w i)"
    and "state_reason (fold (f r) ls w) i = (if i \<in> set ls then r else state_reason w i)"
  by (induction ls arbitrary: w) (auto simp: f_def)

lemma registry_cancel_simps [simp]:
  "watchers (registry_cancel t r w) = (watchers w)(t := None)"
  "stopped (registry_cancel t r w) = stopped w"
  "next_id (registry_cancel t r w) = next_id w"
  "ctx_cancelled (registry_cancel t r w) i =
     (i \<in> set (case watchers w t of None \<Rightarrow> [] | Some ls \<Rightarrow> ls) \<or> ctx_cancelled w i)"
  "state_reason (registry_cancel t r w) i =
     (if i \<in> set (case watchers w t of None \<Rightarrow> [] | Some ls \<Rightarrow> ls) then r else state_reason w i)"
  by (cases "watchers w t"; simp add: registry_cancel_def Let_def registry_cancel_fold)+

lemma registry_wf_cancel: "registry_wf w \<Longrightarrow> registry_wf (registry_cancel t r w)"
  by (auto simp: registry_wf_def)

lemma new_watcher_simps [simp]:
  "watchers (new_watcher w) = watchers w"
  "next_id (new_watcher w) = Suc (next_id w)"
  "ctx_cancelled (new_watcher w) = (ctx_cancelled w)(next_id w := False)"
  "state_reason (new_watcher w) = (state_reason w)(next_id w := '''')"
  "stopped (new_watcher w) = (stopped w)(next_id w := False)"
  by (simp_all add: new_watcher_def)

lemma cancel_ctx_simps [simp]:
  "watchers (cancel_ctx i w) = watchers w"
  "ctx_cancelled (cancel_ctx i w) = (ctx_cancelled w)(i := True)"
  "state_reason (cancel_ctx i w) = state_reason w"
  "stopped (cancel_ctx i w) = stopped w"
  by (simp_all add: cancel_ctx_def)

lemma set_reason_simps [simp]:
  "watchers (set_reason i r w) = watchers w"
  "ctx_cancelled (set_reason i r w) = ctx_cancelled w"
  "state_reason (set_reason i r w) = (state_reason w)(i := r)"
  "stopped (set_reason i r w) = stopped w"
  by (simp_all add: set_reason_def)

lemma registry_add_simps [simp]:
  "ctx_cancelled (registry_add t i w) = ctx_cancelled w"
  "state_reason (registry_add t i w) = state_reason w"
  "stopped (registry_add t i w) = stopped w"
  "next_id (registry_add t i w) = next_id w"
  by (simp_all add: registry_add_def Let_def)

lemma registry_add_listens:
  "i \<in> set (case watchers (registry_add t i w) t of None \<Rightarrow> [] | Some ls \<Rightarrow> ls)"
  by (simp add: registry_add_def Let_def)

lemma registry_remove_silent:
  "i \<notin> set (case watchers (registry_remove t i w) t of None \<Rightarrow> [] | Some ls \<Rightarrow> ls)"
  by (auto simp: registry_remove_def Let_def split: option.splits)

lemma registry_remove_simps [simp]:
  "ctx_cancelled (registry_remove t i w) = ctx_cancelled w"
  "state_reason (registry_remove t i w) = state_reason w"
  "stopped (registry_remove t i w) = stopped w"
  by (simp_all add: registry_remove_def Let_def split: option.splits)

section \<open>Redis mode: lemmas\<close>

context redis_kv
begin

lemma Watch_claims:
  assumes "WatchWithClient (Some rd) t tok w rs = (Inr cw, w', rs')" and "cw_hasCancelFn cw"
  shows "kv rs (cancelKeyPrefix @ t) = None \<and> kv rs' = (kv rs)(cancelKeyPrefix @ t \<mapsto> tok) \<and>
         cw_key cw = cancelKeyPrefix @ t \<and> cw_token cw = tok \<and> cw_redis cw \<and>
         \<not> ctx_cancelled w' (cw_id cw)"
  using assms
  by (auto simp: WatchWithClient_def Let_def
      split: prod.splits sum.splits bool.splits redis_get.splits if_splits dest: SetNX_True)

lemma Watch_busy:
  assumes "WatchWithClient (Some rd) t tok w rs = (Inr cw, w', rs')" and "cw_hasCancelFn cw"
    and "\<not> isCancelledToken tok"
  shows "\<exists>err. fst (WatchWithClient (Some rd) t tok2 w2 rs') = Inl err"
proof -
  have k: "kv rs' (cancelKeyPrefix @ t) = Some tok" using Watch_claims [OF assms(1,2)] by simp
  obtain r s2 where nx: "rd_SetNX rd rs' (cancelKeyPrefix @ t) tok2 = (r, s2)" by fastforce
  show ?thesis
  proof (cases r)
    case (Inl e)
    with nx show ?thesis by (simp add: WatchWithClient_def Let_def)
  next
    case (Inr b)
    have "\<not> b" using SetNX_True [of rs' "cancelKeyPrefix @ t" tok2 s2] nx Inr k by (cases b) auto
    with Inr nx have "kv s2 = kv rs'" using SetNX_False [of rs' "cancelKeyPrefix @ t" tok2 s2] by simp
    with k have "rd_Get rd s2 (cancelKeyPrefix @ t) \<in> {RedisVal tok} \<union> range RedisErr"
      using Get_Nil [of s2] Get_Val [of s2] by (cases "rd_Get rd s2 (cancelKeyPrefix @ t)") auto
    with Inr nx \<open>\<not> b\<close> assms(3) show ?thesis by (auto simp: WatchWithClient_def Let_def)
  qed
qed

text \<open>A cancel marker found by the next tick cancels the context and records the reason.\<close>

lemma step_cancelled:
  assumes "kv rs (cw_key cw) = Some val" and "val \<noteq> cw_token cw"
    and "CancelWatcher_step (Some rd) cw w rs = (w', rs')"
    and "\<forall>e. rd_Get rd rs (cw_key cw) \<noteq> RedisErr e"
  shows "ctx_cancelled w' (cw_id cw) \<and> state_reason w' (cw_id cw) = extractCancelReason val"
  using assms Get_Nil [of rs "cw_key cw"] Get_Val [of rs "cw_key cw"]
  by (cases "rd_Get rd rs (cw_key cw)") (auto simp: CancelWatcher_step_def)

lemma step_alive:
  assumes "kv rs (cw_key cw) = Some (cw_token cw)"
    and "CancelWatcher_step (Some rd) cw w rs = (w', rs')"
  shows "w' = w \<and> kv rs' = kv rs"
  using assms Get_Nil [of rs "cw_key cw"] Get_Val [of rs "cw_key cw"] Expire_kv [of rs "cw_key cw"]
  by (cases "rd_Get rd rs (cw_key cw)") (auto simp: CancelWatcher_step_def)

text \<open>\<open>Stop\<close> removes the watcher's own token but never a cancel marker.\<close>

lemma Stop_keeps_marker:
  assumes "kv rs (cw_key cw) = Some val" and "val \<noteq> cw_token cw" and "cw_redis cw"
    and "CancelWatcher_Stop (Some rd) cw w rs = (w', rs')"
  shows "kv rs' = kv rs"
  using assms Get_Nil [of rs "cw_key cw"] Get_Val [of rs "cw_key cw"]
  by (cases "rd_Get rd rs (cw_key cw)")
    (auto simp: CancelWatcher_Stop_def Let_def split: if_splits)

text \<open>A watch on a task that carries a marker starts cancelled, with the marker's reason.\<close>

lemma Watch_marked:
  assumes "kv rs (cancelKeyPrefix @ t) = Some (cancelMarker reason)"
    and "WatchWithClient (Some rd) t tok w rs = (Inr cw, w', rs')"
  shows "ctx_cancelled w' (cw_id cw) \<and>
         state_reason w' (cw_id cw) = extractCancelReason (cancelMarker reason)"
proof -
  obtain r s2 where nx: "rd_SetNX rd rs (cancelKeyPrefix @ t) tok = (r, s2)" by fastforce
  with assms SetNX_True have "r = Inr False"
    by (cases r; cases "projr r") (auto simp: WatchWithClient_def Let_def)
  with nx SetNX_False have "kv s2 = kv rs" by blast
  with assms(1) have "rd_Get rd s2 (cancelKeyPrefix @ t) \<in> {RedisVal (cancelMarker reason)} \<union> range RedisErr"
    using Get_Nil [of s2] Get_Val [of s2] by (cases "rd_Get rd s2 (cancelKeyPrefix @ t)") auto
  with assms(2) nx \<open>r = Inr False\<close> show ?thesis by (auto simp: WatchWithClient_def Let_def)
qed

end

section \<open>A keyspace\<close>

text \<open>An in-memory keyspace that behaves as documented, to instantiate the client with.\<close>

definition mem_redis :: "(string \<Rightarrow> string option) redis_client" where
  "mem_redis =
    \<lparr>rd_SetNX = (\<lambda>s k v. if s k = None then (Inr True, s(k \<mapsto> v)) else (Inr False, s)),
     rd_Get = (\<lambda>s k. case s k of None \<Rightarrow> RedisNil | Some v \<Rightarrow> RedisVal v),
     rd_Set = (\<lambda>s k v. (None, s(k \<mapsto> v))),
     rd_Del = (\<lambda>s k. (None, s(k := None))),
     rd_Expire = (\<lambda>s k. (None, s))\<rparr>"

interpretation memr: redis_kv mem_redis "\<lambda>s. s"
  by unfold_locales (auto simp: mem_redis_def split: if_splits option.splits)

end
