(* ===== verification/Kube_Runner.thy ===== *)
theory Kube_Runner
  imports Kube_Builder Kube_Cancel
begin

text \<open>
  Running the jobs of a step: \<open>event/workflow/job/job.go\<close> and
  \<open>event/workflow/job/cleanup_tracker.go\<close>.

  A job controller (\<open>JobCtl\<close>) is a record of its three methods over the world it acts on: the
  cluster and database behind a type parameter, the cancellation registry and the Redis server.
  While \<open>Run\<close> executes, other goroutines may act, so \<open>Run\<close> may change all of it, and it may
  return an error or panic. The model keeps a log of the calls \<open>runJob\<close> makes, so that their
  order can be stated. The worker pool is a step relation whose workers and dispatcher
  interleave freely.
\<close>

section \<open>Errors of a job\<close>

text \<open>
  An error value as \<open>runJob\<close> inspects it: its text, the status of the first \<open>StatusError\<close> in
  its chain, and whether \<open>context.Canceled\<close> is in its chain.
\<close>

record job_error =
  je_text :: string
  je_status :: "Status option"
  je_canceled :: bool

definition NewStatusError :: "Status \<Rightarrow> job_error option \<Rightarrow> job_error option" where
  "NewStatusError status err = (case err of None \<Rightarrow> None | Some e \<Rightarrow> Some (e\<lparr>je_status := Some status\<rparr>))"

definition ExtractStatusError :: "job_error option \<Rightarrow> Status option" where
  "ExtractStatusError err = (case err of None \<Rightarrow> None | Some e \<Rightarrow> je_status e)"

definition jobStatusFailed :: "Status \<Rightarrow> bool" where
  "jobStatusFailed status \<longleftrightarrow>
    status = StatusCancelled \<or> status = StatusFailed \<or> status = StatusTimeout \<or> status = StatusReject"

section \<open>The world and the controllers\<close>

text \<open>The calls of \<open>runJob\<close>, with the status of the job at the time of the call.\<close>

datatype job_event = EvWatch | EvAck Status | EvRun | EvClean | EvSave Status | EvStop

record ('s, 'r) run_world =
  rw_env :: 's
  rw_cancel :: cancel_world
  rw_redis :: 'r
  rw_log :: "job_event list"

definition log_event :: "job_event \<Rightarrow> ('s, 'r) run_world \<Rightarrow> ('s, 'r) run_world" where
  "log_event ev w = w\<lparr>rw_log := rw_log w @ [ev]\<rparr>"

record ('x, 's, 'r) JobCtl =
  ctl_Run :: "CancelWatcher option \<Rightarrow> 'x JobTask \<Rightarrow> 's \<times> cancel_world \<times> 'r \<Rightarrow>
    job_error option outcome \<times> 'x JobTask \<times> 's \<times> cancel_world \<times> 'r"
  ctl_Clean :: "'x JobTask \<Rightarrow> 's \<Rightarrow> 's"
  ctl_SaveInfo :: "'x JobTask \<Rightarrow> 's \<Rightarrow> string option \<times> 's"

text \<open>
  What \<open>RunJobs\<close> hands to every job: the controllers by job type, whether the Kubernetes
  client and the store are non-nil, the \<open>ack\<close> callback (which sees the job through its
  pointer), the global Redis client and the task of the context.
\<close>

record ('x, 's, 'r) job_env =
  env_ctl :: "JobType \<Rightarrow> ('x, 's, 'r) JobCtl"
  env_client :: bool
  env_store :: bool
  env_ack :: "'x JobTask \<Rightarrow> 's \<Rightarrow> 's"
  env_redis :: "'r redis_client option"
  env_taskID :: string

text \<open>What one call of \<open>runJob\<close> observes: the token of its watcher and two readings of the clock.\<close>

record job_obs =
  ob_token :: string
  ob_start :: int
  ob_end :: int

definition deploy_types :: "JobType list" where
  "deploy_types =
    [JobDeploy, JobDeployService, JobDeployStore, JobDeployPVC, JobDeployConfigMap,
     JobDeploySecret, JobDeployIngress, JobDeployServiceAccount, JobDeployRole,
     JobDeployRoleBinding, JobDeployClusterRole, JobDeployClusterRoleBinding]"

definition initJobCtl :: "('x, 's, 'r) job_env \<Rightarrow> 'x JobTask \<Rightarrow> ('x, 's, 'r) JobCtl option" where
  "initJobCtl env job =
    (if \<not> env_store env then None
     else if \<not> env_client env then None
     else map_option (env_ctl env) (find (\<lambda>t. JobType_string t = jt_JobType job) deploy_types))"

definition do_ack ::
  "('x, 's, 'r) job_env \<Rightarrow> 'x JobTask \<Rightarrow> ('s, 'r) run_world \<Rightarrow> ('s, 'r) run_world" where
  "do_ack env job w = log_event (EvAck (jt_Status job)) (w\<lparr>rw_env := env_ack env job (rw_env w)\<rparr>)"

definition do_clean ::
  "('x, 's, 'r) JobCtl \<Rightarrow> 'x JobTask \<Rightarrow> ('s, 'r) run_world \<Rightarrow> ('s, 'r) run_world" where
  "do_clean ctl job w = log_event EvClean (w\<lparr>rw_env := ctl_Clean ctl job (rw_env w)\<rparr>)"

definition do_save ::
  "('x, 's, 'r) JobCtl \<Rightarrow> 'x JobTask \<Rightarrow> ('s, 'r) run_world \<Rightarrow> ('s, 'r) run_world" where
  "do_save ctl job w = log_event (EvSave (jt_Status job))
     (w\<lparr>rw_env := snd (ctl_SaveInfo ctl job (rw_env w))\<rparr>)"

section \<open>runJob\<close>

text \<open>
  Activating the cancellation watcher: nothing without a task in the context, and a watcher
  that cannot be activated is given up.
\<close>

definition job_watch ::
  "('x, 's, 'r) job_env \<Rightarrow> job_obs \<Rightarrow> ('s, 'r) run_world \<Rightarrow> CancelWatcher option \<times> ('s, 'r) run_world" where
  "job_watch env obs w =
    (if env_taskID env = '''' then (None, w)
     else
       case WatchWithClient (env_redis env) (env_taskID env) (ob_token obs) (rw_cancel w) (rw_redis w) of
         (Inl err, cw', rs') \<Rightarrow> (None, log_event EvWatch (w\<lparr>rw_cancel := cw', rw_redis := rs'\<rparr>))
       | (Inr watcher, cw', rs') \<Rightarrow>
           (Some watcher, log_event EvWatch (w\<lparr>rw_cancel := cw', rw_redis := rs'\<rparr>)))"

text \<open>The deferred release of the watcher.\<close>

definition job_release ::
  "('x, 's, 'r) job_env \<Rightarrow> CancelWatcher option \<Rightarrow> ('s, 'r) run_world \<Rightarrow> ('s, 'r) run_world" where
  "job_release env watcher w =
    (case watcher of None \<Rightarrow> w
     | Some cw \<Rightarrow>
        (case CancelWatcher_Stop (env_redis env) cw (rw_cancel w) (rw_redis w) of
           (cw', rs') \<Rightarrow> log_event EvStop (w\<lparr>rw_cancel := cw', rw_redis := rs'\<rparr>)))"

definition skip_job ::
  "('x, 's, 'r) job_env \<Rightarrow> job_obs \<Rightarrow> 'x JobTask \<Rightarrow> ('s, 'r) run_world \<Rightarrow>
   'x JobTask \<times> ('s, 'r) run_world" where
  "skip_job env obs job w =
    (let job1 = job\<lparr>jt_Error := '''',
           jt_StartTime := (if jt_StartTime job = 0 then ob_start obs else jt_StartTime job),
           jt_EndTime := (if jt_EndTime job = 0 then ob_start obs else jt_EndTime job)\<rparr>;
         w1 = do_ack env job1 w
     in if \<not> env_store env then (job1, w1)
        else case initJobCtl env job1 of
            None \<Rightarrow> (job1, w1)
          | Some ctl \<Rightarrow> (job1, do_save ctl job1 w1))"

text \<open>The status and error text after \<open>Run\<close> returned an error; \<open>reason\<close> is that of the context.\<close>

definition fail_job :: "job_error \<Rightarrow> string \<Rightarrow> 'x JobTask \<Rightarrow> 'x JobTask" where
  "fail_job err reason job0 =
    (let job = (if jt_Error job0 = '''' then job0\<lparr>jt_Error := je_text err\<rparr> else job0)
     in case ExtractStatusError (Some err) of
          Some st \<Rightarrow> job\<lparr>jt_Status := st\<rparr>
        | None \<Rightarrow>
           (if je_canceled err then
              (if reason \<noteq> '''' then job\<lparr>jt_Error := reason\<rparr> else job)\<lparr>jt_Status := StatusCancelled\<rparr>
            else if jt_Status job \<noteq> StatusFailed \<and> jt_Status job \<noteq> StatusCancelled \<and>
                    jt_Status job \<noteq> StatusTimeout
            then job\<lparr>jt_Status := StatusFailed\<rparr> else job))"

text \<open>From the call of \<open>Run\<close> to the end of the deferred function that recovers and saves.\<close>

definition execute_job ::
  "('x, 's, 'r) job_env \<Rightarrow> job_obs \<Rightarrow> ('x, 's, 'r) JobCtl \<Rightarrow> CancelWatcher option \<Rightarrow> 'x JobTask \<Rightarrow>
   ('s, 'r) run_world \<Rightarrow> 'x JobTask \<times> ('s, 'r) run_world" where
  "execute_job env obs ctl watcher job w =
    (case ctl_Run ctl watcher job (rw_env w, rw_cancel w, rw_redis w) of
       (out, job1, e, c, r) \<Rightarrow>
        (let w1 = log_event EvRun (w\<lparr>rw_env := e, rw_cancel := c, rw_redis := r\<rparr>);
             (job2, w2) =
               (case out of
                  Panic v \<Rightarrow>
                    (job1\<lparr>jt_Status := StatusFailed, jt_Error := ''job panic: '' @ v\<rparr>, do_clean ctl job1 w1)
                | Return (Some err) \<Rightarrow>
                    (fail_job err (ReasonFromContext c watcher) job1, do_clean ctl job1 w1)
                | Return None \<Rightarrow>
                    (let job2 = (if jt_Status job1 = StatusPrepare \<or> jt_Status job1 = StatusRunning
                                 then job1\<lparr>jt_Status := StatusCompleted\<rparr> else job1)
                     in (job2, if jobStatusFailed (jt_Status job2) then do_clean ctl job2 w1 else w1)));
             job3 = job2\<lparr>jt_EndTime := ob_end obs\<rparr>
         in (job3, do_save ctl job3 (do_ack env job3 w2))))"

definition runJob ::
  "('x, 's, 'r) job_env \<Rightarrow> job_obs \<Rightarrow> 'x JobTask \<Rightarrow> ('s, 'r) run_world \<Rightarrow>
   'x JobTask \<times> ('s, 'r) run_world" where
  "runJob env obs job w =
    (let (watcher, w1) = job_watch env obs w;
         (job', w2) =
           (if jt_Status job = StatusPassed then (job, w1)
            else if jt_Status job = StatusSkipped then skip_job env obs job w1
            else
              let job1 = job\<lparr>jt_Status := StatusPrepare, jt_Error := '''', jt_StartTime := ob_start obs\<rparr>;
                  w2 = do_ack env job1 w1
              in if \<not> env_store env then (job1, w2)
                 else case initJobCtl env job1 of
                     None \<Rightarrow>
                       (let job2 = job1\<lparr>jt_Status := StatusFailed,
                              jt_Error := ''failed to initialize job controller for job: '' @ jt_Name job1,
                              jt_EndTime := ob_end obs\<rparr>
                        in (job2, do_ack env job2 w2))
                   | Some ctl \<Rightarrow> execute_job env obs ctl watcher job1 w2)
     in (job', job_release env watcher w2))"

section \<open>RunJobs, one at a time\<close>

text \<open>\<open>obs i\<close> is what the \<open>i\<close>-th job observes. A failed job ends the loop; the others stay as they are.\<close>

fun run_sequential ::
  "('x, 's, 'r) job_env \<Rightarrow> (nat \<Rightarrow> job_obs) \<Rightarrow> nat \<Rightarrow> 'x JobTask list \<Rightarrow> ('s, 'r) run_world \<Rightarrow>
   'x JobTask list \<times> ('s, 'r) run_world" where
  "run_sequential env obs i [] w = ([], w)"
| "run_sequential env obs i (job # jobs) w =
     (case runJob env (obs i) job w of
        (job', w') \<Rightarrow>
          (if jobStatusFailed (jt_Status job') then (job' # jobs, w')
           else case run_sequential env obs (Suc i) jobs w' of (jobs', w'') \<Rightarrow> (job' # jobs', w'')))"

section \<open>runJob: lemmas\<close>

lemma log_simps [simp]:
  "rw_log (log_event ev w) = rw_log w @ [ev]"
  "rw_log (do_ack env job w) = rw_log w @ [EvAck (jt_Status job)]"
  "rw_log (do_clean ctl job w) = rw_log w @ [EvClean]"
  "rw_log (do_save ctl job w) = rw_log w @ [EvSave (jt_Status job)]"
  by (simp_all add: log_event_def do_ack_def do_clean_def do_save_def)

lemma initJobCtl_deploy:
  assumes "env_store env" "env_client env" "t \<in> set deploy_types" "jt_JobType job = JobType_string t"
  shows "initJobCtl env job = Some (env_ctl env t)"
proof -
  have "list_all (\<lambda>t. find (\<lambda>u. JobType_string u = JobType_string t) deploy_types = Some t) deploy_types"
    by code_simp
  with assms(3) have "find (\<lambda>u. JobType_string u = JobType_string t) deploy_types = Some t"
    by (simp add: list_all_iff)
  then show ?thesis using assms by (simp add: initJobCtl_def)
qed

text \<open>How the outcome of \<open>Run\<close> decides the status and whether \<open>Clean\<close> is called.\<close>

definition run_failed :: "job_error option outcome \<Rightarrow> 'x JobTask \<Rightarrow> bool" where
  "run_failed out job1 \<longleftrightarrow> (case out of Return None \<Rightarrow> jobStatusFailed (jt_Status job1) | _ \<Rightarrow> True)"

lemma execute_job_log:
  assumes "ctl_Run ctl watcher job (rw_env w, rw_cancel w, rw_redis w) = (out, job1, e, c, r)"
    and "execute_job env obs ctl watcher job w = (job', w')"
  shows "rw_log w' = rw_log w @ [EvRun] @ (if run_failed out job1 then [EvClean] else []) @
      [EvAck (jt_Status job'), EvSave (jt_Status job')]"
    and "jt_EndTime job' = ob_end obs"
proof -
  have "rw_log w' = rw_log w @ [EvRun] @ (if run_failed out job1 then [EvClean] else []) @
      [EvAck (jt_Status job'), EvSave (jt_Status job')] \<and> jt_EndTime job' = ob_end obs"
  proof (cases out)
    case (Panic v)
    with assms show ?thesis by (auto simp: execute_job_def Let_def run_failed_def)
  next
    case (Return err)
    with assms show ?thesis
      by (cases err)
        (auto simp: execute_job_def Let_def run_failed_def jobStatusFailed_def split: if_splits)
  qed
  then show "rw_log w' = rw_log w @ [EvRun] @ (if run_failed out job1 then [EvClean] else []) @
      [EvAck (jt_Status job'), EvSave (jt_Status job')]" and "jt_EndTime job' = ob_end obs" by auto
qed

lemma fail_job_status:
  "jt_Status (fail_job err reason job) =
    (case je_status err of Some st \<Rightarrow> st
     | None \<Rightarrow> if je_canceled err then StatusCancelled
         else if jt_Status job \<in> {StatusFailed, StatusCancelled, StatusTimeout} then jt_Status job
         else StatusFailed)"
  by (auto simp: fail_job_def Let_def ExtractStatusError_def split: option.splits)

lemma fail_job_error:
  "je_text err \<noteq> '''' \<Longrightarrow> jt_Error (fail_job err reason job) \<noteq> ''''"
  by (auto simp: fail_job_def Let_def ExtractStatusError_def split: option.splits)

text \<open>
  The outcome of an executed job. A return without error completes a job still in progress; an
  error that carries no status leaves a failed one; a panic is turned into a failure.
\<close>

lemma execute_job_status:
  assumes "ctl_Run ctl watcher job (rw_env w, rw_cancel w, rw_redis w) = (out, job1, e, c, r)"
    and "execute_job env obs ctl watcher job w = (job', w')"
  shows "jt_Status job' =
    (case out of
       Panic v \<Rightarrow> StatusFailed
     | Return (Some err) \<Rightarrow> jt_Status (fail_job err (ReasonFromContext c watcher) job1)
     | Return None \<Rightarrow> if jt_Status job1 \<in> {StatusPrepare, StatusRunning} then StatusCompleted
                      else jt_Status job1)"
proof (cases out)
  case (Panic v)
  with assms show ?thesis by (auto simp: execute_job_def Let_def)
next
  case (Return err)
  with assms show ?thesis
    by (cases err) (auto simp: execute_job_def Let_def split: if_splits)
qed

lemma run_sequential_length:
  "length (fst (run_sequential env obs i jobs w)) = length jobs"
  by (induction env obs i jobs w rule: run_sequential.induct) (auto split: prod.splits)

text \<open>After a failure nothing else is started: the tail of the list is as it was given.\<close>

lemma run_sequential_stops:
  assumes "run_sequential env obs i jobs w = (jobs', w')"
  shows "(\<forall>j\<in>set jobs'. \<not> jobStatusFailed (jt_Status j)) \<or>
    (\<exists>k<length jobs. jobStatusFailed (jt_Status (jobs' ! k)) \<and> drop (Suc k) jobs' = drop (Suc k) jobs \<and>
       (\<forall>m<k. \<not> jobStatusFailed (jt_Status (jobs' ! m))))"
  using assms
proof (induction env obs i jobs w arbitrary: jobs' w' rule: run_sequential.induct)
  case (2 env obs i job jobs w)
  obtain job1 w1 where r: "runJob env (obs i) job w = (job1, w1)" by fastforce
  show ?case
  proof (cases "jobStatusFailed (jt_Status job1)")
    case True
    with 2(2) r have "jobs' = job1 # jobs" by simp
    with True show ?thesis by (intro disjI2 exI [of _ 0]) simp
  next
    case False
    obtain js w2 where s: "run_sequential env obs (Suc i) jobs w1 = (js, w2)" by fastforce
    with 2(2) r False have jobs': "jobs' = job1 # js" by simp
    from 2(1) [OF r [symmetric] False s] consider
      "\<forall>j\<in>set js. \<not> jobStatusFailed (jt_Status j)"
      | k where "k < length jobs" "jobStatusFailed (jt_Status (js ! k))"
          "drop (Suc k) js = drop (Suc k) jobs" "\<forall>m<k. \<not> jobStatusFailed (jt_Status (js ! m))"
      by auto
    then show ?thesis
    proof cases
      case 1
      with False jobs' show ?thesis by simp
    next
      case (2 k)
      with False jobs' show ?thesis
        by (intro disjI2 exI [of _ "Suc k"]) (auto simp: less_Suc_eq_0_disj nth_Cons')
    qed
  qed
qed simp

text \<open>The two bookkeeping steps of \<open>runJob\<close> and what they add to the log.\<close>

lemma job_watch_log:
  "job_watch env obs w = (watcher, w1) \<Longrightarrow>
   rw_log w1 = rw_log w @ (if env_taskID env = '''' then [] else [EvWatch]) \<and>
   (env_taskID env = '''' \<longrightarrow> watcher = None)"
  by (auto simp: job_watch_def split: if_splits prod.splits sum.splits)

lemma job_release_log:
  "rw_log (job_release env watcher w) = rw_log w @ (if watcher = None then [] else [EvStop])"
  by (auto simp: job_release_def split: option.splits prod.splits)

lemma initJobCtl_cong: "jt_JobType job = jt_JobType job' \<Longrightarrow> initJobCtl env job = initJobCtl env job'"
  by (simp add: initJobCtl_def)

lemma initJobCtl_store: "initJobCtl env job = Some ctl \<Longrightarrow> env_store env"
  by (auto simp: initJobCtl_def split: if_splits)

text \<open>An executed job, reduced to its watcher, the acknowledgement of its start and \<open>execute_job\<close>.\<close>

lemma runJob_executes:
  assumes "jt_Status job \<notin> {StatusPassed, StatusSkipped}" and "initJobCtl env job = Some ctl"
  shows "\<exists>watcher w1 w2. job_watch env obs w = (watcher, w1) \<and>
    execute_job env obs ctl watcher
      (job\<lparr>jt_Status := StatusPrepare, jt_Error := '''', jt_StartTime := ob_start obs\<rparr>)
      (do_ack env (job\<lparr>jt_Status := StatusPrepare, jt_Error := '''', jt_StartTime := ob_start obs\<rparr>) w1)
      = (fst (runJob env obs job w), w2) \<and>
    snd (runJob env obs job w) = job_release env watcher w2"
proof -
  obtain watcher w1 where jw: "job_watch env obs w = (watcher, w1)" by fastforce
  let ?j = "job\<lparr>jt_Status := StatusPrepare, jt_Error := '''', jt_StartTime := ob_start obs\<rparr>"
  obtain j2 w2 where ex: "execute_job env obs ctl watcher ?j (do_ack env ?j w1) = (j2, w2)" by fastforce
  have "initJobCtl env ?j = Some ctl" using assms(2) initJobCtl_cong [of ?j job env] by simp
  with assms ex jw initJobCtl_store [OF assms(2)]
  have "runJob env obs job w = (j2, job_release env watcher w2)"
    by (simp add: runJob_def Let_def)
  with jw ex show ?thesis by auto
qed

lemma runJob_log:
  assumes "jt_Status job \<notin> {StatusPassed, StatusSkipped}" and "initJobCtl env job = Some ctl"
    and "runJob env obs job w = (job', w')"
  shows "\<exists>pre clean post. pre \<in> {[], [EvWatch]} \<and> clean \<in> {[], [EvClean]} \<and> post \<in> {[], [EvStop]} \<and>
    rw_log w' = rw_log w @ pre @ [EvAck StatusPrepare, EvRun] @ clean @
      [EvAck (jt_Status job'), EvSave (jt_Status job')] @ post \<and>
    (jobStatusFailed (jt_Status job') \<longrightarrow> clean = [EvClean]) \<and> jt_EndTime job' = ob_end obs"
proof -
  from runJob_executes [OF assms(1,2), of obs w] assms(3) obtain watcher w1 w2 where
    jw: "job_watch env obs w = (watcher, w1)" and
    ex: "execute_job env obs ctl watcher
      (job\<lparr>jt_Status := StatusPrepare, jt_Error := '''', jt_StartTime := ob_start obs\<rparr>)
      (do_ack env (job\<lparr>jt_Status := StatusPrepare, jt_Error := '''', jt_StartTime := ob_start obs\<rparr>) w1)
      = (job', w2)" (is "execute_job env obs ctl watcher ?j ?w = _") and
    w': "w' = job_release env watcher w2" by auto
  obtain out job1 e c r where
    run: "ctl_Run ctl watcher ?j (rw_env ?w, rw_cancel ?w, rw_redis ?w) = (out, job1, e, c, r)"
    by (metis prod_cases5)
  note st = execute_job_status [OF run ex]
  have "\<not> run_failed out job1 \<Longrightarrow> \<not> jobStatusFailed (jt_Status job')"
    using st by (auto simp: run_failed_def jobStatusFailed_def split: outcome.splits option.splits)
  then have cl: "jobStatusFailed (jt_Status job') \<Longrightarrow>
      (if run_failed out job1 then [EvClean] else []) = [EvClean]" by auto
  show ?thesis
    using execute_job_log [OF run ex] job_watch_log [OF jw] cl
    by (intro exI [of _ "if env_taskID env = '''' then [] else [EvWatch]"]
        exI [of _ "if run_failed out job1 then [EvClean] else []"]
        exI [of _ "if watcher = None then [] else [EvStop]"])
      (auto simp: w' job_release_log)
qed

text \<open>A job never stays in progress, unless the controller's own error says so.\<close>

lemma runJob_settles:
  assumes "jt_Status job \<notin> {StatusPassed, StatusSkipped}" and "initJobCtl env job = Some ctl"
    and "\<And>cw j s err j' s'. ctl_Run ctl cw j s = (Return (Some err), j', s') \<Longrightarrow>
           je_status err \<notin> {Some StatusPrepare, Some StatusRunning}"
  shows "jt_Status (fst (runJob env obs job w)) \<notin> {StatusPrepare, StatusRunning}"
proof -
  from runJob_executes [OF assms(1,2), of obs w] obtain watcher j w1 w2 where
    ex: "execute_job env obs ctl watcher j w1 = (fst (runJob env obs job w), w2)" by blast
  obtain out job1 e c r where
    run: "ctl_Run ctl watcher j (rw_env w1, rw_cancel w1, rw_redis w1) = (out, job1, e, c, r)"
    by (metis prod_cases5)
  from execute_job_status [OF run ex] assms(3) [of watcher j] run show ?thesis
    by (auto simp: fail_job_status split: outcome.splits option.splits if_splits)
qed

text \<open>A job that was decided before it started: no controller runs and the status stays.\<close>

lemma runJob_passed:
  "jt_Status job = StatusPassed \<Longrightarrow> fst (runJob env obs job w) = job"
  by (simp add: runJob_def Let_def split: prod.splits)

lemma runJob_skipped:
  assumes "jt_Status job = StatusSkipped"
  shows "jt_Status (fst (runJob env obs job w)) = StatusSkipped"
    and "EvRun \<in> set (rw_log (snd (runJob env obs job w))) \<longleftrightarrow> EvRun \<in> set (rw_log w)"
proof -
  obtain watcher w1 where jw: "job_watch env obs w = (watcher, w1)" by fastforce
  obtain j2 w2 where sk: "skip_job env obs job w1 = (j2, w2)" by fastforce
  from jw sk assms have r: "runJob env obs job w = (j2, job_release env watcher w2)"
    by (simp add: runJob_def Let_def)
  from sk assms have "jt_Status j2 = StatusSkipped \<and>
      (rw_log w2 = rw_log w1 @ [EvAck StatusSkipped] \<or>
       rw_log w2 = rw_log w1 @ [EvAck StatusSkipped, EvSave StatusSkipped])"
    by (auto simp: skip_job_def Let_def split: if_splits option.splits)
  with r job_watch_log [OF jw] show "jt_Status (fst (runJob env obs job w)) = StatusSkipped"
    and "EvRun \<in> set (rw_log (snd (runJob env obs job w))) \<longleftrightarrow> EvRun \<in> set (rw_log w)"
    by (auto simp: job_release_log split: if_splits)
qed

end
