(* ===== verification/Kube_Pool.thy ===== *)
theory Kube_Pool
  imports Kube_Runner
begin

text \<open>
  The worker pool of \<open>event/workflow/job/job.go\<close> (\<open>NewPool\<close>, \<open>Pool.Run\<close>, \<open>Pool.work\<close>) as a
  step relation. The dispatcher and the workers are goroutines that meet on an unbuffered
  channel, a wait group and the pool's context; every step is one action of one of them, so
  the reachable states cover every interleaving. A job is its number in the list; what
  \<open>runJob\<close> makes of it is an arbitrary status.

  The lemmas show that no job is lost or run twice, that at most \<open>concurrency\<close> jobs run at
  once, that a failure lets at most one more job start, and that \<open>Run\<close> returns.
\<close>

section \<open>State\<close>

text \<open>The dispatcher: at the head of the loop, blocked on the send of a job, past \<open>close\<close>, returned.\<close>

datatype pool_pc = PLoop | PSend nat | PClosed | PReturned

text \<open>A busy worker: in \<open>runJob\<close>, about to call \<open>cancel\<close>, about to call \<open>wg.Done\<close>.\<close>

datatype pool_worker = WRun nat | WFail nat | WDone nat

record pool_state =
  ps_todo :: "nat list"
  ps_pc :: pool_pc
  ps_workers :: "pool_worker list"
  ps_finished :: "nat list"
  ps_cancelled :: bool
  ps_wg :: nat
  ps_parent :: bool
  ps_failures :: nat
  ps_late :: nat

text \<open>
  The last three fields only observe: whether the parent context was cancelled, how many jobs
  ended in a failed status, and how many were handed to a worker after the cancellation.
\<close>

definition NewPool :: "nat list \<Rightarrow> pool_state" where
  "NewPool jobs = \<lparr>ps_todo = jobs, ps_pc = PLoop, ps_workers = [], ps_finished = [],
     ps_cancelled = False, ps_wg = 0, ps_parent = False, ps_failures = 0, ps_late = 0\<rparr>"

section \<open>Steps\<close>

definition after_run :: "bool \<Rightarrow> Status \<Rightarrow> nat \<Rightarrow> pool_worker" where
  "after_run stopOnFailure st t = (if stopOnFailure \<and> jobStatusFailed st then WFail t else WDone t)"

inductive pool_step :: "nat \<Rightarrow> bool \<Rightarrow> pool_state \<Rightarrow> pool_state \<Rightarrow> bool"
  for concurrency :: nat and stopOnFailure :: bool where
  loop_break:
    "ps_pc s = PLoop \<Longrightarrow> ps_todo s \<noteq> [] \<Longrightarrow> stopOnFailure \<Longrightarrow> ps_cancelled s \<Longrightarrow>
     pool_step concurrency stopOnFailure s (s\<lparr>ps_pc := PClosed\<rparr>)"
| loop_take:
    "ps_pc s = PLoop \<Longrightarrow> ps_todo s = t # ts \<Longrightarrow> \<not> (stopOnFailure \<and> ps_cancelled s) \<Longrightarrow>
     pool_step concurrency stopOnFailure s
       (s\<lparr>ps_todo := ts, ps_pc := PSend t, ps_wg := Suc (ps_wg s)\<rparr>)"
| loop_end:
    "ps_pc s = PLoop \<Longrightarrow> ps_todo s = [] \<Longrightarrow>
     pool_step concurrency stopOnFailure s (s\<lparr>ps_pc := PClosed\<rparr>)"
| hand_over:
    "ps_pc s = PSend t \<Longrightarrow> length (ps_workers s) < concurrency \<Longrightarrow>
     pool_step concurrency stopOnFailure s
       (s\<lparr>ps_pc := PLoop, ps_workers := ps_workers s @ [WRun t],
          ps_late := ps_late s + (if ps_cancelled s then 1 else 0)\<rparr>)"
| work_end:
    "ps_workers s = us @ WRun t # vs \<Longrightarrow>
     pool_step concurrency stopOnFailure s
       (s\<lparr>ps_workers := us @ after_run stopOnFailure st t # vs,
          ps_failures := ps_failures s + (if jobStatusFailed st then 1 else 0)\<rparr>)"
| work_cancel:
    "ps_workers s = us @ WFail t # vs \<Longrightarrow>
     pool_step concurrency stopOnFailure s
       (s\<lparr>ps_workers := us @ WDone t # vs, ps_cancelled := True\<rparr>)"
| work_done:
    "ps_workers s = us @ WDone t # vs \<Longrightarrow>
     pool_step concurrency stopOnFailure s
       (s\<lparr>ps_workers := us @ vs, ps_finished := ps_finished s @ [t], ps_wg := ps_wg s - 1\<rparr>)"
| wait_return:
    "ps_pc s = PClosed \<Longrightarrow> ps_wg s = 0 \<Longrightarrow>
     pool_step concurrency stopOnFailure s (s\<lparr>ps_pc := PReturned\<rparr>)"
| parent_cancel:
    "\<not> ps_cancelled s \<Longrightarrow>
     pool_step concurrency stopOnFailure s (s\<lparr>ps_cancelled := True, ps_parent := True\<rparr>)"

inductive_cases pool_stepE: "pool_step concurrency stopOnFailure s s'"

text \<open>The states of a run on \<open>jobs\<close>.\<close>

inductive pool_reachable :: "nat \<Rightarrow> bool \<Rightarrow> nat list \<Rightarrow> pool_state \<Rightarrow> bool"
  for concurrency stopOnFailure jobs where
  pool_start: "pool_reachable concurrency stopOnFailure jobs (NewPool jobs)"
| pool_next: "pool_reachable concurrency stopOnFailure jobs s \<Longrightarrow>
     pool_step concurrency stopOnFailure s s' \<Longrightarrow> pool_reachable concurrency stopOnFailure jobs s'"

section \<open>Invariant\<close>

fun worker_job :: "pool_worker \<Rightarrow> nat" where
  "worker_job (WRun t) = t"
| "worker_job (WFail t) = t"
| "worker_job (WDone t) = t"

fun sending :: "pool_pc \<Rightarrow> nat list" where
  "sending (PSend t) = [t]"
| "sending _ = []"

definition pool_conserved :: "nat list \<Rightarrow> pool_state \<Rightarrow> bool" where
  "pool_conserved jobs s \<longleftrightarrow>
    mset (ps_finished s) + mset (map worker_job (ps_workers s)) + mset (sending (ps_pc s)) +
      mset (ps_todo s) = mset jobs"

definition pool_bounded :: "nat \<Rightarrow> pool_state \<Rightarrow> bool" where
  "pool_bounded concurrency s \<longleftrightarrow>
    length (ps_workers s) \<le> concurrency \<and>
    ps_wg s = length (ps_workers s) + length (sending (ps_pc s)) \<and>
    (ps_pc s = PReturned \<longrightarrow> ps_workers s = [])"

definition pool_drained :: "bool \<Rightarrow> pool_state \<Rightarrow> bool" where
  "pool_drained stopOnFailure s \<longleftrightarrow>
    (ps_pc s \<in> {PClosed, PReturned} \<and> ps_todo s \<noteq> [] \<longrightarrow> stopOnFailure \<and> ps_cancelled s) \<and>
    (ps_cancelled s \<longrightarrow> ps_parent s \<or> 0 < ps_failures s) \<and>
    ((\<exists>t. WFail t \<in> set (ps_workers s)) \<longrightarrow> 0 < ps_failures s)"

definition pool_prompt :: "pool_state \<Rightarrow> bool" where
  "pool_prompt s \<longleftrightarrow>
    ps_late s \<le> 1 \<and> (ps_late s = 1 \<longrightarrow> ps_cancelled s \<and> sending (ps_pc s) = [])"

lemma after_run_simps [simp]:
  "worker_job (after_run stop st t) = t"
  "after_run stop st t = WFail u \<longleftrightarrow> u = t \<and> stop \<and> jobStatusFailed st"
  "WFail u = after_run stop st t \<longleftrightarrow> u = t \<and> stop \<and> jobStatusFailed st"
  "after_run stop st t \<noteq> WRun u"
  by (auto simp: after_run_def)

lemma pool_conserved_step:
  "pool_step c stop s s' \<Longrightarrow> pool_conserved jobs s \<Longrightarrow> pool_conserved jobs s'"
  by (erule pool_step.cases) (auto simp: pool_conserved_def)

lemma pool_bounded_step:
  "pool_step c stop s s' \<Longrightarrow> pool_bounded c s \<Longrightarrow> pool_bounded c s'"
  by (erule pool_step.cases) (auto simp: pool_bounded_def)

lemma pool_drained_step:
  "pool_step c stop s s' \<Longrightarrow> pool_drained stop s \<Longrightarrow> pool_drained stop s'"
  by (erule pool_step.cases) (auto simp: pool_drained_def)

lemma pool_prompt_step:
  "pool_step c True s s' \<Longrightarrow> pool_prompt s \<Longrightarrow> pool_prompt s'"
  by (erule pool_step.cases) (auto simp: pool_prompt_def split: if_splits)

lemma pool_reachable_inv:
  "pool_reachable c stop jobs s \<Longrightarrow>
   pool_conserved jobs s \<and> pool_bounded c s \<and> pool_drained stop s"
  by (induction rule: pool_reachable.induct)
    (auto simp: pool_conserved_step pool_bounded_step pool_drained_step,
     simp_all add: NewPool_def pool_conserved_def pool_bounded_def pool_drained_def)

lemma pool_reachable_prompt: "pool_reachable c True jobs s \<Longrightarrow> pool_prompt s"
  by (induction rule: pool_reachable.induct) (auto simp: pool_prompt_step, simp add: NewPool_def pool_prompt_def)

section \<open>Termination\<close>

fun worker_weight :: "pool_worker \<Rightarrow> nat" where
  "worker_weight (WRun t) = 4"
| "worker_weight (WFail t) = 3"
| "worker_weight (WDone t) = 2"

fun pc_weight :: "pool_pc \<Rightarrow> nat" where
  "pc_weight PLoop = 2"
| "pc_weight (PSend t) = 9"
| "pc_weight PClosed = 1"
| "pc_weight PReturned = 0"

definition pool_weight :: "pool_state \<Rightarrow> nat" where
  "pool_weight s = 8 * length (ps_todo s) + pc_weight (ps_pc s) +
     sum_list (map worker_weight (ps_workers s)) + (if ps_cancelled s then 0 else 1)"

lemma pool_step_decreases: "pool_step c stop s s' \<Longrightarrow> pool_weight s' < pool_weight s"
  by (erule pool_step.cases) (auto simp: pool_weight_def after_run_def)

text \<open>A busy worker can always go on, whatever the dispatcher does.\<close>

lemma worker_progress:
  assumes "ps_workers s \<noteq> []"
  shows "\<exists>s'. pool_step c stop s s' \<and> ps_parent s' = ps_parent s"
proof -
  from assms obtain x vs where w: "ps_workers s = [] @ x # vs" by (cases "ps_workers s") auto
  show ?thesis
  proof (cases x)
    case (WRun t)
    with work_end [of s "[]" t vs c stop StatusCompleted] w show ?thesis by fastforce
  next
    case (WFail t)
    with work_cancel [of s "[]" t vs c stop] w show ?thesis by fastforce
  next
    case (WDone t)
    with work_done [of s "[]" t vs c stop] w show ?thesis by fastforce
  qed
qed

lemma pool_progress:
  assumes "pool_bounded c s" and "0 < c" and "ps_pc s \<noteq> PReturned"
  shows "\<exists>s'. pool_step c stop s s' \<and> ps_parent s' = ps_parent s"
proof (cases "ps_pc s")
  case PLoop
  show ?thesis
  proof (cases "ps_todo s")
    case Nil
    with PLoop show ?thesis using loop_end [of s c stop] by force
  next
    case (Cons t ts)
    with PLoop show ?thesis
      using loop_break [of s stop c] loop_take [of s t ts stop c] by force
  qed
next
  case (PSend t)
  show ?thesis
  proof (cases "ps_workers s = []")
    case True
    with PSend assms(2) show ?thesis using hand_over [of s t c stop] by force
  qed (rule worker_progress)
next
  case PClosed
  show ?thesis
  proof (cases "ps_workers s = []")
    case True
    with PClosed assms(1) show ?thesis
      using wait_return [of s c stop] by (force simp: pool_bounded_def)
  qed (rule worker_progress)
qed (use assms in simp)

lemma pool_returns:
  assumes "pool_bounded c s" and "0 < c"
  shows "\<exists>s'. (pool_step c stop)\<^sup>*\<^sup>* s s' \<and> ps_pc s' = PReturned"
  using assms(1)
proof (induction "pool_weight s" arbitrary: s rule: less_induct)
  case less
  show ?case
  proof (cases "ps_pc s = PReturned")
    case False
    with less.prems assms(2) obtain s1 where s1: "pool_step c stop s s1"
      using pool_progress by blast
    then obtain s' where "(pool_step c stop)\<^sup>*\<^sup>* s1 s' \<and> ps_pc s' = PReturned"
      using less pool_step_decreases pool_bounded_step by blast
    with s1 show ?thesis by (meson converse_rtranclp_into_rtranclp)
  qed auto
qed

lemma pool_finished:
  assumes "pool_reachable c stop jobs s" and "ps_pc s = PReturned"
    and "\<not> stop \<or> (\<not> ps_parent s \<and> ps_failures s = 0)"
  shows "mset (ps_finished s) = mset jobs"
  using pool_reachable_inv [OF assms(1)] assms(2,3)
  by (auto simp: pool_conserved_def pool_bounded_def pool_drained_def)

end
