(* ===== verification/Kube_Controller.thy ===== *)
theory Kube_Controller
  imports Kube_Pool
begin

text \<open>
  Executing one task: \<open>RunJobs\<close> of \<open>event/workflow/job/job.go\<close> and the workflow controller of
  \<open>event/workflow/controller.go\<close>. The jobs act on the database and the cluster, the type
  \<open>'db\<close>; the controller keeps its own copy of the task and writes it back through \<open>ack\<close>.

  What a concurrent run of a batch makes of its jobs is the argument \<open>pool\<close>: \<open>Kube_Pool\<close>
  describes the runs, and nothing here depends on which one happens.
\<close>

section \<open>RunJobs\<close>

type_synonym ('x, 'db, 'r) pool_run =
  "'x JobTask list \<Rightarrow> int \<Rightarrow> bool \<Rightarrow> ('db, 'r) run_world \<Rightarrow> 'x JobTask list \<times> ('db, 'r) run_world"

definition RunJobs ::
  "('x, 'db, 'r) job_env \<Rightarrow> (nat \<Rightarrow> job_obs) \<Rightarrow> ('x, 'db, 'r) pool_run \<Rightarrow> 'x JobTask list \<Rightarrow> int \<Rightarrow>
   bool \<Rightarrow> ('db, 'r) run_world \<Rightarrow> 'x JobTask list \<times> ('db, 'r) run_world" where
  "RunJobs env obs pool jobs concurrency stopOnFailure w =
    (if jobs = [] then ([], w)
     else if concurrency = 1 then run_sequential env obs 0 jobs w
     else pool jobs concurrency stopOnFailure w)"

section \<open>The controller's view of the task\<close>

definition isWorkflowTerminal :: "Status \<Rightarrow> bool" where
  "isWorkflowTerminal status \<longleftrightarrow>
    status = StatusPassed \<or> status = StatusFailed \<or> status = StatusTimeout \<or> status = StatusReject"

definition isJobSuccessStatus :: "Status \<Rightarrow> bool" where
  "isJobSuccessStatus status \<longleftrightarrow>
    status = StatusCompleted \<or> status = StatusSkipped \<or> status = StatusPassed"

text \<open>\<open>cfg\<close> is the configured duration, in nanoseconds, if there is a configuration.\<close>

definition resolveDefaultJobTimeout :: "int option \<Rightarrow> int" where
  "resolveDefaultJobTimeout cfg =
    (case cfg of
       Some d \<Rightarrow> if d > 0 \<and> d div Second > 0 then d div Second else DefaultJobTaskTimeout
     | None \<Rightarrow> DefaultJobTaskTimeout)"

definition updateWorkflowTask ::
  "('db, WorkflowQueue) DataStore \<Rightarrow> int \<Rightarrow> WorkflowQueue \<Rightarrow> 'db \<Rightarrow> 'db" where
  "updateWorkflowTask store now task db =
    (if isWorkflowTerminal (wq_Status task) then db else snd (ds_Put store now db task))"

definition updateWorkflowStatus ::
  "('db, WorkflowQueue) DataStore \<Rightarrow> int \<Rightarrow> WorkflowQueue \<Rightarrow> 'db \<Rightarrow> WorkflowQueue \<times> 'db" where
  "updateWorkflowStatus store now task db =
    (let task' = task\<lparr>wq_Status := StatusCompleted\<rparr> in (task', snd (ds_Put store now db task')))"

section \<open>The loops of Run\<close>

text \<open>
  \<open>rj k\<close> is the \<open>k\<close>-th call of \<open>RunJobs\<close>. A batch is the non-empty bucket of one priority; the
  first job of a batch that did not succeed ends the run with an error.
\<close>

type_synonym ('x, 'db, 'r) batch_run =
  "nat \<Rightarrow> 'x JobTask list \<Rightarrow> int \<Rightarrow> bool \<Rightarrow> ('db, 'r) run_world \<Rightarrow> 'x JobTask list \<times> ('db, 'r) run_world"

definition job_failure :: "string \<Rightarrow> 'x JobTask \<Rightarrow> string" where
  "job_failure workflowName job =
    ''workflow '' @ workflowName @ '' failed at job '' @ jt_Name job @ '' (status='' @
      Status_string (jt_Status job) @ '')''"

fun run_priorities ::
  "('x, 'db, 'r) batch_run \<Rightarrow> string \<Rightarrow> int \<Rightarrow> WorkflowMode \<Rightarrow> 'x buckets \<Rightarrow> nat \<Rightarrow> int list \<Rightarrow>
   ('db, 'r) run_world \<Rightarrow> string option \<times> nat \<times> ('db, 'r) run_world" where
  "run_priorities rj wfName seqLimit mode b k [] w = (None, k, w)"
| "run_priorities rj wfName seqLimit mode b k (p # ps) w =
    (let tasksInPriority = bucket_get b p in
     if tasksInPriority = [] then run_priorities rj wfName seqLimit mode b k ps w
     else
       let stepConcurrency = determineStepConcurrency mode (int (length tasksInPriority)) seqLimit in
       case rj k tasksInPriority stepConcurrency (\<not> IsParallel mode) w of
         (tasks', w') \<Rightarrow>
           (case find (\<lambda>t. \<not> isJobSuccessStatus (jt_Status t)) tasks' of
              Some t \<Rightarrow> (Some (job_failure wfName t), Suc k, w')
            | None \<Rightarrow> run_priorities rj wfName seqLimit mode b (Suc k) ps w'))"

fun run_executions ::
  "('x, 'db, 'r) batch_run \<Rightarrow> string \<Rightarrow> int \<Rightarrow> nat \<Rightarrow> 'x StepExecution list \<Rightarrow> ('db, 'r) run_world \<Rightarrow>
   string option \<times> nat \<times> ('db, 'r) run_world" where
  "run_executions rj wfName seqLimit k [] w = (None, k, w)"
| "run_executions rj wfName seqLimit k (e # es) w =
    (case run_priorities rj wfName seqLimit (se_Mode e) (se_Jobs e) k (sortedPriorities (se_Jobs e)) w of
       (Some err, k', w') \<Rightarrow> (Some err, k', w')
     | (None, k', w') \<Rightarrow> run_executions rj wfName seqLimit k' es w')"

section \<open>Run\<close>

text \<open>
  \<open>rj task\<close> are the calls of \<open>RunJobs\<close> with the \<open>ack\<close> of the running task. The result is what
  \<open>Run\<close> returns (\<open>None\<close> for a nil error), the controller's task and the world. The deferred
  \<open>ack\<close> runs on every path; \<open>clock\<close> gives the successive readings of \<open>time.Now()\<close>.
\<close>

definition WorkflowCtl_Run ::
  "('db, WorkflowQueue) DataStore \<Rightarrow> ('db, Workflow) DataStore \<Rightarrow> ('db, ApplicationComponent) DataStore \<Rightarrow>
   'x traits_proc \<Rightarrow> (WorkflowQueue \<Rightarrow> ('x, 'db, 'r) batch_run) \<Rightarrow> (nat \<Rightarrow> int) \<Rightarrow> int \<Rightarrow> int \<Rightarrow> WorkflowQueue \<Rightarrow>
   ('db, 'r) run_world \<Rightarrow> string option outcome \<times> WorkflowQueue \<times> ('db, 'r) run_world" where
  "WorkflowCtl_Run store wfStore compStore ApplyTraits rj clock timeout concurrency task0 w =
    (let task = task0\<lparr>wq_Status := StatusRunning, wq_CreateTime := clock 0\<rparr>;
         ack = (\<lambda>i t v. v\<lparr>rw_env := updateWorkflowTask store (clock i) t (rw_env v)\<rparr>);
         w1 = ack 1 task w
     in case GenerateJobTasks ApplyTraits wfStore compStore (rw_env w1) task timeout of
          Panic v \<Rightarrow> (Panic v, task, ack 3 task w1)
        | Return stepExecutions \<Rightarrow>
           (let seqLimit = (if concurrency > 0 then concurrency else 1) in
            case run_executions (rj task) (wq_WorkflowName task) seqLimit 0 stepExecutions w1 of
              (Some err, k, w2) \<Rightarrow>
                (let failed = task\<lparr>wq_Status := StatusFailed\<rparr>
                 in (Return (Some err), failed, ack 3 failed w2))
            | (None, k, w2) \<Rightarrow>
                (case updateWorkflowStatus store (clock 2) task (rw_env w2) of
                   (completed, db) \<Rightarrow>
                     (Return None, completed, ack 3 completed (w2\<lparr>rw_env := db\<rparr>)))))"

section \<open>The order of the batches\<close>

text \<open>
  The reference for the nested loops: one list of batches, in the order of the steps and, within
  a step, of the priorities; they run one after the other until one has a job that failed.
\<close>

definition execution_batches :: "'x StepExecution \<Rightarrow> (WorkflowMode \<times> 'x JobTask list) list" where
  "execution_batches e =
    map (\<lambda>p. (se_Mode e, bucket_get (se_Jobs e) p))
      (filter (\<lambda>p. bucket_get (se_Jobs e) p \<noteq> []) (sort (map fst (se_Jobs e))))"

fun run_batches ::
  "('x, 'db, 'r) batch_run \<Rightarrow> string \<Rightarrow> int \<Rightarrow> nat \<Rightarrow> (WorkflowMode \<times> 'x JobTask list) list \<Rightarrow>
   ('db, 'r) run_world \<Rightarrow> string option \<times> nat \<times> ('db, 'r) run_world" where
  "run_batches rj wfName limit k [] w = (None, k, w)"
| "run_batches rj wfName limit k ((mode, jobs) # bs) w =
    (case rj k jobs (determineStepConcurrency mode (int (length jobs)) limit) (\<not> IsParallel mode) w of
       (jobs', w') \<Rightarrow>
         (case find (\<lambda>t. \<not> isJobSuccessStatus (jt_Status t)) jobs' of
            Some t \<Rightarrow> (Some (job_failure wfName t), Suc k, w')
          | None \<Rightarrow> run_batches rj wfName limit (Suc k) bs w'))"

lemma run_batches_append:
  "run_batches rj n l k (bs @ cs) w =
    (case run_batches rj n l k bs w of
       (Some err, k', w') \<Rightarrow> (Some err, k', w')
     | (None, k', w') \<Rightarrow> run_batches rj n l k' cs w')"
  by (induction rj n l k bs w rule: run_batches.induct) (auto split: prod.splits option.splits)

lemma run_priorities_batches:
  "run_priorities rj n l mode b k ps w =
   run_batches rj n l k (map (\<lambda>p. (mode, bucket_get b p)) (filter (\<lambda>p. bucket_get b p \<noteq> []) ps)) w"
  by (induction rj n l mode b k ps w rule: run_priorities.induct)
    (auto simp: Let_def split: prod.splits option.splits)

lemma run_executions_batches:
  "run_executions rj n l k es w = run_batches rj n l k (concat (map execution_batches es)) w"
  by (induction rj n l k es w rule: run_executions.induct)
    (auto simp: run_batches_append run_priorities_batches execution_batches_def sortedPriorities_def
      split: prod.splits option.splits)

text \<open>The batches hold the jobs of the executions, each one once.\<close>

lemma concat_filter_nonempty: "concat (map f (filter (\<lambda>p. f p \<noteq> []) ps)) = concat (map f ps)"
  by (induction ps) auto

lemma mset_concat_map_sort:
  "mset (concat (map f (sort ps))) = mset (concat (map f ps))"
proof -
  have "mset (concat (map f xs)) = \<Sum>\<^sub># (image_mset (\<lambda>p. mset (f p)) (mset xs))" for xs
    by (induction xs) auto
  then show ?thesis by simp
qed

lemma execution_batches_jobs:
  assumes "distinct (map fst (se_Jobs e))"
  shows "mset (concat (map snd (execution_batches e))) = mset (bucket_jobs (se_Jobs e))"
proof -
  let ?f = "bucket_get (se_Jobs e)"
  have "concat (map snd (execution_batches e)) = concat (map ?f (sort (map fst (se_Jobs e))))"
    using concat_filter_nonempty [of ?f] by (simp add: execution_batches_def comp_def)
  then show ?thesis
    using mset_concat_map_sort [of ?f "map fst (se_Jobs e)"] bucket_jobs_by_priority [OF assms]
    by (simp del: map_map)
qed

text \<open>
  A run without error ran every batch, and every job it got back had succeeded.
\<close>

lemma run_batches_success:
  "run_batches rj n l k bs w = (None, k', w') \<Longrightarrow>
   k' = k + length bs \<and>
   (\<forall>i<length bs. \<exists>v jobs' v'.
      rj (k + i) (snd (bs ! i)) (determineStepConcurrency (fst (bs ! i)) (int (length (snd (bs ! i)))) l)
         (\<not> IsParallel (fst (bs ! i))) v = (jobs', v') \<and>
      (\<forall>t\<in>set jobs'. isJobSuccessStatus (jt_Status t)))"
proof (induction rj n l k bs w rule: run_batches.induct)
  case (2 rj n l k mode jobs bs w)
  obtain jobs' w1 where
    r: "rj k jobs (determineStepConcurrency mode (int (length jobs)) l) (\<not> IsParallel mode) w = (jobs', w1)"
    by fastforce
  from 2(2) r have f: "find (\<lambda>t. \<not> isJobSuccessStatus (jt_Status t)) jobs' = None"
    and rest: "run_batches rj n l (Suc k) bs w1 = (None, k', w')"
    by (auto split: option.splits)
  from f have ok: "\<forall>t\<in>set jobs'. isJobSuccessStatus (jt_Status t)"
    by (auto simp: find_None_iff)
  from 2(1) [OF r [symmetric] _ rest] f have IH: "k' = Suc k + length bs \<and>
   (\<forall>i<length bs. \<exists>v jobs' v'.
      rj (Suc k + i) (snd (bs ! i)) (determineStepConcurrency (fst (bs ! i)) (int (length (snd (bs ! i)))) l)
         (\<not> IsParallel (fst (bs ! i))) v = (jobs', v') \<and>
      (\<forall>t\<in>set jobs'. isJobSuccessStatus (jt_Status t)))" by auto
  have "\<exists>v jobs' v'. rj (k + i) (snd (((mode, jobs) # bs) ! i))
       (determineStepConcurrency (fst (((mode, jobs) # bs) ! i)) (int (length (snd (((mode, jobs) # bs) ! i)))) l)
       (\<not> IsParallel (fst (((mode, jobs) # bs) ! i))) v = (jobs', v') \<and>
      (\<forall>t\<in>set jobs'. isJobSuccessStatus (jt_Status t))" if "i < Suc (length bs)" for i
  proof (cases i)
    case 0
    with r ok show ?thesis by auto
  next
    case (Suc j)
    with that IH show ?thesis by auto
  qed
  with IH show ?case by simp
qed simp

text \<open>A run with an error stopped at the batch that failed: the batches behind it never started.\<close>

lemma run_batches_failure:
  "run_batches rj n l k bs w = (Some err, k', w') \<Longrightarrow>
   k < k' \<and> k' \<le> k + length bs \<and>
   (\<exists>v jobs' t. rj (k' - 1) (snd (bs ! (k' - 1 - k)))
        (determineStepConcurrency (fst (bs ! (k' - 1 - k))) (int (length (snd (bs ! (k' - 1 - k))))) l)
        (\<not> IsParallel (fst (bs ! (k' - 1 - k)))) v = (jobs', w') \<and>
      t \<in> set jobs' \<and> \<not> isJobSuccessStatus (jt_Status t) \<and> err = job_failure n t)"
proof (induction rj n l k bs w rule: run_batches.induct)
  case (2 rj n l k mode jobs bs w)
  obtain jobs' w1 where
    r: "rj k jobs (determineStepConcurrency mode (int (length jobs)) l) (\<not> IsParallel mode) w = (jobs', w1)"
    by fastforce
  show ?case
  proof (cases "find (\<lambda>t. \<not> isJobSuccessStatus (jt_Status t)) jobs'")
    case (Some t)
    with 2(2) r have "k' = Suc k" "w' = w1" "err = job_failure n t" by auto
    moreover from Some have "t \<in> set jobs'" "\<not> isJobSuccessStatus (jt_Status t)"
      by (auto simp: find_Some_iff)
    ultimately show ?thesis using r by auto
  next
    case None
    with 2(2) r have rest: "run_batches rj n l (Suc k) bs w1 = (Some err, k', w')" by simp
    from 2(1) [OF r [symmetric] None rest] have lt: "Suc k < k'" by blast
    then have "(k' - 1 - k) = Suc (k' - 1 - Suc k)" by simp
    with 2(1) [OF r [symmetric] None rest] lt show ?thesis by auto
  qed
qed simp

section \<open>Invariants of the database under a batch\<close>

text \<open>A property of the database that \<open>ack\<close> and every method of the controllers keep is kept by a batch.\<close>

definition env_keeps :: "('s \<Rightarrow> bool) \<Rightarrow> ('x, 's, 'r) job_env \<Rightarrow> bool" where
  "env_keeps Q env \<longleftrightarrow>
    (\<forall>j s. Q s \<longrightarrow> Q (env_ack env j s)) \<and>
    (\<forall>t cw j s c r. Q s \<longrightarrow> Q (fst (snd (snd (ctl_Run (env_ctl env t) cw j (s, c, r)))))) \<and>
    (\<forall>t j s. Q s \<longrightarrow> Q (ctl_Clean (env_ctl env t) j s) \<and> Q (snd (ctl_SaveInfo (env_ctl env t) j s)))"

lemma env_simps [simp]:
  "rw_env (log_event ev w) = rw_env w"
  "rw_env (do_ack env job w) = env_ack env job (rw_env w)"
  "rw_env (do_clean ctl job w) = ctl_Clean ctl job (rw_env w)"
  "rw_env (do_save ctl job w) = snd (ctl_SaveInfo ctl job (rw_env w))"
  "rw_env (job_release env watcher w) = rw_env w"
  by (simp_all add: log_event_def do_ack_def do_clean_def do_save_def job_release_def
      split: option.splits prod.splits)

lemma job_watch_env: "job_watch env obs w = (watcher, w1) \<Longrightarrow> rw_env w1 = rw_env w"
  by (auto simp: job_watch_def split: if_splits prod.splits sum.splits)

lemma initJobCtl_env: "initJobCtl env job = Some ctl \<Longrightarrow> \<exists>t. ctl = env_ctl env t"
  by (auto simp: initJobCtl_def split: if_splits)

lemma execute_job_env:
  assumes "env_keeps Q env" and "Q (rw_env w)"
  shows "Q (rw_env (snd (execute_job env obs (env_ctl env t) watcher job w)))"
proof -
  obtain out job1 e c r where
    run: "ctl_Run (env_ctl env t) watcher job (rw_env w, rw_cancel w, rw_redis w) = (out, job1, e, c, r)"
    by (metis prod_cases5)
  from assms have "Q (fst (snd (snd (ctl_Run (env_ctl env t) watcher job (rw_env w, rw_cancel w, rw_redis w)))))"
    unfolding env_keeps_def by blast
  then have "Q e" by (simp add: run)
  with assms(1) show ?thesis
    by (cases out) (auto simp: execute_job_def run Let_def env_keeps_def split: option.splits)
qed

lemma runJob_env:
  assumes "env_keeps Q env" and "Q (rw_env w)"
  shows "Q (rw_env (snd (runJob env obs job w)))"
proof -
  obtain watcher w1 where jw: "job_watch env obs w = (watcher, w1)" by fastforce
  with assms(2) have q1: "Q (rw_env w1)" by (simp add: job_watch_env)
  have ack: "Q s \<Longrightarrow> Q (env_ack env j s)" for j s using assms(1) by (simp add: env_keeps_def)
  have save: "Q s \<Longrightarrow> initJobCtl env j = Some ctl \<Longrightarrow> Q (snd (ctl_SaveInfo ctl j' s))" for j j' s ctl
    using assms(1) initJobCtl_env [of env j ctl] by (auto simp: env_keeps_def)
  have skip: "Q (rw_env (snd (skip_job env obs job w1)))"
    using q1 unfolding skip_job_def Let_def
    by (cases "env_store env") (simp_all add: ack save split: option.split del: if_split)
  have exec: "Q (rw_env (snd (execute_job env obs ctl watcher j (do_ack env j w1))))"
    if "initJobCtl env j = Some ctl" for ctl j
    using execute_job_env [OF assms(1), of "do_ack env j w1"] initJobCtl_env [OF that] assms(1) q1
    by (auto simp: env_keeps_def)
  define j where "j = job\<lparr>jt_Status := StatusPrepare, jt_Error := '''', jt_StartTime := ob_start obs\<rparr>"
  have start: "Q (rw_env (snd (case initJobCtl env j of
          None \<Rightarrow> (j2, do_ack env j2 (do_ack env j w1))
        | Some ctl \<Rightarrow> execute_job env obs ctl watcher j (do_ack env j w1))))" for j2
    using q1 exec by (auto simp: ack split: option.split)
  show ?thesis
    using q1 skip start ack
    unfolding runJob_def jw Let_def prod.case j_def [symmetric]
    by (cases "jt_Status job = StatusPassed"; cases "jt_Status job = StatusSkipped")
      (simp_all add: case_prod_beta)
qed

lemma run_sequential_env:
  "env_keeps Q env \<Longrightarrow> Q (rw_env w) \<Longrightarrow> Q (rw_env (snd (run_sequential env obs i jobs w)))"
proof (induction env obs i jobs w rule: run_sequential.induct)
  case (2 env obs i job jobs w)
  obtain j1 w1 where r: "runJob env (obs i) job w = (j1, w1)" by fastforce
  with runJob_env [OF 2(2,3), of "obs i" job] have "Q (rw_env w1)" by simp
  with 2(1) [OF r [symmetric] _ 2(2)] r show ?case by (auto split: prod.splits)
qed simp

lemma RunJobs_env:
  assumes "env_keeps Q env" and "Q (rw_env w)"
    and "\<And>js c b v. Q (rw_env v) \<Longrightarrow> Q (rw_env (snd (pool js c b v)))"
  shows "Q (rw_env (snd (RunJobs env obs pool jobs c b w)))"
  using assms run_sequential_env [OF assms(1,2)] by (auto simp: RunJobs_def)

section \<open>What a run leaves in the task table\<close>

lemma run_batches_inv:
  assumes "\<And>k jobs c b v jobs' v'. rj k jobs c b v = (jobs', v') \<Longrightarrow> Q (rw_env v) \<Longrightarrow> Q (rw_env v')"
  shows "run_batches rj n l k bs w = (res, k', w') \<Longrightarrow> Q (rw_env w) \<Longrightarrow> Q (rw_env w')"
  using assms
  by (induction rj n l k bs w rule: run_batches.induct) (auto split: prod.splits option.splits)

context task_store
begin

lemma put_status:
  assumes "fst (ds_Put store now db e) = None" and "rows db (wq_TaskID e) = Some r"
    and "Status_string (wq_Status e) \<noteq> ''''"
  shows "\<exists>r'. rows (snd (ds_Put store now db e)) (wq_TaskID e) = Some r' \<and> wq_Status r' = wq_Status e"
proof -
  obtain db' where p: "ds_Put store now db e = (None, db')"
    using assms(1) by (metis prod.collapse)
  from put_ok [OF p] assms(2,3) show ?thesis
    by (simp add: p wq_merge_def WorkflowQueue_Entity_def)
qed

lemma ack_status:
  assumes "fst (ds_Put store now db task) = None" and "rows db (wq_TaskID task) = Some r"
    and "Status_string (wq_Status task) \<noteq> ''''" and "\<not> isWorkflowTerminal (wq_Status task)"
  shows "\<exists>r'. rows (updateWorkflowTask store now task db) (wq_TaskID task) = Some r' \<and>
    wq_Status r' = wq_Status task"
  using put_status [OF assms(1-3)] assms(4) by (simp add: updateWorkflowTask_def)

lemma Run_completes:
  assumes run: "WorkflowCtl_Run store wfs cs T rj clock timeout conc task w = (Return None, task', w')"
    and put: "\<And>now db e. wq_TaskID e = wq_TaskID task \<Longrightarrow> fst (ds_Put store now db e) = None"
    and row: "rows (rw_env w) (wq_TaskID task) \<noteq> None"
    and keep: "\<And>k jobs c b v jobs' v'.
       rj (task\<lparr>wq_Status := StatusRunning, wq_CreateTime := clock 0\<rparr>) k jobs c b v = (jobs', v') \<Longrightarrow>
       rows (rw_env v) (wq_TaskID task) \<noteq> None \<Longrightarrow> rows (rw_env v') (wq_TaskID task) \<noteq> None"
  shows "\<exists>r. rows (rw_env w') (wq_TaskID task) = Some r \<and> wq_Status r = StatusCompleted"
proof -
  let ?t = "task\<lparr>wq_Status := StatusRunning, wq_CreateTime := clock 0\<rparr>"
  let ?c = "?t\<lparr>wq_Status := StatusCompleted\<rparr>"
  let ?w1 = "w\<lparr>rw_env := updateWorkflowTask store (clock 1) ?t (rw_env w)\<rparr>"
  from run obtain es k w2 where
    re: "run_executions (rj ?t) (wq_WorkflowName ?t) (if conc > 0 then conc else 1) 0 es ?w1 = (None, k, w2)"
    and w': "w' = w2\<lparr>rw_env := updateWorkflowTask store (clock 3) ?c (snd (ds_Put store (clock 2) (rw_env w2) ?c))\<rparr>"
    by (auto simp: WorkflowCtl_Run_def Let_def updateWorkflowStatus_def
        split: outcome.splits prod.splits option.splits)
  from row obtain r0 where "rows (rw_env w) (wq_TaskID ?t) = Some r0" by auto
  from ack_status [OF put this] have "rows (rw_env ?w1) (wq_TaskID task) \<noteq> None"
    by (auto simp: Status_table_def isWorkflowTerminal_def)
  with run_batches_inv [of "rj ?t" "\<lambda>db. rows db (wq_TaskID task) \<noteq> None"] keep re
  have "rows (rw_env w2) (wq_TaskID task) \<noteq> None"
    unfolding run_executions_batches by blast
  then obtain r1 where "rows (rw_env w2) (wq_TaskID ?c) = Some r1" by auto
  from put_status [OF put this] obtain r2 where
    "rows (snd (ds_Put store (clock 2) (rw_env w2) ?c)) (wq_TaskID ?c) = Some r2"
    by (auto simp: Status_table_def)
  from ack_status [OF put this] show ?thesis
    by (auto simp: w' Status_table_def isWorkflowTerminal_def)
qed

text \<open>
  A failed run leaves the row \<open>running\<close>: the status \<open>failed\<close> is terminal for
  \<open>updateWorkflowTask\<close>, so the deferred \<open>ack\<close> does not write it.
\<close>

lemma Run_fails:
  assumes run: "WorkflowCtl_Run store wfs cs T rj clock timeout conc task w = (Return (Some err), task', w')"
    and put: "\<And>now db e. wq_TaskID e = wq_TaskID task \<Longrightarrow> fst (ds_Put store now db e) = None"
    and row: "rows (rw_env w) (wq_TaskID task) \<noteq> None"
    and keep: "\<And>k jobs c b v jobs' v'.
       rj (task\<lparr>wq_Status := StatusRunning, wq_CreateTime := clock 0\<rparr>) k jobs c b v = (jobs', v') \<Longrightarrow>
       \<exists>r. rows (rw_env v) (wq_TaskID task) = Some r \<and> wq_Status r = StatusRunning \<Longrightarrow>
       \<exists>r. rows (rw_env v') (wq_TaskID task) = Some r \<and> wq_Status r = StatusRunning"
  shows "wq_Status task' = StatusFailed \<and>
    (\<exists>r. rows (rw_env w') (wq_TaskID task) = Some r \<and> wq_Status r = StatusRunning)"
proof -
  let ?t = "task\<lparr>wq_Status := StatusRunning, wq_CreateTime := clock 0\<rparr>"
  let ?w1 = "w\<lparr>rw_env := updateWorkflowTask store (clock 1) ?t (rw_env w)\<rparr>"
  let ?Q = "\<lambda>db. \<exists>r. rows db (wq_TaskID task) = Some r \<and> wq_Status r = StatusRunning"
  from run obtain es k w2 where
    re: "run_executions (rj ?t) (wq_WorkflowName ?t) (if conc > 0 then conc else 1) 0 es ?w1 = (Some err, k, w2)"
    and w': "w' = w2" and t': "task' = ?t\<lparr>wq_Status := StatusFailed\<rparr>"
    by (auto simp: WorkflowCtl_Run_def Let_def updateWorkflowTask_def isWorkflowTerminal_def
        split: outcome.splits prod.splits option.splits)
  from row obtain r0 where "rows (rw_env w) (wq_TaskID ?t) = Some r0" by auto
  from ack_status [OF put this] have "?Q (rw_env ?w1)"
    by (auto simp: Status_table_def isWorkflowTerminal_def)
  with run_batches_inv [of "rj ?t" ?Q] keep re have "?Q (rw_env w2)"
    unfolding run_executions_batches by blast
  with w' t' show ?thesis by simp
qed

end

end
