(* ===== verification/Kube_Dispatch.thy ===== *)
theory Kube_Dispatch
  imports Kube_Controller
begin

text \<open>
  Finding and handing out tasks: \<open>event/workflow/dispatcher.go\<close>, \<open>event/workflow/workflow.go\<close>
  and \<open>event/workflow/workflow_state.go\<close>. Several server replicas scan the same table, so a
  task is claimed by an atomic status transition; the lemmas show that one replica at most
  wins, that a failed hand-over is taken back, how the worker loop backs off and gives up,
  and how the runtime limits the workflows that run at once.
\<close>

section \<open>Configuration\<close>

record WorkflowRuntimeConfig =
  wr_SequentialMaxConcurrency :: int
  wr_LocalPollInterval :: int
  wr_DispatchPollInterval :: int
  wr_WorkerStaleInterval :: int
  wr_WorkerAutoClaimMinIdle :: int
  wr_WorkerAutoClaimCount :: int
  wr_WorkerReadCount :: int
  wr_WorkerReadBlock :: int
  wr_DefaultJobTimeout :: int
  wr_MaxConcurrentWorkflows :: int
  wr_WorkerMaxReadFailures :: int
  wr_WorkerMaxClaimFailures :: int
  wr_WorkerBackoffMin :: int
  wr_WorkerBackoffMax :: int

text \<open>The pattern of the accessors: a positive configured value, else the default.\<close>

definition positive_or ::
  "WorkflowRuntimeConfig option \<Rightarrow> (WorkflowRuntimeConfig \<Rightarrow> int) \<Rightarrow> int \<Rightarrow> int" where
  "positive_or cfg field d = (case cfg of Some c \<Rightarrow> if field c > 0 then field c else d | None \<Rightarrow> d)"

definition localPollInterval :: "WorkflowRuntimeConfig option \<Rightarrow> int" where
  "localPollInterval cfg = positive_or cfg wr_LocalPollInterval (3 * Second)"

definition dispatchPollInterval :: "WorkflowRuntimeConfig option \<Rightarrow> int" where
  "dispatchPollInterval cfg = positive_or cfg wr_DispatchPollInterval (3 * Second)"

definition workerStaleInterval :: "WorkflowRuntimeConfig option \<Rightarrow> int" where
  "workerStaleInterval cfg = positive_or cfg wr_WorkerStaleInterval (15 * Second)"

definition workerAutoClaimMinIdle :: "WorkflowRuntimeConfig option \<Rightarrow> int" where
  "workerAutoClaimMinIdle cfg = positive_or cfg wr_WorkerAutoClaimMinIdle (60 * Second)"

definition workerAutoClaimCount :: "WorkflowRuntimeConfig option \<Rightarrow> int" where
  "workerAutoClaimCount cfg = positive_or cfg wr_WorkerAutoClaimCount 50"

definition workerReadCount :: "WorkflowRuntimeConfig option \<Rightarrow> int" where
  "workerReadCount cfg = positive_or cfg wr_WorkerReadCount 10"

definition workerReadBlock :: "WorkflowRuntimeConfig option \<Rightarrow> int" where
  "workerReadBlock cfg = positive_or cfg wr_WorkerReadBlock (2 * Second)"

definition workerMaxReadFailures :: "WorkflowRuntimeConfig option \<Rightarrow> int" where
  "workerMaxReadFailures cfg =
    (case cfg of Some c \<Rightarrow> wr_WorkerMaxReadFailures c | None \<Rightarrow> DefaultWorkerMaxReadFailures)"

definition workerMaxClaimFailures :: "WorkflowRuntimeConfig option \<Rightarrow> int" where
  "workerMaxClaimFailures cfg =
    (case cfg of Some c \<Rightarrow> wr_WorkerMaxClaimFailures c | None \<Rightarrow> DefaultWorkerMaxClaimFailures)"

definition workerBackoffMin :: "WorkflowRuntimeConfig option \<Rightarrow> int" where
  "workerBackoffMin cfg = positive_or cfg wr_WorkerBackoffMin DefaultWorkerBackoffMin"

definition workerBackoffMax :: "WorkflowRuntimeConfig option \<Rightarrow> int" where
  "workerBackoffMax cfg = positive_or cfg wr_WorkerBackoffMax DefaultWorkerBackoffMax"

definition maxWorkflowConcurrency :: "WorkflowRuntimeConfig option \<Rightarrow> int" where
  "maxWorkflowConcurrency cfg = positive_or cfg wr_MaxConcurrentWorkflows DefaultMaxConcurrentWorkflows"

definition dispatchTopic :: "string option \<Rightarrow> string" where
  "dispatchTopic channelPrefix =
    (let pre = (case channelPrefix of None \<Rightarrow> '''' | Some p \<Rightarrow> p);
         pre2 = (if pre = '''' then ''kubemin'' else pre)
     in pre2 @ ''.workflow.dispatch'')"

section \<open>Dispatch messages\<close>

record TaskDispatch =
  td_TaskID :: string
  td_WorkflowID :: string
  td_ProjectID :: string
  td_AppID :: string

definition MarshalTaskDispatch :: "TaskDispatch \<Rightarrow> json" where
  "MarshalTaskDispatch t = JObj
    [(''task_id'', JStr (td_TaskID t)), (''workflow_id'', JStr (td_WorkflowID t)),
     (''project_id'', JStr (td_ProjectID t)), (''app_id'', JStr (td_AppID t))]"

text \<open>The payload is \<open>None\<close> when its bytes are not a JSON text.\<close>

definition UnmarshalTaskDispatch :: "json option \<Rightarrow> TaskDispatch option" where
  "UnmarshalTaskDispatch b =
    (case b of
       None \<Rightarrow> None
     | Some j \<Rightarrow>
        (if conforms j (SStruct [(''task_id'', SStr), (''workflow_id'', SStr), (''project_id'', SStr),
                                 (''app_id'', SStr)])
         then Some \<lparr>td_TaskID = json_str (json_get ''task_id'' j),
                    td_WorkflowID = json_str (json_get ''workflow_id'' j),
                    td_ProjectID = json_str (json_get ''project_id'' j),
                    td_AppID = json_str (json_get ''app_id'' j)\<rparr>
         else None))"

record Message =
  msg_ID :: string
  msg_Payload :: "json option"

section \<open>Claiming\<close>

text \<open>
  \<open>processor\<close> is what a claimed task is handed to; \<open>ctxErr\<close> says that the context has ended by
  the time its error is looked at. The first result says whether the processor ran.
\<close>

definition claimAndProcessTask ::
  "('db, WorkflowQueue) DataStore \<Rightarrow> int \<Rightarrow> int \<Rightarrow> bool \<Rightarrow> WorkflowQueue \<Rightarrow>
   (WorkflowQueue \<Rightarrow> 'db \<Rightarrow> string option \<times> 'db) \<Rightarrow> 'db \<Rightarrow> bool \<times> 'db" where
  "claimAndProcessTask store now0 now1 ctxErr task processor db =
    (case UpdateTaskStatus store now0 db (wq_TaskID task) StatusWaiting StatusQueued of
       (Inl err, db1) \<Rightarrow> (False, db1)
     | (Inr False, db1) \<Rightarrow> (False, db1)
     | (Inr True, db1) \<Rightarrow>
        (case processor task db1 of
           (None, db2) \<Rightarrow> (True, db2)
         | (Some err, db2) \<Rightarrow>
            (if ctxErr then (True, db2)
             else (True, snd (UpdateTaskStatus store now1 db2 (wq_TaskID task) StatusQueued StatusWaiting)))))"

text \<open>The processor of \<open>Dispatcher\<close>: the message goes to the queue, which may refuse it.\<close>

definition dispatch_processor ::
  "(json \<Rightarrow> 'db \<Rightarrow> (string + string) \<times> 'db) \<Rightarrow> WorkflowQueue \<Rightarrow> 'db \<Rightarrow> string option \<times> 'db" where
  "dispatch_processor Enqueue task db =
    (case Enqueue (MarshalTaskDispatch \<lparr>td_TaskID = wq_TaskID task, td_WorkflowID = wq_WorkflowID task,
                      td_ProjectID = wq_ProjectID task, td_AppID = wq_AppID task\<rparr>) db of
       (Inl err, db') \<Rightarrow> (Some (''enqueue task dispatch: '' @ err), db')
     | (Inr i, db') \<Rightarrow> (None, db'))"

text \<open>
  One pass of \<open>Dispatcher\<close> or \<open>WorkflowTaskSender\<close> over the waiting tasks; \<open>ctxErr i\<close> says that
  the context ended before the \<open>i\<close>-th task.
\<close>

fun dispatch_loop ::
  "('db, WorkflowQueue) DataStore \<Rightarrow> (nat \<Rightarrow> int) \<Rightarrow> (nat \<Rightarrow> bool) \<Rightarrow>
   (WorkflowQueue \<Rightarrow> 'db \<Rightarrow> string option \<times> 'db) \<Rightarrow> nat \<Rightarrow> WorkflowQueue list \<Rightarrow> 'db \<Rightarrow> 'db" where
  "dispatch_loop store clock ctxErr processor i [] db = db"
| "dispatch_loop store clock ctxErr processor i (t # ts) db =
    (if ctxErr i then db
     else dispatch_loop store clock ctxErr processor (Suc i) ts
            (snd (claimAndProcessTask store (clock (2 * i)) (clock (2 * i + 1)) (ctxErr (Suc i)) t processor db)))"

definition dispatch_pass ::
  "('db, WorkflowQueue) DataStore \<Rightarrow> (nat \<Rightarrow> int) \<Rightarrow> (nat \<Rightarrow> bool) \<Rightarrow>
   (WorkflowQueue \<Rightarrow> 'db \<Rightarrow> string option \<times> 'db) \<Rightarrow> 'db \<Rightarrow> 'db" where
  "dispatch_pass store clock ctxErr processor db =
    (case WaitingTasks store db of
       Inl err \<Rightarrow> db
     | Inr tasks \<Rightarrow> dispatch_loop store clock ctxErr processor 0 tasks db)"

section \<open>Starting a task\<close>

text \<open>The result is the error, or the task handed to \<open>runWorkflowTask\<close> with its concurrency.\<close>

definition updateQueueAndRunTask ::
  "('db, WorkflowQueue) DataStore \<Rightarrow> WorkflowRuntimeConfig option \<Rightarrow> int \<Rightarrow> WorkflowQueue \<Rightarrow> int \<Rightarrow> 'db \<Rightarrow>
   (string + WorkflowQueue \<times> int) \<times> 'db" where
  "updateQueueAndRunTask store cfg now task0 jobConcurrency db =
    (let task = task0\<lparr>wq_Status := StatusQueued\<rparr> in
     case UpdateTask store now db task of
       (Some err, db') \<Rightarrow>
         (Inl (''update task status error for workflow '' @ wq_WorkflowName task @ '', task '' @ wq_TaskID task), db')
     | (None, db') \<Rightarrow>
         (Inr (task, (case cfg of
                 Some c \<Rightarrow> if wr_SequentialMaxConcurrency c > 0 then wr_SequentialMaxConcurrency c
                           else jobConcurrency
               | None \<Rightarrow> jobConcurrency)), db'))"

text \<open>The result: is the message acknowledged, the task of the message, the task that is started.\<close>

definition processDispatchMessage ::
  "('db, WorkflowQueue) DataStore \<Rightarrow> WorkflowRuntimeConfig option \<Rightarrow> int \<Rightarrow> Message \<Rightarrow> 'db \<Rightarrow>
   bool \<times> string \<times> (WorkflowQueue \<times> int) list \<times> 'db" where
  "processDispatchMessage store cfg now m db =
    (case UnmarshalTaskDispatch (msg_Payload m) of
       None \<Rightarrow> (True, '''', [], db)
     | Some td \<Rightarrow>
        (case TaskByID store db (td_TaskID td) of
           Inl err \<Rightarrow> (True, td_TaskID td, [], db)
         | Inr task \<Rightarrow>
            (case updateQueueAndRunTask store cfg now task 1 db of
               (Inl err, db') \<Rightarrow> (True, td_TaskID td, [], db')
             | (Inr start, db') \<Rightarrow> (True, td_TaskID td, [start], db'))))"

text \<open>A batch of messages: the identifiers to acknowledge, the started tasks, the database.\<close>

fun process_messages ::
  "('db, WorkflowQueue) DataStore \<Rightarrow> WorkflowRuntimeConfig option \<Rightarrow> int \<Rightarrow> Message list \<Rightarrow> 'db \<Rightarrow>
   string list \<times> (WorkflowQueue \<times> int) list \<times> 'db" where
  "process_messages store cfg now [] db = ([], [], db)"
| "process_messages store cfg now (m # ms) db =
    (case processDispatchMessage store cfg now m db of
       (ack, taskID, started, db1) \<Rightarrow>
         (case process_messages store cfg now ms db1 of
            (acks, started', db2) \<Rightarrow>
              ((if ack then msg_ID m # acks else acks), started @ started', db2)))"

fun init_queue_loop ::
  "('db, WorkflowQueue) DataStore \<Rightarrow> int \<Rightarrow> WorkflowQueue list \<Rightarrow> 'db \<Rightarrow> 'db" where
  "init_queue_loop store now [] db = db"
| "init_queue_loop store now (t # ts) db =
     init_queue_loop store now ts (snd (ds_Put store now db (t\<lparr>wq_Status := StatusWaiting\<rparr>)))"

definition InitQueue :: "('db, WorkflowQueue) DataStore \<Rightarrow> int \<Rightarrow> 'db \<Rightarrow> 'db" where
  "InitQueue store now db =
    (case TaskRunning store db of
       Inl err \<Rightarrow> db
     | Inr tasks \<Rightarrow> init_queue_loop store now tasks db)"

section \<open>The worker loop\<close>

definition workerBackoffDelay :: "int \<Rightarrow> int \<Rightarrow> int \<Rightarrow> int" where
  "workerBackoffDelay current mn mx =
    (if current < mn then mn
     else let nxt = current * 2 in if nxt > mx then mx else nxt)"

text \<open>The variables of \<open>StartWorker\<close> and what one turn of its loop meets.\<close>

record worker_state =
  ws_delay :: int
  ws_readFailures :: int
  ws_claimFailures :: int

datatype worker_event =
    CtxDone | ClaimFailed | Claimed "Message list" | ReadFailed bool | Read "Message list"

definition worker_init :: "WorkflowRuntimeConfig option \<Rightarrow> worker_state" where
  "worker_init cfg = \<lparr>ws_delay = workerBackoffMin cfg, ws_readFailures = 0, ws_claimFailures = 0\<rparr>"

text \<open>
  One turn: \<open>None\<close> when the worker returns, else its new state with the messages to process.
  The argument of \<open>ReadFailed\<close> says that the context ended during the wait.
\<close>

fun worker_turn ::
  "WorkflowRuntimeConfig option \<Rightarrow> worker_event \<Rightarrow> worker_state \<Rightarrow> (worker_state \<times> Message list) option" where
  "worker_turn cfg CtxDone s = None"
| "worker_turn cfg ClaimFailed s =
    (let n = ws_claimFailures s + 1; limit = workerMaxClaimFailures cfg in
     if limit > 0 \<and> n \<ge> limit then None else Some (s\<lparr>ws_claimFailures := n\<rparr>, []))"
| "worker_turn cfg (Claimed ms) s =
    Some (s\<lparr>ws_claimFailures := 0, ws_delay := workerBackoffMin cfg\<rparr>, ms)"
| "worker_turn cfg (ReadFailed ctxDone) s =
    (let n = ws_readFailures s + 1; limit = workerMaxReadFailures cfg;
         wait = workerBackoffDelay (ws_delay s) (workerBackoffMin cfg) (workerBackoffMax cfg) in
     if ctxDone then None
     else if limit > 0 \<and> n \<ge> limit then None
     else Some (s\<lparr>ws_readFailures := n, ws_delay := wait\<rparr>, []))"
| "worker_turn cfg (Read ms) s =
    Some (s\<lparr>ws_readFailures := 0, ws_delay := workerBackoffMin cfg\<rparr>, ms)"

fun worker_run ::
  "WorkflowRuntimeConfig option \<Rightarrow> worker_event list \<Rightarrow> worker_state \<Rightarrow> worker_state option" where
  "worker_run cfg [] s = Some s"
| "worker_run cfg (ev # evs) s =
    (case worker_turn cfg ev s of None \<Rightarrow> None | Some (s', ms) \<Rightarrow> worker_run cfg evs s')"

section \<open>The workflows that run at once\<close>

text \<open>
  \<open>Start\<close> creates a semaphore with \<open>maxWorkflowConcurrency\<close> slots and an error group, whose
  context ends with the first function of the group that returns an error. A step is one
  action of \<open>runWorkflowTask\<close> or of a controller it started: a slot is acquired and the
  controller starts; the acquisition fails because the group's context has ended, and the task
  is dropped; a controller returns and its slot is released.
\<close>

record runtime =
  rt_running :: "string list"
  rt_done :: bool
  rt_dropped :: "string list"

definition runtime_init :: runtime where
  "runtime_init = \<lparr>rt_running = [], rt_done = False, rt_dropped = []\<rparr>"

inductive runtime_step :: "int \<Rightarrow> runtime \<Rightarrow> runtime \<Rightarrow> bool" for slots :: int where
  slot_acquired: "int (length (rt_running s)) < slots \<Longrightarrow> \<not> rt_done s \<Longrightarrow>
     runtime_step slots s (s\<lparr>rt_running := t # rt_running s\<rparr>)"
| slot_refused: "rt_done s \<Longrightarrow> runtime_step slots s (s\<lparr>rt_dropped := t # rt_dropped s\<rparr>)"
| run_returns: "rt_running s = us @ t # vs \<Longrightarrow>
     runtime_step slots s (s\<lparr>rt_running := us @ vs, rt_done := rt_done s \<or> (err :: string option) \<noteq> None\<rparr>)"
| server_stops: "runtime_step slots s (s\<lparr>rt_done := True\<rparr>)"

inductive_cases runtime_stepE: "runtime_step slots s s'"

lemma runtime_bound:
  "(runtime_step slots)\<^sup>*\<^sup>* runtime_init s \<Longrightarrow> 0 \<le> slots \<Longrightarrow> int (length (rt_running s)) \<le> slots"
  by (induction rule: rtranclp_induct) (auto simp: runtime_init_def elim!: runtime_stepE)

text \<open>
  Once the context of the group has ended, for instance because one workflow failed, no
  workflow ever starts again: the set of running workflows only shrinks.
\<close>

lemma runtime_closed:
  "(runtime_step slots)\<^sup>*\<^sup>* s s' \<Longrightarrow> rt_done s \<Longrightarrow>
   rt_done s' \<and> set (rt_running s') \<subseteq> set (rt_running s)"
  by (induction rule: rtranclp_induct) (auto elim!: runtime_stepE)

section \<open>Messages: lemmas\<close>

lemma dispatch_key_lower [simp]:
  "ToLower ''task_id'' = ''task_id''" "ToLower ''workflow_id'' = ''workflow_id''"
  "ToLower ''project_id'' = ''project_id''" "ToLower ''app_id'' = ''app_id''"
  by (simp_all add: json_lower)

lemma Unmarshal_Marshal: "UnmarshalTaskDispatch (Some (MarshalTaskDispatch t)) = Some t"
  by (cases t)
    (simp add: UnmarshalTaskDispatch_def MarshalTaskDispatch_def json_get_def resolve_def field_of_def)

text \<open>Every message of a batch is acknowledged, whatever happens to its task.\<close>

lemma process_messages_acks: "fst (process_messages store cfg now ms db) = map msg_ID ms"
proof (induction ms arbitrary: db)
  case (Cons m ms)
  obtain ack taskID started db1 where
    p: "processDispatchMessage store cfg now m db = (ack, taskID, started, db1)"
    by (metis prod_cases4)
  then have ack by (auto simp: processDispatchMessage_def split: option.splits sum.splits prod.splits)
  with p Cons.IH [of db1] show ?case by (auto split: prod.splits)
qed simp

section \<open>The worker loop: lemmas\<close>

lemma positive_or_pos: "0 < d \<Longrightarrow> 0 < positive_or cfg field d"
  by (simp add: positive_or_def split: option.splits)

lemma workerBackoffMin_pos: "0 < workerBackoffMin cfg"
  by (simp add: workerBackoffMin_def positive_or_pos DefaultWorkerBackoffMin_def duration_defs)

lemma workerBackoffDelay_bounds:
  "0 \<le> mn \<Longrightarrow> mn \<le> mx \<Longrightarrow>
   mn \<le> workerBackoffDelay current mn mx \<and> workerBackoffDelay current mn mx \<le> mx"
  by (auto simp: workerBackoffDelay_def Let_def)

lemma worker_turn_delay:
  assumes "worker_turn cfg ev s = Some (s', ms)" and "workerBackoffMin cfg \<le> workerBackoffMax cfg"
    and "workerBackoffMin cfg \<le> ws_delay s \<and> ws_delay s \<le> workerBackoffMax cfg"
  shows "workerBackoffMin cfg \<le> ws_delay s' \<and> ws_delay s' \<le> workerBackoffMax cfg"
proof (cases ev)
  case (ReadFailed d)
  with assms workerBackoffDelay_bounds [of "workerBackoffMin cfg" "workerBackoffMax cfg" "ws_delay s"]
    workerBackoffMin_pos [of cfg] show ?thesis
    by (auto simp: Let_def split: if_splits)
qed (use assms in \<open>auto simp: Let_def split: if_splits\<close>)

lemma worker_run_delay:
  "worker_run cfg evs s = Some s' \<Longrightarrow> workerBackoffMin cfg \<le> workerBackoffMax cfg \<Longrightarrow>
   workerBackoffMin cfg \<le> ws_delay s \<and> ws_delay s \<le> workerBackoffMax cfg \<Longrightarrow>
   workerBackoffMin cfg \<le> ws_delay s' \<and> ws_delay s' \<le> workerBackoffMax cfg"
  by (induction cfg evs s rule: worker_run.induct)
    (auto split: option.splits dest!: worker_turn_delay)

text \<open>With no limit on the failures only the end of the context stops the worker.\<close>

fun ends_context :: "worker_event \<Rightarrow> bool" where
  "ends_context CtxDone = True"
| "ends_context (ReadFailed d) = d"
| "ends_context _ = False"

lemma worker_run_resilient:
  "workerMaxReadFailures cfg \<le> 0 \<Longrightarrow> workerMaxClaimFailures cfg \<le> 0 \<Longrightarrow>
   (worker_run cfg evs s = None \<longleftrightarrow> (\<exists>ev\<in>set evs. ends_context ev))"
proof (induction cfg evs s rule: worker_run.induct)
  case (2 cfg ev evs s)
  then show ?case by (cases ev) (auto simp: Let_def split: option.splits)
qed simp

text \<open>With a limit the worker gives up at that many failures in a row, and not before.\<close>

lemma worker_read_failures:
  "ws_readFailures s + int n < limit \<Longrightarrow> limit = workerMaxReadFailures cfg \<Longrightarrow>
   \<exists>s'. worker_run cfg (replicate n (ReadFailed False)) s = Some s' \<and>
        ws_readFailures s' = ws_readFailures s + int n"
proof (induction n arbitrary: s)
  case (Suc n)
  let ?s = "s\<lparr>ws_readFailures := ws_readFailures s + 1, ws_delay := workerBackoffDelay (ws_delay s)
      (workerBackoffMin cfg) (workerBackoffMax cfg)\<rparr>"
  from Suc.prems have "worker_turn cfg (ReadFailed False) s = Some (?s, [])"
    by (simp add: Let_def)
  moreover have "\<exists>s'. worker_run cfg (replicate n (ReadFailed False)) ?s = Some s' \<and>
      ws_readFailures s' = ws_readFailures ?s + int n"
    using Suc.prems by (intro Suc.IH) auto
  ultimately show ?case by auto
qed simp

lemma worker_run_append:
  "worker_run cfg (xs @ ys) s = (case worker_run cfg xs s of None \<Rightarrow> None | Some s' \<Rightarrow> worker_run cfg ys s')"
  by (induction cfg xs s rule: worker_run.induct) (auto split: option.splits prod.splits)

lemma worker_gives_up:
  assumes "0 < workerMaxReadFailures cfg" and "ws_readFailures s = 0"
  shows "worker_run cfg (replicate (nat (workerMaxReadFailures cfg)) (ReadFailed False)) s = None"
    and "n < nat (workerMaxReadFailures cfg) \<Longrightarrow>
         worker_run cfg (replicate n (ReadFailed False)) s \<noteq> None"
proof -
  show "n < nat (workerMaxReadFailures cfg) \<Longrightarrow>
      worker_run cfg (replicate n (ReadFailed False)) s \<noteq> None"
    using worker_read_failures [of s n "workerMaxReadFailures cfg" cfg] assms by (auto simp: zless_nat_eq_int_zless)
  define n where "n = nat (workerMaxReadFailures cfg) - 1"
  with assms have n: "nat (workerMaxReadFailures cfg) = n + 1" "int n < workerMaxReadFailures cfg"
    by auto
  from worker_read_failures [of s n "workerMaxReadFailures cfg" cfg] assms(2) n obtain s' where
    "worker_run cfg (replicate n (ReadFailed False)) s = Some s'" "ws_readFailures s' = int n"
    by auto
  moreover have "replicate (nat (workerMaxReadFailures cfg)) (ReadFailed False) =
      replicate n (ReadFailed False) @ [ReadFailed False]"
    unfolding n(1) by (simp only: replicate_add) simp
  ultimately show "worker_run cfg (replicate (nat (workerMaxReadFailures cfg)) (ReadFailed False)) s = None"
    using n assms(1) by (simp only: worker_run_append) (simp add: Let_def)
qed

section \<open>Claiming: lemmas\<close>

text \<open>Several replicas that try to claim one task, in the order in which the database serves them.\<close>

fun claim_attempts ::
  "('db, WorkflowQueue) DataStore \<Rightarrow> string \<Rightarrow> int list \<Rightarrow> 'db \<Rightarrow> (DBError + bool) list \<times> 'db" where
  "claim_attempts store t [] db = ([], db)"
| "claim_attempts store t (now # nows) db =
    (case UpdateTaskStatus store now db t StatusWaiting StatusQueued of
       (r, db1) \<Rightarrow> (case claim_attempts store t nows db1 of (rs, db2) \<Rightarrow> (r # rs, db2)))"

lemma status_names [simp]:
  "map_of Status_table StatusWaiting = Some ''waiting''"
  "map_of Status_table StatusQueued = Some ''queued''"
  by (simp_all add: Status_table_def)

lemma status_of_names [simp]:
  "Status_of ''waiting'' = StatusWaiting" "Status_of ''queued'' = StatusQueued"
  by (rule Status_of_table, simp add: Status_table_def)+

context task_store
begin

lemma claim_none:
  assumes "\<forall>r. rows db t = Some r \<longrightarrow> Status_string (wq_Status r) \<noteq> ''waiting''"
  shows "Inr True \<notin> set (fst (claim_attempts store t nows db)) \<and>
    rows (snd (claim_attempts store t nows db)) = rows db"
  using assms
proof (induction nows arbitrary: db)
  case (Cons now nows)
  obtain r db1 where u: "UpdateTaskStatus store now db t StatusWaiting StatusQueued = (r, db1)" by fastforce
  have nt: "r \<noteq> Inr True"
    using UpdateTaskStatus_true [of now db t StatusWaiting StatusQueued db1] Cons.prems u by auto
  have "rows db1 = rows db"
  proof (cases r)
    case (Inl e)
    with u UpdateTaskStatus_error [of now db t StatusWaiting StatusQueued e db1] show ?thesis by simp
  next
    case (Inr b)
    with nt u UpdateTaskStatus_false [of now db t StatusWaiting StatusQueued db1] show ?thesis by auto
  qed
  with Cons.IH [of db1] Cons.prems u nt show ?case by (auto split: prod.splits)
qed simp

lemma claim_at_most_once:
  "length (filter (\<lambda>r. r = Inr True) (fst (claim_attempts store t nows db))) \<le> 1"
proof (induction nows arbitrary: db)
  case (Cons now nows)
  obtain r db1 where u: "UpdateTaskStatus store now db t StatusWaiting StatusQueued = (r, db1)" by fastforce
  obtain rs db2 where c: "claim_attempts store t nows db1 = (rs, db2)" by fastforce
  show ?case
  proof (cases "r = Inr True")
    case True
    with u UpdateTaskStatus_true [of now db t StatusWaiting StatusQueued db1]
    have "\<forall>q. rows db1 t = Some q \<longrightarrow> Status_string (wq_Status q) \<noteq> ''waiting''" by auto
    from claim_none [OF this, of nows] c have "filter (\<lambda>r. r = Inr True) rs = []"
      by (auto simp: filter_empty_conv)
    with u c True show ?thesis by simp
  next
    case False
    with u c Cons.IH [of db1] show ?thesis by simp
  qed
qed simp

lemma claim_first_wins:
  assumes "rows db t = Some r" and "Status_string (wq_Status r) = ''waiting''"
    and "claim_attempts store t (now # nows) db = (a # rs, db')" and "\<forall>e. a \<noteq> Inl e"
  shows "a = Inr True \<and> (\<exists>q. rows db' t = Some q \<and> wq_Status q = StatusQueued)"
proof -
  obtain db1 where u: "UpdateTaskStatus store now db t StatusWaiting StatusQueued = (a, db1)"
    and c: "claim_attempts store t nows db1 = (rs, db')"
    using assms(3) by (auto split: prod.splits)
  from assms(4) obtain b where ab: "a = Inr b" by (cases a) auto
  have b: b
  proof (rule ccontr)
    assume "\<not> b"
    with ab u UpdateTaskStatus_false [of now db t StatusWaiting StatusQueued db1] assms(1,2)
    show False by simp
  qed
  with ab u UpdateTaskStatus_true [of now db t StatusWaiting StatusQueued db1]
  have row: "\<exists>q. rows db1 t = Some q \<and> wq_Status q = StatusQueued" by auto
  then have "\<forall>q. rows db1 t = Some q \<longrightarrow> Status_string (wq_Status q) \<noteq> ''waiting''" by auto
  from claim_none [OF this, of nows] c row ab b show ?thesis by auto
qed

text \<open>A processor that fails without touching the task has its claim taken back.\<close>

lemma claim_taken_back:
  assumes claim: "UpdateTaskStatus store now0 db (wq_TaskID task) StatusWaiting StatusQueued = (Inr True, db1)"
    and proc: "processor task db1 = (Some err, db2)" and row: "rows db2 (wq_TaskID task) = rows db1 (wq_TaskID task)"
    and ok: "\<forall>e. fst (UpdateTaskStatus store now1 db2 (wq_TaskID task) StatusQueued StatusWaiting) \<noteq> Inl e"
    and res: "claimAndProcessTask store now0 now1 False task processor db = (handed, db')"
  shows "handed \<and> (\<exists>r. rows db' (wq_TaskID task) = Some r \<and> wq_Status r = StatusWaiting)"
proof -
  let ?t = "wq_TaskID task"
  obtain a db3 where u: "UpdateTaskStatus store now1 db2 ?t StatusQueued StatusWaiting = (a, db3)" by fastforce
  from res claim proc u have r: "handed" "db' = db3" by (auto simp: claimAndProcessTask_def)
  from UpdateTaskStatus_true [OF claim] row obtain q where
    q: "rows db2 ?t = Some q" "wq_Status q = StatusQueued" by auto
  from ok u obtain b where ab: "a = Inr b" by (cases a) auto
  have b
  proof (rule ccontr)
    assume "\<not> b"
    with ab u UpdateTaskStatus_false [of now1 db2 ?t StatusQueued StatusWaiting db3] q show False by simp
  qed
  with ab u UpdateTaskStatus_true [of now1 db2 ?t StatusQueued StatusWaiting db3] r show ?thesis by auto
qed

lemma init_queue_loop_rows:
  assumes put: "\<And>now db e. wq_TaskID e \<noteq> '''' \<Longrightarrow> fst (ds_Put store now db e) = None"
  shows "(\<forall>t\<in>set ts. wq_TaskID t \<noteq> '''' \<and> rows db (wq_TaskID t) \<noteq> None) \<Longrightarrow>
    (\<forall>k. (k \<in> wq_TaskID ` set ts \<longrightarrow>
            (\<exists>r. rows (init_queue_loop store now ts db) k = Some r \<and> wq_Status r = StatusWaiting)) \<and>
         (k \<notin> wq_TaskID ` set ts \<longrightarrow> rows (init_queue_loop store now ts db) k = rows db k))"
proof (induction ts arbitrary: db rule: rev_induct)
  case (snoc t ts)
  have app: "init_queue_loop store now (xs @ [t]) d =
      snd (ds_Put store now (init_queue_loop store now xs d) (t\<lparr>wq_Status := StatusWaiting\<rparr>))" for xs d
    by (induction xs arbitrary: d) auto
  let ?d = "init_queue_loop store now ts db" and ?e = "t\<lparr>wq_Status := StatusWaiting\<rparr>"
  from snoc.prems have pre: "\<forall>t\<in>set ts. wq_TaskID t \<noteq> '''' \<and> rows db (wq_TaskID t) \<noteq> None"
    and t: "fst (ds_Put store now ?d ?e) = None" by (simp_all add: put)
  note IH = snoc.IH [OF pre]
  have "rows ?d (wq_TaskID ?e) \<noteq> None"
  proof (cases "wq_TaskID t \<in> wq_TaskID ` set ts")
    case True
    with IH obtain r where "rows ?d (wq_TaskID t) = Some r" by blast
    then show ?thesis by simp
  next
    case False
    with IH have "rows ?d (wq_TaskID t) = rows db (wq_TaskID t)" by blast
    with snoc.prems show ?thesis by simp
  qed
  then obtain r where "rows ?d (wq_TaskID ?e) = Some r" by auto
  from put_status [OF t this] have here:
    "\<exists>r. rows (snd (ds_Put store now ?d ?e)) (wq_TaskID t) = Some r \<and> wq_Status r = StatusWaiting" by simp
  obtain p d1 where pd: "ds_Put store now ?d ?e = (p, d1)" by fastforce
  have other: "k \<noteq> wq_TaskID t \<Longrightarrow> rows d1 k = rows ?d k" for k
    using put_frame [OF pd] by simp
  show ?case
    unfolding app pd snd_conv
  proof (intro allI conjI impI)
    fix k
    assume k: "k \<in> wq_TaskID ` set (ts @ [t])"
    show "\<exists>r. rows d1 k = Some r \<and> wq_Status r = StatusWaiting"
    proof (cases "k = wq_TaskID t")
      case True
      with here pd show ?thesis by simp
    next
      case False
      with k have "k \<in> wq_TaskID ` set ts" by auto
      with IH False show ?thesis by (simp add: other)
    qed
  next
    fix k
    assume "k \<notin> wq_TaskID ` set (ts @ [t])"
    then have "k \<noteq> wq_TaskID t" and "k \<notin> wq_TaskID ` set ts" by auto
    with IH show "rows d1 k = rows db k" by (simp add: other)
  qed
qed simp

lemma InitQueue_requeues:
  assumes put: "\<And>now db e. wq_TaskID e \<noteq> '''' \<Longrightarrow> fst (ds_Put store now db e) = None"
    and "TaskRunning store db = Inr ts"
    and r: "rows db k = Some r" and ne: "rows db '''' = None"
  shows "Status_string (wq_Status r) \<in> Status_string ` set running_statuses \<Longrightarrow>
      \<exists>r'. rows (InitQueue store now db) k = Some r' \<and> wq_Status r' = StatusWaiting"
    and "Status_string (wq_Status r) \<notin> Status_string ` set running_statuses \<Longrightarrow>
      rows (InitQueue store now db) k = Some r"
proof -
  note ts = TaskRunning_exact [OF assms(2)]
  have key: "rows db k' = Some q \<Longrightarrow> wq_TaskID q = k'" for k' q using row_pk by blast
  from ts key ne have "\<forall>t\<in>set ts. wq_TaskID t \<noteq> '''' \<and> rows db (wq_TaskID t) \<noteq> None" by force
  note L = init_queue_loop_rows [OF put this, of now]
  have iq: "InitQueue store now db = init_queue_loop store now ts db"
    using assms(2) by (simp add: InitQueue_def)
  have mem: "k \<in> wq_TaskID ` set ts \<longleftrightarrow>
      Status_string (wq_Status r) \<in> Status_string ` set running_statuses"
    using ts key r by (force simp: image_iff)
  show "Status_string (wq_Status r) \<in> Status_string ` set running_statuses \<Longrightarrow>
      \<exists>r'. rows (InitQueue store now db) k = Some r' \<and> wq_Status r' = StatusWaiting"
    using L mem iq by simp
  show "Status_string (wq_Status r) \<notin> Status_string ` set running_statuses \<Longrightarrow>
      rows (InitQueue store now db) k = Some r"
    using L mem iq r by simp
qed

end

end
