(* ===== verification/Kube_Service.thy ===== *)
theory Kube_Service
  imports Kube_Dispatch
begin

text \<open>
  The workflow service: \<open>domain/service/workflow.go\<close>. Enqueueing a task, cancelling it, and the
  status report that merges the saved job records of a task with the components its workflow
  declares.
\<close>

section \<open>Errors and records\<close>

datatype service_error =
    ErrWorkflowTaskNotExist | ErrWorkflowNotExist | ErrExecWorkflow
  | ServiceDB DBError | ServiceSignal string

record JobInfo =
  ji_ID :: int
  ji_Type :: string
  ji_WorkflowID :: string
  ji_ProductID :: string
  ji_AppID :: string
  ji_TaskID :: string
  ji_Status :: string
  ji_StartTime :: int
  ji_EndTime :: int
  ji_ServiceType :: string
  ji_ServiceName :: string
  ji_Error :: string
  ji_Production :: bool
  ji_TargetEnv :: string
  ji_CreateTime :: int
  ji_UpdateTime :: int

definition JobInfo_zero :: JobInfo where
  "JobInfo_zero = \<lparr>ji_ID = 0, ji_Type = '''', ji_WorkflowID = '''', ji_ProductID = '''', ji_AppID = '''',
     ji_TaskID = '''', ji_Status = '''', ji_StartTime = 0, ji_EndTime = 0, ji_ServiceType = '''',
     ji_ServiceName = '''', ji_Error = '''', ji_Production = False, ji_TargetEnv = '''',
     ji_CreateTime = 0, ji_UpdateTime = 0\<rparr>"

record ComponentTaskStatus =
  ct_Name :: string
  ct_Type :: string
  ct_Status :: string
  ct_Error :: string
  ct_StartTime :: int
  ct_EndTime :: int

record TaskStatusResponse =
  tr_TaskID :: string
  tr_Status :: string
  tr_WorkflowID :: string
  tr_WorkflowName :: string
  tr_AppID :: string
  tr_Type :: string
  tr_Components :: "ComponentTaskStatus list"

section \<open>Aggregation\<close>

definition agg_priority :: "string \<Rightarrow> nat" where
  "agg_priority status =
    (case Status_of status of
       StatusFailed \<Rightarrow> 4 | StatusTimeout \<Rightarrow> 4 | StatusReject \<Rightarrow> 4
     | StatusCancelled \<Rightarrow> 3
     | StatusRunning \<Rightarrow> 2 | StatusPrepare \<Rightarrow> 2 | StatusDistributed \<Rightarrow> 2
     | StatusDebugBefore \<Rightarrow> 2 | StatusDebugAfter \<Rightarrow> 2
     | StatusCompleted \<Rightarrow> 1 | StatusPassed \<Rightarrow> 1
     | _ \<Rightarrow> 0)"

definition chooseAggStatus :: "string \<Rightarrow> string \<Rightarrow> string" where
  "chooseAggStatus current incoming =
    (if agg_priority incoming > agg_priority current then incoming else current)"

definition agg_start :: "JobInfo \<Rightarrow> ComponentTaskStatus" where
  "agg_start j = \<lparr>ct_Name = ji_ServiceName j, ct_Type = ji_Type j, ct_Status = ji_Status j,
     ct_Error = ji_Error j, ct_StartTime = ji_StartTime j, ct_EndTime = ji_EndTime j\<rparr>"

definition agg_merge :: "ComponentTaskStatus \<Rightarrow> JobInfo \<Rightarrow> ComponentTaskStatus" where
  "agg_merge agg j =
    agg\<lparr>ct_Status := chooseAggStatus (ct_Status agg) (ji_Status j),
        ct_Error := (if ct_Error agg = '''' \<and> ji_Error j \<noteq> '''' then ji_Error j else ct_Error agg),
        ct_StartTime := (if ct_StartTime agg = 0 \<or> (ji_StartTime j \<noteq> 0 \<and> ji_StartTime j < ct_StartTime agg)
                         then ji_StartTime j else ct_StartTime agg),
        ct_EndTime := (if ji_EndTime j > ct_EndTime agg then ji_EndTime j else ct_EndTime agg)\<rparr>"

type_synonym aggregates = "(string \<times> ComponentTaskStatus) list"

definition agg_job :: "JobInfo \<Rightarrow> aggregates \<Rightarrow> aggregates" where
  "agg_job j aggs =
    (let key = ToLower (ji_ServiceName j) in
     case map_of aggs key of
       None \<Rightarrow> AList.update key (agg_start j) aggs
     | Some agg \<Rightarrow> AList.update key (agg_merge agg j) aggs)"

section \<open>Components of a workflow\<close>

text \<open>The closure \<open>add\<close>: names in order of first mention, one per spelling up to case.\<close>

definition add_name :: "string \<Rightarrow> string list \<Rightarrow> string list" where
  "add_name name names =
    (if name = '''' then names
     else if ToLower name \<in> ToLower ` set names then names
     else names @ [name])"

fun collect_steps :: "WorkflowStep option list \<Rightarrow> string list \<Rightarrow> string list outcome" where
  "collect_steps [] names = Return names"
| "collect_steps (None # ss) names = Panic nil_deref"
| "collect_steps (Some s # ss) names =
     collect_steps ss
       (fold add_name (concat (map WorkflowSubStep_ComponentNames (step_SubSteps s)))
         (fold add_name (WorkflowStep_ComponentNames (Some s)) names))"

definition collectWorkflowComponentNames :: "Workflow \<Rightarrow> string list outcome" where
  "collectWorkflowComponentNames workflow =
    (case wf_Steps workflow of
       None \<Rightarrow> Return []
     | Some j \<Rightarrow>
        (case decode_steps j of None \<Rightarrow> Return [] | Some steps \<Rightarrow> collect_steps steps []))"

definition defaultComponentStatus :: "Status \<Rightarrow> string" where
  "defaultComponentStatus taskStatus =
    (case taskStatus of
       StatusCancelled \<Rightarrow> Status_string StatusCancelled
     | StatusFailed \<Rightarrow> Status_string taskStatus
     | StatusTimeout \<Rightarrow> Status_string taskStatus
     | StatusReject \<Rightarrow> Status_string taskStatus
     | StatusCompleted \<Rightarrow> Status_string StatusCompleted
     | _ \<Rightarrow> Status_string StatusWaiting)"

definition fill_missing :: "string \<Rightarrow> string \<Rightarrow> aggregates \<Rightarrow> aggregates" where
  "fill_missing defaultStatus name aggs =
    (let key = ToLower name in
     case map_of aggs key of
       Some _ \<Rightarrow> aggs
     | None \<Rightarrow> AList.update key \<lparr>ct_Name = name, ct_Type = '''', ct_Status = defaultStatus,
                 ct_Error = '''', ct_StartTime = 0, ct_EndTime = 0\<rparr> aggs)"

section \<open>Service functions\<close>

definition WorkflowByID :: "('db, Workflow) DataStore \<Rightarrow> 'db \<Rightarrow> string \<Rightarrow> DBError + Workflow" where
  "WorkflowByID store db workflowID = ds_Get store db (Workflow_zero\<lparr>wf_ID := workflowID\<rparr>)"

text \<open>The components of the response come from a Go map; their order carries no meaning.\<close>

definition GetTaskStatus ::
  "('db, WorkflowQueue) DataStore \<Rightarrow> ('db, Workflow) DataStore \<Rightarrow> ('db, JobInfo) DataStore \<Rightarrow> 'db \<Rightarrow>
   string \<Rightarrow> (service_error + TaskStatusResponse) outcome" where
  "GetTaskStatus store wfStore jobStore db taskID0 =
    (let taskID = TrimSpace taskID0 in
     if taskID = '''' then Return (Inl ErrWorkflowTaskNotExist)
     else case TaskByID store db taskID of
         Inl ErrRecordNotExist \<Rightarrow> Return (Inl ErrWorkflowTaskNotExist)
       | Inl e \<Rightarrow> Return (Inl (ServiceDB e))
       | Inr task \<Rightarrow>
          (let jobs = (case ds_List jobStore db (Some (JobInfo_zero\<lparr>ji_TaskID := taskID\<rparr>))
                  (Some (noListOptions\<lparr>lo_SortBy := [(''updatetime'', SortOrderAscending),
                                                      (''createtime'', SortOrderAscending)]\<rparr>)) of
                  Inl _ \<Rightarrow> [] | Inr js \<Rightarrow> js);
               aggs = fold agg_job jobs [];
               response = (\<lambda>as. Return (Inr \<lparr>tr_TaskID = wq_TaskID task, tr_Status = Status_string (wq_Status task),
                  tr_WorkflowID = wq_WorkflowID task, tr_WorkflowName = wq_WorkflowName task,
                  tr_AppID = wq_AppID task, tr_Type = wq_Type task, tr_Components = map snd as\<rparr>))
           in case WorkflowByID wfStore db (wq_WorkflowID task) of
                Inl _ \<Rightarrow> response aggs
              | Inr workflow \<Rightarrow>
                 (case collectWorkflowComponentNames workflow of
                    Panic v \<Rightarrow> Panic v
                  | Return names \<Rightarrow>
                      response (fold (fill_missing (defaultComponentStatus (wq_Status task))) names aggs))))"

text \<open>\<open>newID\<close> is the value of \<open>RandStringByNumLowercase(24)\<close>.\<close>

definition enqueueWorkflowTask ::
  "('db, WorkflowQueue) DataStore \<Rightarrow> int \<Rightarrow> string \<Rightarrow> Workflow \<Rightarrow> 'db \<Rightarrow> (service_error + string) \<times> 'db" where
  "enqueueWorkflowTask store now newID workflow db =
    (if wf_Steps workflow = None then (Inl ErrExecWorkflow, db)
     else
       case CreateWorkflowQueue store now db (wq_zero\<lparr>wq_TaskID := newID, wq_AppID := wf_AppID workflow,
              wq_WorkflowID := wf_ID workflow, wq_ProjectID := wf_ProjectID workflow,
              wq_WorkflowName := wf_Name workflow, wq_WorkflowDisplayName := wf_Alias workflow,
              wq_Type := wf_WorkflowType workflow, wq_Status := StatusWaiting\<rparr>) of
         (Some e, db') \<Rightarrow> (Inl (ServiceDB e), db')
       | (None, db') \<Rightarrow> (Inr newID, db'))"

definition ExecWorkflowTask ::
  "('db, WorkflowQueue) DataStore \<Rightarrow> ('db, Workflow) DataStore \<Rightarrow> int \<Rightarrow> string \<Rightarrow> string \<Rightarrow> 'db \<Rightarrow>
   (service_error + string) \<times> 'db" where
  "ExecWorkflowTask store wfStore now newID workflowID db =
    (case WorkflowByID wfStore db workflowID of
       Inl e \<Rightarrow> (Inl (ServiceDB e), db)
     | Inr workflow \<Rightarrow> enqueueWorkflowTask store now newID workflow db)"

definition ExecWorkflowTaskForApp ::
  "('db, WorkflowQueue) DataStore \<Rightarrow> ('db, Workflow) DataStore \<Rightarrow> int \<Rightarrow> string \<Rightarrow> string \<Rightarrow> string \<Rightarrow> 'db \<Rightarrow>
   (service_error + string) \<times> 'db" where
  "ExecWorkflowTaskForApp store wfStore now newID appID workflowID db =
    (case WorkflowByID wfStore db workflowID of
       Inl e \<Rightarrow> (Inl (ServiceDB e), db)
     | Inr workflow \<Rightarrow>
        (if wf_AppID workflow = '''' \<or> wf_AppID workflow \<noteq> appID then (Inl ErrWorkflowNotExist, db)
         else enqueueWorkflowTask store now newID workflow db))"

text \<open>The cancellation acts on the database, the registry of watchers and Redis.\<close>

definition cancelWorkflowTask ::
  "('db, WorkflowQueue) DataStore \<Rightarrow> 'r redis_client option \<Rightarrow> int \<Rightarrow> WorkflowQueue \<Rightarrow> string \<Rightarrow> string \<Rightarrow>
   'db \<times> cancel_world \<times> 'r \<Rightarrow> service_error option \<times> 'db \<times> cancel_world \<times> 'r" where
  "cancelWorkflowTask store cli now task0 userName reason0 s =
    (case s of (db, w, rs) \<Rightarrow>
      (let task = task0\<lparr>wq_TaskRevoker := userName, wq_Status := StatusCancelled\<rparr> in
       case UpdateTask store now db task of
         (Some e, db') \<Rightarrow> (Some (ServiceDB e), db', w, rs)
       | (None, db') \<Rightarrow>
          (let reason = (if reason0 = '''' then ''cancelled by '' @ userName else reason0) in
           case CancelWithClient cli (wq_TaskID task) reason w rs of
             (Some e, w', rs') \<Rightarrow> (Some (ServiceSignal e), db', w', rs')
           | (None, w', rs') \<Rightarrow> (None, db', w', rs'))))"

definition CancelWorkflowTask ::
  "('db, WorkflowQueue) DataStore \<Rightarrow> 'r redis_client option \<Rightarrow> int \<Rightarrow> string \<Rightarrow> string \<Rightarrow> string \<Rightarrow>
   'db \<times> cancel_world \<times> 'r \<Rightarrow> service_error option \<times> 'db \<times> cancel_world \<times> 'r" where
  "CancelWorkflowTask store cli now userName taskID reason s =
    (case TaskByID store (fst s) taskID of
       Inl e \<Rightarrow> (Some (ServiceDB e), s)
     | Inr task \<Rightarrow> cancelWorkflowTask store cli now task userName reason s)"

definition CancelWorkflowTaskForApp ::
  "('db, WorkflowQueue) DataStore \<Rightarrow> 'r redis_client option \<Rightarrow> int \<Rightarrow> string \<Rightarrow> string \<Rightarrow> string \<Rightarrow> string \<Rightarrow>
   'db \<times> cancel_world \<times> 'r \<Rightarrow> service_error option \<times> 'db \<times> cancel_world \<times> 'r" where
  "CancelWorkflowTaskForApp store cli now appID userName taskID reason s =
    (case TaskByID store (fst s) taskID of
       Inl e \<Rightarrow> (Some (ServiceDB e), s)
     | Inr task \<Rightarrow>
        (if wq_AppID task = '''' \<or> wq_AppID task \<noteq> appID then (Some ErrWorkflowNotExist, s)
         else cancelWorkflowTask store cli now task userName reason s))"

section \<open>Lemmas\<close>

abbreviation jobs_of :: "string \<Rightarrow> JobInfo list \<Rightarrow> JobInfo list" where
  "jobs_of key js \<equiv> filter (\<lambda>j. ToLower (ji_ServiceName j) = key) js"

text \<open>The aggregate of a key depends on the records of that key alone, in their order.\<close>

fun agg_fold :: "ComponentTaskStatus option \<Rightarrow> JobInfo list \<Rightarrow> ComponentTaskStatus option" where
  "agg_fold a [] = a"
| "agg_fold None (j # js) = agg_fold (Some (agg_start j)) js"
| "agg_fold (Some a) (j # js) = agg_fold (Some (agg_merge a j)) js"

lemma map_of_agg_job:
  "map_of (agg_job j aggs) key =
    (if ToLower (ji_ServiceName j) = key
     then Some (case map_of aggs key of None \<Rightarrow> agg_start j | Some a \<Rightarrow> agg_merge a j)
     else map_of aggs key)"
  by (auto simp: agg_job_def Let_def update_conv' split: option.splits)

lemma fold_agg_job: "map_of (fold agg_job js aggs) key = agg_fold (map_of aggs key) (jobs_of key js)"
proof (induction js arbitrary: aggs)
  case (Cons j js)
  have "map_of (fold agg_job (j # js) aggs) key = agg_fold (map_of (agg_job j aggs) key) (jobs_of key js)"
    using Cons.IH [of "agg_job j aggs"] by simp
  then show ?case by (cases "map_of aggs key") (auto simp: map_of_agg_job)
qed simp

lemma agg_fold_Some_severity:
  "agg_fold (Some a) js = Some b \<Longrightarrow>
   agg_priority (ct_Status b) = Max (insert (agg_priority (ct_Status a)) (agg_priority ` ji_Status ` set js)) \<and>
   ct_Status b \<in> insert (ct_Status a) (ji_Status ` set js) \<and>
   ct_EndTime b = Max (insert (ct_EndTime a) (ji_EndTime ` set js))"
proof (induction js arbitrary: a)
  case (Cons j js)
  let ?P = "agg_priority ` ji_Status ` set js" and ?E = "ji_EndTime ` set js"
  have f: "finite ?P" "finite ?E" by simp_all
  from Cons.prems have "agg_fold (Some (agg_merge a j)) js = Some b" by simp
  from Cons.IH [OF this] have IH:
    "agg_priority (ct_Status b) = Max (insert (agg_priority (chooseAggStatus (ct_Status a) (ji_Status j))) ?P)"
    "ct_Status b \<in> insert (chooseAggStatus (ct_Status a) (ji_Status j)) (ji_Status ` set js)"
    "ct_EndTime b = Max (insert (max (ct_EndTime a) (ji_EndTime j)) ?E)"
    by (auto simp: agg_merge_def max_def)
  have "agg_priority (chooseAggStatus (ct_Status a) (ji_Status j)) =
      max (agg_priority (ct_Status a)) (agg_priority (ji_Status j))"
    by (auto simp: chooseAggStatus_def max_def)
  with IH(1,3) f show ?case
    using IH(2) Max_insert [OF f(1)] Max_insert [OF f(2)]
    by (cases "js = []") (simp_all add: chooseAggStatus_def max.assoc split: if_splits, blast+)
qed simp

lemma agg_fold_severity:
  assumes "agg_fold None js = Some b"
  shows "agg_priority (ct_Status b) = Max (agg_priority ` ji_Status ` set js) \<and>
    ct_Status b \<in> ji_Status ` set js \<and> ct_EndTime b = Max (ji_EndTime ` set js)"
proof (cases js)
  case (Cons j js')
  with assms agg_fold_Some_severity [of "agg_start j" js' b] show ?thesis
    by (auto simp: agg_start_def)
qed (use assms in simp)

lemma agg_fold_Some: "\<exists>b. agg_fold (Some a) js = Some b"
  by (induction js arbitrary: a) auto

lemma agg_fold_None: "agg_fold None js = None \<longleftrightarrow> js = []"
  using agg_fold_Some by (cases js) auto

lemma map_of_fill_missing:
  "map_of (fill_missing d n aggs) key =
    (if ToLower n = key \<and> map_of aggs key = None
     then Some \<lparr>ct_Name = n, ct_Type = [], ct_Status = d, ct_Error = [], ct_StartTime = 0, ct_EndTime = 0\<rparr>
     else map_of aggs key)"
  by (auto simp: fill_missing_def Let_def update_conv' split: option.splits)

lemma fill_missing_keeps:
  "map_of aggs key = Some a \<Longrightarrow> map_of (fold (fill_missing d) names aggs) key = Some a"
proof (induction names arbitrary: aggs)
  case (Cons n names)
  then have "map_of (fill_missing d n aggs) key = Some a" by (simp add: map_of_fill_missing)
  from Cons.IH [OF this] show ?case by simp
qed simp

lemma fill_missing_covers:
  "name \<in> set names \<Longrightarrow> map_of (fold (fill_missing d) names aggs) (ToLower name) \<noteq> None"
proof (induction names arbitrary: aggs)
  case (Cons n names)
  show ?case
  proof (cases "name = n")
    case True
    then obtain a where "map_of (fill_missing d n aggs) (ToLower name) = Some a"
      by (cases "map_of aggs (ToLower n)") (auto simp: map_of_fill_missing)
    from fill_missing_keeps [OF this] show ?thesis by simp
  next
    case False
    with Cons show ?thesis by auto
  qed
qed simp

lemma fill_missing_default:
  "map_of aggs key = None \<Longrightarrow> map_of (fold (fill_missing d) names aggs) key = Some a \<Longrightarrow> ct_Status a = d"
proof (induction names arbitrary: aggs)
  case (Cons n names)
  show ?case
  proof (cases "map_of (fill_missing d n aggs) key")
    case None
    with Cons show ?thesis by simp
  next
    case (Some b)
    from fill_missing_keeps [OF Some, of d names] Cons.prems(2) have "a = b" by simp
    with Some Cons.prems(1) show ?thesis by (auto simp: map_of_fill_missing split: if_splits)
  qed
qed simp

lemma fill_missing_only:
  "map_of aggs key = None \<Longrightarrow> map_of (fold (fill_missing d) names aggs) key = Some a \<Longrightarrow>
   key \<in> ToLower ` set names"
proof (induction names arbitrary: aggs)
  case (Cons n names)
  show ?case
  proof (cases "map_of (fill_missing d n aggs) key")
    case None
    with Cons show ?thesis by simp
  next
    case (Some b)
    with Cons.prems(1) show ?thesis by (auto simp: map_of_fill_missing split: if_splits)
  qed
qed simp

section \<open>One entry per component\<close>

definition keyed :: "aggregates \<Rightarrow> bool" where
  "keyed aggs \<longleftrightarrow> distinct (map fst aggs) \<and> (\<forall>x \<in> set aggs. fst x = ToLower (ct_Name (snd x)))"

lemma set_AList_update: "set (AList.update k v al) \<subseteq> insert (k, v) (set al)"
  by (induction al) auto

lemma keyed_update:
  "keyed aggs \<Longrightarrow> k = ToLower (ct_Name a) \<Longrightarrow> keyed (AList.update k a aggs)"
  using set_AList_update [of k a aggs] distinct_update [of aggs k a] unfolding keyed_def by fastforce

lemma keyed_lookup: "keyed aggs \<Longrightarrow> map_of aggs k = Some a \<Longrightarrow> k = ToLower (ct_Name a)"
  by (auto simp: keyed_def dest: map_of_SomeD)

lemma agg_merge_Name [simp]: "ct_Name (agg_merge a j) = ct_Name a"
  by (simp add: agg_merge_def)

lemma keyed_agg_job: "keyed aggs \<Longrightarrow> keyed (agg_job j aggs)"
  unfolding agg_job_def Let_def
  by (auto intro!: keyed_update simp: agg_start_def dest: keyed_lookup split: option.split)

lemma keyed_fill_missing: "keyed aggs \<Longrightarrow> keyed (fill_missing d n aggs)"
  unfolding fill_missing_def Let_def by (auto intro!: keyed_update split: option.split)

lemma keyed_jobs: "keyed (fold agg_job js [])"
  by (rule fold_invariant [where Q = "\<lambda>_. True" and P = keyed]) (auto simp: keyed_agg_job, simp add: keyed_def)

lemma keyed_filled: "keyed aggs \<Longrightarrow> keyed (fold (fill_missing d) names aggs)"
  by (rule fold_invariant [where Q = "\<lambda>_. True" and P = keyed]) (auto simp: keyed_fill_missing)

lemma keyed_map_of: "keyed aggs \<Longrightarrow> a \<in> snd ` set aggs \<longleftrightarrow> map_of aggs (ToLower (ct_Name a)) = Some a"
  using map_of_is_SomeI [of aggs "ToLower (ct_Name a)" a]
  by (auto simp: keyed_def dest: map_of_SomeD intro: rev_image_eqI)


lemma keyed_distinct: "keyed aggs \<Longrightarrow> distinct (map (\<lambda>x. ToLower (ct_Name (snd x))) aggs)"
proof -
  assume k: "keyed aggs"
  then have m: "map (\<lambda>x. ToLower (ct_Name (snd x))) aggs = map fst aggs" by (auto simp: keyed_def)
  from k show ?thesis unfolding m by (simp add: keyed_def)
qed

lemma agg_fold_filled:
  assumes "as = fold (fill_missing d) names (fold agg_job js [])" and "map_of as key = Some c"
  shows "if jobs_of key js = [] then ct_Status c = d \<and> key \<in> ToLower ` set names
    else agg_fold None (jobs_of key js) = Some c"
proof (cases "jobs_of key js = []")
  case True
  then have n: "map_of (fold agg_job js []) key = None" by (simp add: fold_agg_job)
  note c = assms(2) [unfolded assms(1)]
  from True fill_missing_default [OF n c] fill_missing_only [OF n c] show ?thesis by simp
next
  case False
  then obtain b where b: "agg_fold None (jobs_of key js) = Some b" using agg_fold_None by fastforce
  then have "map_of (fold agg_job js []) key = Some b" by (simp add: fold_agg_job)
  from fill_missing_keeps [OF this] b assms False show ?thesis by simp
qed

lemma report_status:
  assumes "keyed as" and "as = fold (fill_missing d) names (fold agg_job js [])"
  shows "\<forall>x \<in> set as. (jobs_of (ToLower (ct_Name (snd x))) js = [] \<longrightarrow> ct_Status (snd x) = d) \<and>
    (jobs_of (ToLower (ct_Name (snd x))) js \<noteq> [] \<longrightarrow>
       ct_Status (snd x) \<in> ji_Status ` set (jobs_of (ToLower (ct_Name (snd x))) js) \<and>
       agg_priority (ct_Status (snd x)) =
         Max (agg_priority ` ji_Status ` set (jobs_of (ToLower (ct_Name (snd x))) js)) \<and>
       ct_EndTime (snd x) = Max (ji_EndTime ` set (jobs_of (ToLower (ct_Name (snd x))) js)))"
proof
  fix x assume "x \<in> set as"
  then have "map_of as (ToLower (ct_Name (snd x))) = Some (snd x)"
    using keyed_map_of [OF assms(1), of "snd x"] by auto
  from agg_fold_filled [OF assms(2) this]
  show "(jobs_of (ToLower (ct_Name (snd x))) js = [] \<longrightarrow> ct_Status (snd x) = d) \<and>
    (jobs_of (ToLower (ct_Name (snd x))) js \<noteq> [] \<longrightarrow>
       ct_Status (snd x) \<in> ji_Status ` set (jobs_of (ToLower (ct_Name (snd x))) js) \<and>
       agg_priority (ct_Status (snd x)) =
         Max (agg_priority ` ji_Status ` set (jobs_of (ToLower (ct_Name (snd x))) js)) \<and>
       ct_EndTime (snd x) = Max (ji_EndTime ` set (jobs_of (ToLower (ct_Name (snd x))) js)))"
    using agg_fold_severity [of "jobs_of (ToLower (ct_Name (snd x))) js" "snd x"]
    by (simp split: if_splits)
qed

lemma report_covers:
  assumes "as = fold (fill_missing d) names (fold agg_job js [])"
    and "key \<in> ToLower ` (ji_ServiceName ` set js \<union> set names)"
  shows "map_of as key \<noteq> None"
proof (cases "jobs_of key js = []")
  case True
  with assms(2) obtain n where "n \<in> set names" and "key = ToLower n"
    by (auto simp: filter_empty_conv)
  with fill_missing_covers assms(1) show ?thesis by blast
next
  case False
  then obtain b where "agg_fold None (jobs_of key js) = Some b" using agg_fold_None by fastforce
  then have "map_of (fold agg_job js []) key = Some b" by (simp add: fold_agg_job)
  from fill_missing_keeps [OF this] assms(1) show ?thesis by simp
qed

lemma report_names:
  assumes k: "keyed as" and as: "as = fold (fill_missing d) names (fold agg_job js [])"
  shows "(\<lambda>x. ToLower (ct_Name (snd x))) ` set as = ToLower ` (ji_ServiceName ` set js \<union> set names)"
    (is "?L = ?R")
proof (intro set_eqI iffI)
  fix key assume "key \<in> ?L"
  then obtain x where x: "x \<in> set as" "key = ToLower (ct_Name (snd x))" by blast
  then have "map_of as key = Some (snd x)" using keyed_map_of [OF k, of "snd x"] by auto
  from agg_fold_filled [OF as this] show "key \<in> ?R"
    by (cases "jobs_of key js = []") (auto simp: filter_empty_conv)
next
  fix key assume "key \<in> ?R"
  then obtain c where c: "map_of as key = Some c" using report_covers [OF as] by fastforce
  with keyed_lookup [OF k] have "key = ToLower (ct_Name c)" by blast
  with map_of_SomeD [OF c] show "key \<in> ?L" by force
qed

section \<open>Cancelling\<close>

context task_store
begin

text \<open>A successful cancellation has written the row and, with Redis, the marker.\<close>

lemma cancel_writes:
  assumes "redis_kv rd kv" and "rows db (wq_TaskID task) = Some task"
    and "cancelWorkflowTask store (Some rd) now task user reason (db, w, rs) = (None, db', w', rs')"
  shows "rows db' = (rows db)(wq_TaskID task \<mapsto>
      wq_merge task (SetUpdateTime WorkflowQueue_Entity now
        (task\<lparr>wq_TaskRevoker := user, wq_Status := StatusCancelled\<rparr>))) \<and>
    kv rs' (cancelKeyPrefix @ wq_TaskID task) =
      Some (cancelMarker (if reason = '''' then ''cancelled by '' @ user else reason))"
proof -
  let ?t = "task\<lparr>wq_TaskRevoker := user, wq_Status := StatusCancelled\<rparr>"
  let ?r = "if reason = '''' then ''cancelled by '' @ user else reason"
  from assms(3) have p: "ds_Put store now db ?t = (None, db')"
    and c: "CancelWithClient (Some rd) (wq_TaskID task) ?r w rs = (None, w', rs')"
    by (auto simp: cancelWorkflowTask_def UpdateTask_def Let_def split: prod.splits option.splits)
  have "kv rs' = (kv rs)(cancelKeyPrefix @ wq_TaskID task \<mapsto> cancelMarker ?r)"
    using c redis_kv.Set_ok [OF assms(1)] by (auto simp: CancelWithClient_def split: prod.splits)
  with put_ok [OF p] assms(2) show ?thesis by simp
qed

lemma cancel_frame:
  assumes "cancelWorkflowTask store cli now task user reason (db, w, rs) = (err, db', w', rs')"
    and "k \<noteq> wq_TaskID task"
  shows "rows db' k = rows db k"
proof -
  let ?t = "task\<lparr>wq_TaskRevoker := user, wq_Status := StatusCancelled\<rparr>"
  obtain r where "ds_Put store now db ?t = (r, db')"
    using assms(1) by (auto simp: cancelWorkflowTask_def UpdateTask_def Let_def split: prod.splits option.splits)
  from put_frame [OF this, of k] assms(2) show ?thesis by simp
qed

lemma cancel_for_app_rows:
  assumes "redis_kv rd kv"
    and "CancelWorkflowTaskForApp store (Some rd) now appID user taskID reason (db, w, rs) = (err, db', w', rs')"
  shows "(err = None \<longrightarrow>
      (\<exists>r r'. rows db taskID = Some r \<and> wq_AppID r = appID \<and> appID \<noteq> '''' \<and>
        rows db' taskID = Some r' \<and> wq_Status r' = StatusCancelled \<and> wq_AppID r' = appID) \<and>
      kv rs' (cancelKeyPrefix @ taskID) =
        Some (cancelMarker (if reason = '''' then ''cancelled by '' @ user else reason))) \<and>
    (err = Some ErrWorkflowNotExist \<longrightarrow> rows db' = rows db \<and> kv rs' = kv rs) \<and>
    (\<forall>k. k \<noteq> taskID \<longrightarrow> rows db' k = rows db k)"
proof (cases "TaskByID store db taskID")
  case (Inr task)
  then have r: "rows db taskID = Some task"
    using get_ok by (fastforce simp: TaskByID_def)
  with row_pk have t: "wq_TaskID task = taskID" by blast
  show ?thesis
  proof (cases "wq_AppID task = '''' \<or> wq_AppID task \<noteq> appID")
    case False
    then have c: "cancelWorkflowTask store (Some rd) now task user reason (db, w, rs) = (err, db', w', rs')"
      using assms(2) Inr by (auto simp: CancelWorkflowTaskForApp_def)
    have n: "err \<noteq> Some ErrWorkflowNotExist"
      using c by (auto simp: cancelWorkflowTask_def Let_def split: prod.splits option.splits)
    show ?thesis
    proof (cases err)
      case None
      with cancel_writes [OF assms(1) _ c [unfolded None]] cancel_frame [OF c] r t False n show ?thesis
        by (auto simp: wq_merge_def WorkflowQueue_Entity_def or_old_def Status_table_def)
    qed (use cancel_frame [OF c] t n in auto)
  qed (use assms(2) Inr in \<open>auto simp: CancelWorkflowTaskForApp_def\<close>)
qed (use assms(2) in \<open>auto simp: CancelWorkflowTaskForApp_def\<close>)

end

end
