(* ===== verification/Kube_Spec.thy ===== *)
theory Kube_Spec
  imports Kube_Json
begin

text \<open>
  The traits a component may carry: \<open>domain/spec/traits.go\<close>. \<open>Traits\<close> nests through init and
  sidecar containers, so those three types are one mutual datatype with the source's fields as
  selectors; the others are records. A Go map is an association list, a pointer an option.
\<close>

section \<open>Leaf traits\<close>

record StorageTraitSpec =
  st_Name :: string
  st_Type :: string
  st_MountPath :: string
  st_SubPath :: string
  st_ReadOnly :: bool
  st_SourceName :: string
  st_TmpCreate :: bool
  st_Size :: string
  st_ClaimName :: string
  st_StorageClass :: string

record EnvFromSourceSpec =
  ef_Type :: string
  ef_SourceName :: string

text \<open>\<open>SecretSelectorSpec\<close> and \<open>ConfigMapSelectorSpec\<close> have the same two fields.\<close>

record KeySelectorSpec =
  ks_Name :: string
  ks_Key :: string

record ValueSource =
  vs_Static :: "string option"
  vs_Secret :: "KeySelectorSpec option"
  vs_Config :: "KeySelectorSpec option"
  vs_Field :: "string option"

record SimplifiedEnvSpec =
  se_EnvName :: string
  se_ValueFrom :: ValueSource

record HTTPGetProbe =
  hg_Path :: string
  hg_Port :: int
  hg_Host :: string
  hg_Scheme :: string

record TCPSocketProbe =
  ts_Port :: int
  ts_Host :: string

text \<open>\<open>Exec\<close> is a pointer to a struct with one list of strings.\<close>

record ProbeTraitsSpec =
  pb_Type :: string
  pb_InitialDelaySeconds :: int
  pb_PeriodSeconds :: int
  pb_TimeoutSeconds :: int
  pb_FailureThreshold :: int
  pb_SuccessThreshold :: int
  pb_Exec :: "string list option"
  pb_HTTPGet :: "HTTPGetProbe option"
  pb_TCPSocket :: "TCPSocketProbe option"

record ResourceTraitsSpec =
  rs_CPU :: string
  rs_Memory :: string
  rs_GPU :: string

record IngressTLSConfig =
  tls_SecretName :: string
  tls_Hosts :: "string list"

record RewritePolicy =
  rw_Type :: string
  rw_Match :: string
  rw_Replacement :: string

record IngressRoute =
  ir_ServiceName :: string
  ir_ServicePort :: int
  ir_Weight :: int
  ir_Headers :: "(string \<times> string) list"

record IngressRoutes =
  ig_Path :: string
  ig_PathType :: string
  ig_Host :: string
  ig_Backend :: IngressRoute
  ig_Rewrite :: "RewritePolicy option"

record IngressTraitsSpec =
  ing_Name :: string
  ing_Namespace :: string
  ing_Hosts :: "string list"
  ing_Label :: "(string \<times> string) list"
  ing_Annotations :: "(string \<times> string) list"
  ing_IngressClassName :: string
  ing_DefaultPathType :: string
  ing_TLS :: "IngressTLSConfig list"
  ing_Routes :: "IngressRoutes list"

record RBACRuleSpec =
  rr_APIGroups :: "string list"
  rr_Resources :: "string list"
  rr_ResourceNames :: "string list"
  rr_NonResourceURLs :: "string list"
  rr_Verbs :: "string list"

record RBACPolicySpec =
  rb_ServiceAccount :: string
  rb_Namespace :: string
  rb_ClusterScope :: bool
  rb_RoleName :: string
  rb_BindingName :: string
  rb_ServiceAccountLabels :: "(string \<times> string) list"
  rb_ServiceAccountAnnotations :: "(string \<times> string) list"
  rb_RoleLabels :: "(string \<times> string) list"
  rb_BindingLabels :: "(string \<times> string) list"
  rb_Rules :: "RBACRuleSpec list"
  rb_AutomountSAT :: "bool option"

section \<open>Traits\<close>

datatype Traits = Traits
    (t_Init: "InitTraitSpec list")
    (t_Storage: "StorageTraitSpec list")
    (t_Sidecar: "SidecarTraitsSpec list")
    (t_Ingress: "IngressTraitsSpec list")
    (t_RBAC: "RBACPolicySpec list")
    (t_EnvFrom: "EnvFromSourceSpec list")
    (t_Envs: "SimplifiedEnvSpec list")
    (t_Probes: "ProbeTraitsSpec list")
    (t_Resources: "ResourceTraitsSpec option")
    (t_Share: "string option")
and InitTraitSpec = InitTraitSpec
    (it_Name: string)
    (it_Traits: Traits)
    (it_Properties: Properties)
and SidecarTraitsSpec = SidecarTraitsSpec
    (sd_Name: string)
    (sd_Image: string)
    (sd_Command: "string list")
    (sd_Args: "string list")
    (sd_Env: "(string \<times> string) list")
    (sd_Traits: Traits)

definition no_Traits :: Traits where
  "no_Traits = Traits [] [] [] [] [] [] [] [] None None"

section \<open>Numbered traversal\<close>

text \<open>\<open>for i, x := range xs { out = append(out, f(i, x)...) }\<close>\<close>

definition each :: "(nat \<Rightarrow> 'a \<Rightarrow> 'b list) \<Rightarrow> 'a list \<Rightarrow> 'b list" where
  "each f xs = concat (map (\<lambda>(i, x). f i x) (List.enumerate 0 xs))"

lemma each_cong [fundef_cong]:
  "xs = ys \<Longrightarrow> (\<And>i x. x \<in> set ys \<Longrightarrow> f i x = g i x) \<Longrightarrow> each f xs = each g ys"
  unfolding each_def
  by (intro arg_cong [of _ _ concat] map_cong) (auto simp: in_set_enumerate_eq)

lemma each_Nil [simp]: "each f [] = []"
  by (simp add: each_def)

lemma each_eq_Nil: "each f xs = [] \<longleftrightarrow> (\<forall>i < length xs. f i (xs ! i) = [])"
proof -
  have "set (List.enumerate 0 xs) = (\<lambda>i. (i, xs ! i)) ` {..<length xs}"
    by (auto simp: in_set_enumerate_eq)
  then show ?thesis by (auto simp: each_def)
qed

lemma each_eq_Nil_const: "(\<And>i x. f i x = [] \<longleftrightarrow> P x) \<Longrightarrow> each f xs = [] \<longleftrightarrow> (\<forall>x\<in>set xs. P x)"
  by (simp add: each_eq_Nil all_set_conv_all_nth)

lemma size_Traits_init [termination_simp]:
  "x \<in> set (t_Init t) \<Longrightarrow> Suc (size (it_Traits x)) < size t"
proof (cases t)
  case (Traits a b c d e f g h i j)
  assume x: "x \<in> set (t_Init t)"
  have "size (it_Traits x) < size x" by (cases x) simp
  moreover have "size x < size t"
    using x Traits size_list_estimation' [of x a "size x" size] by simp
  ultimately show ?thesis by simp
qed

lemma size_Traits_sidecar [termination_simp]:
  "x \<in> set (t_Sidecar t) \<Longrightarrow> Suc (size (sd_Traits x)) < size t"
proof (cases t)
  case (Traits a b c d e f g h i j)
  assume x: "x \<in> set (t_Sidecar t)"
  have "size (sd_Traits x) < size x" by (cases x) simp
  moreover have "size x < size t"
    using x Traits size_list_estimation' [of x c "size x" size] by simp
  ultimately show ?thesis by simp
qed

end
