(* ===== verification/Kube_Decode.thy ===== *)
theory Kube_Decode
  imports Kube_Spec
begin

text \<open>
  \<open>json.Unmarshal\<close> into \<open>Traits\<close> (\<open>domain/spec/traits.go\<close>), for a document whose shape
  \<open>conforms\<close> has checked: one decoder per struct, reading its fields by their JSON names.
\<close>

section \<open>Decoding\<close>

fun json_bool :: "json \<Rightarrow> bool" where
  "json_bool (JBool b) = b"
| "json_bool _ = False"

text \<open>A pointer field: absent and \<open>null\<close> are nil.\<close>

definition json_ptr :: "(json \<Rightarrow> 'a) \<Rightarrow> json \<Rightarrow> 'a option" where
  "json_ptr f j = (if j = JNull then None else Some (f j))"

definition decode_storage :: "json \<Rightarrow> StorageTraitSpec" where
  "decode_storage j =
    \<lparr>st_Name = json_str (json_get ''name'' j), st_Type = json_str (json_get ''type'' j),
     st_MountPath = json_str (json_get ''mount_path'' j), st_SubPath = json_str (json_get ''sub_path'' j),
     st_ReadOnly = json_bool (json_get ''read_only'' j),
     st_SourceName = json_str (json_get ''source_name'' j),
     st_TmpCreate = json_bool (json_get ''tmp_create'' j), st_Size = json_str (json_get ''size'' j),
     st_ClaimName = json_str (json_get ''claim_name'' j),
     st_StorageClass = json_str (json_get ''storage_class'' j)\<rparr>"

definition decode_env_from :: "json \<Rightarrow> EnvFromSourceSpec" where
  "decode_env_from j =
    \<lparr>ef_Type = json_str (json_get ''type'' j), ef_SourceName = json_str (json_get ''source_name'' j)\<rparr>"

definition decode_selector :: "json \<Rightarrow> KeySelectorSpec" where
  "decode_selector j =
    \<lparr>ks_Name = json_str (json_get ''name'' j), ks_Key = json_str (json_get ''key'' j)\<rparr>"

definition decode_env :: "json \<Rightarrow> SimplifiedEnvSpec" where
  "decode_env j =
    (let v = json_get ''value_from'' j in
     \<lparr>se_EnvName = json_str (json_get ''name'' j),
      se_ValueFrom =
       \<lparr>vs_Static = json_ptr json_str (json_get ''static'' v),
        vs_Secret = json_ptr decode_selector (json_get ''secret'' v),
        vs_Config = json_ptr decode_selector (json_get ''config'' v),
        vs_Field = json_ptr json_str (json_get ''field'' v)\<rparr>\<rparr>)"

definition decode_probe :: "json \<Rightarrow> ProbeTraitsSpec" where
  "decode_probe j =
    \<lparr>pb_Type = json_str (json_get ''type'' j),
     pb_InitialDelaySeconds = json_int (json_get ''initial_delay_seconds'' j),
     pb_PeriodSeconds = json_int (json_get ''period_seconds'' j),
     pb_TimeoutSeconds = json_int (json_get ''timeout_seconds'' j),
     pb_FailureThreshold = json_int (json_get ''failure_threshold'' j),
     pb_SuccessThreshold = json_int (json_get ''success_threshold'' j),
     pb_Exec = json_ptr (\<lambda>e. json_strs (json_get ''command'' e)) (json_get ''exec'' j),
     pb_HTTPGet = json_ptr (\<lambda>h. \<lparr>hg_Path = json_str (json_get ''path'' h), hg_Port = json_int (json_get ''port'' h),
        hg_Host = json_str (json_get ''host'' h), hg_Scheme = json_str (json_get ''scheme'' h)\<rparr>)
        (json_get ''http_get'' j),
     pb_TCPSocket = json_ptr (\<lambda>t. \<lparr>ts_Port = json_int (json_get ''port'' t),
        ts_Host = json_str (json_get ''host'' t)\<rparr>) (json_get ''tcp_socket'' j)\<rparr>"

definition decode_resources :: "json \<Rightarrow> ResourceTraitsSpec" where
  "decode_resources j =
    \<lparr>rs_CPU = json_str (json_get ''cpu'' j), rs_Memory = json_str (json_get ''memory'' j),
     rs_GPU = json_str (json_get ''gpu'' j)\<rparr>"

definition decode_route :: "json \<Rightarrow> IngressRoutes" where
  "decode_route j =
    (let b = json_get ''backend'' j in
     \<lparr>ig_Path = json_str (json_get ''path'' j), ig_PathType = json_str (json_get ''path_type'' j),
      ig_Host = json_str (json_get ''host'' j),
      ig_Backend = \<lparr>ir_ServiceName = json_str (json_get ''service_name'' b),
        ir_ServicePort = json_int (json_get ''service_port'' b),
        ir_Weight = json_int (json_get ''weight'' b), ir_Headers = json_strmap (json_get ''headers'' b)\<rparr>,
      ig_Rewrite = json_ptr (\<lambda>r. \<lparr>rw_Type = json_str (json_get ''type'' r),
        rw_Match = json_str (json_get ''match'' r),
        rw_Replacement = json_str (json_get ''replacement'' r)\<rparr>) (json_get ''rewrite'' j)\<rparr>)"

definition decode_ingress :: "json \<Rightarrow> IngressTraitsSpec" where
  "decode_ingress j =
    \<lparr>ing_Name = json_str (json_get ''name'' j), ing_Namespace = json_str (json_get ''namespace'' j),
     ing_Hosts = json_strs (json_get ''hosts'' j), ing_Label = json_strmap (json_get ''label'' j),
     ing_Annotations = json_strmap (json_get ''annotations'' j),
     ing_IngressClassName = json_str (json_get ''ingress_class_name'' j),
     ing_DefaultPathType = json_str (json_get ''default_path_type'' j),
     ing_TLS = map (\<lambda>t. \<lparr>tls_SecretName = json_str (json_get ''secret_name'' t),
       tls_Hosts = json_strs (json_get ''hosts'' t)\<rparr>) (json_list (json_get ''tls'' j)),
     ing_Routes = map decode_route (json_list (json_get ''routes'' j))\<rparr>"

definition decode_rule :: "json \<Rightarrow> RBACRuleSpec" where
  "decode_rule j =
    \<lparr>rr_APIGroups = json_strs (json_get ''api_groups'' j), rr_Resources = json_strs (json_get ''resources'' j),
     rr_ResourceNames = json_strs (json_get ''resource_names'' j),
     rr_NonResourceURLs = json_strs (json_get ''non_resource_urls'' j),
     rr_Verbs = json_strs (json_get ''verbs'' j)\<rparr>"

definition decode_rbac :: "json \<Rightarrow> RBACPolicySpec" where
  "decode_rbac j =
    \<lparr>rb_ServiceAccount = json_str (json_get ''service_account'' j),
     rb_Namespace = json_str (json_get ''namespace'' j),
     rb_ClusterScope = json_bool (json_get ''cluster_scope'' j),
     rb_RoleName = json_str (json_get ''role_name'' j),
     rb_BindingName = json_str (json_get ''binding_name'' j),
     rb_ServiceAccountLabels = json_strmap (json_get ''service_accountLabels'' j),
     rb_ServiceAccountAnnotations = json_strmap (json_get ''service_accountAnnotations'' j),
     rb_RoleLabels = json_strmap (json_get ''role_labels'' j),
     rb_BindingLabels = json_strmap (json_get ''binding_labels'' j),
     rb_Rules = map decode_rule (json_list (json_get ''rules'' j)),
     rb_AutomountSAT = json_ptr json_bool (json_get ''automount_service_account_token'' j)\<rparr>"

section \<open>Decoding nested traits\<close>

lemma size_json_get: "size (json_get k j) \<le> size j"
proof (cases j)
  case (JObj kvs)
  have "size (snd kv) < size (JObj kvs)" if "find P (rev kvs) = Some kv" for P kv
  proof -
    from that have "kv \<in> set (rev kvs)" unfolding find_Some_iff by (metis nth_mem)
    then have "kv \<in> set kvs" by simp
    then show ?thesis by (induction kvs) (auto split: prod.splits)
  qed
  with JObj show ?thesis by (auto simp: json_get_def less_imp_le split: option.splits)
qed (simp_all add: json_get_def)

lemma size_json_list: "x \<in> set (json_list j) \<Longrightarrow> size x < size j"
  by (cases j) (auto simp: less_Suc_eq_le intro: size_list_estimation')

lemma size_nested [termination_simp]:
  "x \<in> set (json_list (json_get k j)) \<Longrightarrow> size (json_get k' x) < size j"
  using size_json_get [of k' x] size_json_list [of x "json_get k j"] size_json_get [of k j] by linarith

function decode_traits :: "json \<Rightarrow> Traits" where
  "decode_traits j = Traits
     (map (\<lambda>x. InitTraitSpec (json_str (json_get ''name'' x)) (decode_traits (json_get ''traits'' x))
        (decode_properties (json_get ''properties'' x))) (json_list (json_get ''init'' j)))
     (map decode_storage (json_list (json_get ''storage'' j)))
     (map (\<lambda>x. SidecarTraitsSpec (json_str (json_get ''name'' x)) (json_str (json_get ''image'' x))
        (json_strs (json_get ''command'' x)) (json_strs (json_get ''args'' x))
        (json_strmap (json_get ''env'' x)) (decode_traits (json_get ''traits'' x)))
        (json_list (json_get ''sidecar'' j)))
     (map decode_ingress (json_list (json_get ''ingress'' j)))
     (map decode_rbac (json_list (json_get ''rbac'' j)))
     (map decode_env_from (json_list (json_get ''env_from'' j)))
     (map decode_env (json_list (json_get ''envs'' j)))
     (map decode_probe (json_list (json_get ''probes'' j)))
     (json_ptr decode_resources (json_get ''resources'' j))
     (json_ptr (\<lambda>s. json_str (json_get ''strategy'' s)) (json_get ''share'' j))"
  by pat_completeness auto
termination
proof (relation "measure size", goal_cases)
  case (2 j x)
  then show ?case unfolding in_measure by (rule size_nested)
next
  case (3 j x)
  then show ?case unfolding in_measure by (rule size_nested)
qed simp

declare decode_traits.simps [simp del]

lemma decode_share_traits: "t_Share (decode_traits j) = decode_share j"
  by (subst decode_traits.simps) (simp add: json_ptr_def decode_share_def Let_def)

end
