(* ===== verification/Kube_Pod.thy ===== *)
theory Kube_Pod
  imports Kube_Decode Kube_Builder
begin

text \<open>
  Pods and the results of trait processing: the parts of the Kubernetes API types that
  \<open>workflow/traits\<close> reads and writes, \<open>TraitResult\<close>, its aggregation and its application to a
  workload (\<open>workflow/traits/processor.go\<close>).

  A resource quantity is a value of the type \<open>'q\<close>: \<open>resource.ParseQuantity\<close> belongs to the
  Kubernetes library and is a parameter of the processors. A Go map keyed by container names is
  an association list with distinct keys.
\<close>

section \<open>Kubernetes types\<close>

datatype EnvValue =
    EnvStatic string | EnvFieldRef string | EnvSecretKeyRef string string | EnvConfigMapKeyRef string string

record EnvVar =
  ev_Name :: string
  ev_Value :: EnvValue

datatype EnvFromSource = ConfigMapRef string | SecretRef string

datatype VolumeSource = VolPVC string | VolEmptyDir | VolConfigMap string | VolSecret string

record Volume =
  vo_Name :: string
  vo_Source :: VolumeSource

record VolumeMount =
  vm_Name :: string
  vm_MountPath :: string
  vm_SubPath :: string
  vm_ReadOnly :: bool

datatype ProbeHandler =
    ExecAction "string list" | HTTPGetAction string int string string | TCPSocketAction int string

record Probe =
  pr_InitialDelay :: int
  pr_Period :: int
  pr_ProbeTimeout :: int
  pr_Failure :: int
  pr_Success :: int
  pr_Handler :: ProbeHandler

record 'q ResourceRequirements =
  rq_Requests :: "(string \<times> 'q) list"
  rq_Limits :: "(string \<times> 'q) list"

record 'q Container =
  cn_Name :: string
  cn_Image :: string
  cn_Command :: "string list"
  cn_Args :: "string list"
  cn_Ports :: "int list"
  cn_Env :: "EnvVar list"
  cn_EnvFrom :: "EnvFromSource list"
  cn_VolumeMounts :: "VolumeMount list"
  cn_Resources :: "'q ResourceRequirements option"
  cn_LivenessProbe :: "Probe option"
  cn_ReadinessProbe :: "Probe option"
  cn_StartupProbe :: "Probe option"

record 'q PersistentVolumeClaimSpec =
  pvc_Storage :: 'q
  pvc_StorageClassName :: "string option"
  pvc_Annotations :: "(string \<times> string) list"

record 'q PodSpec =
  pod_InitContainers :: "'q Container list"
  pod_Containers :: "'q Container list"
  pod_Volumes :: "Volume list"
  pod_ServiceAccountName :: string
  pod_Automount :: "bool option"

record IngressPath =
  ip_Path :: string
  ip_PathType :: string
  ip_Service :: string
  ip_Port :: int

record IngressObject =
  io_Annotations :: "(string \<times> string) list"
  io_ClassName :: "string option"
  io_TLS :: "(string list \<times> string) list"
  io_Rules :: "(string \<times> IngressPath list) list"

text \<open>The workload after trait processing and the objects the processors create besides it.\<close>

datatype 'q trait_spec =
    WorkloadPod workload_spec "'q PodSpec" "(string \<times> 'q PersistentVolumeClaimSpec) list"
  | ClaimSpec "'q PersistentVolumeClaimSpec"
  | IngressSpec IngressObject
  | ServiceAccountSpec "(string \<times> string) list" "bool option"
  | RoleSpec "RBACRuleSpec list"
  | BindingSpec string string string string

type_synonym 'q trait_object = "'q trait_spec client_object"

record 'q TraitResult =
  rt_InitContainers :: "'q Container list"
  rt_Containers :: "'q Container list"
  rt_Volumes :: "Volume list"
  rt_VolumeMounts :: "(string \<times> VolumeMount list) list"
  rt_EnvVars :: "(string \<times> EnvVar list) list"
  rt_EnvFromSources :: "(string \<times> EnvFromSource list) list"
  rt_AdditionalObjects :: "'q trait_object list"
  rt_ServiceAccountName :: string
  rt_Automount :: "bool option"
  rt_LivenessProbe :: "Probe option"
  rt_ReadinessProbe :: "Probe option"
  rt_StartupProbe :: "Probe option"
  rt_Resources :: "'q ResourceRequirements option"

definition TraitResult_zero :: "'q TraitResult" where
  "TraitResult_zero = \<lparr>rt_InitContainers = [], rt_Containers = [], rt_Volumes = [], rt_VolumeMounts = [],
     rt_EnvVars = [], rt_EnvFromSources = [], rt_AdditionalObjects = [], rt_ServiceAccountName = '''',
     rt_Automount = None, rt_LivenessProbe = None, rt_ReadinessProbe = None, rt_StartupProbe = None,
     rt_Resources = None\<rparr>"

section \<open>Aggregation\<close>

text \<open>Appending the values whose key is new, as the loops over a set of seen keys do.\<close>

definition append_new :: "('a \<Rightarrow> 'k) \<Rightarrow> 'a list \<Rightarrow> 'a list \<Rightarrow> 'a list" where
  "append_new key xs acc = fold (\<lambda>x acc. if key x \<in> key ` set acc then acc else acc @ [x]) xs acc"

definition lookup_list :: "(string \<times> 'a list) list \<Rightarrow> string \<Rightarrow> 'a list" where
  "lookup_list m k = (case map_of m k of None \<Rightarrow> [] | Some xs \<Rightarrow> xs)"

text \<open>A loop over a map of lists that extends the entry of each of its keys.\<close>

definition merge_lists ::
  "('a list \<Rightarrow> 'a list \<Rightarrow> 'a list) \<Rightarrow> (string \<times> 'a list) list \<Rightarrow> (string \<times> 'a list) list \<Rightarrow> (string \<times> 'a list) list" where
  "merge_lists ext m acc = fold (\<lambda>(k, xs) acc. AList.update k (ext xs (lookup_list acc k)) acc) m acc"

text \<open>
  The key of an additional object. \<open>GetObjectKind\<close> reads the type metadata, which only the
  ingress processor sets; for every other object the kind is empty.
\<close>

definition object_key :: "'q trait_object \<Rightarrow> string" where
  "object_key obj =
    (if co_Kind obj = KindIngress then ''Ingress'' else '''') @ ''/'' @ co_Namespace obj @ ''/'' @ co_Name obj"

definition or_last :: "'a option \<Rightarrow> 'a option \<Rightarrow> 'a option" where
  "or_last old new = (case new of None \<Rightarrow> old | Some x \<Rightarrow> Some x)"

definition aggregate_step :: "'q TraitResult \<Rightarrow> 'q TraitResult \<Rightarrow> 'q TraitResult" where
  "aggregate_step r acc =
    \<lparr>rt_InitContainers = rt_InitContainers acc @ rt_InitContainers r,
     rt_Containers = rt_Containers acc @ rt_Containers r,
     rt_Volumes = append_new vo_Name (rt_Volumes r) (rt_Volumes acc),
     rt_VolumeMounts = merge_lists (append_new vm_MountPath) (rt_VolumeMounts r) (rt_VolumeMounts acc),
     rt_EnvVars = merge_lists (\<lambda>xs old. old @ xs) (rt_EnvVars r) (rt_EnvVars acc),
     rt_EnvFromSources = merge_lists (\<lambda>xs old. old @ xs) (rt_EnvFromSources r) (rt_EnvFromSources acc),
     rt_AdditionalObjects = append_new object_key (rt_AdditionalObjects r) (rt_AdditionalObjects acc),
     rt_ServiceAccountName =
       (if rt_ServiceAccountName r \<noteq> '''' then rt_ServiceAccountName r else rt_ServiceAccountName acc),
     rt_Automount = or_last (rt_Automount acc) (rt_Automount r),
     rt_LivenessProbe = or_last (rt_LivenessProbe acc) (rt_LivenessProbe r),
     rt_ReadinessProbe = or_last (rt_ReadinessProbe acc) (rt_ReadinessProbe r),
     rt_StartupProbe = or_last (rt_StartupProbe acc) (rt_StartupProbe r),
     rt_Resources = or_last (rt_Resources acc) (rt_Resources r)\<rparr>"

definition aggregateTraitResults :: "'q TraitResult list \<Rightarrow> 'q TraitResult" where
  "aggregateTraitResults results = fold aggregate_step results TraitResult_zero"

section \<open>Applying a result to the workload\<close>

definition pod_of_workload :: "workload_spec \<Rightarrow> 'q PodSpec" where
  "pod_of_workload w =
    \<lparr>pod_InitContainers = [],
     pod_Containers =
       [\<lparr>cn_Name = wl_ContainerName w, cn_Image = wl_Image w, cn_Command = [], cn_Args = [],
         cn_Ports = wl_Ports w, cn_Env = map (\<lambda>(k, v). \<lparr>ev_Name = k, ev_Value = EnvStatic v\<rparr>) (wl_Env w),
         cn_EnvFrom = [], cn_VolumeMounts = [], cn_Resources = None, cn_LivenessProbe = None,
         cn_ReadinessProbe = None, cn_StartupProbe = None\<rparr>],
     pod_Volumes = [], pod_ServiceAccountName = '''', pod_Automount = None\<rparr>"

text \<open>
  \<open>containerMap\<close>: one pointer per name; init containers are entered after the others and later
  entries replace earlier ones, so a name stands for the last init container of that name, or
  the last other container when there is no such init container.
\<close>

fun update_last :: "('a \<Rightarrow> bool) \<Rightarrow> ('a \<Rightarrow> 'a) \<Rightarrow> 'a list \<Rightarrow> 'a list" where
  "update_last P f [] = []"
| "update_last P f (x # xs) =
     (if (\<exists>y\<in>set xs. P y) then x # update_last P f xs else if P x then f x # xs else x # xs)"

definition has_container :: "string \<Rightarrow> 'q PodSpec \<Rightarrow> bool" where
  "has_container name p \<longleftrightarrow> name \<in> cn_Name ` set (pod_InitContainers p @ pod_Containers p)"

definition with_container :: "string \<Rightarrow> ('q Container \<Rightarrow> 'q Container) \<Rightarrow> 'q PodSpec \<Rightarrow> 'q PodSpec" where
  "with_container name f p =
    (if name \<in> cn_Name ` set (pod_InitContainers p)
     then p\<lparr>pod_InitContainers := update_last (\<lambda>c. cn_Name c = name) f (pod_InitContainers p)\<rparr>
     else p\<lparr>pod_Containers := update_last (\<lambda>c. cn_Name c = name) f (pod_Containers p)\<rparr>)"

definition set_main :: "'q TraitResult \<Rightarrow> 'q Container \<Rightarrow> 'q Container" where
  "set_main r c =
    c\<lparr>cn_Resources := or_last (cn_Resources c) (rt_Resources r),
      cn_LivenessProbe := or_last (cn_LivenessProbe c) (rt_LivenessProbe r),
      cn_ReadinessProbe := or_last (cn_ReadinessProbe c) (rt_ReadinessProbe r),
      cn_StartupProbe := or_last (cn_StartupProbe c) (rt_StartupProbe r)\<rparr>"

definition add_mounts :: "VolumeMount list \<Rightarrow> 'q Container \<Rightarrow> 'q Container" where
  "add_mounts ms c = c\<lparr>cn_VolumeMounts := cn_VolumeMounts c @ ms\<rparr>"

definition add_envs :: "EnvVar list \<Rightarrow> 'q Container \<Rightarrow> 'q Container" where
  "add_envs es c = c\<lparr>cn_Env := cn_Env c @ es\<rparr>"

definition add_env_from :: "EnvFromSource list \<Rightarrow> 'q Container \<Rightarrow> 'q Container" where
  "add_env_from es c = c\<lparr>cn_EnvFrom := cn_EnvFrom c @ es\<rparr>"

definition is_template_claim :: "'q trait_object \<Rightarrow> bool" where
  "is_template_claim obj \<longleftrightarrow>
    (case co_Spec obj of TraitSpec (ClaimSpec s) \<Rightarrow> map_of (pvc_Annotations s) LabelStorageRole = Some ''template''
     | _ \<Rightarrow> False)"

definition claim_template :: "'q trait_object \<Rightarrow> (string \<times> 'q PersistentVolumeClaimSpec) list" where
  "claim_template obj =
    (case co_Spec obj of TraitSpec (ClaimSpec s) \<Rightarrow> [(co_Name obj, s)] | _ \<Rightarrow> [])"

text \<open>A volume that refers to a claim which became a claim template of the stateful set.\<close>

definition templated_volume :: "string set \<Rightarrow> Volume \<Rightarrow> bool" where
  "templated_volume names v \<longleftrightarrow> (case vo_Source v of VolPVC claim \<Rightarrow> claim \<in> names | _ \<Rightarrow> False)"

definition merge_pod :: "'q TraitResult \<Rightarrow> 'q PodSpec \<Rightarrow> 'q PodSpec" where
  "merge_pod r p =
    p\<lparr>pod_InitContainers := pod_InitContainers p @ rt_InitContainers r,
      pod_Containers := pod_Containers p @ rt_Containers r,
      pod_Volumes := pod_Volumes p @ rt_Volumes r,
      pod_ServiceAccountName :=
        (if rt_ServiceAccountName r \<noteq> '''' \<and> pod_ServiceAccountName p = ''''
         then rt_ServiceAccountName r else pod_ServiceAccountName p),
      pod_Automount := (case pod_Automount p of None \<Rightarrow> rt_Automount r | Some b \<Rightarrow> Some b)\<rparr>"

definition wire_pod :: "'q TraitResult \<Rightarrow> string \<Rightarrow> 'q PodSpec \<Rightarrow> 'q PodSpec" where
  "wire_pod r main p =
    fold (\<lambda>(k, es) q. if has_container k q then with_container k (add_env_from es) q else q) (rt_EnvFromSources r)
     (fold (\<lambda>(k, es) q. if has_container k q then with_container k (add_envs es) q else q) (rt_EnvVars r)
       (fold (\<lambda>(k, ms) q. if has_container k q then with_container k (add_mounts ms) q else q) (rt_VolumeMounts r)
         (with_container main (set_main r) p)))"

definition applyTraitResultToWorkload ::
  "'q TraitResult \<Rightarrow> 'q trait_object \<Rightarrow> string \<Rightarrow> string + 'q trait_object list \<times> 'q trait_object" where
  "applyTraitResultToWorkload r workload main =
    (case co_Spec workload of
       TraitSpec _ \<Rightarrow> Inl ''unsupported workload type''
     | WorkloadSpec w \<Rightarrow>
        (let pod1 = merge_pod r (pod_of_workload w) in
         if \<not> has_container main pod1 then Inl ''main container not found in workload''
         else
           let pod2 = wire_pod r main pod1;
               objs = rt_AdditionalObjects r;
               templates = (if co_Kind workload = KindStatefulSet
                            then concat (map claim_template (filter is_template_claim objs)) else []);
               pod3 = pod2\<lparr>pod_Volumes := filter (\<lambda>v. \<not> templated_volume (fst ` set templates) v) (pod_Volumes pod2)\<rparr>
           in Inr (filter (\<lambda>obj. \<not> is_template_claim obj) objs,
                   workload\<lparr>co_Spec := TraitSpec (WorkloadPod w pod3 templates)\<rparr>)))"

end
