(* ===== verification/Kube_Regexp.thy ===== *)
theory Kube_Regexp
  imports Kube_Prelude
begin

text \<open>
  Regular expressions as the program gives them to Go's \<open>regexp\<close> package: character classes,
  sequences, alternatives, options and repetitions, anchored at both ends. \<open>MatchString\<close> decides
  a match with derivatives; \<open>rmatches\<close> says what a match is, and the two agree.
\<close>

section \<open>Expressions and matches\<close>

datatype rexp =
    RNone | REps | RCls "char \<Rightarrow> bool" | RAlt rexp rexp | RSeq rexp rexp | RStar rexp

definition ROpt :: "rexp \<Rightarrow> rexp" where
  "ROpt r = RAlt REps r"

definition RPlus :: "rexp \<Rightarrow> rexp" where
  "RPlus r = RSeq r (RStar r)"

fun RLit :: "string \<Rightarrow> rexp" where
  "RLit [] = REps"
| "RLit (c # cs) = RSeq (RCls (\<lambda>d. d = c)) (RLit cs)"

fun RAlts :: "rexp list \<Rightarrow> rexp" where
  "RAlts [] = RNone"
| "RAlts (r # rs) = RAlt r (RAlts rs)"

inductive rmatches :: "rexp \<Rightarrow> string \<Rightarrow> bool" where
  eps: "rmatches REps []"
| cls: "p c \<Longrightarrow> rmatches (RCls p) [c]"
| alt1: "rmatches r s \<Longrightarrow> rmatches (RAlt r q) s"
| alt2: "rmatches q s \<Longrightarrow> rmatches (RAlt r q) s"
| seq: "rmatches r s \<Longrightarrow> rmatches q t \<Longrightarrow> rmatches (RSeq r q) (s @ t)"
| star0: "rmatches (RStar r) []"
| star: "rmatches r s \<Longrightarrow> rmatches (RStar r) t \<Longrightarrow> rmatches (RStar r) (s @ t)"

inductive_cases rmatches_starE: "rmatches (RStar r) s"

inductive_simps rmatches_simps [simp]:
  "rmatches RNone s" "rmatches REps s" "rmatches (RCls p) s" "rmatches (RAlt r q) s"
  "rmatches (RSeq r q) s"

section \<open>Derivatives\<close>

fun nullable :: "rexp \<Rightarrow> bool" where
  "nullable RNone = False"
| "nullable REps = True"
| "nullable (RCls p) = False"
| "nullable (RAlt r q) = (nullable r \<or> nullable q)"
| "nullable (RSeq r q) = (nullable r \<and> nullable q)"
| "nullable (RStar r) = True"

fun deriv :: "char \<Rightarrow> rexp \<Rightarrow> rexp" where
  "deriv c RNone = RNone"
| "deriv c REps = RNone"
| "deriv c (RCls p) = (if p c then REps else RNone)"
| "deriv c (RAlt r q) = RAlt (deriv c r) (deriv c q)"
| "deriv c (RSeq r q) =
     (if nullable r then RAlt (RSeq (deriv c r) q) (deriv c q) else RSeq (deriv c r) q)"
| "deriv c (RStar r) = RSeq (deriv c r) (RStar r)"

definition MatchString :: "rexp \<Rightarrow> string \<Rightarrow> bool" where
  "MatchString r s = nullable (fold deriv s r)"

section \<open>Derivatives decide matching\<close>

lemma nullable_iff: "nullable r \<longleftrightarrow> rmatches r []"
  by (induction r) (auto intro: star0)

lemma rmatches_star_Cons:
  "rmatches (RStar r) (c # s) \<longleftrightarrow> (\<exists>u v. s = u @ v \<and> rmatches r (c # u) \<and> rmatches (RStar r) v)"
    (is "?L \<longleftrightarrow> ?R")
proof
  have "rmatches q t \<Longrightarrow> q = RStar r \<Longrightarrow> t = c # s \<Longrightarrow> ?R" for q t
  proof (induction arbitrary: s rule: rmatches.induct)
    case (star r' a b)
    then show ?case by (cases a) auto
  qed auto
  then show "?L \<Longrightarrow> ?R" by blast
next
  show "?R \<Longrightarrow> ?L" using rmatches.star [of r "c # _"] by auto
qed

lemma deriv_iff: "rmatches (deriv c r) s \<longleftrightarrow> rmatches r (c # s)"
proof (induction r arbitrary: s)
  case (RSeq r q)
  have "rmatches (RSeq r q) (c # s) \<longleftrightarrow>
      (\<exists>u v. s = u @ v \<and> rmatches r (c # u) \<and> rmatches q v) \<or> (rmatches r [] \<and> rmatches q (c # s))"
    by (auto simp: Cons_eq_append_conv)
  with RSeq show ?case by (auto simp: nullable_iff)
next
  case (RStar r)
  then show ?case by (simp add: rmatches_star_Cons)
qed auto

lemma MatchString_iff: "MatchString r s \<longleftrightarrow> rmatches r s"
  unfolding MatchString_def
  by (induction s arbitrary: r) (simp_all add: nullable_iff deriv_iff)

section \<open>Derived forms\<close>

lemma rmatches_ROpt [simp]: "rmatches (ROpt r) s \<longleftrightarrow> s = [] \<or> rmatches r s"
  by (auto simp: ROpt_def)

lemma rmatches_RLit [simp]: "rmatches (RLit t) s \<longleftrightarrow> s = t"
  by (induction t arbitrary: s) auto

lemma rmatches_RAlts [simp]: "rmatches (RAlts rs) s \<longleftrightarrow> (\<exists>r\<in>set rs. rmatches r s)"
  by (induction rs) auto

lemma rmatches_RStar_RCls [simp]: "rmatches (RStar (RCls p)) s \<longleftrightarrow> list_all p s"
proof (induction s)
  case (Cons c s)
  then show ?case by (auto simp: rmatches_star_Cons)
qed (auto intro: star0)

lemma rmatches_RPlus_RCls [simp]: "rmatches (RPlus (RCls p)) s \<longleftrightarrow> s \<noteq> [] \<and> list_all p s"
proof (cases s)
  case (Cons c t)
  have "p c \<Longrightarrow> list_all p t \<Longrightarrow> \<exists>u v. c # t = u @ v \<and> (\<exists>d. u = [d] \<and> p d) \<and> list_all p v"
    by (intro exI [of _ "[c]"] exI [of _ t]) simp
  with Cons show ?thesis by (auto simp: RPlus_def)
qed (simp add: RPlus_def)


lemma rmatches_cls_seq: "rmatches (RSeq (RCls p) q) (c # t) \<longleftrightarrow> p c \<and> rmatches q t"
  by (auto simp: Cons_eq_append_conv) (metis append_Cons append_Nil)

lemma rmatches_seq_cls: "rmatches (RSeq q (RCls p)) s \<longleftrightarrow> s \<noteq> [] \<and> rmatches q (butlast s) \<and> p (last s)"
  by (cases s rule: rev_cases) auto

end
