(* ===== verification/Kube_Validation.thy ===== *)
theory Kube_Validation
  imports Kube_Spec Kube_Regexp Kube_Naming Kube_Builder
begin

text \<open>
  Request validation: \<open>domain/service/validation.go\<close> with the request types of
  \<open>interfaces/api/dto/v1\<close>. A validator returns the list of its errors, with the path of the
  field and the code; the model keeps both and leaves out the message, which repeats them.

  \<open>application_ok\<close> and \<open>workflow_ok\<close> say, without paths and codes, what a valid request is;
  the lemmas show that the validators accept exactly those.
\<close>

section \<open>Requests and responses\<close>

datatype error_code =
    ErrCodeNameTooShort | ErrCodeNameTooLong | ErrCodeInvalidNameFormat
  | ErrCodeInvalidComponentType | ErrCodeMissingImage | ErrCodeDuplicateComponent
  | ErrCodeInvalidTraitConfig | ErrCodeMissingRequiredField | ErrCodeInvalidStorageType
  | ErrCodeInvalidStorageSize | ErrCodeInvalidProbeType | ErrCodeInvalidProbeConfig
  | ErrCodeNestedTraitForbidden | ErrCodeMissingRBACRules | ErrCodeMissingRBACVerbs
  | ErrCodeMissingIngressRoutes | ErrCodeMissingServiceName | ErrCodeInvalidEnvFromType
  | ErrCodeInvalidEnvValueSource | ErrCodeComponentNotFound | ErrCodeInvalidWorkflowMode
  | ErrCodeDuplicateWorkflowStep | ErrCodeWorkflowStepNoComponent

record ValidationError =
  ve_Field :: string
  ve_Code :: error_code

definition verr :: "string \<Rightarrow> error_code \<Rightarrow> ValidationError" where
  "verr field code = \<lparr>ve_Field = field, ve_Code = code\<rparr>"

text \<open>\<open>if c { errors = append(errors, e) }\<close>\<close>

definition report :: "bool \<Rightarrow> string \<Rightarrow> error_code \<Rightarrow> ValidationError list" where
  "report c field code = (if c then [verr field code] else [])"

text \<open>\<open>fmt.Sprintf("%s.<name>[%d]", field, i)\<close>\<close>

definition indexed :: "string \<Rightarrow> string \<Rightarrow> nat \<Rightarrow> string" where
  "indexed field name i = field @ name @ ''['' @ nat_str i @ '']''"

record TemplateRef =
  tp_ID :: string
  tp_Target :: string

record CreateComponentRequest =
  cr_Name :: string
  cr_ComponentType :: JobType
  cr_Image :: string
  cr_Namespace :: string
  cr_Replicas :: int
  cr_Properties :: Properties
  cr_Traits :: Traits
  cr_Template :: "TemplateRef option"

record CreateWorkflowSubStepRequest =
  sr_Name :: string
  sr_WorkflowType :: JobType
  sr_Policies :: "string list"
  sr_Components :: "string list"

record CreateWorkflowStepRequest =
  wr_Name :: string
  wr_WorkflowType :: JobType
  wr_Policies :: "string list"
  wr_Components :: "string list"
  wr_Mode :: string
  wr_SubSteps :: "CreateWorkflowSubStepRequest list"

record CreateApplicationsRequest =
  ar_ID :: string
  ar_Name :: string
  ar_Namespace :: string
  ar_Alias :: string
  ar_Version :: string
  ar_Project :: string
  ar_Description :: string
  ar_Icon :: string
  ar_Component :: "CreateComponentRequest list"
  ar_WorkflowSteps :: "CreateWorkflowStepRequest list"
  ar_TmpEnable :: "bool option"

record TryWorkflowRequest =
  tw_WorkflowID :: string
  tw_Name :: string
  tw_Alias :: string
  tw_Workflow :: "CreateWorkflowStepRequest list"

text \<open>\<open>TryApplicationResponse\<close> and \<open>TryWorkflowResponse\<close> have the same fields.\<close>

record TryResponse =
  tr_Valid :: bool
  tr_Errors :: "ValidationError list"

section \<open>Patterns\<close>

abbreviation alnum_class :: rexp where
  "alnum_class \<equiv> RCls alnum_char"

definition nameRegexp :: rexp where
  "nameRegexp = RSeq alnum_class (ROpt (RSeq (RStar (RCls rfc1123_char)) alnum_class))"

abbreviation decimal_rexp :: rexp where
  "decimal_rexp \<equiv> RSeq (RPlus (RCls is_digit)) (ROpt (RSeq (RLit ''.'') (RPlus (RCls is_digit))))"

definition quantity_units :: "string list" where
  "quantity_units = [''Ki'', ''Mi'', ''Gi'', ''Ti'', ''Pi'', ''Ei'', ''K'', ''M'', ''G'', ''T'', ''P'', ''E'']"

definition storageQuantityRegexp :: rexp where
  "storageQuantityRegexp = RSeq decimal_rexp (ROpt (RAlts (map RLit quantity_units)))"

definition quantityRegexp :: rexp where
  "quantityRegexp = RSeq decimal_rexp (ROpt (RAlts (map RLit (''m'' # quantity_units))))"

definition isValidQuantity :: "string \<Rightarrow> bool" where
  "isValidQuantity quantity = MatchString quantityRegexp quantity"

definition minNameLength :: nat where "minNameLength = 2"
definition maxNameLength :: nat where "maxNameLength = 63"

definition validStorageTypes :: "string set" where
  "validStorageTypes = {''persistent'', ''ephemeral'', ''config'', ''secret''}"

definition validProbeTypes :: "string set" where
  "validProbeTypes = {''liveness'', ''readiness'', ''startup''}"

definition validComponentTypes :: "JobType set" where
  "validComponentTypes = {ServerJob, StoreJob, ConfJob, SecretJob}"

definition validWorkflowModes :: "string set" where
  "validWorkflowModes = {WorkflowMode_string WorkflowModeStepByStep, WorkflowMode_string WorkflowModeDAG, ''''}"

definition validEnvFromTypes :: "string set" where
  "validEnvFromTypes = {''secret'', ''configMap''}"

section \<open>Names\<close>

definition validateName :: "string \<Rightarrow> string \<Rightarrow> ValidationError list" where
  "validateName name field =
    (if name = '''' then [verr field ErrCodeMissingRequiredField]
     else report (length name < minNameLength) field ErrCodeNameTooShort @
          report (length name > maxNameLength) field ErrCodeNameTooLong @
          report (\<not> MatchString nameRegexp (ToLower name)) field ErrCodeInvalidNameFormat)"

section \<open>Leaf traits\<close>

definition validateStorageTrait :: "StorageTraitSpec \<Rightarrow> string \<Rightarrow> ValidationError list" where
  "validateStorageTrait s field =
    (if st_Type s = '''' then [verr (field @ ''.type'') ErrCodeMissingRequiredField]
     else report (st_Type s \<notin> validStorageTypes) (field @ ''.type'') ErrCodeInvalidStorageType) @
    report (st_MountPath s = '''') (field @ ''.mount_path'') ErrCodeMissingRequiredField @
    (if st_Type s = ''persistent'' \<and> st_TmpCreate s \<and> st_Size s \<noteq> ''''
     then report (\<not> MatchString storageQuantityRegexp (st_Size s)) (field @ ''.size'') ErrCodeInvalidStorageSize
     else []) @
    report ((st_Type s = ''config'' \<or> st_Type s = ''secret'') \<and> st_SourceName s = '''' \<and> st_Name s = '''')
      (field @ ''.source_name'') ErrCodeMissingRequiredField"

definition probeMethodCount :: "ProbeTraitsSpec \<Rightarrow> nat" where
  "probeMethodCount p =
    (case pb_Exec p of None \<Rightarrow> 0 | Some command \<Rightarrow> if length command > 0 then 1 else 0) +
    (if pb_HTTPGet p \<noteq> None then 1 else 0) + (if pb_TCPSocket p \<noteq> None then 1 else 0)"

definition validateProbeTrait :: "ProbeTraitsSpec \<Rightarrow> string \<Rightarrow> ValidationError list" where
  "validateProbeTrait p field =
    (if pb_Type p = '''' then [verr (field @ ''.type'') ErrCodeMissingRequiredField]
     else report (pb_Type p \<notin> validProbeTypes) (field @ ''.type'') ErrCodeInvalidProbeType) @
    (if probeMethodCount p = 0 then [verr field ErrCodeInvalidProbeConfig]
     else report (probeMethodCount p > 1) field ErrCodeInvalidProbeConfig) @
    (case pb_HTTPGet p of None \<Rightarrow> []
     | Some h \<Rightarrow> report (hg_Port h \<le> 0) (field @ ''.http_get.port'') ErrCodeMissingRequiredField) @
    (case pb_TCPSocket p of None \<Rightarrow> []
     | Some t \<Rightarrow> report (ts_Port t \<le> 0) (field @ ''.tcp_socket.port'') ErrCodeMissingRequiredField)"

definition validateRBACTrait :: "RBACPolicySpec \<Rightarrow> string \<Rightarrow> ValidationError list" where
  "validateRBACTrait rbac field =
    (if rb_Rules rbac = [] then [verr (field @ ''.rules'') ErrCodeMissingRBACRules]
     else each (\<lambda>i rule. report (rr_Verbs rule = [])
            (indexed field ''.rules'' i @ ''.verbs'') ErrCodeMissingRBACVerbs) (rb_Rules rbac))"

definition validateIngressTrait :: "IngressTraitsSpec \<Rightarrow> string \<Rightarrow> ValidationError list" where
  "validateIngressTrait ingress field =
    (if ing_Routes ingress = [] then [verr (field @ ''.routes'') ErrCodeMissingIngressRoutes]
     else each (\<lambda>i route. report (ir_ServiceName (ig_Backend route) = '''')
            (indexed field ''.routes'' i @ ''.backend.service_name'') ErrCodeMissingServiceName)
          (ing_Routes ingress))"

definition validateEnvFromTrait :: "EnvFromSourceSpec \<Rightarrow> string \<Rightarrow> ValidationError list" where
  "validateEnvFromTrait e field =
    (if ef_Type e = '''' then [verr (field @ ''.type'') ErrCodeMissingRequiredField]
     else report (ef_Type e \<notin> validEnvFromTypes) (field @ ''.type'') ErrCodeInvalidEnvFromType) @
    report (ef_SourceName e = '''') (field @ ''.source_name'') ErrCodeMissingRequiredField"

definition sourceCount :: "ValueSource \<Rightarrow> nat" where
  "sourceCount v =
    (if vs_Static v \<noteq> None then 1 else 0) + (if vs_Secret v \<noteq> None then 1 else 0) +
    (if vs_Config v \<noteq> None then 1 else 0) + (if vs_Field v \<noteq> None then 1 else 0)"

definition validateKeySelector :: "KeySelectorSpec option \<Rightarrow> string \<Rightarrow> ValidationError list" where
  "validateKeySelector sel field =
    (case sel of None \<Rightarrow> []
     | Some s \<Rightarrow> report (ks_Name s = '''') (field @ ''.name'') ErrCodeMissingRequiredField @
                 report (ks_Key s = '''') (field @ ''.key'') ErrCodeMissingRequiredField)"

definition validateEnvsTrait :: "SimplifiedEnvSpec \<Rightarrow> string \<Rightarrow> ValidationError list" where
  "validateEnvsTrait env field =
    (let v = se_ValueFrom env; n = sourceCount v in
     report (se_EnvName env = '''') (field @ ''.name'') ErrCodeMissingRequiredField @
     (if n = 0 then [verr (field @ ''.value_from'') ErrCodeInvalidEnvValueSource]
      else report (n > 1) (field @ ''.value_from'') ErrCodeInvalidEnvValueSource) @
     validateKeySelector (vs_Secret v) (field @ ''.value_from.secret'') @
     validateKeySelector (vs_Config v) (field @ ''.value_from.config''))"

definition validateResourcesTrait :: "ResourceTraitsSpec \<Rightarrow> string \<Rightarrow> ValidationError list" where
  "validateResourcesTrait r field =
    report (rs_CPU r \<noteq> '''' \<and> \<not> isValidQuantity (rs_CPU r)) (field @ ''.cpu'') ErrCodeInvalidTraitConfig @
    report (rs_Memory r \<noteq> '''' \<and> \<not> isValidQuantity (rs_Memory r)) (field @ ''.memory'') ErrCodeInvalidTraitConfig"


section \<open>Traits\<close>

function validateTraits :: "Traits \<Rightarrow> string \<Rightarrow> bool \<Rightarrow> ValidationError list"
  and validateInitTrait :: "InitTraitSpec \<Rightarrow> string \<Rightarrow> bool \<Rightarrow> ValidationError list"
  and validateSidecarTrait :: "SidecarTraitsSpec \<Rightarrow> string \<Rightarrow> bool \<Rightarrow> ValidationError list" where
  "validateTraits traits field isNested =
     each (\<lambda>i s. validateStorageTrait s (indexed field ''.storage'' i)) (t_Storage traits) @
     each (\<lambda>i p. validateProbeTrait p (indexed field ''.probes'' i)) (t_Probes traits) @
     each (\<lambda>i c. validateInitTrait c (indexed field ''.init'' i) isNested) (t_Init traits) @
     each (\<lambda>i c. validateSidecarTrait c (indexed field ''.sidecar'' i) isNested) (t_Sidecar traits) @
     each (\<lambda>i r. validateRBACTrait r (indexed field ''.rbac'' i)) (t_RBAC traits) @
     each (\<lambda>i g. validateIngressTrait g (indexed field ''.ingress'' i)) (t_Ingress traits) @
     each (\<lambda>i e. validateEnvFromTrait e (indexed field ''.env_from'' i)) (t_EnvFrom traits) @
     each (\<lambda>i e. validateEnvsTrait e (indexed field ''.envs'' i)) (t_Envs traits) @
     (case t_Resources traits of None \<Rightarrow> []
      | Some r \<Rightarrow> validateResourcesTrait r (field @ ''.resources''))"
| "validateInitTrait init field isNested =
     (if isNested then [verr field ErrCodeNestedTraitForbidden]
      else report (pr_Image (it_Properties init) = '''') (field @ ''.properties.image'') ErrCodeMissingImage @
           validateTraits (it_Traits init) (field @ ''.traits'') True)"
| "validateSidecarTrait sidecar field isNested =
     (if isNested then [verr field ErrCodeNestedTraitForbidden]
      else report (sd_Image sidecar = '''') (field @ ''.image'') ErrCodeMissingImage @
           validateTraits (sd_Traits sidecar) (field @ ''.traits'') True)"
  by pat_completeness auto
termination
  by (relation "measure (case_sum (\<lambda>(t, _). size t)
        (case_sum (\<lambda>(c, _). size (it_Traits c) + 1) (\<lambda>(c, _). size (sd_Traits c) + 1)))")
    (auto simp: Suc_le_eq dest: size_Traits_init size_Traits_sidecar)

declare validateTraits.simps [simp del] validateInitTrait.simps [simp del]
  validateSidecarTrait.simps [simp del]

section \<open>Components and steps\<close>

text \<open>The set of names, a Go map the validators extend, is the list of its keys.\<close>

definition validateComponent ::
  "CreateComponentRequest \<Rightarrow> string \<Rightarrow> string list \<Rightarrow> ValidationError list \<times> string list" where
  "validateComponent c field names =
    (let lowerName = ToLower (cr_Name c);
         dup = lowerName \<in> set names
     in (validateName (cr_Name c) (field @ ''.name'') @
         report dup (field @ ''.name'') ErrCodeDuplicateComponent @
         report (cr_ComponentType c \<notin> validComponentTypes) (field @ ''.type'') ErrCodeInvalidComponentType @
         report ((cr_ComponentType c = ServerJob \<or> cr_ComponentType c = StoreJob) \<and> cr_Image c = '''')
           (field @ ''.image'') ErrCodeMissingImage @
         validateTraits (cr_Traits c) (field @ ''.traits'') False,
         if dup then names else names @ [lowerName]))"

fun validateComponents ::
  "nat \<Rightarrow> CreateComponentRequest list \<Rightarrow> string list \<Rightarrow> ValidationError list \<times> string list" where
  "validateComponents i [] names = ([], names)"
| "validateComponents i (c # cs) names =
     (case validateComponent c (indexed '''' ''component'' i) names of
        (errs, names') \<Rightarrow>
          (case validateComponents (Suc i) cs names' of (errs', names'') \<Rightarrow> (errs @ errs', names'')))"

definition dedupeStrings :: "string list \<Rightarrow> string list" where
  "dedupeStrings values =
    fold (\<lambda>v result. if v = '''' \<or> v \<in> set result then result else result @ [v]) values []"

definition mergeWorkflowComponents :: "string list \<Rightarrow> string list \<Rightarrow> string list" where
  "mergeWorkflowComponents explicit policies = dedupeStrings (explicit @ policies)"

definition missing_components :: "string list \<Rightarrow> string \<Rightarrow> string list \<Rightarrow> ValidationError list" where
  "missing_components names field refs =
    each (\<lambda>j c. report (ToLower c \<notin> set names) (indexed field ''.components'' j) ErrCodeComponentNotFound) refs"

definition validateSubStep ::
  "string list \<Rightarrow> string \<Rightarrow> CreateWorkflowSubStepRequest \<Rightarrow> ValidationError list" where
  "validateSubStep names field s =
    (if sr_Name s \<noteq> '''' then validateName (sr_Name s) (field @ ''.name'') else []) @
    missing_components names field (mergeWorkflowComponents (sr_Components s) (sr_Policies s))"

definition validateStep ::
  "string list \<Rightarrow> string \<Rightarrow> CreateWorkflowStepRequest \<Rightarrow> string list \<Rightarrow> ValidationError list \<times> string list" where
  "validateStep names field s stepNames =
    (let lowerName = ToLower (wr_Name s);
         dup = lowerName \<in> set stepNames;
         allComponents = mergeWorkflowComponents (wr_Components s) (wr_Policies s)
     in ((if wr_Name s \<noteq> ''''
          then validateName (wr_Name s) (field @ ''.name'') @
               report dup (field @ ''.name'') ErrCodeDuplicateWorkflowStep
          else []) @
         report (wr_Mode s \<notin> validWorkflowModes) (field @ ''.mode'') ErrCodeInvalidWorkflowMode @
         report (allComponents = [] \<and> wr_SubSteps s = []) field ErrCodeWorkflowStepNoComponent @
         missing_components names field allComponents @
         each (\<lambda>j sub. validateSubStep names (indexed field ''.subSteps'' j) sub) (wr_SubSteps s),
         if wr_Name s = '''' \<or> dup then stepNames else stepNames @ [lowerName]))"

fun validate_steps ::
  "string list \<Rightarrow> string \<Rightarrow> nat \<Rightarrow> CreateWorkflowStepRequest list \<Rightarrow> string list \<Rightarrow> ValidationError list" where
  "validate_steps names field i [] stepNames = []"
| "validate_steps names field i (s # ss) stepNames =
     (case validateStep names (indexed field '''' i) s stepNames of
        (errs, stepNames') \<Rightarrow> errs @ validate_steps names field (Suc i) ss stepNames')"

definition validateWorkflowSteps ::
  "CreateWorkflowStepRequest list \<Rightarrow> string list \<Rightarrow> string \<Rightarrow> ValidationError list" where
  "validateWorkflowSteps steps names field = validate_steps names field 0 steps []"

section \<open>The two operations\<close>

definition TryApplication :: "CreateApplicationsRequest \<Rightarrow> TryResponse" where
  "TryApplication req =
    (case validateComponents 0 (ar_Component req) [] of
       (errs, names) \<Rightarrow>
         (let errors = validateName (ar_Name req) ''name'' @ errs @
                       validateWorkflowSteps (ar_WorkflowSteps req) names ''workflow''
          in \<lparr>tr_Valid = (length errors = 0), tr_Errors = errors\<rparr>))"

text \<open>\<open>findByAppID\<close> is the component repository; a nil component of its answer is \<open>None\<close>.\<close>

definition TryWorkflow ::
  "(string \<Rightarrow> 'e + ApplicationComponent option list) \<Rightarrow> string \<Rightarrow> TryWorkflowRequest \<Rightarrow> TryResponse" where
  "TryWorkflow findByAppID appID req =
    (let names = (if appID = '''' then []
                  else case findByAppID appID of
                         Inl _ \<Rightarrow> []
                       | Inr cs \<Rightarrow> map (\<lambda>c. ToLower (ac_Name c)) (List.map_filter id cs));
         errors = (if tw_Name req \<noteq> '''' then validateName (tw_Name req) ''name'' else []) @
           (if tw_Workflow req = [] then [verr ''workflow'' ErrCodeMissingRequiredField]
            else validateWorkflowSteps (tw_Workflow req) names ''workflow'')
     in \<lparr>tr_Valid = (length errors = 0), tr_Errors = errors\<rparr>)"


section \<open>What a valid request is\<close>

definition name_ok :: "string \<Rightarrow> bool" where
  "name_ok n \<longleftrightarrow> 2 \<le> length n \<and> length n \<le> 63 \<and> is_dns1123_label (ToLower n)"

definition exactly_one :: "bool list \<Rightarrow> bool" where
  "exactly_one bs \<longleftrightarrow> length (filter id bs) = 1"

definition storage_ok :: "StorageTraitSpec \<Rightarrow> bool" where
  "storage_ok s \<longleftrightarrow>
    st_Type s \<in> validStorageTypes \<and> st_MountPath s \<noteq> '''' \<and>
    (st_Type s = ''persistent'' \<and> st_TmpCreate s \<and> st_Size s \<noteq> '''' \<longrightarrow>
       rmatches storageQuantityRegexp (st_Size s)) \<and>
    (st_Type s \<in> {''config'', ''secret''} \<longrightarrow> st_SourceName s \<noteq> '''' \<or> st_Name s \<noteq> '''')"

definition probe_ok :: "ProbeTraitsSpec \<Rightarrow> bool" where
  "probe_ok p \<longleftrightarrow>
    pb_Type p \<in> validProbeTypes \<and>
    exactly_one [pb_Exec p \<noteq> None \<and> pb_Exec p \<noteq> Some [], pb_HTTPGet p \<noteq> None, pb_TCPSocket p \<noteq> None] \<and>
    pred_option (\<lambda>h. 0 < hg_Port h) (pb_HTTPGet p) \<and> pred_option (\<lambda>t. 0 < ts_Port t) (pb_TCPSocket p)"

definition rbac_ok :: "RBACPolicySpec \<Rightarrow> bool" where
  "rbac_ok r \<longleftrightarrow> rb_Rules r \<noteq> [] \<and> (\<forall>rule\<in>set (rb_Rules r). rr_Verbs rule \<noteq> [])"

definition ingress_ok :: "IngressTraitsSpec \<Rightarrow> bool" where
  "ingress_ok g \<longleftrightarrow> ing_Routes g \<noteq> [] \<and> (\<forall>r\<in>set (ing_Routes g). ir_ServiceName (ig_Backend r) \<noteq> '''')"

definition env_from_ok :: "EnvFromSourceSpec \<Rightarrow> bool" where
  "env_from_ok e \<longleftrightarrow> ef_Type e \<in> validEnvFromTypes \<and> ef_SourceName e \<noteq> ''''"

definition selector_ok :: "KeySelectorSpec \<Rightarrow> bool" where
  "selector_ok s \<longleftrightarrow> ks_Name s \<noteq> '''' \<and> ks_Key s \<noteq> ''''"

definition env_ok :: "SimplifiedEnvSpec \<Rightarrow> bool" where
  "env_ok e \<longleftrightarrow>
    (let v = se_ValueFrom e in
     se_EnvName e \<noteq> '''' \<and>
     exactly_one [vs_Static v \<noteq> None, vs_Secret v \<noteq> None, vs_Config v \<noteq> None, vs_Field v \<noteq> None] \<and>
     pred_option selector_ok (vs_Secret v) \<and> pred_option selector_ok (vs_Config v))"

definition resources_ok :: "ResourceTraitsSpec \<Rightarrow> bool" where
  "resources_ok r \<longleftrightarrow>
    (rs_CPU r = '''' \<or> rmatches quantityRegexp (rs_CPU r)) \<and>
    (rs_Memory r = '''' \<or> rmatches quantityRegexp (rs_Memory r))"

definition flat_ok :: "Traits \<Rightarrow> bool" where
  "flat_ok t \<longleftrightarrow>
    list_all storage_ok (t_Storage t) \<and> list_all probe_ok (t_Probes t) \<and> list_all rbac_ok (t_RBAC t) \<and>
    list_all ingress_ok (t_Ingress t) \<and> list_all env_from_ok (t_EnvFrom t) \<and> list_all env_ok (t_Envs t) \<and>
    pred_option resources_ok (t_Resources t)"

definition inner_ok :: "Traits \<Rightarrow> bool" where
  "inner_ok t \<longleftrightarrow> flat_ok t \<and> t_Init t = [] \<and> t_Sidecar t = []"

definition traits_ok :: "Traits \<Rightarrow> bool" where
  "traits_ok t \<longleftrightarrow>
    flat_ok t \<and>
    list_all (\<lambda>c. pr_Image (it_Properties c) \<noteq> '''' \<and> inner_ok (it_Traits c)) (t_Init t) \<and>
    list_all (\<lambda>c. sd_Image c \<noteq> '''' \<and> inner_ok (sd_Traits c)) (t_Sidecar t)"

definition component_ok :: "CreateComponentRequest \<Rightarrow> bool" where
  "component_ok c \<longleftrightarrow>
    name_ok (cr_Name c) \<and> cr_ComponentType c \<in> validComponentTypes \<and>
    (cr_ComponentType c \<in> {ServerJob, StoreJob} \<longrightarrow> cr_Image c \<noteq> '''') \<and> traits_ok (cr_Traits c)"

definition refs_ok :: "string set \<Rightarrow> string list \<Rightarrow> bool" where
  "refs_ok names refs \<longleftrightarrow> (\<forall>r\<in>set refs - {''''}. ToLower r \<in> names)"

definition step_ok :: "string set \<Rightarrow> CreateWorkflowStepRequest \<Rightarrow> bool" where
  "step_ok names s \<longleftrightarrow>
    (wr_Name s \<noteq> '''' \<longrightarrow> name_ok (wr_Name s)) \<and> wr_Mode s \<in> validWorkflowModes \<and>
    (set (wr_Components s @ wr_Policies s) \<subseteq> {''''} \<longrightarrow> wr_SubSteps s \<noteq> []) \<and>
    refs_ok names (wr_Components s @ wr_Policies s) \<and>
    (\<forall>sub\<in>set (wr_SubSteps s). (sr_Name sub \<noteq> '''' \<longrightarrow> name_ok (sr_Name sub)) \<and>
       refs_ok names (sr_Components sub @ sr_Policies sub))"

definition steps_ok :: "string set \<Rightarrow> CreateWorkflowStepRequest list \<Rightarrow> bool" where
  "steps_ok names ss \<longleftrightarrow>
    list_all (step_ok names) ss \<and>
    distinct (map ToLower (filter (\<lambda>n. n \<noteq> '''') (map wr_Name ss)))"

definition application_ok :: "CreateApplicationsRequest \<Rightarrow> bool" where
  "application_ok req \<longleftrightarrow>
    name_ok (ar_Name req) \<and> list_all component_ok (ar_Component req) \<and>
    distinct (map (\<lambda>c. ToLower (cr_Name c)) (ar_Component req)) \<and>
    steps_ok ((\<lambda>c. ToLower (cr_Name c)) ` set (ar_Component req)) (ar_WorkflowSteps req)"

definition workflow_ok :: "string set \<Rightarrow> TryWorkflowRequest \<Rightarrow> bool" where
  "workflow_ok names req \<longleftrightarrow>
    (tw_Name req \<noteq> '''' \<longrightarrow> name_ok (tw_Name req)) \<and> tw_Workflow req \<noteq> [] \<and> steps_ok names (tw_Workflow req)"

section \<open>The validators accept exactly the valid requests\<close>

named_theorems validator \<open>when a validator reports nothing\<close>

lemma report_Nil [simp]: "report c field code = [] \<longleftrightarrow> \<not> c"
  by (simp add: report_def)

lemma nameRegexp_iff: "rmatches nameRegexp s \<longleftrightarrow> is_dns1123_label s"
proof (cases s)
  case (Cons c t)
  have a: "alnum_char c \<Longrightarrow> rfc1123_char c" for c
    by (auto simp: alnum_char_def rfc1123_char_def)
  have "rmatches nameRegexp s \<longleftrightarrow>
      alnum_char c \<and> (t = [] \<or> list_all rfc1123_char (butlast t) \<and> alnum_char (last t))"
    unfolding nameRegexp_def Cons rmatches_cls_seq rmatches_ROpt rmatches_seq_cls rmatches_RStar_RCls
    by blast
  also have "\<dots> \<longleftrightarrow> is_dns1123_label s"
    unfolding is_dns1123_label_def Cons using a by (cases t rule: rev_cases) auto
  finally show ?thesis .
qed (auto simp: nameRegexp_def is_dns1123_label_def)

lemma validateName_ok [validator]: "validateName n f = [] \<longleftrightarrow> name_ok n"
  by (cases "n = ''''") (auto simp: validateName_def name_ok_def MatchString_iff nameRegexp_iff
      minNameLength_def maxNameLength_def)

lemma storage_valid [validator]: "validateStorageTrait s f = [] \<longleftrightarrow> storage_ok s"
  by (auto simp: validateStorageTrait_def storage_ok_def MatchString_iff validStorageTypes_def)

lemma probe_valid [validator]: "validateProbeTrait p f = [] \<longleftrightarrow> probe_ok p"
  by (cases "pb_Exec p"; cases "pb_HTTPGet p"; cases "pb_TCPSocket p")
    (auto simp: validateProbeTrait_def probe_ok_def probeMethodCount_def exactly_one_def validProbeTypes_def)

lemma rbac_valid [validator]: "validateRBACTrait r f = [] \<longleftrightarrow> rbac_ok r"
  by (simp add: validateRBACTrait_def rbac_ok_def each_eq_Nil_const)

lemma ingress_valid [validator]: "validateIngressTrait g f = [] \<longleftrightarrow> ingress_ok g"
  by (simp add: validateIngressTrait_def ingress_ok_def each_eq_Nil_const)

lemma env_from_valid [validator]: "validateEnvFromTrait e f = [] \<longleftrightarrow> env_from_ok e"
  by (auto simp: validateEnvFromTrait_def env_from_ok_def validEnvFromTypes_def)

lemma selector_valid [validator]: "validateKeySelector s f = [] \<longleftrightarrow> pred_option selector_ok s"
  by (cases s) (auto simp: validateKeySelector_def selector_ok_def)

lemma env_valid [validator]: "validateEnvsTrait e f = [] \<longleftrightarrow> env_ok e"
  by (auto simp: validateEnvsTrait_def env_ok_def Let_def validator sourceCount_def exactly_one_def)

lemma resources_valid [validator]: "validateResourcesTrait r f = [] \<longleftrightarrow> resources_ok r"
  by (auto simp: validateResourcesTrait_def resources_ok_def isValidQuantity_def MatchString_iff)

lemma flat_valid:
  "validateTraits t f n = [] \<longleftrightarrow>
    flat_ok t \<and>
    each (\<lambda>i c. validateInitTrait c (indexed f ''.init'' i) n) (t_Init t) = [] \<and>
    each (\<lambda>i c. validateSidecarTrait c (indexed f ''.sidecar'' i) n) (t_Sidecar t) = []"
  by (auto simp: validateTraits.simps flat_ok_def validator each_eq_Nil_const list_all_iff
      split: option.splits)

lemma inner_valid: "validateTraits t f True = [] \<longleftrightarrow> inner_ok t"
  by (auto simp: flat_valid inner_ok_def each_eq_Nil validateInitTrait.simps validateSidecarTrait.simps)

lemma init_valid:
  "validateInitTrait c f False = [] \<longleftrightarrow> pr_Image (it_Properties c) \<noteq> '''' \<and> inner_ok (it_Traits c)"
  by (simp add: validateInitTrait.simps inner_valid)

lemma sidecar_valid:
  "validateSidecarTrait c f False = [] \<longleftrightarrow> sd_Image c \<noteq> '''' \<and> inner_ok (sd_Traits c)"
  by (simp add: validateSidecarTrait.simps inner_valid)

lemma traits_valid [validator]: "validateTraits t f False = [] \<longleftrightarrow> traits_ok t"
  unfolding flat_valid traits_ok_def list_all_iff
    each_eq_Nil_const [OF init_valid] each_eq_Nil_const [OF sidecar_valid] by blast

lemma validateComponent_ok:
  "fst (validateComponent c f names) = [] \<longleftrightarrow> component_ok c \<and> ToLower (cr_Name c) \<notin> set names"
  by (auto simp: validateComponent_def Let_def component_ok_def validator)

lemma validateComponent_names:
  "set (snd (validateComponent c f names)) = insert (ToLower (cr_Name c)) (set names)"
  by (auto simp: validateComponent_def Let_def)

lemma validateComponents_names:
  "set (snd (validateComponents i cs names)) = set names \<union> (\<lambda>c. ToLower (cr_Name c)) ` set cs"
proof (induction i cs names rule: validateComponents.induct)
  case (2 i c cs names)
  obtain errs names' where v: "validateComponent c (indexed '''' ''component'' i) names = (errs, names')"
    by fastforce
  with validateComponent_names [of c "indexed '''' ''component'' i" names]
  have "set names' = insert (ToLower (cr_Name c)) (set names)" by simp
  with 2 [OF v [symmetric]] v show ?case by (auto split: prod.splits)
qed simp

lemma validateComponents_ok:
  "fst (validateComponents i cs names) = [] \<longleftrightarrow>
    list_all component_ok cs \<and> distinct (map (\<lambda>c. ToLower (cr_Name c)) cs) \<and>
    (\<lambda>c. ToLower (cr_Name c)) ` set cs \<inter> set names = {}"
proof (induction i cs names rule: validateComponents.induct)
  case (2 i c cs names)
  obtain errs names' where v: "validateComponent c (indexed '''' ''component'' i) names = (errs, names')"
    by fastforce
  from v validateComponent_ok [of c "indexed '''' ''component'' i" names]
    validateComponent_names [of c "indexed '''' ''component'' i" names]
  have "errs = [] \<longleftrightarrow> component_ok c \<and> ToLower (cr_Name c) \<notin> set names"
    and "set names' = insert (ToLower (cr_Name c)) (set names)" by simp_all
  with 2 [OF v [symmetric]] v show ?case by (auto split: prod.splits)
qed simp

lemma set_dedupeStrings: "set (dedupeStrings vs) = set vs - {''''}"
proof -
  have "set (fold (\<lambda>v result. if v = '''' \<or> v \<in> set result then result else result @ [v]) vs acc) =
      set acc \<union> (set vs - {''''})" for acc
    by (induction vs arbitrary: acc) auto
  then show ?thesis by (simp add: dedupeStrings_def)
qed

lemma distinct_dedupeStrings: "distinct (dedupeStrings vs)"
proof -
  have "distinct acc \<Longrightarrow>
      distinct (fold (\<lambda>v result. if v = '''' \<or> v \<in> set result then result else result @ [v]) vs acc)" for acc
    by (induction vs arbitrary: acc) auto
  then show ?thesis by (simp add: dedupeStrings_def)
qed

lemma refs_valid [validator]:
  "missing_components names f (mergeWorkflowComponents cs ps) = [] \<longleftrightarrow> refs_ok (set names) (cs @ ps)"
  by (auto simp: missing_components_def each_eq_Nil_const refs_ok_def mergeWorkflowComponents_def
      set_dedupeStrings)

lemma mergeWorkflowComponents_Nil: "mergeWorkflowComponents cs ps = [] \<longleftrightarrow> set (cs @ ps) \<subseteq> {''''}"
  unfolding mergeWorkflowComponents_def set_empty [symmetric] set_dedupeStrings by blast

lemma validateSubStep_ok [validator]:
  "validateSubStep names f s = [] \<longleftrightarrow>
    (sr_Name s \<noteq> '''' \<longrightarrow> name_ok (sr_Name s)) \<and> refs_ok (set names) (sr_Components s @ sr_Policies s)"
  by (simp add: validateSubStep_def validator)

lemma validateStep_ok:
  "fst (validateStep names f s seen) = [] \<longleftrightarrow>
    step_ok (set names) s \<and> (wr_Name s \<noteq> '''' \<longrightarrow> ToLower (wr_Name s) \<notin> set seen)"
  unfolding validateStep_def Let_def step_ok_def fst_conv append_is_Nil_conv report_Nil refs_valid
    mergeWorkflowComponents_Nil each_eq_Nil_const [OF validateSubStep_ok]
  by (auto simp: validateName_ok)

lemma validateStep_names:
  "set (snd (validateStep names f s seen)) =
    set seen \<union> (if wr_Name s = '''' then {} else {ToLower (wr_Name s)})"
  by (auto simp: validateStep_def Let_def)

abbreviation step_names :: "CreateWorkflowStepRequest list \<Rightarrow> string set" where
  "step_names ss \<equiv> ToLower ` (set (map wr_Name ss) - {''''})"

lemma steps_ok_Cons:
  "steps_ok names (s # ss) \<longleftrightarrow>
    step_ok names s \<and> steps_ok names ss \<and> (wr_Name s \<noteq> '''' \<longrightarrow> ToLower (wr_Name s) \<notin> step_names ss)"
proof -
  have "set (map ToLower (filter (\<lambda>n. n \<noteq> '''') (map wr_Name ss))) = step_names ss" by auto
  then show ?thesis by (auto simp: steps_ok_def simp del: set_map)
qed

lemma step_names_Cons:
  "step_names (s # ss) = (if wr_Name s = '''' then {} else {ToLower (wr_Name s)}) \<union> step_names ss"
  by (auto simp: insert_Diff_if)

lemma validate_steps_ok:
  "validate_steps names f i ss seen = [] \<longleftrightarrow>
    steps_ok (set names) ss \<and> step_names ss \<inter> set seen = {}"
proof (induction names f i ss seen rule: validate_steps.induct)
  case (2 names f i s ss seen)
  obtain errs seen' where v: "validateStep names (indexed f '''' i) s seen = (errs, seen')"
    by fastforce
  from v validateStep_ok [of names "indexed f '''' i" s seen] validateStep_names [of names "indexed f '''' i" s seen]
  have "errs = [] \<longleftrightarrow> step_ok (set names) s \<and> (wr_Name s \<noteq> '''' \<longrightarrow> ToLower (wr_Name s) \<notin> set seen)"
    and "set seen' = set seen \<union> (if wr_Name s = '''' then {} else {ToLower (wr_Name s)})" by simp_all
  note e = this
  have "validate_steps names f i (s # ss) seen = [] \<longleftrightarrow>
      errs = [] \<and> validate_steps names f (Suc i) ss seen' = []"
    using v by simp
  also have "\<dots> \<longleftrightarrow> steps_ok (set names) (s # ss) \<and> step_names (s # ss) \<inter> set seen = {}"
    unfolding e 2 [OF v [symmetric]] steps_ok_Cons step_names_Cons
    by (cases "wr_Name s = ''''") (simp_all add: e(2), blast+)
  finally show ?case .
qed (simp add: steps_ok_def)

lemma TryApplication_valid: "tr_Valid (TryApplication req) \<longleftrightarrow> application_ok req"
  using validateComponents_ok [of 0 "ar_Component req" "[]"] validateComponents_names [of 0 "ar_Component req" "[]"]
  by (auto simp: TryApplication_def application_ok_def validator validateWorkflowSteps_def validate_steps_ok
      split: prod.splits)

lemma TryWorkflow_valid:
  "tr_Valid (TryWorkflow findByAppID appID req) \<longleftrightarrow>
    workflow_ok (if appID = '''' then {} else case findByAppID appID of Inl _ \<Rightarrow> {} | Inr cs \<Rightarrow>
      (\<lambda>c. ToLower (ac_Name c)) ` {c. Some c \<in> set cs}) req"
proof -
  have s: "set (List.map_filter id cs) = {c. Some c \<in> set cs}" for cs :: "ApplicationComponent option list"
    by (induction cs) (auto split: option.splits)
  show ?thesis
    using s by (auto simp: TryWorkflow_def Let_def workflow_ok_def validator validateWorkflowSteps_def
        validate_steps_ok id_def split: sum.splits)
qed

end
