(* ===== verification/Kube_Traits.thy ===== *)
theory Kube_Traits
  imports Kube_Pod Kube_Validation
begin

text \<open>
  The trait processors of \<open>workflow/traits\<close> and \<open>ApplyTraits\<close>, which runs them over the traits of
  a component and applies what they produce to its workload. \<open>ParseQuantity\<close> of the Kubernetes
  library is the parameter \<open>pq\<close>; \<open>rnd\<close> gives the random suffixes of unnamed containers.
\<close>

section \<open>Loops that may fail\<close>

fun collect_err :: "('a \<Rightarrow> 'e + 'b) \<Rightarrow> 'a list \<Rightarrow> 'e + 'b list" where
  "collect_err f [] = Inr []"
| "collect_err f (x # xs) =
     (case f x of Inl e \<Rightarrow> Inl e
      | Inr y \<Rightarrow> (case collect_err f xs of Inl e \<Rightarrow> Inl e | Inr ys \<Rightarrow> Inr (y # ys)))"

lemma collect_err_cong:
  "(\<And>x. x \<in> set xs \<Longrightarrow> f x = g x) \<Longrightarrow> collect_err f xs = collect_err g xs"
  by (induction xs) (auto split: sum.splits)

lemma collect_err_Inr:
  "collect_err f xs = Inr ys \<longleftrightarrow> length ys = length xs \<and> (\<forall>i < length xs. f (xs ! i) = Inr (ys ! i))"
proof (induction xs arbitrary: ys)
  case (Cons x xs)
  show ?case
  proof (cases ys)
    case (Cons y zs)
    with Cons.IH [of zs] show ?thesis
      by (auto simp: nth_Cons' All_less_Suc2 split: sum.splits)
  qed (auto split: sum.splits)
qed auto

lemma collect_err_total: "(\<forall>x\<in>set xs. \<exists>y. f x = Inr y) \<Longrightarrow> \<exists>ys. collect_err f xs = Inr ys"
  by (induction xs) (auto split: sum.splits)

definition defaultOr :: "string \<Rightarrow> string \<Rightarrow> string" where
  "defaultOr value fallback = (if value = '''' then fallback else value)"

section \<open>Storage\<close>

text \<open>
  The volumes, the mount and the claims of one storage trait whose volume is new. A host-mounted
  trait has no case in the switch and gets a mount without a volume.
\<close>

definition storage_volume ::
  "(string \<Rightarrow> 'q option) \<Rightarrow> ApplicationComponent \<Rightarrow> StorageTraitSpec \<Rightarrow>
   string + Volume list \<times> VolumeMount \<times> 'q trait_object list" where
  "storage_volume pq component vol =
    (let volumeName = NormalizeLowerStrip (st_Name vol);
         volType = StorageTypeMapping (st_Type vol);
         mount = \<lparr>vm_Name = volumeName, vm_MountPath = defaultOr (st_MountPath vol) (''/mnt/'' @ volumeName),
                  vm_SubPath = st_SubPath vol, vm_ReadOnly = st_ReadOnly vol\<rparr>;
         sourceName = (if st_SourceName vol = '''' then st_Name vol else st_SourceName vol);
         volume = (\<lambda>src. [\<lparr>vo_Name = volumeName, vo_Source = src\<rparr>])
     in if volType = '''' then Inl ''unknown storage type''
        else if volType = ''pvc'' then
          (case pq (defaultOr (st_Size vol) ''1Gi'') of
             None \<Rightarrow> Inl ''invalid size''
           | Some qty \<Rightarrow>
              (let claim = (\<lambda>name anno. \<lparr>co_Kind = KindPersistentVolumeClaim, co_Name = name,
                     co_Namespace = ac_Namespace component, co_Labels = [],
                     co_Spec = TraitSpec (ClaimSpec \<lparr>pvc_Storage = qty,
                       pvc_StorageClassName = (if st_StorageClass vol = '''' then None else Some (st_StorageClass vol)),
                       pvc_Annotations = anno\<rparr>)\<rparr>)
               in if st_TmpCreate vol
                  then Inr (volume (VolPVC volumeName), mount, [claim volumeName [(LabelStorageRole, ''template'')]])
                  else let claimName = (if st_ClaimName vol = '''' then st_Name vol else st_ClaimName vol)
                       in Inr (volume (VolPVC claimName), mount, [claim claimName []])))
        else if volType = ''emptyDir'' then Inr (volume VolEmptyDir, mount, [])
        else if volType = ''configMap'' then Inr (volume (VolConfigMap sourceName), mount, [])
        else if volType = ''secret'' then Inr (volume (VolSecret sourceName), mount, [])
        else Inr ([], mount, []))"

fun storage_loop ::
  "(string \<Rightarrow> 'q option) \<Rightarrow> ApplicationComponent \<Rightarrow> string list \<Rightarrow> StorageTraitSpec list \<Rightarrow>
   string + (Volume list \<times> VolumeMount \<times> 'q trait_object list) list" where
  "storage_loop pq component processed [] = Inr []"
| "storage_loop pq component processed (vol # vols) =
     (let volumeName = NormalizeLowerStrip (st_Name vol) in
      if volumeName = '''' then Inl ''storage trait requires a valid volume name''
      else if volumeName \<in> set processed then storage_loop pq component processed vols
      else bind_err (storage_volume pq component vol)
             (\<lambda>r. bind_err (storage_loop pq component (volumeName # processed) vols) (\<lambda>rs. Inr (r # rs))))"

definition StorageProcessor ::
  "(string \<Rightarrow> 'q option) \<Rightarrow> ApplicationComponent \<Rightarrow> StorageTraitSpec list \<Rightarrow> string + 'q TraitResult" where
  "StorageProcessor pq component storageTraits =
    bind_err (storage_loop pq component [] storageTraits)
      (\<lambda>rs. Inr (TraitResult_zero\<lparr>
         rt_Volumes := concat (map fst rs),
         rt_VolumeMounts := (if rs = [] then [] else
            [(NormalizeLowerStrip (ac_Name component), map (\<lambda>(_, m, _). m) rs)]),
         rt_AdditionalObjects := concat (map (\<lambda>(_, _, os). os) rs)\<rparr>))"

section \<open>Environment\<close>

definition translateToNativeEnvVar :: "SimplifiedEnvSpec \<Rightarrow> string + EnvVar" where
  "translateToNativeEnvVar envSpec =
    (let src = se_ValueFrom envSpec; var = (\<lambda>v. Inr \<lparr>ev_Name = se_EnvName envSpec, ev_Value = v\<rparr>) in
     case vs_Static src of Some s \<Rightarrow> var (EnvStatic s)
     | None \<Rightarrow> (case vs_Field src of Some f \<Rightarrow> var (EnvFieldRef f)
     | None \<Rightarrow> (case vs_Secret src of Some s \<Rightarrow> var (EnvSecretKeyRef (ks_Name s) (ks_Key s))
     | None \<Rightarrow> (case vs_Config src of Some s \<Rightarrow> var (EnvConfigMapKeyRef (ks_Name s) (ks_Key s))
     | None \<Rightarrow> Inl ''exactly one source must be specified''))))"

definition EnvsProcessor :: "ApplicationComponent \<Rightarrow> SimplifiedEnvSpec list \<Rightarrow> string + 'q TraitResult" where
  "EnvsProcessor component envs =
    bind_err (collect_err translateToNativeEnvVar envs)
      (\<lambda>vs. Inr (TraitResult_zero\<lparr>rt_EnvVars := [(NormalizeLowerStrip (ac_Name component), vs)]\<rparr>))"

definition env_from_source :: "EnvFromSourceSpec \<Rightarrow> string + EnvFromSource" where
  "env_from_source t =
    (if ef_SourceName t = '''' then Inl ''env_from trait requires a source_name''
     else if ef_Type t = ''config'' then Inr (ConfigMapRef (ef_SourceName t))
     else if ef_Type t = ''secret'' then Inr (SecretRef (ef_SourceName t))
     else Inl ''unsupported env_from type'')"

definition EnvFromProcessor :: "ApplicationComponent \<Rightarrow> EnvFromSourceSpec list \<Rightarrow> string + 'q TraitResult" where
  "EnvFromProcessor component sources =
    bind_err (collect_err env_from_source sources)
      (\<lambda>vs. Inr (TraitResult_zero\<lparr>rt_EnvFromSources := [(NormalizeLowerStrip (ac_Name component), vs)]\<rparr>))"

section \<open>Resources and probes\<close>

definition resource_entry ::
  "(string \<Rightarrow> 'q option) \<Rightarrow> string \<Rightarrow> string \<Rightarrow> string + (string \<times> 'q) list" where
  "resource_entry pq name value =
    (if value = '''' then Inr []
     else case pq value of None \<Rightarrow> Inl ''invalid resource'' | Some q \<Rightarrow> Inr [(name, q)])"

definition ResourcesProcessor :: "(string \<Rightarrow> 'q option) \<Rightarrow> ResourceTraitsSpec \<Rightarrow> string + 'q TraitResult" where
  "ResourcesProcessor pq r =
    bind_err (collect_err (\<lambda>(n, v). resource_entry pq n v)
        [(''cpu'', rs_CPU r), (''memory'', rs_Memory r), (''nvidia.com/gpu'', rs_GPU r)])
      (\<lambda>es. Inr (TraitResult_zero\<lparr>rt_Resources := Some \<lparr>rq_Requests = concat es, rq_Limits = concat es\<rparr>\<rparr>))"

text \<open>\<open>intstr.FromInt\<close> keeps a 32-bit port.\<close>

definition to_int32 :: "int \<Rightarrow> int" where
  "to_int32 i = (i + 2 ^ 31) mod 2 ^ 32 - 2 ^ 31"

definition convertSpecToKubeProbe :: "ProbeTraitsSpec \<Rightarrow> string + Probe" where
  "convertSpecToKubeProbe s =
    (let mk = (\<lambda>h. Inr \<lparr>pr_InitialDelay = pb_InitialDelaySeconds s, pr_Period = pb_PeriodSeconds s,
            pr_ProbeTimeout = pb_TimeoutSeconds s, pr_Failure = pb_FailureThreshold s,
            pr_Success = pb_SuccessThreshold s, pr_Handler = h\<rparr>)
     in case (pb_Exec s, pb_HTTPGet s, pb_TCPSocket s) of
          (Some command, None, None) \<Rightarrow> mk (ExecAction command)
        | (None, Some h, None) \<Rightarrow> mk (HTTPGetAction (hg_Path h) (to_int32 (hg_Port h)) (hg_Host h) (hg_Scheme h))
        | (None, None, Some t) \<Rightarrow> mk (TCPSocketAction (to_int32 (ts_Port t)) (ts_Host t))
        | _ \<Rightarrow> Inl ''exactly one of exec, http_get, or tcp_socket must be specified for a probe'')"

fun probe_loop :: "ProbeTraitsSpec list \<Rightarrow> 'q TraitResult \<Rightarrow> string + 'q TraitResult" where
  "probe_loop [] r = Inr r"
| "probe_loop (s # ss) r =
     bind_err (convertSpecToKubeProbe s) (\<lambda>p.
       if pb_Type s = ''liveness'' then
         (if rt_LivenessProbe r \<noteq> None then Inl ''liveness probe already defined''
          else probe_loop ss (r\<lparr>rt_LivenessProbe := Some p\<rparr>))
       else if pb_Type s = ''readiness'' then
         (if rt_ReadinessProbe r \<noteq> None then Inl ''readiness probe already defined''
          else probe_loop ss (r\<lparr>rt_ReadinessProbe := Some p\<rparr>))
       else if pb_Type s = ''startup'' then
         (if rt_StartupProbe r \<noteq> None then Inl ''startup probe already defined''
          else probe_loop ss (r\<lparr>rt_StartupProbe := Some p\<rparr>))
       else Inl ''invalid probe type'')"

definition ProbeProcessor :: "ProbeTraitsSpec list \<Rightarrow> string + 'q TraitResult" where
  "ProbeProcessor probes = probe_loop probes TraitResult_zero"

section \<open>RBAC\<close>

fun firstNonEmpty :: "string list \<Rightarrow> string" where
  "firstNonEmpty [] = ''''"
| "firstNonEmpty (v # vs) = (if v \<noteq> '''' then v else firstNonEmpty vs)"

definition rbac_account :: "ApplicationComponent \<Rightarrow> nat \<Rightarrow> RBACPolicySpec \<Rightarrow> string" where
  "rbac_account component idx policy =
    (if rb_ServiceAccount policy = '''' then
       (let base0 = NormalizeLowerStrip (ac_Name component);
            base = (if base0 = '''' then ''service'' else base0)
        in if idx = 0 then base @ ''-sa'' else base @ ''-'' @ nat_str (idx + 1) @ ''-sa'')
     else NormalizeLowerStrip (rb_ServiceAccount policy))"

definition rbac_objects ::
  "ApplicationComponent \<Rightarrow> nat \<Rightarrow> RBACPolicySpec \<Rightarrow> string + 'q trait_object list" where
  "rbac_objects component idx policy =
    (let namespace = firstNonEmpty [rb_Namespace policy, ac_Namespace component, DefaultNamespace];
         saName = rbac_account component idx policy;
         roleName = (if rb_RoleName policy = '''' then saName @ ''-role''
                     else NormalizeLowerStrip (rb_RoleName policy));
         bindingName = (if rb_BindingName policy = '''' then saName @ ''-binding''
                        else NormalizeLowerStrip (rb_BindingName policy));
         obj = (\<lambda>kind name ns labels s. \<lparr>co_Kind = kind, co_Name = name, co_Namespace = ns,
                  co_Labels = labels, co_Spec = TraitSpec s\<rparr>);
         sa = obj KindServiceAccount saName namespace (rb_ServiceAccountLabels policy)
                (ServiceAccountSpec (rb_ServiceAccountAnnotations policy) (rb_AutomountSAT policy))
     in if list_ex (\<lambda>rule. rr_Verbs rule = []) (rb_Rules policy) then Inl ''rule must specify verbs''
        else if rb_ClusterScope policy then
          Inr [sa, obj KindClusterRole roleName '''' (rb_RoleLabels policy) (RoleSpec (rb_Rules policy)),
               obj KindClusterRoleBinding bindingName '''' (rb_BindingLabels policy)
                 (BindingSpec saName namespace ''ClusterRole'' roleName)]
        else
          Inr [sa, obj KindRole roleName namespace (rb_RoleLabels policy) (RoleSpec (rb_Rules policy)),
               obj KindRoleBinding bindingName namespace (rb_BindingLabels policy)
                 (BindingSpec saName namespace ''Role'' roleName)])"

definition RBACProcessor :: "ApplicationComponent \<Rightarrow> RBACPolicySpec list \<Rightarrow> string + 'q TraitResult" where
  "RBACProcessor component policies =
    bind_err (collect_err (\<lambda>(i, p). rbac_objects component i p) (List.enumerate 0 policies))
      (\<lambda>oss. Inr (TraitResult_zero\<lparr>
         rt_AdditionalObjects := concat oss,
         rt_ServiceAccountName := firstNonEmpty (map (\<lambda>(i, p). rbac_account component i p) (List.enumerate 0 policies)),
         rt_Automount := (case List.map_filter rb_AutomountSAT policies of [] \<Rightarrow> None | b # _ \<Rightarrow> Some b)\<rparr>))"


section \<open>Ingress\<close>

definition parsePathType :: "string \<Rightarrow> string option" where
  "parsePathType value =
    (let v = ToLower value in
     if v = ''prefix'' then Some ''Prefix''
     else if v = ''exact'' then Some ''Exact''
     else if v = ''implementationspecific'' \<or> v = ''implementation-specific''
     then Some ''ImplementationSpecific'' else None)"

abbreviation rewrite_target :: string where
  "rewrite_target \<equiv> ''nginx.ingress.kubernetes.io/rewrite-target''"

abbreviation use_regex :: string where
  "use_regex \<equiv> ''nginx.ingress.kubernetes.io/use-regex''"

definition applyRewriteAnnotations ::
  "(string \<times> string) list \<Rightarrow> RewritePolicy option \<Rightarrow> (string \<times> string) list" where
  "applyRewriteAnnotations annotations rewrite =
    (case rewrite of None \<Rightarrow> annotations
     | Some rw \<Rightarrow>
        (let rewriteType = ToLower (rw_Type rw);
             a1 = (if rw_Replacement rw \<noteq> '''' \<and> map_of annotations rewrite_target = None
                   then AList.update rewrite_target (rw_Replacement rw) annotations else annotations)
         in if rewriteType = ''regex'' \<or> rewriteType = ''regexreplace''
            then AList.update use_regex ''true'' a1 else a1))"

definition determinePathType ::
  "IngressRoutes \<Rightarrow> IngressTraitsSpec \<Rightarrow> (string \<times> string) list \<Rightarrow> string" where
  "determinePathType route s annotations =
    (case (if ig_PathType route \<noteq> '''' then parsePathType (ig_PathType route) else None) of
       Some pt \<Rightarrow> pt
     | None \<Rightarrow>
        (case (if ing_DefaultPathType s \<noteq> '''' then parsePathType (ing_DefaultPathType s) else None) of
           Some pt \<Rightarrow> pt
         | None \<Rightarrow>
            (case map_of annotations use_regex of
               Some val \<Rightarrow> if ToLower val = ''true'' then ''ImplementationSpecific'' else ''Prefix''
             | None \<Rightarrow> ''Prefix'')))"

definition deriveHosts :: "IngressTraitsSpec \<Rightarrow> IngressRoutes \<Rightarrow> string list" where
  "deriveHosts s route =
    (if ig_Host route \<noteq> '''' then [ig_Host route]
     else if ing_Hosts s \<noteq> [] then ing_Hosts s else [''''])"

definition ingress_path :: "IngressTraitsSpec \<Rightarrow> (string \<times> string) list \<Rightarrow> IngressRoutes \<Rightarrow> IngressPath" where
  "ingress_path s annotations route =
    \<lparr>ip_Path = (if ig_Path route = '''' then ''/'' else ig_Path route),
     ip_PathType = determinePathType route s annotations,
     ip_Service = ir_ServiceName (ig_Backend route),
     ip_Port = (if ir_ServicePort (ig_Backend route) \<le> 0 then 80 else ir_ServicePort (ig_Backend route))\<rparr>"

text \<open>The rules per host, in the order in which the hosts are first mentioned.\<close>

definition add_path :: "IngressPath \<Rightarrow> string \<Rightarrow> (string \<times> IngressPath list) list \<Rightarrow> (string \<times> IngressPath list) list" where
  "add_path p host rules = AList.update host (lookup_list rules host @ [p]) rules"

fun ingress_routes ::
  "IngressTraitsSpec \<Rightarrow> IngressRoutes list \<Rightarrow> (string \<times> string) list \<Rightarrow> (string \<times> IngressPath list) list \<Rightarrow>
   (string \<times> string) list \<times> (string \<times> IngressPath list) list" where
  "ingress_routes s [] annotations rules = (annotations, rules)"
| "ingress_routes s (route # routes) annotations rules =
     (let annotations' = applyRewriteAnnotations annotations (ig_Rewrite route)
      in ingress_routes s routes annotations'
           (fold (add_path (ingress_path s annotations' route)) (deriveHosts s route) rules))"

definition buildIngressFromSpec :: "IngressTraitsSpec \<Rightarrow> 'q trait_object" where
  "buildIngressFromSpec s =
    (case ingress_routes s (ing_Routes s) (ing_Annotations s) [] of
       (annotations, rules) \<Rightarrow>
         \<lparr>co_Kind = KindIngress, co_Name = ing_Name s, co_Namespace = ing_Namespace s,
          co_Labels = ing_Label s,
          co_Spec = TraitSpec (IngressSpec \<lparr>io_Annotations = annotations,
            io_ClassName = (if ing_IngressClassName s = '''' then None else Some (ing_IngressClassName s)),
            io_TLS = map (\<lambda>t. (tls_Hosts t, tls_SecretName t)) (ing_TLS s),
            io_Rules = rules\<rparr>)\<rparr>)"

definition BuildIngress :: "IngressTraitsSpec \<Rightarrow> string + 'q trait_object" where
  "BuildIngress s =
    (if ing_Routes s = [] then Inl ''at least one route is required'' else Inr (buildIngressFromSpec s))"

definition applyIngressDefaults :: "ApplicationComponent \<Rightarrow> nat \<Rightarrow> IngressTraitsSpec \<Rightarrow> IngressTraitsSpec" where
  "applyIngressDefaults component idx s =
    s\<lparr>ing_Name := (if ing_Name s = ''''
          then ToLower (ac_Name component) @ ''-'' @
               (if idx > 0 then ''ingress-'' @ nat_str (idx + 1) else ''ingress'')
          else ing_Name s),
      ing_Namespace := (if ac_Namespace component \<noteq> '''' then ac_Namespace component
          else if ing_Namespace s = '''' then DefaultNamespace else ing_Namespace s)\<rparr>"

definition IngressProcessor :: "ApplicationComponent \<Rightarrow> IngressTraitsSpec list \<Rightarrow> string + 'q TraitResult" where
  "IngressProcessor component ts =
    bind_err (collect_err (\<lambda>(i, t). BuildIngress (applyIngressDefaults component i t)) (List.enumerate 0 ts))
      (\<lambda>objs. Inr (TraitResult_zero\<lparr>rt_AdditionalObjects := objs\<rparr>))"

section \<open>Init containers and sidecars\<close>

definition map_envs :: "(string \<times> string) list \<Rightarrow> EnvVar list" where
  "map_envs m = map (\<lambda>(k, v). \<lparr>ev_Name = k, ev_Value = EnvStatic v\<rparr>) m"

definition init_container ::
  "(nat \<Rightarrow> string) \<Rightarrow> ApplicationComponent \<Rightarrow> nat \<Rightarrow> InitTraitSpec \<Rightarrow> 'q TraitResult \<Rightarrow> 'q Container" where
  "init_container rnd component i t r =
    \<lparr>cn_Name = (if it_Name t = '''' then ac_Name component @ ''-init-'' @ rnd (2 * i) else it_Name t),
     cn_Image = pr_Image (it_Properties t), cn_Command = pr_Command (it_Properties t), cn_Args = [],
     cn_Ports = [],
     cn_Env = map_envs (pr_Env (it_Properties t)) @ concat (map snd (rt_EnvVars r)),
     cn_EnvFrom = concat (map snd (rt_EnvFromSources r)),
     cn_VolumeMounts = concat (map snd (rt_VolumeMounts r)),
     cn_Resources = rt_Resources r,
     cn_LivenessProbe = None, cn_ReadinessProbe = None, cn_StartupProbe = None\<rparr>"

definition InitProcessor ::
  "(Traits \<Rightarrow> string + 'q TraitResult) \<Rightarrow> (nat \<Rightarrow> string) \<Rightarrow> ApplicationComponent \<Rightarrow> InitTraitSpec list \<Rightarrow>
   string + 'q TraitResult" where
  "InitProcessor nested rnd component ts =
    bind_err (collect_err (\<lambda>(i, t).
        if pr_Image (it_Properties t) = '''' then Inl ''init container must have an image''
        else bind_err (nested (it_Traits t)) (\<lambda>r. Inr (init_container rnd component i t r, r)))
        (List.enumerate 0 ts))
      (\<lambda>crs. Inr (TraitResult_zero\<lparr>
         rt_InitContainers := map fst crs,
         rt_Volumes := concat (map (\<lambda>(c, r). rt_Volumes r) crs),
         rt_AdditionalObjects := concat (map (\<lambda>(c, r). rt_AdditionalObjects r) crs)\<rparr>))"

definition sidecar_container ::
  "(nat \<Rightarrow> string) \<Rightarrow> ApplicationComponent \<Rightarrow> nat \<Rightarrow> SidecarTraitsSpec \<Rightarrow> 'q TraitResult \<Rightarrow> 'q Container" where
  "sidecar_container rnd component i t r =
    (let normalizedName = NormalizeLowerStrip (ac_Name component) in
     \<lparr>cn_Name = (if sd_Name t = '''' then ac_Name component @ ''-sidecar-'' @ rnd (2 * i + 1)
                 else sd_Name t),
      cn_Image = sd_Image t, cn_Command = sd_Command t, cn_Args = sd_Args t, cn_Ports = [],
      cn_Env = map_envs (sd_Env t) @ lookup_list (rt_EnvVars r) normalizedName,
      cn_EnvFrom = lookup_list (rt_EnvFromSources r) normalizedName,
      cn_VolumeMounts = lookup_list (rt_VolumeMounts r) normalizedName,
      cn_Resources = rt_Resources r,
      cn_LivenessProbe = rt_LivenessProbe r, cn_ReadinessProbe = rt_ReadinessProbe r,
      cn_StartupProbe = rt_StartupProbe r\<rparr>)"

definition SidecarProcessor ::
  "(Traits \<Rightarrow> string + 'q TraitResult) \<Rightarrow> (nat \<Rightarrow> string) \<Rightarrow> ApplicationComponent \<Rightarrow> SidecarTraitsSpec list \<Rightarrow>
   string + 'q TraitResult" where
  "SidecarProcessor nested rnd component ts =
    bind_err (collect_err (\<lambda>(i, t).
        if sd_Image t = '''' then Inl ''sidecar must have an image''
        else if t_Sidecar (sd_Traits t) \<noteq> [] then Inl ''sidecar must not contain nested sidecars''
        else bind_err (nested (sd_Traits t)) (\<lambda>r. Inr (sidecar_container rnd component i t r, r)))
        (List.enumerate 0 ts))
      (\<lambda>crs. Inr (TraitResult_zero\<lparr>
         rt_Containers := map fst crs,
         rt_Volumes := concat (map (\<lambda>(c, r). rt_Volumes r) crs),
         rt_AdditionalObjects := concat (map (\<lambda>(c, r). rt_AdditionalObjects r) crs)\<rparr>))"

lemma InitProcessor_cong [fundef_cong]:
  assumes "ts = ts'" and "\<And>t. t \<in> set ts' \<Longrightarrow> nested (it_Traits t) = nested' (it_Traits t)"
  shows "InitProcessor nested rnd component ts = InitProcessor nested' rnd component ts'"
  unfolding InitProcessor_def assms(1)
  by (intro arg_cong2 [where f = bind_err] collect_err_cong) (auto simp: in_set_enumerate_eq assms(2))

lemma SidecarProcessor_cong [fundef_cong]:
  assumes "ts = ts'" and "\<And>t. t \<in> set ts' \<Longrightarrow> nested (sd_Traits t) = nested' (sd_Traits t)"
  shows "SidecarProcessor nested rnd component ts = SidecarProcessor nested' rnd component ts'"
  unfolding SidecarProcessor_def assms(1)
  by (intro arg_cong2 [where f = bind_err] collect_err_cong) (auto simp: in_set_enumerate_eq assms(2))

section \<open>Applying the traits of a component\<close>

text \<open>A processor runs when it is not excluded and its field is not empty.\<close>

definition run_processor :: "bool \<Rightarrow> string + 'q TraitResult \<Rightarrow> string + 'q TraitResult list" where
  "run_processor c r = (if c then bind_err r (\<lambda>x. Inr [x]) else Inr [])"

function applyTraitsRecursive ::
  "(string \<Rightarrow> 'q option) \<Rightarrow> (nat \<Rightarrow> string) \<Rightarrow> ApplicationComponent \<Rightarrow> Traits \<Rightarrow> string list \<Rightarrow>
   string + 'q TraitResult" where
  "applyTraitsRecursive pq rnd component traits exclude =
    bind_err (collect_err (\<lambda>x. x)
      [run_processor (''storage'' \<notin> set exclude \<and> t_Storage traits \<noteq> [])
         (StorageProcessor pq component (t_Storage traits)),
       run_processor (''env_from'' \<notin> set exclude \<and> t_EnvFrom traits \<noteq> [])
         (EnvFromProcessor component (t_EnvFrom traits)),
       run_processor (''envs'' \<notin> set exclude \<and> t_Envs traits \<noteq> [])
         (EnvsProcessor component (t_Envs traits)),
       (case t_Resources traits of None \<Rightarrow> Inr []
        | Some r \<Rightarrow> run_processor (''resources'' \<notin> set exclude) (ResourcesProcessor pq r)),
       run_processor (''probes'' \<notin> set exclude \<and> t_Probes traits \<noteq> [])
         (ProbeProcessor (t_Probes traits)),
       run_processor (''rbac'' \<notin> set exclude \<and> t_RBAC traits \<noteq> [])
         (RBACProcessor component (t_RBAC traits)),
       run_processor (''init'' \<notin> set exclude \<and> t_Init traits \<noteq> [])
         (InitProcessor (\<lambda>t. applyTraitsRecursive pq rnd component t [''init'', ''sidecar''])
            rnd component (t_Init traits)),
       run_processor (''sidecar'' \<notin> set exclude \<and> t_Sidecar traits \<noteq> [])
         (SidecarProcessor (\<lambda>t. applyTraitsRecursive pq rnd component t [''sidecar'', ''init''])
            rnd component (t_Sidecar traits)),
       run_processor (''ingress'' \<notin> set exclude \<and> t_Ingress traits \<noteq> [])
         (IngressProcessor component (t_Ingress traits))])
     (\<lambda>rss. Inr (aggregateTraitResults (concat rss)))"
  by pat_completeness auto
termination
  by (relation "measure (\<lambda>(pq, rnd, c, t, ex). size t)")
    (auto dest!: size_Traits_init size_Traits_sidecar)

declare applyTraitsRecursive.simps [simp del]

definition ApplyTraits ::
  "(string \<Rightarrow> 'q option) \<Rightarrow> (nat \<Rightarrow> string) \<Rightarrow> 'q trait_spec traits_proc" where
  "ApplyTraits pq rnd component workload =
    (case ac_Traits component of
       None \<Rightarrow> Inr ([], workload)
     | Some j \<Rightarrow>
        (if j = JObj [] \<or> j = JNull then Inr ([], workload)
         else if \<not> conforms j traits_schema then Inl ''failed to unmarshal traits''
         else case applyTraitsRecursive pq rnd component (decode_traits j) [] of
                Inl e \<Rightarrow> Inl e
              | Inr r \<Rightarrow> applyTraitResultToWorkload r workload (NormalizeLowerStrip (ac_Name component))))"

end
