(* ===== verification/Kube_Cluster.thy ===== *)
theory Kube_Cluster
  imports Kube_Shared Kube_Runner Kube_Service Kube_Traits
begin

text \<open>
  What the job controllers of \<open>event/workflow/job\<close> have in common. The typed client of one
  resource kind is a record of its five calls over a cluster, whose type is a parameter; what the
  calls promise is the locale \<open>kube_server\<close>. \<open>reconcile\<close> is the switch on the result of \<open>Get\<close> that
  ends the \<open>run\<close> of every controller but the one of services, \<open>with_share\<close> the sharing protocol
  before it, \<open>run_and_finish\<close> and \<open>run_and_wait\<close> the two forms of \<open>Run\<close>, \<open>clean_created\<close> the
  loop of \<open>Clean\<close>.

  A controller changes the object behind \<open>job.JobInfo\<close> (namespace, labels, version). Nothing
  reads those fields after \<open>Run\<close>, so the model changes a copy.
\<close>

section \<open>Objects and clients\<close>

record 's kobj =
  ko_Name :: string
  ko_Namespace :: string
  ko_Labels :: labels
  ko_Annotations :: labels
  ko_ResourceVersion :: string
  ko_Spec :: 's

text \<open>The errors of a call, as \<open>IsNotFound\<close> tells them apart.\<close>

datatype kube_error = KubeNotFound string | KubeOther job_error

definition plain_error :: "string \<Rightarrow> job_error" where
  "plain_error t = \<lparr>je_text = t, je_status = None, je_canceled = False\<rparr>"

text \<open>\<open>fmt.Errorf("t: %w", e)\<close> keeps the chain of \<open>e\<close>.\<close>

definition wrap_error :: "string \<Rightarrow> job_error \<Rightarrow> job_error" where
  "wrap_error t e = e\<lparr>je_text := t @ '': '' @ je_text e\<rparr>"

fun kube_job_error :: "kube_error \<Rightarrow> job_error" where
  "kube_job_error (KubeNotFound t) = plain_error t"
| "kube_job_error (KubeOther e) = e"

text \<open>\<open>%q\<close> of a name: resource names contain nothing that it escapes.\<close>

definition quoted :: "string \<Rightarrow> string" where
  "quoted name = ''\"'' @ name @ ''\"''"

record ('k, 's) kube_client =
  kc_Get :: "string \<Rightarrow> string \<Rightarrow> 'k \<Rightarrow> kube_error + 's kobj"
  kc_List :: "string \<Rightarrow> string \<Rightarrow> 'k \<Rightarrow> kube_error + 's kobj list"
  kc_Create :: "string \<Rightarrow> 's kobj \<Rightarrow> 'k \<Rightarrow> kube_error option \<times> 'k"
  kc_Update :: "string \<Rightarrow> 's kobj \<Rightarrow> 'k \<Rightarrow> kube_error option \<times> 'k"
  kc_Delete :: "string \<Rightarrow> string \<Rightarrow> 'k \<Rightarrow> kube_error option \<times> 'k"

text \<open>
  What a controller acts on: the cluster, the locks, the cleanup tracker of its context, the
  database. The operations around it: the share lock, the error value of a failing lock, and the
  \<open>ack\<close> callback, which sees the job and writes the database.
\<close>

record ('k, 'l, 'd) ctl_env =
  ce_cluster :: 'k
  ce_lock :: 'l
  ce_tracker :: "cleanupTracker option"
  ce_db :: 'd

record ('x, 'l, 'd) ctl_ops =
  op_Lock :: "'l lock_op"
  op_Unlock :: "string \<Rightarrow> 'l \<Rightarrow> 'l"
  op_lock_error :: "LockError \<Rightarrow> job_error"
  op_ack :: "'x JobTask \<Rightarrow> 'd \<Rightarrow> 'd"

definition ctl_ack :: "('x, 'l, 'd) ctl_ops \<Rightarrow> 'x JobTask \<Rightarrow> ('k, 'l, 'd) ctl_env \<Rightarrow> ('k, 'l, 'd) ctl_env" where
  "ctl_ack ops job env = env\<lparr>ce_db := op_ack ops job (ce_db env)\<rparr>"

definition mark_created ::
  "string \<Rightarrow> string \<Rightarrow> string \<Rightarrow> ('k, 'l, 'd) ctl_env \<Rightarrow> ('k, 'l, 'd) ctl_env" where
  "mark_created kind ns name env = env\<lparr>ce_tracker := MarkResourceCreated (ce_tracker env) kind ns name\<rparr>"

definition mark_observed ::
  "string \<Rightarrow> string \<Rightarrow> string \<Rightarrow> ('k, 'l, 'd) ctl_env \<Rightarrow> ('k, 'l, 'd) ctl_env" where
  "mark_observed kind ns name env = env\<lparr>ce_tracker := markResourceObserved (ce_tracker env) kind ns name\<rparr>"

section \<open>Labels\<close>

text \<open>\<open>Semantic.DeepEqual\<close> of two string maps; nil and empty maps are equal.\<close>

definition same_map :: "labels \<Rightarrow> labels \<Rightarrow> bool" where
  "same_map a b \<longleftrightarrow> list_all (\<lambda>k. map_of a k = map_of b k) (map fst a @ map fst b)"

definition ensureManagedLabel :: "'s kobj \<Rightarrow> string \<Rightarrow> 's kobj" where
  "ensureManagedLabel obj appID = obj\<lparr>ko_Labels := AList.update LabelCli appID (ko_Labels obj)\<rparr>"

definition isManagedResource :: "'s kobj \<Rightarrow> string \<Rightarrow> bool" where
  "isManagedResource obj expected \<longleftrightarrow>
    ko_Labels obj \<noteq> [] \<and> label_read (ko_Labels obj) LabelCli = expected"

section \<open>Sharing\<close>

text \<open>
  The protocol around the deployment of an object. A skipped job is acknowledged as skipped;
  otherwise the deferred unlock follows the deployment. \<open>None\<close> is a lock that is never granted.
\<close>

definition with_share ::
  "('x, 'l, 'd) ctl_ops \<Rightarrow> string \<Rightarrow> string \<Rightarrow> labels \<Rightarrow> (string \<Rightarrow> 'k \<Rightarrow> kube_error + 's kobj list) \<Rightarrow>
   ('x JobTask \<Rightarrow> ('k, 'l, 'd) ctl_env \<Rightarrow> job_error option \<times> 'x JobTask \<times> ('k, 'l, 'd) ctl_env) \<Rightarrow>
   'x JobTask \<Rightarrow> ('k, 'l, 'd) ctl_env \<Rightarrow> (job_error option \<times> 'x JobTask \<times> ('k, 'l, 'd) ctl_env) option" where
  "with_share ops kind text labels list deploy job env =
    (case shareInfoFromLabels labels of
       (shareName, shareStrategy) \<Rightarrow>
    (case resolveSharedResource (op_Lock ops) (op_Unlock ops)
            (\<lambda>sel. case list sel (ce_cluster env) of Inl e \<Rightarrow> Inl (kube_job_error e) | Inr items \<Rightarrow> Inr (int (length items)))
            shareName shareStrategy kind (ce_lock env) of
       None \<Rightarrow> None
     | Some (Inl (ShareLockError e), l) \<Rightarrow> Some (Some (wrap_error text (op_lock_error ops e)), job, env\<lparr>ce_lock := l\<rparr>)
     | Some (Inl (ShareListError e), l) \<Rightarrow> Some (Some (wrap_error text e), job, env\<lparr>ce_lock := l\<rparr>)
     | Some (Inr (unlock, skipped), l) \<Rightarrow>
        (let release = (\<lambda>env. if unlock then env\<lparr>ce_lock := op_Unlock ops (shareLockKey kind shareName) (ce_lock env)\<rparr>
                              else env);
             (err, job', env') =
               (if skipped then
                  (let j = job\<lparr>jt_Status := StatusSkipped, jt_Error := ''''\<rparr>
                   in (None, j, ctl_ack ops j (env\<lparr>ce_lock := l\<rparr>)))
                else deploy job (env\<lparr>ce_lock := l\<rparr>))
         in Some (err, job', release env'))))"

section \<open>Create or update\<close>

text \<open>What a controller does with an object that exists already.\<close>

datatype 's decision = Keep | Replace "'s kobj" | Refuse job_error

record reconcile_texts =
  rt_get :: "job_error \<Rightarrow> job_error"
  rt_create :: "job_error \<Rightarrow> job_error"
  rt_update :: "job_error \<Rightarrow> job_error"

definition reconcile ::
  "('k, 's) kube_client \<Rightarrow> reconcile_texts \<Rightarrow> string \<Rightarrow> string \<Rightarrow> ('s kobj \<Rightarrow> 's decision) \<Rightarrow> 's kobj \<Rightarrow>
   ('k, 'l, 'd) ctl_env \<Rightarrow> job_error option \<times> ('k, 'l, 'd) ctl_env" where
  "reconcile cli texts kind ns decide desired env =
    (case kc_Get cli ns (ko_Name desired) (ce_cluster env) of
       Inr existing \<Rightarrow>
         (case decide existing of
            Keep \<Rightarrow> (None, mark_observed kind ns (ko_Name desired) env)
          | Replace obj \<Rightarrow>
              (case kc_Update cli ns obj (ce_cluster env) of
                 (Some e, k) \<Rightarrow> (Some (rt_update texts (kube_job_error e)), env\<lparr>ce_cluster := k\<rparr>)
               | (None, k) \<Rightarrow> (None, mark_observed kind ns (ko_Name desired) (env\<lparr>ce_cluster := k\<rparr>)))
          | Refuse e \<Rightarrow> (Some e, env))
     | Inl (KubeNotFound _) \<Rightarrow>
         (case kc_Create cli ns desired (ce_cluster env) of
            (Some e, k) \<Rightarrow> (Some (rt_create texts (kube_job_error e)), env\<lparr>ce_cluster := k\<rparr>)
          | (None, k) \<Rightarrow> (None, mark_created kind ns (ko_Name desired) (env\<lparr>ce_cluster := k\<rparr>)))
     | Inl (KubeOther e) \<Rightarrow> (Some (rt_get texts e), env))"

section \<open>Clean\<close>

text \<open>
  Only created objects are deleted. An error is logged; the objects after it are still deleted.
\<close>

fun clean_loop :: "('k, 's) kube_client \<Rightarrow> (string \<Rightarrow> string) \<Rightarrow> resourceRef list \<Rightarrow> 'k \<Rightarrow> 'k" where
  "clean_loop cli namespace [] k = k"
| "clean_loop cli namespace (ref # refs) k =
     clean_loop cli namespace refs
       (if rr_Created ref then snd (kc_Delete cli (namespace (rr_Namespace ref)) (rr_Name ref) k) else k)"

definition clean_created ::
  "('k, 's) kube_client option \<Rightarrow> string \<Rightarrow> (string \<Rightarrow> string) \<Rightarrow> ('k, 'l, 'd) ctl_env \<Rightarrow> ('k, 'l, 'd) ctl_env" where
  "clean_created client kind namespace env =
    (case client of None \<Rightarrow> env
     | Some cli \<Rightarrow>
         env\<lparr>ce_cluster := clean_loop cli namespace (resourcesForCleanup (ce_tracker env) kind) (ce_cluster env)\<rparr>)"

definition namespace_or :: "string \<Rightarrow> string \<Rightarrow> string" where
  "namespace_or fallback ns = (if ns = '''' then fallback else ns)"

section \<open>SaveInfo\<close>

definition job_info_of :: "'x JobTask \<Rightarrow> JobInfo" where
  "job_info_of job = JobInfo_zero\<lparr>ji_Type := jt_JobType job, ji_WorkflowID := jt_WorkflowID job,
     ji_ProductID := jt_ProjectID job, ji_AppID := jt_AppID job, ji_TaskID := jt_TaskID job,
     ji_Status := Status_string (jt_Status job), ji_StartTime := jt_StartTime job,
     ji_EndTime := jt_EndTime job, ji_Error := jt_Error job, ji_ServiceName := jt_Name job\<rparr>"

definition save_info ::
  "('d, JobInfo) DataStore \<Rightarrow> int \<Rightarrow> 'x JobTask \<Rightarrow> ('k, 'l, 'd) ctl_env \<Rightarrow> DBError option \<times> ('k, 'l, 'd) ctl_env" where
  "save_info store now job env =
    (case ds_Add store now (ce_db env) (job_info_of job) of (err, db) \<Rightarrow> (err, env\<lparr>ce_db := db\<rparr>))"

section \<open>Waiting\<close>

text \<open>
  The \<open>select\<close> of a polling loop as a list of the branches it takes: the context ends, the timer
  fires, or the ticker does and the status is read. \<open>None\<close> is a loop that is still waiting.
\<close>

datatype 'a wait_obs = WaitDone bool | WaitTimeout | WaitTick 'a

fun wait_loop ::
  "(bool \<Rightarrow> job_error) \<Rightarrow> job_error \<Rightarrow> ('a \<Rightarrow> job_error + bool) \<Rightarrow> 'a wait_obs list \<Rightarrow> job_error option option" where
  "wait_loop cancelled timedOut check [] = None"
| "wait_loop cancelled timedOut check (WaitDone c # obs) = Some (Some (cancelled c))"
| "wait_loop cancelled timedOut check (WaitTimeout # obs) = Some (Some timedOut)"
| "wait_loop cancelled timedOut check (WaitTick x # obs) =
     (case check x of
        Inl e \<Rightarrow> Some (Some e)
      | Inr True \<Rightarrow> Some None
      | Inr False \<Rightarrow> wait_loop cancelled timedOut check obs)"

text \<open>\<open>NewStatusError(StatusCancelled, fmt.Errorf("...: %w", ctx.Err()))\<close> and its timeout form.\<close>

definition cancelled_error :: "string \<Rightarrow> bool \<Rightarrow> job_error" where
  "cancelled_error what c = \<lparr>je_text = what @ '' cancelled: '' @ (if c then ''context canceled'' else ''context deadline exceeded''),
     je_status = Some StatusCancelled, je_canceled = c\<rparr>"

definition timeout_error :: "string \<Rightarrow> job_error" where
  "timeout_error what = \<lparr>je_text = ''wait '' @ what @ '' timeout'', je_status = Some StatusTimeout, je_canceled = False\<rparr>"

section \<open>Run\<close>

definition start_run ::
  "('x, 'l, 'd) ctl_ops \<Rightarrow> 'x JobTask \<Rightarrow> ('k, 'l, 'd) ctl_env \<Rightarrow> 'x JobTask \<times> ('k, 'l, 'd) ctl_env" where
  "start_run ops job env =
    (let j = job\<lparr>jt_Status := StatusRunning, jt_Error := ''''\<rparr> in (j, ctl_ack ops j env))"

text \<open>Controllers without \<open>wait\<close>: every error means failed.\<close>

definition run_and_finish ::
  "('x, 'l, 'd) ctl_ops \<Rightarrow>
   ('x JobTask \<Rightarrow> ('k, 'l, 'd) ctl_env \<Rightarrow> (job_error option \<times> 'x JobTask \<times> ('k, 'l, 'd) ctl_env) option) \<Rightarrow>
   'x JobTask \<Rightarrow> ('k, 'l, 'd) ctl_env \<Rightarrow> (job_error option \<times> 'x JobTask \<times> ('k, 'l, 'd) ctl_env) option" where
  "run_and_finish ops run job0 env0 =
    (case start_run ops job0 env0 of
       (job1, env1) \<Rightarrow>
    (case run job1 env1 of
       None \<Rightarrow> None
     | Some (Some e, job, env) \<Rightarrow> Some (Some e, job\<lparr>jt_Status := StatusFailed, jt_Error := je_text e\<rparr>, env)
     | Some (None, job, env) \<Rightarrow>
         Some (None, if jt_Status job = StatusSkipped then job\<lparr>jt_Error := ''''\<rparr>
                     else job\<lparr>jt_Status := StatusCompleted, jt_Error := ''''\<rparr>, env)))"

text \<open>Controllers that wait: an error with a status in its chain sets that status.\<close>

definition failed_job :: "job_error \<Rightarrow> 'x JobTask \<Rightarrow> 'x JobTask" where
  "failed_job e job = job\<lparr>jt_Error := je_text e,
     jt_Status := (case ExtractStatusError (Some e) of Some st \<Rightarrow> st | None \<Rightarrow> StatusFailed)\<rparr>"

definition run_and_wait ::
  "('x, 'l, 'd) ctl_ops \<Rightarrow>
   ('x JobTask \<Rightarrow> ('k, 'l, 'd) ctl_env \<Rightarrow> (job_error option \<times> 'x JobTask \<times> ('k, 'l, 'd) ctl_env) option) \<Rightarrow>
   ('x JobTask \<Rightarrow> job_error option option) \<Rightarrow>
   'x JobTask \<Rightarrow> ('k, 'l, 'd) ctl_env \<Rightarrow> (job_error option \<times> 'x JobTask \<times> ('k, 'l, 'd) ctl_env) option" where
  "run_and_wait ops run wait job0 env0 =
    (case start_run ops job0 env0 of
       (job1, env1) \<Rightarrow>
    (case run job1 env1 of
       None \<Rightarrow> None
     | Some (Some e, job, env) \<Rightarrow> Some (Some e, failed_job e job, env)
     | Some (None, job, env) \<Rightarrow>
        (if jt_Status job = StatusSkipped then Some (None, job\<lparr>jt_Error := ''''\<rparr>, env)
         else case wait job of
             None \<Rightarrow> None
           | Some (Some e) \<Rightarrow> Some (Some e, failed_job e job, env)
           | Some None \<Rightarrow> Some (None, job\<lparr>jt_Status := StatusCompleted, jt_Error := ''''\<rparr>, env))))"


section \<open>What a cluster promises\<close>

text \<open>
  The objects of one kind by namespace and name. A call that fails changes nothing, a write
  changes the one object, to what the server makes of it (\<open>stored\<close>), and nothing else.
\<close>

locale kube_server =
  fixes cli :: "('k, 's) kube_client" and objects :: "'k \<Rightarrow> string \<times> string \<Rightarrow> 's kobj option"
    and stored :: "'s kobj \<Rightarrow> 's kobj \<Rightarrow> bool"
  assumes Get_ok: "kc_Get cli ns n k = Inr obj \<Longrightarrow> objects k (ns, n) = Some obj"
    and Get_absent: "kc_Get cli ns n k = Inl (KubeNotFound t) \<Longrightarrow> objects k (ns, n) = None"
    and Create_ok: "kc_Create cli ns obj k = (None, k') \<Longrightarrow>
      \<exists>o1. stored obj o1 \<and> objects k' = (objects k)((ns, ko_Name obj) \<mapsto> o1)"
    and Create_error: "kc_Create cli ns obj k = (Some e, k') \<Longrightarrow> objects k' = objects k"
    and Update_ok: "kc_Update cli ns obj k = (None, k') \<Longrightarrow>
      \<exists>o1. stored obj o1 \<and> objects k' = (objects k)((ns, ko_Name obj) \<mapsto> o1)"
    and Update_error: "kc_Update cli ns obj k = (Some e, k') \<Longrightarrow> objects k' = objects k"
    and Delete_ok: "kc_Delete cli ns n k = (None, k') \<Longrightarrow> objects k' = (objects k)((ns, n) := None)"
    and Delete_absent: "kc_Delete cli ns n k = (Some (KubeNotFound t), k') \<Longrightarrow> objects k (ns, n) = None"
    and Delete_error: "kc_Delete cli ns n k = (Some e, k') \<Longrightarrow> objects k' = objects k"
begin

text \<open>The outcomes of \<open>reconcile\<close>.\<close>

lemma reconcile_error:
  assumes "reconcile cli texts kind ns decide desired env = (Some e, env')"
  shows "objects (ce_cluster env') = objects (ce_cluster env) \<and> ce_tracker env' = ce_tracker env"
  using assms Create_error Update_error
  by (auto simp: reconcile_def mark_observed_def mark_created_def
      split: sum.splits kube_error.splits decision.splits prod.splits option.splits)

lemma reconcile_ok:
  assumes "reconcile cli texts kind ns decide desired env = (None, env')"
  obtains (kept) existing where "objects (ce_cluster env) (ns, ko_Name desired) = Some existing"
      "decide existing = Keep" "ce_cluster env' = ce_cluster env"
      "ce_tracker env' = markResourceObserved (ce_tracker env) kind ns (ko_Name desired)"
  | (replaced) existing obj o1 where "objects (ce_cluster env) (ns, ko_Name desired) = Some existing"
      "decide existing = Replace obj"
      "stored obj o1" "objects (ce_cluster env') = (objects (ce_cluster env))((ns, ko_Name obj) \<mapsto> o1)"
      "ce_tracker env' = markResourceObserved (ce_tracker env) kind ns (ko_Name desired)"
  | (created) o1 where "objects (ce_cluster env) (ns, ko_Name desired) = None" "stored desired o1"
      "objects (ce_cluster env') = (objects (ce_cluster env))((ns, ko_Name desired) \<mapsto> o1)"
      "ce_tracker env' = MarkResourceCreated (ce_tracker env) kind ns (ko_Name desired)"
proof (cases "kc_Get cli ns (ko_Name desired) (ce_cluster env)")
  case (Inl e)
  with assms obtain t k where g: "kc_Get cli ns (ko_Name desired) (ce_cluster env) = Inl (KubeNotFound t)"
    and c: "kc_Create cli ns desired (ce_cluster env) = (None, k)"
    and env': "env' = mark_created kind ns (ko_Name desired) (env\<lparr>ce_cluster := k\<rparr>)"
    by (auto simp: reconcile_def split: kube_error.splits prod.splits option.splits)
  from Create_ok [OF c] Get_absent [OF g] env' that(3) show ?thesis by (auto simp: mark_created_def)
next
  case (Inr existing)
  note e = Get_ok [OF Inr]
  show ?thesis
  proof (cases "decide existing")
    case Keep
    with assms Inr have "env' = mark_observed kind ns (ko_Name desired) env" by (simp add: reconcile_def)
    with that(1) [OF e Keep] show ?thesis by (simp add: mark_observed_def)
  next
    case (Replace obj)
    with assms Inr obtain k where u: "kc_Update cli ns obj (ce_cluster env) = (None, k)"
      and env': "env' = mark_observed kind ns (ko_Name desired) (env\<lparr>ce_cluster := k\<rparr>)"
      by (auto simp: reconcile_def split: prod.splits option.splits)
    from Update_ok [OF u] that(2) [OF e Replace] env' show ?thesis by (auto simp: mark_observed_def)
  next
    case (Refuse x)
    with assms Inr show ?thesis by (simp add: reconcile_def)
  qed
qed

text \<open>\<open>Clean\<close> deletes the created objects and no other.\<close>

lemma clean_loop_frame:
  "(\<And>ref. ref \<in> set refs \<Longrightarrow> rr_Created ref \<Longrightarrow> (namespace (rr_Namespace ref), rr_Name ref) \<noteq> key) \<Longrightarrow>
   objects (clean_loop cli namespace refs k) key = objects k key"
proof (induction refs arbitrary: k)
  case (Cons ref refs)
  have "objects (snd (kc_Delete cli (namespace (rr_Namespace ref)) (rr_Name ref) k)) key = objects k key"
    if "rr_Created ref"
  proof -
    obtain r k' where d: "kc_Delete cli (namespace (rr_Namespace ref)) (rr_Name ref) k = (r, k')" by fastforce
    from that Cons.prems [of ref] have "(namespace (rr_Namespace ref), rr_Name ref) \<noteq> key" by simp
    with d Delete_ok Delete_error show ?thesis by (cases r) fastforce+
  qed
  with Cons show ?case by auto
qed simp

lemma clean_loop_subset: "objects (clean_loop cli namespace refs k) key = Some obj \<Longrightarrow> objects k key = Some obj"
proof (induction refs arbitrary: k)
  case (Cons ref refs)
  have "objects (snd (kc_Delete cli ns n k)) key = Some obj \<Longrightarrow> objects k key = Some obj" for ns n
  proof -
    obtain r k' where d: "kc_Delete cli ns n k = (r, k')" by fastforce
    with Delete_ok [of ns n k k'] Delete_error [of ns n k _ k']
    show "objects (snd (kc_Delete cli ns n k)) key = Some obj \<Longrightarrow> objects k key = Some obj"
      by (cases r) (auto split: if_splits)
  qed
  with Cons show ?case by (auto split: if_splits)
qed simp

lemma clean_loop_gone:
  assumes "ref \<in> set refs" "rr_Created ref" "(namespace (rr_Namespace ref), rr_Name ref) = key"
    and "\<And>k. fst (kc_Delete cli (fst key) (snd key) k) = None \<or>
      (\<exists>t. fst (kc_Delete cli (fst key) (snd key) k) = Some (KubeNotFound t))"
  shows "objects (clean_loop cli namespace refs k) key = None"
  using assms(1)
proof (induction refs arbitrary: k)
  case (Cons r refs)
  show ?case
  proof (cases "r = ref")
    case True
    let ?d = "kc_Delete cli (fst key) (snd key) k"
    have e: "?d = (fst ?d, snd ?d)" by simp
    from assms(4) [of k] have "objects (snd ?d) key = None"
      using Delete_ok [of "fst key" "snd key" k "snd ?d"] Delete_absent [of "fst key" "snd key" k _ "snd ?d"]
        Delete_error [of "fst key" "snd key" k _ "snd ?d"] e
      by (metis fun_upd_same prod.collapse)
    then have "objects (clean_loop cli namespace refs (snd ?d)) key = None"
      using clean_loop_subset [of namespace refs "snd ?d" key] by (cases "objects (clean_loop cli namespace refs (snd ?d)) key") auto
    moreover have "namespace (rr_Namespace r) = fst key" "rr_Name r = snd key" "rr_Created r"
      using True assms(2,3) by auto
    ultimately show ?thesis by simp
  next
    case False
    with Cons show ?thesis by auto
  qed
qed simp

end

section \<open>Deploying and cleaning up\<close>

definition deploy_with ::
  "('k, 's) kube_client \<Rightarrow> reconcile_texts \<Rightarrow> string \<Rightarrow> string \<Rightarrow> ('s kobj \<Rightarrow> 's decision) \<Rightarrow> 's kobj \<Rightarrow>
   'x JobTask \<Rightarrow> ('k, 'l, 'd) ctl_env \<Rightarrow> job_error option \<times> 'x JobTask \<times> ('k, 'l, 'd) ctl_env" where
  "deploy_with cli texts kind ns decide desired job env =
    (case reconcile cli texts kind ns decide desired env of (err, env') \<Rightarrow> (err, job, env'))"

lemma ctl_ack_simps [simp]:
  "ce_cluster (ctl_ack ops job env) = ce_cluster env" "ce_lock (ctl_ack ops job env) = ce_lock env"
  "ce_tracker (ctl_ack ops job env) = ce_tracker env"
  by (simp_all add: ctl_ack_def)

lemma with_share_cases:
  assumes "with_share ops kind text labels list deploy job env = Some (err, job', env')"
  obtains (failed) e where "err = Some e" "job' = job"
      "ce_cluster env' = ce_cluster env" "ce_tracker env' = ce_tracker env"
  | (skipped) "err = None" "job' = job\<lparr>jt_Status := StatusSkipped, jt_Error := ''''\<rparr>"
      "ce_cluster env' = ce_cluster env" "ce_tracker env' = ce_tracker env"
  | (deployed) l env1 where "deploy job (env\<lparr>ce_lock := l\<rparr>) = (err, job', env1)"
      "ce_cluster env' = ce_cluster env1" "ce_tracker env' = ce_tracker env1"
proof -
  obtain n st where sh: "shareInfoFromLabels labels = (n, st)" by fastforce
  let ?count = "\<lambda>sel. case list sel (ce_cluster env) of Inl e \<Rightarrow> Inl (kube_job_error e)
    | Inr items \<Rightarrow> Inr (int (length items))"
  let ?resolve = "resolveSharedResource (op_Lock ops) (op_Unlock ops) ?count n st kind (ce_lock env)"
  from assms obtain r l where res: "?resolve = Some (r, l)"
    by (auto simp: with_share_def sh split: option.splits)
  show thesis
  proof (cases r)
    case (Inl e)
    then show thesis using assms res that(1) by (cases e) (auto simp: with_share_def sh Let_def)
  next
    case (Inr us)
    then obtain unlock skip where us: "r = Inr (unlock, skip)" by (cases us) simp
    show thesis
    proof (cases skip)
      case True
      then show thesis using assms res us that(2) by (auto simp: with_share_def sh Let_def split: if_splits)
    next
      case False
      obtain e1 j1 env1 where d: "deploy job (env\<lparr>ce_lock := l\<rparr>) = (e1, j1, env1)" by (metis prod_cases3)
      with False assms res us that(3) [of l env1] show thesis
        by (auto simp: with_share_def sh Let_def split: if_splits)
    qed
  qed
qed

lemma tracker_fresh [simp]:
  "markResourceObserved (Some []) kind ns n = Some [\<lparr>rr_Kind = kind, rr_Namespace = ns, rr_Name = n, rr_Created = False\<rparr>]"
  "MarkResourceCreated (Some []) kind ns n = Some [\<lparr>rr_Kind = kind, rr_Namespace = ns, rr_Name = n, rr_Created = True\<rparr>]"
  by (simp_all add: markResourceObserved_def MarkResourceCreated_def mark_resource_def tracker_add_def)

lemma resourcesForCleanup_one:
  "resourcesForCleanup (Some [\<lparr>rr_Kind = kind, rr_Namespace = ns, rr_Name = n, rr_Created = c\<rparr>]) kind =
     [\<lparr>rr_Kind = kind, rr_Namespace = ns, rr_Name = n, rr_Created = c\<rparr>]"
  "resourcesForCleanup (Some []) kind = []"
  by (simp_all add: resourcesForCleanup_def tracker_list_def)

context kube_server
begin

text \<open>The outcomes of a deployment, in terms of the objects.\<close>

lemma deploy_objects:
  assumes "deploy_with cli texts kind ns decide desired job env = (err, job', env')"
    and "\<And>existing obj. decide existing = Replace obj \<Longrightarrow> ko_Name obj = ko_Name desired"
  shows "job' = job" and "key \<noteq> (ns, ko_Name desired) \<Longrightarrow> objects (ce_cluster env') key = objects (ce_cluster env) key"
    and "err \<noteq> None \<Longrightarrow> objects (ce_cluster env') = objects (ce_cluster env) \<and> ce_tracker env' = ce_tracker env"
proof -
  from assms(1) have j: "job' = job" and r: "reconcile cli texts kind ns decide desired env = (err, env')"
    by (auto simp: deploy_with_def split: prod.splits)
  show "job' = job" by (rule j)
  show e: "err \<noteq> None \<Longrightarrow> objects (ce_cluster env') = objects (ce_cluster env) \<and> ce_tracker env' = ce_tracker env"
    using reconcile_error r by fastforce
  show "objects (ce_cluster env') key = objects (ce_cluster env) key" if "key \<noteq> (ns, ko_Name desired)"
  proof (cases err)
    case None
    with r have "reconcile cli texts kind ns decide desired env = (None, env')" by simp
    then show ?thesis using that assms(2) by (cases rule: reconcile_ok) auto
  qed (use e in simp)
qed

text \<open>
  A run with a fresh tracker and the \<open>Clean\<close> after it: the objects that were there are still
  there, unless updated unchanged, and the created one is gone.
\<close>

lemma deploy_clean:
  assumes "deploy_with cli texts kind ns decide desired job env = (err, job', env')"
    and "\<And>existing obj. decide existing = Replace obj \<Longrightarrow> ko_Name obj = ko_Name desired"
    and "ce_tracker env = Some []" "namespace ns = ns"
    and "\<And>k. fst (kc_Delete cli ns (ko_Name desired) k) = None \<or>
      (\<exists>t. fst (kc_Delete cli ns (ko_Name desired) k) = Some (KubeNotFound t))"
  shows "dom (objects (clean_loop cli namespace (resourcesForCleanup (ce_tracker env') kind) (ce_cluster env'))) =
      dom (objects (ce_cluster env))"
    and "key \<noteq> (ns, ko_Name desired) \<Longrightarrow>
      objects (clean_loop cli namespace (resourcesForCleanup (ce_tracker env') kind) (ce_cluster env')) key =
      objects (ce_cluster env) key"
proof -
  let ?key = "(ns, ko_Name desired)"
  let ?clean = "clean_loop cli namespace (resourcesForCleanup (ce_tracker env') kind) (ce_cluster env')"
  note d = deploy_objects [OF assms(1,2)]
  have frame: "objects (ce_cluster env') key = objects (ce_cluster env) key" if "key \<noteq> ?key" for key
    by (rule deploy_objects(2) [OF assms(1) _ that]) (rule assms(2))
  from assms(1) have r: "reconcile cli texts kind ns decide desired env = (err, env')"
    by (auto simp: deploy_with_def split: prod.splits)
  have "dom (objects ?clean) = dom (objects (ce_cluster env)) \<and> (\<forall>key. key \<noteq> ?key \<longrightarrow> objects ?clean key = objects (ce_cluster env') key)"
  proof (cases err)
    case (Some e)
    then show ?thesis using d(3) assms(3) by (simp add: resourcesForCleanup_one)
  next
    case None
    with r have ok: "reconcile cli texts kind ns decide desired env = (None, env')" by simp
    then show ?thesis
    proof (cases rule: reconcile_ok)
      case kept
      then show ?thesis using assms(3) by (simp add: resourcesForCleanup_one)
    next
      case (replaced existing obj o1)
      then have "ko_Name obj = ko_Name desired" using assms(2) by blast
      with replaced assms(3) show ?thesis by (auto simp: resourcesForCleanup_one)
    next
      case (created o1)
      let ?ref = "\<lparr>rr_Kind = kind, rr_Namespace = ns, rr_Name = ko_Name desired, rr_Created = True\<rparr>"
      from created(4) assms(3) have refs: "resourcesForCleanup (ce_tracker env') kind = [?ref]"
        by (simp add: resourcesForCleanup_one)
      have gone: "objects ?clean ?key = None"
        unfolding refs by (rule clean_loop_gone [of ?ref]) (use assms(4,5) in simp_all)
      have other: "objects ?clean key = objects (ce_cluster env') key" if "key \<noteq> ?key" for key
        unfolding refs by (rule clean_loop_frame) (use assms(4) that in auto)
      have "dom (objects ?clean) = dom (objects (ce_cluster env))"
      proof (rule set_eqI)
        fix key
        show "key \<in> dom (objects ?clean) \<longleftrightarrow> key \<in> dom (objects (ce_cluster env))"
          using gone other [of key] created(1,3) by (cases "key = ?key") (auto simp: dom_def)
      qed
      with other show ?thesis by blast
    qed
  qed
  note both = this
  show "dom (objects ?clean) = dom (objects (ce_cluster env))" by (rule both [THEN conjunct1])
  show "objects ?clean key = objects (ce_cluster env) key" if "key \<noteq> ?key"
    using both [THEN conjunct2, rule_format, OF that] frame [OF that] by simp
qed

end

section \<open>Waiting\<close>

text \<open>
  A loop returns at the first branch that decides: an end of the context, a timeout, a failing
  reading or a ready one; before it there are only readings that are not ready.
\<close>

definition not_ready :: "('a \<Rightarrow> job_error + bool) \<Rightarrow> 'a wait_obs \<Rightarrow> bool" where
  "not_ready check ob \<longleftrightarrow> (case ob of WaitTick x \<Rightarrow> check x = Inr False | _ \<Rightarrow> False)"

lemma wait_loop_first:
  "wait_loop cancelled timedOut check obs =
    (case dropWhile (not_ready check) obs of
       [] \<Rightarrow> None
     | WaitDone c # _ \<Rightarrow> Some (Some (cancelled c))
     | WaitTimeout # _ \<Rightarrow> Some (Some timedOut)
     | WaitTick x # _ \<Rightarrow> Some (case check x of Inl e \<Rightarrow> Some e | Inr _ \<Rightarrow> None))"
  by (induction cancelled timedOut check obs rule: wait_loop.induct)
    (auto simp: not_ready_def split: sum.splits bool.splits)

lemma wait_loop_ready:
  "wait_loop cancelled timedOut check obs = Some None \<longleftrightarrow>
    (\<exists>xs x ys. obs = xs @ WaitTick x # ys \<and> list_all (not_ready check) xs \<and> check x = Inr True)"
proof
  assume w: "wait_loop cancelled timedOut check obs = Some None"
  then obtain x ys e where d: "dropWhile (not_ready check) obs = WaitTick x # ys" "check x = Inr e"
    unfolding wait_loop_first by (auto split: list.splits wait_obs.splits sum.splits)
  then have "\<not> not_ready check (WaitTick x)" by (metis list.sel(1) hd_dropWhile list.distinct(1))
  with d(2) have "check x = Inr True" by (cases e) (simp_all add: not_ready_def)
  with d(1) show "\<exists>xs x ys. obs = xs @ WaitTick x # ys \<and> list_all (not_ready check) xs \<and> check x = Inr True"
    by (metis takeWhile_dropWhile_id list_all_iff set_takeWhileD)
next
  assume "\<exists>xs x ys. obs = xs @ WaitTick x # ys \<and> list_all (not_ready check) xs \<and> check x = Inr True"
  then obtain xs x ys where obs: "obs = xs @ WaitTick x # ys" "list_all (not_ready check) xs" "check x = Inr True"
    by blast
  then have "dropWhile (not_ready check) obs = WaitTick x # ys"
    by (simp add: dropWhile_append list_all_iff not_ready_def)
  with obs(3) show "wait_loop cancelled timedOut check obs = Some None" by (simp add: wait_loop_first)
qed

text \<open>The result of a run and the status of its job agree.\<close>

lemma run_and_finish_status:
  assumes "run_and_finish ops run job env = Some (err, job', env')"
  shows "if err = None then jt_Status job' \<in> {StatusCompleted, StatusSkipped} \<and> jt_Error job' = ''''
    else jt_Status job' = StatusFailed"
  using assms
  by (auto simp: run_and_finish_def split: prod.splits option.splits if_splits)

lemma run_and_wait_status:
  assumes "run_and_wait ops run wait job env = Some (err, job', env')"
  shows "case err of None \<Rightarrow> jt_Status job' \<in> {StatusCompleted, StatusSkipped} \<and> jt_Error job' = ''''
    | Some e \<Rightarrow> jt_Status job' = (case je_status e of None \<Rightarrow> StatusFailed | Some st \<Rightarrow> st) \<and> jt_Error job' = je_text e"
  using assms
  by (auto simp: run_and_wait_def failed_job_def ExtractStatusError_def split: prod.splits option.splits if_splits)


section \<open>A cluster in memory\<close>

text \<open>
  One kind of objects as an association list, with the server's checks: a name is created once,
  and an update with an outdated version is refused. Its selector is the one of the program.
\<close>

record 's mem_kube =
  mk_objects :: "((string \<times> string) \<times> 's kobj) list"
  mk_next :: nat

definition mem_store_object :: "string \<Rightarrow> 's kobj \<Rightarrow> 's mem_kube \<Rightarrow> 's mem_kube" where
  "mem_store_object ns obj k =
    k\<lparr>mk_objects := AList.update (ns, ko_Name obj) (obj\<lparr>ko_ResourceVersion := nat_str (mk_next k)\<rparr>) (mk_objects k),
      mk_next := Suc (mk_next k)\<rparr>"

definition mem_kube_client :: "('s mem_kube, 's) kube_client" where
  "mem_kube_client =
    \<lparr>kc_Get = (\<lambda>ns n k. case map_of (mk_objects k) (ns, n) of
         None \<Rightarrow> Inl (KubeNotFound ''not found'') | Some obj \<Rightarrow> Inr obj),
     kc_List = (\<lambda>ns sel k. Inr (map snd (filter (\<lambda>(key, obj). fst key = ns \<and>
         shareListOptions (label_read (ko_Labels obj) LabelShareName) = sel) (mk_objects k)))),
     kc_Create = (\<lambda>ns obj k. case map_of (mk_objects k) (ns, ko_Name obj) of
         None \<Rightarrow> (None, mem_store_object ns obj k)
       | Some _ \<Rightarrow> (Some (KubeOther (plain_error ''already exists'')), k)),
     kc_Update = (\<lambda>ns obj k. case map_of (mk_objects k) (ns, ko_Name obj) of
         None \<Rightarrow> (Some (KubeNotFound ''not found''), k)
       | Some old \<Rightarrow> if ko_ResourceVersion obj = '''' \<or> ko_ResourceVersion obj = ko_ResourceVersion old
                     then (None, mem_store_object ns obj k)
                     else (Some (KubeOther (plain_error ''conflict'')), k)),
     kc_Delete = (\<lambda>ns n k. case map_of (mk_objects k) (ns, n) of
         None \<Rightarrow> (Some (KubeNotFound ''not found''), k)
       | Some _ \<Rightarrow> (None, k\<lparr>mk_objects := AList.delete (ns, n) (mk_objects k)\<rparr>))\<rparr>"

text \<open>A server that stores what it is given, but for the version.\<close>

abbreviation as_given :: "'s kobj \<Rightarrow> 's kobj \<Rightarrow> bool" where
  "as_given obj o1 \<equiv> \<exists>v. o1 = obj\<lparr>ko_ResourceVersion := v\<rparr>"

locale kube_api = kube_server cli objects as_given
  for cli :: "('k, 's) kube_client" and objects :: "'k \<Rightarrow> string \<times> string \<Rightarrow> 's kobj option"

interpretation mem_kube: kube_api mem_kube_client "\<lambda>k. map_of (mk_objects k)"
  by unfold_locales
    (auto simp: mem_kube_client_def mem_store_object_def update_conv' delete_conv'
      split: option.splits if_splits)

end
