(* ===== verification/Kube_RBAC.thy ===== *)
theory Kube_RBAC
  imports Kube_Cluster
begin

text \<open>
  The controllers of \<open>event/workflow/job/job_rbac.go\<close>: service accounts, roles and bindings, in a
  namespace or for the cluster. The five of them differ in the type of their object, its kind and
  the fields whose change asks for an update; \<open>rbac_run\<close> is their common \<open>run\<close>. Objects that
  carry another application's label are left alone.
\<close>

section \<open>The five kinds\<close>

record ('x, 's) rbac_kind =
  rk_kind :: string
  rk_word :: string
  rk_type :: string
  rk_object :: "'x job_info \<Rightarrow> 's kobj option"
  rk_clusterScoped :: bool
  rk_differs :: "'s kobj \<Rightarrow> 's kobj \<Rightarrow> bool"

definition kobj_of :: "'x client_object \<Rightarrow> labels \<Rightarrow> 's \<Rightarrow> 's kobj" where
  "kobj_of obj annotations s =
    \<lparr>ko_Name = co_Name obj, ko_Namespace = co_Namespace obj, ko_Labels = co_Labels obj,
     ko_Annotations = annotations, ko_ResourceVersion = '''', ko_Spec = s\<rparr>"

text \<open>Labels and annotations, which every kind compares first.\<close>

definition meta_differs :: "'s kobj \<Rightarrow> 's kobj \<Rightarrow> bool" where
  "meta_differs existing desired \<longleftrightarrow>
    \<not> same_map (ko_Labels existing) (ko_Labels desired) \<or>
    \<not> same_map (ko_Annotations existing) (ko_Annotations desired)"

definition shouldUpdateServiceAccount :: "bool option kobj \<Rightarrow> bool option kobj \<Rightarrow> bool" where
  "shouldUpdateServiceAccount existing desired \<longleftrightarrow>
    meta_differs existing desired \<or> ko_Spec existing \<noteq> ko_Spec desired"

definition shouldUpdateRole :: "RBACRuleSpec list kobj \<Rightarrow> RBACRuleSpec list kobj \<Rightarrow> bool" where
  "shouldUpdateRole existing desired \<longleftrightarrow> meta_differs existing desired \<or> ko_Spec existing \<noteq> ko_Spec desired"

text \<open>The one subject (account and namespace) and the reference to the role (kind and name).\<close>

type_synonym binding_spec = "(string \<times> string) \<times> (string \<times> string)"

definition shouldUpdateRoleBinding :: "binding_spec kobj \<Rightarrow> binding_spec kobj \<Rightarrow> bool" where
  "shouldUpdateRoleBinding existing desired \<longleftrightarrow>
    meta_differs existing desired \<or> fst (ko_Spec existing) \<noteq> fst (ko_Spec desired) \<or>
    snd (ko_Spec existing) \<noteq> snd (ko_Spec desired)"

definition shouldUpdateClusterRole :: "RBACRuleSpec list kobj \<Rightarrow> RBACRuleSpec list kobj \<Rightarrow> bool" where
  "shouldUpdateClusterRole existing desired \<longleftrightarrow>
    meta_differs existing desired \<or> ko_Spec existing \<noteq> ko_Spec desired"

definition shouldUpdateClusterRoleBinding :: "binding_spec kobj \<Rightarrow> binding_spec kobj \<Rightarrow> bool" where
  "shouldUpdateClusterRoleBinding existing desired \<longleftrightarrow>
    meta_differs existing desired \<or> fst (ko_Spec existing) \<noteq> fst (ko_Spec desired) \<or>
    snd (ko_Spec existing) \<noteq> snd (ko_Spec desired)"

text \<open>The type assertions on \<open>job.JobInfo\<close>.\<close>

fun role_object :: "ObjectKind \<Rightarrow> 'q trait_spec job_info \<Rightarrow> RBACRuleSpec list kobj option" where
  "role_object kind (InfoObject obj) =
     (case co_Spec obj of
        TraitSpec (RoleSpec rules) \<Rightarrow> if co_Kind obj = kind then Some (kobj_of obj [] rules) else None
      | _ \<Rightarrow> None)"
| "role_object kind info = None"

fun binding_object :: "ObjectKind \<Rightarrow> 'q trait_spec job_info \<Rightarrow> binding_spec kobj option" where
  "binding_object kind (InfoObject obj) =
     (case co_Spec obj of
        TraitSpec (BindingSpec account namespace roleKind role) \<Rightarrow>
          if co_Kind obj = kind then Some (kobj_of obj [] ((account, namespace), (roleKind, role))) else None
      | _ \<Rightarrow> None)"
| "binding_object kind info = None"

fun account_object :: "'q trait_spec job_info \<Rightarrow> bool option kobj option" where
  "account_object (InfoObject obj) =
     (case co_Spec obj of
        TraitSpec (ServiceAccountSpec annotations automount) \<Rightarrow>
          if co_Kind obj = KindServiceAccount then Some (kobj_of obj annotations automount) else None
      | _ \<Rightarrow> None)"
| "account_object info = None"

definition service_account_kind :: "('q trait_spec, bool option) rbac_kind" where
  "service_account_kind = \<lparr>rk_kind = ''serviceaccount'', rk_word = ''serviceAccount'', rk_type = ''*corev1.ServiceAccount'',
     rk_object = account_object, rk_clusterScoped = False, rk_differs = shouldUpdateServiceAccount\<rparr>"

definition role_kind :: "('q trait_spec, RBACRuleSpec list) rbac_kind" where
  "role_kind = \<lparr>rk_kind = ''role'', rk_word = ''role'', rk_type = ''*rbacv1.Role'',
     rk_object = role_object KindRole, rk_clusterScoped = False, rk_differs = shouldUpdateRole\<rparr>"

definition role_binding_kind :: "('q trait_spec, binding_spec) rbac_kind" where
  "role_binding_kind = \<lparr>rk_kind = ''rolebinding'', rk_word = ''roleBinding'', rk_type = ''*rbacv1.RoleBinding'',
     rk_object = binding_object KindRoleBinding, rk_clusterScoped = False, rk_differs = shouldUpdateRoleBinding\<rparr>"

definition cluster_role_kind :: "('q trait_spec, RBACRuleSpec list) rbac_kind" where
  "cluster_role_kind = \<lparr>rk_kind = ''clusterrole'', rk_word = ''clusterRole'', rk_type = ''*rbacv1.ClusterRole'',
     rk_object = role_object KindClusterRole, rk_clusterScoped = True, rk_differs = shouldUpdateClusterRole\<rparr>"

definition cluster_role_binding_kind :: "('q trait_spec, binding_spec) rbac_kind" where
  "cluster_role_binding_kind = \<lparr>rk_kind = ''clusterrolebinding'', rk_word = ''clusterRoleBinding'',
     rk_type = ''*rbacv1.ClusterRoleBinding'', rk_object = binding_object KindClusterRoleBinding,
     rk_clusterScoped = True, rk_differs = shouldUpdateClusterRoleBinding\<rparr>"

section \<open>run\<close>

definition rbac_texts :: "string \<Rightarrow> string \<Rightarrow> reconcile_texts" where
  "rbac_texts word name =
    (let t = (\<lambda>verb. wrap_error (verb @ '' '' @ word @ '' '' @ quoted name @ '' failed''))
     in \<lparr>rt_get = t ''get'', rt_create = t ''create'', rt_update = t ''update''\<rparr>)"

definition rbac_decide :: "('s kobj \<Rightarrow> 's kobj \<Rightarrow> bool) \<Rightarrow> string \<Rightarrow> 's kobj \<Rightarrow> 's kobj \<Rightarrow> 's decision" where
  "rbac_decide differs appID desired existing =
    (if \<not> isManagedResource existing appID then Keep
     else if differs existing desired then Replace (desired\<lparr>ko_ResourceVersion := ko_ResourceVersion existing\<rparr>)
     else Keep)"

text \<open>The object as it is deployed, with its namespace and the label of the application.\<close>

definition rbac_desired :: "('x, 's) rbac_kind \<Rightarrow> 'x JobTask \<Rightarrow> 's kobj option" where
  "rbac_desired rk job =
    map_option (\<lambda>obj. ensureManagedLabel
        (if \<not> rk_clusterScoped rk \<and> ko_Namespace obj = '''' then obj\<lparr>ko_Namespace := jt_Namespace job\<rparr> else obj)
        (jt_AppID job))
      (Option.bind (jt_JobInfo job) (rk_object rk))"

definition rbac_namespace :: "('x, 's) rbac_kind \<Rightarrow> 's kobj \<Rightarrow> string" where
  "rbac_namespace rk obj = (if rk_clusterScoped rk then '''' else ko_Namespace obj)"

definition rbac_run ::
  "('x, 's) rbac_kind \<Rightarrow> ('x, 'l, 'd) ctl_ops \<Rightarrow> ('k, 's) kube_client option \<Rightarrow>
   'x JobTask \<Rightarrow> ('k, 'l, 'd) ctl_env \<Rightarrow> (job_error option \<times> 'x JobTask \<times> ('k, 'l, 'd) ctl_env) option" where
  "rbac_run rk ops client job env =
    (case client of
       None \<Rightarrow> Some (Some (plain_error ''client is nil''), job, env)
     | Some cli \<Rightarrow>
    (case rbac_desired rk job of
       None \<Rightarrow> Some (Some (plain_error (''job info is not '' @ rk_type rk)), job, env)
     | Some obj \<Rightarrow>
        (let ns = rbac_namespace rk obj
         in with_share ops (rk_kind rk) (''resolve shared '' @ rk_word rk @ ''s failed'') (ko_Labels obj) (kc_List cli ns)
              (deploy_with cli (rbac_texts (rk_word rk) (ko_Name obj)) (rk_kind rk) ns
                 (rbac_decide (rk_differs rk) (jt_AppID job) obj) obj)
              job env)))"

text \<open>\<open>Clean\<close> falls back to the namespace of the job; there is none for the cluster.\<close>

definition rbac_clean ::
  "('x, 's) rbac_kind \<Rightarrow> ('k, 's) kube_client option \<Rightarrow> 'x JobTask \<Rightarrow> ('k, 'l, 'd) ctl_env \<Rightarrow> ('k, 'l, 'd) ctl_env" where
  "rbac_clean rk client job =
    clean_created client (rk_kind rk)
      (if rk_clusterScoped rk then (\<lambda>ns. '''') else namespace_or (jt_Namespace job))"

section \<open>The controllers\<close>

definition DeployServiceAccountJobCtl_run where "DeployServiceAccountJobCtl_run = rbac_run service_account_kind"
definition DeployServiceAccountJobCtl_Run where "DeployServiceAccountJobCtl_Run ops client = run_and_finish ops (DeployServiceAccountJobCtl_run ops client)"
definition DeployServiceAccountJobCtl_Clean where "DeployServiceAccountJobCtl_Clean = rbac_clean service_account_kind"
definition DeployServiceAccountJobCtl_SaveInfo where "DeployServiceAccountJobCtl_SaveInfo = save_info"

definition DeployRoleJobCtl_run where "DeployRoleJobCtl_run = rbac_run role_kind"
definition DeployRoleJobCtl_Run where "DeployRoleJobCtl_Run ops client = run_and_finish ops (DeployRoleJobCtl_run ops client)"
definition DeployRoleJobCtl_Clean where "DeployRoleJobCtl_Clean = rbac_clean role_kind"
definition DeployRoleJobCtl_SaveInfo where "DeployRoleJobCtl_SaveInfo = save_info"

definition DeployRoleBindingJobCtl_run where "DeployRoleBindingJobCtl_run = rbac_run role_binding_kind"
definition DeployRoleBindingJobCtl_Run where "DeployRoleBindingJobCtl_Run ops client = run_and_finish ops (DeployRoleBindingJobCtl_run ops client)"
definition DeployRoleBindingJobCtl_Clean where "DeployRoleBindingJobCtl_Clean = rbac_clean role_binding_kind"
definition DeployRoleBindingJobCtl_SaveInfo where "DeployRoleBindingJobCtl_SaveInfo = save_info"

definition DeployClusterRoleJobCtl_run where "DeployClusterRoleJobCtl_run = rbac_run cluster_role_kind"
definition DeployClusterRoleJobCtl_Run where "DeployClusterRoleJobCtl_Run ops client = run_and_finish ops (DeployClusterRoleJobCtl_run ops client)"
definition DeployClusterRoleJobCtl_Clean where "DeployClusterRoleJobCtl_Clean = rbac_clean cluster_role_kind"
definition DeployClusterRoleJobCtl_SaveInfo where "DeployClusterRoleJobCtl_SaveInfo = save_info"

definition DeployClusterRoleBindingJobCtl_run where "DeployClusterRoleBindingJobCtl_run = rbac_run cluster_role_binding_kind"
definition DeployClusterRoleBindingJobCtl_Run where "DeployClusterRoleBindingJobCtl_Run ops client =
  run_and_finish ops (DeployClusterRoleBindingJobCtl_run ops client)"
definition DeployClusterRoleBindingJobCtl_Clean where "DeployClusterRoleBindingJobCtl_Clean = rbac_clean cluster_role_binding_kind"
definition DeployClusterRoleBindingJobCtl_SaveInfo where "DeployClusterRoleBindingJobCtl_SaveInfo = save_info"


section \<open>What a run leaves\<close>

lemma same_map_eq: "same_map a b \<longleftrightarrow> map_of a = map_of b"
proof
  assume s: "same_map a b"
  show "map_of a = map_of b"
  proof (rule ext)
    fix k
    show "map_of a k = map_of b k"
    proof (cases "k \<in> fst ` set a \<union> fst ` set b")
      case True
      with s show ?thesis by (auto simp: same_map_def list_all_iff)
    next
      case False
      then have "map_of a k = None" "map_of b k = None" by (auto simp: map_of_eq_None_iff)
      then show ?thesis by simp
    qed
  qed
qed (simp add: same_map_def list_all_iff)

text \<open>An object differs from its stored form in none of the fields that are compared.\<close>

definition settles :: "('x, 's) rbac_kind \<Rightarrow> bool" where
  "settles rk \<longleftrightarrow> (\<forall>obj v. \<not> rk_differs rk (obj\<lparr>ko_ResourceVersion := v\<rparr>) obj)"

lemma kinds_settle:
  "settles service_account_kind" "settles role_kind" "settles role_binding_kind"
  "settles cluster_role_kind" "settles cluster_role_binding_kind"
  by (simp_all add: settles_def service_account_kind_def role_kind_def role_binding_kind_def
      cluster_role_kind_def cluster_role_binding_kind_def shouldUpdateServiceAccount_def shouldUpdateRole_def
      shouldUpdateRoleBinding_def shouldUpdateClusterRole_def shouldUpdateClusterRoleBinding_def
      meta_differs_def same_map_eq)

lemma managed_labelled [simp]: "isManagedResource (ensureManagedLabel obj appID) appID"
  by (cases "ko_Labels obj") (auto simp: isManagedResource_def ensureManagedLabel_def label_read_def update_conv')

lemma isManagedResource_version [simp]:
  "isManagedResource (obj\<lparr>ko_ResourceVersion := v\<rparr>) appID = isManagedResource obj appID"
  by (simp add: isManagedResource_def)

lemma rbac_desired_managed: "rbac_desired rk job = Some obj \<Longrightarrow> isManagedResource obj (jt_AppID job)"
  by (auto simp: rbac_desired_def)

lemma rbac_decide_name: "rbac_decide differs appID obj existing = Replace o1 \<Longrightarrow> ko_Name o1 = ko_Name obj"
  by (auto simp: rbac_decide_def split: if_splits)

lemma rbac_decide_Keep:
  "rbac_decide differs appID obj existing = Keep \<longleftrightarrow> \<not> isManagedResource existing appID \<or> \<not> differs existing obj"
  by (auto simp: rbac_decide_def)

lemma rbac_decide_Refuse [simp]: "rbac_decide differs appID obj existing \<noteq> Refuse e"
  by (auto simp: rbac_decide_def)

abbreviation rbac_key :: "('x, 's) rbac_kind \<Rightarrow> 's kobj \<Rightarrow> string \<times> string" where
  "rbac_key rk obj \<equiv> (rbac_namespace rk obj, ko_Name obj)"

text \<open>
  What is settled for a desired object: it is there, and either belongs to someone else or agrees
  with what is desired.
\<close>

definition settled :: "('x, 's) rbac_kind \<Rightarrow> string \<Rightarrow> 's kobj \<Rightarrow> 's kobj option \<Rightarrow> bool" where
  "settled rk appID obj found \<longleftrightarrow>
    (case found of None \<Rightarrow> False | Some o1 \<Rightarrow> \<not> isManagedResource o1 appID \<or> \<not> rk_differs rk o1 obj)"

lemma start_run_simps [simp]:
  "start_run ops job env =
    (job\<lparr>jt_Status := StatusRunning, jt_Error := ''''\<rparr>,
     ctl_ack ops (job\<lparr>jt_Status := StatusRunning, jt_Error := ''''\<rparr>) env)"
  by (simp add: start_run_def Let_def)

lemma rbac_desired_status [simp]: "rbac_desired rk (job\<lparr>jt_Status := s, jt_Error := e\<rparr>) = rbac_desired rk job"
  by (simp add: rbac_desired_def cong: if_cong)

lemma rbac_Run_cases:
  fixes env env' :: "('k, 'l, 'd) ctl_env" and job job' :: "'x JobTask"
  assumes "run_and_finish ops (rbac_run rk ops (Some cli)) job env = Some (err, job', env')"
    and "rbac_desired rk job = Some obj"
  obtains (failed) e where "err = Some e" "jt_Status job' = StatusFailed"
      "ce_cluster env' = ce_cluster env" "ce_tracker env' = ce_tracker env"
  | (skipped) "err = None" "jt_Status job' = StatusSkipped" "ce_cluster env' = ce_cluster env"
      "ce_tracker env' = ce_tracker env"
  | (deployed) env0 env1 :: "('k, 'l, 'd) ctl_env" and job1 :: "'x JobTask" and err1 where "ce_cluster env0 = ce_cluster env" "ce_tracker env0 = ce_tracker env"
      "deploy_with cli (rbac_texts (rk_word rk) (ko_Name obj)) (rk_kind rk) (rbac_namespace rk obj)
        (rbac_decide (rk_differs rk) (jt_AppID job) obj) obj job1 env0 = (err1, job1, env1)"
      "ce_cluster env' = ce_cluster env1" "ce_tracker env' = ce_tracker env1" "err = err1"
      "jt_Status job' = (if err1 = None then StatusCompleted else StatusFailed)"
proof -
  let ?job = "job\<lparr>jt_Status := StatusRunning, jt_Error := ''''\<rparr>"
  let ?deploy = "deploy_with cli (rbac_texts (rk_word rk) (ko_Name obj)) (rk_kind rk) (rbac_namespace rk obj)
        (rbac_decide (rk_differs rk) (jt_AppID job) obj) obj"
  from assms obtain job1 env1 where
    w: "with_share ops (rk_kind rk) (''resolve shared '' @ rk_word rk @ ''s failed'') (ko_Labels obj)
          (kc_List cli (rbac_namespace rk obj)) ?deploy ?job (ctl_ack ops ?job env) = Some (err, job1, env1)"
    and env': "env' = env1" and st: "jt_Status job' = (if err \<noteq> None then StatusFailed
        else if jt_Status job1 = StatusSkipped then StatusSkipped else StatusCompleted)"
    by (auto simp: run_and_finish_def rbac_run_def Let_def split: option.splits prod.splits if_splits)
  from w show thesis
  proof (cases rule: with_share_cases)
    case (failed e)
    with that(1) env' st show thesis by simp
  next
    case skipped
    with that(2) env' st show thesis by simp
  next
    case (deployed l env2)
    then have "job1 = ?job" by (auto simp: deploy_with_def split: prod.splits)
    with that(3) [of "(ctl_ack ops ?job env)\<lparr>ce_lock := l\<rparr>" ?job err env2] deployed env' st show thesis
      by simp
  qed
qed

context kube_api
begin

lemma rbac_converges:
  assumes "run_and_finish ops (rbac_run rk ops (Some cli)) job env = Some (None, job', env')"
    and "rbac_desired rk job = Some obj" "settles rk"
  shows "(jt_Status job' = StatusSkipped \<and> ce_cluster env' = ce_cluster env \<or>
      jt_Status job' = StatusCompleted \<and> settled rk (jt_AppID job) obj (objects (ce_cluster env') (rbac_key rk obj))) \<and>
    (\<forall>key. key \<noteq> rbac_key rk obj \<longrightarrow> objects (ce_cluster env') key = objects (ce_cluster env) key) \<and>
    (\<forall>o1. objects (ce_cluster env) (rbac_key rk obj) = Some o1 \<longrightarrow> \<not> isManagedResource o1 (jt_AppID job) \<longrightarrow>
      objects (ce_cluster env') (rbac_key rk obj) = Some o1)"
    using assms(1,2)
  proof (cases rule: rbac_Run_cases)
    case (deployed env0 env1 job1 err1)
    then have r: "reconcile cli (rbac_texts (rk_word rk) (ko_Name obj)) (rk_kind rk) (rbac_namespace rk obj)
        (rbac_decide (rk_differs rk) (jt_AppID job) obj) obj env0 = (None, env1)"
      by (auto simp: deploy_with_def split: prod.splits)
    have st: "jt_Status job' = StatusCompleted" using deployed by simp
    from r show ?thesis
    proof (cases rule: reconcile_ok)
      case (kept existing)
      then show ?thesis using deployed st by (auto simp: settled_def rbac_decide_Keep)
    next
      case (replaced existing o2 o3)
      then have o2: "ko_Name o2 = ko_Name obj" "o2 = obj\<lparr>ko_ResourceVersion := ko_ResourceVersion existing\<rparr>"
        "isManagedResource existing (jt_AppID job)"
        by (auto simp: rbac_decide_def split: if_splits)
      moreover from o2(2) replaced obtain v where "o3 = obj\<lparr>ko_ResourceVersion := v\<rparr>" by auto
      then have "\<not> rk_differs rk o3 obj" using assms(3) by (simp add: settles_def)
      ultimately show ?thesis using deployed st replaced by (simp add: settled_def)
    next
      case (created o3)
      moreover from created obtain v where "o3 = obj\<lparr>ko_ResourceVersion := v\<rparr>" by auto
      then have "\<not> rk_differs rk o3 obj" using assms(3) by (simp add: settles_def)
      ultimately show ?thesis using deployed st by (simp add: settled_def)
    qed
qed auto

text \<open>Where an object is settled, a run that returns without an error writes nothing.\<close>

lemma rbac_settled_run:
  assumes "run_and_finish ops (rbac_run rk ops (Some cli)) job env = Some (None, job', env')"
    and "rbac_desired rk job = Some obj"
    and "settled rk (jt_AppID job) obj (objects (ce_cluster env) (rbac_key rk obj))"
  shows "ce_cluster env' = ce_cluster env"
  using assms(1,2)
proof (cases rule: rbac_Run_cases)
  case (deployed env0 env1 job1 err1)
  then have r: "reconcile cli (rbac_texts (rk_word rk) (ko_Name obj)) (rk_kind rk) (rbac_namespace rk obj)
      (rbac_decide (rk_differs rk) (jt_AppID job) obj) obj env0 = (None, env1)"
    by (auto simp: deploy_with_def split: prod.splits)
  from r show ?thesis
  proof (cases rule: reconcile_ok)
    case (kept existing)
    then show ?thesis using deployed by simp
  next
    case (replaced existing o2 o3)
    then show ?thesis using deployed assms(3) by (auto simp: settled_def rbac_decide_def split: if_splits)
  next
    case (created o3)
    then show ?thesis using deployed assms(3) by (simp add: settled_def)
  qed
qed auto

end

end
