(* ===== verification/Kube_Workloads.thy ===== *)
theory Kube_Workloads
  imports Kube_Cluster
begin

text \<open>
  The controllers that wait for what they deploy: \<open>job_deploy.go\<close>, \<open>job_statefulset.go\<close>,
  \<open>job_pvc.go\<close> and \<open>job_ingress.go\<close> of \<open>event/workflow/job\<close>.

  A deployment is patched by a server-side apply, which is the \<open>kc_Update\<close> of its client. The
  string form of a quantity and the test for zero belong to the Kubernetes library and are a
  parameter. What a polling loop reads at its ticks is an argument, as it depends on what the
  cluster does meanwhile.
\<close>

section \<open>Workloads\<close>

record 'q workload =
  wk_Replicas :: "int option"
  wk_ReadyReplicas :: int
  wk_Selector :: labels
  wk_TemplateLabels :: labels
  wk_Pod :: "'q PodSpec"
  wk_TerminationGracePeriodSeconds :: "int option"
  wk_ClaimTemplates :: "(string \<times> 'q PersistentVolumeClaimSpec) list"

definition workload_kobj ::
  "'q trait_spec client_object \<Rightarrow> workload_spec \<Rightarrow> 'q PodSpec \<Rightarrow> (string \<times> 'q PersistentVolumeClaimSpec) list \<Rightarrow>
   'q workload kobj" where
  "workload_kobj obj w pod templates =
    \<lparr>ko_Name = co_Name obj, ko_Namespace = co_Namespace obj, ko_Labels = co_Labels obj, ko_Annotations = [],
     ko_ResourceVersion = '''',
     ko_Spec = \<lparr>wk_Replicas = Some (wl_Replicas w), wk_ReadyReplicas = 0, wk_Selector = co_Labels obj,
       wk_TemplateLabels = co_Labels obj, wk_Pod = pod,
       wk_TerminationGracePeriodSeconds = wl_TerminationGracePeriodSeconds w, wk_ClaimTemplates = templates\<rparr>\<rparr>"

text \<open>The type assertion on \<open>job.JobInfo\<close>, for a workload with or without processed traits.\<close>

fun workload_object :: "ObjectKind \<Rightarrow> 'q trait_spec job_info \<Rightarrow> 'q workload kobj option" where
  "workload_object kind (InfoObject obj) =
     (if co_Kind obj \<noteq> kind then None
      else case co_Spec obj of
          WorkloadSpec w \<Rightarrow> Some (workload_kobj obj w (pod_of_workload w) [])
        | TraitSpec (WorkloadPod w pod templates) \<Rightarrow> Some (workload_kobj obj w pod templates)
        | _ \<Rightarrow> None)"
| "workload_object kind info = None"


section \<open>Has a deployment changed?\<close>

record 'q quantity_ops =
  qo_String :: "'q \<Rightarrow> string"
  qo_IsZero :: "'q \<Rightarrow> bool"

definition getResourceValueSmart :: "'q quantity_ops \<Rightarrow> (string \<times> 'q) list \<Rightarrow> string \<Rightarrow> string" where
  "getResourceValueSmart qo resources name =
    (case map_of resources name of
       None \<Rightarrow> ''''
     | Some q \<Rightarrow> if qo_IsZero qo q then '''' else qo_String qo q)"

definition compareResourceListSmart :: "'q quantity_ops \<Rightarrow> (string \<times> 'q) list \<Rightarrow> (string \<times> 'q) list \<Rightarrow> bool" where
  "compareResourceListSmart qo a b \<longleftrightarrow>
    getResourceValueSmart qo a ''cpu'' = getResourceValueSmart qo b ''cpu'' \<and>
    getResourceValueSmart qo a ''memory'' = getResourceValueSmart qo b ''memory''"

definition requests_of :: "'q ResourceRequirements option \<Rightarrow> (string \<times> 'q) list" where
  "requests_of r = (case r of None \<Rightarrow> [] | Some x \<Rightarrow> rq_Requests x)"

definition limits_of :: "'q ResourceRequirements option \<Rightarrow> (string \<times> 'q) list" where
  "limits_of r = (case r of None \<Rightarrow> [] | Some x \<Rightarrow> rq_Limits x)"

definition compareResources ::
  "'q quantity_ops \<Rightarrow> 'q ResourceRequirements option \<Rightarrow> 'q ResourceRequirements option \<Rightarrow> bool" where
  "compareResources qo a b \<longleftrightarrow>
    compareResourceListSmart qo (requests_of a) (requests_of b) \<and>
    compareResourceListSmart qo (limits_of a) (limits_of b)"

definition compareContainerPorts :: "int list \<Rightarrow> int list \<Rightarrow> bool" where
  "compareContainerPorts = list_all2 (=)"

text \<open>\<open>Value\<close> is empty for a variable that is taken from elsewhere.\<close>

fun env_Value :: "EnvValue \<Rightarrow> string" where
  "env_Value (EnvStatic v) = v"
| "env_Value _ = ''''"

definition compareEnvVars :: "EnvVar list \<Rightarrow> EnvVar list \<Rightarrow> bool" where
  "compareEnvVars = list_all2 (\<lambda>a b. ev_Name a = ev_Name b \<and> env_Value (ev_Value a) = env_Value (ev_Value b))"

definition compareVolumeMounts :: "VolumeMount list \<Rightarrow> VolumeMount list \<Rightarrow> bool" where
  "compareVolumeMounts = list_all2 (\<lambda>a b. vm_MountPath a = vm_MountPath b \<and> vm_Name a = vm_Name b)"

definition config_map_name :: "Volume \<Rightarrow> string option" where
  "config_map_name v = (case vo_Source v of VolConfigMap n \<Rightarrow> Some n | _ \<Rightarrow> None)"

definition compareVolumes :: "Volume list \<Rightarrow> Volume list \<Rightarrow> bool" where
  "compareVolumes = list_all2 (\<lambda>a b. vo_Name a = vo_Name b \<and> config_map_name a = config_map_name b)"

definition container_same :: "'q quantity_ops \<Rightarrow> 'q Container \<Rightarrow> 'q Container \<Rightarrow> bool" where
  "container_same qo a b \<longleftrightarrow>
    cn_Image a = cn_Image b \<and> compareContainerPorts (cn_Ports a) (cn_Ports b) \<and>
    compareEnvVars (cn_Env a) (cn_Env b) \<and> compareResources qo (cn_Resources a) (cn_Resources b) \<and>
    compareVolumeMounts (cn_VolumeMounts a) (cn_VolumeMounts b)"

definition isDeploymentChanged :: "'q quantity_ops \<Rightarrow> 'q workload kobj \<Rightarrow> 'q workload kobj \<Rightarrow> bool" where
  "isDeploymentChanged qo current desired \<longleftrightarrow>
    (let p1 = wk_Pod (ko_Spec current); p2 = wk_Pod (ko_Spec desired) in
     \<not> list_all2 (container_same qo) (pod_Containers p1) (pod_Containers p2) \<or>
     \<not> compareVolumes (pod_Volumes p1) (pod_Volumes p2))"

section \<open>The deployment controller\<close>

text \<open>The selector and the pod labels stay; \<open>cleanObjectMeta\<close> clears the version again.\<close>

definition deployment_decide :: "'q quantity_ops \<Rightarrow> 'q workload kobj \<Rightarrow> 'q workload kobj \<Rightarrow> 'q workload decision" where
  "deployment_decide qo desired existing =
    (if isDeploymentChanged qo existing desired
     then Replace (desired\<lparr>ko_ResourceVersion := '''',
        ko_Spec := (ko_Spec desired)\<lparr>wk_Selector := wk_Selector (ko_Spec existing),
                                     wk_TemplateLabels := wk_TemplateLabels (ko_Spec existing)\<rparr>\<rparr>)
     else Keep)"

definition deployment_texts :: reconcile_texts where
  "deployment_texts = \<lparr>rt_get = wrap_error ''failed to check deployment existence'', rt_create = (\<lambda>e. e),
     rt_update = wrap_error ''apply deployment failed''\<rparr>"

definition deployment_desired :: "'q trait_spec JobTask \<Rightarrow> 'q workload kobj option" where
  "deployment_desired job =
    map_option (\<lambda>d. d\<lparr>ko_Name := WebServiceName (jt_Name job) (jt_AppID job)\<rparr>)
      (Option.bind (jt_JobInfo job) (workload_object KindDeployment))"

definition DeployJobCtl_run ::
  "'q quantity_ops \<Rightarrow> ('q trait_spec, 'l, 'd) ctl_ops \<Rightarrow> ('k, 'q workload) kube_client option \<Rightarrow>
   'q trait_spec JobTask \<Rightarrow> ('k, 'l, 'd) ctl_env \<Rightarrow>
   (job_error option \<times> 'q trait_spec JobTask \<times> ('k, 'l, 'd) ctl_env) option" where
  "DeployJobCtl_run qo ops client job env =
    (case client of
       None \<Rightarrow> Some (Some (plain_error ''client is nil''), job, env)
     | Some cli \<Rightarrow>
    (case deployment_desired job of
       None \<Rightarrow> Some (Some (plain_error ''deploy Job Job.Info Conversion type failure''), job, env)
     | Some deploy \<Rightarrow>
         with_share ops ''deployment'' ''resolve shared deployments failed'' (ko_Labels deploy)
           (kc_List cli (ko_Namespace deploy))
           (deploy_with cli deployment_texts ''deployment'' (ko_Namespace deploy)
              (deployment_decide qo deploy) deploy)
           job env))"

text \<open>\<open>getDeploymentStatus\<close> and its use at a tick: an absent deployment is not ready yet.\<close>

definition workload_status :: "kube_error + 'q workload kobj \<Rightarrow> job_error + bool" where
  "workload_status answer =
    (case answer of
       Inl (KubeNotFound _) \<Rightarrow> Inr False
     | Inl (KubeOther e) \<Rightarrow> Inl e
     | Inr w \<Rightarrow> Inr (wk_Replicas (ko_Spec w) = Some (wk_ReadyReplicas (ko_Spec w))))"

definition check_as :: "string \<Rightarrow> ('a \<Rightarrow> job_error + bool) \<Rightarrow> 'a \<Rightarrow> job_error + bool" where
  "check_as text status x = (case status x of Inl e \<Rightarrow> Inl (wrap_error text e) | Inr b \<Rightarrow> Inr b)"

definition DeployJobCtl_waitPolling ::
  "(kube_error + 'q workload kobj) wait_obs list \<Rightarrow> 'x JobTask \<Rightarrow> job_error option option" where
  "DeployJobCtl_waitPolling obs job =
    (let what = ''deployment '' @ WebServiceName (jt_Name job) (jt_AppID job)
     in wait_loop (cancelled_error what) (timeout_error what)
          (check_as (''wait '' @ what @ '' error'') workload_status) obs)"

text \<open>
  What the informer-based wait returns, where there is a global waiter: still waiting, ready, or
  a \<open>WaitError\<close> with its status, which becomes a \<open>StatusError\<close>.
\<close>

type_synonym waiter_result = "(Status \<times> job_error) option option"

definition waiter_error :: "Status \<times> job_error \<Rightarrow> job_error" where
  "waiter_error we = (case we of (st, e) \<Rightarrow> e\<lparr>je_status := Some st\<rparr>)"

definition DeployJobCtl_wait ::
  "waiter_result option \<Rightarrow> (kube_error + 'q workload kobj) wait_obs list \<Rightarrow> 'x JobTask \<Rightarrow> job_error option option" where
  "DeployJobCtl_wait waiter obs job =
    (case waiter of
       Some res \<Rightarrow> map_option (map_option waiter_error) res
     | None \<Rightarrow> DeployJobCtl_waitPolling obs job)"

definition DeployJobCtl_Run ::
  "'q quantity_ops \<Rightarrow> ('q trait_spec, 'l, 'd) ctl_ops \<Rightarrow> ('k, 'q workload) kube_client option \<Rightarrow>
   waiter_result option \<Rightarrow> (kube_error + 'q workload kobj) wait_obs list \<Rightarrow>
   'q trait_spec JobTask \<Rightarrow> ('k, 'l, 'd) ctl_env \<Rightarrow>
   (job_error option \<times> 'q trait_spec JobTask \<times> ('k, 'l, 'd) ctl_env) option" where
  "DeployJobCtl_Run qo ops client waiter obs =
    run_and_wait ops (DeployJobCtl_run qo ops client) (DeployJobCtl_wait waiter obs)"

definition DeployJobCtl_Clean ::
  "('k, 's) kube_client option \<Rightarrow> 'x JobTask \<Rightarrow> ('k, 'l, 'd) ctl_env \<Rightarrow> ('k, 'l, 'd) ctl_env" where
  "DeployJobCtl_Clean client job = clean_created client ''deployment'' (namespace_or (jt_Namespace job))"

definition DeployJobCtl_SaveInfo where "DeployJobCtl_SaveInfo = save_info"

section \<open>The stateful set controller\<close>

definition stateful_set_desired :: "'q trait_spec JobTask \<Rightarrow> 'q workload kobj option" where
  "stateful_set_desired job =
    map_option (\<lambda>s. s\<lparr>ko_Name := StoreServerName (jt_Name job) (jt_AppID job),
                      ko_Namespace := namespace_or (jt_Namespace job) (ko_Namespace s)\<rparr>)
      (Option.bind (jt_JobInfo job) (workload_object KindStatefulSet))"

text \<open>A stateful set that exists is an error.\<close>

definition stateful_set_where :: "'s kobj \<Rightarrow> string" where
  "stateful_set_where s = ''statefulset '' @ ko_Namespace s @ ''/'' @ ko_Name s"

definition stateful_set_texts :: "'s kobj \<Rightarrow> reconcile_texts" where
  "stateful_set_texts s = \<lparr>rt_get = wrap_error (''failed to check '' @ stateful_set_where s @ '' existence''),
     rt_create = (\<lambda>e. e), rt_update = (\<lambda>e. e)\<rparr>"

definition DeployStatefulSetJobCtl_run ::
  "('q trait_spec, 'l, 'd) ctl_ops \<Rightarrow> ('k, 'q workload) kube_client option \<Rightarrow>
   'q trait_spec JobTask \<Rightarrow> ('k, 'l, 'd) ctl_env \<Rightarrow>
   (job_error option \<times> 'q trait_spec JobTask \<times> ('k, 'l, 'd) ctl_env) option" where
  "DeployStatefulSetJobCtl_run ops client job env =
    (case client of
       None \<Rightarrow> Some (Some (plain_error ''client is nil''), job, env)
     | Some cli \<Rightarrow>
    (case stateful_set_desired job of
       None \<Rightarrow> Some (Some (plain_error ''deploy Job Job.Info Conversion type failure''), job, env)
     | Some s \<Rightarrow>
         with_share ops ''statefulset'' ''resolve shared statefulsets failed'' (ko_Labels s)
           (kc_List cli (ko_Namespace s))
           (deploy_with cli (stateful_set_texts s) ''statefulset'' (ko_Namespace s)
              (\<lambda>existing. Refuse (plain_error (stateful_set_where s @ '' already exists''))) s)
           job env))"

definition DeployStatefulSetJobCtl_waitPolling ::
  "(kube_error + 'q workload kobj) wait_obs list \<Rightarrow> 'x JobTask \<Rightarrow> job_error option option" where
  "DeployStatefulSetJobCtl_waitPolling obs job =
    (let what = ''statefulset '' @ StoreServerName (jt_Name job) (jt_AppID job)
     in wait_loop (cancelled_error what) (timeout_error what)
          (check_as (''wait '' @ what @ '' error'') workload_status) obs)"

definition DeployStatefulSetJobCtl_wait ::
  "waiter_result option \<Rightarrow> (kube_error + 'q workload kobj) wait_obs list \<Rightarrow> 'x JobTask \<Rightarrow> job_error option option" where
  "DeployStatefulSetJobCtl_wait waiter obs job =
    (case waiter of
       Some res \<Rightarrow> map_option (map_option waiter_error) res
     | None \<Rightarrow> DeployStatefulSetJobCtl_waitPolling obs job)"

definition DeployStatefulSetJobCtl_Run ::
  "('q trait_spec, 'l, 'd) ctl_ops \<Rightarrow> ('k, 'q workload) kube_client option \<Rightarrow>
   waiter_result option \<Rightarrow> (kube_error + 'q workload kobj) wait_obs list \<Rightarrow>
   'q trait_spec JobTask \<Rightarrow> ('k, 'l, 'd) ctl_env \<Rightarrow>
   (job_error option \<times> 'q trait_spec JobTask \<times> ('k, 'l, 'd) ctl_env) option" where
  "DeployStatefulSetJobCtl_Run ops client waiter obs =
    run_and_wait ops (DeployStatefulSetJobCtl_run ops client) (DeployStatefulSetJobCtl_wait waiter obs)"

definition DeployStatefulSetJobCtl_Clean ::
  "('k, 's) kube_client option \<Rightarrow> 'x JobTask \<Rightarrow> ('k, 'l, 'd) ctl_env \<Rightarrow> ('k, 'l, 'd) ctl_env" where
  "DeployStatefulSetJobCtl_Clean client job = clean_created client ''statefulset'' (namespace_or (jt_Namespace job))"

definition DeployStatefulSetJobCtl_SaveInfo where "DeployStatefulSetJobCtl_SaveInfo = save_info"

section \<open>The claim controller\<close>

record 'q claim =
  cl_Requests :: "(string \<times> 'q) list"
  cl_AccessModes :: "string list"
  cl_StorageClassName :: "string option"
  cl_Phase :: string

fun claim_object :: "'q trait_spec job_info \<Rightarrow> 'q claim kobj option" where
  "claim_object (InfoObject obj) =
     (case co_Spec obj of
        TraitSpec (ClaimSpec s) \<Rightarrow>
          Some \<lparr>ko_Name = co_Name obj, ko_Namespace = co_Namespace obj, ko_Labels = co_Labels obj,
            ko_Annotations = pvc_Annotations s, ko_ResourceVersion = '''',
            ko_Spec = \<lparr>cl_Requests = [(''storage'', pvc_Storage s)], cl_AccessModes = [''ReadWriteOnce''],
              cl_StorageClassName = pvc_StorageClassName s, cl_Phase = ''''\<rparr>\<rparr>
      | _ \<Rightarrow> None)"
| "claim_object info = None"

definition getPVCStorageValue :: "'q quantity_ops \<Rightarrow> (string \<times> 'q) list \<Rightarrow> string" where
  "getPVCStorageValue qo resources =
    (case map_of resources ''storage'' of
       None \<Rightarrow> ''1Gi''
     | Some q \<Rightarrow> if qo_IsZero qo q then ''1Gi'' else qo_String qo q)"

definition compareStorageSmart :: "'q quantity_ops \<Rightarrow> (string \<times> 'q) list \<Rightarrow> (string \<times> 'q) list \<Rightarrow> bool" where
  "compareStorageSmart qo a b \<longleftrightarrow> getPVCStorageValue qo a = getPVCStorageValue qo b"

definition shouldUpdatePVC :: "'q quantity_ops \<Rightarrow> 'q claim kobj \<Rightarrow> 'q claim kobj \<Rightarrow> bool" where
  "shouldUpdatePVC qo existing desired \<longleftrightarrow>
    \<not> compareStorageSmart qo (cl_Requests (ko_Spec existing)) (cl_Requests (ko_Spec desired)) \<or>
    cl_AccessModes (ko_Spec existing) \<noteq> cl_AccessModes (ko_Spec desired)"

definition claim_decide :: "'q quantity_ops \<Rightarrow> 'q claim kobj \<Rightarrow> 'q claim kobj \<Rightarrow> 'q claim decision" where
  "claim_decide qo desired existing =
    (if shouldUpdatePVC qo existing desired
     then Replace (desired\<lparr>ko_ResourceVersion := ko_ResourceVersion existing\<rparr>) else Keep)"

definition claim_texts :: "string \<Rightarrow> reconcile_texts" where
  "claim_texts name = \<lparr>rt_get = wrap_error ''failed to check PVC existence'',
     rt_create = wrap_error (''failed to create PVC '' @ quoted name),
     rt_update = wrap_error (''failed to update PVC '' @ quoted name)\<rparr>"

definition DeployPVCJobCtl_run ::
  "'q quantity_ops \<Rightarrow> ('q trait_spec, 'l, 'd) ctl_ops \<Rightarrow> ('k, 'q claim) kube_client option \<Rightarrow>
   'q trait_spec JobTask \<Rightarrow> ('k, 'l, 'd) ctl_env \<Rightarrow>
   (job_error option \<times> 'q trait_spec JobTask \<times> ('k, 'l, 'd) ctl_env) option" where
  "DeployPVCJobCtl_run qo ops client job env =
    (case client of
       None \<Rightarrow> Some (Some (plain_error ''client is nil''), job, env)
     | Some cli \<Rightarrow>
    (case Option.bind (jt_JobInfo job) claim_object of
       None \<Rightarrow> Some (Some (plain_error ''deploy pvc job info conversion type failure''), job, env)
     | Some pvc \<Rightarrow>
         with_share ops ''pvc'' ''resolve shared pvc failed'' (ko_Labels pvc) (kc_List cli (ko_Namespace pvc))
           (deploy_with cli (claim_texts (ko_Name pvc)) ''pvc'' (ko_Namespace pvc) (claim_decide qo pvc) pvc)
           job env))"

text \<open>A claim that is bound or pending is ready.\<close>

definition getPVCStatus :: "kube_error + 'q claim kobj \<Rightarrow> job_error + bool" where
  "getPVCStatus answer =
    (case answer of
       Inl (KubeNotFound _) \<Rightarrow> Inr False
     | Inl (KubeOther e) \<Rightarrow> Inl e
     | Inr pvc \<Rightarrow> Inr (cl_Phase (ko_Spec pvc) = ''Bound'' \<or> cl_Phase (ko_Spec pvc) = ''Pending''))"

definition DeployPVCJobCtl_wait ::
  "(kube_error + 'q claim kobj) wait_obs list \<Rightarrow> 'q trait_spec JobTask \<Rightarrow> job_error option option" where
  "DeployPVCJobCtl_wait obs job =
    (let found = Option.bind (jt_JobInfo job) claim_object;
         what = ''pvc '' @ (case found of Some p \<Rightarrow> ko_Name p | None \<Rightarrow> jt_Name job)
     in wait_loop (cancelled_error what) (timeout_error what)
          (check_as (''wait '' @ what @ '' error'')
             (\<lambda>answer. if found = None then Inl (plain_error (''failed to get PVC info from job: '' @ jt_Name job))
                       else getPVCStatus answer)) obs)"

definition DeployPVCJobCtl_Run ::
  "'q quantity_ops \<Rightarrow> ('q trait_spec, 'l, 'd) ctl_ops \<Rightarrow> ('k, 'q claim) kube_client option \<Rightarrow>
   (kube_error + 'q claim kobj) wait_obs list \<Rightarrow> 'q trait_spec JobTask \<Rightarrow> ('k, 'l, 'd) ctl_env \<Rightarrow>
   (job_error option \<times> 'q trait_spec JobTask \<times> ('k, 'l, 'd) ctl_env) option" where
  "DeployPVCJobCtl_Run qo ops client obs =
    run_and_wait ops (DeployPVCJobCtl_run qo ops client) (DeployPVCJobCtl_wait obs)"

definition DeployPVCJobCtl_Clean ::
  "('k, 's) kube_client option \<Rightarrow> 'x JobTask \<Rightarrow> ('k, 'l, 'd) ctl_env \<Rightarrow> ('k, 'l, 'd) ctl_env" where
  "DeployPVCJobCtl_Clean client job = clean_created client ''pvc'' (namespace_or (jt_Namespace job))"

definition DeployPVCJobCtl_SaveInfo where "DeployPVCJobCtl_SaveInfo = save_info"

section \<open>The ingress controller\<close>

fun ingress_object :: "'q trait_spec job_info \<Rightarrow> IngressObject kobj option" where
  "ingress_object (InfoObject obj) =
     (case co_Spec obj of
        TraitSpec (IngressSpec s) \<Rightarrow>
          Some \<lparr>ko_Name = co_Name obj, ko_Namespace = co_Namespace obj, ko_Labels = co_Labels obj,
            ko_Annotations = io_Annotations s, ko_ResourceVersion = '''', ko_Spec = s\<rparr>
      | _ \<Rightarrow> None)"
| "ingress_object info = None"

definition ingress_desired :: "'q trait_spec JobTask \<Rightarrow> IngressObject kobj option" where
  "ingress_desired job =
    map_option (\<lambda>g. g\<lparr>ko_Namespace := namespace_or (jt_Namespace job) (ko_Namespace g)\<rparr>)
      (Option.bind (jt_JobInfo job) ingress_object)"

text \<open>An existing ingress is always updated; without labels of its own the new one keeps the old.\<close>

definition ingress_decide :: "IngressObject kobj \<Rightarrow> IngressObject kobj \<Rightarrow> IngressObject decision" where
  "ingress_decide desired existing =
    Replace (desired\<lparr>ko_ResourceVersion := ko_ResourceVersion existing,
      ko_Labels := (if ko_Labels desired = [] then ko_Labels existing else ko_Labels desired)\<rparr>)"

definition ingress_texts :: "'s kobj \<Rightarrow> reconcile_texts" where
  "ingress_texts g =
    (let at = (\<lambda>verb. verb @ '' ingress '' @ ko_Namespace g @ ''/'' @ ko_Name g @ '' failed'')
     in \<lparr>rt_get = wrap_error (at ''get''), rt_create = (\<lambda>e. e), rt_update = wrap_error (at ''update'')\<rparr>)"

definition DeployIngressJobCtl_run ::
  "('q trait_spec, 'l, 'd) ctl_ops \<Rightarrow> ('k, IngressObject) kube_client option \<Rightarrow>
   'q trait_spec JobTask \<Rightarrow> ('k, 'l, 'd) ctl_env \<Rightarrow>
   (job_error option \<times> 'q trait_spec JobTask \<times> ('k, 'l, 'd) ctl_env) option" where
  "DeployIngressJobCtl_run ops client job env =
    (case client of
       None \<Rightarrow> Some (Some (plain_error ''client is nil''), job, env)
     | Some cli \<Rightarrow>
    (case ingress_desired job of
       None \<Rightarrow> Some (Some (plain_error ''deploy job Job.Info conversion type failure''), job, env)
     | Some g \<Rightarrow>
         with_share ops ''ingress'' ''resolve shared ingress failed'' (ko_Labels g) (kc_List cli (ko_Namespace g))
           (deploy_with cli (ingress_texts g) ''ingress'' (ko_Namespace g) (ingress_decide g) g)
           job env))"

text \<open>\<open>ingressReady\<close> holds for every ingress that is there.\<close>

definition ingress_status :: "kube_error + IngressObject kobj \<Rightarrow> job_error + bool" where
  "ingress_status answer =
    (case answer of
       Inl (KubeNotFound _) \<Rightarrow> Inr False
     | Inl (KubeOther e) \<Rightarrow> Inl e
     | Inr g \<Rightarrow> Inr True)"

definition DeployIngressJobCtl_wait ::
  "(kube_error + IngressObject kobj) wait_obs list \<Rightarrow> 'q trait_spec JobTask \<Rightarrow> job_error option option" where
  "DeployIngressJobCtl_wait obs job =
    (let name = (case Option.bind (jt_JobInfo job) ingress_object of
                   Some g \<Rightarrow> if ko_Name g \<noteq> '''' then ko_Name g else jt_Name job
                 | None \<Rightarrow> jt_Name job);
         what = ''ingress '' @ name
     in wait_loop (cancelled_error what) (timeout_error what)
          (check_as (''wait '' @ what @ '' error'') ingress_status) obs)"

definition DeployIngressJobCtl_Run ::
  "('q trait_spec, 'l, 'd) ctl_ops \<Rightarrow> ('k, IngressObject) kube_client option \<Rightarrow>
   (kube_error + IngressObject kobj) wait_obs list \<Rightarrow> 'q trait_spec JobTask \<Rightarrow> ('k, 'l, 'd) ctl_env \<Rightarrow>
   (job_error option \<times> 'q trait_spec JobTask \<times> ('k, 'l, 'd) ctl_env) option" where
  "DeployIngressJobCtl_Run ops client obs =
    run_and_wait ops (DeployIngressJobCtl_run ops client) (DeployIngressJobCtl_wait obs)"

definition DeployIngressJobCtl_Clean ::
  "('k, 's) kube_client option \<Rightarrow> 'x JobTask \<Rightarrow> ('k, 'l, 'd) ctl_env \<Rightarrow> ('k, 'l, 'd) ctl_env" where
  "DeployIngressJobCtl_Clean client job = clean_created client ''ingress'' (namespace_or (jt_Namespace job))"

definition DeployIngressJobCtl_SaveInfo where "DeployIngressJobCtl_SaveInfo = save_info"


section \<open>A run and its clean-up\<close>

lemma run_and_wait_env:
  assumes "run_and_wait ops run wait job env = Some (err, job', env')"
  obtains err1 job1 where
    "run (job\<lparr>jt_Status := StatusRunning, jt_Error := ''''\<rparr>)
       (ctl_ack ops (job\<lparr>jt_Status := StatusRunning, jt_Error := ''''\<rparr>) env) = Some (err1, job1, env')"
    "err1 \<noteq> None \<Longrightarrow> err = err1"
  using assms
  by (auto simp: run_and_wait_def start_run_def Let_def split: option.splits if_splits prod.splits)

context kube_server
begin

text \<open>
  Whatever the outcome of a run with a fresh tracker, the \<open>Clean\<close> after it gives back the names
  of before, and every other object as it was.
\<close>

lemma run_clean:
  assumes "run_and_wait ops (with_share ops kind text labels list (deploy_with cli texts kind ns decide desired)) wait
      job env = Some (err, job', env')"
    and "\<And>existing obj. decide existing = Replace obj \<Longrightarrow> ko_Name obj = ko_Name desired"
    and "ce_tracker env = Some []" "namespace ns = ns"
    and "\<And>k. fst (kc_Delete cli ns (ko_Name desired) k) = None \<or>
      (\<exists>t. fst (kc_Delete cli ns (ko_Name desired) k) = Some (KubeNotFound t))"
  shows "dom (objects (ce_cluster (clean_created (Some cli) kind namespace env'))) = dom (objects (ce_cluster env)) \<and>
    (\<forall>key. key \<noteq> (ns, ko_Name desired) \<longrightarrow>
      objects (ce_cluster (clean_created (Some cli) kind namespace env')) key = objects (ce_cluster env) key)"
proof -
  let ?job = "job\<lparr>jt_Status := StatusRunning, jt_Error := ''''\<rparr>"
  obtain err1 job1 where "with_share ops kind text labels list (deploy_with cli texts kind ns decide desired)
      ?job (ctl_ack ops ?job env) = Some (err1, job1, env')"
    by (rule run_and_wait_env [OF assms(1)])
  then show ?thesis
  proof (cases rule: with_share_cases)
    case (deployed l env1)
    let ?clean = "clean_loop cli namespace (resourcesForCleanup (ce_tracker env1) kind) (ce_cluster env1)"
    have "dom (objects ?clean) = dom (objects (ce_cluster ((ctl_ack ops ?job env)\<lparr>ce_lock := l\<rparr>)))"
      by (rule deploy_clean(1) [OF deployed(1)])
        (erule assms(2) | rule assms(4) | rule assms(5) | simp add: assms(3))+
    moreover have "objects ?clean key = objects (ce_cluster ((ctl_ack ops ?job env)\<lparr>ce_lock := l\<rparr>)) key"
      if "key \<noteq> (ns, ko_Name desired)" for key
      by (rule deploy_clean(2) [OF deployed(1) _ _ _ _ that])
        (erule assms(2) | rule assms(4) | rule assms(5) | simp add: assms(3))+
    ultimately show ?thesis using deployed(2,3) by (simp add: clean_created_def)
  qed (simp_all add: clean_created_def assms(3) resourcesForCleanup_one)
qed

end

lemma deployment_decide_name: "deployment_decide qo d existing = Replace obj \<Longrightarrow> ko_Name obj = ko_Name d"
  by (auto simp: deployment_decide_def split: if_splits)

lemma claim_decide_name: "claim_decide qo d existing = Replace obj \<Longrightarrow> ko_Name obj = ko_Name d"
  by (auto simp: claim_decide_def split: if_splits)

lemma ingress_decide_name: "ingress_decide d existing = Replace obj \<Longrightarrow> ko_Name obj = ko_Name d"
  by (auto simp: ingress_decide_def)

text \<open>Clean falls back to the namespace of the job; a deployed object has one of its own.\<close>

lemma namespace_or_nonempty [simp]: "ns \<noteq> '''' \<Longrightarrow> namespace_or fallback ns = ns"
  by (simp add: namespace_or_def)

text \<open>When a polling loop returns, and with what.\<close>

lemma wait_loop_returns:
  "list_ex (\<lambda>ob. case ob of WaitTick x \<Rightarrow> False | _ \<Rightarrow> True) obs \<Longrightarrow> wait_loop cancelled timedOut check obs \<noteq> None"
  by (induction cancelled timedOut check obs rule: wait_loop.induct) (auto split: sum.splits bool.splits)

lemma workload_status_ready:
  "check_as text workload_status x = Inr True \<longleftrightarrow>
    (\<exists>w. x = Inr w \<and> wk_Replicas (ko_Spec w) = Some (wk_ReadyReplicas (ko_Spec w)))"
  by (auto simp: check_as_def workload_status_def split: sum.splits kube_error.splits)

lemma not_ready_tick [simp]: "not_ready check (WaitTick x) \<longleftrightarrow> check x = Inr False"
  "\<not> not_ready check (WaitDone c)" "\<not> not_ready check WaitTimeout"
  by (simp_all add: not_ready_def)

lemma run_and_wait_completed:
  assumes "run_and_wait ops run wait job env = Some (None, job', env')" "jt_Status job' = StatusCompleted"
  obtains job1 where "wait job1 = Some None" "jt_Status job' = StatusCompleted"
    "\<exists>env1. run (job\<lparr>jt_Status := StatusRunning, jt_Error := ''''\<rparr>) env1 = Some (None, job1, env')"
  using assms
  by (auto simp: run_and_wait_def start_run_def Let_def split: option.splits if_splits prod.splits)


section \<open>The controllers clean up after themselves\<close>

lemma run_and_wait_cong:
  "run (job\<lparr>jt_Status := StatusRunning, jt_Error := ''''\<rparr>) = run' (job\<lparr>jt_Status := StatusRunning, jt_Error := ''''\<rparr>) \<Longrightarrow>
   run_and_wait ops run wait job env = run_and_wait ops run' wait job env"
  by (simp add: run_and_wait_def start_run_def Let_def)

lemma desired_running [simp]:
  "deployment_desired (job\<lparr>jt_Status := s, jt_Error := e\<rparr>) = deployment_desired job"
  "stateful_set_desired (job\<lparr>jt_Status := s, jt_Error := e\<rparr>) = stateful_set_desired job"
  "ingress_desired (job\<lparr>jt_Status := s, jt_Error := e\<rparr>) = ingress_desired job"
  by (simp_all add: deployment_desired_def stateful_set_desired_def ingress_desired_def)

definition deletable :: "('k, 's) kube_client \<Rightarrow> string \<Rightarrow> string \<Rightarrow> bool" where
  "deletable cli ns n \<longleftrightarrow>
    (\<forall>k. fst (kc_Delete cli ns n k) = None \<or> (\<exists>t. fst (kc_Delete cli ns n k) = Some (KubeNotFound t)))"

text \<open>The names of a kind are as before, and so are all objects but one.\<close>

definition undone :: "('k \<Rightarrow> string \<times> string \<Rightarrow> 's kobj option) \<Rightarrow> string \<times> string \<Rightarrow> 'k \<Rightarrow> 'k \<Rightarrow> bool" where
  "undone objects key k k' \<longleftrightarrow>
    dom (objects k') = dom (objects k) \<and> (\<forall>key'. key' \<noteq> key \<longrightarrow> objects k' key' = objects k key')"

lemma DeployJobCtl_undone:
  assumes "kube_server cli objects stored"
    and "DeployJobCtl_Run qo ops (Some cli) waiter obs job env = Some (err, job', env')"
    and "deployment_desired job = Some d" "ko_Namespace d \<noteq> ''''"
    and "ce_tracker env = Some []" "deletable cli (ko_Namespace d) (ko_Name d)"
  shows "undone objects (ko_Namespace d, ko_Name d) (ce_cluster env)
    (ce_cluster (DeployJobCtl_Clean (Some cli) job2 env'))"
  unfolding undone_def DeployJobCtl_Clean_def
proof (rule kube_server.run_clean [OF assms(1)])
  show "run_and_wait ops (with_share ops ''deployment'' ''resolve shared deployments failed'' (ko_Labels d)
      (kc_List cli (ko_Namespace d)) (deploy_with cli deployment_texts ''deployment'' (ko_Namespace d)
        (deployment_decide qo d) d)) (DeployJobCtl_wait waiter obs) job env = Some (err, job', env')"
    unfolding assms(2) [symmetric] DeployJobCtl_Run_def
    by (rule run_and_wait_cong) (simp add: DeployJobCtl_run_def assms(3) fun_eq_iff)
qed (use assms in \<open>auto simp: deletable_def intro: deployment_decide_name\<close>)

lemma DeployStatefulSetJobCtl_undone:
  assumes "kube_server cli objects stored"
    and "DeployStatefulSetJobCtl_Run ops (Some cli) waiter obs job env = Some (err, job', env')"
    and "stateful_set_desired job = Some d" "ko_Namespace d \<noteq> ''''"
    and "ce_tracker env = Some []" "deletable cli (ko_Namespace d) (ko_Name d)"
  shows "undone objects (ko_Namespace d, ko_Name d) (ce_cluster env)
    (ce_cluster (DeployStatefulSetJobCtl_Clean (Some cli) job2 env'))"
  unfolding undone_def DeployStatefulSetJobCtl_Clean_def
proof (rule kube_server.run_clean [OF assms(1)])
  show "run_and_wait ops (with_share ops ''statefulset'' ''resolve shared statefulsets failed'' (ko_Labels d)
      (kc_List cli (ko_Namespace d)) (deploy_with cli (stateful_set_texts d) ''statefulset'' (ko_Namespace d)
        (\<lambda>existing. Refuse (plain_error (stateful_set_where d @ '' already exists''))) d))
      (DeployStatefulSetJobCtl_wait waiter obs) job env = Some (err, job', env')"
    unfolding assms(2) [symmetric] DeployStatefulSetJobCtl_Run_def
    by (rule run_and_wait_cong) (simp add: DeployStatefulSetJobCtl_run_def assms(3) fun_eq_iff)
qed (use assms in \<open>auto simp: deletable_def\<close>)

lemma DeployPVCJobCtl_undone:
  assumes "kube_server cli objects stored"
    and "DeployPVCJobCtl_Run qo ops (Some cli) obs job env = Some (err, job', env')"
    and "Option.bind (jt_JobInfo job) claim_object = Some d" "ko_Namespace d \<noteq> ''''"
    and "ce_tracker env = Some []" "deletable cli (ko_Namespace d) (ko_Name d)"
  shows "undone objects (ko_Namespace d, ko_Name d) (ce_cluster env)
    (ce_cluster (DeployPVCJobCtl_Clean (Some cli) job2 env'))"
  unfolding undone_def DeployPVCJobCtl_Clean_def
proof (rule kube_server.run_clean [OF assms(1)])
  show "run_and_wait ops (with_share ops ''pvc'' ''resolve shared pvc failed'' (ko_Labels d)
      (kc_List cli (ko_Namespace d)) (deploy_with cli (claim_texts (ko_Name d)) ''pvc'' (ko_Namespace d)
        (claim_decide qo d) d)) (DeployPVCJobCtl_wait obs) job env = Some (err, job', env')"
    unfolding assms(2) [symmetric] DeployPVCJobCtl_Run_def
    by (rule run_and_wait_cong) (simp add: DeployPVCJobCtl_run_def assms(3) fun_eq_iff)
qed (use assms in \<open>auto simp: deletable_def intro: claim_decide_name\<close>)

lemma DeployIngressJobCtl_undone:
  assumes "kube_server cli objects stored"
    and "DeployIngressJobCtl_Run ops (Some cli) obs job env = Some (err, job', env')"
    and "ingress_desired job = Some d" "ko_Namespace d \<noteq> ''''"
    and "ce_tracker env = Some []" "deletable cli (ko_Namespace d) (ko_Name d)"
  shows "undone objects (ko_Namespace d, ko_Name d) (ce_cluster env)
    (ce_cluster (DeployIngressJobCtl_Clean (Some cli) job2 env'))"
  unfolding undone_def DeployIngressJobCtl_Clean_def
proof (rule kube_server.run_clean [OF assms(1)])
  show "run_and_wait ops (with_share ops ''ingress'' ''resolve shared ingress failed'' (ko_Labels d)
      (kc_List cli (ko_Namespace d)) (deploy_with cli (ingress_texts d) ''ingress'' (ko_Namespace d)
        (ingress_decide d) d)) (DeployIngressJobCtl_wait obs) job env = Some (err, job', env')"
    unfolding assms(2) [symmetric] DeployIngressJobCtl_Run_def
    by (rule run_and_wait_cong) (simp add: DeployIngressJobCtl_run_def assms(3) fun_eq_iff)
qed (use assms in \<open>auto simp: deletable_def intro: ingress_decide_name\<close>)

section \<open>When a rollout is complete\<close>

lemma DeployJobCtl_completed:
  fixes job :: "'q trait_spec JobTask"
  assumes "DeployJobCtl_Run qo ops client None obs job env = Some (None, job', env')"
    and "jt_Status job' = StatusCompleted"
  shows "\<exists>xs w ys. obs = xs @ WaitTick (Inr w) # ys \<and>
    wk_Replicas (ko_Spec w) = Some (wk_ReadyReplicas (ko_Spec w)) \<and>
    list_all (\<lambda>ob. case ob of WaitTick x \<Rightarrow> workload_status x = Inr False | _ \<Rightarrow> False) xs"
proof -
  obtain job1 :: "'q trait_spec JobTask" where "DeployJobCtl_wait None obs job1 = Some None"
    using assms unfolding DeployJobCtl_Run_def by (rule run_and_wait_completed)
  then obtain xs x ys msg where obs: "obs = xs @ WaitTick x # ys"
    "list_all (not_ready (check_as msg workload_status)) xs" "check_as msg workload_status x = Inr True"
    by (auto simp: DeployJobCtl_wait_def DeployJobCtl_waitPolling_def Let_def wait_loop_ready)
  have "not_ready (check_as msg workload_status) ob \<Longrightarrow>
      (case ob of WaitTick x \<Rightarrow> workload_status x = Inr False | _ \<Rightarrow> False)" for ob
    by (cases ob) (auto simp: check_as_def split: sum.splits)
  then have "list_all (\<lambda>ob. case ob of WaitTick x \<Rightarrow> workload_status x = Inr False | _ \<Rightarrow> False) xs"
    using obs(2) by (auto simp: list_all_iff)
  with obs(1,3) show ?thesis unfolding workload_status_ready by blast
qed


section \<open>A run returns\<close>

lemma acquireShareLock_None: "acquireShareLock Lock key s = None \<Longrightarrow> \<exists>key s. Lock key s = None"
  unfolding acquireShareLock_def by (auto split: option.splits prod.splits if_splits)

lemma resolveSharedResource_None:
  "resolveSharedResource Lock Unlock listFn n st kind s = None \<Longrightarrow> \<exists>key s. Lock key s = None"
  by (rule acquireShareLock_None)
    (simp add: resolveSharedResource_def Let_def split: option.splits sum.splits prod.splits if_splits bool.splits)

lemma with_share_returns:
  assumes "\<forall>key s. op_Lock ops key s \<noteq> None"
  shows "with_share ops kind msg labels list deploy job env \<noteq> None"
proof
  assume none: "with_share ops kind msg labels list deploy job env = None"
  obtain n st where sh: "shareInfoFromLabels labels = (n, st)" by fastforce
  let ?r = "resolveSharedResource (op_Lock ops) (op_Unlock ops)
    (\<lambda>sel. case list sel (ce_cluster env) of Inl e \<Rightarrow> Inl (kube_job_error e) | Inr items \<Rightarrow> Inr (int (length items)))
    n st kind (ce_lock env)"
  from assms have "?r \<noteq> None" using resolveSharedResource_None by metis
  then obtain r l where r: "?r = Some (r, l)" by auto
  show False
  proof (cases r)
    case (Inl e)
    with none r sh show ?thesis by (cases e) (simp_all add: with_share_def)
  next
    case (Inr us)
    with none r sh show ?thesis by (cases us) (simp add: with_share_def Let_def split: prod.splits)
  qed
qed

lemma run_and_wait_returns:
  assumes "\<forall>job. wait job \<noteq> None" "\<forall>job env. run job env \<noteq> None"
  shows "run_and_wait ops run wait job env \<noteq> None"
proof -
  obtain job1 env1 where s: "start_run ops job env = (job1, env1)" by fastforce
  from assms(2) obtain err job2 env2 where r: "run job1 env1 = Some (err, job2, env2)" by (metis not_None_eq prod_cases3)
  from assms(1) obtain w where "wait job2 = Some w" by blast
  with s r show ?thesis by (simp add: run_and_wait_def split: option.splits)
qed

end
