(* ===== verification/Kube_Configs.thy ===== *)
theory Kube_Configs
  imports Kube_Workloads
begin

text \<open>
  Config maps, secrets and services: \<open>domain/model/configmap.go\<close> and \<open>job_configmap.go\<close>,
  \<open>job_secret.go\<close>, \<open>job_service.go\<close> of \<open>event/workflow/job\<close>. The HTTP client behind a URL is a
  parameter: it gives an error, or the status and the body or the error of reading it.
\<close>

section \<open>Remote files\<close>

type_synonym http_get = "string \<Rightarrow> job_error + int \<times> (job_error + string)"

definition ConfigMapMaxSize :: nat where "ConfigMapMaxSize = 1024 * 1024"

definition ReadFileFromURLSimple :: "http_get \<Rightarrow> string \<Rightarrow> job_error + string" where
  "ReadFileFromURLSimple get url =
    (case get url of
       Inl e \<Rightarrow> Inl e
     | Inr (status, body) \<Rightarrow>
        (if status \<noteq> 200 then Inl (plain_error (''HTTP request failed with status: '' @ int_str status))
         else case body of
             Inl e \<Rightarrow> Inl e
           | Inr b \<Rightarrow> Inr (take (ConfigMapMaxSize + 1024) b)))"

text \<open>\<open>strings.Split(s, "/")\<close>: its number of parts and its last part.\<close>

definition url_path :: "string \<Rightarrow> string" where
  "url_path url = takeWhile (\<lambda>c. c \<noteq> CHR ''?'') url"

definition url_parts :: "string \<Rightarrow> nat" where
  "url_parts url = Suc (length (filter (\<lambda>c. c = CHR ''/'') url))"

definition last_part :: "string \<Rightarrow> string" where
  "last_part url = rev (takeWhile (\<lambda>c. c \<noteq> CHR ''/'') (rev url))"

definition file_name_from_url :: "string \<Rightarrow> string \<Rightarrow> string" where
  "file_name_from_url fallback url =
    (let fn = last_part (url_path url) in
     if fn \<noteq> '''' \<and> fn \<noteq> ''http:'' \<and> fn \<noteq> ''https:''
     then if url_parts (url_path url) \<le> 3 \<and> Contains fn ''.'' \<and> \<not> Contains fn ''/'' then fallback else fn
     else fallback)"

definition extractFileNameFromURLSimple :: "string \<Rightarrow> string" where
  "extractFileNameFromURLSimple = file_name_from_url ''config''"

definition ExtractFileNameFromURLForSecret :: "string \<Rightarrow> string" where
  "ExtractFileNameFromURLForSecret = file_name_from_url ''secret''"

section \<open>Config maps\<close>

definition config_data :: "ConfigInput \<Rightarrow> (string \<times> string) list" where
  "config_data s = (case ci_Data s of None \<Rightarrow> [] | Some d \<Rightarrow> d)"

definition data_size :: "(string \<times> string) list \<Rightarrow> nat" where
  "data_size d = sum_list (map (\<lambda>(k, v). length k + length v) d)"

text \<open>The data of the config map, whose other fields are those of the input.\<close>

definition GenerateConf :: "http_get \<Rightarrow> ConfigInput \<Rightarrow> job_error + (string \<times> string) list" where
  "GenerateConf get s =
    (let data = config_data s; e = (\<lambda>t. Inl (plain_error t)) in
     if ci_Name s = '''' then e ''ConfigMap name is required''
     else if data = [] \<and> ci_URL s = '''' then e ''either data or url must be provided''
     else if data \<noteq> [] \<and> ci_URL s \<noteq> '''' then e ''data and url are mutually exclusive''
     else if data \<noteq> [] then
       (if list_ex (\<lambda>(k, v). k = '''') data then e ''ConfigMap key cannot be empty''
        else if data_size data > ConfigMapMaxSize
        then e (''total ConfigMap data size '' @ nat_str (data_size data) @ '' bytes exceeds maximum size '' @
                nat_str ConfigMapMaxSize @ '' bytes'')
        else Inr data)
     else if \<not> HasPrefix (ci_URL s) ''http://'' \<and> \<not> HasPrefix (ci_URL s) ''https://''
     then e ''invalid URL format: must start with http:// or https://''
     else case ReadFileFromURLSimple get (ci_URL s) of
         Inl err \<Rightarrow> Inl err
       | Inr body \<Rightarrow>
          (if length body > ConfigMapMaxSize
           then e (''file size '' @ nat_str (length body) @ '' bytes exceeds ConfigMap maximum size '' @
                   nat_str ConfigMapMaxSize @ '' bytes'')
           else Inr [(if ci_FileName s = '''' then extractFileNameFromURLSimple (ci_URL s) else ci_FileName s, body)]))"

text \<open>After a deployment without an error the job is completed and acknowledged, before \<open>Run\<close> is.\<close>

definition deploy_completed ::
  "('x, 'l, 'd) ctl_ops \<Rightarrow>
   ('x JobTask \<Rightarrow> ('k, 'l, 'd) ctl_env \<Rightarrow> job_error option \<times> 'x JobTask \<times> ('k, 'l, 'd) ctl_env) \<Rightarrow>
   'x JobTask \<Rightarrow> ('k, 'l, 'd) ctl_env \<Rightarrow> job_error option \<times> 'x JobTask \<times> ('k, 'l, 'd) ctl_env" where
  "deploy_completed ops deploy job env =
    (case deploy job env of
       (Some e, job1, env1) \<Rightarrow> (Some e, job1, env1)
     | (None, job1, env1) \<Rightarrow>
        (if jt_Status job1 \<noteq> StatusSkipped
         then let j = job1\<lparr>jt_Status := StatusCompleted\<rparr> in (None, j, ctl_ack ops j env1)
         else (None, job1, env1)))"

definition config_texts :: "string \<Rightarrow> string \<Rightarrow> reconcile_texts" where
  "config_texts word name =
    (let t = (\<lambda>verb. wrap_error (verb @ '' '' @ word @ '' '' @ quoted name @ '' failed''))
     in \<lparr>rt_get = t ''get'', rt_create = t ''create'', rt_update = t ''update''\<rparr>)"

text \<open>An existing config map is always replaced.\<close>

definition config_decide :: "'s kobj \<Rightarrow> 's kobj \<Rightarrow> 's decision" where
  "config_decide desired existing = Replace (desired\<lparr>ko_ResourceVersion := ko_ResourceVersion existing\<rparr>)"

definition deployConfigMap ::
  "('x, 'l, 'd) ctl_ops \<Rightarrow> ('k, (string \<times> string) list) kube_client \<Rightarrow> (string \<times> string) list kobj \<Rightarrow>
   'x JobTask \<Rightarrow> ('k, 'l, 'd) ctl_env \<Rightarrow> (job_error option \<times> 'x JobTask \<times> ('k, 'l, 'd) ctl_env) option" where
  "deployConfigMap ops cli cm =
    with_share ops ''configmap'' ''resolve shared configmaps failed'' (ko_Labels cm) (kc_List cli (ko_Namespace cm))
      (deploy_completed ops (deploy_with cli (config_texts ''configmap'' (ko_Name cm)) ''configmap'' (ko_Namespace cm)
        (config_decide cm) cm))"

definition config_kobj :: "ConfigInput \<Rightarrow> string \<Rightarrow> 's \<Rightarrow> 's kobj" where
  "config_kobj s namespace spec =
    \<lparr>ko_Name = ci_Name s, ko_Namespace = namespace_or namespace (ci_Namespace s), ko_Labels = ci_Labels s,
     ko_Annotations = [], ko_ResourceVersion = '''', ko_Spec = spec\<rparr>"

text \<open>The builder only makes jobs with a \<open>ConfigMapInput\<close>.\<close>

definition DeployConfigMapJobCtl_run ::
  "http_get \<Rightarrow> ('x, 'l, 'd) ctl_ops \<Rightarrow> ('k, (string \<times> string) list) kube_client option \<Rightarrow>
   'x JobTask \<Rightarrow> ('k, 'l, 'd) ctl_env \<Rightarrow> (job_error option \<times> 'x JobTask \<times> ('k, 'l, 'd) ctl_env) option" where
  "DeployConfigMapJobCtl_run get ops client job env =
    (case client of
       None \<Rightarrow> Some (Some (plain_error ''client is nil''), job, env)
     | Some cli \<Rightarrow>
    (case jt_JobInfo job of
       Some (InfoConfigMap s) \<Rightarrow>
         (case GenerateConf get s of
            Inl e \<Rightarrow> Some (Some (wrap_error ''invalid ConfigMap spec'' e), job, env)
          | Inr data \<Rightarrow> deployConfigMap ops cli (config_kobj s (jt_Namespace job) data) job env)
     | _ \<Rightarrow> Some (Some (plain_error ''unsupported configmap jobInfo type''), job, env)))"

definition DeployConfigMapJobCtl_Run ::
  "http_get \<Rightarrow> ('x, 'l, 'd) ctl_ops \<Rightarrow> ('k, (string \<times> string) list) kube_client option \<Rightarrow>
   'x JobTask \<Rightarrow> ('k, 'l, 'd) ctl_env \<Rightarrow> (job_error option \<times> 'x JobTask \<times> ('k, 'l, 'd) ctl_env) option" where
  "DeployConfigMapJobCtl_Run get ops client = run_and_finish ops (DeployConfigMapJobCtl_run get ops client)"

definition DeployConfigMapJobCtl_Clean ::
  "('k, 's) kube_client option \<Rightarrow> 'x JobTask \<Rightarrow> ('k, 'l, 'd) ctl_env \<Rightarrow> ('k, 'l, 'd) ctl_env" where
  "DeployConfigMapJobCtl_Clean client job = clean_created client ''configmap'' (namespace_or (jt_Namespace job))"

definition DeployConfigMapJobCtl_SaveInfo where "DeployConfigMapJobCtl_SaveInfo = save_info"

section \<open>Secrets\<close>

record secret_spec =
  sc_Type :: string
  sc_Data :: "(string \<times> string) list"
  sc_StringData :: "(string \<times> string) list"
  sc_Immutable :: "bool option"

definition SecretTypeOpaque :: string where "SecretTypeOpaque = ''Opaque''"

text \<open>The remote file first, then the data, which wins for a common key.\<close>

definition secret_object :: "http_get \<Rightarrow> ConfigInput \<Rightarrow> job_error + (string \<times> string) list" where
  "secret_object get v =
    bind_err
      (if ci_URL v = '''' then Inr []
       else case ReadFileFromURLSimple get (ci_URL v) of
           Inl e \<Rightarrow> Inl (wrap_error ''fetch secret url failed'' e)
         | Inr body \<Rightarrow>
             Inr [(if ci_FileName v = '''' then ExtractFileNameFromURLForSecret (ci_URL v) else ci_FileName v, body)])
      (\<lambda>file. Inr (fold (\<lambda>(k, val). AList.update k val) (config_data v) file))"

definition equalSecretPayload :: "secret_spec \<Rightarrow> secret_spec \<Rightarrow> bool" where
  "equalSecretPayload a b \<longleftrightarrow>
    sc_Type a = sc_Type b \<and> length (sc_Data a) = length (sc_Data b) \<and>
    list_all (\<lambda>(k, v). case map_of (sc_Data b) k of None \<Rightarrow> False | Some bv \<Rightarrow> length v = length bv) (sc_Data a) \<and>
    sc_StringData b = []"

definition secret_decide :: "secret_spec kobj \<Rightarrow> secret_spec kobj \<Rightarrow> secret_spec decision" where
  "secret_decide desired existing =
    (if sc_Immutable (ko_Spec existing) = Some True then
       (if \<not> equalSecretPayload (ko_Spec existing) (ko_Spec desired)
        then Refuse (plain_error (''secret '' @ ko_Namespace desired @ ''/'' @ ko_Name desired @
               '' is immutable; content differs and cannot be updated''))
        else Keep)
     else Replace (desired\<lparr>ko_ResourceVersion := ko_ResourceVersion existing\<rparr>))"

definition DeploySecretJobCtl_run ::
  "http_get \<Rightarrow> ('x, 'l, 'd) ctl_ops \<Rightarrow> ('k, secret_spec) kube_client option \<Rightarrow>
   'x JobTask \<Rightarrow> ('k, 'l, 'd) ctl_env \<Rightarrow> (job_error option \<times> 'x JobTask \<times> ('k, 'l, 'd) ctl_env) option" where
  "DeploySecretJobCtl_run get ops client job env =
    (case client of
       None \<Rightarrow> Some (Some (plain_error ''client is nil''), job, env)
     | Some cli \<Rightarrow>
    (case jt_JobInfo job of
       Some (InfoSecret v) \<Rightarrow>
         (case secret_object get v of
            Inl e \<Rightarrow> Some (Some e, job, env)
          | Inr stringData \<Rightarrow>
             (let secret = config_kobj v (jt_Namespace job)
                    \<lparr>sc_Type = SecretTypeOpaque, sc_Data = [], sc_StringData = stringData, sc_Immutable = None\<rparr>
              in with_share ops ''secret'' ''resolve shared secrets failed'' (ko_Labels secret)
                   (kc_List cli (ko_Namespace secret))
                   (deploy_completed ops (deploy_with cli (config_texts ''secret'' (ko_Name secret)) ''secret''
                      (ko_Namespace secret) (secret_decide secret) secret))
                   job env))
     | _ \<Rightarrow> Some (Some (plain_error ''job info is not *corev1.Secret''), job, env)))"

definition DeploySecretJobCtl_Run ::
  "http_get \<Rightarrow> ('x, 'l, 'd) ctl_ops \<Rightarrow> ('k, secret_spec) kube_client option \<Rightarrow>
   'x JobTask \<Rightarrow> ('k, 'l, 'd) ctl_env \<Rightarrow> (job_error option \<times> 'x JobTask \<times> ('k, 'l, 'd) ctl_env) option" where
  "DeploySecretJobCtl_Run get ops client = run_and_finish ops (DeploySecretJobCtl_run get ops client)"

definition DeploySecretJobCtl_Clean ::
  "('k, 's) kube_client option \<Rightarrow> 'x JobTask \<Rightarrow> ('k, 'l, 'd) ctl_env \<Rightarrow> ('k, 'l, 'd) ctl_env" where
  "DeploySecretJobCtl_Clean client job = clean_created client ''secret'' (namespace_or (jt_Namespace job))"

definition DeploySecretJobCtl_SaveInfo where "DeploySecretJobCtl_SaveInfo = save_info"

section \<open>Services\<close>

text \<open>A port is its name and number, which is also the target; the protocol is TCP.\<close>

record service_spec =
  sp_Type :: string
  sp_Selector :: labels
  sp_Ports :: "(string \<times> int) list"
  sp_ClusterIP :: string
  sp_ClusterIPs :: "string list"
  sp_IPFamilies :: "string list"
  sp_SessionAffinityConfig :: "int option"
  sp_SessionAffinity :: string
  sp_LoadBalancerIP :: string
  sp_LoadBalancerSourceRanges :: "string list"
  sp_ExternalName :: string
  sp_ExternalTrafficPolicy :: string
  sp_HealthCheckNodePort :: int
  sp_PublishNotReadyAddresses :: bool
  sp_InternalTrafficPolicy :: "string option"

definition core_service :: "ServiceApply \<Rightarrow> service_spec kobj" where
  "core_service svc =
    \<lparr>ko_Name = sv_Name svc, ko_Namespace = sv_Namespace svc, ko_Labels = sv_Labels svc, ko_Annotations = [],
     ko_ResourceVersion = '''',
     ko_Spec = \<lparr>sp_Type = ''ClusterIP'', sp_Selector = sv_Selector svc, sp_Ports = sv_Ports svc,
       sp_ClusterIP = '''', sp_ClusterIPs = [], sp_IPFamilies = [], sp_SessionAffinityConfig = None,
       sp_SessionAffinity = '''', sp_LoadBalancerIP = '''', sp_LoadBalancerSourceRanges = [],
       sp_ExternalName = '''', sp_ExternalTrafficPolicy = '''', sp_HealthCheckNodePort = 0,
       sp_PublishNotReadyAddresses = False, sp_InternalTrafficPolicy = None\<rparr>\<rparr>"

text \<open>What an update takes over from the service that is there.\<close>

definition keep_service_fields :: "service_spec kobj \<Rightarrow> service_spec kobj \<Rightarrow> service_spec kobj" where
  "keep_service_fields existing svc =
    (let e = ko_Spec existing; d = ko_Spec svc in
     svc\<lparr>ko_ResourceVersion := ko_ResourceVersion existing,
       ko_Spec := d\<lparr>sp_ClusterIP := sp_ClusterIP e, sp_ClusterIPs := sp_ClusterIPs e,
         sp_IPFamilies := (if sp_IPFamilies e \<noteq> [] then sp_IPFamilies e else sp_IPFamilies d),
         sp_SessionAffinityConfig :=
           (if sp_SessionAffinityConfig e \<noteq> None then sp_SessionAffinityConfig e else sp_SessionAffinityConfig d),
         sp_SessionAffinity := (if sp_SessionAffinity e \<noteq> '''' then sp_SessionAffinity e else sp_SessionAffinity d),
         sp_LoadBalancerIP := (if sp_LoadBalancerIP e \<noteq> '''' then sp_LoadBalancerIP e else sp_LoadBalancerIP d),
         sp_LoadBalancerSourceRanges :=
           (if sp_LoadBalancerSourceRanges e \<noteq> [] then sp_LoadBalancerSourceRanges e else sp_LoadBalancerSourceRanges d),
         sp_ExternalName := (if sp_ExternalName e \<noteq> '''' then sp_ExternalName e else sp_ExternalName d),
         sp_ExternalTrafficPolicy :=
           (if sp_ExternalTrafficPolicy e \<noteq> '''' then sp_ExternalTrafficPolicy e else sp_ExternalTrafficPolicy d),
         sp_HealthCheckNodePort :=
           (if sp_HealthCheckNodePort e \<noteq> 0 then sp_HealthCheckNodePort e else sp_HealthCheckNodePort d),
         sp_PublishNotReadyAddresses := (sp_PublishNotReadyAddresses e \<or> sp_PublishNotReadyAddresses d),
         sp_InternalTrafficPolicy :=
           (if sp_InternalTrafficPolicy e \<noteq> None then sp_InternalTrafficPolicy e else sp_InternalTrafficPolicy d)\<rparr>\<rparr>)"

definition ApplyService ::
  "('k, service_spec) kube_client \<Rightarrow> ServiceApply \<Rightarrow> 'k \<Rightarrow> job_error option \<times> 'k" where
  "ApplyService cli svc k =
    (let coreService = core_service svc; ns = ko_Namespace coreService in
     case kc_Get cli ns (ko_Name coreService) k of
       Inl (KubeNotFound _) \<Rightarrow>
         (case kc_Create cli ns coreService k of
            (Some e, k') \<Rightarrow> (Some (wrap_error ''create service failed'' (kube_job_error e)), k')
          | (None, k') \<Rightarrow> (None, k'))
     | Inl (KubeOther e) \<Rightarrow> (Some (wrap_error ''failed to check service existence'' e), k)
     | Inr existing \<Rightarrow>
         (case kc_Update cli ns (keep_service_fields existing coreService) k of
            (Some e, k') \<Rightarrow> (Some (wrap_error ''update service failed'' (kube_job_error e)), k')
          | (None, k') \<Rightarrow> (None, k')))"

text \<open>A service that is not there is marked as created before it is.\<close>

definition deploy_service ::
  "('k, service_spec) kube_client \<Rightarrow> ServiceApply \<Rightarrow> 'x JobTask \<Rightarrow> ('k, 'l, 'd) ctl_env \<Rightarrow>
   job_error option \<times> 'x JobTask \<times> ('k, 'l, 'd) ctl_env" where
  "deploy_service cli svc job env =
    (let ns = sv_Namespace svc; name = sv_Name svc;
         apply_it = (\<lambda>env. case ApplyService cli svc (ce_cluster env) of
            (Some e, k) \<Rightarrow> (Some (wrap_error ''apply service failed'' e), job, env\<lparr>ce_cluster := k\<rparr>)
          | (None, k) \<Rightarrow> (None, job, env\<lparr>ce_cluster := k\<rparr>))
     in case kc_Get cli ns name (ce_cluster env) of
          Inl (KubeNotFound _) \<Rightarrow> apply_it (mark_created ''service'' ns name env)
        | Inl (KubeOther e) \<Rightarrow> (Some (wrap_error ''check service existence failed'' e), job, env)
        | Inr existing \<Rightarrow> apply_it (mark_observed ''service'' ns name env))"

definition DeployServiceJobCtl_run ::
  "('x, 'l, 'd) ctl_ops \<Rightarrow> ('k, service_spec) kube_client option \<Rightarrow>
   'x JobTask \<Rightarrow> ('k, 'l, 'd) ctl_env \<Rightarrow> (job_error option \<times> 'x JobTask \<times> ('k, 'l, 'd) ctl_env) option" where
  "DeployServiceJobCtl_run ops client job env =
    (case client of
       None \<Rightarrow> Some (Some (plain_error ''client is nil''), job, env)
     | Some cli \<Rightarrow>
    (case jt_JobInfo job of
       Some (InfoService svc) \<Rightarrow>
         with_share ops ''service'' ''resolve shared services failed'' (sv_Labels svc) (kc_List cli (sv_Namespace svc))
           (deploy_service cli svc) job env
     | _ \<Rightarrow> Some (Some (plain_error ''job.JobInfo is not a *applyv1.ServiceApplyConfiguration''), job, env)))"

definition getServiceStatus :: "kube_error + service_spec kobj \<Rightarrow> job_error + bool" where
  "getServiceStatus answer =
    (case answer of
       Inl (KubeNotFound _) \<Rightarrow> Inr False
     | Inl (KubeOther e) \<Rightarrow> Inl e
     | Inr s \<Rightarrow> Inr True)"

definition DeployServiceJobCtl_wait ::
  "(kube_error + service_spec kobj) wait_obs list \<Rightarrow> 'x JobTask \<Rightarrow> job_error option option" where
  "DeployServiceJobCtl_wait obs job =
    (let what = ''service '' @ jt_Name job
     in wait_loop (cancelled_error what) (timeout_error what)
          (check_as (''wait '' @ what @ '' error'') getServiceStatus) obs)"

definition DeployServiceJobCtl_Run ::
  "('x, 'l, 'd) ctl_ops \<Rightarrow> ('k, service_spec) kube_client option \<Rightarrow> (kube_error + service_spec kobj) wait_obs list \<Rightarrow>
   'x JobTask \<Rightarrow> ('k, 'l, 'd) ctl_env \<Rightarrow> (job_error option \<times> 'x JobTask \<times> ('k, 'l, 'd) ctl_env) option" where
  "DeployServiceJobCtl_Run ops client obs =
    run_and_wait ops (DeployServiceJobCtl_run ops client) (DeployServiceJobCtl_wait obs)"

definition DeployServiceJobCtl_Clean ::
  "('k, 's) kube_client option \<Rightarrow> 'x JobTask \<Rightarrow> ('k, 'l, 'd) ctl_env \<Rightarrow> ('k, 'l, 'd) ctl_env" where
  "DeployServiceJobCtl_Clean client job = clean_created client ''service'' (namespace_or (jt_Namespace job))"

definition DeployServiceJobCtl_SaveInfo where "DeployServiceJobCtl_SaveInfo = save_info"

section \<open>Lemmas\<close>

text \<open>What a config map holds: within the limit, and of a remote file all of it.\<close>

lemma ReadFile_whole:
  assumes "ReadFileFromURLSimple get url = Inr body" "length body \<le> ConfigMapMaxSize"
  shows "get url = Inr (200, Inr body)"
proof -
  from assms(1) obtain b where g: "get url = Inr (200, Inr b)" "body = take (ConfigMapMaxSize + 1024) b"
    by (auto simp: ReadFileFromURLSimple_def split: sum.splits prod.splits if_splits)
  with assms(2) have "length b \<le> ConfigMapMaxSize + 1024" by simp
  with g show ?thesis by simp
qed

lemma GenerateConf_ok:
  assumes "GenerateConf get s = Inr data"
  shows "ci_Name s \<noteq> '''' \<and> data \<noteq> [] \<and>
    (if ci_URL s = '''' then data = config_data s \<and> data_size data \<le> ConfigMapMaxSize \<and> '''' \<notin> fst ` set data
     else config_data s = [] \<and> (\<exists>file body. data = [(file, body)] \<and> length body \<le> ConfigMapMaxSize \<and>
       get (ci_URL s) = Inr (200, Inr body)))"
proof (cases "config_data s = []")
  case True
  with assms obtain body where "ci_Name s \<noteq> ''''" "ci_URL s \<noteq> ''''"
    "ReadFileFromURLSimple get (ci_URL s) = Inr body" "length body \<le> ConfigMapMaxSize"
    "data = [(if ci_FileName s = '''' then extractFileNameFromURLSimple (ci_URL s) else ci_FileName s, body)]"
    by (auto simp: GenerateConf_def Let_def split: if_splits sum.splits)
  with True ReadFile_whole show ?thesis by auto
next
  case False
  with assms show ?thesis
    by (fastforce simp: GenerateConf_def Let_def list_ex_iff split: if_splits)
qed


text \<open>
  A job of either kind that succeeds leaves its object in the cluster, as it is desired unless
  the controller keeps the one that is there, and all other objects of the kind alone.
\<close>

lemma deploy_completed_cases:
  assumes "deploy_completed ops deploy job env = (None, job', env')" "jt_Status job \<noteq> StatusSkipped"
    and "\<And>err job1 env1. deploy job env = (err, job1, env1) \<Longrightarrow> job1 = job"
  obtains env1 where "deploy job env = (None, job, env1)" "jt_Status job' = StatusCompleted"
    "ce_cluster env' = ce_cluster env1"
  using assms by (auto simp: deploy_completed_def Let_def split: prod.splits option.splits if_splits)

context kube_server
begin

lemma run_and_finish_deployed:
  fixes env env' :: "('k, 'l, 'd) ctl_env" and job job' :: "'x JobTask"
  assumes "run_and_finish ops run job env = Some (None, job', env')"
    and "run (job\<lparr>jt_Status := StatusRunning, jt_Error := ''''\<rparr>) =
      with_share ops kind text labels list
        (deploy_completed ops (deploy_with cli texts kind ns decide desired))
        (job\<lparr>jt_Status := StatusRunning, jt_Error := ''''\<rparr>)"
    and "\<And>existing obj. decide existing = Replace obj \<Longrightarrow> \<exists>v. obj = desired\<lparr>ko_ResourceVersion := v\<rparr>"
  shows "(\<forall>key. key \<noteq> (ns, ko_Name desired) \<longrightarrow> objects (ce_cluster env') key = objects (ce_cluster env) key) \<and>
    (if jt_Status job' = StatusSkipped then ce_cluster env' = ce_cluster env
     else jt_Status job' = StatusCompleted \<and>
       (\<exists>o1. objects (ce_cluster env') (ns, ko_Name desired) = Some o1 \<and>
         ((\<exists>v. stored (desired\<lparr>ko_ResourceVersion := v\<rparr>) o1) \<or> decide o1 = Keep)))"
proof -
  let ?job = "job\<lparr>jt_Status := StatusRunning, jt_Error := ''''\<rparr>"
  from assms(1,2) obtain job1 where
    w: "with_share ops kind text labels list (deploy_completed ops (deploy_with cli texts kind ns decide desired))
          ?job (ctl_ack ops ?job env) = Some (None, job1, env')"
    and st: "jt_Status job' = (if jt_Status job1 = StatusSkipped then StatusSkipped else StatusCompleted)"
    by (auto simp: run_and_finish_def start_run_def Let_def split: option.splits prod.splits if_splits)
  from w show ?thesis
  proof (cases rule: with_share_cases)
    case skipped
    with st show ?thesis by simp
  next
    case (deployed l env2)
    note dw = deployed(1)
    obtain env3 where d: "deploy_with cli texts kind ns decide desired ?job ((ctl_ack ops ?job env)\<lparr>ce_lock := l\<rparr>) =
        (None, ?job, env3)" and c: "jt_Status job1 = StatusCompleted" "ce_cluster env2 = ce_cluster env3"
      by (rule deploy_completed_cases [OF dw]) (auto simp: deploy_with_def split: prod.splits)
    then have r: "reconcile cli texts kind ns decide desired ((ctl_ack ops ?job env)\<lparr>ce_lock := l\<rparr>) = (None, env3)"
      by (auto simp: deploy_with_def split: prod.splits)
    have env': "ce_cluster env' = ce_cluster env3" using deployed(2) c(2) by simp
    from r show ?thesis
    proof (cases rule: reconcile_ok)
      case (kept existing)
      then show ?thesis using st c env' by auto
    next
      case (replaced existing obj o1)
      with assms(3) obtain v where v: "obj = desired\<lparr>ko_ResourceVersion := v\<rparr>" by blast
      with replaced(3) have "\<exists>v. stored (desired\<lparr>ko_ResourceVersion := v\<rparr>) o1" by blast
      then show ?thesis using st c env' replaced(4) v by auto
    next
      case (created o1)
      then have "\<exists>v. stored (desired\<lparr>ko_ResourceVersion := v\<rparr>) o1"
        by (intro exI [of _ "ko_ResourceVersion desired"]) simp
      with created show ?thesis using st c env' by auto
    qed
  qed simp
qed

end

lemma DeployConfigMapJobCtl_deployed:
  assumes "kube_api cli objects"
    and "DeployConfigMapJobCtl_Run get ops (Some cli) job env = Some (None, job', env')"
    and "jt_JobInfo job = Some (InfoConfigMap s)"
  shows "\<exists>data. GenerateConf get s = Inr data \<and>
    (\<forall>key. key \<noteq> (namespace_or (jt_Namespace job) (ci_Namespace s), ci_Name s) \<longrightarrow>
       objects (ce_cluster env') key = objects (ce_cluster env) key) \<and>
    (if jt_Status job' = StatusSkipped then ce_cluster env' = ce_cluster env
     else jt_Status job' = StatusCompleted \<and>
       (\<exists>v. objects (ce_cluster env') (namespace_or (jt_Namespace job) (ci_Namespace s), ci_Name s) =
         Some ((config_kobj s (jt_Namespace job) data)\<lparr>ko_ResourceVersion := v\<rparr>)))"
proof -
  let ?job = "job\<lparr>jt_Status := StatusRunning, jt_Error := ''''\<rparr>"
  let ?ns = "namespace_or (jt_Namespace job) (ci_Namespace s)"
  note r = assms(2) [unfolded DeployConfigMapJobCtl_Run_def]
  from r assms(3) obtain data where g: "GenerateConf get s = Inr data"
    by (cases "GenerateConf get s")
      (auto simp: run_and_finish_def start_run_def Let_def DeployConfigMapJobCtl_run_def)
  let ?cm = "config_kobj s (jt_Namespace job) data"
  have cm: "ko_Namespace ?cm = ?ns" "ko_Name ?cm = ci_Name s" by (simp_all add: config_kobj_def)
  have run: "DeployConfigMapJobCtl_run get ops (Some cli) ?job =
      with_share ops ''configmap'' ''resolve shared configmaps failed'' (ko_Labels ?cm) (kc_List cli ?ns)
        (deploy_completed ops (deploy_with cli (config_texts ''configmap'' (ko_Name ?cm)) ''configmap'' ?ns
          (config_decide ?cm) ?cm)) ?job"
    using g assms(3) by (simp add: DeployConfigMapJobCtl_run_def deployConfigMap_def cm fun_eq_iff)
  have dec: "config_decide ?cm existing = Replace obj \<Longrightarrow> \<exists>v. obj = ?cm\<lparr>ko_ResourceVersion := v\<rparr>" for existing obj
    by (auto simp: config_decide_def)
  have keep: "config_decide ?cm existing \<noteq> Keep" for existing by (simp add: config_decide_def)
  from kube_server.run_and_finish_deployed [OF kube_api.axioms [OF assms(1)] r run dec] keep
  have "(\<forall>key. key \<noteq> (?ns, ko_Name ?cm) \<longrightarrow> objects (ce_cluster env') key = objects (ce_cluster env) key) \<and>
    (if jt_Status job' = StatusSkipped then ce_cluster env' = ce_cluster env
     else jt_Status job' = StatusCompleted \<and>
       (\<exists>v. objects (ce_cluster env') (?ns, ko_Name ?cm) = Some (?cm\<lparr>ko_ResourceVersion := v\<rparr>)))"
    by fastforce
  with g show ?thesis unfolding cm by blast
qed

text \<open>
  A secret that exists is replaced unless it is immutable; what the server makes of its string
  data is left to \<open>stored\<close>.
\<close>

lemma DeploySecretJobCtl_deployed:
  assumes "kube_server cli objects stored"
    and "DeploySecretJobCtl_Run get ops (Some cli) job env = Some (None, job', env')"
    and "jt_JobInfo job = Some (InfoSecret s)" "jt_Status job' \<noteq> StatusSkipped"
  shows "\<exists>payload o1 v. secret_object get s = Inr payload \<and>
    objects (ce_cluster env') (namespace_or (jt_Namespace job) (ci_Namespace s), ci_Name s) = Some o1 \<and>
    (sc_Immutable (ko_Spec o1) = Some True \<or>
     stored ((config_kobj s (jt_Namespace job) \<lparr>sc_Type = SecretTypeOpaque, sc_Data = [], sc_StringData = payload,
       sc_Immutable = None\<rparr>)\<lparr>ko_ResourceVersion := v\<rparr>) o1)"
proof -
  let ?job = "job\<lparr>jt_Status := StatusRunning, jt_Error := ''''\<rparr>"
  let ?ns = "namespace_or (jt_Namespace job) (ci_Namespace s)"
  note r = assms(2) [unfolded DeploySecretJobCtl_Run_def]
  from r assms(3) obtain payload where g: "secret_object get s = Inr payload"
    by (cases "secret_object get s")
      (auto simp: run_and_finish_def start_run_def Let_def DeploySecretJobCtl_run_def)
  let ?sc = "config_kobj s (jt_Namespace job)
    \<lparr>sc_Type = SecretTypeOpaque, sc_Data = [], sc_StringData = payload, sc_Immutable = None\<rparr>"
  have sc: "ko_Namespace ?sc = ?ns" "ko_Name ?sc = ci_Name s" by (simp_all add: config_kobj_def)
  have run: "DeploySecretJobCtl_run get ops (Some cli) ?job =
      with_share ops ''secret'' ''resolve shared secrets failed'' (ko_Labels ?sc) (kc_List cli ?ns)
        (deploy_completed ops (deploy_with cli (config_texts ''secret'' (ko_Name ?sc)) ''secret'' ?ns
          (secret_decide ?sc) ?sc)) ?job"
    using g assms(3) by (simp add: DeploySecretJobCtl_run_def Let_def sc fun_eq_iff)
  have dec: "secret_decide ?sc existing = Replace obj \<Longrightarrow> \<exists>v. obj = ?sc\<lparr>ko_ResourceVersion := v\<rparr>" for existing obj
    by (auto simp: secret_decide_def split: if_splits)
  have keep: "secret_decide ?sc existing = Keep \<Longrightarrow> sc_Immutable (ko_Spec existing) = Some True" for existing
    by (auto simp: secret_decide_def split: if_splits)
  from kube_server.run_and_finish_deployed [OF assms(1) r run dec] assms(4)
  obtain o1 v where o1: "objects (ce_cluster env') (?ns, ko_Name ?sc) = Some o1"
    "stored (?sc\<lparr>ko_ResourceVersion := v\<rparr>) o1 \<or> secret_decide ?sc o1 = Keep"
    by fastforce
  from o1(2) keep have "sc_Immutable (ko_Spec o1) = Some True \<or> stored (?sc\<lparr>ko_ResourceVersion := v\<rparr>) o1" by blast
  with g o1(1) sc show ?thesis by (intro exI [of _ payload] exI [of _ o1] exI [of _ v]) simp
qed

end
