(* ===== verification/Kube_Workflows.thy ===== *)
theory Kube_Workflows
  imports Kube_Validation "HOL-Library.Product_Lexorder"
begin

text \<open>
  The workflows of an application: how the application service turns requested steps or
  components into stored steps, checks their references, and chooses the workflow to update and
  its name (the helpers of \<open>domain/service/application.go\<close>).
\<close>

section \<open>Stored steps\<close>

definition name_properties :: "string list \<Rightarrow> string list list" where
  "name_properties names = (if length names > 0 then [names] else [])"

definition convert_substep :: "CreateWorkflowSubStepRequest \<Rightarrow> WorkflowSubStep" where
  "convert_substep subReq =
    \<lparr>sub_Name = sr_Name subReq, sub_WorkflowType = sr_WorkflowType subReq,
     sub_Properties = name_properties (mergeWorkflowComponents (sr_Components subReq) (sr_Policies subReq))\<rparr>"

definition convert_step :: "CreateWorkflowStepRequest \<Rightarrow> WorkflowStep" where
  "convert_step reqStep =
    \<lparr>step_Name = wr_Name reqStep, step_Level = 0, step_WorkflowType = wr_WorkflowType reqStep,
     step_Mode = ParseWorkflowMode (wr_Mode reqStep),
     step_Properties = name_properties (mergeWorkflowComponents (wr_Components reqStep) (wr_Policies reqStep)),
     step_SubSteps = map (\<lambda>s. Some (convert_substep s)) (wr_SubSteps reqStep)\<rparr>"

definition convertWorkflowStepsFromRequest :: "CreateWorkflowStepRequest list \<Rightarrow> WorkflowStep list" where
  "convertWorkflowStepsFromRequest steps = map convert_step steps"

text \<open>The step that runs one component; also the step added for a new component.\<close>

definition component_step :: "string \<Rightarrow> WorkflowStep" where
  "component_step name =
    \<lparr>step_Name = name, step_Level = 0, step_WorkflowType = JobDeploy,
     step_Mode = WorkflowModeStepByStep, step_Properties = [[name]], step_SubSteps = []\<rparr>"

definition convertWorkflowStepByComponent :: "CreateComponentRequest list \<Rightarrow> WorkflowStep list" where
  "convertWorkflowStepByComponent components = map (\<lambda>c. component_step (cr_Name c)) components"

section \<open>References\<close>

definition ensureComponentsExist :: "string list \<Rightarrow> string set \<Rightarrow> string option" where
  "ensureComponentsExist names existing = find (\<lambda>n. ToLower n \<notin> existing) names"

fun ensure_substeps :: "CreateWorkflowSubStepRequest list \<Rightarrow> string set \<Rightarrow> string option" where
  "ensure_substeps [] existing = None"
| "ensure_substeps (s # ss) existing =
     (case ensureComponentsExist (mergeWorkflowComponents (sr_Components s) (sr_Policies s)) existing of
        Some n \<Rightarrow> Some n | None \<Rightarrow> ensure_substeps ss existing)"

text \<open>The name of the first component that is missing.\<close>

fun validateWorkflowComponentRefs :: "CreateWorkflowStepRequest list \<Rightarrow> string set \<Rightarrow> string option" where
  "validateWorkflowComponentRefs [] existing = None"
| "validateWorkflowComponentRefs (s # ss) existing =
     (case ensureComponentsExist (mergeWorkflowComponents (wr_Components s) (wr_Policies s)) existing of
        Some n \<Rightarrow> Some n
      | None \<Rightarrow>
         (case ensure_substeps (wr_SubSteps s) existing of
            Some n \<Rightarrow> Some n | None \<Rightarrow> validateWorkflowComponentRefs ss existing))"

section \<open>Names of workflows\<close>

text \<open>\<open>strings.EqualFold\<close>\<close>

definition EqualFold :: "string \<Rightarrow> string \<Rightarrow> bool" where
  "EqualFold s t \<longleftrightarrow> ToLower s = ToLower t"

text \<open>The list of pointers may hold nil; \<open>inUse\<close> of the candidate.\<close>

definition name_in_use :: "Workflow option list \<Rightarrow> string \<Rightarrow> bool" where
  "name_in_use workflows candidate \<longleftrightarrow>
    list_ex (\<lambda>w. case w of None \<Rightarrow> False | Some wfl \<Rightarrow> EqualFold (wf_Name wfl) candidate) workflows"

definition suffixed :: "string \<Rightarrow> nat \<Rightarrow> string" where
  "suffixed base sfx = base @ ''-'' @ nat_str sfx"

lemma suffixed_inj: "ToLower (suffixed base m) = ToLower (suffixed base n) \<Longrightarrow> m = n"
proof -
  assume "ToLower (suffixed base m) = ToLower (suffixed base n)"
  then have "map char_lower (nat_str m) = map char_lower (nat_str n)"
    by (simp add: suffixed_def ToLower_def)
  moreover have "map char_lower (nat_str k) = nat_str k" for k
    by (rule map_idI) (auto simp: char_lower_def is_upper_def char_code_def dest: nat_str_codes)
  ultimately show ?thesis by (simp add: nat_str_inj)
qed

text \<open>The suffixes from \<open>k\<close> on that are taken: each candidate the loop rejects is one of them.\<close>

definition taken_from :: "Workflow option list \<Rightarrow> string \<Rightarrow> nat \<Rightarrow> nat set" where
  "taken_from workflows base k = {n. k \<le> n \<and> name_in_use workflows (suffixed base n)}"

lemma finite_taken: "finite (taken_from workflows base k)"
proof -
  let ?names = "(\<lambda>w. ToLower (wf_Name w)) ` {w. Some w \<in> set workflows}"
  have "finite {w. Some w \<in> set workflows}"
    using finite_vimageI [of "set workflows" Some] by (simp add: vimage_def)
  moreover have "(\<lambda>n. ToLower (suffixed base n)) ` taken_from workflows base k \<subseteq> ?names"
    by (force simp: taken_from_def name_in_use_def list_ex_iff EqualFold_def split: option.splits)
  ultimately have "finite ((\<lambda>n. ToLower (suffixed base n)) ` taken_from workflows base k)"
    by (simp add: finite_subset)
  then show ?thesis
    by (rule finite_imageD) (auto intro!: inj_onI dest: suffixed_inj)
qed

text \<open>The loop once the base name is taken; \<open>sfx\<close> is the sfx of the candidate.\<close>

function unique_loop :: "Workflow option list \<Rightarrow> string \<Rightarrow> nat \<Rightarrow> string" where
  "unique_loop workflows base sfx =
     (if name_in_use workflows (suffixed base sfx) then unique_loop workflows base (sfx + 1)
      else suffixed base sfx)"
  by pat_completeness auto
termination
proof (relation "measure (\<lambda>(ws, b, k). card (taken_from ws b k))", simp)
  fix ws b k
  assume "name_in_use ws (suffixed b k)"
  then have "taken_from ws b k = insert k (taken_from ws b (k + 1))" "k \<notin> taken_from ws b (k + 1)"
    by (auto simp: taken_from_def Suc_le_eq order_le_less)
  then show "((ws, b, k + 1), (ws, b, k)) \<in> measure (\<lambda>(ws, b, k). card (taken_from ws b k))"
    by (simp add: finite_taken)
qed

declare unique_loop.simps [simp del]

definition ensureUniqueWorkflowName :: "string \<Rightarrow> Workflow option list \<Rightarrow> string" where
  "ensureUniqueWorkflowName base workflows =
    (if base = '''' then base
     else if name_in_use workflows base then unique_loop workflows base 1 else base)"

definition ensureUniqueWorkflowNameExcluding :: "string \<Rightarrow> Workflow option list \<Rightarrow> string \<Rightarrow> string" where
  "ensureUniqueWorkflowNameExcluding base workflows excludeID =
    (let others = filter (\<lambda>w. case w of None \<Rightarrow> False | Some wfl \<Rightarrow> wf_ID wfl \<noteq> excludeID) workflows
     in if base = '''' then base
        else if name_in_use others base then unique_loop others base 1 else base)"

section \<open>The workflow to update\<close>

definition workflow_rank :: "string \<Rightarrow> string \<Rightarrow> Workflow \<Rightarrow> nat" where
  "workflow_rank desiredName desiredAlias wfl =
    (if desiredName \<noteq> '''' \<and> EqualFold (wf_Name wfl) desiredName then 2
     else if desiredAlias \<noteq> '''' \<and> EqualFold (wf_Alias wfl) desiredAlias then 1 else 0)"

abbreviation WorkflowTaskTypeWorkflow :: string where
  "WorkflowTaskTypeWorkflow \<equiv> ''workflow''"

definition eligible :: "Workflow \<Rightarrow> bool" where
  "eligible wfl \<longleftrightarrow> wf_WorkflowType wfl = '''' \<or> wf_WorkflowType wfl = WorkflowTaskTypeWorkflow"

definition pick_step :: "string \<Rightarrow> string \<Rightarrow> Workflow option \<Rightarrow> Workflow option \<Rightarrow> Workflow option" where
  "pick_step desiredName desiredAlias w best =
    (case w of
       None \<Rightarrow> best
     | Some wfl \<Rightarrow>
        (if \<not> eligible wfl then best
         else case best of
             None \<Rightarrow> Some wfl
           | Some b \<Rightarrow>
              (let rank = workflow_rank desiredName desiredAlias wfl;
                   bestRank = workflow_rank desiredName desiredAlias b
               in if rank > bestRank \<or>
                     (rank = bestRank \<and> wf_UpdateTime wfl > wf_UpdateTime b) \<or>
                     (rank = bestRank \<and> wf_UpdateTime wfl = wf_UpdateTime b \<and> wf_CreateTime wfl > wf_CreateTime b)
                  then Some wfl else best)))"

definition pickDefaultWorkflow :: "Workflow option list \<Rightarrow> string \<Rightarrow> string \<Rightarrow> Workflow option" where
  "pickDefaultWorkflow workflows desiredName desiredAlias =
    fold (pick_step desiredName desiredAlias) workflows None"

section \<open>Lemmas\<close>

text \<open>The loop returns the first free sfx.\<close>

lemma unique_loop_first:
  "\<exists>k\<ge>sfx. unique_loop workflows base sfx = suffixed base k \<and>
     \<not> name_in_use workflows (suffixed base k) \<and>
     (\<forall>i\<in>{sfx..<k}. name_in_use workflows (suffixed base i))"
proof (induction workflows base sfx rule: unique_loop.induct)
  case (1 workflows base sfx)
  show ?case
  proof (cases "name_in_use workflows (suffixed base sfx)")
    case True
    from "1.IH" [OF True] obtain k where k: "k \<ge> sfx + 1"
      "unique_loop workflows base (sfx + 1) = suffixed base k"
      "\<not> name_in_use workflows (suffixed base k)"
      "\<forall>i\<in>{sfx + 1..<k}. name_in_use workflows (suffixed base i)" by blast
    have "unique_loop workflows base sfx = suffixed base k"
      using True k(2) by (subst unique_loop.simps) simp
    moreover have "\<forall>i\<in>{sfx..<k}. name_in_use workflows (suffixed base i)"
      using True k(4) by (auto simp: Suc_le_eq order_le_less)
    ultimately show ?thesis using k(1,3) by (intro exI [of _ k]) auto
  next
    case False
    then show ?thesis by (intro exI [of _ sfx]) (simp add: unique_loop.simps)
  qed
qed

lemma ensureUnique_cases:
  assumes "base \<noteq> ''''"
  shows "\<not> name_in_use workflows (ensureUniqueWorkflowName base workflows) \<and>
    (ensureUniqueWorkflowName base workflows = base \<or>
     (\<exists>k\<ge>1. ensureUniqueWorkflowName base workflows = suffixed base k \<and> name_in_use workflows base \<and>
       (\<forall>i\<in>{1..<k}. name_in_use workflows (suffixed base i))))"
  using assms unique_loop_first [of 1 workflows base] by (auto simp: ensureUniqueWorkflowName_def)

text \<open>The pick is the maximum of the eligible workflows, by rank, then update and creation time.\<close>

definition pick_key :: "string \<Rightarrow> string \<Rightarrow> Workflow \<Rightarrow> nat \<times> int \<times> int" where
  "pick_key n a wfl = (workflow_rank n a wfl, wf_UpdateTime wfl, wf_CreateTime wfl)"

lemma pick_step_key:
  "pick_step n a w best =
    (case w of None \<Rightarrow> best
     | Some wfl \<Rightarrow> if \<not> eligible wfl then best else
         (case best of None \<Rightarrow> Some wfl | Some b \<Rightarrow> if pick_key n a wfl > pick_key n a b then Some wfl else best))"
  by (auto simp: pick_step_def pick_key_def Let_def less_prod_def' split: option.splits)

lemma pick_fold:
  assumes "\<forall>b. best = Some b \<longrightarrow> eligible b"
  shows "case fold (pick_step n a) ws best of
      None \<Rightarrow> best = None \<and> (\<forall>w. Some w \<in> set ws \<longrightarrow> \<not> eligible w)
    | Some b \<Rightarrow> eligible b \<and> (best = Some b \<or> Some b \<in> set ws) \<and>
        (\<forall>w. (best = Some w \<or> Some w \<in> set ws) \<and> eligible w \<longrightarrow> pick_key n a w \<le> pick_key n a b)"
  using assms
proof (induction ws arbitrary: best)
  case (Cons w ws)
  let ?best = "pick_step n a w best"
  have e: "\<forall>b. ?best = Some b \<longrightarrow> eligible b"
    using Cons.prems by (auto simp: pick_step_key split: option.splits if_splits)
  have s: "?best = Some b \<Longrightarrow> best = Some b \<or> w = Some b" for b
    by (auto simp: pick_step_key split: option.splits if_splits)
  have n: "?best = None \<Longrightarrow> best = None \<and> (\<forall>v. w = Some v \<longrightarrow> \<not> eligible v)"
    by (auto simp: pick_step_key split: option.splits if_splits)
  have le: "\<exists>b. ?best = Some b \<and> pick_key n a v \<le> pick_key n a b"
    if "best = Some v \<or> w = Some v" "eligible v" for v
    using that Cons.prems by (auto simp: pick_step_key split: option.splits if_splits)
  show ?case
  proof (cases "fold (pick_step n a) ws ?best")
    case None
    with Cons.IH [OF e] have "?best = None" and "\<forall>v. Some v \<in> set ws \<longrightarrow> \<not> eligible v" by simp_all
    with n None show ?thesis by auto
  next
    case (Some b)
    with Cons.IH [OF e] have b: "eligible b" "?best = Some b \<or> Some b \<in> set ws"
      "\<forall>v. (?best = Some v \<or> Some v \<in> set ws) \<and> eligible v \<longrightarrow> pick_key n a v \<le> pick_key n a b"
      by simp_all
    have "pick_key n a v \<le> pick_key n a b" if "best = Some v \<or> w = Some v" "eligible v" for v
      using le [OF that] b(3) e by (meson order_trans)
    with Some b s show ?thesis by auto
  qed
qed (auto split: option.split)

lemma pickDefault_max:
  assumes "pickDefaultWorkflow ws n a = Some b"
  shows "Some b \<in> set ws \<and> eligible b \<and>
    (\<forall>w. Some w \<in> set ws \<and> eligible w \<longrightarrow> pick_key n a w \<le> pick_key n a b)"
  using assms pick_fold [of None ws n a] by (simp add: pickDefaultWorkflow_def)

lemma pickDefault_None:
  "pickDefaultWorkflow ws n a = None \<longleftrightarrow> (\<forall>w. Some w \<in> set ws \<longrightarrow> \<not> eligible w)"
  using pick_fold [of None ws n a] by (auto simp: pickDefaultWorkflow_def split: option.splits)

text \<open>References.\<close>

lemma ensureComponentsExist_None:
  "ensureComponentsExist (mergeWorkflowComponents cs ps) existing = None \<longleftrightarrow> refs_ok existing (cs @ ps)"
  by (auto simp: ensureComponentsExist_def find_None_iff refs_ok_def mergeWorkflowComponents_def
      set_dedupeStrings)

lemma ensure_substeps_None:
  "ensure_substeps ss existing = None \<longleftrightarrow>
    list_all (\<lambda>s. refs_ok existing (sr_Components s @ sr_Policies s)) ss"
  by (induction ss) (simp_all add: ensureComponentsExist_None [symmetric] split: option.split)

lemma validateWorkflowComponentRefs_None:
  "validateWorkflowComponentRefs steps existing = None \<longleftrightarrow>
    list_all (\<lambda>s. refs_ok existing (wr_Components s @ wr_Policies s) \<and>
      list_all (\<lambda>sub. refs_ok existing (sr_Components sub @ sr_Policies sub)) (wr_SubSteps s)) steps"
proof (induction steps)
  case (Cons s ss)
  then show ?case
    using ensureComponentsExist_None [of "wr_Components s" "wr_Policies s" existing]
      ensure_substeps_None [of "wr_SubSteps s" existing]
    by (cases "ensureComponentsExist (mergeWorkflowComponents (wr_Components s) (wr_Policies s)) existing";
        cases "ensure_substeps (wr_SubSteps s) existing") auto
qed simp

lemma ensureComponentsExist_Some:
  "ensureComponentsExist names existing = Some n \<Longrightarrow> n \<in> set names \<and> ToLower n \<notin> existing"
  by (auto simp: ensureComponentsExist_def find_Some_iff)

text \<open>
  What a stored step refers to: the names given with the step, or with a sub-step, without empty
  ones and repetitions; a sub-step without names refers to the component of its own name.
\<close>

definition substep_refs :: "CreateWorkflowSubStepRequest \<Rightarrow> string list" where
  "substep_refs s =
    (let ns = mergeWorkflowComponents (sr_Components s) (sr_Policies s)
     in if ns = [] \<and> sr_Name s \<noteq> '''' then [sr_Name s] else ns)"

definition request_refs :: "CreateWorkflowStepRequest \<Rightarrow> string list" where
  "request_refs s =
    (let ns = mergeWorkflowComponents (wr_Components s) (wr_Policies s)
     in if wr_SubSteps s \<noteq> [] then concat (map substep_refs (wr_SubSteps s))
        else if ns = [] \<and> wr_Name s \<noteq> '''' then [wr_Name s] else ns)"

lemma convert_substep_refs: "WorkflowSubStep_ComponentNames (Some (convert_substep s)) = substep_refs s"
  by (simp add: WorkflowSubStep_ComponentNames_def convert_substep_def name_properties_def substep_refs_def
      extractPolicyNames_def Let_def)

lemma convert_step_refs: "step_refs (convert_step s) = request_refs s"
  by (simp add: step_refs_def WorkflowStep_ComponentNames_def convert_step_def name_properties_def
      request_refs_def extractPolicyNames_def Let_def convert_substep_refs comp_def)

lemma component_step_refs: "step_refs (component_step n) = [n]"
  by (simp add: step_refs_def WorkflowStep_ComponentNames_def component_step_def extractPolicyNames_def)

text \<open>The references of a valid request are declared, but for the bare names of sub-steps.\<close>

lemma substep_refs_ok:
  "refs_ok names (sr_Components s @ sr_Policies s) \<Longrightarrow> n \<in> set (substep_refs s) \<Longrightarrow>
   ToLower n \<in> names \<or> (n = sr_Name s \<and> set (sr_Components s @ sr_Policies s) \<subseteq> {''''})"
  using mergeWorkflowComponents_Nil [of "sr_Components s" "sr_Policies s"]
  by (auto simp: substep_refs_def Let_def refs_ok_def mergeWorkflowComponents_def set_dedupeStrings
      split: if_splits)

lemma request_refs_ok:
  assumes "step_ok names s" "n \<in> set (request_refs s)"
  shows "ToLower n \<in> names \<or>
    (\<exists>sub\<in>set (wr_SubSteps s). n = sr_Name sub \<and> set (sr_Components sub @ sr_Policies sub) \<subseteq> {''''})"
proof (cases "wr_SubSteps s = []")
  case True
  then have "\<not> set (wr_Components s @ wr_Policies s) \<subseteq> {''''}"
    and "refs_ok names (wr_Components s @ wr_Policies s)"
    using assms(1) by (auto simp: step_ok_def)
  moreover from this(1) have "mergeWorkflowComponents (wr_Components s) (wr_Policies s) \<noteq> []"
    by (simp add: mergeWorkflowComponents_Nil)
  ultimately show ?thesis
    using True assms(2)
    by (auto simp: request_refs_def Let_def refs_ok_def mergeWorkflowComponents_def set_dedupeStrings)
next
  case False
  with assms(2) obtain sub where "sub \<in> set (wr_SubSteps s)" "n \<in> set (substep_refs sub)"
    by (auto simp: request_refs_def)
  with assms(1) substep_refs_ok [of names sub n] show ?thesis by (auto simp: step_ok_def)
qed

text \<open>The stored steps survive the round trip through their document.\<close>

lemma wf_convert_step:
  assumes "canonical_JobType (wr_WorkflowType s)" "list_all (\<lambda>sub. canonical_JobType (sr_WorkflowType sub)) (wr_SubSteps s)"
  shows "wf_step (convert_step s)"
  using assms by (auto simp: wf_step_def convert_step_def convert_substep_def ParseWorkflowMode_def
      canonical_Mode_def WorkflowMode_of_def list_all_iff Let_def)

lemma wf_component_step: "wf_step (component_step n)"
  by (simp add: wf_step_def component_step_def canonical_Mode_def WorkflowMode_of_def canonical_JobType_def
      JobType_of_def JobType_table_def)

end
