(* ===== verification/Kube_Encode.thy ===== *)
theory Kube_Encode
  imports Kube_Decode
begin

text \<open>
  \<open>NewJSONStructByStruct\<close> of \<open>domain/model/model.go\<close> on \<open>Properties\<close> and \<open>Traits\<close>: the stored
  document of a value, field by field with \<open>omitempty\<close>, and the round trip through the decoders.
\<close>

section \<open>Fields\<close>

text \<open>An encoded struct: its JSON names with the encoded fields, \<open>None\<close> for an omitted one.\<close>

definition jobj :: "string list \<Rightarrow> json option list \<Rightarrow> json" where
  "jobj ks vs = JObj (List.map_filter (\<lambda>(k, v). map_option (Pair k) v) (zip ks vs))"

definition omit_if :: "bool \<Rightarrow> json \<Rightarrow> json option" where
  "omit_if c j = (if c then None else Some j)"

definition jstr :: "string \<Rightarrow> json option" where
  "jstr s = Some (JStr s)"

definition jstr_omit :: "string \<Rightarrow> json option" where
  "jstr_omit s = omit_if (s = '''') (JStr s)"

definition jint_omit :: "int \<Rightarrow> json option" where
  "jint_omit n = omit_if (n = 0) (JNum n)"

definition jbool_omit :: "bool \<Rightarrow> json option" where
  "jbool_omit b = omit_if (\<not> b) (JBool b)"

text \<open>A nil slice or map is \<open>null\<close>; nil and empty ones are not told apart unless their type says so.\<close>

definition jlist :: "json list \<Rightarrow> json option" where
  "jlist js = Some (if js = [] then JNull else JArr js)"

definition jlist_omit :: "json list \<Rightarrow> json option" where
  "jlist_omit js = omit_if (js = []) (JArr js)"

definition jmap :: "(string \<times> string) list \<Rightarrow> json" where
  "jmap m = JObj (map (\<lambda>(k, v). (k, JStr v)) m)"

definition jmap_omit :: "(string \<times> string) list \<Rightarrow> json option" where
  "jmap_omit m = omit_if (m = []) (jmap m)"

definition jmap_null :: "(string \<times> string) list \<Rightarrow> json option" where
  "jmap_null m = Some (if m = [] then JNull else jmap m)"

definition jmap_ptr :: "(string \<times> string) list option \<Rightarrow> json option" where
  "jmap_ptr m = Some (case m of None \<Rightarrow> JNull | Some m \<Rightarrow> jmap m)"

abbreviation jstrs :: "string list \<Rightarrow> json list" where
  "jstrs ss \<equiv> map JStr ss"

section \<open>Encoders\<close>

definition properties_keys :: "string list" where
  "properties_keys = [''image'', ''ports'', ''env'', ''conf'', ''secret'', ''command'', ''labels'']"

definition encode_properties :: "Properties \<Rightarrow> json" where
  "encode_properties p = jobj properties_keys
    [jstr (pr_Image p), jlist (map (\<lambda>n. jobj [''port''] [Some (JNum n)]) (pr_Ports p)),
     jmap_null (pr_Env p), jmap_ptr (pr_Conf p), jmap_ptr (pr_Secret p),
     jlist (jstrs (pr_Command p)), jmap_null (pr_Labels p)]"

definition storage_keys :: "string list" where
  "storage_keys = [''name'', ''type'', ''mount_path'', ''sub_path'', ''read_only'', ''source_name'',
     ''tmp_create'', ''size'', ''claim_name'', ''storage_class'']"

definition encode_storage :: "StorageTraitSpec \<Rightarrow> json" where
  "encode_storage s = jobj storage_keys
    [jstr_omit (st_Name s), jstr (st_Type s), jstr (st_MountPath s), jstr_omit (st_SubPath s),
     jbool_omit (st_ReadOnly s), jstr_omit (st_SourceName s), jbool_omit (st_TmpCreate s),
     jstr_omit (st_Size s), jstr_omit (st_ClaimName s), jstr_omit (st_StorageClass s)]"

definition encode_env_from :: "EnvFromSourceSpec \<Rightarrow> json" where
  "encode_env_from e = jobj [''type'', ''source_name''] [jstr (ef_Type e), jstr (ef_SourceName e)]"

definition encode_selector :: "KeySelectorSpec \<Rightarrow> json" where
  "encode_selector s = jobj [''name'', ''key''] [jstr (ks_Name s), jstr (ks_Key s)]"

definition encode_env :: "SimplifiedEnvSpec \<Rightarrow> json" where
  "encode_env e = (let v = se_ValueFrom e in jobj [''name'', ''value_from'']
    [jstr (se_EnvName e),
     Some (jobj [''static'', ''secret'', ''config'', ''field'']
       [map_option JStr (vs_Static v), map_option encode_selector (vs_Secret v),
        map_option encode_selector (vs_Config v), map_option JStr (vs_Field v)])])"

definition probe_keys :: "string list" where
  "probe_keys = [''type'', ''initial_delay_seconds'', ''period_seconds'', ''timeout_seconds'',
     ''failure_threshold'', ''success_threshold'', ''exec'', ''http_get'', ''tcp_socket'']"

definition encode_probe :: "ProbeTraitsSpec \<Rightarrow> json" where
  "encode_probe p = jobj probe_keys
    [jstr (pb_Type p), jint_omit (pb_InitialDelaySeconds p), jint_omit (pb_PeriodSeconds p),
     jint_omit (pb_TimeoutSeconds p), jint_omit (pb_FailureThreshold p), jint_omit (pb_SuccessThreshold p),
     map_option (\<lambda>c. jobj [''command''] [jlist (jstrs c)]) (pb_Exec p),
     map_option (\<lambda>h. jobj [''path'', ''port'', ''host'', ''scheme'']
       [jstr (hg_Path h), Some (JNum (hg_Port h)), jstr_omit (hg_Host h), jstr_omit (hg_Scheme h)]) (pb_HTTPGet p),
     map_option (\<lambda>t. jobj [''port'', ''host''] [Some (JNum (ts_Port t)), jstr_omit (ts_Host t)]) (pb_TCPSocket p)]"

definition encode_resources :: "ResourceTraitsSpec \<Rightarrow> json" where
  "encode_resources r = jobj [''cpu'', ''memory'', ''gpu'']
    [jstr_omit (rs_CPU r), jstr_omit (rs_Memory r), jstr_omit (rs_GPU r)]"

definition encode_route :: "IngressRoutes \<Rightarrow> json" where
  "encode_route r = (let b = ig_Backend r in jobj [''path'', ''path_type'', ''host'', ''backend'', ''rewrite'']
    [jstr_omit (ig_Path r), jstr_omit (ig_PathType r), jstr_omit (ig_Host r),
     Some (jobj [''service_name'', ''service_port'', ''weight'', ''headers'']
       [jstr (ir_ServiceName b), jint_omit (ir_ServicePort b), jint_omit (ir_Weight b), jmap_omit (ir_Headers b)]),
     map_option (\<lambda>w. jobj [''type'', ''match'', ''replacement'']
       [jstr (rw_Type w), jstr_omit (rw_Match w), jstr_omit (rw_Replacement w)]) (ig_Rewrite r)])"

definition ingress_keys :: "string list" where
  "ingress_keys = [''name'', ''namespace'', ''hosts'', ''label'', ''annotations'', ''ingress_class_name'',
     ''default_path_type'', ''tls'', ''routes'']"

definition encode_ingress :: "IngressTraitsSpec \<Rightarrow> json" where
  "encode_ingress g = jobj ingress_keys
    [jstr (ing_Name g), jstr (ing_Namespace g), jlist_omit (jstrs (ing_Hosts g)),
     jmap_null (ing_Label g), jmap_omit (ing_Annotations g),
     jstr_omit (ing_IngressClassName g), jstr_omit (ing_DefaultPathType g),
     jlist_omit (map (\<lambda>t. jobj [''secret_name'', ''hosts'']
       [jstr (tls_SecretName t), jlist_omit (jstrs (tls_Hosts t))]) (ing_TLS g)),
     jlist (map encode_route (ing_Routes g))]"

definition encode_rule :: "RBACRuleSpec \<Rightarrow> json" where
  "encode_rule r = jobj [''api_groups'', ''resources'', ''resource_names'', ''non_resource_urls'', ''verbs'']
    [jlist_omit (jstrs (rr_APIGroups r)), jlist_omit (jstrs (rr_Resources r)),
     jlist_omit (jstrs (rr_ResourceNames r)), jlist_omit (jstrs (rr_NonResourceURLs r)),
     jlist (jstrs (rr_Verbs r))]"

definition rbac_keys :: "string list" where
  "rbac_keys = [''service_account'', ''namespace'', ''cluster_scope'', ''role_name'', ''binding_name'',
     ''service_accountLabels'', ''service_accountAnnotations'', ''role_labels'', ''binding_labels'',
     ''rules'', ''automount_service_account_token'']"

definition encode_rbac :: "RBACPolicySpec \<Rightarrow> json" where
  "encode_rbac b = jobj rbac_keys
    [jstr_omit (rb_ServiceAccount b), jstr_omit (rb_Namespace b), jbool_omit (rb_ClusterScope b),
     jstr_omit (rb_RoleName b), jstr_omit (rb_BindingName b), jmap_omit (rb_ServiceAccountLabels b),
     jmap_omit (rb_ServiceAccountAnnotations b), jmap_omit (rb_RoleLabels b), jmap_omit (rb_BindingLabels b),
     jlist (map encode_rule (rb_Rules b)), map_option JBool (rb_AutomountSAT b)]"

definition traits_keys :: "string list" where
  "traits_keys = [''init'', ''storage'', ''sidecar'', ''ingress'', ''rbac'', ''env_from'', ''envs'',
     ''probes'', ''resources'', ''share'']"

definition sidecar_keys :: "string list" where
  "sidecar_keys = [''name'', ''image'', ''command'', ''args'', ''env'', ''traits'']"

primrec encode_traits :: "Traits \<Rightarrow> json"
  and encode_init :: "InitTraitSpec \<Rightarrow> json"
  and encode_sidecar :: "SidecarTraitsSpec \<Rightarrow> json" where
  "encode_traits (Traits init storage sidecar ingress rbac env_from envs probes resources share) =
     jobj traits_keys
      [jlist_omit (map encode_init init), jlist_omit (map encode_storage storage),
       jlist_omit (map encode_sidecar sidecar), jlist_omit (map encode_ingress ingress),
       jlist_omit (map encode_rbac rbac), jlist_omit (map encode_env_from env_from),
       jlist_omit (map encode_env envs), jlist_omit (map encode_probe probes),
       map_option encode_resources resources,
       map_option (\<lambda>s. jobj [''strategy''] [jstr_omit s]) share]"
| "encode_init (InitTraitSpec name traits properties) =
     jobj [''name'', ''traits'', ''properties'']
      [jstr name, Some (encode_traits traits), Some (encode_properties properties)]"
| "encode_sidecar (SidecarTraitsSpec name img command args env traits) =
     jobj sidecar_keys
      [jstr name, jstr img, jlist_omit (jstrs command), jlist_omit (jstrs args), jmap_omit env,
       Some (encode_traits traits)]"

section \<open>Reading an encoded struct\<close>

definition field_value :: "json option \<Rightarrow> json" where
  "field_value v = (case v of None \<Rightarrow> JNull | Some j \<Rightarrow> j)"

abbreviation present :: "string list \<Rightarrow> json option list \<Rightarrow> (string \<times> json) list" where
  "present ks vs \<equiv> List.map_filter (\<lambda>(k, v). map_option (Pair k) v) (zip ks vs)"

lemma present_Cons:
  "present (x # xs) (y # ys) = (case y of None \<Rightarrow> [] | Some j \<Rightarrow> [(x, j)]) @ present xs ys"
  by (simp add: map_filter_simps split: option.splits)

lemma find_present_None:
  "length ks = length vs \<Longrightarrow> ToLower k \<notin> ToLower ` set ks \<Longrightarrow>
   find (\<lambda>kv. ToLower (fst kv) = ToLower k) (rev (present ks vs)) = None"
  by (induction ks vs rule: list_induct2)
    (auto simp: map_filter_simps(2) present_Cons find_append split: option.splits)

lemma find_present:
  "length ks = length vs \<Longrightarrow> distinct (map ToLower ks) \<Longrightarrow> k \<in> set ks \<Longrightarrow>
   find (\<lambda>kv. ToLower (fst kv) = ToLower k) (rev (present ks vs)) =
     map_option (Pair k) (the (map_of (zip ks vs) k))"
proof (induction ks vs rule: list_induct2)
  case (Cons x xs y ys)
  show ?case
  proof (cases "k = x")
    case True
    with Cons.prems have "ToLower k \<notin> ToLower ` set xs" by simp
    with Cons.hyps True show ?thesis
      by (auto simp: present_Cons find_append find_present_None split: option.splits)
  next
    case False
    with Cons.prems have "ToLower x \<noteq> ToLower k" by auto
    moreover have "find (\<lambda>kv. ToLower (fst kv) = ToLower k) (rev (present xs ys)) =
        map_option (Pair k) (the (map_of (zip xs ys) k))"
      using Cons.IH Cons.prems False by simp
    ultimately show ?thesis using False
      by (auto simp: present_Cons find_append split: option.splits)
  qed
qed simp

lemma json_get_jobj:
  assumes "distinct (map ToLower ks)" "length ks = length vs" "k \<in> set ks"
  shows "json_get k (jobj ks vs) = field_value (the (map_of (zip ks vs) k))"
  using find_present [OF assms(2,1,3)]
  by (auto simp: json_get_def jobj_def field_value_def split: option.splits)

text \<open>The names of each struct stay apart when compared without case.\<close>

definition lower_distinct :: "string list \<Rightarrow> bool" where
  "lower_distinct ks \<longleftrightarrow> distinct (map ToLower ks)"

lemma lower_distinct_keys [simp]:
  "lower_distinct properties_keys" "lower_distinct storage_keys" "lower_distinct probe_keys"
  "lower_distinct ingress_keys" "lower_distinct rbac_keys" "lower_distinct traits_keys"
  "lower_distinct sidecar_keys"
  by code_simp+

lemma lower_distinct_small [simp]:
  "lower_distinct [''port'']" "lower_distinct [''type'', ''source_name'']"
  "lower_distinct [''name'', ''key'']" "lower_distinct [''name'', ''value_from'']"
  "lower_distinct [''static'', ''secret'', ''config'', ''field'']" "lower_distinct [''command'']"
  "lower_distinct [''path'', ''port'', ''host'', ''scheme'']" "lower_distinct [''port'', ''host'']"
  "lower_distinct [''cpu'', ''memory'', ''gpu'']"
  "lower_distinct [''path'', ''path_type'', ''host'', ''backend'', ''rewrite'']"
  "lower_distinct [''service_name'', ''service_port'', ''weight'', ''headers'']"
  "lower_distinct [''type'', ''match'', ''replacement'']" "lower_distinct [''secret_name'', ''hosts'']"
  "lower_distinct [''api_groups'', ''resources'', ''resource_names'', ''non_resource_urls'', ''verbs'']"
  "lower_distinct [''name'', ''traits'', ''properties'']" "lower_distinct [''strategy'']"
  by code_simp+

lemma json_get_field [simp]:
  "lower_distinct ks \<Longrightarrow> length ks = length vs \<Longrightarrow> k \<in> set ks \<Longrightarrow>
   json_get k (jobj ks vs) = field_value (the (map_of (zip ks vs) k))"
  by (simp add: json_get_jobj lower_distinct_def)

text \<open>Reading back what a field encoder wrote.\<close>

lemma read_fields [simp]:
  "json_str (field_value (jstr s)) = s"
  "json_str (field_value (jstr_omit s)) = s"
  "json_int (field_value (Some (JNum n))) = n"
  "json_int (field_value (jint_omit n)) = n"
  "json_bool (field_value (jbool_omit b)) = b"
  "json_list (field_value (jlist js)) = js"
  "json_list (field_value (jlist_omit js)) = js"
  "json_strmap (field_value (jmap_omit m)) = m"
  "json_strmap (field_value (jmap_null m)) = m"
  by (simp_all add: field_value_def jstr_def jstr_omit_def jint_omit_def jbool_omit_def jlist_def
      jlist_omit_def jmap_omit_def jmap_null_def omit_if_def json_strmap_def jmap_def comp_def split_def)

lemma read_strs [simp]:
  "json_strs (field_value (jlist (jstrs ss))) = ss"
  "json_strs (field_value (jlist_omit (jstrs ss))) = ss"
  by (simp_all add: json_strs_def comp_def)

lemma read_ptrs [simp]:
  "json_strmap_ptr (field_value (jmap_ptr m)) = m"
  by (cases m) (simp_all add: json_strmap_ptr_def field_value_def jmap_ptr_def jmap_def json_strmap_def
      comp_def split_def)

lemma jobj_not_null [simp]: "jobj ks vs \<noteq> JNull"
  by (simp add: jobj_def)

lemma json_ptr_map [simp]:
  "(\<And>x. e x \<noteq> JNull) \<Longrightarrow> json_ptr f (field_value (map_option e v)) = map_option (\<lambda>x. f (e x)) v"
  by (cases v) (simp_all add: json_ptr_def field_value_def)

lemma field_value_Some [simp]: "field_value (Some j) = j"
  by (simp add: field_value_def)

section \<open>Round trips\<close>

lemma eta_records [simp]:
  "\<lparr>hg_Path = hg_Path h, hg_Port = hg_Port h, hg_Host = hg_Host h, hg_Scheme = hg_Scheme h\<rparr> = h"
  "\<lparr>ts_Port = ts_Port t, ts_Host = ts_Host t\<rparr> = t"
  "\<lparr>rw_Type = rw_Type w, rw_Match = rw_Match w, rw_Replacement = rw_Replacement w\<rparr> = w"
  "\<lparr>tls_SecretName = tls_SecretName l, tls_Hosts = tls_Hosts l\<rparr> = l"
  by (cases h, simp; fail) (cases t, simp; fail | cases w, simp; fail | cases l, simp; fail)+

lemma decode_properties_encode: "decode_properties (encode_properties p) = p"
  by (cases p) (simp add: encode_properties_def decode_properties_def properties_keys_def comp_def
      lower_distinct_keys [unfolded properties_keys_def] map_idI)

lemma decode_storage_encode: "decode_storage (encode_storage s) = s"
  by (cases s) (simp add: encode_storage_def decode_storage_def storage_keys_def
      lower_distinct_keys [unfolded storage_keys_def])

lemma decode_env_from_encode: "decode_env_from (encode_env_from e) = e"
  by (cases e) (simp add: encode_env_from_def decode_env_from_def)

lemma decode_selector_encode: "decode_selector (encode_selector s) = s"
  by (cases s) (simp add: encode_selector_def decode_selector_def)

lemma encode_selector_not_null [simp]: "encode_selector s \<noteq> JNull"
  by (simp add: encode_selector_def)

lemma decode_env_encode: "decode_env (encode_env e) = e"
  by (cases e; cases "se_ValueFrom e")
    (simp add: encode_env_def decode_env_def Let_def decode_selector_encode option.map_ident)

lemma decode_probe_encode: "decode_probe (encode_probe p) = p"
  by (cases p) (simp add: encode_probe_def decode_probe_def probe_keys_def
      lower_distinct_keys [unfolded probe_keys_def] option.map_ident)

lemma decode_resources_encode: "decode_resources (encode_resources r) = r"
  by (cases r) (simp add: encode_resources_def decode_resources_def)

lemma decode_route_encode: "decode_route (encode_route r) = r"
  by (cases r; cases "ig_Backend r")
    (simp add: encode_route_def decode_route_def Let_def option.map_ident)

lemma decode_ingress_encode: "decode_ingress (encode_ingress g) = g"
  by (cases g) (simp add: encode_ingress_def decode_ingress_def ingress_keys_def
      lower_distinct_keys [unfolded ingress_keys_def] decode_route_encode comp_def map_idI)

lemma decode_rule_encode: "decode_rule (encode_rule r) = r"
  by (cases r) (simp add: encode_rule_def decode_rule_def)

lemma decode_rbac_encode: "decode_rbac (encode_rbac b) = b"
  by (cases b) (simp add: encode_rbac_def decode_rbac_def rbac_keys_def
      lower_distinct_keys [unfolded rbac_keys_def] decode_rule_encode comp_def map_idI
      option.map_ident)

lemmas decode_encode_leaf = decode_storage_encode decode_env_from_encode decode_env_encode
  decode_probe_encode decode_ingress_encode decode_rbac_encode decode_properties_encode

lemma encode_resources_not_null [simp]: "encode_resources r \<noteq> JNull"
  by (simp add: encode_resources_def)

lemma encode_init_fields:
  "json_get ''name'' (encode_init c) = JStr (it_Name c)"
  "json_get ''traits'' (encode_init c) = encode_traits (it_Traits c)"
  "json_get ''properties'' (encode_init c) = encode_properties (it_Properties c)"
  by (cases c; simp add: jstr_def)+

lemma encode_sidecar_fields:
  "json_get ''name'' (encode_sidecar c) = JStr (sd_Name c)"
  "json_get ''image'' (encode_sidecar c) = JStr (sd_Image c)"
  "json_strs (json_get ''command'' (encode_sidecar c)) = sd_Command c"
  "json_strs (json_get ''args'' (encode_sidecar c)) = sd_Args c"
  "json_strmap (json_get ''env'' (encode_sidecar c)) = sd_Env c"
  "json_get ''traits'' (encode_sidecar c) = encode_traits (sd_Traits c)"
  by (cases c; simp add: sidecar_keys_def lower_distinct_keys [unfolded sidecar_keys_def] jstr_def)+

lemma decode_traits_encode: "decode_traits (encode_traits t) = t"
proof (induction t rule: measure_induct_rule [of size])
  case (less t)
  have init: "decode_traits (encode_traits (it_Traits c)) = it_Traits c" if "c \<in> set (t_Init t)" for c
    using size_Traits_init [OF that] by (intro less.IH) simp
  have sidecar: "decode_traits (encode_traits (sd_Traits c)) = sd_Traits c" if "c \<in> set (t_Sidecar t)" for c
    using size_Traits_sidecar [OF that] by (intro less.IH) simp
  show ?case
    using init sidecar
    by (cases t; subst decode_traits.simps)
      (auto simp: traits_keys_def lower_distinct_keys [unfolded traits_keys_def] comp_def
        encode_init_fields encode_sidecar_fields decode_encode_leaf decode_resources_encode
        option.map_ident intro!: map_idI)
qed

section \<open>An encoded value has the shape its decoder expects\<close>

lemma field_of_key:
  assumes "lower_distinct (map fst fs)" "(k, s) \<in> set fs"
  shows "field_of k fs = Some s"
  using assms
proof (induction fs)
  case (Cons f fs)
  show ?case
  proof (cases "f = (k, s)")
    case False
    with Cons.prems have "(k, s) \<in> set fs" by simp
    moreover from this Cons.prems have "ToLower (fst f) \<noteq> ToLower k"
      by (force simp: lower_distinct_def)
    ultimately show ?thesis using Cons by (simp add: field_of_def lower_distinct_def)
  qed (simp add: field_of_def)
qed simp

lemma conforms_present:
  assumes "length fs = length vs" "\<And>k s. (k, s) \<in> set fs \<Longrightarrow> field_of k gs = Some s"
  shows "(\<forall>kv\<in>set (present (map fst fs) vs). case field_of (fst kv) gs of None \<Rightarrow> True
           | Some s \<Rightarrow> conforms (snd kv) s) \<longleftrightarrow>
         list_all2 (\<lambda>v f. pred_option (\<lambda>j. conforms j (snd f)) v) vs fs"
  using assms
proof (induction fs vs rule: list_induct2)
  case (Cons f fs v vs)
  have "field_of (fst f) gs = Some (snd f)" using Cons.prems by simp
  moreover have "(\<forall>kv\<in>set (present (map fst fs) vs). case field_of (fst kv) gs of None \<Rightarrow> True
           | Some s \<Rightarrow> conforms (snd kv) s) \<longleftrightarrow>
         list_all2 (\<lambda>v f. pred_option (\<lambda>j. conforms j (snd f)) v) vs fs"
    using Cons.IH Cons.prems by simp
  ultimately show ?case by (cases v) (simp_all add: present_Cons)
qed (simp add: map_filter_simps)

lemma conforms_jobj:
  assumes "resolve s = SStruct fs" "map fst fs = ks" "lower_distinct ks" "length vs = length fs"
  shows "conforms (jobj ks vs) s \<longleftrightarrow> list_all2 (\<lambda>v f. pred_option (\<lambda>j. conforms j (snd f)) v) vs fs"
proof -
  have "conforms (jobj ks vs) s \<longleftrightarrow>
      (\<forall>kv\<in>set (present ks vs). case field_of (fst kv) fs of None \<Rightarrow> True | Some s \<Rightarrow> conforms (snd kv) s)"
    using assms(1) by (simp add: jobj_def)
  also have "\<dots> \<longleftrightarrow> list_all2 (\<lambda>v f. pred_option (\<lambda>j. conforms j (snd f)) v) vs fs"
    using conforms_present [of fs vs fs] field_of_key [of fs] assms(2,3,4) by simp
  finally show ?thesis .
qed

lemma conforms_struct [simp]:
  "map fst fs = ks \<Longrightarrow> lower_distinct ks \<Longrightarrow> length vs = length fs \<Longrightarrow>
   conforms (jobj ks vs) (SStruct fs) \<longleftrightarrow> list_all2 (\<lambda>v f. pred_option (\<lambda>j. conforms j (snd f)) v) vs fs"
  by (rule conforms_jobj) (simp_all add: resolve_def)

lemma conforms_STraits: "conforms j STraits \<longleftrightarrow> conforms j traits_schema"
proof -
  have "resolve STraits = resolve traits_schema" by (simp add: resolve_def traits_schema_def)
  then show ?thesis by (cases j) simp_all
qed

text \<open>The values of the field encoders.\<close>

lemma conforms_fields [simp]:
  "pred_option (\<lambda>j. conforms j SStr) (jstr s)"
  "pred_option (\<lambda>j. conforms j SStr) (jstr_omit s)"
  "pred_option (\<lambda>j. conforms j SBool) (jbool_omit b)"
  "pred_option (\<lambda>j. conforms j (SMap SStr)) (jmap_omit m)"
  "pred_option (\<lambda>j. conforms j (SMap SStr)) (jmap_null m)"
  "pred_option (\<lambda>j. conforms j (SMap SStr)) (jmap_ptr mp)"
  "pred_option (\<lambda>j. conforms j (SArr s')) (jlist js) \<longleftrightarrow> (\<forall>j\<in>set js. conforms j s')"
  "pred_option (\<lambda>j. conforms j (SArr s')) (jlist_omit js) \<longleftrightarrow> (\<forall>j\<in>set js. conforms j s')"
  by (auto simp: jstr_def jstr_omit_def jbool_omit_def jmap_omit_def jmap_null_def jmap_ptr_def
      jlist_def jlist_omit_def omit_if_def jmap_def resolve_def split: option.splits)

definition fits :: "nat \<Rightarrow> int \<Rightarrow> bool" where
  "fits w n \<longleftrightarrow> - (2 ^ (w - 1)) \<le> n \<and> n < 2 ^ (w - 1)"

lemma conforms_num [simp]:
  "conforms (JNum n) (SInt w) \<longleftrightarrow> fits w n"
  "pred_option (\<lambda>j. conforms j (SInt w)) (jint_omit n) \<longleftrightarrow> n = 0 \<or> fits w n"
  by (auto simp: jint_omit_def omit_if_def fits_def resolve_def)

lemma conforms_str [simp]: "conforms (JStr s) SStr" "conforms (JBool b) SBool"
  by (simp_all add: resolve_def)

declare conforms.simps [simp del]

lemma fits_0 [simp]: "fits w 0"
  by (simp add: fits_def)

text \<open>The integers of a value fit their widths, as the fields of the Go structs do.\<close>

definition properties_ints :: "Properties \<Rightarrow> bool" where
  "properties_ints p \<longleftrightarrow> list_all (fits 32) (pr_Ports p)"

definition probe_ints :: "ProbeTraitsSpec \<Rightarrow> bool" where
  "probe_ints p \<longleftrightarrow>
    list_all (fits 32) [pb_InitialDelaySeconds p, pb_PeriodSeconds p, pb_TimeoutSeconds p,
      pb_FailureThreshold p, pb_SuccessThreshold p] \<and>
    pred_option (\<lambda>h. fits 64 (hg_Port h)) (pb_HTTPGet p) \<and> pred_option (\<lambda>t. fits 64 (ts_Port t)) (pb_TCPSocket p)"

definition route_ints :: "IngressRoutes \<Rightarrow> bool" where
  "route_ints r \<longleftrightarrow> fits 32 (ir_ServicePort (ig_Backend r)) \<and> fits 32 (ir_Weight (ig_Backend r))"

primrec traits_ints :: "Traits \<Rightarrow> bool"
  and init_ints :: "InitTraitSpec \<Rightarrow> bool"
  and sidecar_ints :: "SidecarTraitsSpec \<Rightarrow> bool" where
  "traits_ints (Traits init storage sidecar ingress rbac env_from envs probes resources share) \<longleftrightarrow>
     list_all id (map init_ints init) \<and> list_all id (map sidecar_ints sidecar) \<and>
     list_all (\<lambda>g. list_all route_ints (ing_Routes g)) ingress \<and> list_all probe_ints probes"
| "init_ints (InitTraitSpec name traits properties) \<longleftrightarrow> traits_ints traits \<and> properties_ints properties"
| "sidecar_ints (SidecarTraitsSpec name img command args env traits) \<longleftrightarrow> traits_ints traits"

lemma conforms_properties: "conforms (encode_properties p) properties_schema \<longleftrightarrow> properties_ints p"
  by (simp add: encode_properties_def properties_schema_def properties_keys_def
      lower_distinct_keys [unfolded properties_keys_def] properties_ints_def list_all_iff)

lemma conforms_storage:
  "conforms (encode_storage s) (SStruct
        [(''name'', SStr), (''type'', SStr), (''mount_path'', SStr), (''sub_path'', SStr),
         (''read_only'', SBool), (''source_name'', SStr), (''tmp_create'', SBool),
         (''size'', SStr), (''claim_name'', SStr), (''storage_class'', SStr)])"
  by (simp add: encode_storage_def storage_keys_def lower_distinct_keys [unfolded storage_keys_def])

lemma conforms_ingress:
  "conforms (encode_ingress g) (SStruct
        [(''name'', SStr), (''namespace'', SStr), (''hosts'', SArr SStr), (''label'', SMap SStr),
         (''annotations'', SMap SStr), (''ingress_class_name'', SStr),
         (''default_path_type'', SStr),
         (''tls'', SArr (SStruct [(''secret_name'', SStr), (''hosts'', SArr SStr)])),
         (''routes'', SArr (SStruct
            [(''path'', SStr), (''path_type'', SStr), (''host'', SStr),
             (''backend'', SStruct
                [(''service_name'', SStr), (''service_port'', SInt 32), (''weight'', SInt 32),
                 (''headers'', SMap SStr)]),
             (''rewrite'', SStruct
                [(''type'', SStr), (''match'', SStr), (''replacement'', SStr)])]))]) \<longleftrightarrow>
    list_all route_ints (ing_Routes g)"
  by (auto simp: encode_ingress_def encode_route_def Let_def ingress_keys_def route_ints_def list_all_iff
      lower_distinct_keys [unfolded ingress_keys_def] option.pred_map comp_def option.pred_True)

lemma conforms_rbac:
  "conforms (encode_rbac b) (SStruct
        [(''service_account'', SStr), (''namespace'', SStr), (''cluster_scope'', SBool),
         (''role_name'', SStr), (''binding_name'', SStr),
         (''service_accountLabels'', SMap SStr), (''service_accountAnnotations'', SMap SStr),
         (''role_labels'', SMap SStr), (''binding_labels'', SMap SStr),
         (''rules'', SArr (SStruct
            [(''api_groups'', SArr SStr), (''resources'', SArr SStr),
             (''resource_names'', SArr SStr), (''non_resource_urls'', SArr SStr),
             (''verbs'', SArr SStr)])),
         (''automount_service_account_token'', SBool)])"
  by (simp add: encode_rbac_def encode_rule_def rbac_keys_def lower_distinct_keys [unfolded rbac_keys_def]
      option.pred_map comp_def option.pred_True)

lemma conforms_env_from:
  "conforms (encode_env_from e) (SStruct [(''type'', SStr), (''source_name'', SStr)])"
  by (simp add: encode_env_from_def)

lemma conforms_env:
  "conforms (encode_env e) (SStruct
        [(''name'', SStr),
         (''value_from'', SStruct
            [(''static'', SStr),
             (''secret'', SStruct [(''name'', SStr), (''key'', SStr)]),
             (''config'', SStruct [(''name'', SStr), (''key'', SStr)]),
             (''field'', SStr)])])"
  by (simp add: encode_env_def encode_selector_def Let_def option.pred_map comp_def option.pred_True)

lemma conforms_probe:
  "conforms (encode_probe p) (SStruct
        [(''type'', SStr), (''initial_delay_seconds'', SInt 32), (''period_seconds'', SInt 32),
         (''timeout_seconds'', SInt 32), (''failure_threshold'', SInt 32),
         (''success_threshold'', SInt 32),
         (''exec'', SStruct [(''command'', SArr SStr)]),
         (''http_get'', SStruct
            [(''path'', SStr), (''port'', SInt 64), (''host'', SStr), (''scheme'', SStr)]),
         (''tcp_socket'', SStruct [(''port'', SInt 64), (''host'', SStr)])]) \<longleftrightarrow> probe_ints p"
  by (cases "pb_Exec p"; cases "pb_HTTPGet p"; cases "pb_TCPSocket p")
    (auto simp: encode_probe_def probe_keys_def lower_distinct_keys [unfolded probe_keys_def] probe_ints_def)

lemma conforms_resources:
  "conforms (encode_resources r) (SStruct [(''cpu'', SStr), (''memory'', SStr), (''gpu'', SStr)])"
  by (simp add: encode_resources_def)

lemmas conforms_leaf = conforms_storage conforms_ingress conforms_rbac conforms_env_from conforms_env
  conforms_probe conforms_resources

lemma conforms_encode_traits: "traits_ints t \<Longrightarrow> conforms (encode_traits t) traits_schema"
proof (induction t rule: measure_induct_rule [of size])
  case (less t)
  have init: "conforms (encode_init c) (SStruct
        [(''name'', SStr), (''traits'', STraits), (''properties'', properties_schema)])"
    if "c \<in> set (t_Init t)" for c
  proof -
    have "traits_ints (it_Traits c)" "properties_ints (it_Properties c)"
      using less.prems that by (cases t; cases c; force simp: list_all_iff)+
    moreover from this(1) have "conforms (encode_traits (it_Traits c)) traits_schema"
      using size_Traits_init [OF that] by (intro less.IH) simp_all
    ultimately show ?thesis by (cases c) (simp add: conforms_STraits conforms_properties)
  qed
  have sidecar: "conforms (encode_sidecar c) (SStruct
        [(''name'', SStr), (''image'', SStr), (''command'', SArr SStr), (''args'', SArr SStr),
         (''env'', SMap SStr), (''traits'', STraits)])"
    if "c \<in> set (t_Sidecar t)" for c
  proof -
    have "traits_ints (sd_Traits c)"
      using less.prems that by (cases t; cases c; force simp: list_all_iff)
    then have "conforms (encode_traits (sd_Traits c)) traits_schema"
      using size_Traits_sidecar [OF that] by (intro less.IH) simp_all
    then show ?thesis
      by (cases c) (simp add: sidecar_keys_def lower_distinct_keys [unfolded sidecar_keys_def] conforms_STraits)
  qed
  show ?case
    using init sidecar less.prems unfolding traits_schema_def
    by (cases t) (auto simp: traits_keys_def lower_distinct_keys [unfolded traits_keys_def]
        conforms_leaf list_all_iff option.pred_map comp_def option.pred_True)
qed

end
