(* ===== verification/Kube_Templates.thy ===== *)
theory Kube_Templates
  imports Kube_Workflows Kube_Encode
begin

text \<open>
  Applications, and components made from template applications: the entity \<open>Applications\<close> with
  its part of the repositories, and \<open>resolveComponents\<close> with what it calls
  (\<open>domain/service/application.go\<close>).
\<close>

section \<open>Applications\<close>

record Applications =
  ap_ID :: string
  ap_Name :: string
  ap_Namespace :: string
  ap_Version :: string
  ap_Alias :: string
  ap_Project :: string
  ap_Description :: string
  ap_Icon :: string
  ap_TmpEnable :: bool
  ap_CreateTime :: int
  ap_UpdateTime :: int

definition Applications_zero :: Applications where
  "Applications_zero = \<lparr>ap_ID = '''', ap_Name = '''', ap_Namespace = '''', ap_Version = '''',
     ap_Alias = '''', ap_Project = '''', ap_Description = '''', ap_Icon = '''', ap_TmpEnable = False,
     ap_CreateTime = 0, ap_UpdateTime = 0\<rparr>"

definition NewApplications ::
  "string \<Rightarrow> string \<Rightarrow> string \<Rightarrow> string \<Rightarrow> string \<Rightarrow> string \<Rightarrow> string \<Rightarrow> string \<Rightarrow> bool \<Rightarrow> Applications" where
  "NewApplications i name namespace version alias project description icon tmpEnable =
    Applications_zero\<lparr>ap_ID := i, ap_Name := name, ap_Namespace := namespace, ap_Version := version,
      ap_Alias := alias, ap_Project := project, ap_Description := description, ap_Icon := icon,
      ap_TmpEnable := tmpEnable\<rparr>"

definition Applications_Entity :: "Applications Entity" where
  "Applications_Entity =
    \<lparr>PrimaryKey = ap_ID, TableName = (\<lambda>_. ''min_applications''),
     Index = (\<lambda>a. (if ap_Name a \<noteq> '''' then [(''name'', ap_Name a)] else []) @
        (if ap_Version a \<noteq> '''' then [(''version'', ap_Version a)] else []) @
        (if ap_Project a \<noteq> '''' then [(''project'', ap_Project a)] else [])),
     SetCreateTime = (\<lambda>t a. a\<lparr>ap_CreateTime := t\<rparr>), SetUpdateTime = (\<lambda>t a. a\<lparr>ap_UpdateTime := t\<rparr>)\<rparr>"

text \<open>The primary key of the interface is the name; the key column of the table is the ID.\<close>

definition ApplicationComponent_Entity :: "ApplicationComponent Entity" where
  "ApplicationComponent_Entity =
    \<lparr>PrimaryKey = ac_Name, TableName = (\<lambda>_. ''min_app_components''),
     Index = (\<lambda>c. (if ac_Name c \<noteq> '''' then [(''name'', ac_Name c)] else []) @
        (if ac_AppID c \<noteq> '''' then [(''appid'', ac_AppID c)] else [])),
     SetCreateTime = (\<lambda>t c. c\<lparr>ac_CreateTime := t\<rparr>), SetUpdateTime = (\<lambda>t c. c\<lparr>ac_UpdateTime := t\<rparr>)\<rparr>"

definition Workflow_Entity :: "Workflow Entity" where
  "Workflow_Entity =
    \<lparr>PrimaryKey = wf_ID, TableName = (\<lambda>_. ''min_workflow''),
     Index = (\<lambda>w. (if wf_ID w \<noteq> '''' then [(''id'', wf_ID w)] else []) @
        (if wf_Name w \<noteq> '''' then [(''name'', wf_Name w)] else []) @
        (if wf_AppID w \<noteq> '''' then [(''appid'', wf_AppID w)] else [])),
     SetCreateTime = (\<lambda>t w. w\<lparr>wf_CreateTime := t\<rparr>), SetUpdateTime = (\<lambda>t w. w\<lparr>wf_UpdateTime := t\<rparr>)\<rparr>"

text \<open>The datastore of the service, with its operations on each entity type.\<close>

record 'db AppStores =
  as_App :: "('db, Applications) DataStore"
  as_Component :: "('db, ApplicationComponent) DataStore"
  as_Workflow :: "('db, Workflow) DataStore"
  as_Queue :: "('db, WorkflowQueue) DataStore"

section \<open>Repository functions\<close>

definition ApplicationByID :: "'db AppStores \<Rightarrow> 'db \<Rightarrow> string \<Rightarrow> DBError + Applications" where
  "ApplicationByID st db i = ds_Get (as_App st) db (Applications_zero\<lparr>ap_ID := i\<rparr>)"

text \<open>\<open>FindByName\<close> of the repository: a \<open>Get\<close> by an application that has only its name.\<close>

definition ApplicationByName :: "'db AppStores \<Rightarrow> 'db \<Rightarrow> string \<Rightarrow> DBError + Applications" where
  "ApplicationByName st db name = ds_Get (as_App st) db (Applications_zero\<lparr>ap_Name := name\<rparr>)"

definition repo_CreateApplications ::
  "'db AppStores \<Rightarrow> int \<Rightarrow> 'db \<Rightarrow> Applications \<Rightarrow> DBError option \<times> 'db" where
  "repo_CreateApplications st now db app =
    (case ds_Add (as_App st) now db app of
       (Some ErrRecordExist, db') \<Rightarrow> ds_Put (as_App st) now db' app
     | (r, db') \<Rightarrow> (r, db'))"

definition FindComponentsByAppID ::
  "'db AppStores \<Rightarrow> 'db \<Rightarrow> string \<Rightarrow> DBError + ApplicationComponent list" where
  "FindComponentsByAppID st db appID =
    ds_List (as_Component st) db (Some (ApplicationComponent_zero\<lparr>ac_AppID := appID\<rparr>)) (Some noListOptions)"

definition FindWorkflowsByAppID :: "'db AppStores \<Rightarrow> 'db \<Rightarrow> string \<Rightarrow> DBError + Workflow list" where
  "FindWorkflowsByAppID st db appID =
    ds_List (as_Workflow st) db (Some (Workflow_zero\<lparr>wf_AppID := appID\<rparr>)) (Some noListOptions)"

text \<open>The deletion loop skips a record that is already gone.\<close>

fun delete_loop :: "('db \<Rightarrow> 'e \<Rightarrow> DBError option \<times> 'db) \<Rightarrow> 'e list \<Rightarrow> 'db \<Rightarrow> DBError option \<times> 'db" where
  "delete_loop del [] db = (None, db)"
| "delete_loop del (x # xs) db =
     (case del db x of
        (None, db') \<Rightarrow> delete_loop del xs db'
      | (Some ErrRecordNotExist, db') \<Rightarrow> delete_loop del xs db'
      | (Some e, db') \<Rightarrow> (Some e, db'))"

definition DelComponentsByAppID :: "'db AppStores \<Rightarrow> 'db \<Rightarrow> string \<Rightarrow> DBError option \<times> 'db" where
  "DelComponentsByAppID st db appID =
    (case FindComponentsByAppID st db appID of
       Inl e \<Rightarrow> (Some e, db)
     | Inr components \<Rightarrow> delete_loop (ds_Delete (as_Component st)) components db)"

definition DelWorkflowsByAppID :: "'db AppStores \<Rightarrow> 'db \<Rightarrow> string \<Rightarrow> DBError option \<times> 'db" where
  "DelWorkflowsByAppID st db appID =
    (case FindWorkflowsByAppID st db appID of
       Inl e \<Rightarrow> (Some e, db)
     | Inr workflows \<Rightarrow> delete_loop (ds_Delete (as_Workflow st)) workflows db)"

section \<open>Errors\<close>

datatype app_error =
    ErrApplicationNotExist | ErrTemplateIDMissing | ErrTemplateNotEnabled | ErrTemplateComponentMissing
  | ErrTemplateTargetNotFound | ErrComponentNotImageSet | ErrComponentBuild | ErrCreateComponents
  | ErrCreateWorkflow | ErrWorkflowConfig | ErrVersionUpdateFailed | ErrNoSuchWorkflow
  | ErrMissingComponentRef string | ErrDecode | AppDB DBError

section \<open>Template requests\<close>

record componentOverride =
  ov_name :: string
  ov_compType :: JobType
  ov_properties :: Properties
  ov_target :: string

record templateRequest =
  tq_baseName :: string
  tq_overrides :: "componentOverride list"
  tq_share :: "string option"

text \<open>The part of \<open>strings.Split(name, "-")\<close> after the last separator.\<close>

definition lastSegment :: "string \<Rightarrow> string" where
  "lastSegment name = rev (takeWhile (\<lambda>c. c \<noteq> CHR ''-'') (rev name))"

definition uses_template :: "CreateComponentRequest \<Rightarrow> bool" where
  "uses_template creq = (case cr_Template creq of None \<Rightarrow> False | Some t \<Rightarrow> TrimSpace (tp_ID t) \<noteq> '''')"

definition template_id :: "CreateComponentRequest \<Rightarrow> string" where
  "template_id creq = (case cr_Template creq of None \<Rightarrow> '''' | Some t \<Rightarrow> TrimSpace (tp_ID t))"

text \<open>\<open>templateMap\<close> with \<open>templateOrder\<close>: the requests in the order of their templates' first mention.\<close>

definition collect_template ::
  "string \<Rightarrow> CreateComponentRequest \<Rightarrow> (string \<times> templateRequest) list \<Rightarrow> (string \<times> templateRequest) list" where
  "collect_template appName creq m =
    (let templateID = template_id creq;
         tr0 = (case map_of m templateID of Some tr \<Rightarrow> tr
                | None \<Rightarrow> \<lparr>tq_baseName = TrimSpace appName, tq_overrides = [], tq_share = None\<rparr>);
         tr = (if tq_baseName tr0 = '''' then tr0\<lparr>tq_baseName := TrimSpace appName\<rparr> else tr0);
         share = t_Share (cr_Traits creq);
         ov = \<lparr>ov_name = (if share \<noteq> None then '''' else TrimSpace (cr_Name creq)),
               ov_compType = cr_ComponentType creq, ov_properties = cr_Properties creq,
               ov_target = (case cr_Template creq of None \<Rightarrow> '''' | Some t \<Rightarrow> TrimSpace (tp_Target t))\<rparr>
     in AList.update templateID
          (tr\<lparr>tq_share := (if share \<noteq> None \<and> tq_share tr = None then share else tq_share tr),
              tq_overrides := tq_overrides tr @ [ov]\<rparr>) m)"

section \<open>Rewriting the traits of a clone\<close>

text \<open>\<open>strings.ReplaceAll\<close>; an empty pattern matches before every character and at the end.\<close>

definition replace_all :: "string \<Rightarrow> string \<Rightarrow> string \<Rightarrow> string" where
  "replace_all s old new = (if old = '''' then new @ concat (map (\<lambda>c. c # new) s) else ReplaceAll s old new)"

definition rewriteNameCandidate :: "(string \<times> string) list \<Rightarrow> string \<Rightarrow> string \<Rightarrow> string \<Rightarrow> string" where
  "rewriteNameCandidate nameMap oldName newName name =
    (case map_of nameMap name of
       Some mapped \<Rightarrow> mapped
     | None \<Rightarrow>
        (if name = '''' then name
         else if Contains name oldName then replace_all name oldName newName else name))"

definition rewrite_storage_name ::
  "(string \<times> string) list \<Rightarrow> string \<Rightarrow> string \<Rightarrow> string \<Rightarrow> string \<Rightarrow> string \<Rightarrow> string" where
  "rewrite_storage_name nameMap oldName newName volumePrefix storageType name =
    (if name = '''' \<or> name = oldName then newName
     else if storageType = ''persistent'' then
       (if Contains name oldName then replace_all name oldName newName
        else if volumePrefix \<noteq> '''' \<and> \<not> (HasPrefix name (volumePrefix @ ''-'') \<or> name = volumePrefix)
        then volumePrefix @ ''-'' @ name else name)
     else rewriteNameCandidate nameMap oldName newName name)"

definition rewrite_nonempty :: "(string \<Rightarrow> string) \<Rightarrow> string \<Rightarrow> string" where
  "rewrite_nonempty f s = (if s \<noteq> '''' then f s else s)"

text \<open>The type-to-name map the program passes along is never read.\<close>

function rewriteTraitsForTemplate ::
  "(string \<times> string) list \<Rightarrow> string \<Rightarrow> string \<Rightarrow> string \<Rightarrow> string \<Rightarrow> Traits \<Rightarrow> Traits" where
  "rewriteTraitsForTemplate nameMap oldName newName baseName namespace traits =
    (let cand = rewriteNameCandidate nameMap oldName newName;
         volumePrefix = (if TrimSpace baseName = '''' then newName else TrimSpace baseName)
     in Traits
      (map (\<lambda>(i, c). InitTraitSpec
          (if it_Name c = '''' \<or> it_Name c = oldName then newName @ ''-init-'' @ nat_str (i + 1) else it_Name c)
          (rewriteTraitsForTemplate nameMap oldName newName baseName namespace (it_Traits c))
          (it_Properties c)) (List.enumerate 0 (t_Init traits)))
      (map (\<lambda>s. s\<lparr>st_Name := rewrite_storage_name nameMap oldName newName volumePrefix (st_Type s) (st_Name s),
                  st_ClaimName := rewrite_nonempty cand (st_ClaimName s),
                  st_SourceName := rewrite_nonempty cand (st_SourceName s)\<rparr>) (t_Storage traits))
      (map (\<lambda>(i, c). SidecarTraitsSpec
          (if sd_Name c = '''' \<or> sd_Name c = oldName then newName @ ''-sidecar-'' @ nat_str (i + 1) else sd_Name c)
          (sd_Image c) (sd_Command c) (sd_Args c) (sd_Env c)
          (rewriteTraitsForTemplate nameMap oldName newName baseName namespace (sd_Traits c)))
        (List.enumerate 0 (t_Sidecar traits)))
      (map (\<lambda>g. g\<lparr>ing_Name := (if ing_Name g = '''' \<or> ing_Name g = oldName then newName else ing_Name g),
                  ing_Namespace := (if ing_Namespace g = '''' then namespace else ing_Namespace g),
                  ing_Routes := map (\<lambda>r. if ir_ServiceName (ig_Backend r) = oldName
                      then r\<lparr>ig_Backend := (ig_Backend r)\<lparr>ir_ServiceName := newName\<rparr>\<rparr> else r)
                    (ing_Routes g)\<rparr>) (t_Ingress traits))
      (map (\<lambda>p. if namespace \<noteq> '''' then p\<lparr>rb_Namespace := namespace\<rparr>
                else if rb_Namespace p = '''' then p\<lparr>rb_Namespace := DefaultNamespace\<rparr> else p) (t_RBAC traits))
      (map (\<lambda>e. e\<lparr>ef_SourceName := cand (ef_SourceName e)\<rparr>) (t_EnvFrom traits))
      (map (\<lambda>e. let v = se_ValueFrom e; ren = map_option (\<lambda>s. s\<lparr>ks_Name := cand (ks_Name s)\<rparr>)
                in e\<lparr>se_ValueFrom := v\<lparr>vs_Secret := ren (vs_Secret v), vs_Config := ren (vs_Config v)\<rparr>\<rparr>)
        (t_Envs traits))
      (t_Probes traits) (t_Resources traits) (t_Share traits))"
  by pat_completeness auto
termination
  by (relation "measure (\<lambda>(m, a, b, c, d, t). size t)")
    (auto simp: in_set_enumerate_eq dest!: nth_mem size_Traits_init size_Traits_sidecar)

declare rewriteTraitsForTemplate.simps [simp del]

section \<open>Cloning\<close>

definition applyPropertyOverrides :: "Properties \<Rightarrow> Properties \<Rightarrow> JobType \<Rightarrow> Properties" where
  "applyPropertyOverrides props override compType =
    (let p1 = (if pr_Env override \<noteq> []
               then props\<lparr>pr_Env := fold (\<lambda>(k, v). AList.update k v) (pr_Env override) (pr_Env props)\<rparr>
               else props)
     in case pr_Secret override of
          None \<Rightarrow> p1
        | Some sec \<Rightarrow>
           (if sec \<noteq> [] \<and> compType = SecretJob
            then p1\<lparr>pr_Secret := Some (fold (\<lambda>(k, v). AList.update k v) sec
                      (case pr_Secret props of None \<Rightarrow> [] | Some m \<Rightarrow> m))\<rparr>
            else p1))"

definition decodeJSONStruct :: "schema \<Rightarrow> (json \<Rightarrow> 'a) \<Rightarrow> 'a \<Rightarrow> json option \<Rightarrow> 'a option" where
  "decodeJSONStruct shape dec zero raw =
    (case raw of None \<Rightarrow> Some zero
     | Some j \<Rightarrow> if j = JNull then Some zero else if conforms j shape then Some (dec j) else None)"

definition set_share :: "string option \<Rightarrow> Traits \<Rightarrow> Traits" where
  "set_share share t =
    (case share of None \<Rightarrow> t
     | Some s \<Rightarrow> Traits (t_Init t) (t_Storage t) (t_Sidecar t) (t_Ingress t) (t_RBAC t) (t_EnvFrom t)
                  (t_Envs t) (t_Probes t) (t_Resources t) (Some s))"

definition convertComponentFromTemplate ::
  "ApplicationComponent \<Rightarrow> string \<Rightarrow> string \<Rightarrow> string \<Rightarrow> Properties \<Rightarrow> (string \<times> string) list \<Rightarrow>
   string option \<Rightarrow> app_error + CreateComponentRequest" where
  "convertComponentFromTemplate templateComp newName baseName namespace overrideProps nameMap share =
    (case decodeJSONStruct properties_schema decode_properties Properties_zero (ac_Properties templateComp) of
       None \<Rightarrow> Inl ErrDecode
     | Some properties \<Rightarrow>
        (case decodeJSONStruct traits_schema decode_traits no_Traits (ac_Traits templateComp) of
           None \<Rightarrow> Inl ErrDecode
         | Some traits \<Rightarrow>
            Inr \<lparr>cr_Name = newName, cr_ComponentType = ac_ComponentType templateComp,
              cr_Image = ac_Image templateComp, cr_Namespace = namespace,
              cr_Replicas = ac_Replicas templateComp,
              cr_Properties = applyPropertyOverrides properties overrideProps (ac_ComponentType templateComp),
              cr_Traits = rewriteTraitsForTemplate nameMap (ac_Name templateComp) newName baseName namespace
                 (set_share share traits),
              cr_Template = None\<rparr>))"

text \<open>
  The overrides with their \<open>used\<close> flags. A component first takes an unused override that names
  it as target, and else the first unused one whose type fits, whatever its target.
\<close>

fun take_override ::
  "(componentOverride \<Rightarrow> bool) \<Rightarrow> (componentOverride \<times> bool) list \<Rightarrow>
   (componentOverride \<times> (componentOverride \<times> bool) list) option" where
  "take_override P [] = None"
| "take_override P ((ov, used) # ovs) =
     (if \<not> used \<and> P ov then Some (ov, (ov, True) # ovs)
      else map_option (\<lambda>(o1, rest). (o1, (ov, used) # rest)) (take_override P ovs))"

abbreviation type_fits :: "JobType \<Rightarrow> componentOverride \<Rightarrow> bool" where
  "type_fits jobType ov \<equiv> JobType_string (ov_compType ov) = '''' \<or> ov_compType ov = jobType"

definition pickOverride ::
  "string \<Rightarrow> JobType \<Rightarrow> (componentOverride \<times> bool) list \<Rightarrow>
   app_error + componentOverride option \<times> (componentOverride \<times> bool) list" where
  "pickOverride templateName jobType ovs =
    (case take_override (\<lambda>ov. ov_target ov \<noteq> '''' \<and> ov_target ov = templateName) ovs of
       Some (ov, ovs') \<Rightarrow>
         if type_fits jobType ov then Inr (Some ov, ovs') else Inl ErrTemplateTargetNotFound
     | None \<Rightarrow>
        (case take_override (type_fits jobType) ovs of
           Some (ov, ovs') \<Rightarrow> Inr (Some ov, ovs')
         | None \<Rightarrow> Inr (None, ovs)))"

record compPlan =
  pl_templateComp :: ApplicationComponent
  pl_targetName :: string
  pl_override :: Properties

definition target_name :: "bool \<Rightarrow> string \<Rightarrow> componentOverride option \<Rightarrow> ApplicationComponent \<Rightarrow> string" where
  "target_name shareEnabled baseName override templateComp =
    (if shareEnabled then ac_Name templateComp
     else case override of
         Some ov \<Rightarrow> if ov_name ov \<noteq> '''' then ov_name ov
                    else if baseName \<noteq> '''' then baseName @ ''-'' @ lastSegment (ac_Name templateComp)
                    else ac_Name templateComp
       | None \<Rightarrow> if baseName \<noteq> '''' then baseName @ ''-'' @ lastSegment (ac_Name templateComp)
                 else ac_Name templateComp)"

fun plan_loop ::
  "bool \<Rightarrow> string \<Rightarrow> ApplicationComponent list \<Rightarrow> (componentOverride \<times> bool) list \<Rightarrow> (string \<times> string) list \<Rightarrow>
   app_error + compPlan list \<times> (componentOverride \<times> bool) list \<times> (string \<times> string) list" where
  "plan_loop shareEnabled baseName [] ovs nameMap = Inr ([], ovs, nameMap)"
| "plan_loop shareEnabled baseName (c # cs) ovs nameMap =
     bind_err (pickOverride (ac_Name c) (ac_ComponentType c) ovs) (\<lambda>(ov, ovs').
       let targetName = target_name shareEnabled baseName ov c;
           nameMap' = AList.update (''tem-'' @ ac_Name c) targetName (AList.update (ac_Name c) targetName nameMap)
       in bind_err (plan_loop shareEnabled baseName cs ovs' nameMap') (\<lambda>(plans, r).
            Inr (\<lparr>pl_templateComp = c, pl_targetName = targetName,
                  pl_override = (case ov of None \<Rightarrow> Properties_zero | Some o1 \<Rightarrow> ov_properties o1)\<rparr> # plans, r)))"

fun map_err :: "('a \<Rightarrow> 'e + 'b) \<Rightarrow> 'a list \<Rightarrow> 'e + 'b list" where
  "map_err f [] = Inr []"
| "map_err f (x # xs) = bind_err (f x) (\<lambda>y. bind_err (map_err f xs) (\<lambda>ys. Inr (y # ys)))"

definition cloneComponentsFromTemplate ::
  "'db AppStores \<Rightarrow> 'db \<Rightarrow> string \<Rightarrow> string \<Rightarrow> templateRequest \<Rightarrow> app_error + CreateComponentRequest list" where
  "cloneComponentsFromTemplate st db namespace templateID tr =
    (if templateID = '''' then Inl ErrTemplateIDMissing
     else case ApplicationByID st db templateID of
       Inl ErrRecordNotExist \<Rightarrow> Inl ErrApplicationNotExist
     | Inl e \<Rightarrow> Inl (AppDB e)
     | Inr templateApp \<Rightarrow>
        (if \<not> ap_TmpEnable templateApp then Inl ErrTemplateNotEnabled
         else case FindComponentsByAppID st db (ap_ID templateApp) of
           Inl e \<Rightarrow> Inl (AppDB e)
         | Inr templateComponents \<Rightarrow>
            (if templateComponents = [] then Inl ErrTemplateComponentMissing
             else
               let shareEnabled = (tq_share tr \<noteq> None);
                   base = TrimSpace (tq_baseName tr);
                   baseName = (if shareEnabled then '''' else if base = '''' then ap_Name templateApp else base)
               in bind_err (plan_loop shareEnabled baseName templateComponents
                              (map (\<lambda>ov. (ov, False)) (tq_overrides tr)) [])
                    (\<lambda>(plans, ovs, nameMap).
                      bind_err (map_err (\<lambda>p. convertComponentFromTemplate (pl_templateComp p) (pl_targetName p)
                                   baseName namespace (pl_override p) nameMap (tq_share tr)) plans)
                        (\<lambda>clones. if list_ex (\<lambda>(ov, used). \<not> used \<and> ov_target ov \<noteq> '''') ovs
                                  then Inl ErrTemplateTargetNotFound else Inr clones)))))"

definition resolveComponents ::
  "'db AppStores \<Rightarrow> 'db \<Rightarrow> string \<Rightarrow> string \<Rightarrow> CreateComponentRequest list \<Rightarrow>
   app_error + CreateComponentRequest list" where
  "resolveComponents st db namespace appName reqComponents =
    (let requests = fold (collect_template appName) (filter uses_template reqComponents) []
     in bind_err (map_err (\<lambda>(templateID, tr). cloneComponentsFromTemplate st db namespace templateID tr) requests)
          (\<lambda>cloned. Inr (filter (\<lambda>c. \<not> uses_template c) reqComponents @ concat cloned)))"

end
