(* ===== verification/Kube_Informer.thy ===== *)
theory Kube_Informer
  imports Kube_Workloads Kube_Templates
begin

text \<open>
  The waiter behind the deployment and stateful set controllers, \<open>infrastructure/informer\<close>, and
  \<open>syncComponentStatus\<close> of \<open>server.go\<close>, its callback. Entries are shared between the goroutine
  that waits and the event handlers, so the state holds them in a list and the table refers to
  them by index. \<open>waiter_step\<close> interleaves registrations, events and returns.
\<close>

section \<open>The status of a workload\<close>

datatype ResourceType = ResourceTypeDeployment | ResourceTypeStatefulSet

fun ResourceType_string :: "ResourceType \<Rightarrow> string" where
  "ResourceType_string ResourceTypeDeployment = ''Deployment''"
| "ResourceType_string ResourceTypeStatefulSet = ''StatefulSet''"

text \<open>The updated replicas of a deployment are extracted and not read.\<close>

record WorkloadStatus =
  ws_Labels :: labels
  ws_Replicas :: int
  ws_ReadyReplicas :: int
  ws_Ready :: bool

definition extract_status :: "'q workload kobj \<Rightarrow> WorkloadStatus" where
  "extract_status w =
    (let replicas = (case wk_Replicas (ko_Spec w) of None \<Rightarrow> 0 | Some n \<Rightarrow> n);
         ready = wk_ReadyReplicas (ko_Spec w)
     in \<lparr>ws_Labels = ko_Labels w, ws_Replicas = replicas, ws_ReadyReplicas = ready,
         ws_Ready = (replicas > 0 \<and> replicas = ready)\<rparr>)"

definition ExtractDeploymentStatus :: "'q workload kobj \<Rightarrow> WorkloadStatus" where
  "ExtractDeploymentStatus = extract_status"

definition ExtractStatefulSetStatus :: "'q workload kobj \<Rightarrow> WorkloadStatus" where
  "ExtractStatefulSetStatus = extract_status"

section \<open>The status of a component\<close>

datatype ComponentStatus = ComponentStatusRunning | ComponentStatusPending | ComponentStatusFailed

fun ComponentStatus_string :: "ComponentStatus \<Rightarrow> string" where
  "ComponentStatus_string ComponentStatusRunning = ''Running''"
| "ComponentStatus_string ComponentStatusPending = ''Pending''"
| "ComponentStatus_string ComponentStatusFailed = ''Failed''"

record ComponentStatusUpdate =
  cu_AppID :: string
  cu_ComponentID :: int
  cu_ComponentName :: string
  cu_Status :: ComponentStatus
  cu_ReadyReplicas :: int
  cu_Replicas :: int

text \<open>The value of \<open>strconv.Atoi\<close>, whose error is dropped: 0 for no number, the limit outside the range.\<close>

definition Atoi :: "string \<Rightarrow> int" where
  "Atoi s =
    (let neg = (s \<noteq> [] \<and> hd s = CHR ''-''); digits = (if s \<noteq> [] \<and> hd s \<in> {CHR ''+'', CHR ''-''} then tl s else s) in
     if digits = [] \<or> \<not> list_all (\<lambda>c. 48 \<le> (of_char c :: nat) \<and> (of_char c :: nat) \<le> 57) digits then 0
     else if neg then max (- (2 ^ 63)) (- int (str_nat digits)) else min (2 ^ 63 - 1) (int (str_nat digits)))"

definition syncStatusToDB :: "labels \<Rightarrow> int \<Rightarrow> int \<Rightarrow> bool \<Rightarrow> ComponentStatusUpdate option" where
  "syncStatusToDB labels replicas readyReplicas ready =
    (let appID = label_read labels LabelAppID; componentName = label_read labels LabelComponentName in
     if appID = '''' \<or> componentName = '''' then None
     else Some \<lparr>cu_AppID = appID, cu_ComponentID = Atoi (label_read labels LabelComponentID),
       cu_ComponentName = componentName,
       cu_Status = (if ready then ComponentStatusRunning
                    else if readyReplicas > 0 then ComponentStatusPending
                    else if replicas > 0 then ComponentStatusPending
                    else ComponentStatusFailed),
       cu_ReadyReplicas = readyReplicas, cu_Replicas = replicas\<rparr>)"

definition syncComponentStatus :: "'db AppStores \<Rightarrow> int \<Rightarrow> ComponentStatusUpdate \<Rightarrow> 'db \<Rightarrow> 'db" where
  "syncComponentStatus st now update db =
    (if cu_ComponentID update = 0 then db
     else case ds_List (as_Component st) db (Some (ApplicationComponent_zero\<lparr>ac_AppID := cu_AppID update\<rparr>))
                 (Some noListOptions) of
         Inl e \<Rightarrow> db
       | Inr components \<Rightarrow>
          (case List.find (\<lambda>c. ac_ID c = cu_ComponentID update) components of
             None \<Rightarrow> db
           | Some c \<Rightarrow> snd (ds_Put (as_Component st) now db
               (c\<lparr>ac_Status := ComponentStatus_string (cu_Status update), ac_ReadyReplicas := cu_ReadyReplicas update\<rparr>))))"

section \<open>The waiter\<close>

text \<open>
  An entry: its texts, whether it is closed, whether \<open>ReadyChan\<close> is, and what \<open>ErrorChan\<close> holds.
\<close>

record WaitEntry =
  we_Key :: string
  we_what :: string
  we_timeout :: string
  we_closed :: bool
  we_Ready :: bool
  we_Error :: "(Status \<times> job_error) option"

definition WaitEntry_Close :: "WaitEntry \<Rightarrow> WaitEntry" where
  "WaitEntry_Close e = (if we_closed e then e else e\<lparr>we_closed := True, we_Ready := True\<rparr>)"

definition WaitEntry_SendError :: "Status \<times> job_error \<Rightarrow> WaitEntry \<Rightarrow> WaitEntry" where
  "WaitEntry_SendError err e = (if we_closed e then e else e\<lparr>we_closed := True, we_Error := Some err\<rparr>)"

text \<open>The table, the entries it refers to, and the calls that have not returned.\<close>

record ResourceReadyWaiter =
  wa_waiters :: "(string \<times> nat) list"
  wa_entries :: "WaitEntry list"
  wa_waiting :: "nat list"

definition NewResourceReadyWaiter :: ResourceReadyWaiter where
  "NewResourceReadyWaiter = \<lparr>wa_waiters = [], wa_entries = [], wa_waiting = []\<rparr>"

definition buildKey :: "ResourceType \<Rightarrow> string \<Rightarrow> string \<Rightarrow> string" where
  "buildKey t ns name = ResourceType_string t @ ''/'' @ ns @ ''/'' @ name"

definition wait_start ::
  "ResourceType \<Rightarrow> string \<Rightarrow> string \<Rightarrow> string \<Rightarrow> ResourceReadyWaiter \<Rightarrow> ResourceReadyWaiter" where
  "wait_start t ns name timeout w =
    (let i = length (wa_entries w); key = buildKey t ns name
     in \<lparr>wa_waiters = AList.update key i (wa_waiters w),
         wa_entries = wa_entries w @ [\<lparr>we_Key = key, we_what = ResourceType_string t @ '' '' @ ns @ ''/'' @ name,
           we_timeout = timeout, we_closed = False, we_Ready = False, we_Error = None\<rparr>],
         wa_waiting = i # wa_waiting w\<rparr>)"

text \<open>The branches of the \<open>select\<close>, where they can be taken, and what the call returns then.\<close>

datatype wait_branch = BranchReady | BranchError | BranchDone bool | BranchTimeout

fun wait_select :: "WaitEntry \<Rightarrow> wait_branch \<Rightarrow> (Status \<times> job_error) option option" where
  "wait_select e BranchReady = (if we_Ready e then Some None else None)"
| "wait_select e BranchError = map_option Some (we_Error e)"
| "wait_select e (BranchDone canceled) =
     Some (Some (StatusCancelled, (cancelled_error (we_what e) canceled)\<lparr>je_status := None\<rparr>))"
| "wait_select e BranchTimeout =
     Some (Some (StatusTimeout, plain_error (we_what e @ '' timeout after '' @ we_timeout e)))"

text \<open>The deferred \<open>Delete\<close> removes whatever entry the table has for the key.\<close>

definition wait_return :: "nat \<Rightarrow> ResourceReadyWaiter \<Rightarrow> ResourceReadyWaiter" where
  "wait_return i w =
    w\<lparr>wa_waiters := AList.delete (we_Key (wa_entries w ! i)) (wa_waiters w), wa_waiting := removeAll i (wa_waiting w)\<rparr>"

definition notify_entry :: "string \<Rightarrow> (WaitEntry \<Rightarrow> WaitEntry) \<Rightarrow> ResourceReadyWaiter \<Rightarrow> ResourceReadyWaiter" where
  "notify_entry key f w =
    (case map_of (wa_waiters w) key of
       None \<Rightarrow> w
     | Some i \<Rightarrow> w\<lparr>wa_entries := (wa_entries w)[i := f (wa_entries w ! i)]\<rparr>)"

definition notify_ready :: "string \<Rightarrow> bool \<Rightarrow> ResourceReadyWaiter \<Rightarrow> ResourceReadyWaiter" where
  "notify_ready key ready w = (if ready then notify_entry key WaitEntry_Close w else w)"

text \<open>The handlers: the update for the database, and the waiter.\<close>

definition on_update ::
  "ResourceType \<Rightarrow> 'q workload kobj \<Rightarrow> ResourceReadyWaiter \<Rightarrow> ComponentStatusUpdate option \<times> ResourceReadyWaiter" where
  "on_update t obj w =
    (let status = extract_status obj
     in (syncStatusToDB (ws_Labels status) (ws_Replicas status) (ws_ReadyReplicas status) (ws_Ready status),
         notify_ready (buildKey t (ko_Namespace obj) (ko_Name obj)) (ws_Ready status) w))"

definition deleted_error :: "string \<Rightarrow> string \<Rightarrow> string \<Rightarrow> Status \<times> job_error" where
  "deleted_error word ns name = (StatusFailed, plain_error (word @ '' '' @ ns @ ''/'' @ name @ '' was deleted''))"

definition on_delete ::
  "ResourceType \<Rightarrow> string \<Rightarrow> 'q workload kobj \<Rightarrow> ResourceReadyWaiter \<Rightarrow>
   ComponentStatusUpdate option \<times> ResourceReadyWaiter" where
  "on_delete t word obj w =
    (syncStatusToDB (ko_Labels obj) 0 0 False,
     notify_entry (buildKey t (ko_Namespace obj) (ko_Name obj)) (WaitEntry_SendError
       (deleted_error word (ko_Namespace obj) (ko_Name obj))) w)"

definition OnDeploymentUpdate where "OnDeploymentUpdate = on_update ResourceTypeDeployment"
definition OnDeploymentDelete where "OnDeploymentDelete = on_delete ResourceTypeDeployment ''deployment''"
definition OnStatefulSetUpdate where "OnStatefulSetUpdate = on_update ResourceTypeStatefulSet"
definition OnStatefulSetDelete where "OnStatefulSetDelete = on_delete ResourceTypeStatefulSet ''statefulset''"

definition GetPendingCount :: "ResourceReadyWaiter \<Rightarrow> nat" where
  "GetPendingCount w = length (wa_waiters w)"

definition GetPendingKeys :: "ResourceReadyWaiter \<Rightarrow> string list" where
  "GetPendingKeys w = map fst (wa_waiters w)"

section \<open>Interleavings\<close>

datatype waiter_label =
  Registered nat string
| Updated string bool
| Deleted string
| Returned nat string "(Status \<times> job_error) option"

inductive waiter_step :: "ResourceReadyWaiter \<Rightarrow> waiter_label \<Rightarrow> ResourceReadyWaiter \<Rightarrow> bool" where
  register: "waiter_step w (Registered (length (wa_entries w)) (buildKey t ns name)) (wait_start t ns name timeout w)"
| update: "waiter_step w (Updated (buildKey t ns name) ready) (notify_ready (buildKey t ns name) ready w)"
| delete: "waiter_step w (Deleted (buildKey t ns name))
    (notify_entry (buildKey t ns name) (WaitEntry_SendError (deleted_error word ns name)) w)"
| return: "i \<in> set (wa_waiting w) \<Longrightarrow> wait_select (wa_entries w ! i) branch = Some r \<Longrightarrow>
    waiter_step w (Returned i (we_Key (wa_entries w ! i)) r) (wait_return i w)"

inductive waiter_run :: "waiter_label list \<Rightarrow> ResourceReadyWaiter \<Rightarrow> bool" where
  start: "waiter_run [] NewResourceReadyWaiter"
| more: "waiter_run ls w \<Longrightarrow> waiter_step w l w' \<Longrightarrow> waiter_run (ls @ [l]) w'"

inductive_cases waiter_stepE: "waiter_step w l w'"
inductive_cases waiter_returnE: "waiter_step w (Returned i key r) w'"

text \<open>The handlers are such steps.\<close>

lemma on_update_step:
  "waiter_step w (Updated (buildKey t (ko_Namespace obj) (ko_Name obj)) (ws_Ready (extract_status obj)))
    (snd (on_update t obj w))"
  by (simp add: on_update_def Let_def update)

lemma on_delete_step:
  "waiter_step w (Deleted (buildKey t (ko_Namespace obj) (ko_Name obj))) (snd (on_delete t word obj w))"
  by (simp add: on_delete_def delete)

section \<open>What a waiter answers\<close>

text \<open>Since the entry was registered, something has happened.\<close>

definition since :: "nat \<Rightarrow> string \<Rightarrow> (waiter_label \<Rightarrow> bool) \<Rightarrow> waiter_label list \<Rightarrow> bool" where
  "since i key P ls \<longleftrightarrow> (\<exists>us vs. ls = us @ Registered i key # vs \<and> list_ex P vs)"

lemma since_append: "since i key P ls \<Longrightarrow> since i key P (ls @ ms)"
  unfolding since_def by (metis append.assoc append_Cons list_ex_append)

lemma since_last: "Registered i key \<in> set ls \<Longrightarrow> P l \<Longrightarrow> since i key P (ls @ [l])"
proof -
  assume "Registered i key \<in> set ls" "P l"
  then obtain us vs where "ls = us @ Registered i key # vs" by (metis split_list)
  with \<open>P l\<close> show ?thesis unfolding since_def by (intro exI [of _ us] exI [of _ "vs @ [l]"]) simp
qed

definition entry_traced :: "waiter_label list \<Rightarrow> nat \<Rightarrow> WaitEntry \<Rightarrow> bool" where
  "entry_traced ls i e \<longleftrightarrow>
    Registered i (we_Key e) \<in> set ls \<and>
    (we_Ready e \<longrightarrow> since i (we_Key e) (\<lambda>l. l = Updated (we_Key e) True) ls) \<and>
    (\<forall>st err. we_Error e = Some (st, err) \<longrightarrow>
       st = StatusFailed \<and> since i (we_Key e) (\<lambda>l. l = Deleted (we_Key e)) ls)"

lemma entry_traced_more: "entry_traced ls i e \<Longrightarrow> entry_traced (ls @ [l]) i e"
  by (auto simp: entry_traced_def since_append)

lemma entry_traced_Close:
  "entry_traced ls i e \<Longrightarrow> entry_traced (ls @ [Updated (we_Key e) True]) i (WaitEntry_Close e)"
  by (auto simp: entry_traced_def WaitEntry_Close_def since_append since_last)

lemma entry_traced_SendError:
  "entry_traced ls i e \<Longrightarrow> fst err = StatusFailed \<Longrightarrow>
   entry_traced (ls @ [Deleted (we_Key e)]) i (WaitEntry_SendError err e)"
  by (cases err) (auto simp: entry_traced_def WaitEntry_SendError_def since_append since_last)

text \<open>The table refers to entries of its keys, whose calls have not returned.\<close>

definition waiter_ok :: "waiter_label list \<Rightarrow> ResourceReadyWaiter \<Rightarrow> bool" where
  "waiter_ok ls w \<longleftrightarrow>
    (\<forall>i < length (wa_entries w). entry_traced ls i (wa_entries w ! i)) \<and>
    (\<forall>key i. map_of (wa_waiters w) key = Some i \<longrightarrow>
       i < length (wa_entries w) \<and> we_Key (wa_entries w ! i) = key \<and> i \<in> set (wa_waiting w)) \<and>
    (\<forall>i \<in> set (wa_waiting w). i < length (wa_entries w))"

lemma entry_keys [simp]: "we_Key (WaitEntry_Close e) = we_Key e" "we_Key (WaitEntry_SendError err e) = we_Key e"
  by (simp_all add: WaitEntry_Close_def WaitEntry_SendError_def)

lemma notify_ok:
  assumes "waiter_ok ls w" "\<And>e. we_Key (f e) = we_Key e"
    and "\<And>i e. entry_traced ls i e \<Longrightarrow> we_Key e = key \<Longrightarrow> entry_traced (ls @ [l]) i (f e)"
  shows "waiter_ok (ls @ [l]) (notify_entry key f w)"
proof (cases "map_of (wa_waiters w) key")
  case None
  with assms(1) show ?thesis by (auto simp: waiter_ok_def notify_entry_def entry_traced_more)
next
  case (Some i)
  with assms(1) have i: "i < length (wa_entries w)" "we_Key (wa_entries w ! i) = key"
    "entry_traced ls i (wa_entries w ! i)"
    by (auto simp: waiter_ok_def)
  with assms(3) have t: "entry_traced (ls @ [l]) i (f (wa_entries w ! i))" by blast
  from assms(1) Some i t show ?thesis
    by (auto simp: waiter_ok_def notify_entry_def entry_traced_more nth_list_update assms(2))
qed

lemma waiter_step_ok: "waiter_step w l w' \<Longrightarrow> waiter_ok ls w \<Longrightarrow> waiter_ok (ls @ [l]) w'"
proof (induction rule: waiter_step.induct)
  case (register w t ns name timeout)
  then show ?case
    by (auto simp: waiter_ok_def wait_start_def Let_def update_conv' nth_append entry_traced_more less_Suc_eq
        split: if_splits) (auto simp: entry_traced_def)
next
  case (update w t ns name ready)
  show ?case
  proof (cases ready)
    case True
    have "waiter_ok (ls @ [Updated (buildKey t ns name) True]) (notify_entry (buildKey t ns name) WaitEntry_Close w)"
      by (rule notify_ok [OF update]) (auto dest: entry_traced_Close)
    with True show ?thesis by (simp add: notify_ready_def)
  next
    case False
    with update show ?thesis by (auto simp: waiter_ok_def notify_ready_def entry_traced_more)
  qed
next
  case (delete w t ns name word)
  show ?case
  proof (rule notify_ok [OF delete])
    show "entry_traced ls i e \<Longrightarrow> we_Key e = buildKey t ns name \<Longrightarrow>
        entry_traced (ls @ [Deleted (buildKey t ns name)]) i (WaitEntry_SendError (deleted_error word ns name) e)" for i e
      using entry_traced_SendError [of ls i e "deleted_error word ns name"] by (simp add: deleted_error_def)
  qed simp
next
  case (return i w branch r)
  then show ?case
    by (auto simp: waiter_ok_def wait_return_def delete_conv' entry_traced_more split: if_splits)
qed

lemma waiter_run_ok: "waiter_run ls w \<Longrightarrow> waiter_ok ls w"
  by (induction rule: waiter_run.induct)
    (auto simp: waiter_step_ok, simp add: waiter_ok_def NewResourceReadyWaiter_def)

lemma waiter_run_snoc: "waiter_run (ls @ [l]) w \<longleftrightarrow> (\<exists>w1. waiter_run ls w1 \<and> waiter_step w1 l w)"
  by (auto elim: waiter_run.cases intro: waiter_run.intros)

lemma waiter_run_Returned:
  assumes "waiter_run (ls @ [Returned i key r]) w"
  shows "case r of None \<Rightarrow> since i key (\<lambda>l. l = Updated key True) ls
    | Some (st, e) \<Rightarrow> st \<in> {StatusCancelled, StatusTimeout} \<or>
        st = StatusFailed \<and> since i key (\<lambda>l. l = Deleted key) ls"
proof -
  from assms obtain w1 where run: "waiter_run ls w1" and step: "waiter_step w1 (Returned i key r) w"
    unfolding waiter_run_snoc by blast
  from step obtain branch where i: "i \<in> set (wa_waiting w1)" "key = we_Key (wa_entries w1 ! i)"
    "wait_select (wa_entries w1 ! i) branch = Some r"
    by (rule waiter_returnE) auto
  from waiter_run_ok [OF run] i(1) have "entry_traced ls i (wa_entries w1 ! i)" by (auto simp: waiter_ok_def)
  with i(2,3) show ?thesis by (cases branch) (auto simp: entry_traced_def split: if_splits option.splits)
qed

text \<open>
  A waiter that no call with its key has joined or left since is the one the table refers to, or
  it has been woken.
\<close>

definition woken :: "WaitEntry \<Rightarrow> bool" where
  "woken e \<longleftrightarrow> wait_select e BranchReady = Some None \<or>
    (\<exists>err. wait_select e BranchError = Some (Some (StatusFailed, err)))"

definition apart_from :: "string \<Rightarrow> waiter_label \<Rightarrow> bool" where
  "apart_from key l \<longleftrightarrow> (\<forall>i r. l \<noteq> Registered i key \<and> l \<noteq> Returned i key r)"

definition listed :: "nat \<Rightarrow> string \<Rightarrow> ResourceReadyWaiter \<Rightarrow> bool" where
  "listed i key w \<longleftrightarrow> map_of (wa_waiters w) key = Some i \<and> i < length (wa_entries w) \<and>
    (we_closed (wa_entries w ! i) \<longrightarrow> woken (wa_entries w ! i))"

lemma woken_Close: "(we_closed e \<longrightarrow> woken e) \<Longrightarrow> woken (WaitEntry_Close e)"
  by (auto simp: woken_def WaitEntry_Close_def)

lemma woken_SendError:
  "(we_closed e \<longrightarrow> woken e) \<Longrightarrow> fst err = StatusFailed \<Longrightarrow> woken (WaitEntry_SendError err e)"
  by (cases err) (auto simp: woken_def WaitEntry_SendError_def)

lemma notify_other:
  "map_of (wa_waiters w) key1 \<noteq> Some i \<Longrightarrow> wa_entries (notify_entry key1 f w) ! i = wa_entries w ! i"
  by (auto simp: notify_entry_def split: option.splits)

lemma notify_same:
  "map_of (wa_waiters w) key = Some i \<Longrightarrow> i < length (wa_entries w) \<Longrightarrow>
   wa_entries (notify_entry key f w) ! i = f (wa_entries w ! i)"
  by (simp add: notify_entry_def)

lemma notify_table [simp]: "wa_waiters (notify_entry key f w) = wa_waiters w"
  "wa_waiting (notify_entry key f w) = wa_waiting w"
  "length (wa_entries (notify_entry key f w)) = length (wa_entries w)"
  by (auto simp: notify_entry_def split: option.splits)

lemma listed_notify:
  assumes "listed i key w" "\<And>e. (we_closed e \<longrightarrow> woken e) \<Longrightarrow> woken (f e)"
  shows "listed i key (notify_entry key1 f w)"
proof (cases "map_of (wa_waiters w) key1 = Some i")
  case True
  with assms show ?thesis by (auto simp: listed_def notify_same)
next
  case False
  with assms show ?thesis by (simp add: listed_def notify_other)
qed

lemma waiter_step_listed:
  "waiter_step w l w' \<Longrightarrow> waiter_ok ls w \<Longrightarrow> listed i key w \<Longrightarrow> apart_from key l \<Longrightarrow> listed i key w'"
proof (induction rule: waiter_step.induct)
  case (register w t ns name timeout)
  then show ?case by (auto simp: listed_def apart_from_def wait_start_def Let_def update_conv' nth_append)
next
  case (update w t ns name ready)
  then show ?case by (auto simp: notify_ready_def woken_Close intro: listed_notify)
next
  case (delete w t ns name word)
  then show ?case by (auto intro!: listed_notify woken_SendError simp: deleted_error_def)
next
  case (return j w branch r)
  then show ?case by (auto simp: listed_def apart_from_def wait_return_def delete_conv')
qed

lemma woken_stays: "woken e \<Longrightarrow> woken (WaitEntry_Close e)" "woken e \<Longrightarrow> woken (WaitEntry_SendError (deleted_error word ns n) e)"
  by (auto simp: woken_def WaitEntry_Close_def WaitEntry_SendError_def deleted_error_def)

lemma woken_notify:
  "woken (wa_entries w ! i) \<Longrightarrow> i < length (wa_entries w) \<Longrightarrow> (\<And>e. woken e \<Longrightarrow> woken (f e)) \<Longrightarrow>
   woken (wa_entries (notify_entry key f w) ! i)"
  by (cases "map_of (wa_waiters w) key = Some i") (simp_all add: notify_same notify_other)

lemma woken_step:
  "waiter_step w l w' \<Longrightarrow> i < length (wa_entries w) \<Longrightarrow> woken (wa_entries w ! i) \<Longrightarrow> woken (wa_entries w' ! i)"
  by (induction rule: waiter_step.induct)
    (auto simp: wait_start_def Let_def nth_append notify_ready_def wait_return_def intro!: woken_notify woken_stays)

lemma waiter_wakes_aux:
  "waiter_run (xs @ Registered i key # ys) w \<Longrightarrow> list_all (apart_from key) ys \<Longrightarrow>
   listed i key w \<and> (Updated key True \<in> set ys \<or> Deleted key \<in> set ys \<longrightarrow> woken (wa_entries w ! i))"
proof (induction ys arbitrary: w rule: rev_induct)
  case Nil
  then have "waiter_run (xs @ [Registered i key]) w" by simp
  then obtain w1 where "waiter_step w1 (Registered i key) w" unfolding waiter_run_snoc by blast
  then show ?case by (rule waiter_stepE) (auto simp: listed_def wait_start_def Let_def update_conv')
next
  case (snoc l ys)
  from snoc.prems(1) have "waiter_run ((xs @ Registered i key # ys) @ [l]) w" by simp
  then obtain w1 where run: "waiter_run (xs @ Registered i key # ys) w1" and step: "waiter_step w1 l w"
    unfolding waiter_run_snoc by blast
  from snoc.IH [OF run] snoc.prems(2) have IH: "listed i key w1"
    "Updated key True \<in> set ys \<or> Deleted key \<in> set ys \<longrightarrow> woken (wa_entries w1 ! i)" by auto
  have l: "listed i key w"
    by (rule waiter_step_listed [OF step waiter_run_ok [OF run] IH(1)]) (use snoc.prems(2) in simp)
  have "woken (wa_entries w1 ! i) \<Longrightarrow> woken (wa_entries w ! i)"
    using step IH(1) by (auto simp: listed_def intro: woken_step)
  moreover have "woken (wa_entries w ! i)" if "l = Updated key True \<or> l = Deleted key"
    using step that
  proof (cases rule: waiter_step.cases)
    case (update t ns name ready)
    with that IH(1) show ?thesis by (auto simp: listed_def notify_ready_def notify_same woken_Close)
  next
    case (delete t ns name word)
    with that IH(1) show ?thesis
      by (auto simp: listed_def notify_same deleted_error_def intro!: woken_SendError)
  qed auto
  ultimately show ?case using l IH(2) by auto
qed

text \<open>A second call with the same key takes the place of the first, which no event reaches any more.\<close>

lemma overwritten_waits:
  "waiter_run (xs @ Registered i key # Registered j key # ys) w \<Longrightarrow>
   i < length (wa_entries w) \<and> \<not> we_closed (wa_entries w ! i) \<and> i \<notin> ran (map_of (wa_waiters w)) \<and> we_Error (wa_entries w ! i) = None \<and>
   \<not> we_Ready (wa_entries w ! i)"
proof (induction ys arbitrary: w rule: rev_induct)
  case Nil
  then have "waiter_run ((xs @ [Registered i key]) @ [Registered j key]) w" by simp
  then obtain w1 w2 where s: "waiter_step w2 (Registered i key) w1" "waiter_step w1 (Registered j key) w"
    and run: "waiter_run xs w2"
    unfolding waiter_run_snoc by blast
  from waiter_run_ok [OF run] have "i < length (wa_entries w2)" if "map_of (wa_waiters w2) k = Some i" for k
    using that by (auto simp: waiter_ok_def)
  with s show ?case
    by (elim waiter_stepE) (auto simp: wait_start_def Let_def update_conv' nth_append ran_def split: if_splits)
next
  case (snoc l ys)
  from snoc.prems have "waiter_run ((xs @ Registered i key # Registered j key # ys) @ [l]) w" by simp
  then obtain w1 where run: "waiter_run (xs @ Registered i key # Registered j key # ys) w1" and step: "waiter_step w1 l w"
    unfolding waiter_run_snoc by blast
  note IH = snoc.IH [OF run]
  then have "map_of (wa_waiters w1) k \<noteq> Some i" for k by (auto simp: ran_def)
  with IH step show ?case
    by (elim waiter_stepE)
      (auto simp: wait_start_def Let_def update_conv' nth_append ran_def notify_ready_def notify_other
        wait_return_def delete_conv' split: if_splits)
qed

text \<open>A key determines the resource, where namespaces have no slash.\<close>

lemma buildKey_inj:
  assumes "buildKey t ns name = buildKey t' ns' name'" "CHR ''/'' \<notin> set ns" "CHR ''/'' \<notin> set ns'"
  shows "t = t' \<and> ns = ns' \<and> name = name'"
proof -
  have "t = t'" using assms(1) by (cases t; cases t') (simp_all add: buildKey_def)
  with assms(1) have e: "ns @ ''/'' @ name = ns' @ ''/'' @ name'" by (simp add: buildKey_def)
  have t: "takeWhile (\<lambda>c. c \<noteq> CHR ''/'') (s @ ''/'' @ r) = s" if "CHR ''/'' \<notin> set s" for s r
    using that by (induction s) auto
  from t [OF assms(2), of name] t [OF assms(3), of name'] e have "ns = ns'" by simp
  with e \<open>t = t'\<close> show ?thesis by simp
qed

section \<open>The status of a component\<close>

lemma nat_str_nonempty [simp]: "nat_str n \<noteq> []"
  by (subst nat_str.simps) simp

lemma Atoi_int_str:
  assumes "- (2 ^ 63) \<le> i" "i < 2 ^ 63"
  shows "Atoi (int_str i) = i"
proof -
  have d: "list_all (\<lambda>c. 48 \<le> (of_char c :: nat) \<and> (of_char c :: nat) \<le> 57) (nat_str n)" for n
    using nat_str_codes by (auto simp: list_all_iff)
  have h: "hd (nat_str n) \<notin> {CHR ''+'', CHR ''-''}" for n
    using nat_str_codes [OF hd_in_set [OF nat_str_nonempty [of n]]] by auto
  show ?thesis
  proof (cases "i < 0")
    case True
    then show ?thesis using assms by (simp add: int_str_def Atoi_def d str_nat_nat_str)
  next
    case False
    then show ?thesis using assms h [of "nat i"] by (simp add: int_str_def Atoi_def d str_nat_nat_str)
  qed
qed

text \<open>An event of a workload with the labels of a component updates the row of that component.\<close>

lemma find_distinct:
  "distinct (map f xs) \<Longrightarrow> x \<in> set xs \<Longrightarrow> List.find (\<lambda>y. f y = f x) xs = Some x"
  by (induction xs) auto

lemma label_read_fold:
  "k \<notin> fst ` set us \<Longrightarrow> label_read (fold (\<lambda>(k, v). AList.update k v) us ls) k = label_read ls k"
  by (induction us arbitrary: ls) (auto simp: label_read_def update_conv')

lemma BuildLabels_read:
  assumes "{LabelAppID, LabelComponentID, LabelComponentName} \<inter> fst ` set (pr_Labels p) = {}"
  shows "label_read (BuildLabels c p) LabelAppID = ac_AppID c"
    "label_read (BuildLabels c p) LabelComponentID = int_str (ac_ID c)"
    "label_read (BuildLabels c p) LabelComponentName = ac_Name c"
  using assms by (simp_all add: BuildLabels_def label_read_fold) (simp_all add: label_read_def)

lemma syncComponentStatus_row:
  assumes "syncStatusToDB (BuildLabels c p) n r ready = Some update"
    and "{LabelAppID, LabelComponentID, LabelComponentName} \<inter> fst ` set (pr_Labels p) = {}"
    and "- (2 ^ 63) \<le> ac_ID c" "ac_ID c < 2 ^ 63" "ac_ID c \<noteq> 0"
    and "FindComponentsByAppID st db (ac_AppID c) = Inr rows" "distinct (map ac_ID rows)"
    and "row \<in> set rows" "ac_ID row = ac_ID c"
  shows "syncComponentStatus st now update db = snd (ds_Put (as_Component st) now db (row\<lparr>
    ac_Status := (if ready then ''Running'' else if 0 < r \<or> 0 < n then ''Pending'' else ''Failed''),
    ac_ReadyReplicas := r\<rparr>))"
proof -
  from assms(1) have u: "cu_AppID update = ac_AppID c" "cu_ComponentID update = ac_ID c"
    "cu_ReadyReplicas update = r"
    "ComponentStatus_string (cu_Status update) =
      (if ready then ''Running'' else if 0 < r \<or> 0 < n then ''Pending'' else ''Failed'')"
    by (auto simp: syncStatusToDB_def BuildLabels_read [OF assms(2)] Let_def Atoi_int_str [OF assms(3,4)] split: if_splits)
  from find_distinct [OF assms(7,8)] assms(9) have "List.find (\<lambda>x. ac_ID x = ac_ID c) rows = Some row" by simp
  with u assms(5,6) show ?thesis by (simp add: syncComponentStatus_def FindComponentsByAppID_def)
qed

end
