(* ===== verification/Kube_Application.thy ===== *)
theory Kube_Application
  imports Kube_Templates
begin

text \<open>
  The application service: \<open>domain/service/application.go\<close>. Creating an application with its
  components and its default workflow, replacing a workflow, and updating a version. Generated
  identifiers and the clock are inputs; \<open>transactional\<close> says whether the datastore offers
  transactions, as the SQL driver does.
\<close>

section \<open>Components\<close>

definition prepare_component ::
  "string \<Rightarrow> string \<Rightarrow> CreateComponentRequest \<Rightarrow> app_error + ApplicationComponent" where
  "prepare_component appID namespace req =
    (if (cr_ComponentType req = ServerJob \<or> cr_ComponentType req = StoreJob) \<and> cr_Image req = ''''
     then Inl ErrComponentNotImageSet
     else Inr (ApplicationComponent_zero\<lparr>ac_Name := cr_Name req, ac_AppID := appID, ac_Namespace := namespace,
            ac_Image := cr_Image req, ac_Replicas := (if cr_Replicas req \<le> 0 then 1 else cr_Replicas req),
            ac_ComponentType := cr_ComponentType req,
            ac_Properties := Some (encode_properties (cr_Properties req)),
            ac_Traits := Some (encode_traits (cr_Traits req))\<rparr>))"

definition prepareComponents ::
  "string \<Rightarrow> string \<Rightarrow> CreateComponentRequest list \<Rightarrow> app_error + ApplicationComponent list" where
  "prepareComponents appID namespace reqComponents = map_err (prepare_component appID namespace) reqComponents"

definition batchAddComponents ::
  "'db AppStores \<Rightarrow> int \<Rightarrow> 'db \<Rightarrow> ApplicationComponent list \<Rightarrow> DBError option \<times> 'db" where
  "batchAddComponents st now db components =
    (if components = [] then (None, db) else ds_BatchAdd (as_Component st) now db components)"

section \<open>The default workflow\<close>

definition workflow_body ::
  "CreateApplicationsRequest \<Rightarrow> CreateComponentRequest list \<Rightarrow> WorkflowStep list" where
  "workflow_body req resolvedComponents =
    (if ar_WorkflowSteps req = [] then convertWorkflowStepByComponent resolvedComponents
     else convertWorkflowStepsFromRequest (ar_WorkflowSteps req))"

definition upsertDefaultWorkflow ::
  "'db AppStores \<Rightarrow> int \<Rightarrow> string \<Rightarrow> 'db \<Rightarrow> Applications \<Rightarrow> CreateApplicationsRequest \<Rightarrow>
   CreateComponentRequest list \<Rightarrow> (app_error + Workflow) \<times> 'db" where
  "upsertDefaultWorkflow st now newID db app req resolvedComponents =
    (let aliasBase = (if ar_Alias req = '''' then ar_Name req else ar_Alias req);
         desiredAlias = aliasBase @ ''-workflow'';
         desiredName = ar_Name req @ ''-workflow'';
         workflowStep = encode_steps (workflow_body req resolvedComponents)
     in case FindWorkflowsByAppID st db (ap_ID app) of
          Inl e \<Rightarrow> (Inl (AppDB e), db)
        | Inr ws \<Rightarrow>
           (let workflows = map Some ws in
            case pickDefaultWorkflow workflows desiredName desiredAlias of
              None \<Rightarrow>
                (let workflow = Workflow_zero\<lparr>wf_ID := newID, wf_Name := ensureUniqueWorkflowName desiredName workflows,
                       wf_Namespace := ap_Namespace app, wf_AppID := ap_ID app, wf_Alias := desiredAlias,
                       wf_ProjectID := ap_Project app, wf_Description := ap_Description app,
                       wf_WorkflowType := WorkflowTaskTypeWorkflow, wf_Status := StatusCreated,
                       wf_Steps := Some workflowStep\<rparr>
                 in case ds_Add (as_Workflow st) now db workflow of
                      (Some e, db') \<Rightarrow> (Inl ErrCreateWorkflow, db')
                    | (None, db') \<Rightarrow> (Inr workflow, db'))
            | Some target0 \<Rightarrow>
                (let target = target0\<lparr>
                       wf_Name := (if desiredName \<noteq> '''' \<and> \<not> EqualFold (wf_Name target0) desiredName
                          then ensureUniqueWorkflowNameExcluding desiredName workflows (wf_ID target0)
                          else wf_Name target0),
                       wf_Alias := (if desiredAlias \<noteq> '''' then desiredAlias else wf_Alias target0),
                       wf_Namespace := ap_Namespace app, wf_ProjectID := ap_Project app,
                       wf_Description := ap_Description app, wf_Steps := Some workflowStep\<rparr>
                 in case ds_Put (as_Workflow st) now db target of
                      (Some e, db') \<Rightarrow> (Inl (AppDB e), db')
                    | (None, db') \<Rightarrow> (Inr target, db'))))"

section \<open>Creating an application\<close>

definition refreshExistingApplication ::
  "'db AppStores \<Rightarrow> 'db \<Rightarrow> CreateApplicationsRequest \<Rightarrow> app_error + Applications" where
  "refreshExistingApplication st db req =
    (case ApplicationByID st db (ar_ID req) of
       Inl e \<Rightarrow> Inl ErrApplicationNotExist
     | Inr application \<Rightarrow> Inr (application\<lparr>ap_Name := ar_Name req, ap_Version := ar_Version req,
          ap_Alias := ar_Alias req, ap_Project := ar_Project req, ap_Description := ar_Description req,
          ap_Icon := ar_Icon req,
          ap_Namespace := (if ar_Namespace req \<noteq> '''' then ar_Namespace req else ap_Namespace application),
          ap_TmpEnable := (case ar_TmpEnable req of None \<Rightarrow> ap_TmpEnable application | Some b \<Rightarrow> b)\<rparr>))"

text \<open>\<open>run\<close>: the writes, in one transaction where the datastore has them.\<close>

definition create_run ::
  "'db AppStores \<Rightarrow> int \<Rightarrow> string \<Rightarrow> Applications \<Rightarrow> CreateApplicationsRequest \<Rightarrow>
   CreateComponentRequest list \<Rightarrow> ApplicationComponent list \<Rightarrow> 'db \<Rightarrow> (app_error + Workflow) \<times> 'db" where
  "create_run st now wfID application req resolved components db =
    (case repo_CreateApplications st now db application of
       (Some e, db1) \<Rightarrow> (Inl (AppDB e), db1)
     | (None, db1) \<Rightarrow>
        (case DelComponentsByAppID st db1 (ap_ID application) of
           (Some e, db2) \<Rightarrow> (Inl ErrComponentBuild, db2)
         | (None, db2) \<Rightarrow>
            (case batchAddComponents st now db2 components of
               (Some e, db3) \<Rightarrow> (Inl ErrCreateComponents, db3)
             | (None, db3) \<Rightarrow> upsertDefaultWorkflow st now wfID db3 application req resolved)))"

text \<open>A transaction whose function fails is rolled back.\<close>

definition with_transaction :: "bool \<Rightarrow> ('db \<Rightarrow> (app_error + 'a) \<times> 'db) \<Rightarrow> 'db \<Rightarrow> (app_error + 'a) \<times> 'db" where
  "with_transaction transactional run db =
    (case run db of
       (Inl e, db') \<Rightarrow> (Inl e, if transactional then db else db')
     | (Inr x, db') \<Rightarrow> (Inr x, db'))"

text \<open>\<open>ConvertAppModelToBase\<close> pairs the application with the identifier of its workflow.\<close>

definition CreateApplications ::
  "'db AppStores \<Rightarrow> bool \<Rightarrow> int \<Rightarrow> string \<Rightarrow> string \<Rightarrow> CreateApplicationsRequest \<Rightarrow> 'db \<Rightarrow>
   (app_error + Applications \<times> string) \<times> 'db" where
  "CreateApplications st transactional now appID wfID req0 db =
    (let req = (if ar_Version req0 = '''' then req0\<lparr>ar_Version := ''1.0.0''\<rparr> else req0);
         tmpEnable = (case ar_TmpEnable req of None \<Rightarrow> False | Some b \<Rightarrow> b)
     in case (if ar_ID req \<noteq> '''' then refreshExistingApplication st db req
              else Inr (NewApplications appID (ar_Name req) (ar_Namespace req) (ar_Version req) (ar_Alias req)
                     (ar_Project req) (ar_Description req) (ar_Icon req) tmpEnable)) of
          Inl e \<Rightarrow> (Inl e, db)
        | Inr app0 \<Rightarrow>
           (let application = (if ap_Namespace app0 = '''' then app0\<lparr>ap_Namespace := DefaultNamespace\<rparr> else app0)
            in case resolveComponents st db (ap_Namespace application) (ap_Name application) (ar_Component req) of
                 Inl e \<Rightarrow> (Inl e, db)
               | Inr resolved \<Rightarrow>
                  (case prepareComponents (ap_ID application) (ap_Namespace application) resolved of
                     Inl e \<Rightarrow> (Inl e, db)
                   | Inr components \<Rightarrow>
                      (case with_transaction transactional
                              (create_run st now wfID application req resolved components) db of
                         (Inl e, db') \<Rightarrow> (Inl e, db')
                       | (Inr workflow, db') \<Rightarrow> (Inr (application, wf_ID workflow), db')))))"

section \<open>Reading and deleting\<close>

definition GetApplication :: "'db AppStores \<Rightarrow> 'db \<Rightarrow> string \<Rightarrow> app_error + Applications" where
  "GetApplication st db appName =
    (case ApplicationByName st db appName of
       Inl ErrRecordNotExist \<Rightarrow> Inl ErrApplicationNotExist
     | Inl e \<Rightarrow> Inl (AppDB e)
     | Inr app \<Rightarrow> Inr app)"

definition DeleteApplication :: "'db AppStores \<Rightarrow> Applications \<Rightarrow> 'db \<Rightarrow> DBError option \<times> 'db" where
  "DeleteApplication st app db = ds_Delete (as_App st) db app"

definition find_application :: "'db AppStores \<Rightarrow> 'db \<Rightarrow> string \<Rightarrow> app_error + Applications" where
  "find_application st db appID =
    (if appID = '''' then Inl ErrApplicationNotExist
     else case ApplicationByID st db appID of
       Inl ErrRecordNotExist \<Rightarrow> Inl ErrApplicationNotExist
     | Inl e \<Rightarrow> Inl (AppDB e)
     | Inr app \<Rightarrow> Inr app)"

text \<open>The newest first, by seconds; records of one second keep their order.\<close>

definition unix_seconds :: "int \<Rightarrow> int" where
  "unix_seconds t = t div Second"

definition ListApplicationComponents :: "'db AppStores \<Rightarrow> 'db \<Rightarrow> string \<Rightarrow> app_error + ApplicationComponent list" where
  "ListApplicationComponents st db appID =
    bind_err (find_application st db appID) (\<lambda>app.
      case FindComponentsByAppID st db (ap_ID app) of
        Inl e \<Rightarrow> Inl (AppDB e)
      | Inr components \<Rightarrow> Inr (sort_key (\<lambda>c. - unix_seconds (ac_UpdateTime c)) components))"

definition ListApplicationWorkflows :: "'db AppStores \<Rightarrow> 'db \<Rightarrow> string \<Rightarrow> app_error + Workflow list" where
  "ListApplicationWorkflows st db appID =
    bind_err (find_application st db appID) (\<lambda>app.
      case FindWorkflowsByAppID st db (ap_ID app) of
        Inl e \<Rightarrow> Inl (AppDB e)
      | Inr workflows \<Rightarrow> Inr (sort_key (\<lambda>w. - unix_seconds (wf_UpdateTime w)) workflows))"

section \<open>Replacing a workflow\<close>

record UpdateApplicationWorkflowRequest =
  uw_WorkflowID :: string
  uw_Name :: string
  uw_Alias :: string
  uw_Workflow :: "CreateWorkflowStepRequest list"

text \<open>The first workflow of the list gives the fields it has.\<close>

definition deriveWorkflowMetadata :: "Applications \<Rightarrow> Workflow list \<Rightarrow> string \<times> string \<times> string" where
  "deriveWorkflowMetadata app workflows =
    (case workflows of
       [] \<Rightarrow> (ap_Namespace app, ap_Project app, ap_Description app)
     | w # _ \<Rightarrow> ((if wf_Namespace w \<noteq> [] then wf_Namespace w else ap_Namespace app), (if wf_ProjectID w \<noteq> [] then wf_ProjectID w else ap_Project app),
                 (if wf_Description w \<noteq> [] then wf_Description w else ap_Description app)))"

definition UpdateApplicationWorkflow ::
  "'db AppStores \<Rightarrow> int \<Rightarrow> string \<Rightarrow> string \<Rightarrow> UpdateApplicationWorkflowRequest \<Rightarrow> 'db \<Rightarrow>
   (app_error + string) \<times> 'db" where
  "UpdateApplicationWorkflow st now newID appID req db =
    (if appID = '''' then (Inl ErrApplicationNotExist, db)
     else if uw_Workflow req = [] then (Inl ErrWorkflowConfig, db)
     else case find_application st db appID of
       Inl e \<Rightarrow> (Inl e, db)
     | Inr app \<Rightarrow>
    (case FindComponentsByAppID st db (ap_ID app) of
       Inl e \<Rightarrow> (Inl (AppDB e), db)
     | Inr components \<Rightarrow>
    (case validateWorkflowComponentRefs (uw_Workflow req) ((\<lambda>c. ToLower (ac_Name c)) ` set components) of
       Some name \<Rightarrow> (Inl (ErrMissingComponentRef name), db)
     | None \<Rightarrow>
    (case FindWorkflowsByAppID st db (ap_ID app) of
       Inl e \<Rightarrow> (Inl (AppDB e), db)
     | Inr workflows \<Rightarrow>
        (let steps = Some (encode_steps (convertWorkflowStepsFromRequest (uw_Workflow req)));
             targetName = ToLower (TrimSpace (uw_Name req))
         in if uw_WorkflowID req \<noteq> '''' then
              (case ds_Get (as_Workflow st) db (Workflow_zero\<lparr>wf_ID := uw_WorkflowID req\<rparr>) of
                 Inl ErrRecordNotExist \<Rightarrow> (Inl ErrNoSuchWorkflow, db)
               | Inl e \<Rightarrow> (Inl (AppDB e), db)
               | Inr w \<Rightarrow>
                  (if wf_AppID w \<noteq> ap_ID app then (Inl ErrWorkflowConfig, db)
                   else
                     let name = (if targetName = '''' then wf_Name w else targetName);
                         target = w\<lparr>wf_Name := (if name \<noteq> '''' then name else wf_Name w),
                                    wf_Alias := (if uw_Alias req \<noteq> '''' then uw_Alias req else wf_Alias w),
                                    wf_Steps := steps\<rparr>
                     in case ds_Put (as_Workflow st) now db target of
                          (Some e, db') \<Rightarrow> (Inl (AppDB e), db')
                        | (None, db') \<Rightarrow> (Inr (wf_ID target), db')))
            else
              (let base = (if targetName = '''' then ToLower (ap_Name app) @ ''-workflow'' else targetName);
                   (namespace, projectID, description) = deriveWorkflowMetadata app workflows;
                   target = Workflow_zero\<lparr>wf_ID := newID,
                     wf_Name := ensureUniqueWorkflowName base (map Some workflows),
                     wf_Alias := uw_Alias req, wf_Namespace := namespace, wf_ProjectID := projectID,
                     wf_AppID := ap_ID app, wf_Description := description,
                     wf_WorkflowType := WorkflowTaskTypeWorkflow, wf_Status := StatusCreated, wf_Steps := steps\<rparr>
               in case ds_Add (as_Workflow st) now db target of
                    (Some e, db') \<Rightarrow> (Inl (AppDB e), db')
                  | (None, db') \<Rightarrow> (Inr (wf_ID target), db')))))))"

section \<open>Updating a version\<close>

record ComponentUpdateSpec =
  us_Action :: string
  us_Name :: string
  us_Image :: string
  us_Replicas :: "int option"
  us_Env :: "(string \<times> string) list"
  us_ComponentType :: JobType
  us_Properties :: "Properties option"
  us_Traits :: "Traits option"

record UpdateVersionRequest =
  uv_Version :: string
  uv_Strategy :: string
  uv_Components :: "ComponentUpdateSpec list"
  uv_AutoExec :: "bool option"
  uv_Description :: string

record UpdateVersionResponse =
  ur_AppID :: string
  ur_Version :: string
  ur_PreviousVersion :: string
  ur_Strategy :: UpdateStrategy
  ur_TaskID :: string
  ur_Updated :: "string list"
  ur_Added :: "string list"
  ur_Removed :: "string list"

definition mergeComponentEnv ::
  "ApplicationComponent \<Rightarrow> (string \<times> string) list \<Rightarrow> ApplicationComponent option" where
  "mergeComponentEnv c envUpdates =
    (if ac_Properties c = None then Some c
     else case decodeJSONStruct properties_schema decode_properties Properties_zero (ac_Properties c) of
       None \<Rightarrow> None
     | Some props \<Rightarrow> Some (c\<lparr>ac_Properties := Some (encode_properties
          (props\<lparr>pr_Env := fold (\<lambda>(k, v). AList.update k v) envUpdates (pr_Env props)\<rparr>))\<rparr>))"

text \<open>The changed component and whether anything changed, before it is written.\<close>

definition update_fields :: "ApplicationComponent \<Rightarrow> ComponentUpdateSpec \<Rightarrow> ApplicationComponent \<times> bool" where
  "update_fields c0 us =
    (let img = (us_Image us \<noteq> '''' \<and> us_Image us \<noteq> ac_Image c0);
         c1 = (if img then c0\<lparr>ac_Image := us_Image us\<rparr> else c0);
         rep = (case us_Replicas us of None \<Rightarrow> False | Some n \<Rightarrow> n \<noteq> ac_Replicas c1);
         c2 = (if rep then c1\<lparr>ac_Replicas := the (us_Replicas us)\<rparr> else c1)
     in if us_Env us = [] then (c2, img \<or> rep)
        else case mergeComponentEnv c2 (us_Env us) of
          None \<Rightarrow> (c2, img \<or> rep) | Some c3 \<Rightarrow> (c3, True))"

text \<open>The component is a pointer of the map, so its new fields stay whether the write succeeds or not.\<close>

definition updateComponent ::
  "'db AppStores \<Rightarrow> int \<Rightarrow> ApplicationComponent \<Rightarrow> ComponentUpdateSpec \<Rightarrow> 'db \<Rightarrow>
   bool \<times> ApplicationComponent \<times> 'db" where
  "updateComponent st now c us db =
    (case update_fields c us of
       (c', changed) \<Rightarrow>
         if changed then
           (case ds_Put (as_Component st) now db c' of
              (Some e, db') \<Rightarrow> (False, c', db')
            | (None, db') \<Rightarrow> (True, c', db'))
         else (False, c', db))"

definition new_component :: "Applications \<Rightarrow> ComponentUpdateSpec \<Rightarrow> ApplicationComponent" where
  "new_component app us =
    ApplicationComponent_zero\<lparr>ac_Name := us_Name us, ac_AppID := ap_ID app, ac_Namespace := ap_Namespace app,
      ac_Image := us_Image us, ac_Replicas := (case us_Replicas us of None \<Rightarrow> 1 | Some n \<Rightarrow> n),
      ac_ComponentType := us_ComponentType us,
      ac_Properties := map_option encode_properties (us_Properties us),
      ac_Traits := map_option encode_traits (us_Traits us)\<rparr>"

definition addComponent ::
  "'db AppStores \<Rightarrow> int \<Rightarrow> Applications \<Rightarrow> ComponentUpdateSpec \<Rightarrow> 'db \<Rightarrow> DBError option \<times> 'db" where
  "addComponent st now app us db = ds_Add (as_Component st) now db (new_component app us)"

text \<open>The state of the loop over the requested operations.\<close>

record 'db version_state =
  vs_db :: 'db
  vs_components :: "string \<rightharpoonup> ApplicationComponent"
  vs_updated :: "string list"
  vs_added :: "string list"
  vs_removed :: "string list"

definition version_step ::
  "'db AppStores \<Rightarrow> int \<Rightarrow> Applications \<Rightarrow> ComponentUpdateSpec \<Rightarrow> 'db version_state \<Rightarrow>
   app_error option \<times> 'db version_state" where
  "version_step st now app us s =
    (let compName = ToLower (TrimSpace (us_Name us)) in
     case ParseComponentAction (us_Action us) of
       ComponentActionUpdate \<Rightarrow>
         (case vs_components s compName of
            None \<Rightarrow> (None, s)
          | Some c \<Rightarrow>
             (case updateComponent st now c us (vs_db s) of
                (updated, c', db') \<Rightarrow>
                  (None, s\<lparr>vs_db := db', vs_components := (vs_components s)(compName \<mapsto> c'),
                          vs_updated := (if updated then vs_updated s @ [us_Name us] else vs_updated s)\<rparr>)))
     | ComponentActionAdd \<Rightarrow>
         (if vs_components s compName \<noteq> None then (None, s)
          else case addComponent st now app us (vs_db s) of
              (Some e, db') \<Rightarrow> (Some ErrVersionUpdateFailed, s\<lparr>vs_db := db'\<rparr>)
            | (None, db') \<Rightarrow> (None, s\<lparr>vs_db := db', vs_added := vs_added s @ [us_Name us]\<rparr>))
     | ComponentActionRemove \<Rightarrow>
         (case vs_components s compName of
            None \<Rightarrow> (None, s)
          | Some c \<Rightarrow>
             (case ds_Delete (as_Component st) (vs_db s) c of
                (Some e, db') \<Rightarrow> (Some ErrVersionUpdateFailed, s\<lparr>vs_db := db'\<rparr>)
              | (None, db') \<Rightarrow>
                  (None, s\<lparr>vs_db := db', vs_components := (vs_components s)(compName := None),
                          vs_removed := vs_removed s @ [us_Name us]\<rparr>))))"

fun version_loop ::
  "'db AppStores \<Rightarrow> int \<Rightarrow> Applications \<Rightarrow> ComponentUpdateSpec list \<Rightarrow> 'db version_state \<Rightarrow>
   app_error option \<times> 'db version_state" where
  "version_loop st now app [] s = (None, s)"
| "version_loop st now app (us # uss) s =
     (case version_step st now app us s of
        (Some e, s') \<Rightarrow> (Some e, s')
      | (None, s') \<Rightarrow> version_loop st now app uss s')"

text \<open>
  The steps of the first workflow: those named like a removed component go, and each new
  component gets a step. \<open>None\<close> is an error of the decoding.
\<close>

definition synced_steps :: "string list \<Rightarrow> string list \<Rightarrow> WorkflowStep option list \<Rightarrow> WorkflowStep list" where
  "synced_steps added removed steps =
    filter (\<lambda>s. ToLower (step_Name s) \<notin> ToLower ` set removed) (List.map_filter id steps) @
    map component_step added"

definition syncWorkflowSteps ::
  "'db AppStores \<Rightarrow> int \<Rightarrow> string \<Rightarrow> string list \<Rightarrow> string list \<Rightarrow> 'db \<Rightarrow> app_error option \<times> 'db" where
  "syncWorkflowSteps st now appID added removed db =
    (case FindWorkflowsByAppID st db appID of
       Inl e \<Rightarrow> (Some (AppDB e), db)
     | Inr [] \<Rightarrow> (None, db)
     | Inr (workflow # _) \<Rightarrow>
        (case wf_Steps workflow of
           None \<Rightarrow> (None, db)
         | Some j \<Rightarrow>
            (case decode_steps j of
               None \<Rightarrow> (Some ErrDecode, db)
             | Some steps \<Rightarrow>
                (case ds_Put (as_Workflow st) now db
                        (workflow\<lparr>wf_Steps := Some (encode_steps (synced_steps added removed steps))\<rparr>) of
                   (Some e, db') \<Rightarrow> (Some (AppDB e), db')
                 | (None, db') \<Rightarrow> (None, db')))))"

definition execWorkflow ::
  "'db AppStores \<Rightarrow> int \<Rightarrow> string \<Rightarrow> Workflow \<Rightarrow> 'db \<Rightarrow> string option \<times> 'db" where
  "execWorkflow st now taskID workflow db =
    (if wf_Steps workflow = None then (None, db)
     else case CreateWorkflowQueue (as_Queue st) now db
           (wq_zero\<lparr>wq_TaskID := taskID, wq_AppID := wf_AppID workflow, wq_WorkflowID := wf_ID workflow,
              wq_ProjectID := wf_ProjectID workflow, wq_WorkflowName := wf_Name workflow,
              wq_WorkflowDisplayName := wf_Alias workflow, wq_Type := wf_WorkflowType workflow,
              wq_Status := StatusWaiting\<rparr>) of
         (Some e, db') \<Rightarrow> (None, db')
       | (None, db') \<Rightarrow> (Some taskID, db'))"

definition component_table :: "ApplicationComponent list \<Rightarrow> string \<rightharpoonup> ApplicationComponent" where
  "component_table components = foldl (\<lambda>m c. m(ToLower (ac_Name c) \<mapsto> c)) Map.empty components"

definition UpdateVersion ::
  "'db AppStores \<Rightarrow> int \<Rightarrow> string \<Rightarrow> string \<Rightarrow> UpdateVersionRequest \<Rightarrow> 'db \<Rightarrow>
   (app_error + UpdateVersionResponse) \<times> 'db" where
  "UpdateVersion st now taskID appID req db =
    (case find_application st db appID of
       Inl e \<Rightarrow> (Inl e, db)
     | Inr app \<Rightarrow>
    (case FindComponentsByAppID st db (ap_ID app) of
       Inl e \<Rightarrow> (Inl (AppDB e), db)
     | Inr components \<Rightarrow>
    (case version_loop st now app (uv_Components req)
            \<lparr>vs_db = db, vs_components = component_table components, vs_updated = [], vs_added = [], vs_removed = []\<rparr> of
       (Some e, s) \<Rightarrow> (Inl e, vs_db s)
     | (None, s) \<Rightarrow>
    (case ds_Put (as_App st) now (vs_db s) (app\<lparr>ap_Version := uv_Version req,
            ap_Description := (if uv_Description req \<noteq> '''' then uv_Description req else ap_Description app)\<rparr>) of
       (Some e, db1) \<Rightarrow> (Inl ErrVersionUpdateFailed, db1)
     | (None, db1) \<Rightarrow>
        (let db2 = (if vs_added s \<noteq> [] \<or> vs_removed s \<noteq> []
                    then snd (syncWorkflowSteps st now (ap_ID app) (vs_added s) (vs_removed s) db1) else db1);
             resp = \<lparr>ur_AppID = ap_ID app, ur_Version = uv_Version req, ur_PreviousVersion = ap_Version app,
                     ur_Strategy = ParseUpdateStrategy (uv_Strategy req), ur_TaskID = '''',
                     ur_Updated = vs_updated s, ur_Added = vs_added s, ur_Removed = vs_removed s\<rparr>;
             autoExec = (case uv_AutoExec req of None \<Rightarrow> True | Some b \<Rightarrow> b);
             hasChanges = (vs_updated s \<noteq> [] \<or> vs_added s \<noteq> [] \<or> vs_removed s \<noteq> [])
         in if autoExec \<and> hasChanges then
              (case FindWorkflowsByAppID st db2 (ap_ID app) of
                 Inl e \<Rightarrow> (Inr resp, db2)
               | Inr [] \<Rightarrow> (Inr resp, db2)
               | Inr (w # _) \<Rightarrow>
                  (case execWorkflow st now taskID w db2 of
                     (None, db3) \<Rightarrow> (Inr resp, db3)
                   | (Some t, db3) \<Rightarrow> (Inr (resp\<lparr>ur_TaskID := t\<rparr>), db3)))
            else (Inr resp, db2))))))"

end
