(* ===== verification/Kube_Cleanup.thy ===== *)
theory Kube_Cleanup
  imports Kube_Application
begin

text \<open>
  Cleaning up the resources of an application: \<open>CleanupApplicationResources\<close> and what it calls in
  \<open>domain/service/application.go\<close>. The Kubernetes API is the parameter \<open>del\<close>: it deletes one
  object, given by kind, namespace and name, and returns the error, if any, with the cluster.
\<close>

section \<open>Targets\<close>

text \<open>Config maps, secrets and services are named as \<open>KindOther\<close>.\<close>

type_synonym object_ref = "ObjectKind \<times> string \<times> string"

abbreviation KindConfigMap :: ObjectKind where "KindConfigMap \<equiv> KindOther ''ConfigMap''"
abbreviation KindSecret :: ObjectKind where "KindSecret \<equiv> KindOther ''Secret''"
abbreviation KindService :: ObjectKind where "KindService \<equiv> KindOther ''Service''"

definition pickNamespace :: "string \<Rightarrow> string \<Rightarrow> string" where
  "pickNamespace candidate fallback =
    (if candidate \<noteq> '''' then candidate else if fallback \<noteq> '''' then fallback else DefaultNamespace)"

text \<open>\<open>deleteAdditionalObjects\<close>: the objects of the kinds it knows, by the names the traits gave them.\<close>

definition additional_target :: "string \<Rightarrow> 'x client_object \<Rightarrow> object_ref list" where
  "additional_target fallbackNamespace obj =
    (case object_job_type (co_Kind obj) of
       None \<Rightarrow> []
     | Some _ \<Rightarrow>
        (if co_Kind obj \<in> {KindClusterRole, KindClusterRoleBinding} then [(co_Kind obj, '''', co_Name obj)]
         else [(co_Kind obj, pickNamespace (co_Namespace obj) fallbackNamespace, co_Name obj)]))"

definition deleteAdditionalObjects :: "string \<Rightarrow> 'x client_object list \<Rightarrow> object_ref list" where
  "deleteAdditionalObjects fallbackNamespace objs = concat (map (additional_target fallbackNamespace) objs)"

text \<open>The workload, after the objects of its traits; when trait processing fails only the workload.\<close>

definition workload_targets ::
  "ObjectKind \<Rightarrow> string \<Rightarrow> string \<Rightarrow> 'x GenerateServiceResult option \<Rightarrow> object_ref list" where
  "workload_targets kind namespace name result =
    (case result of
       None \<Rightarrow> [(kind, namespace, name)]
     | Some r \<Rightarrow>
        deleteAdditionalObjects namespace (gr_AdditionalObjects r) @
        [(kind, if co_Namespace (gr_Service r) \<noteq> '''' then co_Namespace (gr_Service r) else namespace,
          if co_Name (gr_Service r) \<noteq> '''' then co_Name (gr_Service r) else name)])"

definition config_target :: "ObjectKind \<Rightarrow> ApplicationComponent \<Rightarrow> ConfigInput \<Rightarrow> object_ref" where
  "config_target kind component ci =
    (kind, pickNamespace (ci_Namespace ci) (ac_Namespace component),
     if ci_Name ci = '''' then ac_Name component else ci_Name ci)"

definition service_targets :: "ApplicationComponent \<Rightarrow> Properties \<Rightarrow> object_ref list" where
  "service_targets component props =
    (if pr_Ports props = [] then []
     else let svc = GenerateService component props in
          [(KindService,
            if sv_Name svc \<noteq> '''' \<and> sv_Namespace svc \<noteq> '''' then sv_Namespace svc else ac_Namespace component,
            if sv_Name svc \<noteq> '''' then sv_Name svc else ServiceName (ac_Name component) (ac_AppID component))])"

text \<open>What \<open>deleteComponentResources\<close> deletes, in order.\<close>

definition deleteComponentResources :: "'x traits_proc \<Rightarrow> ApplicationComponent \<Rightarrow> object_ref list" where
  "deleteComponentResources ApplyTraits component0 =
    (let props = ParseProperties (ac_Properties component0);
         component = component0\<lparr>ac_Namespace :=
           (if ac_Namespace component0 = '''' then DefaultNamespace else ac_Namespace component0)\<rparr>;
         ns = ac_Namespace component
     in (case ac_ComponentType component of
           ServerJob \<Rightarrow> workload_targets KindDeployment ns (WebServiceName (ac_Name component) (ac_AppID component))
               (GenerateWebService ApplyTraits component props)
         | StoreJob \<Rightarrow> workload_targets KindStatefulSet ns (StoreServerName (ac_Name component) (ac_AppID component))
               (GenerateStoreService ApplyTraits component)
         | ConfJob \<Rightarrow> [config_target KindConfigMap component (GenerateConfigMap component props)]
         | SecretJob \<Rightarrow> [config_target KindSecret component (GenerateSecret component props)]
         | _ \<Rightarrow> []) @ service_targets component props)"

section \<open>Deleting and reporting\<close>

datatype delete_result = DeleteOK | DeleteNotFound | DeleteError string

text \<open>\<open>deleteNamespaced\<close> and \<open>deleteCluster\<close>: an object that is not there counts as deleted.\<close>

definition delete_object ::
  "(object_ref \<Rightarrow> 'k \<Rightarrow> delete_result \<times> 'k) \<Rightarrow> object_ref \<Rightarrow> 'k \<Rightarrow> string option \<times> 'k" where
  "delete_object del ref cluster =
    (case ref of
       (kind, namespace, name) \<Rightarrow>
         if name = '''' then (None, cluster)
         else
           let ns = (if kind \<in> {KindClusterRole, KindClusterRoleBinding} then ''''
                     else if namespace = '''' then DefaultNamespace else namespace)
           in case del (kind, ns, name) cluster of
                (DeleteError e, cluster') \<Rightarrow> (Some e, cluster')
              | (_, cluster') \<Rightarrow> (None, cluster'))"

record cleanupReporter =
  rp_deleted :: "object_ref list"
  rp_failed :: "(object_ref \<times> string) list"

definition newCleanupReporter :: cleanupReporter where
  "newCleanupReporter = \<lparr>rp_deleted = [], rp_failed = []\<rparr>"

definition reporter_record :: "object_ref \<Rightarrow> string option \<Rightarrow> cleanupReporter \<Rightarrow> cleanupReporter" where
  "reporter_record ref err r =
    (if snd (snd ref) = '''' then r
     else case err of
         Some e \<Rightarrow> r\<lparr>rp_failed := rp_failed r @ [(ref, e)]\<rparr>
       | None \<Rightarrow> r\<lparr>rp_deleted := rp_deleted r @ [ref]\<rparr>)"

text \<open>\<open>err\<close>: nothing, the one error, or a summary with the first.\<close>

datatype cleanup_error = SingleError string | ManyErrors nat string

definition reporter_err :: "cleanupReporter \<Rightarrow> cleanup_error option" where
  "reporter_err r =
    (case rp_failed r of
       [] \<Rightarrow> None
     | [(_, e)] \<Rightarrow> Some (SingleError e)
     | (_, e) # _ \<Rightarrow> Some (ManyErrors (length (rp_failed r)) e))"

fun cleanup_loop ::
  "(object_ref \<Rightarrow> 'k \<Rightarrow> delete_result \<times> 'k) \<Rightarrow> object_ref list \<Rightarrow> cleanupReporter \<times> 'k \<Rightarrow>
   cleanupReporter \<times> 'k" where
  "cleanup_loop del [] (r, cluster) = (r, cluster)"
| "cleanup_loop del (ref # refs) (r, cluster) =
     (case delete_object del ref cluster of
        (err, cluster') \<Rightarrow> cleanup_loop del refs (reporter_record ref err r, cluster'))"

text \<open>The response carries the application with the deleted and failed resources, next to the error.\<close>

definition CleanupApplicationResources ::
  "'db AppStores \<Rightarrow> 'x traits_proc \<Rightarrow> (object_ref \<Rightarrow> 'k \<Rightarrow> delete_result \<times> 'k) \<Rightarrow> 'db \<Rightarrow> string \<Rightarrow> 'k \<Rightarrow>
   (app_error + string \<times> cleanupReporter \<times> cleanup_error option) \<times> 'k" where
  "CleanupApplicationResources st ApplyTraits del db appID cluster =
    (case find_application st db appID of
       Inl e \<Rightarrow> (Inl e, cluster)
     | Inr app \<Rightarrow>
        (case FindComponentsByAppID st db (ap_ID app) of
           Inl e \<Rightarrow> (Inl (AppDB e), cluster)
         | Inr components \<Rightarrow>
            (case cleanup_loop del (concat (map (deleteComponentResources ApplyTraits) components))
                    (newCleanupReporter, cluster) of
               (r, cluster') \<Rightarrow> (Inr (ap_ID app, r, reporter_err r), cluster'))))"

section \<open>Lemmas\<close>

text \<open>What the job of a component creates in the cluster.\<close>

fun info_ref :: "'x job_info \<Rightarrow> object_ref" where
  "info_ref (InfoObject obj) =
     (co_Kind obj, if co_Kind obj \<in> {KindClusterRole, KindClusterRoleBinding} then '''' else co_Namespace obj,
      co_Name obj)"
| "info_ref (InfoService s) = (KindService, sv_Namespace s, sv_Name s)"
| "info_ref (InfoConfigMap c) = (KindConfigMap, ci_Namespace c, ci_Name c)"
| "info_ref (InfoSecret c) = (KindSecret, ci_Namespace c, ci_Name c)"

definition job_refs :: "'x JobTask list \<Rightarrow> object_ref set" where
  "job_refs js = {info_ref info |info j. j \<in> set js \<and> jt_JobInfo j = Some info}"

lemma jt_JobInfo_deploy [simp]: "jt_JobInfo (deploy_job task timeout share name ns t info) = Some info"
  by (simp add: deploy_job_def markJobSkippedIfIgnored_def setDeployTimeout_def)

lemma info_ref_shared [simp]: "info_ref (applyShareLabelsToJobInfo info share) = info_ref info"
  by (cases info) (simp_all add: applyShareLabelsToJobInfo.simps applyShareLabelsToObject_def)

lemma object_job_refs:
  "job_refs (object_job c task timeout share obj) =
    (if object_job_type (co_Kind obj) = None then {}
     else {(co_Kind obj,
            if co_Kind obj \<in> {KindClusterRole, KindClusterRoleBinding} then ''''
            else if co_Namespace obj = '''' then ac_Namespace c else co_Namespace obj,
            if co_Kind obj = KindIngress then IngressName (nameOrFallback (co_Name obj) (ac_Name c)) (ac_AppID c)
            else co_Name obj)})"
  by (auto simp: object_job_def Let_def job_refs_def applyShareLabelsToObject_def in_namespace_def
      split: option.splits)

lemma job_refs_append [simp]: "job_refs (xs @ ys) = job_refs xs \<union> job_refs ys"
  by (auto simp: job_refs_def)

lemma job_refs_Nil [simp]: "job_refs [] = {}"
  by (simp add: job_refs_def)

lemma job_refs_concat: "job_refs (concat xss) = (\<Union>xs\<in>set xss. job_refs xs)"
  by (auto simp: job_refs_def)

lemma job_refs_deploy [simp]: "job_refs [deploy_job task timeout share name ns t info] = {info_ref info}"
  by (auto simp: job_refs_def)

lemma bucket_jobs_update: "set (bucket_jobs (AList.update p js b)) \<subseteq> set (bucket_jobs b) \<union> set js"
  by (induction b) (auto simp: bucket_jobs_def split: if_splits)

lemma bucket_get_subset: "set (bucket_get b p) \<subseteq> set (bucket_jobs b)"
proof (cases "map_of b p")
  case (Some js)
  from map_of_SomeD [OF this] have "set js \<subseteq> set (bucket_jobs b)" by (auto simp: bucket_jobs_def)
  with Some show ?thesis by (simp add: bucket_get_def)
qed (simp add: bucket_get_def)

lemma job_refs_mono: "set xs \<subseteq> set ys \<Longrightarrow> job_refs xs \<subseteq> job_refs ys"
  by (auto simp: job_refs_def)

lemma job_refs_extend: "job_refs (bucket_jobs (bucket_extend p js b)) \<subseteq> job_refs (bucket_jobs b) \<union> job_refs js"
proof -
  have "set (bucket_jobs (bucket_extend p js b)) \<subseteq> set (bucket_jobs b @ js)"
    using bucket_jobs_update [of p "bucket_get b p @ js" b] bucket_get_subset [of b p]
    by (auto simp: bucket_extend_def)
  from job_refs_mono [OF this] show ?thesis by simp
qed

lemma job_refs_fold_extend:
  "job_refs (bucket_jobs (fold (\<lambda>jt. bucket_extend p [jt]) js b)) \<subseteq> job_refs (bucket_jobs b) \<union> job_refs js"
proof (induction js arbitrary: b)
  case (Cons j js)
  have "job_refs (j # js) = job_refs [j] \<union> job_refs js"
    using job_refs_append [of "[j]" js] by simp
  with Cons.IH [of "bucket_extend p [j] b"] job_refs_extend [of p "[j]" b] show ?case by auto
qed simp

text \<open>
  The references of the jobs for the objects of the traits: those the clean-up deletes, but for
  the ingresses, which the builder renames.
\<close>

lemma object_jobs_covered:
  assumes "ac_Namespace c \<noteq> ''''" "r \<in> job_refs (CreateObjectJobsFromResult objs c task [] timeout)"
    and "fst r \<noteq> KindIngress"
  shows "r \<in> set (deleteAdditionalObjects (ac_Namespace c) objs)"
proof -
  from assms(2) obtain obj where "obj \<in> set objs"
    and "r \<in> job_refs (object_job c task timeout (shareConfigForComponent c) obj)"
    by (auto simp: CreateObjectJobsFromResult_def job_refs_concat split: if_splits)
  with assms(1,3) show ?thesis
    by (force simp: object_job_refs deleteAdditionalObjects_def additional_target_def pickNamespace_def
        split: if_splits)
qed

lemma queueServiceJobs_refs:
  assumes "ac_Namespace c \<noteq> ''''" "fst r \<noteq> KindIngress"
    and "r \<in> job_refs (bucket_jobs (queueServiceJobs b c task ns t result timeout share))"
    and "\<And>x. result = Some x \<Longrightarrow> co_Kind (gr_Service x) = kind \<and> co_Namespace (gr_Service x) = ac_Namespace c \<and>
        co_Name (gr_Service x) = name \<and> kind \<notin> {KindClusterRole, KindClusterRoleBinding}"
    and "name \<noteq> ''''"
  shows "r \<in> job_refs (bucket_jobs b) \<or> r \<in> set (workload_targets kind (ac_Namespace c) name result)"
proof (cases result)
  case (Some x)
  let ?objs = "CreateObjectJobsFromResult (gr_AdditionalObjects x) c task [] timeout"
  let ?b = "if gr_AdditionalObjects x = [] then b else fold (\<lambda>jt. bucket_extend JobPriorityHigh [jt]) ?objs b"
  have "r \<in> job_refs (bucket_jobs ?b) \<or> r = info_ref (InfoObject (gr_Service x))"
    using assms(3) Some job_refs_extend [of JobPriorityNormal _ ?b]
    by (fastforce simp: queueServiceJobs_def Let_def)
  moreover have "job_refs (bucket_jobs ?b) \<subseteq> job_refs (bucket_jobs b) \<union> job_refs ?objs"
    using job_refs_fold_extend by auto
  moreover have "r \<in> job_refs ?objs \<Longrightarrow> r \<in> set (deleteAdditionalObjects (ac_Namespace c) (gr_AdditionalObjects x))"
    using object_jobs_covered assms(1,2) by blast
  moreover have "info_ref (InfoObject (gr_Service x)) = (kind, ac_Namespace c, name)"
    using assms(4) [OF Some] by auto
  moreover have "set (workload_targets kind (ac_Namespace c) name result) =
      set (deleteAdditionalObjects (ac_Namespace c) (gr_AdditionalObjects x)) \<union> {(kind, ac_Namespace c, name)}"
    using assms(1,5) assms(4) [OF Some] by (auto simp: workload_targets_def Some)
  ultimately show ?thesis by auto
qed (use assms(3) in \<open>simp add: queueServiceJobs_def\<close>)

text \<open>Trait processing keeps the kind, the name and the namespace of the workload.\<close>

definition keeps_identity :: "'x traits_proc \<Rightarrow> bool" where
  "keeps_identity T \<longleftrightarrow> (\<forall>c w objs w'. T c w = Inr (objs, w') \<longrightarrow>
     co_Kind w' = co_Kind w \<and> co_Name w' = co_Name w \<and> co_Namespace w' = co_Namespace w)"

lemma buildResourceName_nonempty: "buildResourceName p n a \<noteq> ''''"
  using buildResourceName_clean [of p n a] by (auto simp: clean_name_def)

lemma cleanup_covers_refs:
  assumes "keeps_identity T" "r \<in> job_refs (bucket_jobs (buildJobsForComponent T c task timeout))"
    and "fst r \<noteq> KindIngress" "ac_Name c \<noteq> ''''"
  shows "r \<in> set (deleteComponentResources T c)"
proof -
  let ?c = "with_namespace c"
  let ?p = "ParseProperties (ac_Properties c)"
  let ?share = "shareConfigForComponent ?c"
  have ns: "ac_Namespace ?c \<noteq> ''''" by (simp add: with_namespace_def DefaultNamespace_def)
  have new: "job_refs (bucket_jobs newJobBuckets) = {}" by simp
  have id: "T x y = Inr (objs, z) \<Longrightarrow> co_Kind z = co_Kind y \<and> co_Name z = co_Name y \<and> co_Namespace z = co_Namespace y"
    for x y objs z using assms(1) by (auto simp: keeps_identity_def)
  have svc: "{info_ref (applyShareLabelsToJobInfo (InfoService (GenerateService ?c ?p)) ?share)} \<subseteq>
      set (deleteComponentResources T c)" if "pr_Ports ?p \<noteq> []"
    using that ns buildResourceName_nonempty
    by (auto simp: deleteComponentResources_def Let_def service_targets_def GenerateService_def ServiceName_def
        with_namespace_def)
  define b1 where "b1 = (case ac_ComponentType c of
      ServerJob \<Rightarrow> queueServiceJobs newJobBuckets ?c task (ac_Namespace ?c) JobDeploy
        (GenerateWebService T ?c ?p) timeout ?share
    | StoreJob \<Rightarrow> queueServiceJobs newJobBuckets ?c task (ac_Namespace ?c) JobDeployStore
        (GenerateStoreService T ?c) timeout ?share
    | ConfJob \<Rightarrow> bucket_extend JobPriorityMaxHigh
        [deploy_job task timeout ?share (ac_Name c) (ac_Namespace ?c) JobDeployConfigMap
           (applyShareLabelsToJobInfo (InfoConfigMap (GenerateConfigMap ?c ?p)) ?share)] newJobBuckets
    | SecretJob \<Rightarrow> bucket_extend JobPriorityMaxHigh
        [deploy_job task timeout ?share (ac_Name c) (ac_Namespace ?c) JobDeploySecret
           (applyShareLabelsToJobInfo (InfoSecret (GenerateSecret ?c ?p)) ?share)] newJobBuckets
    | _ \<Rightarrow> newJobBuckets)"
  have build: "buildJobsForComponent T c task timeout =
      (if pr_Ports ?p \<noteq> [] then bucket_extend JobPriorityNormal
         [deploy_job task timeout ?share (ac_Name c) (ac_Namespace ?c) JobDeployService
            (applyShareLabelsToJobInfo (InfoService (GenerateService ?c ?p)) ?share)] b1 else b1)"
    unfolding b1_def
    by (simp add: buildJobsForComponent_def Let_def with_namespace_def cong: JobType.case_cong)
  have "r \<in> set (deleteComponentResources T c)" if r: "r \<in> job_refs (bucket_jobs b1)"
  proof -
    have web: "r \<in> set (workload_targets KindDeployment (ac_Namespace ?c) (WebServiceName (ac_Name c) (ac_AppID c))
          (GenerateWebService T ?c ?p))" if "ac_ComponentType c = ServerJob"
      using queueServiceJobs_refs [OF ns assms(3), of newJobBuckets task "ac_Namespace ?c" JobDeploy
          "GenerateWebService T ?c ?p" timeout ?share KindDeployment "WebServiceName (ac_Name c) (ac_AppID c)"]
        r that new id
      by (fastforce simp: b1_def GenerateWebService_def Let_def with_namespace_def WebServiceName_def
          buildResourceName_nonempty split: sum.splits)
    have store: "r \<in> set (workload_targets KindStatefulSet (ac_Namespace ?c) (StoreServerName (ac_Name c) (ac_AppID c))
          (GenerateStoreService T ?c))" if "ac_ComponentType c = StoreJob"
      using queueServiceJobs_refs [OF ns assms(3), of newJobBuckets task "ac_Namespace ?c" JobDeployStore
          "GenerateStoreService T ?c" timeout ?share KindStatefulSet "StoreServerName (ac_Name c) (ac_AppID c)"]
        r that new id ns
      by (fastforce simp: b1_def GenerateStoreService_def Let_def with_namespace_def StoreServerName_def
          buildResourceName_nonempty split: sum.splits)
    have one: "job_refs (bucket_jobs (bucket_extend p js newJobBuckets)) \<subseteq> job_refs js"
      for p and js :: "'a JobTask list"
      using job_refs_extend [of p js newJobBuckets] by simp
    have conf: "r = info_ref (InfoConfigMap (GenerateConfigMap ?c ?p))" if "ac_ComponentType c = ConfJob"
      using r one that unfolding b1_def by fastforce
    have sec: "r = info_ref (InfoSecret (GenerateSecret ?c ?p))" if "ac_ComponentType c = SecretJob"
      using r one that unfolding b1_def by fastforce
    have target: "info_ref (InfoConfigMap ci) = config_target KindConfigMap ?c ci"
      "info_ref (InfoSecret ci) = config_target KindSecret ?c ci"
      if "ci_Name ci \<noteq> ''''" "ci_Namespace ci \<noteq> ''''" for ci
      using that by (simp_all add: config_target_def pickNamespace_def)
    have ci: "ci_Name (GenerateConfigMap ?c ?p) \<noteq> ''''" "ci_Namespace (GenerateConfigMap ?c ?p) \<noteq> ''''"
      "ci_Name (GenerateSecret ?c ?p) \<noteq> ''''" "ci_Namespace (GenerateSecret ?c ?p) \<noteq> ''''"
      using assms(4) ns
      by (auto simp: GenerateConfigMap_def GenerateSecret_def Let_def with_namespace_def split: option.splits)
    have d: "deleteComponentResources T c =
        (case ac_ComponentType c of
           ServerJob \<Rightarrow> workload_targets KindDeployment (ac_Namespace ?c)
             (WebServiceName (ac_Name c) (ac_AppID c)) (GenerateWebService T ?c ?p)
         | StoreJob \<Rightarrow> workload_targets KindStatefulSet (ac_Namespace ?c)
             (StoreServerName (ac_Name c) (ac_AppID c)) (GenerateStoreService T ?c)
         | ConfJob \<Rightarrow> [config_target KindConfigMap ?c (GenerateConfigMap ?c ?p)]
         | SecretJob \<Rightarrow> [config_target KindSecret ?c (GenerateSecret ?c ?p)]
         | _ \<Rightarrow> []) @ service_targets ?c ?p"
      by (simp add: deleteComponentResources_def Let_def with_namespace_def cong: JobType.case_cong)
    show ?thesis
      using web store conf sec target ci r unfolding d b1_def
      by (cases "ac_ComponentType c") auto
  qed
  then show ?thesis
    using assms(2) svc job_refs_extend [of JobPriorityNormal _ b1] unfolding build
    by (fastforce split: if_splits)
qed

end
