(* ===== verification/Kube_Gap.thy ===== *)
theory Kube_Gap
  imports Kube_Traits
begin

text \<open>
  When the trait processors succeed, exactly, and how that compares with what the validator
  accepts: a request that passes validation is processed if and only if \<open>gap_free\<close> holds, the
  conditions the processors have and the validator does not check.
\<close>

section \<open>Success of the combinators\<close>

lemma not_isl_iff: "\<not> isl x \<longleftrightarrow> (\<exists>y. x = Inr y)"
  by (cases x) auto

lemma isl_bind_total [simp]: "isl (bind_err x (\<lambda>y. Inr (f y))) \<longleftrightarrow> isl x"
  by (cases x) auto

lemma isl_collect_err [simp]: "isl (collect_err f xs) \<longleftrightarrow> list_ex (\<lambda>x. isl (f x)) xs"
  by (induction xs) (auto split: sum.splits)

lemma isl_run_processor [simp]: "isl (run_processor b x) \<longleftrightarrow> b \<and> isl x"
  by (simp add: run_processor_def)

lemma isl_collect_enumerate:
  assumes "\<And>i x. isl (f i x) \<longleftrightarrow> P x"
  shows "isl (collect_err (\<lambda>(i, x). f i x) (List.enumerate n xs)) \<longleftrightarrow> list_ex P xs"
proof -
  have "set xs = snd ` set (List.enumerate n xs)" by (metis map_snd_enumerate set_map)
  then show ?thesis by (simp add: list_ex_iff split_def assms)
qed

section \<open>The processors one by one\<close>

text \<open>The storage traits that are not skipped: the first of each volume name.\<close>

fun new_storages :: "string list \<Rightarrow> StorageTraitSpec list \<Rightarrow> StorageTraitSpec list" where
  "new_storages processed [] = []"
| "new_storages processed (s # ss) =
     (let n = NormalizeLowerStrip (st_Name s) in
      if n \<in> set processed then new_storages processed ss else s # new_storages (n # processed) ss)"

definition storage_runs :: "(string \<Rightarrow> 'q option) \<Rightarrow> StorageTraitSpec \<Rightarrow> bool" where
  "storage_runs pq s \<longleftrightarrow>
    NormalizeLowerStrip (st_Name s) \<noteq> '''' \<and>
    (StorageTypeMapping (st_Type s) = ''pvc'' \<longrightarrow> pq (defaultOr (st_Size s) ''1Gi'') \<noteq> None)"

lemma isl_storage_volume:
  "isl (storage_volume pq c s) \<longleftrightarrow> StorageTypeMapping (st_Type s) = '''' \<or>
     StorageTypeMapping (st_Type s) = ''pvc'' \<and> pq (defaultOr (st_Size s) ''1Gi'') = None"
  by (auto simp: storage_volume_def Let_def split: option.splits)

lemma isl_storage_loop:
  "'''' \<notin> set processed \<Longrightarrow>
   isl (storage_loop pq c processed ss) \<longleftrightarrow>
     list_ex (\<lambda>s. StorageTypeMapping (st_Type s) = '''' \<or> \<not> storage_runs pq s) (new_storages processed ss)"
proof (induction pq c processed ss rule: storage_loop.induct)
  case (2 pq c processed s ss)
  let ?n = "NormalizeLowerStrip (st_Name s)"
  have "isl (storage_loop pq c processed (s # ss)) \<longleftrightarrow>
      ?n = '''' \<or> (if ?n \<in> set processed then isl (storage_loop pq c processed ss)
        else isl (storage_volume pq c s) \<or> isl (storage_loop pq c (?n # processed) ss))" (is "_ \<longleftrightarrow> ?r")
    by (cases "storage_volume pq c s") (auto simp: Let_def)
  also have "?r \<longleftrightarrow> list_ex (\<lambda>s. StorageTypeMapping (st_Type s) = '''' \<or> \<not> storage_runs pq s)
      (new_storages processed (s # ss))"
  proof (cases "?n \<in> set processed")
    case True
    with "2.prems" have "?n \<noteq> ''''" by auto
    with True "2.IH"(1) [OF refl] "2.prems" show ?thesis by (simp add: Let_def)
  next
    case False
    with "2.IH"(2) [OF refl] "2.prems" show ?thesis
      by (cases "?n = ''''") (auto simp: isl_storage_volume storage_runs_def Let_def)
  qed
  finally show ?case .
qed simp

definition probe_runs :: "ProbeTraitsSpec \<Rightarrow> bool" where
  "probe_runs p \<longleftrightarrow> exactly_one [pb_Exec p \<noteq> None, pb_HTTPGet p \<noteq> None, pb_TCPSocket p \<noteq> None]"

lemma isl_convertSpecToKubeProbe: "isl (convertSpecToKubeProbe p) \<longleftrightarrow> \<not> probe_runs p"
  by (cases "pb_Exec p"; cases "pb_HTTPGet p"; cases "pb_TCPSocket p")
    (auto simp: convertSpecToKubeProbe_def probe_runs_def exactly_one_def)

lemma isl_probe_loop:
  "\<not> isl (probe_loop ss r) \<longleftrightarrow>
    list_all probe_runs ss \<and> set (map pb_Type ss) \<subseteq> validProbeTypes \<and> distinct (map pb_Type ss) \<and>
    (rt_LivenessProbe r \<noteq> None \<longrightarrow> ''liveness'' \<notin> pb_Type ` set ss) \<and>
    (rt_ReadinessProbe r \<noteq> None \<longrightarrow> ''readiness'' \<notin> pb_Type ` set ss) \<and>
    (rt_StartupProbe r \<noteq> None \<longrightarrow> ''startup'' \<notin> pb_Type ` set ss)"
proof (induction ss arbitrary: r)
  case (Cons p ps)
  show ?case
  proof (cases "convertSpecToKubeProbe p")
    case (Inl e)
    then have "\<not> probe_runs p" using isl_convertSpecToKubeProbe [of p] by simp
    with Inl show ?thesis by simp
  next
    case (Inr k)
    then have "probe_runs p" using isl_convertSpecToKubeProbe [of p] by simp
    with Inr show ?thesis by (auto simp: Cons.IH validProbeTypes_def)
  qed
qed simp

lemma isl_translateToNativeEnvVar: "env_ok e \<Longrightarrow> \<not> isl (translateToNativeEnvVar e)"
  by (cases "vs_Static (se_ValueFrom e)"; cases "vs_Field (se_ValueFrom e)";
      cases "vs_Secret (se_ValueFrom e)"; cases "vs_Config (se_ValueFrom e)")
    (simp_all add: translateToNativeEnvVar_def env_ok_def exactly_one_def Let_def)

definition resources_run :: "(string \<Rightarrow> 'q option) \<Rightarrow> ResourceTraitsSpec \<Rightarrow> bool" where
  "resources_run pq r \<longleftrightarrow> list_all (\<lambda>v. v = '''' \<or> pq v \<noteq> None) [rs_CPU r, rs_Memory r, rs_GPU r]"

lemma isl_ResourcesProcessor: "isl (ResourcesProcessor pq r) \<longleftrightarrow> \<not> resources_run pq r"
  by (auto simp: ResourcesProcessor_def resources_run_def resource_entry_def split: option.splits)

lemma isl_rbac_objects: "isl (rbac_objects c i b) \<longleftrightarrow> list_ex (\<lambda>r. rr_Verbs r = []) (rb_Rules b)"
  by (simp add: rbac_objects_def Let_def)

lemma isl_RBACProcessor:
  "isl (RBACProcessor c bs) \<longleftrightarrow> list_ex (\<lambda>b. list_ex (\<lambda>r. rr_Verbs r = []) (rb_Rules b)) bs"
  by (simp add: RBACProcessor_def isl_collect_enumerate [OF isl_rbac_objects] del: isl_collect_err)

lemma isl_IngressProcessor: "isl (IngressProcessor c gs) \<longleftrightarrow> list_ex (\<lambda>g. ing_Routes g = []) gs"
proof -
  have "isl (BuildIngress (applyIngressDefaults c i g)) \<longleftrightarrow> ing_Routes g = []" for i g
    by (simp add: BuildIngress_def applyIngressDefaults_def)
  then show ?thesis
    unfolding IngressProcessor_def isl_bind_total by (rule isl_collect_enumerate)
qed

section \<open>The gap between the validator and the processors\<close>

text \<open>What the processors ask of valid traits at one level beyond the validator.\<close>

definition level_gap_free :: "(string \<Rightarrow> 'q option) \<Rightarrow> Traits \<Rightarrow> bool" where
  "level_gap_free pq t \<longleftrightarrow>
    list_all (storage_runs pq) (new_storages [] (t_Storage t)) \<and>
    list_all (\<lambda>e. ef_Type e \<noteq> ''configMap'') (t_EnvFrom t) \<and>
    list_all (\<lambda>p. pb_Exec p \<noteq> Some []) (t_Probes t) \<and>
    distinct (map pb_Type (t_Probes t)) \<and>
    pred_option (resources_run pq) (t_Resources t)"

definition gap_free :: "(string \<Rightarrow> 'q option) \<Rightarrow> Traits \<Rightarrow> bool" where
  "gap_free pq t \<longleftrightarrow>
    level_gap_free pq t \<and> list_all (\<lambda>c. level_gap_free pq (it_Traits c)) (t_Init t) \<and>
    list_all (\<lambda>c. level_gap_free pq (sd_Traits c)) (t_Sidecar t)"

lemma new_storages_subset: "set (new_storages processed ss) \<subseteq> set ss"
  by (induction processed ss rule: new_storages.induct) (auto simp: Let_def)

lemma valid_StorageProcessor:
  assumes "list_all storage_ok ss"
  shows "isl (StorageProcessor pq c ss) \<longleftrightarrow> \<not> list_all (storage_runs pq) (new_storages [] ss)"
proof -
  have "StorageTypeMapping (st_Type s) \<noteq> ''''" if "s \<in> set (new_storages [] ss)" for s
    using that assms new_storages_subset [of "[]" ss]
    by (auto simp: list_all_iff storage_ok_def validStorageTypes_def StorageTypeMapping_def)
  then show ?thesis
    by (auto simp: StorageProcessor_def isl_storage_loop list_all_iff list_ex_iff)
qed

lemma valid_EnvFromProcessor:
  "list_all env_from_ok es \<Longrightarrow> isl (EnvFromProcessor c es) \<longleftrightarrow> \<not> list_all (\<lambda>e. ef_Type e \<noteq> ''configMap'') es"
proof -
  assume ok: "list_all env_from_ok es"
  have "isl (env_from_source e) \<longleftrightarrow> ef_Type e = ''configMap''" if "e \<in> set es" for e
    using ok that by (auto simp: list_all_iff env_from_source_def env_from_ok_def validEnvFromTypes_def)
  then show ?thesis by (auto simp: EnvFromProcessor_def list_ex_iff list_all_iff)
qed

lemma valid_EnvsProcessor: "list_all env_ok es \<Longrightarrow> \<not> isl (EnvsProcessor c es)"
  by (auto simp: EnvsProcessor_def list_ex_iff list_all_iff isl_translateToNativeEnvVar)

lemma valid_probe:
  "probe_ok p \<Longrightarrow> probe_runs p \<longleftrightarrow> pb_Exec p \<noteq> Some []"
  by (cases "pb_Exec p"; cases "pb_HTTPGet p"; cases "pb_TCPSocket p")
    (auto simp: probe_ok_def probe_runs_def exactly_one_def split: if_splits)

lemma valid_ProbeProcessor:
  assumes "list_all probe_ok ps"
  shows "isl (ProbeProcessor ps) \<longleftrightarrow>
    \<not> (list_all (\<lambda>p. pb_Exec p \<noteq> Some []) ps \<and>
       distinct (map pb_Type ps))"
proof -
  have "set (map pb_Type ps) \<subseteq> validProbeTypes" using assms by (auto simp: list_all_iff probe_ok_def)
  moreover have "list_all probe_runs ps \<longleftrightarrow>
      list_all (\<lambda>p. pb_Exec p \<noteq> Some []) ps"
    using assms valid_probe by (auto simp: list_all_iff)
  ultimately show ?thesis
    using isl_probe_loop [of ps TraitResult_zero] by (auto simp: ProbeProcessor_def TraitResult_zero_def)
qed

lemma valid_RBACProcessor: "list_all rbac_ok bs \<Longrightarrow> \<not> isl (RBACProcessor c bs)"
  by (auto simp: isl_RBACProcessor rbac_ok_def list_all_iff list_ex_iff)

lemma valid_IngressProcessor: "list_all ingress_ok gs \<Longrightarrow> \<not> isl (IngressProcessor c gs)"
  by (auto simp: isl_IngressProcessor ingress_ok_def list_all_iff list_ex_iff)

text \<open>One level, with the nested containers still abstract.\<close>

lemma isl_collected:
  "isl (bind_err (collect_err (\<lambda>x. x) xs) (\<lambda>rss. Inr (f rss))) \<longleftrightarrow> (\<exists>x\<in>set xs. isl x)"
  by (simp add: list_ex_iff)

lemma level_runs:
  assumes "flat_ok t" "{''storage'', ''env_from'', ''envs'', ''resources'', ''probes'', ''rbac'', ''ingress''} \<inter> set ex = {}"
  shows "isl (applyTraitsRecursive pq rnd c t ex) \<longleftrightarrow>
    \<not> level_gap_free pq t \<or>
    ''init'' \<notin> set ex \<and> t_Init t \<noteq> [] \<and>
      isl (InitProcessor (\<lambda>t. applyTraitsRecursive pq rnd c t [''init'', ''sidecar'']) rnd c (t_Init t)) \<or>
    ''sidecar'' \<notin> set ex \<and> t_Sidecar t \<noteq> [] \<and>
      isl (SidecarProcessor (\<lambda>t. applyTraitsRecursive pq rnd c t [''sidecar'', ''init'']) rnd c (t_Sidecar t))"
proof -
  from assms(1) have ok: "list_all storage_ok (t_Storage t)" "list_all probe_ok (t_Probes t)"
      "list_all rbac_ok (t_RBAC t)" "list_all ingress_ok (t_Ingress t)"
      "list_all env_from_ok (t_EnvFrom t)" "list_all env_ok (t_Envs t)"
    by (simp_all add: flat_ok_def)
  note valid = valid_StorageProcessor [OF ok(1), of pq c] valid_ProbeProcessor [OF ok(2)]
    valid_RBACProcessor [OF ok(3), of c] valid_IngressProcessor [OF ok(4), of c]
    valid_EnvFromProcessor [OF ok(5), of c] valid_EnvsProcessor [OF ok(6), of c]
  show ?thesis
    unfolding applyTraitsRecursive.simps [of pq rnd c t ex] isl_collected
    using assms(2)
    by (cases "t_Resources t") (auto simp: level_gap_free_def valid isl_ResourcesProcessor)
qed

lemma inner_runs:
  assumes "inner_ok t"
  shows "isl (applyTraitsRecursive pq rnd c t [''init'', ''sidecar'']) \<longleftrightarrow> \<not> level_gap_free pq t"
    and "isl (applyTraitsRecursive pq rnd c t [''sidecar'', ''init'']) \<longleftrightarrow> \<not> level_gap_free pq t"
  using assms by (subst level_runs; simp add: inner_ok_def)+

lemma valid_InitProcessor:
  assumes "list_all (\<lambda>c. pr_Image (it_Properties c) \<noteq> '''' \<and> inner_ok (it_Traits c)) ts"
  shows "isl (InitProcessor (\<lambda>t. applyTraitsRecursive pq rnd c t [''init'', ''sidecar'']) rnd c ts) \<longleftrightarrow>
    \<not> list_all (\<lambda>c. level_gap_free pq (it_Traits c)) ts"
proof -
  let ?run = "\<lambda>t. applyTraitsRecursive pq rnd c t [''init'', ''sidecar'']"
  have "isl (InitProcessor ?run rnd c ts) \<longleftrightarrow>
      list_ex (\<lambda>t. pr_Image (it_Properties t) = '''' \<or> isl (?run (it_Traits t))) ts"
    unfolding InitProcessor_def isl_bind_total by (rule isl_collect_enumerate) simp
  then show ?thesis using assms by (auto simp: inner_runs list_ex_iff list_all_iff)
qed

lemma valid_SidecarProcessor:
  assumes "list_all (\<lambda>c. sd_Image c \<noteq> '''' \<and> inner_ok (sd_Traits c)) ts"
  shows "isl (SidecarProcessor (\<lambda>t. applyTraitsRecursive pq rnd c t [''sidecar'', ''init'']) rnd c ts) \<longleftrightarrow>
    \<not> list_all (\<lambda>c. level_gap_free pq (sd_Traits c)) ts"
proof -
  let ?run = "\<lambda>t. applyTraitsRecursive pq rnd c t [''sidecar'', ''init'']"
  have "isl (SidecarProcessor ?run rnd c ts) \<longleftrightarrow>
      list_ex (\<lambda>t. sd_Image t = '''' \<or> t_Sidecar (sd_Traits t) \<noteq> [] \<or> isl (?run (sd_Traits t))) ts"
    unfolding SidecarProcessor_def isl_bind_total by (rule isl_collect_enumerate) simp
  moreover have "t_Sidecar (sd_Traits t) = []" if "t \<in> set ts" for t
    using assms that by (auto simp: list_all_iff inner_ok_def)
  ultimately show ?thesis using assms by (auto simp: inner_runs list_ex_iff list_all_iff)
qed

lemma valid_traits_run:
  assumes "traits_ok t"
  shows "(\<exists>r. applyTraitsRecursive pq rnd c t [] = Inr r) \<longleftrightarrow> gap_free pq t"
proof -
  from assms have "flat_ok t" and i: "list_all (\<lambda>c. pr_Image (it_Properties c) \<noteq> '''' \<and> inner_ok (it_Traits c)) (t_Init t)"
    and s: "list_all (\<lambda>c. sd_Image c \<noteq> '''' \<and> inner_ok (sd_Traits c)) (t_Sidecar t)"
    by (simp_all add: traits_ok_def)
  then show ?thesis
    unfolding not_isl_iff [symmetric]
    by (subst level_runs) (auto simp: gap_free_def valid_InitProcessor [OF i] valid_SidecarProcessor [OF s])
qed

end
