(* ===== verification/Kube_Mounts.thy ===== *)
theory Kube_Mounts
  imports Kube_Traits
begin

text \<open>
  Where the mounts of a processed workload lead. \<open>result_mounts\<close> and \<open>pod_mounts\<close> are the volume
  names that the containers of a trait result and of a pod mount; \<open>mounts_kept\<close> is the invariant
  of trait results that carries through every processor, their aggregation and the wiring of the
  pod: what is mounted is declared.
\<close>

section \<open>Aggregation of lists and tables\<close>

lemma append_new_keys: "key ` set (append_new key xs acc) = key ` set acc \<union> key ` set xs"
  by (induction xs arbitrary: acc) (auto simp: append_new_def)

lemma set_append_new: "set (append_new key xs acc) \<subseteq> set acc \<union> set xs"
proof (induction xs arbitrary: acc)
  case (Cons x xs)
  have "append_new key (x # xs) acc =
      append_new key xs (if key x \<in> key ` set acc then acc else acc @ [x])"
    by (simp add: append_new_def)
  with Cons.IH [of "if key x \<in> key ` set acc then acc else acc @ [x]"] show ?case by auto
qed (simp add: append_new_def)

lemma append_new_distinct: "distinct (map key acc) \<Longrightarrow> distinct (map key (append_new key xs acc))"
  unfolding append_new_def by (induction xs arbitrary: acc) auto

text \<open>The values of a table of lists.\<close>

definition entries :: "('k \<times> 'a list) list \<Rightarrow> 'a set" where
  "entries m = (\<Union>(k, xs)\<in>set m. set xs)"

lemma entries_Nil [simp]: "entries [] = {}"
  and entries_Cons [simp]: "entries ((k, xs) # m) = set xs \<union> entries m"
  by (simp_all add: entries_def)

lemma lookup_list_entries: "set (lookup_list m k) \<subseteq> entries m"
  by (auto simp: lookup_list_def entries_def split: option.splits dest!: map_of_SomeD [OF sym])

lemma entries_concat: "set (concat (map snd m)) = entries m"
  by (force simp: entries_def)

lemma entries_update: "entries (AList.update k xs m) \<subseteq> entries m \<union> set xs"
  by (induction m) (auto split: if_splits)

lemma entries_merge_lists:
  assumes "\<And>xs old. set (ext xs old) \<subseteq> set old \<union> set xs"
  shows "entries (merge_lists ext m acc) \<subseteq> entries acc \<union> entries m"
proof (induction m arbitrary: acc)
  case (Cons kx m)
  obtain k xs where kx: "kx = (k, xs)" by fastforce
  let ?acc = "AList.update k (ext xs (lookup_list acc k)) acc"
  have "entries ?acc \<subseteq> entries acc \<union> set xs"
    using entries_update [of k "ext xs (lookup_list acc k)" acc] assms [of xs "lookup_list acc k"]
      lookup_list_entries [of acc k] by blast
  with Cons.IH [of ?acc] show ?case by (auto simp: merge_lists_def kx)
qed (simp add: merge_lists_def)

section \<open>What is mounted and what is declared\<close>

definition container_mounts :: "'q Container list \<Rightarrow> string set" where
  "container_mounts cs = (\<Union>c\<in>set cs. vm_Name ` set (cn_VolumeMounts c))"

lemma container_mounts_simps [simp]:
  "container_mounts [] = {}"
  "container_mounts (c # cs) = vm_Name ` set (cn_VolumeMounts c) \<union> container_mounts cs"
  "container_mounts (cs @ ds) = container_mounts cs \<union> container_mounts ds"
  by (auto simp: container_mounts_def)

definition result_mounts :: "'q TraitResult \<Rightarrow> string set" where
  "result_mounts r = vm_Name ` entries (rt_VolumeMounts r) \<union>
     container_mounts (rt_InitContainers r) \<union> container_mounts (rt_Containers r)"

definition pod_mounts :: "'q PodSpec \<Rightarrow> string set" where
  "pod_mounts p = container_mounts (pod_InitContainers p) \<union> container_mounts (pod_Containers p)"

definition claim_named :: "Volume \<Rightarrow> bool" where
  "claim_named v \<longleftrightarrow> (case vo_Source v of VolPVC claim \<Rightarrow> claim = vo_Name v | _ \<Rightarrow> True)"

text \<open>With \<open>tmp\<close>, every claim of the result is named as its volume.\<close>

definition mounts_kept :: "bool \<Rightarrow> 'q TraitResult \<Rightarrow> bool" where
  "mounts_kept tmp r \<longleftrightarrow>
    result_mounts r \<subseteq> vo_Name ` set (rt_Volumes r) \<and> (tmp \<longrightarrow> list_all claim_named (rt_Volumes r))"

lemma aggregate_step_kept:
  assumes "mounts_kept tmp r" "mounts_kept tmp acc"
  shows "mounts_kept tmp (aggregate_step r acc)"
proof -
  have "entries (rt_VolumeMounts (aggregate_step r acc)) \<subseteq>
      entries (rt_VolumeMounts acc) \<union> entries (rt_VolumeMounts r)"
    by (simp add: aggregate_step_def entries_merge_lists set_append_new)
  then have "result_mounts (aggregate_step r acc) \<subseteq> result_mounts acc \<union> result_mounts r"
    unfolding result_mounts_def by (auto simp: aggregate_step_def)
  moreover have "vo_Name ` set (rt_Volumes (aggregate_step r acc)) =
      vo_Name ` set (rt_Volumes acc) \<union> vo_Name ` set (rt_Volumes r)"
    by (simp add: aggregate_step_def append_new_keys)
  moreover have "set (rt_Volumes (aggregate_step r acc)) \<subseteq> set (rt_Volumes acc) \<union> set (rt_Volumes r)"
    by (simp add: aggregate_step_def set_append_new)
  moreover note assms
  ultimately show ?thesis unfolding mounts_kept_def list_all_iff by blast
qed

lemma aggregate_kept: "list_all (mounts_kept tmp) rs \<Longrightarrow> mounts_kept tmp (aggregateTraitResults rs)"
proof -
  have "list_all (mounts_kept tmp) rs \<Longrightarrow> mounts_kept tmp acc \<Longrightarrow>
      mounts_kept tmp (fold aggregate_step rs acc)" for acc
    by (induction rs arbitrary: acc) (auto simp: aggregate_step_kept)
  moreover have "mounts_kept tmp TraitResult_zero"
    by (simp add: mounts_kept_def result_mounts_def TraitResult_zero_def)
  ultimately show "list_all (mounts_kept tmp) rs \<Longrightarrow> ?thesis" by (simp add: aggregateTraitResults_def)
qed

section \<open>The processors\<close>

text \<open>Storage whose type the switch of the storage processor knows.\<close>

definition declares_volume :: "StorageTraitSpec \<Rightarrow> bool" where
  "declares_volume s \<longleftrightarrow> StorageTypeMapping (st_Type s) \<in> {''pvc'', ''emptyDir'', ''configMap'', ''secret''}"

definition creates_claim :: "StorageTraitSpec \<Rightarrow> bool" where
  "creates_claim s \<longleftrightarrow> (StorageTypeMapping (st_Type s) = ''pvc'' \<longrightarrow> st_TmpCreate s)"

lemma storage_volume_kept:
  assumes "storage_volume pq c s = Inr (vs, m, os)" "declares_volume s"
  shows "vm_Name m \<in> vo_Name ` set vs \<and> (creates_claim s \<longrightarrow> list_all claim_named vs)"
  using assms
  by (auto simp: storage_volume_def declares_volume_def creates_claim_def claim_named_def Let_def
      split: if_splits option.splits)

lemma storage_loop_kept:
  assumes "storage_loop pq c processed ss = Inr rs" "list_all declares_volume ss"
  shows "list_all (\<lambda>(vs, m, os). vm_Name m \<in> vo_Name ` set vs \<and>
           (list_all creates_claim ss \<longrightarrow> list_all claim_named vs)) rs"
  using assms
proof (induction pq c processed ss arbitrary: rs rule: storage_loop.induct)
  case (2 pq c processed s ss)
  let ?n = "NormalizeLowerStrip (st_Name s)"
  from "2.prems"(1) consider
      (seen) "?n \<noteq> ''''" "?n \<in> set processed" "storage_loop pq c processed ss = Inr rs"
    | (new) v rs' where "?n \<noteq> ''''" "?n \<notin> set processed" "storage_volume pq c s = Inr v"
        "storage_loop pq c (?n # processed) ss = Inr rs'" "rs = v # rs'"
    by (auto simp: Let_def bind_err_Inr_iff split: if_splits)
  then show ?case
  proof cases
    case seen
    have "list_all (\<lambda>(vs, m, os). vm_Name m \<in> vo_Name ` set vs \<and>
           (list_all creates_claim ss \<longrightarrow> list_all claim_named vs)) rs"
      using "2.IH"(1) [OF refl] seen "2.prems"(2) by simp
    then show ?thesis by (auto simp: list_all_iff)
  next
    case new
    obtain vs m os where v: "v = (vs, m, os)" by (cases v)
    have "list_all (\<lambda>(vs, m, os). vm_Name m \<in> vo_Name ` set vs \<and>
           (list_all creates_claim ss \<longrightarrow> list_all claim_named vs)) rs'"
      using "2.IH"(2) [OF refl] new "2.prems"(2) by simp
    moreover have "vm_Name m \<in> vo_Name ` set vs \<and> (creates_claim s \<longrightarrow> list_all claim_named vs)"
      using storage_volume_kept new(3) v "2.prems"(2) by force
    ultimately show ?thesis unfolding new(5) v by (auto simp: list_all_iff)
  qed
qed auto

lemma StorageProcessor_kept:
  assumes "StorageProcessor pq c ss = Inr r" "list_all declares_volume ss"
  shows "mounts_kept (list_all creates_claim ss) r"
proof -
  obtain rs where rs: "storage_loop pq c [] ss = Inr rs"
    and r: "r = TraitResult_zero\<lparr>
         rt_Volumes := concat (map fst rs),
         rt_VolumeMounts := (if rs = [] then [] else
            [(NormalizeLowerStrip (ac_Name c), map (\<lambda>(_, m, _). m) rs)]),
         rt_AdditionalObjects := concat (map (\<lambda>(_, _, os). os) rs)\<rparr>"
    using assms(1) by (auto simp: StorageProcessor_def bind_err_Inr_iff)
  from storage_loop_kept [OF rs assms(2)] show ?thesis
    by (force simp: r mounts_kept_def result_mounts_def TraitResult_zero_def list_all_iff)
qed

text \<open>A result without volumes, mounts and containers.\<close>

lemma plain_kept:
  "rt_VolumeMounts r = [] \<Longrightarrow> rt_InitContainers r = [] \<Longrightarrow> rt_Containers r = [] \<Longrightarrow> rt_Volumes r = [] \<Longrightarrow>
   mounts_kept tmp r"
  by (simp add: mounts_kept_def result_mounts_def)

lemma probe_loop_fields:
  "probe_loop ss r = Inr r' \<Longrightarrow>
    rt_VolumeMounts r' = rt_VolumeMounts r \<and> rt_InitContainers r' = rt_InitContainers r \<and>
    rt_Containers r' = rt_Containers r \<and> rt_Volumes r' = rt_Volumes r"
  by (induction ss r rule: probe_loop.induct) (auto simp: bind_err_Inr_iff split: if_splits)

lemma plain_processors_kept:
  "EnvFromProcessor c es = Inr r \<Longrightarrow> mounts_kept tmp r"
  "EnvsProcessor c vs = Inr r \<Longrightarrow> mounts_kept tmp r"
  "ResourcesProcessor pq q = Inr r \<Longrightarrow> mounts_kept tmp r"
  "ProbeProcessor ps = Inr r \<Longrightarrow> mounts_kept tmp r"
  "RBACProcessor c bs = Inr r \<Longrightarrow> mounts_kept tmp r"
  "IngressProcessor c gs = Inr r \<Longrightarrow> mounts_kept tmp r"
  by (rule plain_kept; auto simp: EnvFromProcessor_def EnvsProcessor_def ResourcesProcessor_def
      ProbeProcessor_def RBACProcessor_def IngressProcessor_def bind_err_Inr_iff TraitResult_zero_def
      dest!: probe_loop_fields)+

text \<open>
  A container made from the result of its own traits mounts what that result declares; the
  processors of init containers and sidecars collect such pairs.
\<close>

lemma container_results_kept:
  assumes "\<And>c r. (c, r) \<in> set crs \<Longrightarrow> mounts_kept tmp r \<and> vm_Name ` set (cn_VolumeMounts c) \<subseteq> vo_Name ` set (rt_Volumes r)"
    and "rt_VolumeMounts s = []" "rt_Volumes s = concat (map (\<lambda>(c, r). rt_Volumes r) crs)"
    and "container_mounts (rt_InitContainers s) \<union> container_mounts (rt_Containers s) \<subseteq> container_mounts (map fst crs)"
  shows "mounts_kept tmp s"
proof -
  have "vo_Name ` set (rt_Volumes s) = (\<Union>(c, r)\<in>set crs. vo_Name ` set (rt_Volumes r))"
    using assms(3) by (auto simp: image_iff)
  moreover have "container_mounts (map fst crs) = (\<Union>(c, r)\<in>set crs. vm_Name ` set (cn_VolumeMounts c))"
    by (auto simp: container_mounts_def)
  moreover have "(\<Union>(c, r)\<in>set crs. vm_Name ` set (cn_VolumeMounts c)) \<subseteq>
      (\<Union>(c, r)\<in>set crs. vo_Name ` set (rt_Volumes r))"
    by (rule UN_mono) (auto dest: assms(1))
  ultimately have "result_mounts s \<subseteq> vo_Name ` set (rt_Volumes s)"
    using assms(4) by (auto simp: result_mounts_def assms(2))
  moreover have "tmp \<longrightarrow> list_all claim_named (rt_Volumes s)"
    using assms(1) by (auto simp: assms(3) mounts_kept_def list_all_iff)
  ultimately show ?thesis by (simp add: mounts_kept_def)
qed

lemma mounts_kept_entries:
  "mounts_kept tmp r \<Longrightarrow> vm_Name ` entries (rt_VolumeMounts r) \<subseteq> vo_Name ` set (rt_Volumes r)"
  by (auto simp: mounts_kept_def result_mounts_def)

lemma enumerate_setD: "(i, x) \<in> set (List.enumerate n xs) \<Longrightarrow> x \<in> set xs"
  by (auto simp: in_set_enumerate_eq)

lemma collect_err_set: "collect_err f xs = Inr ys \<Longrightarrow> y \<in> set ys \<Longrightarrow> \<exists>x\<in>set xs. f x = Inr y"
  by (metis collect_err_Inr in_set_conv_nth)

lemma InitProcessor_kept:
  assumes "InitProcessor nested rnd c ts = Inr r"
    and "\<And>t r. t \<in> set ts \<Longrightarrow> nested (it_Traits t) = Inr r \<Longrightarrow> mounts_kept tmp r"
  shows "mounts_kept tmp r"
proof -
  obtain crs where crs: "collect_err (\<lambda>(i, t).
        if pr_Image (it_Properties t) = '''' then Inl ''init container must have an image''
        else bind_err (nested (it_Traits t)) (\<lambda>r. Inr (init_container rnd c i t r, r)))
        (List.enumerate 0 ts) = Inr crs"
    and r: "r = TraitResult_zero\<lparr>
         rt_InitContainers := map fst crs,
         rt_Volumes := concat (map (\<lambda>(c, r). rt_Volumes r) crs),
         rt_AdditionalObjects := concat (map (\<lambda>(c, r). rt_AdditionalObjects r) crs)\<rparr>"
    using assms(1) by (auto simp: InitProcessor_def bind_err_Inr_iff)
  have "mounts_kept tmp x \<and> vm_Name ` set (cn_VolumeMounts d) \<subseteq> vo_Name ` set (rt_Volumes x)"
    if "(d, x) \<in> set crs" for d x
  proof -
    from collect_err_set [OF crs that] obtain i t where t: "t \<in> set ts"
      and x: "nested (it_Traits t) = Inr x" and d: "d = init_container rnd c i t x"
      by (auto simp: bind_err_Inr_iff split: if_splits dest!: enumerate_setD)
    from assms(2) [OF t x] mounts_kept_entries [of tmp x] show ?thesis
      by (simp add: d init_container_def entries_concat del: set_concat)
  qed
  then show ?thesis
    by (rule container_results_kept [where crs = crs]) (auto simp: r TraitResult_zero_def)
qed

lemma SidecarProcessor_kept:
  assumes "SidecarProcessor nested rnd c ts = Inr r"
    and "\<And>t r. t \<in> set ts \<Longrightarrow> nested (sd_Traits t) = Inr r \<Longrightarrow> mounts_kept tmp r"
  shows "mounts_kept tmp r"
proof -
  obtain crs where crs: "collect_err (\<lambda>(i, t).
        if sd_Image t = '''' then Inl ''sidecar must have an image''
        else if t_Sidecar (sd_Traits t) \<noteq> [] then Inl ''sidecar must not contain nested sidecars''
        else bind_err (nested (sd_Traits t)) (\<lambda>r. Inr (sidecar_container rnd c i t r, r)))
        (List.enumerate 0 ts) = Inr crs"
    and r: "r = TraitResult_zero\<lparr>
         rt_Containers := map fst crs,
         rt_Volumes := concat (map (\<lambda>(c, r). rt_Volumes r) crs),
         rt_AdditionalObjects := concat (map (\<lambda>(c, r). rt_AdditionalObjects r) crs)\<rparr>"
    using assms(1) by (auto simp: SidecarProcessor_def bind_err_Inr_iff)
  have "mounts_kept tmp x \<and> vm_Name ` set (cn_VolumeMounts d) \<subseteq> vo_Name ` set (rt_Volumes x)"
    if "(d, x) \<in> set crs" for d x
  proof -
    from collect_err_set [OF crs that] obtain i t where t: "t \<in> set ts"
      and x: "nested (sd_Traits t) = Inr x" and d: "d = sidecar_container rnd c i t x"
      by (auto simp: bind_err_Inr_iff split: if_splits dest!: enumerate_setD)
    from assms(2) [OF t x] mounts_kept_entries [of tmp x]
      lookup_list_entries [of "rt_VolumeMounts x" "NormalizeLowerStrip (ac_Name c)"] show ?thesis
      by (auto simp: d sidecar_container_def Let_def)
  qed
  then show ?thesis
    by (rule container_results_kept [where crs = crs]) (auto simp: r TraitResult_zero_def)
qed

section \<open>All traits of a component\<close>

text \<open>The storage traits at a level, and with those of its init containers and sidecars.\<close>

definition storages_at :: "string list \<Rightarrow> Traits \<Rightarrow> StorageTraitSpec list" where
  "storages_at exclude t = t_Storage t @
    (if ''init'' \<in> set exclude then [] else concat (map (\<lambda>c. t_Storage (it_Traits c)) (t_Init t))) @
    (if ''sidecar'' \<in> set exclude then [] else concat (map (\<lambda>c. t_Storage (sd_Traits c)) (t_Sidecar t)))"

lemma run_processor_Inr: "run_processor b x = Inr rs \<longleftrightarrow> (if b then \<exists>r. x = Inr r \<and> rs = [r] else rs = [])"
  by (auto simp: run_processor_def bind_err_Inr_iff)

lemma collect_err_id: "collect_err (\<lambda>x. x) xs = Inr ys \<longleftrightarrow> xs = map Inr ys"
  by (auto simp: collect_err_Inr list_eq_iff_nth_eq)

lemma list_all_of_run: "run_processor b x = Inr rs \<Longrightarrow> (\<And>r. b \<Longrightarrow> x = Inr r \<Longrightarrow> P r) \<Longrightarrow> list_all P rs"
  by (auto simp: run_processor_Inr split: if_splits)

lemma collected_kept:
  assumes "bind_err (collect_err (\<lambda>x. x) xs) (\<lambda>rss. Inr (aggregateTraitResults (concat rss))) = Inr r"
    and "list_all (\<lambda>x. \<forall>rs. x = Inr rs \<longrightarrow> list_all (mounts_kept tmp) rs) xs"
  shows "mounts_kept tmp r"
proof -
  from assms(1) obtain rss where "xs = map Inr rss" and r: "r = aggregateTraitResults (concat rss)"
    by (auto simp: bind_err_Inr_iff collect_err_id)
  with assms(2) have "list_all (mounts_kept tmp) (concat rss)" by (auto simp: list_all_iff)
  then show ?thesis unfolding r by (rule aggregate_kept)
qed

lemma applyTraitsRecursive_step:
  assumes "applyTraitsRecursive pq rnd c t ex = Inr r" "list_all declares_volume (t_Storage t)"
    and "tmp \<longrightarrow> list_all creates_claim (t_Storage t)"
    and init: "\<And>x s. ''init'' \<notin> set ex \<Longrightarrow> x \<in> set (t_Init t) \<Longrightarrow>
       applyTraitsRecursive pq rnd c (it_Traits x) [''init'', ''sidecar''] = Inr s \<Longrightarrow> mounts_kept tmp s"
    and sidecar: "\<And>x s. ''sidecar'' \<notin> set ex \<Longrightarrow> x \<in> set (t_Sidecar t) \<Longrightarrow>
       applyTraitsRecursive pq rnd c (sd_Traits x) [''sidecar'', ''init''] = Inr s \<Longrightarrow> mounts_kept tmp s"
  shows "mounts_kept tmp r"
proof -
  have w: "mounts_kept (list_all creates_claim (t_Storage t)) s \<Longrightarrow> mounts_kept tmp s" for s :: "'a TraitResult"
    using assms(3) by (auto simp: mounts_kept_def)
  show ?thesis
    apply (rule collected_kept [OF assms(1) [unfolded applyTraitsRecursive.simps [of pq rnd c t]]])
    apply (unfold list.pred_inject)
    apply (intro conjI allI impI TrueI)
            apply (erule list_all_of_run, rule w, erule StorageProcessor_kept [OF _ assms(2)])
           apply (erule list_all_of_run, erule plain_processors_kept)
          apply (erule list_all_of_run, erule plain_processors_kept)
         apply (cases "t_Resources t"; simp; elim list_all_of_run plain_processors_kept)
        apply (erule list_all_of_run, erule plain_processors_kept)
       apply (erule list_all_of_run, erule plain_processors_kept)
      apply (erule list_all_of_run, erule InitProcessor_kept, rule init; simp)
     apply (erule list_all_of_run, erule SidecarProcessor_kept, rule sidecar; simp)
    apply (erule list_all_of_run, erule plain_processors_kept)
    apply simp
    done
qed

lemma nested_kept:
  assumes "applyTraitsRecursive pq rnd c t ex = Inr r" "{''init'', ''sidecar''} \<subseteq> set ex"
    and "list_all declares_volume (t_Storage t)" "tmp \<longrightarrow> list_all creates_claim (t_Storage t)"
  shows "mounts_kept tmp r"
  using assms(2) by (intro applyTraitsRecursive_step [OF assms(1,3,4)]) auto

lemma applyTraitsRecursive_kept:
  assumes "applyTraitsRecursive pq rnd c t [] = Inr r"
    and "list_all declares_volume (storages_at [] t)" "tmp \<longrightarrow> list_all creates_claim (storages_at [] t)"
  shows "mounts_kept tmp r"
proof (rule applyTraitsRecursive_step [OF assms(1)])
  fix x s
  assume x: "x \<in> set (t_Init t)"
    and s: "applyTraitsRecursive pq rnd c (it_Traits x) [''init'', ''sidecar''] = Inr s"
  show "mounts_kept tmp s"
    by (rule nested_kept [OF s]) (use assms(2,3) x in \<open>auto simp: storages_at_def list_all_iff\<close>)
next
  fix x s
  assume x: "x \<in> set (t_Sidecar t)"
    and s: "applyTraitsRecursive pq rnd c (sd_Traits x) [''sidecar'', ''init''] = Inr s"
  show "mounts_kept tmp s"
    by (rule nested_kept [OF s]) (use assms(2,3) x in \<open>auto simp: storages_at_def list_all_iff\<close>)
qed (use assms(2,3) in \<open>auto simp: storages_at_def\<close>)

section \<open>The pod\<close>

lemma container_mounts_update_last:
  "(\<And>c. vm_Name ` set (cn_VolumeMounts (f c)) \<subseteq> vm_Name ` set (cn_VolumeMounts c) \<union> M) \<Longrightarrow>
   container_mounts (update_last P f cs) \<subseteq> container_mounts cs \<union> M"
proof (induction cs)
  case (Cons c cs)
  from Cons.IH [OF Cons.prems] Cons.prems [of c] show ?case by auto
qed simp

lemma pod_mounts_with_container:
  assumes "\<And>c. vm_Name ` set (cn_VolumeMounts (f c)) \<subseteq> vm_Name ` set (cn_VolumeMounts c) \<union> M"
  shows "pod_mounts (with_container name f p) \<subseteq> pod_mounts p \<union> M"
proof -
  note u = container_mounts_update_last [of f M, OF assms]
  show ?thesis
    using u [of "\<lambda>c. cn_Name c = name" "pod_InitContainers p"] u [of "\<lambda>c. cn_Name c = name" "pod_Containers p"]
    by (simp add: pod_mounts_def with_container_def) blast
qed

lemma pod_mounts_fold:
  assumes "\<And>xs c. vm_Name ` set (cn_VolumeMounts (g xs c)) \<subseteq> vm_Name ` set (cn_VolumeMounts c) \<union> H xs"
  shows "pod_mounts (fold (\<lambda>(k, xs) q. if has_container k q then with_container k (g xs) q else q) m p)
          \<subseteq> pod_mounts p \<union> (\<Union>(k, xs)\<in>set m. H xs)"
proof (induction m arbitrary: p)
  case (Cons kx m)
  obtain k xs where kx: "kx = (k, xs)" by fastforce
  let ?p = "if has_container k p then with_container k (g xs) p else p"
  have "pod_mounts ?p \<subseteq> pod_mounts p \<union> H xs"
    using pod_mounts_with_container [OF assms] by auto
  with Cons.IH [of ?p] have "pod_mounts (fold (\<lambda>(k, xs) q.
      if has_container k q then with_container k (g xs) q else q) m ?p)
      \<subseteq> pod_mounts p \<union> H xs \<union> (\<Union>(k, xs)\<in>set m. H xs)" by blast
  then show ?case by (simp add: kx Un_assoc cong: if_cong)
qed simp

lemma wire_volumes:
  "pod_Volumes (fold (\<lambda>(k, xs) q. if has_container k q then with_container k (g xs) q else q) m p) =
    pod_Volumes p"
  by (induction m arbitrary: p) (auto simp: with_container_def)

lemma wire_pod_volumes [simp]: "pod_Volumes (wire_pod r main p) = pod_Volumes p"
proof -
  show ?thesis unfolding wire_pod_def wire_volumes by (simp add: with_container_def)
qed

lemma pod_mounts_wire: "pod_mounts (wire_pod r main p) \<subseteq> pod_mounts p \<union> vm_Name ` entries (rt_VolumeMounts r)"
proof -
  let ?w = "\<lambda>g m q. fold (\<lambda>(k, xs) q. if has_container k q then with_container k (g xs) q else q) m q"
  have 1: "pod_mounts (with_container main (set_main r) p) \<subseteq> pod_mounts p"
    using pod_mounts_with_container [of "set_main r" "{}" main p] by (simp add: set_main_def)
  have 2: "pod_mounts (?w add_mounts m q) \<subseteq> pod_mounts q \<union> vm_Name ` entries m" for m and q :: "'a PodSpec"
    using pod_mounts_fold [of add_mounts "\<lambda>xs. vm_Name ` set xs" m q]
    by (auto simp: add_mounts_def entries_def)
  have 3: "pod_mounts (?w add_envs m q) \<subseteq> pod_mounts q" for m and q :: "'a PodSpec"
    using pod_mounts_fold [of add_envs "\<lambda>_. {}" m q] by (auto simp: add_envs_def)
  have 4: "pod_mounts (?w add_env_from m q) \<subseteq> pod_mounts q" for m and q :: "'a PodSpec"
    using pod_mounts_fold [of add_env_from "\<lambda>_. {}" m q] by (auto simp: add_env_from_def)
  show ?thesis unfolding wire_pod_def
    by (intro order_trans [OF 4] order_trans [OF 3] order_trans [OF 2] Un_mono order_refl 1)
qed

lemma applied_mounts:
  assumes "applyTraitResultToWorkload r w main = Inr (objs, w')" "mounts_kept tmp r"
    and "co_Kind w = KindStatefulSet \<Longrightarrow> tmp" "co_Spec w' = TraitSpec (WorkloadPod wl pod templates)"
  shows "pod_mounts pod \<subseteq> vo_Name ` set (pod_Volumes pod) \<union> fst ` set templates"
proof -
  obtain wl' where wl: "co_Spec w = WorkloadSpec wl'"
    using assms(1) by (cases "co_Spec w") (auto simp: applyTraitResultToWorkload_def)
  define pod2 where "pod2 = wire_pod r main (merge_pod r (pod_of_workload wl'))"
  from assms(1,4) have
    pod: "pod = pod2\<lparr>pod_Volumes := filter (\<lambda>v. \<not> templated_volume (fst ` set templates) v) (pod_Volumes pod2)\<rparr>"
    and t: "co_Kind w \<noteq> KindStatefulSet \<Longrightarrow> templates = []"
    by (auto simp: applyTraitResultToWorkload_def Let_def wl pod2_def simp del: set_concat set_map
        split: if_splits)
  have "pod_mounts pod = pod_mounts pod2"
    by (simp add: pod pod_mounts_def)
  also have "\<dots> \<subseteq> result_mounts r"
    using pod_mounts_wire [of r main "merge_pod r (pod_of_workload wl')"]
    by (auto simp: pod2_def merge_pod_def pod_of_workload_def pod_mounts_def result_mounts_def)
  also have "\<dots> \<subseteq> vo_Name ` set (rt_Volumes r)" using assms(2) by (simp add: mounts_kept_def)
  also have "\<dots> \<subseteq> vo_Name ` set (pod_Volumes pod) \<union> fst ` set templates"
  proof -
    have v: "pod_Volumes pod = filter (\<lambda>v. \<not> templated_volume (fst ` set templates) v) (rt_Volumes r)"
      by (simp add: pod pod2_def merge_pod_def pod_of_workload_def)
    have "vo_Name v \<in> fst ` set templates" if "v \<in> set (rt_Volumes r)" "templated_volume (fst ` set templates) v" for v
      using that t assms(2,3)
      by (cases "co_Kind w = KindStatefulSet")
        (auto simp: templated_volume_def mounts_kept_def list_all_iff claim_named_def split: VolumeSource.splits)
    then show ?thesis unfolding v by auto
  qed
  finally show ?thesis .
qed

lemma ApplyTraits_cases:
  assumes "ApplyTraits pq rnd c w = Inr (objs, w')" "ac_Traits c = Some j" "co_Spec w' \<noteq> co_Spec w"
  obtains r where "applyTraitsRecursive pq rnd c (decode_traits j) [] = Inr r"
    and "applyTraitResultToWorkload r w (NormalizeLowerStrip (ac_Name c)) = Inr (objs, w')"
  using assms by (auto simp: ApplyTraits_def split: if_splits sum.splits)

lemma ApplyTraits_mounts:
  assumes "ApplyTraits pq rnd c w = Inr (objs, w')" "ac_Traits c = Some j"
    and "list_all declares_volume (storages_at [] (decode_traits j))"
    and "co_Kind w = KindStatefulSet \<longrightarrow> list_all creates_claim (storages_at [] (decode_traits j))"
    and "co_Spec w = WorkloadSpec wl" "co_Spec w' = TraitSpec (WorkloadPod wl' pod templates)"
  shows "pod_mounts pod \<subseteq> vo_Name ` set (pod_Volumes pod) \<union> fst ` set templates"
proof -
  let ?tmp = "co_Kind w = KindStatefulSet"
  from assms(5,6) have "co_Spec w' \<noteq> co_Spec w" by simp
  then obtain r where r: "applyTraitsRecursive pq rnd c (decode_traits j) [] = Inr r"
    and a: "applyTraitResultToWorkload r w (NormalizeLowerStrip (ac_Name c)) = Inr (objs, w')"
    by (rule ApplyTraits_cases [OF assms(1,2)])
  have "mounts_kept ?tmp r" by (rule applyTraitsRecursive_kept [OF r assms(3,4)])
  with a show ?thesis by (rule applied_mounts) (simp_all add: assms(6))
qed

end
