(* ===== verification/Kube_Rules.thy ===== *)
theory Kube_Rules
  imports Kube_Mounts
begin

text \<open>
  What the ingress processor and the RBAC processor produce: the rules of an ingress as a table
  from hosts to paths, and the objects of a policy through the aggregation.
\<close>

section \<open>The table of rules\<close>

lemma lookup_add_path:
  "lookup_list (add_path p host rules) h = (if h = host then lookup_list rules h @ [p] else lookup_list rules h)"
  by (simp add: add_path_def lookup_list_def update_conv')

lemma lookup_add_paths:
  "lookup_list (fold (add_path p) hosts rules) h = lookup_list rules h @ replicate (count_list hosts h) p"
  by (induction hosts arbitrary: rules) (auto simp: lookup_add_path replicate_app_Cons_same)

lemma add_paths_distinct:
  "distinct (map fst rules) \<Longrightarrow> distinct (map fst (fold (add_path p) hosts rules))"
  by (induction hosts arbitrary: rules) (auto simp: add_path_def distinct_update)

text \<open>The annotations after a list of routes: what \<open>determinePathType\<close> sees at the last of them.\<close>

definition annotations_after :: "(string \<times> string) list \<Rightarrow> IngressRoutes list \<Rightarrow> (string \<times> string) list" where
  "annotations_after annotations routes =
    fold (\<lambda>r a. applyRewriteAnnotations a (ig_Rewrite r)) routes annotations"

text \<open>The paths of a host, from the routes in order: one for each time a route names the host.\<close>

definition host_paths ::
  "IngressTraitsSpec \<Rightarrow> IngressRoutes list \<Rightarrow> (string \<times> string) list \<Rightarrow> string \<Rightarrow> IngressPath list" where
  "host_paths s routes annotations host =
    concat (map (\<lambda>k. replicate (count_list (deriveHosts s (routes ! k)) host)
        (ingress_path s (annotations_after annotations (take (Suc k) routes)) (routes ! k)))
      [0..<length routes])"

lemma host_paths_Cons:
  "host_paths s (r # rs) a h =
    replicate (count_list (deriveHosts s r) h) (ingress_path s (applyRewriteAnnotations a (ig_Rewrite r)) r) @
    host_paths s rs (applyRewriteAnnotations a (ig_Rewrite r)) h"
proof -
  have "[0..<length (r # rs)] = 0 # map Suc [0..<length rs]"
    by (simp add: upt_conv_Cons map_Suc_upt del: upt_Suc)
  then show ?thesis
    by (simp add: host_paths_def annotations_after_def comp_def del: upt_Suc)
qed

lemma ingress_routes_paths:
  "lookup_list (snd (ingress_routes s routes a rules)) h = lookup_list rules h @ host_paths s routes a h"
proof (induction routes arbitrary: a rules)
  case (Cons r rs)
  then show ?case by (simp add: Let_def lookup_add_paths host_paths_Cons)
qed (simp add: host_paths_def)

lemma ingress_routes_annotations: "fst (ingress_routes s routes a rules) = annotations_after a routes"
  by (induction routes arbitrary: a rules) (simp_all add: Let_def annotations_after_def)

lemma ingress_routes_distinct:
  "distinct (map fst rules) \<Longrightarrow> distinct (map fst (snd (ingress_routes s routes a rules)))"
  by (induction routes arbitrary: a rules) (simp_all add: Let_def add_paths_distinct)

lemma ingress_routes_hosts:
  "fst ` set (snd (ingress_routes s routes a rules)) =
    fst ` set rules \<union> (\<Union>r\<in>set routes. set (deriveHosts s r))"
proof -
  have p: "fst ` set (fold (add_path p) hosts rules) = fst ` set rules \<union> set hosts" for p hosts rules
    by (induction hosts arbitrary: rules) (auto simp: add_path_def update_conv' simp flip: dom_map_of_conv_image_fst)
  show ?thesis by (induction routes arbitrary: a rules) (auto simp: Let_def p)
qed

lemma buildIngress_rules:
  assumes "co_Spec (buildIngressFromSpec s :: 'q trait_object) = TraitSpec (IngressSpec io)"
  shows "distinct (map fst (io_Rules io))"
    and "fst ` set (io_Rules io) = (\<Union>r\<in>set (ing_Routes s). set (deriveHosts s r))"
    and "lookup_list (io_Rules io) h = host_paths s (ing_Routes s) (ing_Annotations s) h"
    and "io_Annotations io = annotations_after (ing_Annotations s) (ing_Routes s)"
proof -
  let ?rs = "ingress_routes s (ing_Routes s) (ing_Annotations s) []"
  have r: "io_Rules io = snd ?rs" and a: "io_Annotations io = fst ?rs"
    using assms by (auto simp: buildIngressFromSpec_def split: prod.splits)
  show "distinct (map fst (io_Rules io))" by (simp add: r ingress_routes_distinct)
  show "fst ` set (io_Rules io) = (\<Union>r\<in>set (ing_Routes s). set (deriveHosts s r))"
    by (simp add: r ingress_routes_hosts)
  show "lookup_list (io_Rules io) h = host_paths s (ing_Routes s) (ing_Annotations s) h"
    by (simp add: r ingress_routes_paths) (simp add: lookup_list_def)
  show "io_Annotations io = annotations_after (ing_Annotations s) (ing_Routes s)"
    by (simp add: a ingress_routes_annotations)
qed

end
