(* ===== verification/Kube_Deploy.thy ===== *)
theory Kube_Deploy
  imports Kube_Cleanup Kube_Gap Kube_Rules
begin

text \<open>
  From a request to the cluster and back: how the parts fit. A valid component is stored, decoded
  again, processed by the trait processors and made into a job; what the jobs create is what the
  clean-up deletes.
\<close>

section \<open>A requested component and its workload\<close>

lemma encode_traits_empty: "encode_traits t = JObj [] \<Longrightarrow> t = no_Traits"
  by (cases t) (auto simp: jobj_def traits_keys_def jlist_omit_def omit_if_def no_Traits_def map_filter_simps
      split: if_splits option.splits)

lemma encode_traits_not_null: "encode_traits t \<noteq> JNull"
  by (cases t) simp

lemma applyTraitsRecursive_no_Traits: "applyTraitsRecursive pq rnd c no_Traits ex = Inr TraitResult_zero"
  by (subst applyTraitsRecursive.simps)
    (simp add: no_Traits_def run_processor_def aggregateTraitResults_def)

lemma has_main_container:
  "has_container (NormalizeLowerStrip (ac_Name c)) (merge_pod r (pod_of_workload w))"
  if "wl_ContainerName w = NormalizeLowerStrip (ac_Name c)"
  using that by (simp add: has_container_def merge_pod_def pod_of_workload_def)

lemma ApplyTraits_stored:
  assumes "ac_Traits c = Some (encode_traits t)" "traits_ints t" "co_Spec w = WorkloadSpec wl"
    and "wl_ContainerName wl = NormalizeLowerStrip (ac_Name c)"
  shows "isl (ApplyTraits pq rnd c w) \<longleftrightarrow> isl (applyTraitsRecursive pq rnd c t [])"
proof (cases "encode_traits t = JObj []")
  case True
  with encode_traits_empty have "t = no_Traits" by blast
  with True assms(1) show ?thesis by (simp add: ApplyTraits_def applyTraitsRecursive_no_Traits)
next
  case False
  have "conforms (encode_traits t) traits_schema" by (rule conforms_encode_traits [OF assms(2)])
  with False assms show ?thesis
    by (auto simp: ApplyTraits_def encode_traits_not_null decode_traits_encode has_main_container
        applyTraitResultToWorkload_def Let_def split: sum.splits)
qed

lemma prepare_component_Inr:
  "prepare_component appID ns req = Inr c \<longleftrightarrow>
    \<not> (cr_ComponentType req \<in> {ServerJob, StoreJob} \<and> cr_Image req = '''') \<and>
    c = ApplicationComponent_zero\<lparr>ac_Name := cr_Name req, ac_AppID := appID, ac_Namespace := ns,
            ac_Image := cr_Image req, ac_Replicas := (if cr_Replicas req \<le> 0 then 1 else cr_Replicas req),
            ac_ComponentType := cr_ComponentType req,
            ac_Properties := Some (encode_properties (cr_Properties req)),
            ac_Traits := Some (encode_traits (cr_Traits req))\<rparr>"
  by (auto simp: prepare_component_def)

lemma prepare_component_fields:
  assumes "prepare_component appID ns req = Inr c"
  shows "ac_Name c = cr_Name req" "ac_AppID c = appID" "ac_Namespace c = ns"
    "ac_ComponentType c = cr_ComponentType req" "ac_Traits c = Some (encode_traits (cr_Traits req))"
    "ac_Properties c = Some (encode_properties (cr_Properties req))"
  using assms by (auto simp: prepare_component_Inr)

lemma stored_properties:
  assumes "prepare_component appID ns req = Inr c" "properties_ints (cr_Properties req)"
  shows "ParseProperties (ac_Properties c) = cr_Properties req"
  using assms prepare_component_fields [OF assms(1)]
  by (simp add: ParseProperties_def json_of_ptr_def conforms_properties decode_properties_encode)

text \<open>The workload of a valid component is generated unless the component is in the gap.\<close>

lemma workload_generated:
  assumes "prepare_component appID ns req = Inr c" "traits_ok (cr_Traits req)" "traits_ints (cr_Traits req)"
  shows "GenerateWebService (ApplyTraits pq rnd) c p \<noteq> None \<longleftrightarrow> gap_free pq (cr_Traits req)"
    and "ns \<noteq> '''' \<Longrightarrow> GenerateStoreService (ApplyTraits pq rnd) c \<noteq> None \<longleftrightarrow> gap_free pq (cr_Traits req)"
proof -
  have t: "ac_Traits c = Some (encode_traits (cr_Traits req))"
    using prepare_component_fields [OF assms(1)] by simp
  have run: "(\<exists>objs w'. ApplyTraits pq rnd c w = Inr (objs, w')) \<longleftrightarrow> gap_free pq (cr_Traits req)"
    if "co_Spec w = WorkloadSpec wl" "wl_ContainerName wl = NormalizeLowerStrip (ac_Name c)" for w wl
    using ApplyTraits_stored [OF t assms(3) that, of pq rnd] valid_traits_run [OF assms(2), of pq rnd c]
    by (metis not_isl_iff surj_pair)
  show "GenerateWebService (ApplyTraits pq rnd) c p \<noteq> None \<longleftrightarrow> gap_free pq (cr_Traits req)"
    unfolding GenerateWebService_def Let_def
    by (subst run [symmetric]) (auto split: sum.splits)
  show "GenerateStoreService (ApplyTraits pq rnd) c \<noteq> None \<longleftrightarrow> gap_free pq (cr_Traits req)" if "ns \<noteq> ''''"
  proof -
    have "ac_Namespace c \<noteq> ''''" using that prepare_component_fields [OF assms(1)] by simp
    then show ?thesis
      unfolding GenerateStoreService_def Let_def
      by (subst run [symmetric]) (auto split: sum.splits)
  qed
qed

section \<open>Trait processing keeps the identity of the workload\<close>

lemma ApplyTraits_keeps: "keeps_identity (ApplyTraits pq rnd)"
  by (auto simp: keeps_identity_def ApplyTraits_def applyTraitResultToWorkload_def Let_def
      split: option.splits if_splits sum.splits object_spec.splits)

section \<open>Cleaning up\<close>

text \<open>What a Kubernetes API that deletes promises: nothing appears, and a deleted object is gone.\<close>

definition deletes :: "(object_ref \<Rightarrow> 'k \<Rightarrow> delete_result \<times> 'k) \<Rightarrow> ('k \<Rightarrow> object_ref set) \<Rightarrow> bool" where
  "deletes del objects \<longleftrightarrow>
    (\<forall>ref cl res cl'. del ref cl = (res, cl') \<longrightarrow>
      objects cl' \<subseteq> objects cl \<and> (res = DeleteOK \<or> res = DeleteNotFound \<longrightarrow> ref \<notin> objects cl'))"

definition placed_ref :: "object_ref \<Rightarrow> bool" where
  "placed_ref ref \<longleftrightarrow> snd (snd ref) \<noteq> '''' \<and>
    (fst ref \<in> {KindClusterRole, KindClusterRoleBinding} \<longleftrightarrow> fst (snd ref) = '''')"

lemma delete_object_gone:
  assumes "deletes del objects" "delete_object del ref cl = (err, cl')"
  shows "objects cl' \<subseteq> objects cl" and "placed_ref ref \<Longrightarrow> err = None \<Longrightarrow> ref \<notin> objects cl'"
  using assms
  by (cases ref; auto simp: delete_object_def deletes_def placed_ref_def Let_def
      split: if_splits prod.splits delete_result.splits)+

lemma reporter_record_failed:
  "length (rp_failed r) \<le> length (rp_failed (reporter_record ref err r))"
  "placed_ref ref \<Longrightarrow> err \<noteq> None \<Longrightarrow> length (rp_failed r) < length (rp_failed (reporter_record ref err r))"
  by (auto simp: reporter_record_def placed_ref_def split: option.splits)

lemma cleanup_loop_failed: "cleanup_loop del refs (r, cl) = (r', cl') \<Longrightarrow> length (rp_failed r) \<le> length (rp_failed r')"
proof (induction refs arbitrary: r cl)
  case (Cons ref refs)
  obtain err cl1 where d: "delete_object del ref cl = (err, cl1)" by fastforce
  with Cons.prems have "cleanup_loop del refs (reporter_record ref err r, cl1) = (r', cl')" by simp
  from Cons.IH [OF this] reporter_record_failed(1) [of r ref err] show ?case by linarith
qed simp

lemma cleanup_loop_gone:
  assumes "deletes del objects" "cleanup_loop del refs (r, cl) = (r', cl')"
  shows "objects cl' \<subseteq> objects cl" and "length (rp_failed r') = length (rp_failed r) \<Longrightarrow>
    ref \<in> set refs \<Longrightarrow> placed_ref ref \<Longrightarrow> ref \<notin> objects cl'"
proof -
  have "objects cl' \<subseteq> objects cl \<and> (length (rp_failed r') = length (rp_failed r) \<longrightarrow>
    (\<forall>ref\<in>set refs. placed_ref ref \<longrightarrow> ref \<notin> objects cl'))"
    using assms(2)
  proof (induction refs arbitrary: r cl)
    case (Cons x refs)
    obtain err cl1 where d: "delete_object del x cl = (err, cl1)" by fastforce
    with Cons.prems have l: "cleanup_loop del refs (reporter_record x err r, cl1) = (r', cl')" by simp
    note gone = delete_object_gone [OF assms(1) d]
    have mono: "length (rp_failed (reporter_record x err r)) \<le> length (rp_failed r')"
      by (rule cleanup_loop_failed [OF l])
    show ?case
    proof (intro conjI impI ballI)
      show "objects cl' \<subseteq> objects cl" using Cons.IH [OF l] gone(1) by blast
    next
      fix ref
      assume eq: "length (rp_failed r') = length (rp_failed r)" and ref: "ref \<in> set (x # refs)" "placed_ref ref"
      from eq mono reporter_record_failed(1) [of r x err]
      have same: "length (rp_failed (reporter_record x err r)) = length (rp_failed r)" by linarith
      show "ref \<notin> objects cl'"
      proof (cases "ref = x")
        case True
        with same ref(2) reporter_record_failed(2) [of x err r] have "err = None" by fastforce
        with gone(2) True ref(2) Cons.IH [OF l] show ?thesis by blast
      next
        case False
        with ref eq same Cons.IH [OF l] show ?thesis by auto
      qed
    qed
  qed simp
  then show "objects cl' \<subseteq> objects cl" and "length (rp_failed r') = length (rp_failed r) \<Longrightarrow>
    ref \<in> set refs \<Longrightarrow> placed_ref ref \<Longrightarrow> ref \<notin> objects cl'" by blast+
qed

lemma reporter_err_None: "reporter_err r = None \<longleftrightarrow> rp_failed r = []"
  by (auto simp: reporter_err_def split: list.splits prod.splits)

lemma cleanup_removes:
  assumes "deletes del objects" "CleanupApplicationResources st T del db appID cl = (Inr (i, rep, None), cl')"
    and "find_application st db appID = Inr app" "FindComponentsByAppID st db (ap_ID app) = Inr components"
    and "c \<in> set components" "ref \<in> set (deleteComponentResources T c)" "placed_ref ref"
  shows "ref \<notin> objects cl'"
proof -
  let ?refs = "concat (map (deleteComponentResources T) components)"
  from assms(2,3,4) have l: "cleanup_loop del ?refs (newCleanupReporter, cl) = (rep, cl')"
    and "reporter_err rep = None"
    by (auto simp: CleanupApplicationResources_def split: prod.splits)
  then have "length (rp_failed rep) = length (rp_failed newCleanupReporter)"
    by (simp add: reporter_err_None newCleanupReporter_def)
  moreover have "ref \<in> set ?refs" using assms(5,6) by auto
  ultimately show ?thesis using cleanup_loop_gone(2) [OF assms(1) l] assms(7) by blast
qed

text \<open>An ingress is created under a derived name and deleted under its own.\<close>

lemma ingress_job_ref:
  assumes "co_Kind obj = KindIngress" "co_Name obj \<noteq> ''''"
  shows "job_refs (object_job c task timeout share obj) =
      {(KindIngress, if co_Namespace obj = '''' then ac_Namespace c else co_Namespace obj,
        IngressName (co_Name obj) (ac_AppID c))}"
    and "additional_target ns obj = [(KindIngress, pickNamespace (co_Namespace obj) ns, co_Name obj)]"
  using assms by (simp_all add: object_job_refs nameOrFallback_def additional_target_def)

end
