(* ===== verification/Kube_Versions.thy ===== *)
theory Kube_Versions
  imports Kube_Application
begin

text \<open>
  What the operations of the application service promise: components cloned from templates,
  atomic creation, and the bookkeeping of version updates.
\<close>

section \<open>Clones\<close>

lemma map_err_Inr: "map_err f xs = Inr ys \<longleftrightarrow> list_all2 (\<lambda>x y. f x = Inr y) xs ys"
  by (induction xs arbitrary: ys) (auto simp: bind_err_Inr_iff list_all2_Cons1)

lemma convert_fields:
  assumes "convertComponentFromTemplate c n b ns ov nm sh = Inr r"
  shows "cr_Name r = n" "cr_ComponentType r = ac_ComponentType c" "cr_Image r = ac_Image c"
    "cr_Replicas r = ac_Replicas c" "cr_Namespace r = ns" "cr_Template r = None"
    "sh \<noteq> None \<Longrightarrow> t_Share (cr_Traits r) = sh"
proof -
  have "t_Share (rewriteTraitsForTemplate m x y z w t) = t_Share t" for m x y z w t
    by (subst rewriteTraitsForTemplate.simps) (simp add: Let_def)
  then show "cr_Name r = n" "cr_ComponentType r = ac_ComponentType c" "cr_Image r = ac_Image c"
    "cr_Replicas r = ac_Replicas c" "cr_Namespace r = ns" "cr_Template r = None"
    "sh \<noteq> None \<Longrightarrow> t_Share (cr_Traits r) = sh"
    using assms
    by (auto simp: convertComponentFromTemplate_def set_share_def split: option.splits)
qed

lemma take_override_flags:
  "take_override P ovs = Some (ov, ovs') \<Longrightarrow>
    map fst ovs' = map fst ovs \<and> (ov, False) \<in> set ovs \<and> P ov \<and>
    length (filter snd ovs') = Suc (length (filter snd ovs)) \<and>
    (\<forall>i < length ovs. snd (ovs ! i) \<longrightarrow> snd (ovs' ! i))"
proof (induction ovs arbitrary: ovs')
  case (Cons x ovs)
  obtain o1 u where x: "x = (o1, u)" by fastforce
  show ?case
  proof (cases "\<not> u \<and> P o1")
    case True
    with Cons.prems x show ?thesis by (auto simp: nth_Cons')
  next
    case False
    then obtain rest where "take_override P ovs = Some (ov, rest)" "ovs' = (o1, u) # rest"
      using Cons.prems x by auto
    with Cons.IH [of rest] x show ?thesis by (auto simp: nth_Cons' All_less_Suc2)
  qed
qed simp

lemma pickOverride_flags:
  assumes "pickOverride n t ovs = Inr (ov, ovs')"
  shows "map fst ovs' = map fst ovs"
    and "length (filter snd ovs') = length (filter snd ovs) + (if ov = None then 0 else 1)"
    and "\<And>o1. ov = Some o1 \<Longrightarrow> (o1, False) \<in> set ovs \<and> type_fits t o1"
  using assms
  by (auto simp: pickOverride_def split: option.splits if_splits dest!: take_override_flags)

text \<open>The plans follow the template; each override serves at most one of them.\<close>

definition target_from :: "bool \<Rightarrow> string \<Rightarrow> string set \<Rightarrow> compPlan \<Rightarrow> bool" where
  "target_from sh b names p \<longleftrightarrow>
     pl_targetName p \<in> insert (ac_Name (pl_templateComp p))
       (insert (b @ ''-'' @ lastSegment (ac_Name (pl_templateComp p))) names) \<and>
     (sh \<longrightarrow> pl_targetName p = ac_Name (pl_templateComp p))"

lemma target_name_from:
  assumes "\<And>o1. ov = Some o1 \<Longrightarrow> ov_name o1 \<in> names"
  shows "target_from sh b names \<lparr>pl_templateComp = c, pl_targetName = target_name sh b ov c, pl_override = q\<rparr>"
  using assms by (auto simp: target_from_def target_name_def split: option.splits)

lemma plan_loop_Cons:
  assumes "plan_loop sh b (c # cs) ovs nm = Inr (plans, ovs', nm')"
  obtains ov ovs1 nm1 q plans1 where "pickOverride (ac_Name c) (ac_ComponentType c) ovs = Inr (ov, ovs1)"
    "plan_loop sh b cs ovs1 nm1 = Inr (plans1, ovs', nm')"
    "plans = \<lparr>pl_templateComp = c, pl_targetName = target_name sh b ov c, pl_override = q\<rparr> # plans1"
  using assms by (auto simp: bind_err_Inr_iff Let_def split: prod.splits)

lemma plan_loop_spec:
  assumes "plan_loop sh b cs ovs nm = Inr (plans, ovs', nm')" "names = ov_name ` fst ` set ovs"
  shows "map pl_templateComp plans = cs \<and> map fst ovs' = map fst ovs \<and>
    list_all (target_from sh b names) plans \<and>
    length (filter snd ovs') \<le> length (filter snd ovs) + length cs"
  using assms
proof (induction cs arbitrary: ovs nm plans)
  case (Cons c cs)
  obtain ov ovs1 nm1 q plans1 where p: "pickOverride (ac_Name c) (ac_ComponentType c) ovs = Inr (ov, ovs1)"
    and l: "plan_loop sh b cs ovs1 nm1 = Inr (plans1, ovs', nm')"
    and plans: "plans = \<lparr>pl_templateComp = c, pl_targetName = target_name sh b ov c, pl_override = q\<rparr> # plans1"
    by (rule plan_loop_Cons [OF Cons.prems(1)])
  note f = pickOverride_flags [OF p]
  have "fst ` set ovs1 = fst ` set ovs" using arg_cong [OF f(1), of set] by simp
  with Cons.prems(2) have n1: "names = ov_name ` fst ` set ovs1" by simp
  have "target_from sh b names \<lparr>pl_templateComp = c, pl_targetName = target_name sh b ov c, pl_override = q\<rparr>"
    by (rule target_name_from) (use f(3) Cons.prems(2) in force)
  with Cons.IH [OF l n1] f(1,2) show ?case unfolding plans by (auto split: if_splits)
qed simp

lemma clones_from_template:
  assumes "cloneComponentsFromTemplate st db ns i tr = Inr clones"
  obtains app comps where "ApplicationByID st db i = Inr app" "ap_TmpEnable app"
    "FindComponentsByAppID st db (ap_ID app) = Inr comps"
    "list_all2 (\<lambda>c r. cr_ComponentType r = ac_ComponentType c \<and> cr_Image r = ac_Image c \<and>
       cr_Replicas r = ac_Replicas c \<and> cr_Namespace r = ns \<and> cr_Template r = None \<and>
       (tq_share tr \<noteq> None \<longrightarrow> cr_Name r = ac_Name c \<and> t_Share (cr_Traits r) = tq_share tr)) comps clones"
proof -
  from assms obtain app comps where app: "ApplicationByID st db i = Inr app" "ap_TmpEnable app"
    "FindComponentsByAppID st db (ap_ID app) = Inr comps"
    by (auto simp: cloneComponentsFromTemplate_def split: if_splits sum.splits DBError.splits)
  let ?sh = "tq_share tr \<noteq> None"
  let ?b = "if ?sh then '''' else if TrimSpace (tq_baseName tr) = '''' then ap_Name app else TrimSpace (tq_baseName tr)"
  from assms app obtain plans ovs nm where
    l: "plan_loop ?sh ?b comps (map (\<lambda>ov. (ov, False)) (tq_overrides tr)) [] = Inr (plans, ovs, nm)"
    and m: "map_err (\<lambda>p. convertComponentFromTemplate (pl_templateComp p) (pl_targetName p)
                ?b ns (pl_override p) nm (tq_share tr)) plans = Inr clones"
    by (auto simp: cloneComponentsFromTemplate_def Let_def bind_err_Inr_iff split: if_splits)
  from plan_loop_spec [OF l refl] have p: "map pl_templateComp plans = comps"
    and n: "list_all (\<lambda>p. ?sh \<longrightarrow> pl_targetName p = ac_Name (pl_templateComp p)) plans"
    by (auto simp: list_all_iff target_from_def)
  have "list_all2 (\<lambda>p r. cr_ComponentType r = ac_ComponentType (pl_templateComp p) \<and>
       cr_Image r = ac_Image (pl_templateComp p) \<and>
       cr_Replicas r = ac_Replicas (pl_templateComp p) \<and> cr_Namespace r = ns \<and> cr_Template r = None \<and>
       (?sh \<longrightarrow> cr_Name r = ac_Name (pl_templateComp p) \<and> t_Share (cr_Traits r) = tq_share tr)) plans clones"
  proof (rule list_all2_all_nthI)
    show "length plans = length clones" using m by (simp add: map_err_Inr list_all2_lengthD)
  next
    fix k
    assume k: "k < length plans"
    with m have c: "convertComponentFromTemplate (pl_templateComp (plans ! k)) (pl_targetName (plans ! k))
                ?b ns (pl_override (plans ! k)) nm (tq_share tr) = Inr (clones ! k)"
      unfolding map_err_Inr by (rule list_all2_nthD)
    from n k have "?sh \<longrightarrow> pl_targetName (plans ! k) = ac_Name (pl_templateComp (plans ! k))"
      by (simp add: list_all_length)
    with convert_fields [OF c] show "cr_ComponentType (clones ! k) = ac_ComponentType (pl_templateComp (plans ! k)) \<and>
       cr_Image (clones ! k) = ac_Image (pl_templateComp (plans ! k)) \<and>
       cr_Replicas (clones ! k) = ac_Replicas (pl_templateComp (plans ! k)) \<and>
       cr_Namespace (clones ! k) = ns \<and> cr_Template (clones ! k) = None \<and>
       (?sh \<longrightarrow> cr_Name (clones ! k) = ac_Name (pl_templateComp (plans ! k)) \<and>
         t_Share (cr_Traits (clones ! k)) = tq_share tr)" by simp
  qed
  then have "list_all2 (\<lambda>c r. cr_ComponentType r = ac_ComponentType c \<and> cr_Image r = ac_Image c \<and>
       cr_Replicas r = ac_Replicas c \<and> cr_Namespace r = ns \<and> cr_Template r = None \<and>
       (?sh \<longrightarrow> cr_Name r = ac_Name c \<and> t_Share (cr_Traits r) = tq_share tr)) (map pl_templateComp plans) clones"
    by (simp add: list_all2_map1)
  with that [OF app] p show ?thesis by simp
qed

section \<open>Creating an application\<close>

text \<open>Over a datastore with transactions a failing creation changes nothing.\<close>

lemma with_transaction_error: "with_transaction True run db = (Inl e, db') \<Longrightarrow> db' = db"
  by (auto simp: with_transaction_def split: prod.splits sum.splits)

lemma creation_error:
  assumes "CreateApplications st True now appID wfID req db = (Inl e, db')"
  shows "db' = db"
  using assms
  by (auto simp: CreateApplications_def Let_def split: sum.splits prod.splits if_splits
      dest: with_transaction_error)

section \<open>Version updates\<close>

abbreviation component_key :: "string \<Rightarrow> string" where
  "component_key n \<equiv> ToLower (TrimSpace n)"

text \<open>
  The bookkeeping of the loop, for the names \<open>before\<close> of the table it starts with: a component is removed at most
  once and only if it was there; the table holds what was there and was not removed; only those
  are updated; and a component is only added under a name that is not in the table.
\<close>

definition lists_inv ::
  "string set \<Rightarrow> string set \<Rightarrow> string list \<Rightarrow> string list \<Rightarrow> string list \<Rightarrow> bool" where
  "lists_inv before left updated added removed \<longleftrightarrow>
    distinct (map component_key removed) \<and>
    component_key ` set removed \<subseteq> before \<and>
    left = before - component_key ` set removed \<and>
    component_key ` set updated \<subseteq> before \<and>
    component_key ` set added \<inter> before \<subseteq> component_key ` set removed"

lemma lists_inv_update:
  "lists_inv before left updated added removed \<Longrightarrow> component_key n \<in> left \<Longrightarrow>
   lists_inv before left (updated @ [n]) added removed"
  by (auto simp: lists_inv_def)

lemma lists_inv_add:
  "lists_inv before left updated added removed \<Longrightarrow> component_key n \<notin> left \<Longrightarrow>
   lists_inv before left updated (added @ [n]) removed"
  unfolding lists_inv_def by (auto simp del: image_subset_iff)

lemma lists_inv_remove:
  "lists_inv before left updated added removed \<Longrightarrow> component_key n \<in> left \<Longrightarrow>
   lists_inv before (left - {component_key n}) updated added (removed @ [n])"
  unfolding lists_inv_def by auto

abbreviation version_inv :: "string set \<Rightarrow> 'db version_state \<Rightarrow> bool" where
  "version_inv before s \<equiv>
     lists_inv before (dom (vs_components s)) (vs_updated s) (vs_added s) (vs_removed s)"

lemma version_step_inv:
  assumes inv: "version_inv before s" and st: "version_step st now app us s = (r, s')"
  shows "version_inv before s'"
proof -
  let ?k = "component_key (us_Name us)"
  have d: "?k \<in> dom (vs_components s) \<longleftrightarrow> vs_components s ?k \<noteq> None" by auto
  note steps = lists_inv_update [OF inv, of "us_Name us"] lists_inv_add [OF inv, of "us_Name us"]
    lists_inv_remove [OF inv, of "us_Name us"]
  show ?thesis
  proof (cases "ParseComponentAction (us_Action us)")
    case ComponentActionUpdate
    show ?thesis
    proof (cases "vs_components s ?k")
      case None
      with ComponentActionUpdate st inv show ?thesis by (simp add: version_step_def Let_def)
    next
      case (Some c)
      obtain u c' db' where u: "updateComponent st now c us (vs_db s) = (u, c', db')" by (metis prod_cases3)
      with ComponentActionUpdate st Some have s': "s' = s\<lparr>vs_db := db', vs_components := (vs_components s)(?k \<mapsto> c'),
                          vs_updated := (if u then vs_updated s @ [us_Name us] else vs_updated s)\<rparr>"
        by (simp add: version_step_def Let_def)
      have "dom ((vs_components s)(?k \<mapsto> c')) = dom (vs_components s)" using Some by (auto simp: insert_absorb)
      with s' inv steps(1) d Some show ?thesis by (cases u) simp_all
    qed
  next
    case ComponentActionAdd
    with st inv steps(2) d show ?thesis
      by (auto simp: version_step_def Let_def split: if_splits prod.splits option.splits)
  next
    case ComponentActionRemove
    show ?thesis
    proof (cases "vs_components s ?k")
      case None
      with ComponentActionRemove st inv show ?thesis by (simp add: version_step_def Let_def)
    next
      case (Some c)
      obtain e db' where "ds_Delete (as_Component st) (vs_db s) c = (e, db')" by fastforce
      with ComponentActionRemove st Some inv steps(3) d show ?thesis
        by (cases e) (auto simp: version_step_def Let_def)
    qed
  qed
qed

lemma version_loop_inv:
  "version_inv before s \<Longrightarrow> version_loop st now app uss s = (r, s') \<Longrightarrow> version_inv before s'"
proof (induction uss arbitrary: s)
  case (Cons us uss)
  obtain e s1 where st: "version_step st now app us s = (e, s1)" by fastforce
  have i: "version_inv before s1" by (rule version_step_inv [OF Cons.prems(1) st])
  show ?case
  proof (cases e)
    case None
    with Cons.prems(2) st have "version_loop st now app uss s1 = (r, s')" by simp
    with Cons.IH [OF i] show ?thesis by blast
  next
    case (Some a)
    with Cons.prems(2) st have "s' = s1" by simp
    with i show ?thesis by blast
  qed
qed simp

lemma dom_component_table: "dom (component_table cs) = (\<lambda>c. ToLower (ac_Name c)) ` set cs"
proof -
  have "dom (foldl (\<lambda>m c. m(ToLower (ac_Name c) \<mapsto> c)) m cs) = dom m \<union> (\<lambda>c. ToLower (ac_Name c)) ` set cs" for m
    by (induction cs arbitrary: m) auto
  then show ?thesis by (simp add: component_table_def)
qed

lemma UpdateVersion_lists:
  assumes "UpdateVersion st now taskID appID req db = (Inr resp, db')"
  obtains app components where "find_application st db appID = Inr app"
    "FindComponentsByAppID st db (ap_ID app) = Inr components"
    "ur_PreviousVersion resp = ap_Version app" "ur_Version resp = uv_Version req"
    "distinct (map component_key (ur_Removed resp))"
    "component_key ` set (ur_Removed resp) \<subseteq> (\<lambda>c. ToLower (ac_Name c)) ` set components"
    "component_key ` set (ur_Updated resp) \<subseteq> (\<lambda>c. ToLower (ac_Name c)) ` set components"
    "component_key ` set (ur_Added resp) \<inter> (\<lambda>c. ToLower (ac_Name c)) ` set components
       \<subseteq> component_key ` set (ur_Removed resp)"
proof -
  from assms obtain app components s where a: "find_application st db appID = Inr app"
    and c: "FindComponentsByAppID st db (ap_ID app) = Inr components"
    and l: "version_loop st now app (uv_Components req) \<lparr>vs_db = db, vs_components = component_table components,
        vs_updated = [], vs_added = [], vs_removed = []\<rparr> = (None, s)"
    and r: "ur_PreviousVersion resp = ap_Version app" "ur_Version resp = uv_Version req"
      "ur_Removed resp = vs_removed s" "ur_Updated resp = vs_updated s" "ur_Added resp = vs_added s"
    unfolding UpdateVersion_def Let_def
    by (auto split: sum.splits prod.splits option.splits if_splits list.splits)
  have "version_inv (dom (component_table components)) s"
    by (rule version_loop_inv [OF _ l]) (simp add: lists_inv_def)
  with that [OF a c r(1,2)] r(3-) show thesis
    by (simp add: lists_inv_def dom_component_table)
qed

end
