(* ===== verification/Kube_Created.thy ===== *)
theory Kube_Created
  imports Kube_Deploy Kube_Versions
begin

text \<open>
  From a creation request to jobs: what the application service leaves in the tables, and what
  the builder makes of it. The contracts of the tables are locales: \<open>component_backend\<close> is what
  the driver relies on for the component table, whose key column is a generated number;
  \<open>component_store\<close> is what the driver promises; \<open>application_store\<close> puts the tables together.
\<close>

section \<open>The workflow table\<close>

text \<open>\<open>Updates\<close> with a struct writes its non-zero fields.\<close>

definition wf_merge :: "Workflow \<Rightarrow> Workflow \<Rightarrow> Workflow" where
  "wf_merge old new =
    \<lparr>wf_ID = wf_ID old, wf_Name = or_old (wf_Name old) (wf_Name new),
     wf_Namespace = or_old (wf_Namespace old) (wf_Namespace new),
     wf_Alias = or_old (wf_Alias old) (wf_Alias new),
     wf_Disabled = (wf_Disabled old \<or> wf_Disabled new),
     wf_ProjectID = or_old (wf_ProjectID old) (wf_ProjectID new),
     wf_AppID = or_old (wf_AppID old) (wf_AppID new),
     wf_UserID = or_old (wf_UserID old) (wf_UserID new),
     wf_Description = or_old (wf_Description old) (wf_Description new),
     wf_WorkflowType = or_old (wf_WorkflowType old) (wf_WorkflowType new),
     wf_Status = (if Status_string (wf_Status new) = '''' then wf_Status old else wf_Status new),
     wf_Steps = (if wf_Steps new = None then wf_Steps old else wf_Steps new),
     wf_CreateTime = (if wf_CreateTime new = 0 then wf_CreateTime old else wf_CreateTime new),
     wf_UpdateTime = (if wf_UpdateTime new = 0 then wf_UpdateTime old else wf_UpdateTime new)\<rparr>"

text \<open>The text columns of the table.\<close>

definition wf_col :: "Workflow \<Rightarrow> string \<Rightarrow> sqlval" where
  "wf_col r c =
    (if c = ''createtime'' then SqlTime (wf_CreateTime r)
     else if c = ''updatetime'' then SqlTime (wf_UpdateTime r)
     else if c = ''id'' then SqlStr (wf_ID r)
     else if c = ''name'' then SqlStr (wf_Name r)
     else if c = ''namespace'' then SqlStr (wf_Namespace r)
     else if c = ''alias'' then SqlStr (wf_Alias r)
     else if c = ''projectid'' then SqlStr (wf_ProjectID r)
     else if c = ''appid'' then SqlStr (wf_AppID r)
     else if c = ''userid'' then SqlStr (wf_UserID r)
     else if c = ''description'' then SqlStr (wf_Description r)
     else if c = ''workflow_type'' then SqlStr (wf_WorkflowType r)
     else SqlStr (Status_string (wf_Status r)))"

fun wf_set_col :: "string \<times> sqlval \<Rightarrow> Workflow \<Rightarrow> Workflow" where
  "wf_set_col (c, SqlStr s) r = (if c = ''status'' then r\<lparr>wf_Status := Status_of s\<rparr> else r)"
| "wf_set_col (c, SqlTime t) r = (if c = ''updatetime'' then r\<lparr>wf_UpdateTime := t\<rparr> else r)"

definition wf_set_cols :: "(string \<times> sqlval) list \<Rightarrow> Workflow \<Rightarrow> Workflow" where
  "wf_set_cols us r = fold wf_set_col us r"

lemma wf_ID_set_cols [simp]: "wf_ID (wf_set_cols us r) = wf_ID r"
proof -
  have "wf_ID (wf_set_col cv r) = wf_ID r" for cv r by (cases cv; cases "snd cv") auto
  then show ?thesis unfolding wf_set_cols_def by (induction us arbitrary: r) auto
qed

lemma wf_merge_simps [simp]:
  "wf_ID (wf_merge old new) = wf_ID old"
  "wf_AppID (wf_merge old new) = or_old (wf_AppID old) (wf_AppID new)"
  "wf_Steps new \<noteq> None \<Longrightarrow> wf_Steps (wf_merge old new) = wf_Steps new"
  by (auto simp: wf_merge_def)

lemma Workflow_Entity_simps [simp]:
  "PrimaryKey Workflow_Entity = wf_ID" "TableName Workflow_Entity wfl = ''min_workflow''"
  by (simp_all add: Workflow_Entity_def)

section \<open>The component table\<close>

definition ac_col :: "ApplicationComponent \<Rightarrow> string \<Rightarrow> sqlval" where
  "ac_col r c =
    (if c = ''createtime'' then SqlTime (ac_CreateTime r)
     else if c = ''updatetime'' then SqlTime (ac_UpdateTime r)
     else if c = ''appid'' then SqlStr (ac_AppID r)
     else if c = ''name'' then SqlStr (ac_Name r)
     else if c = ''namespace'' then SqlStr (ac_Namespace r)
     else if c = ''image'' then SqlStr (ac_Image r)
     else if c = ''componenttype'' then SqlStr (JobType_string (ac_ComponentType r))
     else SqlStr (ac_Status r))"

definition ac_merge :: "ApplicationComponent \<Rightarrow> ApplicationComponent \<Rightarrow> ApplicationComponent" where
  "ac_merge old new =
    \<lparr>ac_ID = ac_ID old, ac_AppID = or_old (ac_AppID old) (ac_AppID new),
     ac_Name = or_old (ac_Name old) (ac_Name new), ac_Namespace = or_old (ac_Namespace old) (ac_Namespace new),
     ac_Image = or_old (ac_Image old) (ac_Image new),
     ac_Replicas = (if ac_Replicas new = 0 then ac_Replicas old else ac_Replicas new),
     ac_ComponentType = (if JobType_string (ac_ComponentType new) = '''' then ac_ComponentType old else ac_ComponentType new),
     ac_Properties = (if ac_Properties new = None then ac_Properties old else ac_Properties new),
     ac_Traits = (if ac_Traits new = None then ac_Traits old else ac_Traits new),
     ac_Status = or_old (ac_Status old) (ac_Status new),
     ac_ReadyReplicas = (if ac_ReadyReplicas new = 0 then ac_ReadyReplicas old else ac_ReadyReplicas new),
     ac_CreateTime = (if ac_CreateTime new = 0 then ac_CreateTime old else ac_CreateTime new),
     ac_UpdateTime = (if ac_UpdateTime new = 0 then ac_UpdateTime old else ac_UpdateTime new)\<rparr>"

text \<open>A component without what the table adds to it.\<close>

definition core :: "ApplicationComponent \<Rightarrow> ApplicationComponent" where
  "core c = c\<lparr>ac_ID := 0, ac_CreateTime := 0, ac_UpdateTime := 0\<rparr>"

lemma core_fields [simp]:
  "ac_Name (core c) = ac_Name c" "ac_AppID (core c) = ac_AppID c" "ac_Traits (core c) = ac_Traits c"
  by (simp_all add: core_def)

text \<open>
  What GORM documents for a table whose primary key is a generated number, on entities that
  have none yet (insertion) or have one (reading and deletion).
\<close>

locale component_backend =
  fixes cl :: "('db, ApplicationComponent) gorm_client"
    and comps :: "'db \<Rightarrow> ApplicationComponent multiset"
  assumes Insert_ok: "g_Create cl db c = (None, db') \<Longrightarrow> ac_ID c = 0 \<Longrightarrow>
      \<exists>i. comps db' = add_mset (c\<lparr>ac_ID := i\<rparr>) (comps db)"
    and Select_key: "g_First cl db c = Inr r \<Longrightarrow> ac_ID c \<noteq> 0 \<Longrightarrow> ac_ID r = ac_ID c"
    and Select_absent: "g_First cl db c = Inl ErrRecordNotFound \<Longrightarrow> ac_ID c \<noteq> 0 \<Longrightarrow>
      ac_ID c \<notin> ac_ID ` set_mset (comps db)"
    and Change_ok: "g_Updates cl db c = (None, db') \<Longrightarrow> ac_ID c \<noteq> 0 \<Longrightarrow>
      comps db' = image_mset (\<lambda>r. if ac_ID r = ac_ID c then ac_merge r c else r) (comps db)"
    and Remove_ok: "g_Delete cl db c = (None, db') \<Longrightarrow> ac_ID c \<noteq> 0 \<Longrightarrow>
      comps db' = filter_mset (\<lambda>r. ac_ID r \<noteq> ac_ID c) (comps db)"
    and Select_ok: "g_Rows cl db q = Inr (map Inr xs, None) \<Longrightarrow> q_limit q = None \<Longrightarrow>
      list_all expr_simple (q_where q) \<Longrightarrow>
      mset xs = filter_mset (\<lambda>r. \<forall>x\<in>set (q_where q). expr_holds ac_col r x) (comps db)"
    and row_ID: "r \<in># comps db \<Longrightarrow> ac_ID r \<noteq> 0"
    and unique_ID: "r \<in># comps db \<Longrightarrow> s \<in># comps db \<Longrightarrow> ac_ID r = ac_ID s \<Longrightarrow> r = s"

text \<open>The table as its callers see it through the datastore.\<close>

locale component_store =
  fixes store :: "('db, ApplicationComponent) DataStore"
    and comps :: "'db \<Rightarrow> ApplicationComponent multiset"
  assumes batch_ok: "ds_BatchAdd store now db cs = (None, db') \<Longrightarrow> list_all (\<lambda>c. ac_ID c = 0) cs \<Longrightarrow>
      \<exists>new. comps db' = comps db + new \<and> image_mset core new = mset (map core cs)"
    and delete_ok: "ds_Delete store db c = (None, db') \<Longrightarrow> ac_ID c \<noteq> 0 \<Longrightarrow>
      comps db' = filter_mset (\<lambda>r. ac_ID r \<noteq> ac_ID c) (comps db)"
    and delete_absent: "ds_Delete store db c = (Some ErrRecordNotExist, db') \<Longrightarrow> ac_ID c \<noteq> 0 \<Longrightarrow>
      comps db' = filter_mset (\<lambda>r. ac_ID r \<noteq> ac_ID c) (comps db)"
    and put_ok: "ds_Put store now db c = (None, db') \<Longrightarrow> ac_ID c \<noteq> 0 \<Longrightarrow>
      comps db' = image_mset (\<lambda>r. if ac_ID r = ac_ID c then ac_merge r (c\<lparr>ac_UpdateTime := now\<rparr>) else r) (comps db)"
    and list_ok: "ds_List store db (Some (ApplicationComponent_zero\<lparr>ac_AppID := a\<rparr>)) (Some noListOptions) = Inr xs \<Longrightarrow>
      a \<noteq> '''' \<Longrightarrow> mset xs = filter_mset (\<lambda>c. ac_AppID c = a) (comps db)"
    and stored_ID: "r \<in># comps db \<Longrightarrow> ac_ID r \<noteq> 0"
    and unique: "r \<in># comps db \<Longrightarrow> s \<in># comps db \<Longrightarrow> ac_ID r = ac_ID s \<Longrightarrow> r = s"

text \<open>The driver keeps that promise.\<close>

lemma component_entity_simps [simp]:
  "PrimaryKey ApplicationComponent_Entity = ac_Name"
  "TableName ApplicationComponent_Entity c = ''min_app_components''"
  "SetCreateTime ApplicationComponent_Entity t c = c\<lparr>ac_CreateTime := t\<rparr>"
  "SetUpdateTime ApplicationComponent_Entity t c = c\<lparr>ac_UpdateTime := t\<rparr>"
  by (simp_all add: ApplicationComponent_Entity_def)

lemma core_stamped [simp]: "core (c\<lparr>ac_CreateTime := t, ac_UpdateTime := u, ac_ID := i\<rparr>) = core c"
  by (simp add: core_def)

lemma component_query:
  assumes "a \<noteq> ''''"
  shows "list_query ApplicationComponent_Entity (ApplicationComponent_zero\<lparr>ac_AppID := a\<rparr>) (Some noListOptions) =
    \<lparr>q_where = [ExprEq ''appid'' (SqlStr a)], q_limit = None, q_order = []\<rparr>"
proof -
  have "ToLower ''appid'' = ''appid''" by code_simp
  with assms show ?thesis
    by (simp add: list_query_def noListOptions_def noFilter_def applyFilterOptions_def index_exprs_def
        ApplicationComponent_Entity_def ApplicationComponent_zero_def)
qed

lemma Driver_List_Inr:
  assumes "Driver_List E cl db (Some e) op = Inr xs"
  shows "g_Rows cl db (list_query E e op) = Inr (map Inr xs, None)"
proof -
  obtain rs where rs: "g_Rows cl db (list_query E e op) = Inr (rs, None)" and "scan_rows rs [] = Inr xs"
    using assms by (auto simp: Driver_List_def split: if_splits sum.splits prod.splits option.splits)
  with scan_rows_Inr show ?thesis by fastforce
qed

context component_backend
begin

lemma add_rows:
  assumes "Driver_Add ApplicationComponent_Entity cl now db c = (None, db')" "ac_ID c = 0"
  shows "\<exists>r. comps db' = add_mset r (comps db) \<and> core r = core c"
proof -
  have "g_Create cl db (c\<lparr>ac_CreateTime := now, ac_UpdateTime := now\<rparr>) = (None, db')"
    using assms(1) by (auto simp: Driver_Add_def Let_def split: if_splits prod.splits option.splits gorm_error.splits)
  from Insert_ok [OF this] assms(2) show ?thesis by auto
qed

lemma batch_rows:
  assumes "batch_add_loop ApplicationComponent_Entity cl now added cs db = (None, db')"
    and "list_all (\<lambda>c. ac_ID c = 0) cs"
  shows "\<exists>new. comps db' = comps db + new \<and> image_mset core new = mset (map core cs)"
  using assms
proof (induction cs arbitrary: added db)
  case (Cons c cs)
  obtain db1 where a: "Driver_Add ApplicationComponent_Entity cl now db c = (None, db1)"
    and l: "batch_add_loop ApplicationComponent_Entity cl now (added @ [c]) cs db1 = (None, db')"
    using Cons.prems(1) by (auto simp: Let_def split: prod.splits option.splits)
  from add_rows [OF a] Cons.prems(2) obtain r where r: "comps db1 = add_mset r (comps db)" "core r = core c"
    by auto
  from Cons.IH [OF l] Cons.prems(2) obtain new where
    "comps db' = comps db1 + new" "image_mset core new = mset (map core cs)" by auto
  with r show ?case by (intro exI [of _ "add_mset r new"]) simp
qed simp

lemma delete_rows:
  assumes "Driver_Delete ApplicationComponent_Entity cl db c = (res, db')" "ac_ID c \<noteq> 0"
    and "res = None \<or> res = Some ErrRecordNotExist"
  shows "comps db' = filter_mset (\<lambda>r. ac_ID r \<noteq> ac_ID c) (comps db)"
proof (cases "g_First cl db c")
  case (Inl e)
  with assms have e: "e = ErrRecordNotFound" and "db' = db"
    by (auto simp: Driver_Delete_def Driver_Get_def split: if_splits gorm_error.splits)
  moreover have "ac_ID c \<notin> ac_ID ` set_mset (comps db)"
    using Select_absent Inl e assms(2) by blast
  then have "filter_mset (\<lambda>r. ac_ID r \<noteq> ac_ID c) (comps db) = comps db"
    by (auto simp: filter_mset_eq_conv) (metis imageI)
  ultimately show ?thesis by simp
next
  case (Inr r)
  with assms(1,3) have "g_Delete cl db r = (None, db')"
    by (auto simp: Driver_Delete_def Driver_Get_def split: if_splits prod.splits option.splits)
  with Remove_ok [of db r db'] Select_key [OF Inr assms(2)] assms(2) show ?thesis by simp
qed

end

sublocale component_backend \<subseteq> component_store "Driver ApplicationComponent_Entity cl" comps
proof (unfold_locales, goal_cases)
  case (1 now db cs db') then show ?case
    using batch_rows by (simp add: Driver_def Driver_BatchAdd_def)
next
  case (2 db c db') then show ?case using delete_rows by (simp add: Driver_def)
next
  case (3 db c db') then show ?case using delete_rows by (simp add: Driver_def)
next
  case (4 now db c db')
  then have "g_Updates cl db (c\<lparr>ac_UpdateTime := now\<rparr>) = (None, db')"
    by (auto simp: Driver_def Driver_Put_def split: if_splits prod.splits option.splits gorm_error.splits)
  from Change_ok [OF this] 4 show ?case by simp
next
  case (5 db a xs)
  then show ?case
    using Select_ok [OF Driver_List_Inr] component_query [OF 5(2)]
    by (fastforce simp: Driver_def ac_col_def)
next
  case (6 r db) then show ?case by (rule row_ID)
next
  case (7 r db s) then show ?case by (rule unique_ID)
qed

context component_backend
begin

lemmas axioms_component_store = component_store_axioms

end

section \<open>What a request asks for\<close>

definition request_canonical :: "CreateWorkflowStepRequest \<Rightarrow> bool" where
  "request_canonical s \<longleftrightarrow> canonical_JobType (wr_WorkflowType s) \<and>
     list_all (\<lambda>sub. canonical_JobType (sr_WorkflowType sub)) (wr_SubSteps s)"

definition requested_refs :: "CreateApplicationsRequest \<Rightarrow> CreateComponentRequest list \<Rightarrow> string list" where
  "requested_refs req resolved =
    (if ar_WorkflowSteps req = [] then map cr_Name resolved
     else concat (map request_refs (ar_WorkflowSteps req)))"

lemma workflow_body_refs: "concat (map step_refs (workflow_body req resolved)) = requested_refs req resolved"
  by (simp add: workflow_body_def requested_refs_def convertWorkflowStepByComponent_def
      convertWorkflowStepsFromRequest_def comp_def convert_step_refs component_step_refs)

lemma workflow_body_wf:
  "list_all request_canonical (ar_WorkflowSteps req) \<Longrightarrow> s \<in> set (workflow_body req resolved) \<Longrightarrow> wf_step s"
  by (auto simp: workflow_body_def convertWorkflowStepByComponent_def convertWorkflowStepsFromRequest_def
      wf_component_step list_all_iff request_canonical_def intro!: wf_convert_step split: if_splits)

text \<open>The components of the table are found under their names, whatever order they are listed in.\<close>

lemma component_map_of_distinct:
  assumes "distinct (map ac_Name cs)"
  shows "component_map_of cs = map_of (map (\<lambda>c. (ac_Name c, c)) cs)"
proof -
  have "foldl (\<lambda>m c. m(ac_Name c \<mapsto> c)) m cs = m ++ map_of (map (\<lambda>c. (ac_Name c, c)) cs)" for m
    using assms
  proof (induction cs arbitrary: m)
    case (Cons c cs)
    then have "ac_Name c \<notin> dom (map_of (map (\<lambda>c. (ac_Name c, c)) cs))"
      by (auto simp: dom_map_of_conv_image_fst)
    with Cons show ?case by (auto simp: map_add_def fun_eq_iff split: option.splits)
  qed simp
  then show ?thesis by (simp add: component_map_of_def)
qed

lemma component_map_of_core:
  assumes "mset (map core cs) = mset (map core components)" "distinct (map ac_Name components)"
  shows "map_option core (component_map_of cs n) = map_of (map (\<lambda>c. (ac_Name c, core c)) components) n"
proof -
  let ?pairs = "\<lambda>cs. map (\<lambda>c. (ac_Name c, core c)) cs"
  have p: "?pairs cs = map (\<lambda>c. (ac_Name c, c)) (map core cs)" for cs by simp
  have m: "mset (?pairs cs) = mset (?pairs components)"
    unfolding p using assms(1) by (simp only: mset_map)
  have "mset (map ac_Name cs) = mset (map ac_Name components)"
    using arg_cong [OF m, of "image_mset fst"] by (simp add: comp_def image_mset.compositionality)
  with assms(2) have d: "distinct (map ac_Name cs)" by (metis mset_eq_imp_distinct_iff)
  have "map_option core (component_map_of cs n) = map_of (?pairs cs) n"
    unfolding component_map_of_distinct [OF d] by (induction cs) auto
  also have "\<dots> = map_of (?pairs components) n"
  proof (rule map_of_eqI [THEN fun_cong])
    show "set (map fst (?pairs cs)) = set (map fst (?pairs components))"
      using arg_cong [OF m, of set_mset] by (simp only: set_mset_mset set_map)
    show "\<forall>k\<in>set (map fst (?pairs cs)). map_of (?pairs cs) k = map_of (?pairs components) k"
    proof
      fix k
      assume "k \<in> set (map fst (?pairs cs))"
      then obtain v where v: "map_of (?pairs cs) k = Some v" by (metis (no_types) map_of_eq_None_iff not_None_eq set_map)
      then have "(k, v) \<in># mset (?pairs components)" unfolding m [symmetric] set_mset_mset by (rule map_of_SomeD)
      then have "map_of (?pairs components) k = Some v"
        using assms(2) by (intro map_of_is_SomeI) (auto simp: comp_def)
      with v show "map_of (?pairs cs) k = map_of (?pairs components) k" by simp
    qed
  qed
  finally show ?thesis .
qed

section \<open>The tables together\<close>

text \<open>
  A datastore for the application service: the workflow and component tables keep their
  promises, and an operation on one table leaves the others alone.
\<close>

locale application_store =
  comp: component_store "as_Component st" comps +
  wft: table_query wf_ID wrows wf_merge wf_col wf_set_cols
    "SetUpdateTime Workflow_Entity" "\<lambda>t e. SetUpdateTime Workflow_Entity t (SetCreateTime Workflow_Entity t e)"
    "ds_Add (as_Workflow st)" "ds_Get (as_Workflow st)" "ds_Put (as_Workflow st)" "ds_Delete (as_Workflow st)"
    "ds_CompareAndSwap (as_Workflow st)" "index_exprs Workflow_Entity" "ds_List (as_Workflow st)"
  for st :: "'db AppStores"
    and comps :: "'db \<Rightarrow> ApplicationComponent multiset"
    and wrows :: "'db \<Rightarrow> string \<Rightarrow> Workflow option" +
  assumes app_add_frame: "ds_Add (as_App st) now db a = (r, db') \<Longrightarrow> comps db' = comps db \<and> wrows db' = wrows db"
    and app_put_frame: "ds_Put (as_App st) now db a = (r, db') \<Longrightarrow> comps db' = comps db \<and> wrows db' = wrows db"
    and batch_frame: "ds_BatchAdd (as_Component st) now db cs = (r, db') \<Longrightarrow> wrows db' = wrows db"
    and delete_frame: "ds_Delete (as_Component st) db c = (r, db') \<Longrightarrow> wrows db' = wrows db"
    and wf_add_frame: "ds_Add (as_Workflow st) now db w = (r, db') \<Longrightarrow> comps db' = comps db"
    and wf_put_frame: "ds_Put (as_Workflow st) now db w = (r, db') \<Longrightarrow> comps db' = comps db"
begin

lemma repo_create_frame:
  "repo_CreateApplications st now db app = (r, db') \<Longrightarrow> comps db' = comps db \<and> wrows db' = wrows db"
  using app_add_frame app_put_frame
  by (auto simp: repo_CreateApplications_def split: prod.splits option.splits DBError.splits)

text \<open>The deletion loop removes the listed components and nothing else.\<close>

lemma delete_loop_rows:
  assumes "delete_loop (ds_Delete (as_Component st)) cs db = (None, db')" "list_all (\<lambda>c. ac_ID c \<noteq> 0) cs"
  shows "comps db' = filter_mset (\<lambda>r. ac_ID r \<notin> ac_ID ` set cs) (comps db) \<and> wrows db' = wrows db"
  using assms
proof (induction cs arbitrary: db)
  case (Cons c cs)
  obtain res db1 where d: "ds_Delete (as_Component st) db c = (res, db1)" by fastforce
  with Cons.prems(1) have l: "delete_loop (ds_Delete (as_Component st)) cs db1 = (None, db')"
    and "res = None \<or> res = Some ErrRecordNotExist"
    by (auto split: option.splits DBError.splits)
  with d Cons.prems(2) have "comps db1 = filter_mset (\<lambda>r. ac_ID r \<noteq> ac_ID c) (comps db)"
    using comp.delete_ok comp.delete_absent by auto
  with Cons.IH [OF l] Cons.prems(2) delete_frame [OF d] show ?case
    by (simp add: filter_filter_mset conj_commute)
qed simp

lemma clear_components:
  assumes "DelComponentsByAppID st db a = (None, db')" "a \<noteq> ''''"
  shows "comps db' = filter_mset (\<lambda>c. ac_AppID c \<noteq> a) (comps db)" and "wrows db' = wrows db"
proof -
  obtain xs where l: "FindComponentsByAppID st db a = Inr xs"
    and d: "delete_loop (ds_Delete (as_Component st)) xs db = (None, db')"
    using assms(1) by (auto simp: DelComponentsByAppID_def split: sum.splits)
  have m: "mset xs = filter_mset (\<lambda>c. ac_AppID c = a) (comps db)"
    using comp.list_ok l assms(2) by (simp add: FindComponentsByAppID_def)
  have "set_mset (mset xs) = set_mset (filter_mset (\<lambda>c. ac_AppID c = a) (comps db))" by (simp only: m)
  then have s: "c \<in> set xs \<longleftrightarrow> c \<in># comps db \<and> ac_AppID c = a" for c by auto
  then have "list_all (\<lambda>c. ac_ID c \<noteq> 0) xs" using comp.stored_ID unfolding list_all_iff by blast
  from delete_loop_rows [OF d this]
  have r: "comps db' = filter_mset (\<lambda>r. ac_ID r \<notin> ac_ID ` set xs) (comps db)" "wrows db' = wrows db" by simp_all
  have "ac_ID r \<notin> ac_ID ` set xs \<longleftrightarrow> ac_AppID r \<noteq> a" if "r \<in># comps db" for r
    using s comp.unique [OF that] that by auto
  with r show "comps db' = filter_mset (\<lambda>c. ac_AppID c \<noteq> a) (comps db)" and "wrows db' = wrows db"
    by (simp_all cong: filter_mset_cong)
qed

lemma add_components:
  assumes "batchAddComponents st now db cs = (None, db')" "list_all (\<lambda>c. ac_ID c = 0) cs"
  shows "\<exists>new. comps db' = comps db + new \<and> image_mset core new = mset (map core cs)"
    and "wrows db' = wrows db"
  using assms comp.batch_ok [of now db cs db'] batch_frame [of now db cs None db']
  by (auto simp: batchAddComponents_def split: if_splits)

lemma find_workflows:
  assumes "FindWorkflowsByAppID st db a = Inr ws" "a \<noteq> ''''" "wfl \<in> set ws"
  shows "wrows db (wf_ID wfl) = Some wfl \<and> wf_AppID wfl = a"
proof -
  have "ToLower ''appid'' = ''appid''" by code_simp
  with assms(2) have ix: "index_exprs Workflow_Entity (Workflow_zero\<lparr>wf_AppID := a\<rparr>) = [ExprEq ''appid'' (SqlStr a)]"
    by (simp add: index_exprs_def Workflow_Entity_def Workflow_zero_def)
  from wft.lst_ok [of db "Workflow_zero\<lparr>wf_AppID := a\<rparr>" noListOptions ws] assms ix
  have "set ws = {r. (\<exists>k. wrows db k = Some r) \<and> expr_holds wf_col r (ExprEq ''appid'' (SqlStr a))}"
    by (simp add: FindWorkflowsByAppID_def noListOptions_def noFilter_def applyFilterOptions_def)
  with assms(3) obtain k where "wrows db k = Some wfl" "wf_AppID wfl = a" by (auto simp: wf_col_def)
  with wft.row_pk show ?thesis by auto
qed

lemma upsert_stored:
  assumes "upsertDefaultWorkflow st now newID db app req resolved = (Inr wfl, db')" "ap_ID app \<noteq> ''''"
  obtains row where "wrows db' (wf_ID wfl) = Some row" "wf_AppID row = ap_ID app"
    "wf_Steps row = Some (encode_steps (workflow_body req resolved))" "comps db' = comps db"
proof -
  let ?name = "ar_Name req @ ''-workflow''"
  let ?wanted = "(if ar_Alias req = '''' then ar_Name req else ar_Alias req) @ ''-workflow''"
  obtain ws where ws: "FindWorkflowsByAppID st db (ap_ID app) = Inr ws"
    using assms(1) by (auto simp: upsertDefaultWorkflow_def Let_def split: sum.splits)
  show thesis
  proof (cases "pickDefaultWorkflow (map Some ws) ?name ?wanted")
    case None
    with assms(1) ws have "ds_Add (as_Workflow st) now db wfl = (None, db')" and
      w: "wf_AppID wfl = ap_ID app" "wf_Steps wfl = Some (encode_steps (workflow_body req resolved))"
      by (auto simp: upsertDefaultWorkflow_def Let_def split: prod.splits option.splits)
    with wft.add_ok wf_add_frame that show thesis by (fastforce simp: Workflow_Entity_def)
  next
    case (Some target)
    have t: "wrows db (wf_ID target) = Some target" "wf_AppID target = ap_ID app"
      using pickDefault_max [OF Some] find_workflows [OF ws assms(2)] by auto
    from assms(1) ws Some have p: "ds_Put (as_Workflow st) now db wfl = (None, db')" and
      w: "wf_ID wfl = wf_ID target" "wf_AppID wfl = wf_AppID target"
        "wf_Steps wfl = Some (encode_steps (workflow_body req resolved))"
      by (auto simp: upsertDefaultWorkflow_def Let_def split: prod.splits option.splits)
    from wft.put_ok [OF p] t w have "wrows db' (wf_ID wfl) =
        Some (wf_merge target (wfl\<lparr>wf_UpdateTime := now\<rparr>))" by (simp add: Workflow_Entity_def)
    with that w t(2) wf_put_frame [OF p] show thesis by (simp add: or_old_def)
  qed
qed

text \<open>
  What a successful creation leaves: the prepared components, in place of those the application
  had, and a workflow that is stored with the steps of the request.
\<close>

lemma creation_stored:
  assumes "CreateApplications st tx now appID wfID req db = (Inr (app, w), db')" "ap_ID app \<noteq> ''''"
  obtains resolved components row where
    "resolveComponents st db (ap_Namespace app) (ap_Name app) (ar_Component req) = Inr resolved"
    "prepareComponents (ap_ID app) (ap_Namespace app) resolved = Inr components"
    "image_mset core (filter_mset (\<lambda>c. ac_AppID c = ap_ID app) (comps db')) = mset (map core components)"
    "filter_mset (\<lambda>c. ac_AppID c \<noteq> ap_ID app) (comps db') = filter_mset (\<lambda>c. ac_AppID c \<noteq> ap_ID app) (comps db)"
    "wrows db' w = Some row" "wf_AppID row = ap_ID app"
    "wf_Steps row = Some (encode_steps (workflow_body req resolved))"
proof -
  define req' where "req' = (if ar_Version req = '''' then req\<lparr>ar_Version := ''1.0.0''\<rparr> else req)"
  have same: "ar_Component req' = ar_Component req" "workflow_body req' = workflow_body req"
    by (auto simp: req'_def workflow_body_def fun_eq_iff)
  from assms(1) obtain resolved components wfl where
    res: "resolveComponents st db (ap_Namespace app) (ap_Name app) (ar_Component req) = Inr resolved"
    and prep: "prepareComponents (ap_ID app) (ap_Namespace app) resolved = Inr components"
    and run: "create_run st now wfID app req' resolved components db = (Inr wfl, db')" and w: "w = wf_ID wfl"
    unfolding CreateApplications_def Let_def req'_def [symmetric] same
    by (auto simp: with_transaction_def split: sum.splits prod.splits if_splits)
  from run obtain db1 db2 db3 where
    c1: "repo_CreateApplications st now db app = (None, db1)"
    and c2: "DelComponentsByAppID st db1 (ap_ID app) = (None, db2)"
    and c3: "batchAddComponents st now db2 components = (None, db3)"
    and c4: "upsertDefaultWorkflow st now wfID db3 app req' resolved = (Inr wfl, db')"
    by (auto simp: create_run_def split: prod.splits option.splits)
  have p: "list_all (\<lambda>c. ac_ID c = 0 \<and> ac_AppID c = ap_ID app) components"
    using prep unfolding prepareComponents_def map_err_Inr
    by (auto simp: list_all_length list_all2_conv_all_nth prepare_component_Inr ApplicationComponent_zero_def)
  obtain new where new: "comps db3 = comps db2 + new" "image_mset core new = mset (map core components)"
    using add_components(1) [OF c3] p by (auto simp: list_all_iff)
  have app: "ac_AppID c = ap_ID app" if "c \<in># new" for c
  proof -
    have "core c \<in># image_mset core new" using that by simp
    then obtain d where d: "d \<in> set components" "core c = core d" by (auto simp: new(2))
    then have "ac_AppID c = ac_AppID d" by (metis core_fields(2))
    with p d(1) show ?thesis by (simp add: list_all_iff)
  qed
  obtain row where row: "wrows db' (wf_ID wfl) = Some row" "wf_AppID row = ap_ID app"
    "wf_Steps row = Some (encode_steps (workflow_body req' resolved))" "comps db' = comps db3"
    by (rule upsert_stored [OF c4 assms(2)])
  have old: "comps db2 = filter_mset (\<lambda>c. ac_AppID c \<noteq> ap_ID app) (comps db)"
    using clear_components(1) [OF c2 assms(2)] repo_create_frame [OF c1] by simp
  have "filter_mset (\<lambda>c. ac_AppID c = ap_ID app) new = new" "filter_mset (\<lambda>c. ac_AppID c \<noteq> ap_ID app) new = {#}"
    using app by (simp_all cong: filter_mset_cong)
  with new old row(4) have
    "image_mset core (filter_mset (\<lambda>c. ac_AppID c = ap_ID app) (comps db')) = mset (map core components)"
    "filter_mset (\<lambda>c. ac_AppID c \<noteq> ap_ID app) (comps db') = filter_mset (\<lambda>c. ac_AppID c \<noteq> ap_ID app) (comps db)"
    by (simp_all add: filter_filter_mset)
  with that [OF res prep] row(1-3) w same show thesis by simp
qed

text \<open>
  A task for the new workflow runs what the request asked for: the jobs of the stored components,
  once for every reference.
\<close>

lemma creation_runs:
  assumes "CreateApplications st tx now appID wfID req db = (Inr (app, w), db')" "ap_ID app \<noteq> ''''"
    and "list_all request_canonical (ar_WorkflowSteps req)"
    and "wq_AppID task = ap_ID app" "wq_WorkflowID task = w"
    and "ds_Get (as_Workflow st) db' (Workflow_zero\<lparr>wf_ID := w\<rparr>) = Inr wfl"
    and "FindComponentsByAppID st db' (ap_ID app) = Inr cs"
  obtains resolved components es where
    "resolveComponents st db (ap_Namespace app) (ap_Name app) (ar_Component req) = Inr resolved"
    "prepareComponents (ap_ID app) (ap_Namespace app) resolved = Inr components"
    "mset (map core cs) = mset (map core components)"
    "GenerateJobTasks T (as_Workflow st) (as_Component st) db' task timeout = Return es"
    "mset (execution_jobs es) = mset (concat (map (component_jobs T (component_map_of cs) task timeout)
       (requested_refs req resolved)))"
proof -
  obtain resolved components row where
    res: "resolveComponents st db (ap_Namespace app) (ap_Name app) (ar_Component req) = Inr resolved"
    and prep: "prepareComponents (ap_ID app) (ap_Namespace app) resolved = Inr components"
    and c: "image_mset core (filter_mset (\<lambda>c. ac_AppID c = ap_ID app) (comps db')) = mset (map core components)"
    and "filter_mset (\<lambda>c. ac_AppID c \<noteq> ap_ID app) (comps db') = filter_mset (\<lambda>c. ac_AppID c \<noteq> ap_ID app) (comps db)"
    and row: "wrows db' w = Some row" "wf_AppID row = ap_ID app"
      "wf_Steps row = Some (encode_steps (workflow_body req resolved))"
    by (rule creation_stored [OF assms(1,2)])
  have "wfl = row" using wft.get_ok [OF assms(6)] row(1) by (simp add: Workflow_zero_def)
  with row(3) have d: "decode_steps (json_of_ptr (wf_Steps wfl)) = Some (map Some (workflow_body req resolved))"
    using workflow_body_wf [OF assms(3)] by (simp add: json_of_ptr_def decode_encode_steps)
  have m: "mset cs = filter_mset (\<lambda>c. ac_AppID c = ap_ID app) (comps db')"
    using comp.list_ok assms(2,7) by (simp add: FindComponentsByAppID_def)
  have cs: "mset (map core cs) = mset (map core components)"
    using arg_cong [OF m, of "image_mset core"] c by simp
  have l: "ds_List (as_Component st) db' (Some (ApplicationComponent_zero\<lparr>ac_AppID := wq_AppID task\<rparr>))
      (Some noListOptions) = Inr cs" using assms(4,7) by (simp add: FindComponentsByAppID_def)
  have g: "ds_Get (as_Workflow st) db' (Workflow_zero\<lparr>wf_ID := wq_WorkflowID task\<rparr>) = Inr wfl"
    using assms(5,6) by simp
  obtain es where "GenerateJobTasks T (as_Workflow st) (as_Component st) db' task timeout = Return es"
    "mset (execution_jobs es) = mset (concat (map (component_jobs T (component_map_of cs) task timeout)
       (concat (map step_refs (workflow_body req resolved)))))"
    by (rule GenerateJobTasks_jobs [OF g d l])
  then show thesis using that [OF res prep cs] by (simp add: workflow_body_refs)
qed

end

section \<open>The driver over conforming libraries\<close>

text \<open>The writes of a client leave the view \<open>v\<close> of the database alone.\<close>

definition client_keeps :: "('db, 'e) gorm_client \<Rightarrow> ('db \<Rightarrow> 'v) \<Rightarrow> bool" where
  "client_keeps cl v \<longleftrightarrow>
    (\<forall>db e. v (snd (g_Create cl db e)) = v db \<and> v (snd (g_Updates cl db e)) = v db \<and>
       v (snd (g_Delete cl db e)) = v db)"

lemma Driver_keeps:
  assumes "client_keeps cl v"
  shows "ds_Add (Driver E cl) now db e = (r, db') \<Longrightarrow> v db' = v db"
    and "ds_Put (Driver E cl) now db e = (r, db') \<Longrightarrow> v db' = v db"
    and "ds_Delete (Driver E cl) db e = (r, db') \<Longrightarrow> v db' = v db"
    and "ds_BatchAdd (Driver E cl) now db es = (r, db') \<Longrightarrow> v db' = v db"
proof -
  have k: "g_Create cl db e = (x, db') \<Longrightarrow> v db' = v db" "g_Updates cl db e = (x, db') \<Longrightarrow> v db' = v db"
    "g_Delete cl db e = (x, db') \<Longrightarrow> v db' = v db" for db e x db'
    using assms unfolding client_keeps_def by (metis snd_conv)+
  have add: "Driver_Add E cl now db e = (r, db') \<Longrightarrow> v db' = v db" for db e r db'
    by (auto simp: Driver_Add_def Let_def k split: if_splits prod.splits option.splits gorm_error.splits)
  have del: "Driver_Delete E cl db e = (r, db') \<Longrightarrow> v db' = v db" for db e r db'
    by (auto simp: Driver_Delete_def k split: if_splits prod.splits option.splits sum.splits)
  have undo: "v (batch_rollback E cl nr ds db) = v db" for nr ds db
  proof (induction ds arbitrary: db)
    case (Cons d ds)
    have "v (snd (Driver_Delete E cl db d)) = v db" by (metis del prod.collapse)
    with Cons show ?case by simp
  qed simp
  have loop: "batch_add_loop E cl now added es db = (r, db') \<Longrightarrow> v db' = v db" for added
  proof (induction es arbitrary: added db)
    case (Cons e es)
    then show ?case
      by (auto simp: Let_def undo add split: prod.splits option.splits)
  qed simp
  show "ds_Add (Driver E cl) now db e = (r, db') \<Longrightarrow> v db' = v db" using add by (simp add: Driver_def)
  show "ds_Put (Driver E cl) now db e = (r, db') \<Longrightarrow> v db' = v db"
    by (auto simp: Driver_def Driver_Put_def k split: if_splits prod.splits option.splits gorm_error.splits)
  show "ds_Delete (Driver E cl) db e = (r, db') \<Longrightarrow> v db' = v db" using del by (simp add: Driver_def)
  show "ds_BatchAdd (Driver E cl) now db es = (r, db') \<Longrightarrow> v db' = v db"
    using loop by (simp add: Driver_def Driver_BatchAdd_def)
qed

definition Driver_stores ::
  "('db, Applications) gorm_client \<Rightarrow> ('db, ApplicationComponent) gorm_client \<Rightarrow>
   ('db, Workflow) gorm_client \<Rightarrow> ('db, WorkflowQueue) gorm_client \<Rightarrow> 'db AppStores" where
  "Driver_stores acl ccl wcl qcl =
    \<lparr>as_App = Driver Applications_Entity acl, as_Component = Driver ApplicationComponent_Entity ccl,
     as_Workflow = Driver Workflow_Entity wcl, as_Queue = Driver WorkflowQueue_Entity qcl\<rparr>"

lemma Driver_application_store:
  assumes "component_backend ccl comps" "gorm_query Workflow_Entity wcl wrows wf_merge wf_col wf_set_cols"
    and "client_keeps acl comps" "client_keeps acl wrows" "client_keeps ccl wrows" "client_keeps wcl comps"
  shows "application_store (Driver_stores acl ccl wcl qcl) comps wrows"
proof -
  let ?st = "Driver_stores acl ccl wcl qcl"
  note k = Driver_keeps [OF assms(3)] Driver_keeps [OF assms(4)] Driver_keeps [OF assms(5)] Driver_keeps [OF assms(6)]
  show ?thesis
  proof (intro application_store.intro application_store_axioms.intro)
  have "component_store (Driver ApplicationComponent_Entity ccl) comps"
    by (rule component_backend.axioms_component_store [OF assms(1)])
  then show "component_store (as_Component ?st) comps" by (simp add: Driver_stores_def)
  show "table_query wf_ID wrows wf_merge wf_col wf_set_cols (SetUpdateTime Workflow_Entity)
     (\<lambda>t e. SetUpdateTime Workflow_Entity t (SetCreateTime Workflow_Entity t e)) (ds_Add (as_Workflow ?st))
     (ds_Get (as_Workflow ?st)) (ds_Put (as_Workflow ?st)) (ds_Delete (as_Workflow ?st))
     (ds_CompareAndSwap (as_Workflow ?st)) (index_exprs Workflow_Entity) (ds_List (as_Workflow ?st))"
    using gorm_query.Driver_table_query [OF assms(2)] by (simp add: Driver_stores_def)
  qed (simp_all add: Driver_stores_def, (blast dest: k)+)
qed

section \<open>Tables in memory\<close>

text \<open>
  A database that conforms: lists of rows, and the component table as a list of slots whose
  positions, counted from one, are the generated numbers. The program changes no single column
  of a component, so \<open>Where(..).Updates\<close> matches no row here.
\<close>

fun slots_from :: "nat \<Rightarrow> ApplicationComponent option list \<Rightarrow> ApplicationComponent list" where
  "slots_from n [] = []"
| "slots_from n (None # ss) = slots_from (Suc n) ss"
| "slots_from n (Some c # ss) = c\<lparr>ac_ID := int n\<rparr> # slots_from (Suc n) ss"

fun slots_update ::
  "(ApplicationComponent \<Rightarrow> ApplicationComponent option) \<Rightarrow> int \<Rightarrow> nat \<Rightarrow>
   ApplicationComponent option list \<Rightarrow> ApplicationComponent option list" where
  "slots_update f i n [] = []"
| "slots_update f i n (s # ss) = (if int n = i then Option.bind s f else s) # slots_update f i (Suc n) ss"

abbreviation slot_rows :: "ApplicationComponent option list \<Rightarrow> ApplicationComponent list" where
  "slot_rows \<equiv> slots_from 1"

definition slot_client :: "(ApplicationComponent option list, ApplicationComponent) gorm_client" where
  "slot_client =
    \<lparr>g_Create = (\<lambda>db c. if ac_ID c = 0 then (None, db @ [Some c]) else (Some ErrDuplicatedKey, db)),
     g_First = (\<lambda>db c. case filter (\<lambda>r. ac_ID c = 0 \<or> ac_ID r = ac_ID c) (slot_rows db) of
                  [] \<Rightarrow> Inl ErrRecordNotFound | r # _ \<Rightarrow> Inr r),
     g_Updates = (\<lambda>db c. (None, slots_update (\<lambda>r. Some (ac_merge r c)) (ac_ID c) 1 db)),
     g_Delete = (\<lambda>db c. (None, slots_update (\<lambda>r. None) (ac_ID c) 1 db)),
     g_DeleteWhere = (\<lambda>db xs. (None, fold (\<lambda>c. slots_update (\<lambda>r. None) (ac_ID c) 1)
        (filter (\<lambda>r. list_all (expr_holds ac_col r) xs) (slot_rows db)) db)),
     g_FindLimit1 = (\<lambda>db cs. Inr (min 1 (length (filter
        (\<lambda>r. list_all (\<lambda>(k, v). ac_col r k = SqlStr v) cs) (slot_rows db))))),
     g_Rows = (\<lambda>db q. Inr (map Inr (filter (\<lambda>r. list_all (expr_holds ac_col r) (q_where q)) (slot_rows db)), None)),
     g_Count = (\<lambda>db xs. Inr (int (length (filter (\<lambda>r. list_all (expr_holds ac_col r) xs) (slot_rows db))))),
     g_UpdatesWhere = (\<lambda>db e (c, v) us. (Inr 0, db))\<rparr>"

lemma slots_from_append:
  "slots_from n (ss @ [Some c]) = slots_from n ss @ [c\<lparr>ac_ID := int (n + length ss)\<rparr>]"
  by (induction n ss rule: slots_from.induct) simp_all

lemma slots_from_ID: "r \<in> set (slots_from n ss) \<Longrightarrow> int n \<le> ac_ID r"
  by (induction n ss rule: slots_from.induct) auto

lemma slots_from_unique:
  "r \<in> set (slots_from n ss) \<Longrightarrow> s \<in> set (slots_from n ss) \<Longrightarrow> ac_ID r = ac_ID s \<Longrightarrow> r = s"
  by (induction n ss rule: slots_from.induct) (auto dest: slots_from_ID)

lemma slots_from_delete:
  "slots_from n (slots_update (\<lambda>r. None) i n ss) = filter (\<lambda>r. ac_ID r \<noteq> i) (slots_from n ss)"
proof (induction n ss rule: slots_from.induct)
  case (3 n c ss) then show ?case by simp
qed simp_all

lemma slots_from_update:
  assumes "\<And>r k. f (r\<lparr>ac_ID := k\<rparr>) = (f r)\<lparr>ac_ID := k\<rparr>"
  shows "slots_from n (slots_update (\<lambda>r. Some (f r)) i n ss) =
    map (\<lambda>r. if ac_ID r = i then f r else r) (slots_from n ss)"
  using assms by (induction n ss rule: slots_from.induct) simp_all

interpretation slots: component_backend slot_client "\<lambda>db. mset (slot_rows db)"
proof (unfold_locales, goal_cases)
  case (1 db c db')
  then show ?case by (auto simp: slot_client_def slots_from_append split: if_splits)
next
  case (2 db c r)
  then obtain rs where "filter (\<lambda>r. ac_ID c = 0 \<or> ac_ID r = ac_ID c) (slot_rows db) = r # rs"
    by (auto simp: slot_client_def split: list.splits)
  then have "r \<in> set (filter (\<lambda>r. ac_ID c = 0 \<or> ac_ID r = ac_ID c) (slot_rows db))" by (metis list.set_intros(1))
  with 2 show ?case by simp
next
  case (3 db c)
  then show ?case by (auto simp: slot_client_def filter_empty_conv split: list.splits)
next
  case (4 db c db')
  have "slots_from 1 (slots_update (\<lambda>r. Some (ac_merge r c)) (ac_ID c) 1 db) =
      map (\<lambda>r. if ac_ID r = ac_ID c then ac_merge r c else r) (slot_rows db)"
    by (rule slots_from_update) (simp add: ac_merge_def)
  with 4 show ?case by (auto simp: slot_client_def)
next
  case (5 db c db')
  then show ?case by (auto simp: slot_client_def slots_from_delete)
next
  case (6 db q xs)
  then show ?case by (auto simp: slot_client_def list_all_iff)
next
  case (7 r db)
  then show ?case by (auto dest: slots_from_ID)
next
  case (8 r db s)
  then show ?case by (auto dest: slots_from_unique)
qed

text \<open>The tables as fields of one database.\<close>

definition ap_merge :: "Applications \<Rightarrow> Applications \<Rightarrow> Applications" where
  "ap_merge old new =
    \<lparr>ap_ID = ap_ID old, ap_Name = or_old (ap_Name old) (ap_Name new),
     ap_Namespace = or_old (ap_Namespace old) (ap_Namespace new),
     ap_Version = or_old (ap_Version old) (ap_Version new), ap_Alias = or_old (ap_Alias old) (ap_Alias new),
     ap_Project = or_old (ap_Project old) (ap_Project new),
     ap_Description = or_old (ap_Description old) (ap_Description new),
     ap_Icon = or_old (ap_Icon old) (ap_Icon new), ap_TmpEnable = (ap_TmpEnable old \<or> ap_TmpEnable new),
     ap_CreateTime = (if ap_CreateTime new = 0 then ap_CreateTime old else ap_CreateTime new),
     ap_UpdateTime = (if ap_UpdateTime new = 0 then ap_UpdateTime old else ap_UpdateTime new)\<rparr>"

definition ap_col :: "Applications \<Rightarrow> string \<Rightarrow> sqlval" where
  "ap_col r c =
    (if c = ''createtime'' then SqlTime (ap_CreateTime r)
     else if c = ''updatetime'' then SqlTime (ap_UpdateTime r)
     else if c = ''id'' then SqlStr (ap_ID r)
     else if c = ''name'' then SqlStr (ap_Name r)
     else if c = ''version'' then SqlStr (ap_Version r)
     else SqlStr (ap_Project r))"

record app_tables =
  tb_apps :: "Applications list"
  tb_components :: "ApplicationComponent option list"
  tb_workflows :: "Workflow list"
  tb_queue :: "WorkflowQueue list"

definition no_tables :: app_tables where
  "no_tables = \<lparr>tb_apps = [], tb_components = [], tb_workflows = [], tb_queue = []\<rparr>"

abbreviation tb_app_client :: "(app_tables, Applications) gorm_client" where
  "tb_app_client \<equiv> on_field tb_apps (\<lambda>t s. s\<lparr>tb_apps := t\<rparr>) (list_client Applications_Entity ap_merge ap_col (\<lambda>us r. r))"

abbreviation tb_component_client :: "(app_tables, ApplicationComponent) gorm_client" where
  "tb_component_client \<equiv> on_field tb_components (\<lambda>t s. s\<lparr>tb_components := t\<rparr>) slot_client"

abbreviation tb_workflow_client :: "(app_tables, Workflow) gorm_client" where
  "tb_workflow_client \<equiv>
     on_field tb_workflows (\<lambda>t s. s\<lparr>tb_workflows := t\<rparr>) (list_client Workflow_Entity wf_merge wf_col wf_set_cols)"

abbreviation tb_queue_client :: "(app_tables, WorkflowQueue) gorm_client" where
  "tb_queue_client \<equiv> on_field tb_queue (\<lambda>t s. s\<lparr>tb_queue := t\<rparr>) mem_client"

definition mem_stores :: "app_tables AppStores" where
  "mem_stores = Driver_stores tb_app_client tb_component_client tb_workflow_client tb_queue_client"

abbreviation tb_comps :: "app_tables \<Rightarrow> ApplicationComponent multiset" where
  "tb_comps s \<equiv> mset (slot_rows (tb_components s))"

abbreviation tb_wrows :: "app_tables \<Rightarrow> string \<Rightarrow> Workflow option" where
  "tb_wrows s \<equiv> list_rows Workflow_Entity (tb_workflows s)"

lemma keeps_on_field:
  assumes "\<And>t s. v (update t s) = v s"
  shows "client_keeps (on_field field update cl) v"
  using assms by (simp add: client_keeps_def on_field_def Let_def split_def)

context component_backend
begin

lemma on_field_component:
  assumes f: "\<And>db s. field (update db s) = db"
  shows "component_backend (on_field field update cl) (\<lambda>s. comps (field s))"
proof (unfold_locales, goal_cases)
  case (1 s c s') then show ?case
    using Insert_ok by (fastforce simp: on_field_def f split: prod.splits)
next
  case (2 s c r) then show ?case using Select_key by (simp add: on_field_def)
next
  case (3 s c) then show ?case using Select_absent by (simp add: on_field_def)
next
  case (4 s c s')
  then obtain db where "g_Updates cl (field s) c = (None, db)" "s' = update db s"
    by (auto simp: on_field_def split: prod.splits)
  with Change_ok 4 show ?case by (simp add: f)
next
  case (5 s c s')
  then obtain db where "g_Delete cl (field s) c = (None, db)" "s' = update db s"
    by (auto simp: on_field_def split: prod.splits)
  with Remove_ok 5 show ?case by (simp add: f)
next
  case (6 s q xs) then show ?case using Select_ok by (simp add: on_field_def)
next
  case (7 r s) then show ?case by (rule row_ID)
next
  case (8 r s q) then show ?case by (rule unique_ID)
qed

end

interpretation workflows: list_table Workflow_Entity wf_merge wf_col wf_set_cols
  by unfold_locales (simp_all add: Workflow_Entity_def)

interpretation tables: application_store mem_stores tb_comps tb_wrows
  unfolding mem_stores_def
  by (rule Driver_application_store)
    (intro slots.on_field_component workflows.lt.on_field_query keeps_on_field; simp)+

end
