(* ===== verification/Kube_Messaging.thy ===== *)
theory Kube_Messaging
  imports Kube_Dispatch "HOL-Library.AList"
begin

text \<open>
  The work queue between dispatchers and workers, \<open>infrastructure/messaging\<close>: the interface
  \<open>Queue\<close> and its three implementations, over Redis streams, over a Kafka consumer group and
  the empty one of the local mode, and the worker loop of \<open>event/workflow/dispatcher.go\<close> that
  runs on it. The Redis and Kafka clients are parameters.

  A payload is the JSON value of its bytes, \<open>None\<close> when they are not a JSON text, as in
  \<open>UnmarshalTaskDispatch\<close>.
\<close>

named_theorems queue_ops \<open>unfolding of the operations of a queue\<close>

section \<open>The interface\<close>

record 'st Queue =
  q_EnsureGroup :: "string \<Rightarrow> 'st \<Rightarrow> string option \<times> 'st"
  q_Enqueue :: "json option \<Rightarrow> 'st \<Rightarrow> (string + string) \<times> 'st"
  q_ReadGroup :: "string \<Rightarrow> string \<Rightarrow> int \<Rightarrow> int \<Rightarrow> 'st \<Rightarrow> (string + Message list) \<times> 'st"
  q_Ack :: "string \<Rightarrow> string list \<Rightarrow> 'st \<Rightarrow> string option \<times> 'st"
  q_AutoClaim :: "string \<Rightarrow> string \<Rightarrow> int \<Rightarrow> int \<Rightarrow> 'st \<Rightarrow> (string + Message list) \<times> 'st"
  q_Close :: "'st \<Rightarrow> string option \<times> 'st"
  q_Stats :: "string \<Rightarrow> 'st \<Rightarrow> (int \<times> int \<times> string option) \<times> 'st"

section \<open>Redis streams\<close>

text \<open>An error of the client; \<open>errors.Is\<close> looks through wrapped errors.\<close>

datatype redis_error = RedisNil | RedisError string | RedisWrapped string redis_error

fun redis_error_text :: "redis_error \<Rightarrow> string" where
  "redis_error_text RedisNil = ''redis: nil''"
| "redis_error_text (RedisError e) = e"
| "redis_error_text (RedisWrapped e c) = e @ '': '' @ redis_error_text c"

fun redis_error_Is :: "redis_error \<Rightarrow> redis_error \<Rightarrow> bool" where
  "redis_error_Is (RedisWrapped e c) target = (RedisWrapped e c = target \<or> redis_error_Is c target)"
| "redis_error_Is err target = (err = target)"

text \<open>The value of a field of a stream entry as the client returns it.\<close>

datatype raw_value = RawString "json option" | RawBytes "json option" | RawOther string

record XMessage =
  xm_ID :: string
  xm_Values :: "(string \<times> raw_value) list"

record XStream =
  xs_Stream :: string
  xs_Messages :: "XMessage list"

record XAddArgs =
  xa_Stream :: string
  xa_Values :: "(string \<times> raw_value) list"
  xa_MaxLen :: int

record XReadGroupArgs =
  xr_Group :: string
  xr_Consumer :: string
  xr_Streams :: "string list"
  xr_Count :: int
  xr_Block :: int
  xr_NoAck :: bool

record XAutoClaimArgs =
  xc_Stream :: string
  xc_Group :: string
  xc_Consumer :: string
  xc_MinIdle :: int
  xc_Start :: string
  xc_Count :: int

text \<open>\<open>redisCommander\<close>: the commands, over the state of the server.\<close>

record 's redisCommander =
  XGroupCreateMkStream :: "string \<Rightarrow> string \<Rightarrow> string \<Rightarrow> 's \<Rightarrow> redis_error option \<times> 's"
  XAdd :: "XAddArgs \<Rightarrow> 's \<Rightarrow> (redis_error + string) \<times> 's"
  XReadGroup :: "XReadGroupArgs \<Rightarrow> 's \<Rightarrow> (XStream list \<times> redis_error option) \<times> 's"
  XAck :: "string \<Rightarrow> string \<Rightarrow> string list \<Rightarrow> 's \<Rightarrow> redis_error option \<times> 's"
  XAutoClaim :: "XAutoClaimArgs \<Rightarrow> 's \<Rightarrow> (XMessage list \<times> redis_error option) \<times> 's"
  XLen :: "string \<Rightarrow> 's \<Rightarrow> (int \<times> redis_error option) \<times> 's"
  XPending :: "string \<Rightarrow> string \<Rightarrow> 's \<Rightarrow> (int option \<times> redis_error option) \<times> 's"
  XClose :: "'s \<Rightarrow> redis_error option \<times> 's"

record RedisStreams =
  rs_key :: string
  rs_maxLen :: int

definition NewRedisStreamsWithClient ::
  "'s redisCommander option \<Rightarrow> string \<Rightarrow> int \<Rightarrow> string + 's redisCommander \<times> RedisStreams" where
  "NewRedisStreamsWithClient cli key maxLen =
    (case cli of
       None \<Rightarrow> Inl ''redis client is nil''
     | Some c \<Rightarrow>
        if key = '''' then Inl ''redis streams requires key''
        else Inr (c, \<lparr>rs_key = key, rs_maxLen = maxLen\<rparr>))"

definition redis_EnsureGroup ::
  "'s redisCommander \<Rightarrow> RedisStreams \<Rightarrow> string \<Rightarrow> 's \<Rightarrow> string option \<times> 's" where
  "redis_EnsureGroup cli r grp s =
    (case XGroupCreateMkStream cli (rs_key r) grp ''$'' s of (e, s') \<Rightarrow> (map_option redis_error_text e, s'))"

definition redis_Enqueue ::
  "'s redisCommander \<Rightarrow> RedisStreams \<Rightarrow> json option \<Rightarrow> 's \<Rightarrow> (string + string) \<times> 's" where
  "redis_Enqueue cli r payload s =
    (let args = \<lparr>xa_Stream = rs_key r, xa_Values = [(''p'', RawBytes payload)], xa_MaxLen = 0\<rparr>;
         args' = (if rs_maxLen r > 0 then args\<lparr>xa_MaxLen := rs_maxLen r\<rparr> else args)
     in case XAdd cli args' s of (res, s') \<Rightarrow> (map_sum redis_error_text id res, s'))"

text \<open>The loop over the entries of a reply: one without a readable field \<open>p\<close> is logged and skipped.\<close>

fun payload_messages :: "XMessage list \<Rightarrow> Message list" where
  "payload_messages [] = []"
| "payload_messages (m # ms) =
    (case map_of (xm_Values m) ''p'' of
       Some (RawString v) \<Rightarrow> \<lparr>msg_ID = xm_ID m, msg_Payload = v\<rparr> # payload_messages ms
     | Some (RawBytes v) \<Rightarrow> \<lparr>msg_ID = xm_ID m, msg_Payload = v\<rparr> # payload_messages ms
     | Some (RawOther t) \<Rightarrow> payload_messages ms
     | None \<Rightarrow> payload_messages ms)"

text \<open>The test of the error is \<open>errors.Is(redis.Nil, err)\<close>, with the arguments in this order.\<close>

definition redis_ReadGroup ::
  "'s redisCommander \<Rightarrow> RedisStreams \<Rightarrow> string \<Rightarrow> string \<Rightarrow> int \<Rightarrow> int \<Rightarrow> 's \<Rightarrow> (string + Message list) \<times> 's" where
  "redis_ReadGroup cli r grp consumer n block s =
    (case XReadGroup cli \<lparr>xr_Group = grp, xr_Consumer = consumer, xr_Streams = [rs_key r, ''>''],
                          xr_Count = n, xr_Block = block, xr_NoAck = False\<rparr> s of
       ((res, err), s') \<Rightarrow>
         (case err of
            Some e \<Rightarrow>
              if \<not> redis_error_Is RedisNil e then (Inl (redis_error_text e), s')
              else (Inr (concat (map (\<lambda>x. payload_messages (xs_Messages x)) res)), s')
          | None \<Rightarrow> (Inr (concat (map (\<lambda>x. payload_messages (xs_Messages x)) res)), s')))"

definition redis_Ack ::
  "'s redisCommander \<Rightarrow> RedisStreams \<Rightarrow> string \<Rightarrow> string list \<Rightarrow> 's \<Rightarrow> string option \<times> 's" where
  "redis_Ack cli r grp ids s =
    (if ids = [] then (None, s)
     else case XAck cli (rs_key r) grp ids s of (e, s') \<Rightarrow> (map_option redis_error_text e, s'))"

definition redis_AutoClaim ::
  "'s redisCommander \<Rightarrow> RedisStreams \<Rightarrow> string \<Rightarrow> string \<Rightarrow> int \<Rightarrow> int \<Rightarrow> 's \<Rightarrow> (string + Message list) \<times> 's" where
  "redis_AutoClaim cli r grp consumer minIdle n s =
    (case XAutoClaim cli \<lparr>xc_Stream = rs_key r, xc_Group = grp, xc_Consumer = consumer,
                          xc_MinIdle = minIdle, xc_Start = ''0-0'', xc_Count = n\<rparr> s of
       ((res, err), s') \<Rightarrow>
         (case err of
            Some e \<Rightarrow>
              if \<not> redis_error_Is e RedisNil then (Inl (redis_error_text e), s')
              else (Inr (payload_messages res), s')
          | None \<Rightarrow> (Inr (payload_messages res), s')))"

definition redis_Close :: "'s redisCommander \<Rightarrow> 's \<Rightarrow> string option \<times> 's" where
  "redis_Close cli s = (case XClose cli s of (e, s') \<Rightarrow> (map_option redis_error_text e, s'))"

definition redis_Stats ::
  "'s redisCommander \<Rightarrow> RedisStreams \<Rightarrow> string \<Rightarrow> 's \<Rightarrow> (int \<times> int \<times> string option) \<times> 's" where
  "redis_Stats cli r grp s =
    (case XLen cli (rs_key r) s of
       ((xl, err1), s1) \<Rightarrow>
         (case XPending cli (rs_key r) grp s1 of
            ((xp, err2), s2) \<Rightarrow>
              (let cnt = (if err2 = None then (case xp of Some n \<Rightarrow> n | None \<Rightarrow> 0) else 0)
               in (case err1 of
                     Some e \<Rightarrow> (0, cnt, Some (redis_error_text e))
                   | None \<Rightarrow>
                      (case err2 of
                         Some e \<Rightarrow> if e \<noteq> RedisNil then (xl, 0, Some (redis_error_text e)) else (xl, cnt, None)
                       | None \<Rightarrow> (xl, cnt, None)), s2))))"

definition RedisStreams_Queue :: "'s redisCommander \<Rightarrow> RedisStreams \<Rightarrow> 's Queue" where
  "RedisStreams_Queue cli r =
    \<lparr>q_EnsureGroup = redis_EnsureGroup cli r, q_Enqueue = redis_Enqueue cli r,
     q_ReadGroup = redis_ReadGroup cli r, q_Ack = redis_Ack cli r, q_AutoClaim = redis_AutoClaim cli r,
     q_Close = redis_Close cli, q_Stats = redis_Stats cli r\<rparr>"

section \<open>Kafka\<close>

record KafkaMessage =
  km_Partition :: int
  km_Offset :: int
  km_Value :: "json option"

text \<open>An error of the reader: the end of the context of the read, or another one.\<close>

datatype kafka_error = DeadlineExceeded string | ContextCanceled string | KafkaError string

fun kafka_error_text :: "kafka_error \<Rightarrow> string" where
  "kafka_error_text (DeadlineExceeded e) = e"
| "kafka_error_text (ContextCanceled e) = e"
| "kafka_error_text (KafkaError e) = e"

fun is_context_error :: "kafka_error \<Rightarrow> bool" where
  "is_context_error (KafkaError e) = False"
| "is_context_error _ = True"

record KafkaConfig =
  kc_Brokers :: "string list"
  kc_Topic :: string
  kc_GroupID :: string
  kc_AutoOffsetReset :: string

datatype StartOffset = FirstOffset | LastOffset

record ReaderConfig =
  rc_Brokers :: "string list"
  rc_Topic :: string
  rc_GroupID :: string
  rc_StartOffset :: StartOffset
  rc_MinBytes :: int
  rc_MaxBytes :: int
  rc_MaxWait :: int
  rc_CommitInterval :: int

text \<open>The writer and the reader of the client library, over the state of the cluster.\<close>

record 'k kafka_client =
  k_WriteMessages :: "json option \<Rightarrow> 'k \<Rightarrow> string option \<times> 'k"
  k_NewReader :: "ReaderConfig \<Rightarrow> 'k \<Rightarrow> 'k"
  k_FetchMessage :: "'k \<Rightarrow> (kafka_error + KafkaMessage) \<times> 'k"
  k_CommitMessages :: "KafkaMessage \<Rightarrow> 'k \<Rightarrow> string option \<times> 'k"
  k_WriterClose :: "'k \<Rightarrow> string option \<times> 'k"
  k_ReaderClose :: "'k \<Rightarrow> string option \<times> 'k"
  k_Lag :: "'k \<Rightarrow> int"

text \<open>
  The queue object. The writer is set by the constructor and never changes; of the reader only
  whether it is there matters, its configuration is kept with it.
\<close>

record KafkaQueue =
  kq_cfg :: KafkaConfig
  kq_reader :: "ReaderConfig option"
  kq_pendingMessages :: "(string \<times> KafkaMessage) list"

definition NewKafkaQueue :: "KafkaConfig \<Rightarrow> string + KafkaQueue" where
  "NewKafkaQueue cfg =
    (if kc_Brokers cfg = [] then Inl ''kafka brokers cannot be empty''
     else if kc_Topic cfg = '''' then Inl ''kafka topic cannot be empty''
     else
       let cfg1 = (if kc_GroupID cfg = '''' then cfg\<lparr>kc_GroupID := ''kubemin-workflow-workers''\<rparr> else cfg);
           cfg2 = (if kc_AutoOffsetReset cfg1 = '''' then cfg1\<lparr>kc_AutoOffsetReset := ''earliest''\<rparr> else cfg1)
       in Inr \<lparr>kq_cfg = cfg2, kq_reader = None, kq_pendingMessages = []\<rparr>)"

definition kafka_EnsureGroup ::
  "'k kafka_client \<Rightarrow> string \<Rightarrow> 'k \<times> KafkaQueue \<Rightarrow> string option \<times> 'k \<times> KafkaQueue" where
  "kafka_EnsureGroup cli grp st =
    (case st of (k, q) \<Rightarrow>
      (if kq_reader q \<noteq> None then (None, k, q)
       else
         let startOffset = (if kc_AutoOffsetReset (kq_cfg q) = ''latest'' then LastOffset else FirstOffset);
             rc = \<lparr>rc_Brokers = kc_Brokers (kq_cfg q), rc_Topic = kc_Topic (kq_cfg q),
                   rc_GroupID = kc_GroupID (kq_cfg q), rc_StartOffset = startOffset, rc_MinBytes = 1,
                   rc_MaxBytes = 10000000, rc_MaxWait = 500 * Millisecond, rc_CommitInterval = 0\<rparr>
         in (None, k_NewReader cli rc k, q\<lparr>kq_reader := Some rc\<rparr>)))"

definition kafka_Enqueue ::
  "'k kafka_client \<Rightarrow> json option \<Rightarrow> 'k \<times> KafkaQueue \<Rightarrow> (string + string) \<times> 'k \<times> KafkaQueue" where
  "kafka_Enqueue cli payload st =
    (case st of (k, q) \<Rightarrow>
      (case k_WriteMessages cli payload k of
         (Some err, k') \<Rightarrow> (Inl err, k', q)
       | (None, k') \<Rightarrow> (Inr ''pending'', k', q)))"

definition messageID :: "KafkaMessage \<Rightarrow> string" where
  "messageID m = int_str (km_Partition m) @ '':'' @ int_str (km_Offset m)"

text \<open>The loop of \<open>ReadGroup\<close>, for the reads that are left and the messages read so far.\<close>

fun kafka_read_loop ::
  "'k kafka_client \<Rightarrow> nat \<Rightarrow> Message list \<Rightarrow> 'k \<times> KafkaQueue \<Rightarrow> (string + Message list) \<times> 'k \<times> KafkaQueue" where
  "kafka_read_loop cli 0 messages (k, q) = (Inr messages, k, q)"
| "kafka_read_loop cli (Suc n) messages (k, q) =
    (case k_FetchMessage cli k of
       (Inl err, k') \<Rightarrow>
         (if is_context_error err then (Inr messages, k', q)
          else if messages \<noteq> [] then (Inr messages, k', q)
          else (Inl (kafka_error_text err), k', q))
     | (Inr m, k') \<Rightarrow>
         kafka_read_loop cli n (messages @ [\<lparr>msg_ID = messageID m, msg_Payload = km_Value m\<rparr>])
           (k', q\<lparr>kq_pendingMessages := AList.update (messageID m) m (kq_pendingMessages q)\<rparr>))"

definition kafka_ReadGroup ::
  "'k kafka_client \<Rightarrow> string \<Rightarrow> string \<Rightarrow> int \<Rightarrow> int \<Rightarrow> 'k \<times> KafkaQueue \<Rightarrow>
   (string + Message list) \<times> 'k \<times> KafkaQueue" where
  "kafka_ReadGroup cli grp consumer n block st =
    (if kq_reader (snd st) = None
     then (Inl ''kafka reader not initialized, call EnsureGroup first'', st)
     else kafka_read_loop cli (nat n) [] st)"

fun kafka_ack_loop ::
  "'k kafka_client \<Rightarrow> string list \<Rightarrow> 'k \<times> KafkaQueue \<Rightarrow> string option \<times> 'k \<times> KafkaQueue" where
  "kafka_ack_loop cli [] (k, q) = (None, k, q)"
| "kafka_ack_loop cli (i # ids) (k, q) =
    (case map_of (kq_pendingMessages q) i of
       None \<Rightarrow> kafka_ack_loop cli ids (k, q)
     | Some m \<Rightarrow>
        (case k_CommitMessages cli m k of
           (Some err, k') \<Rightarrow> (Some err, k', q)
         | (None, k') \<Rightarrow>
             kafka_ack_loop cli ids (k', q\<lparr>kq_pendingMessages := AList.delete i (kq_pendingMessages q)\<rparr>)))"

definition kafka_Ack ::
  "'k kafka_client \<Rightarrow> string \<Rightarrow> string list \<Rightarrow> 'k \<times> KafkaQueue \<Rightarrow> string option \<times> 'k \<times> KafkaQueue" where
  "kafka_Ack cli grp ids st =
    (if ids = [] then (None, st)
     else if kq_reader (snd st) = None then (Some ''kafka reader not initialized'', st)
     else kafka_ack_loop cli ids st)"

definition kafka_AutoClaim ::
  "string \<Rightarrow> string \<Rightarrow> int \<Rightarrow> int \<Rightarrow> 'k \<times> KafkaQueue \<Rightarrow> (string + Message list) \<times> 'k \<times> KafkaQueue" where
  "kafka_AutoClaim grp consumer minIdle n st = (Inr [], st)"

text \<open>\<open>Close\<close> joins the errors of the writer and the reader, one per line.\<close>

definition kafka_Close :: "'k kafka_client \<Rightarrow> 'k \<times> KafkaQueue \<Rightarrow> string option \<times> 'k \<times> KafkaQueue" where
  "kafka_Close cli st =
    (case st of (k, q) \<Rightarrow>
      (case k_WriterClose cli k of
         (e1, k1) \<Rightarrow>
           (case (if kq_reader q = None then (None, k1, q)
                  else (case k_ReaderClose cli k1 of (e2, k2) \<Rightarrow> (e2, k2, q\<lparr>kq_reader := None\<rparr>))) of
              (e2, k2, q2) \<Rightarrow>
                (let errs = (case e1 of None \<Rightarrow> [] | Some e \<Rightarrow> [e]) @ (case e2 of None \<Rightarrow> [] | Some e \<Rightarrow> [e])
                 in (if errs = [] then None else Some (Join errs [char_of (10::nat)]), k2, q2)))))"

definition kafka_Stats ::
  "'k kafka_client \<Rightarrow> string \<Rightarrow> 'k \<times> KafkaQueue \<Rightarrow> (int \<times> int \<times> string option) \<times> 'k \<times> KafkaQueue" where
  "kafka_Stats cli grp st =
    (if kq_reader (snd st) = None then ((0, 0, None), st)
     else ((k_Lag cli (fst st), int (length (kq_pendingMessages (snd st))), None), st))"

definition Kafka_Queue :: "'k kafka_client \<Rightarrow> ('k \<times> KafkaQueue) Queue" where
  "Kafka_Queue cli =
    \<lparr>q_EnsureGroup = kafka_EnsureGroup cli, q_Enqueue = kafka_Enqueue cli,
     q_ReadGroup = kafka_ReadGroup cli, q_Ack = kafka_Ack cli, q_AutoClaim = kafka_AutoClaim,
     q_Close = kafka_Close cli, q_Stats = kafka_Stats cli\<rparr>"

section \<open>The queue of the local mode\<close>

text \<open>Its state says that the context has ended when a read looks at it, with the text of its error.\<close>

definition NoopQueue :: "(string option) Queue" where
  "NoopQueue =
    \<lparr>q_EnsureGroup = (\<lambda>grp s. (None, s)), q_Enqueue = (\<lambda>payload s. (Inr '''', s)),
     q_ReadGroup = (\<lambda>grp consumer n block s. (case s of Some err \<Rightarrow> (Inl err, s) | None \<Rightarrow> (Inr [], s))),
     q_Ack = (\<lambda>grp ids s. (None, s)), q_AutoClaim = (\<lambda>grp consumer minIdle n s. (Inr [], s)),
     q_Close = (\<lambda>s. (None, s)), q_Stats = (\<lambda>grp s. ((0, 0, None), s))\<rparr>"

section \<open>The worker on a queue\<close>

text \<open>\<open>ackDispatchMessages\<close>: its result is only logged.\<close>

definition ackDispatchMessages :: "'st Queue \<Rightarrow> string \<Rightarrow> string list \<Rightarrow> 'st \<Rightarrow> string option \<times> 'st" where
  "ackDispatchMessages q grp ids st = (if ids = [] then (None, st) else q_Ack q grp ids st)"

definition consumerGroup :: string where
  "consumerGroup = ''workflow-workers''"

definition consumerName :: "string option \<Rightarrow> string" where
  "consumerName leaderID = (case leaderID of Some i \<Rightarrow> i | None \<Rightarrow> ''worker'')"

text \<open>
  What the \<open>select\<close> of a turn of \<open>StartWorker\<close> finds: the context has ended, the ticker for stale
  messages has fired, or neither; in the last case the argument says that the context ends
  during the wait after a failed read.
\<close>

datatype tick = TickDone | TickStale | TickDefault bool

text \<open>
  The variables of the loop, the state of the queue and of the database, and what has happened
  so far: the messages handed to \<open>processDispatchMessage\<close>, the identifiers acknowledged without
  an error, the tasks started.
\<close>

record ('st, 'db) worker =
  w_vars :: worker_state
  w_queue :: 'st
  w_db :: 'db
  w_seen :: "Message list"
  w_acked :: "string list"
  w_started :: "(WorkflowQueue \<times> int) list"

text \<open>The batch of a turn is processed and acknowledged.\<close>

definition worker_batch ::
  "'st Queue \<Rightarrow> ('db, WorkflowQueue) DataStore \<Rightarrow> WorkflowRuntimeConfig option \<Rightarrow> int \<Rightarrow> Message list \<Rightarrow>
   ('st, 'db) worker \<Rightarrow> ('st, 'db) worker" where
  "worker_batch q store cfg now ms w =
    (case process_messages store cfg now ms (w_db w) of
       (acks, started, db') \<Rightarrow>
         (case ackDispatchMessages q consumerGroup acks (w_queue w) of
            (e, st') \<Rightarrow>
              w\<lparr>w_queue := st', w_db := db', w_seen := w_seen w @ ms,
                w_acked := (if e = None then w_acked w @ acks else w_acked w),
                w_started := w_started w @ started\<rparr>))"

fun StartWorker_turn ::
  "'st Queue \<Rightarrow> ('db, WorkflowQueue) DataStore \<Rightarrow> WorkflowRuntimeConfig option \<Rightarrow> string \<Rightarrow> int \<Rightarrow> tick \<Rightarrow>
   ('st, 'db) worker \<Rightarrow> ('st, 'db) worker option" where
  "StartWorker_turn q store cfg consumer now TickDone w = None"
| "StartWorker_turn q store cfg consumer now TickStale w =
    (case q_AutoClaim q consumerGroup consumer (workerAutoClaimMinIdle cfg) (workerAutoClaimCount cfg) (w_queue w) of
       (Inl err, st') \<Rightarrow>
         (case worker_turn cfg ClaimFailed (w_vars w) of
            None \<Rightarrow> None
          | Some (v, ms) \<Rightarrow> Some (w\<lparr>w_vars := v, w_queue := st'\<rparr>))
     | (Inr mags, st') \<Rightarrow>
         (case worker_turn cfg (Claimed mags) (w_vars w) of
            None \<Rightarrow> None
          | Some (v, ms) \<Rightarrow> Some (worker_batch q store cfg now ms (w\<lparr>w_vars := v, w_queue := st'\<rparr>))))"
| "StartWorker_turn q store cfg consumer now (TickDefault endsWaiting) w =
    (case q_ReadGroup q consumerGroup consumer (workerReadCount cfg) (workerReadBlock cfg) (w_queue w) of
       (Inl err, st') \<Rightarrow>
         (case worker_turn cfg (ReadFailed endsWaiting) (w_vars w) of
            None \<Rightarrow> None
          | Some (v, ms) \<Rightarrow> Some (w\<lparr>w_vars := v, w_queue := st'\<rparr>))
     | (Inr mags, st') \<Rightarrow>
         (case worker_turn cfg (Read mags) (w_vars w) of
            None \<Rightarrow> None
          | Some (v, ms) \<Rightarrow> Some (worker_batch q store cfg now ms (w\<lparr>w_vars := v, w_queue := st'\<rparr>))))"

text \<open>The turns of the loop until it returns, each at its own time.\<close>

fun StartWorker_loop ::
  "'st Queue \<Rightarrow> ('db, WorkflowQueue) DataStore \<Rightarrow> WorkflowRuntimeConfig option \<Rightarrow> string \<Rightarrow>
   (tick \<times> int) list \<Rightarrow> ('st, 'db) worker \<Rightarrow> ('st, 'db) worker" where
  "StartWorker_loop q store cfg consumer [] w = w"
| "StartWorker_loop q store cfg consumer ((t, now) # ts) w =
    (case StartWorker_turn q store cfg consumer now t w of
       None \<Rightarrow> w
     | Some w' \<Rightarrow> StartWorker_loop q store cfg consumer ts w')"

definition StartWorker ::
  "'st Queue \<Rightarrow> ('db, WorkflowQueue) DataStore \<Rightarrow> WorkflowRuntimeConfig option \<Rightarrow> string option \<Rightarrow>
   (tick \<times> int) list \<Rightarrow> 'st \<Rightarrow> 'db \<Rightarrow> ('st, 'db) worker" where
  "StartWorker q store cfg leaderID ts st db =
    StartWorker_loop q store cfg (consumerName leaderID) ts
      \<lparr>w_vars = worker_init cfg, w_queue = snd (q_EnsureGroup q consumerGroup st), w_db = db,
       w_seen = [], w_acked = [], w_started = []\<rparr>"

section \<open>What a worker relies on\<close>

text \<open>
  The contract of the consumer side. \<open>opened\<close> are the identifiers the queue has handed out for
  the group and still waits to see acknowledged. Reading and claiming only hand out such
  messages, acknowledging closes what it names and nothing else, and closes it when it reports
  no error.
\<close>

locale work_queue =
  fixes q :: "'st Queue" and grp :: string and opened :: "'st \<Rightarrow> string set"
  assumes ack_nil: "q_Ack q grp [] st = (None, st)"
    and ack_ok: "q_Ack q grp ids st = (None, st') \<Longrightarrow> opened st' = opened st - set ids"
    and ack_keeps: "q_Ack q grp ids st = (e, st') \<Longrightarrow> opened st - set ids \<subseteq> opened st'"
    and read_opens: "q_ReadGroup q grp consumer n block st = (Inr ms, st') \<Longrightarrow>
      opened st \<union> msg_ID ` set ms \<subseteq> opened st'"
    and read_keeps: "q_ReadGroup q grp consumer n block st = (Inl err, st') \<Longrightarrow> opened st \<subseteq> opened st'"
    and claim_opens: "q_AutoClaim q grp consumer idle n st = (Inr ms, st') \<Longrightarrow>
      opened st \<union> msg_ID ` set ms \<subseteq> opened st'"
    and claim_keeps: "q_AutoClaim q grp consumer idle n st = (Inl err, st') \<Longrightarrow> opened st \<subseteq> opened st'"
begin

lemma ackDispatchMessages_ok:
  "ackDispatchMessages q grp ids st = (None, st') \<Longrightarrow> opened st' = opened st - set ids"
  by (auto simp: ackDispatchMessages_def ack_nil split: if_splits dest: ack_ok)

lemma ackDispatchMessages_keeps:
  "ackDispatchMessages q grp ids st = (e, st') \<Longrightarrow> opened st - set ids \<subseteq> opened st'"
  by (auto simp: ackDispatchMessages_def ack_nil split: if_splits dest: ack_keeps)

text \<open>
  Between two states of a worker: what was open still is, unless the worker has processed it
  since, and the worker acknowledges only what it has processed.
\<close>

definition accounted :: "('st, 'db) worker \<Rightarrow> ('st, 'db) worker \<Rightarrow> bool" where
  "accounted w w' \<longleftrightarrow>
     opened (w_queue w) \<subseteq> opened (w_queue w') \<union> msg_ID ` set (w_seen w') \<and>
     set (w_seen w) \<subseteq> set (w_seen w') \<and>
     set (w_acked w') \<subseteq> set (w_acked w) \<union> msg_ID ` set (w_seen w')"

lemma accounted_refl [simp]: "accounted w w"
  by (auto simp: accounted_def)

lemma accounted_trans: "accounted w w' \<Longrightarrow> accounted w' w'' \<Longrightarrow> accounted w w''"
  unfolding accounted_def by blast

lemma worker_batch_cases:
  obtains e st' started db' where
    "ackDispatchMessages q consumerGroup (map msg_ID ms) (w_queue w) = (e, st')"
    "worker_batch q store cfg now ms w =
       w\<lparr>w_queue := st', w_db := db', w_seen := w_seen w @ ms,
         w_acked := (if e = None then w_acked w @ map msg_ID ms else w_acked w),
         w_started := w_started w @ started\<rparr>"
proof -
  obtain started db' where p: "process_messages store cfg now ms (w_db w) = (map msg_ID ms, started, db')"
    using process_messages_acks [of store cfg now ms "w_db w"] by (metis prod_cases3 fst_conv)
  obtain e st' where "ackDispatchMessages q consumerGroup (map msg_ID ms) (w_queue w) = (e, st')"
    by fastforce
  with p that show thesis by (simp add: worker_batch_def)
qed

lemma worker_batch_accounted:
  assumes "grp = consumerGroup"
  shows "accounted w (worker_batch q store cfg now ms w)"
proof (rule worker_batch_cases [of ms w store cfg now])
  fix e st' started db'
  assume k: "ackDispatchMessages q consumerGroup (map msg_ID ms) (w_queue w) = (e, st')"
    and "worker_batch q store cfg now ms w =
       w\<lparr>w_queue := st', w_db := db', w_seen := w_seen w @ ms,
         w_acked := (if e = None then w_acked w @ map msg_ID ms else w_acked w),
         w_started := w_started w @ started\<rparr>"
  with ackDispatchMessages_keeps [OF k [folded assms]] show ?thesis
    by (auto simp: accounted_def)
qed

lemma queue_moved_accounted:
  "opened (w_queue w) \<subseteq> opened st' \<Longrightarrow> accounted w (w\<lparr>w_vars := v, w_queue := st'\<rparr>)"
  by (auto simp: accounted_def)

lemma StartWorker_turn_accounted:
  assumes "StartWorker_turn q store cfg consumer now t w = Some w'" and g: "grp = consumerGroup"
  shows "accounted w w'"
proof (cases t)
  case TickDone
  with assms show ?thesis by simp
next
  case TickStale
  obtain r st' where c: "q_AutoClaim q consumerGroup consumer (workerAutoClaimMinIdle cfg)
      (workerAutoClaimCount cfg) (w_queue w) = (r, st')" by fastforce
  then have "opened (w_queue w) \<subseteq> opened st'"
    using claim_opens claim_keeps g by (cases r) auto
  from queue_moved_accounted [OF this] have step: "accounted w (w\<lparr>w_vars := v, w_queue := st'\<rparr>)" for v .
  from TickStale c assms(1) show ?thesis
    by (auto split: sum.splits option.splits intro: step accounted_trans [OF step worker_batch_accounted [OF g]])
next
  case (TickDefault b)
  obtain r st' where c: "q_ReadGroup q consumerGroup consumer (workerReadCount cfg) (workerReadBlock cfg)
      (w_queue w) = (r, st')" by fastforce
  then have "opened (w_queue w) \<subseteq> opened st'"
    using read_opens read_keeps g by (cases r) auto
  from queue_moved_accounted [OF this] have step: "accounted w (w\<lparr>w_vars := v, w_queue := st'\<rparr>)" for v .
  from TickDefault c assms(1) show ?thesis
    by (auto split: sum.splits option.splits intro: step accounted_trans [OF step worker_batch_accounted [OF g]])
qed

lemma StartWorker_loop_accounted:
  "grp = consumerGroup \<Longrightarrow> accounted w (StartWorker_loop q store cfg consumer ts w)"
proof (induction ts arbitrary: w)
  case (Cons p ts)
  obtain t now where "p = (t, now)" by fastforce
  with Cons show ?case
    by (auto split: option.splits intro: accounted_trans [OF StartWorker_turn_accounted])
qed simp

text \<open>A batch whose acknowledgement succeeds is closed: none of its messages comes back.\<close>

lemma worker_batch_closes:
  assumes g: "grp = consumerGroup" and ne: "ms \<noteq> []"
    and acked: "w_acked (worker_batch q store cfg now ms w) \<noteq> w_acked w"
  shows "opened (w_queue (worker_batch q store cfg now ms w)) \<inter> msg_ID ` set ms = {}"
proof (rule worker_batch_cases [of ms w store cfg now])
  fix e st' started db'
  assume k: "ackDispatchMessages q consumerGroup (map msg_ID ms) (w_queue w) = (e, st')"
    and b: "worker_batch q store cfg now ms w =
       w\<lparr>w_queue := st', w_db := db', w_seen := w_seen w @ ms,
         w_acked := (if e = None then w_acked w @ map msg_ID ms else w_acked w),
         w_started := w_started w @ started\<rparr>"
  with acked have "e = None" by (auto split: if_splits)
  with k ackDispatchMessages_ok [of "map msg_ID ms" "w_queue w" st'] g b show ?thesis by auto
qed

end

section \<open>The empty queue and Kafka as work queues\<close>

interpretation noop: work_queue NoopQueue grp "\<lambda>_. {}" for grp
  by unfold_locales (auto simp: NoopQueue_def split: option.splits)

lemma noop_worker_idle:
  "StartWorker_loop NoopQueue store cfg consumer ts w = w' \<Longrightarrow>
   w_seen w' = w_seen w \<and> w_started w' = w_started w \<and> w_db w' = w_db w"
proof (induction ts arbitrary: w)
  case (Cons p ts)
  obtain t now where p: "p = (t, now)" by fastforce
  have turn: "StartWorker_turn NoopQueue store cfg consumer now t w = Some w1 \<Longrightarrow>
      w_seen w1 = w_seen w \<and> w_started w1 = w_started w \<and> w_db w1 = w_db w" for w1
    by (cases t) (auto simp: NoopQueue_def worker_batch_def ackDispatchMessages_def
        split: option.splits prod.splits sum.splits)
  show ?case
  proof (cases "StartWorker_turn NoopQueue store cfg consumer now t w")
    case None
    with Cons.prems p show ?thesis by auto
  next
    case (Some w1)
    with turn [OF Some] Cons p show ?thesis by auto
  qed
qed simp

text \<open>A message identifier determines its partition and its offset.\<close>

lemma int_str_no_colon: "CHR '':'' \<notin> set (int_str i)"
proof -
  have "CHR '':'' \<notin> set (nat_str n)" for n
    using nat_str_codes [of "CHR '':''" n] by auto
  then show ?thesis by (auto simp: int_str_def)
qed

lemma int_str_inj: "int_str i = int_str j \<longleftrightarrow> i = j"
proof
  assume e: "int_str i = int_str j"
  have "\<not> (nat_str m = CHR ''-'' # s)" for m s
    using nat_str_no_hyphen [of m] by auto
  with e show "i = j"
    by (auto simp: int_str_def nat_str_inj split: if_splits) (metis)+
qed simp

lemma split_at_unique:
  "c \<notin> set xs \<Longrightarrow> c \<notin> set ys \<Longrightarrow> xs @ c # us = ys @ c # vs \<longleftrightarrow> xs = ys \<and> us = vs"
proof (induction xs arbitrary: ys)
  case Nil
  then show ?case by (cases ys) auto
next
  case (Cons x xs)
  then show ?case by (cases ys) auto
qed

lemma messageID_inj:
  "messageID m = messageID m' \<longleftrightarrow> km_Partition m = km_Partition m' \<and> km_Offset m = km_Offset m'"
  by (simp add: messageID_def split_at_unique int_str_no_colon int_str_inj)

text \<open>The pending table: keyed by the identifier of the message it holds.\<close>

definition pending_wf :: "(string \<times> KafkaMessage) list \<Rightarrow> bool" where
  "pending_wf p \<longleftrightarrow> distinct (map fst p) \<and> (\<forall>i m. map_of p i = Some m \<longrightarrow> messageID m = i)"

definition kafka_opened :: "'k \<times> KafkaQueue \<Rightarrow> string set" where
  "kafka_opened st = dom (map_of (kq_pendingMessages (snd st)))"

lemma pending_wf_update: "pending_wf p \<Longrightarrow> pending_wf (AList.update (messageID m) m p)"
  by (auto simp: pending_wf_def distinct_update update_conv')

lemma pending_wf_delete: "pending_wf p \<Longrightarrow> pending_wf (AList.delete i p)"
  by (auto simp: pending_wf_def distinct_delete delete_conv')

lemma kafka_read_loop_wf:
  "pending_wf (kq_pendingMessages (snd st)) \<Longrightarrow>
   pending_wf (kq_pendingMessages (snd (snd (kafka_read_loop cli n ms st))))"
  by (induction cli n ms st rule: kafka_read_loop.induct)
    (auto simp: pending_wf_update split: prod.split sum.split)

lemma kafka_ack_loop_wf:
  "pending_wf (kq_pendingMessages (snd st)) \<Longrightarrow>
   pending_wf (kq_pendingMessages (snd (snd (kafka_ack_loop cli ids st))))"
  by (induction cli ids st rule: kafka_ack_loop.induct)
    (auto simp: pending_wf_delete split: prod.split option.split)

lemma kafka_read_loop_opens:
  assumes "kafka_read_loop cli n ms st = (r, st')"
  shows "kafka_opened st \<subseteq> kafka_opened st'"
    and "r = Inr ms' \<Longrightarrow> \<exists>ns. ms' = ms @ ns \<and> length ns \<le> n \<and>
      kafka_opened st' = kafka_opened st \<union> msg_ID ` set ns"
    and "r = Inl err \<Longrightarrow> ms = [] \<and> kafka_opened st' = kafka_opened st"
    and "kq_reader (snd st') = kq_reader (snd st)"
proof -
  have "kafka_opened st \<subseteq> kafka_opened st' \<and>
      (\<forall>ms'. r = Inr ms' \<longrightarrow> (\<exists>ns. ms' = ms @ ns \<and> length ns \<le> n \<and>
         kafka_opened st' = kafka_opened st \<union> msg_ID ` set ns)) \<and>
      (\<forall>err. r = Inl err \<longrightarrow> ms = [] \<and> kafka_opened st' = kafka_opened st) \<and>
      kq_reader (snd st') = kq_reader (snd st)"
    using assms
  proof (induction cli n ms st rule: kafka_read_loop.induct)
    case (2 cli n messages k q)
    show ?case
    proof (cases "k_FetchMessage cli k")
      case (Pair f k')
      show ?thesis
      proof (cases f)
        case (Inl err)
        with 2(2) Pair show ?thesis by (auto simp: kafka_opened_def split: if_splits)
      next
        case (Inr m)
        let ?q = "q\<lparr>kq_pendingMessages := AList.update (messageID m) m (kq_pendingMessages q)\<rparr>"
        have o: "kafka_opened (k', ?q) = insert (messageID m) (kafka_opened (k, q))"
          by (simp add: kafka_opened_def update_conv')
        from 2(2) Pair Inr
        have run: "kafka_read_loop cli n (messages @ [\<lparr>msg_ID = messageID m, msg_Payload = km_Value m\<rparr>]) (k', ?q) = (r, st')"
          by simp
        from 2(1) [OF Pair [symmetric] Inr run] o show ?thesis
          by fastforce
      qed
    qed
  qed (auto simp: kafka_opened_def)
  then show "kafka_opened st \<subseteq> kafka_opened st'"
    and "r = Inr ms' \<Longrightarrow> \<exists>ns. ms' = ms @ ns \<and> length ns \<le> n \<and>
      kafka_opened st' = kafka_opened st \<union> msg_ID ` set ns"
    and "r = Inl err \<Longrightarrow> ms = [] \<and> kafka_opened st' = kafka_opened st"
    and "kq_reader (snd st') = kq_reader (snd st)" by blast+
qed

lemma kafka_ack_loop_opened:
  assumes "kafka_ack_loop cli ids st = (e, st')"
  shows "kafka_opened st - set ids \<subseteq> kafka_opened st'" and "kafka_opened st' \<subseteq> kafka_opened st"
    and "e = None \<Longrightarrow> kafka_opened st' = kafka_opened st - set ids"
    and "kq_reader (snd st') = kq_reader (snd st)"
proof -
  have "kafka_opened st - set ids \<subseteq> kafka_opened st' \<and> kafka_opened st' \<subseteq> kafka_opened st \<and>
      (e = None \<longrightarrow> kafka_opened st' = kafka_opened st - set ids) \<and>
      kq_reader (snd st') = kq_reader (snd st)"
    using assms
  proof (induction cli ids st rule: kafka_ack_loop.induct)
    case (2 cli i ids k q)
    show ?case
    proof (cases "map_of (kq_pendingMessages q) i")
      case None
      with 2 show ?thesis by (auto simp: kafka_opened_def)
    next
      case (Some m)
      obtain f k' where c: "k_CommitMessages cli m k = (f, k')" by fastforce
      show ?thesis
      proof (cases f)
        case None
        let ?q = "q\<lparr>kq_pendingMessages := AList.delete i (kq_pendingMessages q)\<rparr>"
        have o: "kafka_opened (k', ?q) = kafka_opened (k, q) - {i}"
          by (auto simp: kafka_opened_def delete_conv')
        from 2(3) Some c None have "kafka_ack_loop cli ids (k', ?q) = (e, st')" by simp
        from 2(2) [OF Some c [symmetric] None this] o show ?thesis by auto
      next
        case (Some err)
        with 2(3) c \<open>map_of (kq_pendingMessages q) i = Some m\<close> show ?thesis
          by (auto simp: kafka_opened_def)
      qed
    qed
  qed simp
  then show "kafka_opened st - set ids \<subseteq> kafka_opened st'" and "kafka_opened st' \<subseteq> kafka_opened st"
    and "e = None \<Longrightarrow> kafka_opened st' = kafka_opened st - set ids"
    and "kq_reader (snd st') = kq_reader (snd st)" by blast+
qed

lemma kafka_Queue_sel [queue_ops]:
  "q_ReadGroup (Kafka_Queue cli) = kafka_ReadGroup cli" "q_Ack (Kafka_Queue cli) = kafka_Ack cli"
  "q_AutoClaim (Kafka_Queue cli) = kafka_AutoClaim" "q_Enqueue (Kafka_Queue cli) = kafka_Enqueue cli"
  "q_EnsureGroup (Kafka_Queue cli) = kafka_EnsureGroup cli" "q_Stats (Kafka_Queue cli) = kafka_Stats cli"
  by (simp_all add: Kafka_Queue_def)

text \<open>
  Acknowledging without a reader is an error and forgets nothing; nothing can be pending then,
  but the contract holds without that fact.
\<close>

interpretation kafka: work_queue "Kafka_Queue cli" grp kafka_opened for cli grp
proof
  fix st ids st' assume "q_Ack (Kafka_Queue cli) grp ids st = (None, st')"
  then show "kafka_opened st' = kafka_opened st - set ids"
    by (auto simp: queue_ops kafka_Ack_def split: if_splits dest: kafka_ack_loop_opened(3))
next
  fix st ids e st' assume "q_Ack (Kafka_Queue cli) grp ids st = (e, st')"
  then show "kafka_opened st - set ids \<subseteq> kafka_opened st'"
    by (auto simp: queue_ops kafka_Ack_def split: if_splits dest: kafka_ack_loop_opened(1))
next
  fix consumer n block st ms st'
  assume "q_ReadGroup (Kafka_Queue cli) grp consumer n block st = (Inr ms, st')"
  then have "kafka_read_loop cli (nat n) [] st = (Inr ms, st')"
    by (auto simp: queue_ops kafka_ReadGroup_def split: if_splits)
  from kafka_read_loop_opens(2) [OF this refl]
  show "kafka_opened st \<union> msg_ID ` set ms \<subseteq> kafka_opened st'" by auto
next
  fix consumer n block st err st'
  assume "q_ReadGroup (Kafka_Queue cli) grp consumer n block st = (Inl err, st')"
  then show "kafka_opened st \<subseteq> kafka_opened st'"
    by (auto simp: queue_ops kafka_ReadGroup_def split: if_splits dest!: kafka_read_loop_opens(1))
qed (auto simp: queue_ops kafka_Ack_def kafka_AutoClaim_def)

section \<open>What the Redis server promises\<close>

text \<open>
  The documented behaviour of the stream commands for one stream and one consumer group.
  \<open>waiting\<close> are the entries of the stream the group has not been given yet, \<open>pending\<close> those of
  its pending entries list that the stream still holds, \<open>known\<close> says that the group exists.
  A command whose reply is an error may still have been carried out. An entry is trimmed only
  by an addition that finds the stream at its maximal length. The client returns the fields of
  an entry as strings.
\<close>

fun as_reply :: "raw_value \<Rightarrow> raw_value" where
  "as_reply (RawBytes v) = RawString v"
| "as_reply v = v"

definition reply_values :: "(string \<times> raw_value) list \<Rightarrow> (string \<times> raw_value) list" where
  "reply_values vs = map (\<lambda>(k, v). (k, as_reply v)) vs"

definition entry_of :: "string \<Rightarrow> XAddArgs \<Rightarrow> XMessage" where
  "entry_of i a = \<lparr>xm_ID = i, xm_Values = reply_values (xa_Values a)\<rparr>"

abbreviation no_error :: "redis_error option \<Rightarrow> bool" where
  "no_error e \<equiv> e = None \<or> e = Some RedisNil"

locale stream_server =
  fixes cli :: "'s redisCommander" and r :: RedisStreams and grp :: string
    and waiting :: "'s \<Rightarrow> XMessage list" and pending :: "'s \<Rightarrow> XMessage list"
    and xlen :: "'s \<Rightarrow> int" and known :: "'s \<Rightarrow> bool"
  assumes add_ok: "XAdd cli a s = (Inr i, s') \<Longrightarrow> xa_Stream a = rs_key r \<Longrightarrow> known s \<Longrightarrow>
      xa_MaxLen a \<le> 0 \<or> xlen s < xa_MaxLen a \<Longrightarrow>
      waiting s' = waiting s @ [entry_of i a] \<and> pending s' = pending s \<and> known s' \<and> xlen s' = xlen s + 1"
    and add_error: "XAdd cli a s = (Inl e, s') \<Longrightarrow> xa_Stream a = rs_key r \<Longrightarrow> known s \<Longrightarrow>
      xa_MaxLen a \<le> 0 \<or> xlen s < xa_MaxLen a \<Longrightarrow>
      (waiting s' = waiting s \<or> (\<exists>i. waiting s' = waiting s @ [entry_of i a])) \<and>
      pending s' = pending s \<and> known s' \<and> xlen s' \<le> xlen s + 1"
    and read_law: "XReadGroup cli ra s = ((res, err), s') \<Longrightarrow> xr_Group ra = grp \<Longrightarrow>
      xr_Streams ra = [rs_key r, ''>''] \<Longrightarrow> \<not> xr_NoAck ra \<Longrightarrow>
      \<exists>ms. waiting s = ms @ waiting s' \<and> pending s' = pending s @ ms \<and>
        (known s \<longrightarrow> known s') \<and> xlen s' = xlen s \<and>
        (no_error err \<longrightarrow> concat (map xs_Messages res) = ms \<and>
           ms = (if xr_Count ra > 0 then take (nat (xr_Count ra)) (waiting s) else waiting s))"
    and ack_law: "XAck cli (rs_key r) grp ids s = (err, s') \<Longrightarrow>
      waiting s' = waiting s \<and> (known s \<longrightarrow> known s') \<and> xlen s' = xlen s \<and>
      (pending s' = filter (\<lambda>m. xm_ID m \<notin> set ids) (pending s) \<or> err \<noteq> None \<and> pending s' = pending s)"
    and claim_law: "XAutoClaim cli ca s = ((cs, err), s') \<Longrightarrow> xc_Stream ca = rs_key r \<Longrightarrow> xc_Group ca = grp \<Longrightarrow>
      waiting s' = waiting s \<and> pending s' = pending s \<and> (known s \<longrightarrow> known s') \<and> xlen s' = xlen s \<and>
      ((\<forall>e. err = Some e \<longrightarrow> redis_error_Is e RedisNil) \<longrightarrow> set cs \<subseteq> set (pending s) \<and>
         (xc_Count ca > 0 \<longrightarrow> int (length cs) \<le> xc_Count ca))"
    and group_law: "XGroupCreateMkStream cli (rs_key r) grp start s = (err, s') \<Longrightarrow>
      (err = None \<longrightarrow> known s') \<and>
      (known s \<longrightarrow> waiting s' = waiting s \<and> pending s' = pending s \<and> known s' \<and> xlen s' = xlen s)"

lemma redis_Queue_sel [queue_ops]:
  "q_ReadGroup (RedisStreams_Queue cli r) = redis_ReadGroup cli r"
  "q_Ack (RedisStreams_Queue cli r) = redis_Ack cli r"
  "q_AutoClaim (RedisStreams_Queue cli r) = redis_AutoClaim cli r"
  "q_Enqueue (RedisStreams_Queue cli r) = redis_Enqueue cli r"
  "q_EnsureGroup (RedisStreams_Queue cli r) = redis_EnsureGroup cli r"
  by (simp_all add: RedisStreams_Queue_def)

lemma redis_error_Is_Nil: "redis_error_Is RedisNil e \<longleftrightarrow> e = RedisNil"
  by auto

lemma payload_messages_append: "payload_messages (xs @ ys) = payload_messages xs @ payload_messages ys"
  by (induction xs) (auto split: option.splits raw_value.splits)

lemma payload_messages_concat:
  "payload_messages (concat xss) = concat (map payload_messages xss)"
  by (induction xss) (auto simp: payload_messages_append)

lemma payload_messages_ids: "msg_ID ` set (payload_messages ms) \<subseteq> xm_ID ` set ms"
  by (induction ms) (auto split: option.splits raw_value.splits)

lemma payload_messages_mono: "set xs \<subseteq> set ys \<Longrightarrow> set (payload_messages xs) \<subseteq> set (payload_messages ys)"
proof -
  have "set (payload_messages zs) = (\<Union>m\<in>set zs. set (payload_messages [m]))" for zs
    by (induction zs) (auto split: option.splits raw_value.splits)
  then show "set xs \<subseteq> set ys \<Longrightarrow> set (payload_messages xs) \<subseteq> set (payload_messages ys)"
    by blast
qed

lemma payload_entry:
  "payload_messages [entry_of i \<lparr>xa_Stream = k, xa_Values = [(''p'', RawBytes p)], xa_MaxLen = n\<rparr>] =
   [\<lparr>msg_ID = i, msg_Payload = p\<rparr>]"
  by (simp add: entry_of_def reply_values_def)

lemma length_payload_messages: "length (payload_messages ms) \<le> length ms"
  by (induction ms) (auto split: option.splits raw_value.splits)

lemma map_xs_Messages_concat:
  "concat (map (\<lambda>x. payload_messages (xs_Messages x)) res) = payload_messages (concat (map xs_Messages res))"
  by (simp add: payload_messages_concat comp_def)

context stream_server
begin

lemma redis_read_law:
  assumes "redis_ReadGroup cli r grp consumer n block s = (res, s')"
  shows "\<exists>ms. waiting s = ms @ waiting s' \<and> pending s' = pending s @ ms \<and>
    (known s \<longrightarrow> known s') \<and> xlen s' = xlen s \<and>
    (\<forall>out. res = Inr out \<longrightarrow> out = payload_messages ms \<and>
       ms = (if n > 0 then take (nat n) (waiting s) else waiting s))"
proof -
  let ?a = "\<lparr>xr_Group = grp, xr_Consumer = consumer, xr_Streams = [rs_key r, ''>''],
    xr_Count = n, xr_Block = block, xr_NoAck = False\<rparr>"
  obtain xs err where x: "XReadGroup cli ?a s = ((xs, err), s')"
    using assms by (cases "XReadGroup cli ?a s") (auto simp: redis_ReadGroup_def split: prod.splits option.splits if_splits)
  have "\<exists>ms. waiting s = ms @ waiting s' \<and> pending s' = pending s @ ms \<and> (known s \<longrightarrow> known s') \<and>
      xlen s' = xlen s \<and> (no_error err \<longrightarrow> concat (map xs_Messages xs) = ms \<and>
      ms = (if n > 0 then take (nat n) (waiting s) else waiting s))"
    using read_law [OF x] by (simp only: XReadGroupArgs.simps simp_thms)
  then obtain ms where step: "waiting s = ms @ waiting s' \<and> pending s' = pending s @ ms \<and>
      (known s \<longrightarrow> known s') \<and> xlen s' = xlen s \<and> (no_error err \<longrightarrow> concat (map xs_Messages xs) = ms \<and>
      ms = (if n > 0 then take (nat n) (waiting s) else waiting s))" ..
  note ms = step [THEN conjunct1] step [THEN conjunct2, THEN conjunct1]
    step [THEN conjunct2, THEN conjunct2, THEN conjunct1]
    step [THEN conjunct2, THEN conjunct2, THEN conjunct2, THEN conjunct1]
  have out: "no_error err \<longrightarrow> concat (map xs_Messages xs) = ms \<and>
      ms = (if n > 0 then take (nat n) (waiting s) else waiting s)"
    using step by (elim conjE)
  from assms x have "res = Inr out \<Longrightarrow> no_error err \<and> out = payload_messages (concat (map xs_Messages xs))" for out
    by (auto simp: redis_ReadGroup_def map_xs_Messages_concat split: option.splits if_splits)
  with out have "\<forall>out. res = Inr out \<longrightarrow> out = payload_messages ms \<and>
      ms = (if n > 0 then take (nat n) (waiting s) else waiting s)" by metis
  with ms show ?thesis by (intro exI [of _ ms] conjI)
qed

lemma redis_ack_law:
  assumes "redis_Ack cli r grp ids s = (e, s')"
  shows "waiting s' = waiting s" and "known s \<Longrightarrow> known s'" and "xlen s' = xlen s"
    and "pending s' = filter (\<lambda>m. xm_ID m \<notin> set ids) (pending s) \<or> e \<noteq> None \<and> pending s' = pending s"
proof -
  have "waiting s' = waiting s \<and> (known s \<longrightarrow> known s') \<and> xlen s' = xlen s \<and>
    (pending s' = filter (\<lambda>m. xm_ID m \<notin> set ids) (pending s) \<or> e \<noteq> None \<and> pending s' = pending s)"
    using assms by (auto simp: redis_Ack_def split: if_splits prod.splits dest: ack_law)
  then show "waiting s' = waiting s" and "known s \<Longrightarrow> known s'" and "xlen s' = xlen s"
    and "pending s' = filter (\<lambda>m. xm_ID m \<notin> set ids) (pending s) \<or> e \<noteq> None \<and> pending s' = pending s"
    by auto
qed

lemma redis_claim_law:
  assumes "redis_AutoClaim cli r grp consumer idle n s = (res, s')"
  shows "waiting s' = waiting s" and "pending s' = pending s" and "known s \<Longrightarrow> known s'"
    and "xlen s' = xlen s" and "res = Inr out \<Longrightarrow> set out \<subseteq> set (payload_messages (pending s))"
proof -
  let ?a = "\<lparr>xc_Stream = rs_key r, xc_Group = grp, xc_Consumer = consumer, xc_MinIdle = idle,
    xc_Start = ''0-0'', xc_Count = n\<rparr>"
  obtain xs err where x: "XAutoClaim cli ?a s = ((xs, err), s')"
    using assms by (cases "XAutoClaim cli ?a s") (auto simp: redis_AutoClaim_def split: prod.splits option.splits if_splits)
  note law = claim_law [OF x, simplified]
  from law show "waiting s' = waiting s" and "pending s' = pending s" and "known s \<Longrightarrow> known s'"
    and "xlen s' = xlen s" by auto
  from assms x have "res = Inr out \<Longrightarrow>
      out = payload_messages xs \<and> (\<forall>e. err = Some e \<longrightarrow> redis_error_Is e RedisNil)"
    by (auto simp: redis_AutoClaim_def split: option.splits if_splits)
  with law show "res = Inr out \<Longrightarrow> set out \<subseteq> set (payload_messages (pending s))"
    by (simp add: payload_messages_mono)
qed

end

lemma redis_Ack_nil: "redis_Ack cli r grp [] s = (None, s)"
  by (simp add: redis_Ack_def)

sublocale stream_server \<subseteq> redis: work_queue "RedisStreams_Queue cli r" grp "\<lambda>s. xm_ID ` set (pending s)"
proof
  fix s ids s' assume "q_Ack (RedisStreams_Queue cli r) grp ids s = (None, s')"
  then have "pending s' = filter (\<lambda>m. xm_ID m \<notin> set ids) (pending s)"
    using redis_ack_law(4) by (auto simp: queue_ops)
  then show "xm_ID ` set (pending s') = xm_ID ` set (pending s) - set ids" by auto
next
  fix s ids e s' assume "q_Ack (RedisStreams_Queue cli r) grp ids s = (e, s')"
  then have "pending s' = filter (\<lambda>m. xm_ID m \<notin> set ids) (pending s) \<or> pending s' = pending s"
    using redis_ack_law(4) by (auto simp: queue_ops)
  then show "xm_ID ` set (pending s) - set ids \<subseteq> xm_ID ` set (pending s')" by auto
next
  fix consumer n block s ms s'
  assume "q_ReadGroup (RedisStreams_Queue cli r) grp consumer n block s = (Inr ms, s')"
  from redis_read_law [OF this [unfolded queue_ops]] obtain new where
    "pending s' = pending s @ new" "ms = payload_messages new" by blast
  with payload_messages_ids [of new]
  show "xm_ID ` set (pending s) \<union> msg_ID ` set ms \<subseteq> xm_ID ` set (pending s')" by auto
next
  fix consumer n block s err s'
  assume "q_ReadGroup (RedisStreams_Queue cli r) grp consumer n block s = (Inl err, s')"
  from redis_read_law [OF this [unfolded queue_ops]]
  show "xm_ID ` set (pending s) \<subseteq> xm_ID ` set (pending s')" by auto
next
  fix consumer idle n s ms s'
  assume "q_AutoClaim (RedisStreams_Queue cli r) grp consumer idle n s = (Inr ms, s')"
  then have "pending s' = pending s" and "set ms \<subseteq> set (payload_messages (pending s))"
    using redis_claim_law(2,5) by (auto simp: queue_ops)
  with payload_messages_ids [of "pending s"]
  show "xm_ID ` set (pending s) \<union> msg_ID ` set ms \<subseteq> xm_ID ` set (pending s')" by auto
next
  fix consumer idle n s err s'
  assume "q_AutoClaim (RedisStreams_Queue cli r) grp consumer idle n s = (Inl err, s')"
  then have "pending s' = pending s" using redis_claim_law(2) by (auto simp: queue_ops)
  then show "xm_ID ` set (pending s) \<subseteq> xm_ID ` set (pending s')" by simp
qed (simp add: queue_ops redis_Ack_nil)

section \<open>Runs over the stream\<close>

text \<open>
  The calls of all dispatchers and workers on one stream, in the order they reach the server:
  what was enqueued with success, what was tried, what was handed out, what was acknowledged.
\<close>

datatype queue_op =
    OpEnsure | OpEnqueue "json option" | OpRead string int int | OpAck "string list" | OpClaim string int int

record 'st queue_trace =
  qt_state :: 'st
  qt_sent :: "Message list"
  qt_tried :: "json option list"
  qt_got :: "Message list"
  qt_acked :: "string list"

fun queue_exec :: "'st Queue \<Rightarrow> string \<Rightarrow> queue_op \<Rightarrow> 'st queue_trace \<Rightarrow> 'st queue_trace" where
  "queue_exec q grp OpEnsure t = t\<lparr>qt_state := snd (q_EnsureGroup q grp (qt_state t))\<rparr>"
| "queue_exec q grp (OpEnqueue p) t =
    (case q_Enqueue q p (qt_state t) of
       (Inl err, s') \<Rightarrow> t\<lparr>qt_state := s', qt_tried := qt_tried t @ [p]\<rparr>
     | (Inr i, s') \<Rightarrow> t\<lparr>qt_state := s', qt_tried := qt_tried t @ [p],
                       qt_sent := qt_sent t @ [\<lparr>msg_ID = i, msg_Payload = p\<rparr>]\<rparr>)"
| "queue_exec q grp (OpRead consumer n block) t =
    (case q_ReadGroup q grp consumer n block (qt_state t) of
       (Inl err, s') \<Rightarrow> t\<lparr>qt_state := s'\<rparr>
     | (Inr ms, s') \<Rightarrow> t\<lparr>qt_state := s', qt_got := qt_got t @ ms\<rparr>)"
| "queue_exec q grp (OpAck ids) t =
    t\<lparr>qt_state := snd (q_Ack q grp ids (qt_state t)), qt_acked := qt_acked t @ ids\<rparr>"
| "queue_exec q grp (OpClaim consumer idle n) t =
    (case q_AutoClaim q grp consumer idle n (qt_state t) of
       (Inl err, s') \<Rightarrow> t\<lparr>qt_state := s'\<rparr>
     | (Inr ms, s') \<Rightarrow> t\<lparr>qt_state := s', qt_got := qt_got t @ ms\<rparr>)"

definition queue_run :: "'st Queue \<Rightarrow> string \<Rightarrow> queue_op list \<Rightarrow> 'st \<Rightarrow> 'st queue_trace" where
  "queue_run q grp ops s =
    foldl (\<lambda>t op. queue_exec q grp op t)
      \<lparr>qt_state = s, qt_sent = [], qt_tried = [], qt_got = [], qt_acked = []\<rparr> ops"

fun is_enqueue :: "queue_op \<Rightarrow> bool" where
  "is_enqueue (OpEnqueue p) = True"
| "is_enqueue _ = False"

lemma queue_run_nil: "queue_run q grp [] s = \<lparr>qt_state = s, qt_sent = [], qt_tried = [], qt_got = [], qt_acked = []\<rparr>"
  by (simp add: queue_run_def)

lemma queue_run_snoc: "queue_run q grp (ops @ [op]) s = queue_exec q grp op (queue_run q grp ops s)"
  by (simp add: queue_run_def)

context stream_server
begin

definition held :: "'s \<Rightarrow> XMessage list" where
  "held s = waiting s @ pending s"

text \<open>
  The invariant of a run: a message whose addition succeeded is still held, with its payload,
  unless it was acknowledged, and whatever is held or was handed out carries a payload that
  somebody sent.
\<close>

definition conserved :: "'s \<Rightarrow> 's queue_trace \<Rightarrow> bool" where
  "conserved s0 t \<longleftrightarrow>
     (\<forall>m\<in>set (payload_messages (held s0)) \<union> set (qt_sent t).
        msg_ID m \<in> set (qt_acked t) \<or> m \<in> set (payload_messages (held (qt_state t)))) \<and>
     msg_Payload ` (set (payload_messages (held (qt_state t))) \<union> set (qt_got t)) \<subseteq>
       msg_Payload ` set (payload_messages (held s0)) \<union> set (qt_tried t)"

lemma conserved_moved:
  assumes c: "conserved s0 t"
    and lost: "\<And>m. m \<in> set (held (qt_state t)) \<Longrightarrow> xm_ID m \<in> set ids \<or> m \<in> set (held s')"
    and new: "set (held s') \<subseteq> set (held (qt_state t))"
    and got: "set ms \<subseteq> set (payload_messages (held (qt_state t)))"
  shows "conserved s0 (t\<lparr>qt_state := s', qt_got := qt_got t @ ms, qt_acked := qt_acked t @ ids\<rparr>)"
proof -
  have keep: "m \<in> set (payload_messages xs) \<Longrightarrow> (\<And>x. x \<in> set xs \<Longrightarrow> xm_ID x \<in> A \<or> x \<in> set ys) \<Longrightarrow>
      msg_ID m \<in> A \<or> m \<in> set (payload_messages ys)" for m xs ys and A :: "string set"
  proof (induction xs)
    case (Cons x xs)
    have "m \<in> set (payload_messages [x]) \<Longrightarrow> x \<in> set ys \<Longrightarrow> m \<in> set (payload_messages ys)"
      using payload_messages_mono [of "[x]" ys] by auto
    moreover have "m \<in> set (payload_messages [x]) \<Longrightarrow> msg_ID m = xm_ID x"
      using payload_messages_ids [of "[x]"] by auto
    ultimately show ?case
      using Cons payload_messages_append [of "[x]" xs] by (metis Un_iff append_Cons append_Nil list.set_intros set_append)
  qed simp
  have A: "msg_ID m \<in> set (qt_acked t @ ids) \<or> m \<in> set (payload_messages (held s'))"
    if "m \<in> set (payload_messages (held s0)) \<union> set (qt_sent t)" for m
  proof (cases "msg_ID m \<in> set (qt_acked t)")
    case False
    with that c have "m \<in> set (payload_messages (held (qt_state t)))" by (auto simp: conserved_def)
    from keep [OF this lost] show ?thesis by auto
  qed simp
  from payload_messages_mono [OF new] got c
  have B: "msg_Payload ` (set (payload_messages (held s')) \<union> set (qt_got t @ ms)) \<subseteq>
      msg_Payload ` set (payload_messages (held s0)) \<union> set (qt_tried t)"
    unfolding conserved_def by auto blast+
  from A B show ?thesis by (simp add: conserved_def)
qed

lemma conserved_add:
  assumes c: "conserved s0 t"
    and new: "waiting s' = waiting (qt_state t) \<or> (\<exists>i. waiting s' = waiting (qt_state t) @ [entry_of i
      \<lparr>xa_Stream = k, xa_Values = [(''p'', RawBytes p)], xa_MaxLen = n\<rparr>])"
    and pe: "pending s' = pending (qt_state t)"
    and sent: "set ms \<subseteq> set (payload_messages (held s'))"
  shows "conserved s0 (t\<lparr>qt_state := s', qt_tried := qt_tried t @ [p], qt_sent := qt_sent t @ ms\<rparr>)"
proof -
  from new pe have old: "set (payload_messages (held (qt_state t))) \<subseteq> set (payload_messages (held s'))"
    and fresh: "msg_Payload ` set (payload_messages (held s')) \<subseteq>
      insert p (msg_Payload ` set (payload_messages (held (qt_state t))))"
    by (auto simp: held_def payload_messages_append entry_of_def reply_values_def)
  have "msg_ID m \<in> set (qt_acked t) \<or> m \<in> set (payload_messages (held s'))"
    if "m \<in> set (payload_messages (held s0)) \<union> set (qt_sent t @ ms)" for m
    using that c old sent unfolding conserved_def by auto
  moreover have "msg_Payload ` (set (payload_messages (held s')) \<union> set (qt_got t)) \<subseteq>
      msg_Payload ` set (payload_messages (held s0)) \<union> set (qt_tried t @ [p])"
  proof -
    from c have "msg_Payload ` set (payload_messages (held (qt_state t))) \<subseteq>
        msg_Payload ` set (payload_messages (held s0)) \<union> set (qt_tried t)"
      and "msg_Payload ` set (qt_got t) \<subseteq>
        msg_Payload ` set (payload_messages (held s0)) \<union> set (qt_tried t)"
      unfolding conserved_def image_Un by simp_all
    with fresh show ?thesis unfolding image_Un set_append by (simp add: subset_insertI2) blast
  qed
  ultimately show ?thesis by (simp add: conserved_def)
qed

lemma conserved_exec:
  assumes c: "conserved s0 t" and k: "known (qt_state t)"
    and room: "rs_maxLen r \<le> 0 \<or> \<not> is_enqueue op \<or> xlen (qt_state t) < rs_maxLen r"
  shows "conserved s0 (queue_exec (RedisStreams_Queue cli r) grp op t) \<and>
    known (qt_state (queue_exec (RedisStreams_Queue cli r) grp op t)) \<and>
    xlen (qt_state (queue_exec (RedisStreams_Queue cli r) grp op t)) \<le>
      xlen (qt_state t) + (if is_enqueue op then 1 else 0)"
proof (cases op)
  case OpEnsure
  obtain e s' where x: "XGroupCreateMkStream cli (rs_key r) grp ''$'' (qt_state t) = (e, s')" by fastforce
  from group_law [OF x] k have "waiting s' = waiting (qt_state t)" "pending s' = pending (qt_state t)"
    "known s'" "xlen s' = xlen (qt_state t)" by auto
  with OpEnsure x conserved_moved [OF c, of "[]" s' "[]"] show ?thesis
    by (simp add: queue_ops redis_EnsureGroup_def held_def)
next
  case (OpEnqueue p)
  let ?a = "\<lparr>xa_Stream = rs_key r, xa_Values = [(''p'', RawBytes p)],
    xa_MaxLen = (if rs_maxLen r > 0 then rs_maxLen r else 0)\<rparr>"
  obtain res s' where x: "XAdd cli ?a (qt_state t) = (res, s')" by fastforce
  have q: "redis_Enqueue cli r p (qt_state t) = (map_sum redis_error_text id res, s')"
    using x by (simp add: redis_Enqueue_def split: if_splits)
  from room OpEnqueue have bound: "xa_MaxLen ?a \<le> 0 \<or> xlen (qt_state t) < xa_MaxLen ?a" by auto
  show ?thesis
  proof (cases res)
    case (Inl e)
    from add_error [OF x [unfolded Inl] _ k bound] have n: "waiting s' = waiting (qt_state t) \<or>
        (\<exists>i. waiting s' = waiting (qt_state t) @ [entry_of i ?a])" and p: "pending s' = pending (qt_state t)"
      and "known s'" "xlen s' \<le> xlen (qt_state t) + 1" by simp_all
    with conserved_add [OF c n p, of "[]"] OpEnqueue q Inl show ?thesis
      by (simp add: queue_ops)
  next
    case (Inr i)
    from add_ok [OF x [unfolded Inr] _ k bound] have w: "waiting s' = waiting (qt_state t) @ [entry_of i ?a]"
      and p: "pending s' = pending (qt_state t)" and "known s'" "xlen s' = xlen (qt_state t) + 1" by simp_all
    from w have n: "waiting s' = waiting (qt_state t) \<or>
        (\<exists>i. waiting s' = waiting (qt_state t) @ [entry_of i ?a])" by blast
    have "set [\<lparr>msg_ID = i, msg_Payload = p\<rparr>] \<subseteq> set (payload_messages (held s'))"
      by (simp add: held_def w payload_messages_append entry_of_def reply_values_def)
    from conserved_add [OF c n p this] OpEnqueue q Inr \<open>known s'\<close> \<open>xlen s' = xlen (qt_state t) + 1\<close>
    show ?thesis by (simp add: queue_ops)
  qed
next
  case (OpRead consumer n block)
  obtain res s' where x: "redis_ReadGroup cli r grp consumer n block (qt_state t) = (res, s')" by fastforce
  from redis_read_law [OF x] obtain ms where ms: "waiting (qt_state t) = ms @ waiting s'"
    "pending s' = pending (qt_state t) @ ms" "known s'" "xlen s' = xlen (qt_state t)"
    "\<And>out. res = Inr out \<Longrightarrow> out = payload_messages ms" using k by blast
  have same: "set (held s') = set (held (qt_state t))" by (auto simp: held_def ms(1,2))
  have sub: "set (payload_messages ms) \<subseteq> set (payload_messages (held (qt_state t)))"
    by (rule payload_messages_mono) (auto simp: held_def ms(1))
  from x OpRead ms(3,4,5) conserved_moved [OF c, of "[]" s' "[]"] conserved_moved [OF c, of "[]" s' "payload_messages ms"]
    same sub show ?thesis by (cases res) (simp_all add: queue_ops)
next
  case (OpAck ids)
  obtain e s' where x: "redis_Ack cli r grp ids (qt_state t) = (e, s')" by fastforce
  note law = redis_ack_law [OF x]
  from law(1,4) have "m \<in> set (held (qt_state t)) \<Longrightarrow> xm_ID m \<in> set ids \<or> m \<in> set (held s')" for m
    by (auto simp: held_def)
  moreover from law(1,4) have "set (held s') \<subseteq> set (held (qt_state t))" by (auto simp: held_def)
  ultimately show ?thesis
    using x OpAck law(2) [OF k] law(3) conserved_moved [OF c, of ids s' "[]"] by (simp add: queue_ops)
next
  case (OpClaim consumer idle n)
  obtain res s' where x: "redis_AutoClaim cli r grp consumer idle n (qt_state t) = (res, s')" by fastforce
  note law = redis_claim_law [OF x]
  have same: "held s' = held (qt_state t)" using law(1,2) by (simp add: held_def)
  have sub: "res = Inr out \<Longrightarrow> set out \<subseteq> set (payload_messages (held (qt_state t)))" for out
    using law(5) [of out] payload_messages_mono [of "pending (qt_state t)" "held (qt_state t)"]
    by (auto simp: held_def)
  show ?thesis
  proof (cases res)
    case (Inl err)
    with x OpClaim law(3) [OF k] law(4) conserved_moved [OF c, of "[]" s' "[]"] same show ?thesis
      by (simp add: queue_ops)
  next
    case (Inr out)
    with x OpClaim law(3) [OF k] law(4) conserved_moved [OF c, of "[]" s' out] same sub [OF Inr] show ?thesis
      by (simp add: queue_ops)
  qed
qed

lemma conserved_run:
  assumes "known s" and "rs_maxLen r \<le> 0 \<or> xlen s + int (length (filter is_enqueue ops)) \<le> rs_maxLen r"
  shows "conserved s (queue_run (RedisStreams_Queue cli r) grp ops s) \<and>
    known (qt_state (queue_run (RedisStreams_Queue cli r) grp ops s)) \<and>
    xlen (qt_state (queue_run (RedisStreams_Queue cli r) grp ops s)) \<le>
      xlen s + int (length (filter is_enqueue ops))"
  using assms(2)
proof (induction ops rule: rev_induct)
  case Nil
  with assms(1) show ?case by (simp add: queue_run_nil conserved_def)
next
  case (snoc op ops)
  let ?t = "queue_run (RedisStreams_Queue cli r) grp ops s"
  from snoc have IH: "conserved s ?t \<and> known (qt_state ?t) \<and>
      xlen (qt_state ?t) \<le> xlen s + int (length (filter is_enqueue ops))" by (auto split: if_splits)
  with snoc.prems have "rs_maxLen r \<le> 0 \<or> \<not> is_enqueue op \<or> xlen (qt_state ?t) < rs_maxLen r"
    by (auto split: if_splits)
  from conserved_exec [OF _ _ this, of s] IH show ?case
    by (auto simp: queue_run_snoc split: if_splits)
qed

text \<open>Reads that succeed hand out the waiting entries first in, first out.\<close>

lemma redis_reads:
  assumes "\<And>i. i < k \<Longrightarrow> \<exists>out. fst (redis_ReadGroup cli r grp consumer n block
      (((\<lambda>s. snd (redis_ReadGroup cli r grp consumer n block s)) ^^ i) s)) = Inr out" and "0 < n"
  shows "waiting (((\<lambda>s. snd (redis_ReadGroup cli r grp consumer n block s)) ^^ k) s) = drop (k * nat n) (waiting s)"
  using assms(1)
proof (induction k)
  case (Suc k)
  let ?f = "\<lambda>s. snd (redis_ReadGroup cli r grp consumer n block s)"
  let ?s = "(?f ^^ k) s"
  from Suc have IH: "waiting ?s = drop (k * nat n) (waiting s)" by simp
  from Suc.prems [of k] obtain out where out: "redis_ReadGroup cli r grp consumer n block ?s = (Inr out, ?f ?s)"
    by (metis lessI prod.collapse)
  from redis_read_law [OF out] assms(2) have "waiting ?s = take (nat n) (waiting ?s) @ waiting (?f ?s)" by auto
  then have "waiting (?f ?s) = drop (nat n) (waiting ?s)" by (metis append_take_drop_id same_append_eq)
  with IH show ?case by (simp add: add.commute)
qed simp

end

section \<open>A server that keeps the promise\<close>

text \<open>
  An instance on which the contract can be seen to hold and runs can be evaluated: one stream
  kept as a list, identifiers from a counter, and the groups with their entries. Idle times are
  not kept: every pending entry counts as idle long enough.
\<close>

record mem_group =
  mg_waiting :: "XMessage list"
  mg_pending :: "XMessage list"

record mem_stream =
  mem_next :: nat
  mem_entries :: "XMessage list"
  mem_groups :: "(string \<times> mem_group) list"

definition mem_empty :: mem_stream where
  "mem_empty = \<lparr>mem_next = 1, mem_entries = [], mem_groups = []\<rparr>"

definition mem_group_of :: "string \<Rightarrow> mem_stream \<Rightarrow> mem_group" where
  "mem_group_of grp s =
    (case map_of (mem_groups s) grp of Some g \<Rightarrow> g | None \<Rightarrow> \<lparr>mg_waiting = [], mg_pending = []\<rparr>)"

definition mem_known :: "string \<Rightarrow> mem_stream \<Rightarrow> bool" where
  "mem_known grp s \<longleftrightarrow> map_of (mem_groups s) grp \<noteq> None"

definition set_group :: "string \<Rightarrow> mem_group \<Rightarrow> mem_stream \<Rightarrow> mem_stream" where
  "set_group grp g s = s\<lparr>mem_groups := AList.update grp g (mem_groups s)\<rparr>"

definition mem_XGroupCreate :: "string \<Rightarrow> string \<Rightarrow> string \<Rightarrow> mem_stream \<Rightarrow> redis_error option \<times> mem_stream" where
  "mem_XGroupCreate key grp start s =
    (if mem_known grp s then (Some (RedisError ''BUSYGROUP Consumer Group name already exists''), s)
     else (None, set_group grp \<lparr>mg_waiting = (if start = ''$'' then [] else mem_entries s), mg_pending = []\<rparr> s))"

definition mem_XAdd :: "XAddArgs \<Rightarrow> mem_stream \<Rightarrow> (redis_error + string) \<times> mem_stream" where
  "mem_XAdd a s =
    (let i = nat_str (mem_next s) @ ''-0'';
         entries = mem_entries s @ [entry_of i a];
         gone = (if xa_MaxLen a > 0 then take (length entries - nat (xa_MaxLen a)) entries else []);
         keep = filter (\<lambda>m. m \<notin> set gone)
     in (Inr i, \<lparr>mem_next = Suc (mem_next s), mem_entries = drop (length gone) entries,
          mem_groups = map (\<lambda>(n, g). (n, \<lparr>mg_waiting = keep (mg_waiting g @ [entry_of i a]),
                                          mg_pending = keep (mg_pending g)\<rparr>)) (mem_groups s)\<rparr>))"

definition no_group :: redis_error where
  "no_group = RedisError ''NOGROUP No such consumer group''"

definition mem_XReadGroup :: "XReadGroupArgs \<Rightarrow> mem_stream \<Rightarrow> (XStream list \<times> redis_error option) \<times> mem_stream" where
  "mem_XReadGroup a s =
    (let grp = xr_Group a; g = mem_group_of grp s;
         ms = (if xr_Count a > 0 then take (nat (xr_Count a)) (mg_waiting g) else mg_waiting g) in
     if \<not> mem_known grp s then (([], Some no_group), s)
     else if ms = [] then (([], Some RedisNil), s)
     else (([\<lparr>xs_Stream = hd (xr_Streams a), xs_Messages = ms\<rparr>], None),
           set_group grp \<lparr>mg_waiting = (if xr_Count a > 0 then drop (nat (xr_Count a)) (mg_waiting g) else []),
                          mg_pending = (if xr_NoAck a then mg_pending g else mg_pending g @ ms)\<rparr> s))"

definition mem_XAck :: "string \<Rightarrow> string \<Rightarrow> string list \<Rightarrow> mem_stream \<Rightarrow> redis_error option \<times> mem_stream" where
  "mem_XAck key grp ids s =
    (if mem_known grp s
     then (let g = mem_group_of grp s
           in (None, set_group grp (g\<lparr>mg_pending := filter (\<lambda>m. xm_ID m \<notin> set ids) (mg_pending g)\<rparr>) s))
     else (None, s))"

definition mem_XAutoClaim :: "XAutoClaimArgs \<Rightarrow> mem_stream \<Rightarrow> (XMessage list \<times> redis_error option) \<times> mem_stream" where
  "mem_XAutoClaim a s =
    (if \<not> mem_known (xc_Group a) s then (([], Some no_group), s)
     else let p = mg_pending (mem_group_of (xc_Group a) s)
          in ((if xc_Count a > 0 then take (nat (xc_Count a)) p else p, None), s))"

definition mem_redis :: "mem_stream redisCommander" where
  "mem_redis =
    \<lparr>XGroupCreateMkStream = mem_XGroupCreate, XAdd = mem_XAdd, XReadGroup = mem_XReadGroup,
     XAck = mem_XAck, XAutoClaim = mem_XAutoClaim,
     XLen = (\<lambda>key s. ((int (length (mem_entries s)), None), s)),
     XPending = (\<lambda>key grp s. if mem_known grp s
        then ((Some (int (length (mg_pending (mem_group_of grp s)))), None), s)
        else ((None, Some no_group), s)),
     XClose = (\<lambda>s. (None, s))\<rparr>"

lemma mem_set_group [simp]:
  "mem_group_of grp (set_group grp g s) = g" "mem_known grp (set_group grp g s)"
  "mem_entries (set_group grp g s) = mem_entries s"
  by (simp_all add: mem_group_of_def mem_known_def set_group_def update_conv')

lemma mem_group_unknown: "\<not> mem_known grp s \<Longrightarrow> mem_group_of grp s = \<lparr>mg_waiting = [], mg_pending = []\<rparr>"
  by (simp add: mem_group_of_def mem_known_def)

lemma mem_XAdd_room:
  assumes "xa_MaxLen a \<le> 0 \<or> int (length (mem_entries s)) < xa_MaxLen a" and "mem_known grp s"
    and "mem_XAdd a s = (res, s')"
  shows "\<exists>i. res = Inr i \<and>
     mg_waiting (mem_group_of grp s') = mg_waiting (mem_group_of grp s) @ [entry_of i a] \<and>
     mg_pending (mem_group_of grp s') = mg_pending (mem_group_of grp s) \<and> mem_known grp s' \<and>
     length (mem_entries s') = Suc (length (mem_entries s))"
proof -
  from assms(1) have "xa_MaxLen a > 0 \<Longrightarrow> Suc (length (mem_entries s)) - nat (xa_MaxLen a) = 0" by linarith
  with assms(2,3) show ?thesis
    by (auto simp: mem_XAdd_def mem_group_of_def mem_known_def Let_def map_of_map split: if_splits)
qed

interpretation mem: stream_server mem_redis r grp
  "\<lambda>s. mg_waiting (mem_group_of grp s)" "\<lambda>s. mg_pending (mem_group_of grp s)"
  "\<lambda>s. int (length (mem_entries s))" "mem_known grp" for r grp
proof
  fix a :: XAddArgs and s i s' assume "XAdd mem_redis a s = (Inr i, s')" "xa_Stream a = rs_key r"
    "mem_known grp s" "xa_MaxLen a \<le> 0 \<or> int (length (mem_entries s)) < xa_MaxLen a"
  then show "mg_waiting (mem_group_of grp s') = mg_waiting (mem_group_of grp s) @ [entry_of i a] \<and>
      mg_pending (mem_group_of grp s') = mg_pending (mem_group_of grp s) \<and> mem_known grp s' \<and>
      int (length (mem_entries s')) = int (length (mem_entries s)) + 1"
    using mem_XAdd_room [of a s grp "Inr i" s'] by (auto simp: mem_redis_def)
next
  fix a :: XAddArgs and s e s' assume "XAdd mem_redis a s = (Inl e, s')"
  then show "(mg_waiting (mem_group_of grp s') = mg_waiting (mem_group_of grp s) \<or>
      (\<exists>i. mg_waiting (mem_group_of grp s') = mg_waiting (mem_group_of grp s) @ [entry_of i a])) \<and>
      mg_pending (mem_group_of grp s') = mg_pending (mem_group_of grp s) \<and> mem_known grp s' \<and>
      int (length (mem_entries s')) \<le> int (length (mem_entries s)) + 1"
    by (simp add: mem_redis_def mem_XAdd_def Let_def)
next
  fix ra s xs err s' assume "XReadGroup mem_redis ra s = ((xs, err), s')" "xr_Group ra = grp" "\<not> xr_NoAck ra"
  then show "\<exists>ms. mg_waiting (mem_group_of grp s) = ms @ mg_waiting (mem_group_of grp s') \<and>
      mg_pending (mem_group_of grp s') = mg_pending (mem_group_of grp s) @ ms \<and>
      (mem_known grp s \<longrightarrow> mem_known grp s') \<and> int (length (mem_entries s')) = int (length (mem_entries s)) \<and>
      (no_error err \<longrightarrow> concat (map xs_Messages xs) = ms \<and>
       ms = (if xr_Count ra > 0 then take (nat (xr_Count ra)) (mg_waiting (mem_group_of grp s))
             else mg_waiting (mem_group_of grp s)))"
    by (auto simp: mem_redis_def mem_XReadGroup_def Let_def no_group_def mem_group_unknown split: if_splits)
next
  fix ids s err s' assume "XAck mem_redis (rs_key r) grp ids s = (err, s')"
  then show "mg_waiting (mem_group_of grp s') = mg_waiting (mem_group_of grp s) \<and>
      (mem_known grp s \<longrightarrow> mem_known grp s') \<and> int (length (mem_entries s')) = int (length (mem_entries s)) \<and>
      (mg_pending (mem_group_of grp s') = filter (\<lambda>m. xm_ID m \<notin> set ids) (mg_pending (mem_group_of grp s)) \<or>
       err \<noteq> None \<and> mg_pending (mem_group_of grp s') = mg_pending (mem_group_of grp s))"
    by (auto simp: mem_redis_def mem_XAck_def Let_def mem_group_unknown split: if_splits)
next
  fix ca s cs err s' assume "XAutoClaim mem_redis ca s = ((cs, err), s')" "xc_Group ca = grp"
  then show "mg_waiting (mem_group_of grp s') = mg_waiting (mem_group_of grp s) \<and>
      mg_pending (mem_group_of grp s') = mg_pending (mem_group_of grp s) \<and>
      (mem_known grp s \<longrightarrow> mem_known grp s') \<and> int (length (mem_entries s')) = int (length (mem_entries s)) \<and>
      ((\<forall>e. err = Some e \<longrightarrow> redis_error_Is e RedisNil) \<longrightarrow>
       set cs \<subseteq> set (mg_pending (mem_group_of grp s)) \<and> (xc_Count ca > 0 \<longrightarrow> int (length cs) \<le> xc_Count ca))"
    by (auto simp: mem_redis_def mem_XAutoClaim_def Let_def mem_group_unknown split: if_splits dest: in_set_takeD)
next
  fix start s err s' assume "XGroupCreateMkStream mem_redis (rs_key r) grp start s = (err, s')"
  then show "(err = None \<longrightarrow> mem_known grp s') \<and>
      (mem_known grp s \<longrightarrow> mg_waiting (mem_group_of grp s') = mg_waiting (mem_group_of grp s) \<and>
       mg_pending (mem_group_of grp s') = mg_pending (mem_group_of grp s) \<and> mem_known grp s' \<and>
       int (length (mem_entries s')) = int (length (mem_entries s)))"
    by (auto simp: mem_redis_def mem_XGroupCreate_def split: if_splits)
qed

end
