(* ===== verification/Kube_Settings.thy ===== *)
theory Kube_Settings
  imports Kube_Messaging "HOL-Library.Char_ord" "HOL-Library.List_Lexorder"
begin

text \<open>
  The configuration of the server: \<open>config/config.go\<close>, the overrides from the environment of
  \<open>config/env.go\<close>, the start-up options of \<open>cmd/server/app\<close> and the choice of the queue in
  \<open>server.go\<close>. The lemmas say which configurations are accepted, that the defaults are, and
  what an accepted configuration guarantees to the parts that read it.

  A floating-point setting is kept as the text that denotes it; nothing computes with it.
\<close>

section \<open>The configuration\<close>

record leaderConfig =
  lc_ID :: string
  lc_LockName :: string
  lc_Duration :: int
  lc_Namespace :: string

record CORSConfig =
  co_AllowedOrigins :: "string list"
  co_AllowedMethods :: "string list"
  co_AllowedHeaders :: "string list"
  co_ExposedHeaders :: "string list"
  co_AllowCredentials :: bool
  co_MaxAge :: int

record DatastoreConfig =
  dc_Type :: string
  dc_URL :: string
  dc_Database :: string
  dc_MaxIdleConns :: int
  dc_MaxOpenConns :: int
  dc_ConnMaxLifetime :: int
  dc_ConnMaxIdleTime :: int

record RedisCacheConfig =
  cc_CacheHost :: string
  cc_CacheProt :: int
  cc_CacheType :: string
  cc_CacheDB :: int
  cc_UserName :: string
  cc_Password :: string
  cc_CacheTTL :: int
  cc_KeyPrefix :: string

record MessagingConfig =
  mc_Type :: string
  mc_ChannelPrefix :: string
  mc_RedisStreamMaxLen :: int
  mc_KafkaBrokers :: "string list"
  mc_KafkaGroupID :: string
  mc_KafkaAutoOffsetReset :: string

record Config =
  cf_BindAddr :: string
  cf_DTMAddr :: string
  cf_Datastore :: DatastoreConfig
  cf_Cache :: RedisCacheConfig
  cf_IstioEnable :: bool
  cf_EnableTracing :: bool
  cf_AutoTracing :: bool
  cf_JaegerEndpoint :: string
  cf_AddonCacheTime :: int
  cf_LeaderConfig :: leaderConfig
  cf_KubeBurst :: int
  cf_KubeQPS :: string
  cf_ExitOnLostLeader :: bool
  cf_Messaging :: MessagingConfig
  cf_Workflow :: WorkflowRuntimeConfig
  cf_CORS :: CORSConfig

definition Hour :: int where "Hour = 60 * Minute"

definition SystemNamespace :: string where "SystemNamespace = ''kubemin-system''"

definition DBNameKubeMinCLI :: string where "DBNameKubeMinCLI = ''kubemincli''"

text \<open>\<open>NewConfig\<close>; its argument is the fresh identifier of this instance.\<close>

definition NewConfig :: "string \<Rightarrow> Config" where
  "NewConfig uuid =
    \<lparr>cf_BindAddr = ''0.0.0.0:8000'', cf_DTMAddr = '''',
     cf_Datastore = \<lparr>dc_Type = ''mysql'',
       dc_URL = ''root:123456@tcp(127.0.0.1:3306)/'' @ DBNameKubeMinCLI @ ''?charset=utf8&parseTime=true'',
       dc_Database = DBNameKubeMinCLI, dc_MaxIdleConns = 10, dc_MaxOpenConns = 100,
       dc_ConnMaxLifetime = 30 * Minute, dc_ConnMaxIdleTime = 10 * Minute\<rparr>,
     cf_Cache = \<lparr>cc_CacheHost = ''localhost'', cc_CacheProt = 6379, cc_CacheType = ''redis'', cc_CacheDB = 0,
       cc_UserName = '''', cc_Password = '''', cc_CacheTTL = 24 * Hour, cc_KeyPrefix = ''kubemin:cache:''\<rparr>,
     cf_IstioEnable = False, cf_EnableTracing = True, cf_AutoTracing = False, cf_JaegerEndpoint = '''',
     cf_AddonCacheTime = 10 * Minute,
     cf_LeaderConfig = \<lparr>lc_ID = uuid, lc_LockName = ''apiserver-lock'', lc_Duration = 60 * Minute,
       lc_Namespace = SystemNamespace\<rparr>,
     cf_KubeBurst = 300, cf_KubeQPS = ''100'', cf_ExitOnLostLeader = True,
     cf_Messaging = \<lparr>mc_Type = ''redis'', mc_ChannelPrefix = '''', mc_RedisStreamMaxLen = 50000,
       mc_KafkaBrokers = [], mc_KafkaGroupID = '''', mc_KafkaAutoOffsetReset = ''''\<rparr>,
     cf_Workflow = \<lparr>wr_SequentialMaxConcurrency = 1, wr_LocalPollInterval = 3 * Second,
       wr_DispatchPollInterval = 3 * Second, wr_WorkerStaleInterval = 15 * Second,
       wr_WorkerAutoClaimMinIdle = 60 * Second, wr_WorkerAutoClaimCount = 50, wr_WorkerReadCount = 10,
       wr_WorkerReadBlock = 2 * Second, wr_DefaultJobTimeout = 60 * Second,
       wr_MaxConcurrentWorkflows = DefaultMaxConcurrentWorkflows, wr_WorkerMaxReadFailures = 0,
       wr_WorkerMaxClaimFailures = 0, wr_WorkerBackoffMin = 200 * Millisecond, wr_WorkerBackoffMax = 5 * Minute\<rparr>,
     cf_CORS = \<lparr>co_AllowedOrigins = [''*''],
       co_AllowedMethods = [''GET'', ''POST'', ''PUT'', ''PATCH'', ''DELETE'', ''OPTIONS''],
       co_AllowedHeaders = [''Content-Type'', ''Authorization'', ''Accept'', ''Origin'', ''X-Requested-With''],
       co_ExposedHeaders = [], co_AllowCredentials = False, co_MaxAge = 12 * Hour\<rparr>\<rparr>"

section \<open>Validation\<close>

definition check :: "bool \<Rightarrow> string \<Rightarrow> string list" where
  "check bad err = (if bad then [err] else [])"

definition validate_messaging :: "Config \<Rightarrow> string list" where
  "validate_messaging c =
    (let msgType = ToLower (TrimSpace (mc_Type (cf_Messaging c))) in
     if msgType = '''' \<or> msgType = ''noop'' then []
     else if msgType = ''redis'' then
       check (TrimSpace (cc_CacheHost (cf_Cache c)) = '''')
         ''redis cache host cannot be empty when messaging type is redis'' @
       check (cc_CacheProt (cf_Cache c) \<le> 0) ''redis cache port must be > 0 when messaging type is redis''
     else if msgType = ''kafka'' then
       check (mc_KafkaBrokers (cf_Messaging c) = []) ''kafka brokers cannot be empty when messaging type is kafka'' @
       (let offsetReset = ToLower (TrimSpace (mc_KafkaAutoOffsetReset (cf_Messaging c))) in
        check (offsetReset \<noteq> '''' \<and> offsetReset \<noteq> ''earliest'' \<and> offsetReset \<noteq> ''latest'')
          (''kafka auto offset reset must be '' @ [CHR 0x27] @ ''earliest'' @ [CHR 0x27] @ '' or '' @ [CHR 0x27] @
             ''latest'' @ [CHR 0x27] @ '', got: '' @ mc_KafkaAutoOffsetReset (cf_Messaging c)))
     else [''unsupported messaging type: '' @ mc_Type (cf_Messaging c)])"

definition Validate :: "Config \<Rightarrow> string list" where
  "Validate c =
     check (TrimSpace (cf_BindAddr c) = '''') ''bind address cannot be empty'' @
     check (dc_Type (cf_Datastore c) = ''mysql'' \<and> TrimSpace (dc_URL (cf_Datastore c)) = '''')
       ''mysql url cannot be empty'' @
     check (cc_CacheType (cf_Cache c) = ''redis'' \<and>
            (TrimSpace (cc_CacheHost (cf_Cache c)) = '''' \<or> cc_CacheProt (cf_Cache c) \<le> 0))
       ''redis cache host/port is invalid'' @
     check (wr_SequentialMaxConcurrency (cf_Workflow c) \<le> 0)
       ''workflow sequential max concurrency must be >= 1'' @
     check (wr_LocalPollInterval (cf_Workflow c) \<le> 0) ''workflow local poll interval must be > 0'' @
     check (wr_DispatchPollInterval (cf_Workflow c) \<le> 0) ''workflow dispatch poll interval must be > 0'' @
     check (wr_WorkerStaleInterval (cf_Workflow c) \<le> 0) ''workflow worker stale interval must be > 0'' @
     check (wr_WorkerAutoClaimMinIdle (cf_Workflow c) \<le> 0)
       ''workflow worker auto-claim min idle must be > 0'' @
     check (wr_WorkerAutoClaimCount (cf_Workflow c) \<le> 0) ''workflow worker auto-claim count must be > 0'' @
     check (wr_WorkerReadCount (cf_Workflow c) \<le> 0) ''workflow worker read count must be > 0'' @
     check (wr_WorkerReadBlock (cf_Workflow c) \<le> 0) ''workflow worker read block must be > 0'' @
     check (wr_DefaultJobTimeout (cf_Workflow c) \<le> 0) ''workflow default job timeout must be > 0'' @
     check (wr_MaxConcurrentWorkflows (cf_Workflow c) \<le> 0)
       ''workflow max concurrent executions must be > 0'' @
     validate_messaging c"

definition HasExternalQueue :: "Config \<Rightarrow> bool" where
  "HasExternalQueue c =
    (let t = ToLower (TrimSpace (mc_Type (cf_Messaging c))) in t \<noteq> '''' \<and> t \<noteq> ''noop'')"

text \<open>\<open>run\<close> of \<open>cmd/server/app/server.go\<close>: tracing is on when asked for, or by itself.\<close>

definition effective_tracing :: "Config \<Rightarrow> bool" where
  "effective_tracing c =
    (cf_EnableTracing c \<or>
     (cf_AutoTracing c \<and> (cf_JaegerEndpoint c \<noteq> '''' \<or> HasExternalQueue c)))"

section \<open>Flags and environment\<close>

datatype flag_value =
    FString string | FInt int | FBool bool | FDuration int | FFloat string | FSlice "string list"

datatype flag_kind = KString | KInt | KInt64 | KBool | KDuration | KFloat | KSlice

text \<open>
  A flag: its name, its type, how its variable is read and written. A value of another type,
  which the flag library never passes, leaves the variable as it is.
\<close>

record cli_flag =
  fl_name :: string
  fl_kind :: flag_kind
  fl_get :: "Config \<Rightarrow> flag_value"
  fl_set :: "flag_value \<Rightarrow> Config \<Rightarrow> Config"

definition string_flag :: "string \<Rightarrow> (Config \<Rightarrow> string) \<Rightarrow> (string \<Rightarrow> Config \<Rightarrow> Config) \<Rightarrow> cli_flag" where
  "string_flag name get put = \<lparr>fl_name = name, fl_kind = KString, fl_get = (\<lambda>c. FString (get c)),
     fl_set = (\<lambda>v c. put (case v of FString s \<Rightarrow> s | _ \<Rightarrow> get c) c)\<rparr>"

definition int_flag :: "string \<Rightarrow> (Config \<Rightarrow> int) \<Rightarrow> (int \<Rightarrow> Config \<Rightarrow> Config) \<Rightarrow> cli_flag" where
  "int_flag name get put = \<lparr>fl_name = name, fl_kind = KInt, fl_get = (\<lambda>c. FInt (get c)),
     fl_set = (\<lambda>v c. put (case v of FInt s \<Rightarrow> s | _ \<Rightarrow> get c) c)\<rparr>"

definition int64_flag :: "string \<Rightarrow> (Config \<Rightarrow> int) \<Rightarrow> (int \<Rightarrow> Config \<Rightarrow> Config) \<Rightarrow> cli_flag" where
  "int64_flag name get put = \<lparr>fl_name = name, fl_kind = KInt64, fl_get = (\<lambda>c. FInt (get c)),
     fl_set = (\<lambda>v c. put (case v of FInt s \<Rightarrow> s | _ \<Rightarrow> get c) c)\<rparr>"

definition bool_flag :: "string \<Rightarrow> (Config \<Rightarrow> bool) \<Rightarrow> (bool \<Rightarrow> Config \<Rightarrow> Config) \<Rightarrow> cli_flag" where
  "bool_flag name get put = \<lparr>fl_name = name, fl_kind = KBool, fl_get = (\<lambda>c. FBool (get c)),
     fl_set = (\<lambda>v c. put (case v of FBool s \<Rightarrow> s | _ \<Rightarrow> get c) c)\<rparr>"

definition duration_flag :: "string \<Rightarrow> (Config \<Rightarrow> int) \<Rightarrow> (int \<Rightarrow> Config \<Rightarrow> Config) \<Rightarrow> cli_flag" where
  "duration_flag name get put = \<lparr>fl_name = name, fl_kind = KDuration, fl_get = (\<lambda>c. FDuration (get c)),
     fl_set = (\<lambda>v c. put (case v of FDuration s \<Rightarrow> s | _ \<Rightarrow> get c) c)\<rparr>"

definition float_flag :: "string \<Rightarrow> (Config \<Rightarrow> string) \<Rightarrow> (string \<Rightarrow> Config \<Rightarrow> Config) \<Rightarrow> cli_flag" where
  "float_flag name get put = \<lparr>fl_name = name, fl_kind = KFloat, fl_get = (\<lambda>c. FFloat (get c)),
     fl_set = (\<lambda>v c. put (case v of FFloat s \<Rightarrow> s | _ \<Rightarrow> get c) c)\<rparr>"

definition slice_flag :: "string \<Rightarrow> (Config \<Rightarrow> string list) \<Rightarrow> (string list \<Rightarrow> Config \<Rightarrow> Config) \<Rightarrow> cli_flag" where
  "slice_flag name get put = \<lparr>fl_name = name, fl_kind = KSlice, fl_get = (\<lambda>c. FSlice (get c)),
     fl_set = (\<lambda>v c. put (case v of FSlice s \<Rightarrow> s | _ \<Rightarrow> get c) c)\<rparr>"

lemmas flag_defs = string_flag_def int_flag_def int64_flag_def bool_flag_def duration_flag_def
  float_flag_def slice_flag_def

text \<open>\<open>AddFlags\<close>: the default of a flag is what its variable holds.\<close>

definition AddFlags :: "cli_flag list" where
  "AddFlags = [
    string_flag ''bind-addr'' (cf_BindAddr) (\<lambda>v. cf_BindAddr_update (\<lambda>_. v)),
    string_flag ''id'' (lc_ID \<circ> cf_LeaderConfig) (\<lambda>v. cf_LeaderConfig_update (lc_ID_update (\<lambda>_. v))),
    string_flag ''lock-name'' (lc_LockName \<circ> cf_LeaderConfig) (\<lambda>v. cf_LeaderConfig_update (lc_LockName_update (\<lambda>_. v))),
    duration_flag ''duration'' (lc_Duration \<circ> cf_LeaderConfig) (\<lambda>v. cf_LeaderConfig_update (lc_Duration_update (\<lambda>_. v))),
    string_flag ''leader-namespace'' (lc_Namespace \<circ> cf_LeaderConfig) (\<lambda>v. cf_LeaderConfig_update (lc_Namespace_update (\<lambda>_. v))),
    float_flag ''kube-api-qps'' (cf_KubeQPS) (\<lambda>v. cf_KubeQPS_update (\<lambda>_. v)),
    int_flag ''kube-api-burst'' (cf_KubeBurst) (\<lambda>v. cf_KubeBurst_update (\<lambda>_. v)),
    bool_flag ''exit-on-lost-leader'' (cf_ExitOnLostLeader) (\<lambda>v. cf_ExitOnLostLeader_update (\<lambda>_. v)),
    string_flag ''datastore-type'' (dc_Type \<circ> cf_Datastore) (\<lambda>v. cf_Datastore_update (dc_Type_update (\<lambda>_. v))),
    string_flag ''datastore-url'' (dc_URL \<circ> cf_Datastore) (\<lambda>v. cf_Datastore_update (dc_URL_update (\<lambda>_. v))),
    string_flag ''datastore-database'' (dc_Database \<circ> cf_Datastore) (\<lambda>v. cf_Datastore_update (dc_Database_update (\<lambda>_. v))),
    int_flag ''mysql-max-idle-conns'' (dc_MaxIdleConns \<circ> cf_Datastore) (\<lambda>v. cf_Datastore_update (dc_MaxIdleConns_update (\<lambda>_. v))),
    int_flag ''mysql-max-open-conns'' (dc_MaxOpenConns \<circ> cf_Datastore) (\<lambda>v. cf_Datastore_update (dc_MaxOpenConns_update (\<lambda>_. v))),
    duration_flag ''mysql-conn-max-lifetime'' (dc_ConnMaxLifetime \<circ> cf_Datastore) (\<lambda>v. cf_Datastore_update (dc_ConnMaxLifetime_update (\<lambda>_. v))),
    duration_flag ''mysql-conn-max-idle-time'' (dc_ConnMaxIdleTime \<circ> cf_Datastore) (\<lambda>v. cf_Datastore_update (dc_ConnMaxIdleTime_update (\<lambda>_. v))),
    bool_flag ''enable-tracing'' (cf_EnableTracing) (\<lambda>v. cf_EnableTracing_update (\<lambda>_. v)),
    bool_flag ''auto-tracing'' (cf_AutoTracing) (\<lambda>v. cf_AutoTracing_update (\<lambda>_. v)),
    string_flag ''jaeger-endpoint'' (cf_JaegerEndpoint) (\<lambda>v. cf_JaegerEndpoint_update (\<lambda>_. v)),
    string_flag ''msg-type'' (mc_Type \<circ> cf_Messaging) (\<lambda>v. cf_Messaging_update (mc_Type_update (\<lambda>_. v))),
    string_flag ''msg-channel-prefix'' (mc_ChannelPrefix \<circ> cf_Messaging) (\<lambda>v. cf_Messaging_update (mc_ChannelPrefix_update (\<lambda>_. v))),
    int64_flag ''msg-redis-maxlen'' (mc_RedisStreamMaxLen \<circ> cf_Messaging) (\<lambda>v. cf_Messaging_update (mc_RedisStreamMaxLen_update (\<lambda>_. v))),
    slice_flag ''msg-kafka-brokers'' (mc_KafkaBrokers \<circ> cf_Messaging) (\<lambda>v. cf_Messaging_update (mc_KafkaBrokers_update (\<lambda>_. v))),
    string_flag ''msg-kafka-group-id'' (mc_KafkaGroupID \<circ> cf_Messaging) (\<lambda>v. cf_Messaging_update (mc_KafkaGroupID_update (\<lambda>_. v))),
    string_flag ''msg-kafka-offset-reset'' (mc_KafkaAutoOffsetReset \<circ> cf_Messaging) (\<lambda>v. cf_Messaging_update (mc_KafkaAutoOffsetReset_update (\<lambda>_. v))),
    string_flag ''cache-type'' (cc_CacheType \<circ> cf_Cache) (\<lambda>v. cf_Cache_update (cc_CacheType_update (\<lambda>_. v))),
    string_flag ''cache-host'' (cc_CacheHost \<circ> cf_Cache) (\<lambda>v. cf_Cache_update (cc_CacheHost_update (\<lambda>_. v))),
    int_flag ''cache-port'' (cc_CacheProt \<circ> cf_Cache) (\<lambda>v. cf_Cache_update (cc_CacheProt_update (\<lambda>_. v))),
    int64_flag ''cache-db'' (cc_CacheDB \<circ> cf_Cache) (\<lambda>v. cf_Cache_update (cc_CacheDB_update (\<lambda>_. v))),
    string_flag ''cache-username'' (cc_UserName \<circ> cf_Cache) (\<lambda>v. cf_Cache_update (cc_UserName_update (\<lambda>_. v))),
    string_flag ''cache-password'' (cc_Password \<circ> cf_Cache) (\<lambda>v. cf_Cache_update (cc_Password_update (\<lambda>_. v))),
    duration_flag ''cache-ttl'' (cc_CacheTTL \<circ> cf_Cache) (\<lambda>v. cf_Cache_update (cc_CacheTTL_update (\<lambda>_. v))),
    string_flag ''cache-prefix'' (cc_KeyPrefix \<circ> cf_Cache) (\<lambda>v. cf_Cache_update (cc_KeyPrefix_update (\<lambda>_. v))),
    int_flag ''workflow-sequential-max-concurrency'' (wr_SequentialMaxConcurrency \<circ> cf_Workflow) (\<lambda>v. cf_Workflow_update (wr_SequentialMaxConcurrency_update (\<lambda>_. v))),
    duration_flag ''workflow-local-poll-interval'' (wr_LocalPollInterval \<circ> cf_Workflow) (\<lambda>v. cf_Workflow_update (wr_LocalPollInterval_update (\<lambda>_. v))),
    duration_flag ''workflow-dispatch-poll-interval'' (wr_DispatchPollInterval \<circ> cf_Workflow) (\<lambda>v. cf_Workflow_update (wr_DispatchPollInterval_update (\<lambda>_. v))),
    duration_flag ''workflow-worker-stale-interval'' (wr_WorkerStaleInterval \<circ> cf_Workflow) (\<lambda>v. cf_Workflow_update (wr_WorkerStaleInterval_update (\<lambda>_. v))),
    duration_flag ''workflow-worker-autoclaim-idle'' (wr_WorkerAutoClaimMinIdle \<circ> cf_Workflow) (\<lambda>v. cf_Workflow_update (wr_WorkerAutoClaimMinIdle_update (\<lambda>_. v))),
    int_flag ''workflow-worker-autoclaim-count'' (wr_WorkerAutoClaimCount \<circ> cf_Workflow) (\<lambda>v. cf_Workflow_update (wr_WorkerAutoClaimCount_update (\<lambda>_. v))),
    int_flag ''workflow-worker-read-count'' (wr_WorkerReadCount \<circ> cf_Workflow) (\<lambda>v. cf_Workflow_update (wr_WorkerReadCount_update (\<lambda>_. v))),
    duration_flag ''workflow-worker-read-block'' (wr_WorkerReadBlock \<circ> cf_Workflow) (\<lambda>v. cf_Workflow_update (wr_WorkerReadBlock_update (\<lambda>_. v))),
    duration_flag ''workflow-default-job-timeout'' (wr_DefaultJobTimeout \<circ> cf_Workflow) (\<lambda>v. cf_Workflow_update (wr_DefaultJobTimeout_update (\<lambda>_. v))),
    int_flag ''workflow-max-concurrent'' (wr_MaxConcurrentWorkflows \<circ> cf_Workflow) (\<lambda>v. cf_Workflow_update (wr_MaxConcurrentWorkflows_update (\<lambda>_. v)))]"

definition EnvPrefix :: string where "EnvPrefix = ''KUBEMIN''"

definition char_upper :: "char \<Rightarrow> char" where
  "char_upper c = (if is_lower c then char_of (char_code c - 32) else c)"

definition ToUpper :: "string \<Rightarrow> string" where
  "ToUpper = map char_upper"

definition buildEnvKey :: "string \<Rightarrow> string \<Rightarrow> string" where
  "buildEnvKey pre name =
    (let canonical = ToUpper (ReplaceAll name ''-'' ''_'') in
     if TrimSpace pre = '''' then canonical else ToUpper pre @ ''_'' @ canonical)"

text \<open>
  The flags are visited in the order of their names. \<open>parse\<close> is the reading of a value by the
  flag library and \<open>lookup\<close> the environment; a flag given on the command line is left alone.
\<close>

fun apply_env_loop ::
  "(flag_kind \<Rightarrow> string \<Rightarrow> string + flag_value) \<Rightarrow> (string \<Rightarrow> string option) \<Rightarrow> (string \<Rightarrow> bool) \<Rightarrow> string \<Rightarrow>
   cli_flag list \<Rightarrow> Config \<Rightarrow> string list \<times> Config" where
  "apply_env_loop parse lookup changed pre [] c = ([], c)"
| "apply_env_loop parse lookup changed pre (f # fs) c =
    (if changed (fl_name f) then apply_env_loop parse lookup changed pre fs c
     else
       (case lookup (buildEnvKey pre (fl_name f)) of
          None \<Rightarrow> apply_env_loop parse lookup changed pre fs c
        | Some val \<Rightarrow>
           (case parse (fl_kind f) val of
              Inl err \<Rightarrow>
                (case apply_env_loop parse lookup changed pre fs c of (errs, c') \<Rightarrow>
                   ((''apply '' @ buildEnvKey pre (fl_name f) @ '' to flag --'' @ fl_name f @ '': '' @ err) # errs, c'))
            | Inr v \<Rightarrow> apply_env_loop parse lookup changed pre fs (fl_set f v c))))"

definition ApplyEnvOverrides ::
  "(flag_kind \<Rightarrow> string \<Rightarrow> string + flag_value) \<Rightarrow> (string \<Rightarrow> string option) \<Rightarrow> (string \<Rightarrow> bool) \<Rightarrow> string \<Rightarrow>
   Config \<Rightarrow> string option \<times> Config" where
  "ApplyEnvOverrides parse lookup changed pre c =
    (case apply_env_loop parse lookup changed pre (sort_key fl_name AddFlags) c of
       (errs, c') \<Rightarrow> (if errs = [] then None else Some (Join errs [char_of (10::nat)]), c'))"

section \<open>The choice of the queue\<close>

datatype queue_choice = ChosenNoop | ChosenRedis RedisStreams | ChosenKafka KafkaQueue

text \<open>
  \<open>ensureRedis\<close> and \<open>ensureKafka\<close> connect to the servers; each says with an error that it failed.
\<close>

definition buildRedisQueue ::
  "(RedisCacheConfig \<Rightarrow> string + 's redisCommander) \<Rightarrow> Config \<Rightarrow> string \<Rightarrow> queue_choice" where
  "buildRedisQueue ensureRedis c streamKey =
    (case ensureRedis (cf_Cache c) of
       Inl err \<Rightarrow> ChosenNoop
     | Inr cli \<Rightarrow>
        (case NewRedisStreamsWithClient (Some cli) streamKey (mc_RedisStreamMaxLen (cf_Messaging c)) of
           Inl err \<Rightarrow> ChosenNoop
         | Inr (cli', r) \<Rightarrow> ChosenRedis r))"

definition buildKafkaQueue :: "(string list \<Rightarrow> string option) \<Rightarrow> Config \<Rightarrow> string \<Rightarrow> queue_choice" where
  "buildKafkaQueue ensureKafka c topic =
    (case ensureKafka (mc_KafkaBrokers (cf_Messaging c)) of
       Some err \<Rightarrow> ChosenNoop
     | None \<Rightarrow>
        (case NewKafkaQueue \<lparr>kc_Brokers = mc_KafkaBrokers (cf_Messaging c), kc_Topic = topic,
                kc_GroupID = mc_KafkaGroupID (cf_Messaging c),
                kc_AutoOffsetReset = mc_KafkaAutoOffsetReset (cf_Messaging c)\<rparr> of
           Inl err \<Rightarrow> ChosenNoop
         | Inr q \<Rightarrow> ChosenKafka q))"

definition buildQueue ::
  "(RedisCacheConfig \<Rightarrow> string + 's redisCommander) \<Rightarrow> (string list \<Rightarrow> string option) \<Rightarrow> Config \<Rightarrow> string \<Rightarrow>
   queue_choice" where
  "buildQueue ensureRedis ensureKafka c streamKey =
    (let msgType = ToLower (mc_Type (cf_Messaging c)) in
     if msgType = ''redis'' then buildRedisQueue ensureRedis c streamKey
     else if msgType = ''kafka'' then buildKafkaQueue ensureKafka c streamKey
     else ChosenNoop)"

text \<open>
  \<open>EnsureKafka\<close> of \<open>infrastructure/clients/kafka.go\<close>: the brokers are tried in order until one
  answers; \<open>dialed\<close> says that an earlier call left a dialer. \<open>EnsureRedis\<close> likewise keeps its
  first client; \<open>ping\<close> is the answer of the server to that client.
\<close>

fun dial_brokers :: "(string \<Rightarrow> string option) \<Rightarrow> string list \<Rightarrow> string \<Rightarrow> string option" where
  "dial_brokers dial [] lastErr = Some (''failed to connect to any kafka broker: '' @ lastErr)"
| "dial_brokers dial (b # bs) lastErr =
    (case dial b of Some err \<Rightarrow> dial_brokers dial bs err | None \<Rightarrow> None)"

definition EnsureKafka :: "(string \<Rightarrow> string option) \<Rightarrow> bool \<Rightarrow> string list \<Rightarrow> string option" where
  "EnsureKafka dial dialed brokers =
    (if dialed then None
     else if brokers = [] then Some ''kafka brokers cannot be empty''
     else dial_brokers dial brokers '''')"

definition redis_addr :: "RedisCacheConfig \<Rightarrow> string" where
  "redis_addr cfg = cc_CacheHost cfg @ '':'' @ int_str (cc_CacheProt cfg)"

definition EnsureRedis ::
  "(RedisCacheConfig \<Rightarrow> string \<Rightarrow> 'c) \<Rightarrow> ('c \<Rightarrow> string option) \<Rightarrow> RedisCacheConfig \<Rightarrow> 'c option \<Rightarrow>
   (string + 'c) \<times> 'c option" where
  "EnsureRedis newClient ping cfg rClient =
    (case rClient of
       Some c \<Rightarrow> (Inr c, rClient)
     | None \<Rightarrow>
        (let cli = newClient cfg (redis_addr cfg) in
         case ping cli of Some err \<Rightarrow> (Inl err, None) | None \<Rightarrow> (Inr cli, Some cli)))"

section \<open>Lemmas: validation\<close>

lemma check_Nil [simp]: "check b e = [] \<longleftrightarrow> \<not> b"
  by (simp add: check_def)

text \<open>What an accepted configuration fulfils.\<close>

definition messaging_ok :: "Config \<Rightarrow> bool" where
  "messaging_ok c \<longleftrightarrow>
    (let t = ToLower (TrimSpace (mc_Type (cf_Messaging c)));
         reset = ToLower (TrimSpace (mc_KafkaAutoOffsetReset (cf_Messaging c))) in
     t \<in> {'''', ''noop'', ''redis'', ''kafka''} \<and>
     (t = ''redis'' \<longrightarrow> TrimSpace (cc_CacheHost (cf_Cache c)) \<noteq> '''' \<and> 0 < cc_CacheProt (cf_Cache c)) \<and>
     (t = ''kafka'' \<longrightarrow> mc_KafkaBrokers (cf_Messaging c) \<noteq> [] \<and> reset \<in> {'''', ''earliest'', ''latest''}))"

definition workflow_ok :: "WorkflowRuntimeConfig \<Rightarrow> bool" where
  "workflow_ok w \<longleftrightarrow>
     0 < wr_SequentialMaxConcurrency w \<and> 0 < wr_LocalPollInterval w \<and> 0 < wr_DispatchPollInterval w \<and>
     0 < wr_WorkerStaleInterval w \<and> 0 < wr_WorkerAutoClaimMinIdle w \<and> 0 < wr_WorkerAutoClaimCount w \<and>
     0 < wr_WorkerReadCount w \<and> 0 < wr_WorkerReadBlock w \<and> 0 < wr_DefaultJobTimeout w \<and>
     0 < wr_MaxConcurrentWorkflows w"

lemma validate_messaging_Nil: "validate_messaging c = [] \<longleftrightarrow> messaging_ok c"
  by (auto simp: validate_messaging_def messaging_ok_def Let_def)

lemma Validate_Nil:
  "Validate c = [] \<longleftrightarrow>
     TrimSpace (cf_BindAddr c) \<noteq> '''' \<and>
     (dc_Type (cf_Datastore c) = ''mysql'' \<longrightarrow> TrimSpace (dc_URL (cf_Datastore c)) \<noteq> '''') \<and>
     (cc_CacheType (cf_Cache c) = ''redis'' \<longrightarrow>
        TrimSpace (cc_CacheHost (cf_Cache c)) \<noteq> '''' \<and> 0 < cc_CacheProt (cf_Cache c)) \<and>
     workflow_ok (cf_Workflow c) \<and> messaging_ok c"
  by (auto simp: Validate_def workflow_ok_def validate_messaging_Nil not_le)

lemma NewConfig_valid: "Validate (NewConfig uuid) = []"
proof -
  have e: "TrimSpace ''0.0.0.0:8000'' \<noteq> ''''" "TrimSpace ''localhost'' \<noteq> ''''" "ToLower (TrimSpace ''redis'') = ''redis''"
    "\<not> is_space (CHR ''r'')"
    by code_simp+
  have s: "\<not> is_space x \<Longrightarrow> TrimSpace (x # xs) \<noteq> ''''" for x xs
    unfolding TrimSpace_def by (rule trim_by_nonempty) simp_all
  show ?thesis
    by (simp add: Validate_Nil NewConfig_def workflow_ok_def messaging_ok_def e s Let_def duration_defs
        DefaultMaxConcurrentWorkflows_def)
qed

text \<open>The worker and the dispatcher of an accepted configuration run with its own values.\<close>

lemma valid_workflow_values:
  assumes "Validate c = []"
  shows "localPollInterval (Some (cf_Workflow c)) = wr_LocalPollInterval (cf_Workflow c)"
    and "dispatchPollInterval (Some (cf_Workflow c)) = wr_DispatchPollInterval (cf_Workflow c)"
    and "workerStaleInterval (Some (cf_Workflow c)) = wr_WorkerStaleInterval (cf_Workflow c)"
    and "workerAutoClaimMinIdle (Some (cf_Workflow c)) = wr_WorkerAutoClaimMinIdle (cf_Workflow c)"
    and "workerAutoClaimCount (Some (cf_Workflow c)) = wr_WorkerAutoClaimCount (cf_Workflow c)"
    and "workerReadCount (Some (cf_Workflow c)) = wr_WorkerReadCount (cf_Workflow c)"
    and "workerReadBlock (Some (cf_Workflow c)) = wr_WorkerReadBlock (cf_Workflow c)"
    and "maxWorkflowConcurrency (Some (cf_Workflow c)) = wr_MaxConcurrentWorkflows (cf_Workflow c)"
  using assms by (auto simp: Validate_Nil workflow_ok_def localPollInterval_def dispatchPollInterval_def
      workerStaleInterval_def workerAutoClaimMinIdle_def workerAutoClaimCount_def workerReadCount_def
      workerReadBlock_def maxWorkflowConcurrency_def positive_or_def)

section \<open>Lemmas: flags\<close>

fun has_kind :: "flag_kind \<Rightarrow> flag_value \<Rightarrow> bool" where
  "has_kind KString (FString s) = True"
| "has_kind KInt (FInt i) = True"
| "has_kind KInt64 (FInt i) = True"
| "has_kind KBool (FBool b) = True"
| "has_kind KDuration (FDuration d) = True"
| "has_kind KFloat (FFloat s) = True"
| "has_kind KSlice (FSlice ss) = True"
| "has_kind _ _ = False"

text \<open>A flag reads back what was written to it and writes no other flag's variable.\<close>

lemma has_kind_iff:
  "has_kind KString v \<longleftrightarrow> (\<exists>s. v = FString s)" "has_kind KInt v \<longleftrightarrow> (\<exists>i. v = FInt i)"
  "has_kind KInt64 v \<longleftrightarrow> (\<exists>i. v = FInt i)" "has_kind KBool v \<longleftrightarrow> (\<exists>b. v = FBool b)"
  "has_kind KDuration v \<longleftrightarrow> (\<exists>d. v = FDuration d)" "has_kind KFloat v \<longleftrightarrow> (\<exists>s. v = FFloat s)"
  "has_kind KSlice v \<longleftrightarrow> (\<exists>ss. v = FSlice ss)"
  by (cases v; simp)+

lemma flag_read_back: "\<forall>f\<in>set AddFlags. \<forall>v c. has_kind (fl_kind f) v \<longrightarrow> fl_get f (fl_set f v c) = v"
  by (simp add: AddFlags_def flag_defs has_kind_iff ex_simps flip: all_simps)

lemma flag_names_distinct: "distinct (map fl_name AddFlags)"
  by (simp add: AddFlags_def flag_defs)

lemma flag_frame:
  "\<forall>f\<in>set AddFlags. \<forall>g\<in>set AddFlags. fl_name f \<noteq> fl_name g \<longrightarrow> (\<forall>v c. fl_get g (fl_set f v c) = fl_get g c)"
  by (simp add: AddFlags_def flag_defs)

lemma flag_names: "map fl_name AddFlags =
    [''bind-addr'', ''id'', ''lock-name'', ''duration'', ''leader-namespace'', ''kube-api-qps'',
     ''kube-api-burst'', ''exit-on-lost-leader'', ''datastore-type'', ''datastore-url'',
     ''datastore-database'', ''mysql-max-idle-conns'', ''mysql-max-open-conns'',
     ''mysql-conn-max-lifetime'', ''mysql-conn-max-idle-time'', ''enable-tracing'',
     ''auto-tracing'', ''jaeger-endpoint'', ''msg-type'', ''msg-channel-prefix'',
     ''msg-redis-maxlen'', ''msg-kafka-brokers'', ''msg-kafka-group-id'',
     ''msg-kafka-offset-reset'', ''cache-type'', ''cache-host'', ''cache-port'', ''cache-db'',
     ''cache-username'', ''cache-password'', ''cache-ttl'', ''cache-prefix'',
     ''workflow-sequential-max-concurrency'', ''workflow-local-poll-interval'',
     ''workflow-dispatch-poll-interval'', ''workflow-worker-stale-interval'',
     ''workflow-worker-autoclaim-idle'', ''workflow-worker-autoclaim-count'',
     ''workflow-worker-read-count'', ''workflow-worker-read-block'',
     ''workflow-default-job-timeout'', ''workflow-max-concurrent'']"
  by (simp add: AddFlags_def flag_defs)

text \<open>
  The overrides: a flag that was not given and whose variable is set to a readable value has
  that value, every other flag has the value it had.
\<close>

definition overridden ::
  "(flag_kind \<Rightarrow> string \<Rightarrow> string + flag_value) \<Rightarrow> (string \<Rightarrow> string option) \<Rightarrow> (string \<Rightarrow> bool) \<Rightarrow> string \<Rightarrow>
   cli_flag \<Rightarrow> Config \<Rightarrow> flag_value" where
  "overridden parse lookup changed pre f c =
    (if changed (fl_name f) then fl_get f c
     else (case lookup (buildEnvKey pre (fl_name f)) of
             None \<Rightarrow> fl_get f c
           | Some val \<Rightarrow> (case parse (fl_kind f) val of Inl err \<Rightarrow> fl_get f c | Inr v \<Rightarrow> v)))"

definition env_step ::
  "(flag_kind \<Rightarrow> string \<Rightarrow> string + flag_value) \<Rightarrow> (string \<Rightarrow> string option) \<Rightarrow> (string \<Rightarrow> bool) \<Rightarrow> string \<Rightarrow>
   cli_flag \<Rightarrow> Config \<Rightarrow> Config" where
  "env_step parse lookup changed pre f c =
    (if changed (fl_name f) then c
     else (case lookup (buildEnvKey pre (fl_name f)) of
             None \<Rightarrow> c
           | Some val \<Rightarrow> (case parse (fl_kind f) val of Inl err \<Rightarrow> c | Inr v \<Rightarrow> fl_set f v c)))"

lemma apply_env_loop_step:
  "snd (apply_env_loop parse lookup changed pre (f # fs) c) =
   snd (apply_env_loop parse lookup changed pre fs (env_step parse lookup changed pre f c))"
  by (simp add: env_step_def split: option.split sum.split prod.split)

lemma env_step_other:
  assumes "f \<in> set AddFlags" and "g \<in> set AddFlags" and "fl_name f \<noteq> fl_name g"
  shows "fl_get g (env_step parse lookup changed pre f c) = fl_get g c"
proof -
  from assms flag_frame have "fl_get g (fl_set f v c) = fl_get g c" for v by blast
  then show ?thesis by (simp add: env_step_def split: option.split sum.split)
qed

lemma env_step_same:
  assumes "f \<in> set AddFlags" and "\<And>k val v. parse k val = Inr v \<Longrightarrow> has_kind k v"
  shows "fl_get f (env_step parse lookup changed pre f c) = overridden parse lookup changed pre f c"
proof -
  have "parse (fl_kind f) val = Inr v \<Longrightarrow> fl_get f (fl_set f v c) = v" for val v
    using flag_read_back assms by blast
  then show ?thesis by (simp add: env_step_def overridden_def split: option.split sum.split)
qed

lemma apply_env_loop_frame:
  "g \<in> set AddFlags \<Longrightarrow> set fs \<subseteq> set AddFlags \<Longrightarrow> fl_name g \<notin> fl_name ` set fs \<Longrightarrow>
   fl_get g (snd (apply_env_loop parse lookup changed pre fs c)) = fl_get g c"
proof (induction fs arbitrary: c)
  case (Cons f fs)
  then have "fl_get g (env_step parse lookup changed pre f c) = fl_get g c"
    by (intro env_step_other) auto
  with Cons show ?case by (simp only: apply_env_loop_step) simp
qed simp

lemma overridden_cong:
  "fl_get f c = fl_get f c' \<Longrightarrow> overridden parse lookup changed pre f c = overridden parse lookup changed pre f c'"
  by (simp add: overridden_def split: option.split sum.split)

lemma apply_env_loop_value:
  "f \<in> set fs \<Longrightarrow> set fs \<subseteq> set AddFlags \<Longrightarrow> distinct (map fl_name fs) \<Longrightarrow>
   (\<And>k val v. parse k val = Inr v \<Longrightarrow> has_kind k v) \<Longrightarrow>
   fl_get f (snd (apply_env_loop parse lookup changed pre fs c)) = overridden parse lookup changed pre f c"
proof (induction fs arbitrary: c)
  case (Cons g fs)
  show ?case
  proof (cases "f = g")
    case True
    with Cons.prems have m: "g \<in> set AddFlags" "set fs \<subseteq> set AddFlags" "fl_name g \<notin> fl_name ` set fs" by auto
    from apply_env_loop_frame [OF m] env_step_same [OF m(1) Cons.prems(4)] True show ?thesis
      by (simp only: apply_env_loop_step)
  next
    case False
    with Cons.prems have m: "f \<in> set fs" "set fs \<subseteq> set AddFlags" "distinct (map fl_name fs)" by auto
    with Cons.prems False have "fl_name g \<noteq> fl_name f" "g \<in> set AddFlags" "f \<in> set AddFlags"
      by (auto simp: image_iff)
    then have "fl_get f (env_step parse lookup changed pre g c) = fl_get f c"
      by (intro env_step_other) auto
    from overridden_cong [OF this] Cons.IH [OF m Cons.prems(4)] show ?thesis
      by (simp only: apply_env_loop_step)
  qed
qed simp

lemma apply_env_loop_errors:
  "fst (apply_env_loop parse lookup changed pre fs c) = [] \<longleftrightarrow>
   (\<forall>f\<in>set fs. \<not> changed (fl_name f) \<longrightarrow>
      (\<forall>val. lookup (buildEnvKey pre (fl_name f)) = Some val \<longrightarrow> (\<exists>v. parse (fl_kind f) val = Inr v)))"
  by (induction parse lookup changed pre fs c rule: apply_env_loop.induct)
    (auto split: option.splits sum.splits prod.splits)

lemma ApplyEnvOverrides_value:
  assumes "f \<in> set AddFlags" and "\<And>k val v. parse k val = Inr v \<Longrightarrow> has_kind k v"
  shows "fl_get f (snd (ApplyEnvOverrides parse lookup changed pre c)) = overridden parse lookup changed pre f c"
proof -
  have d: "distinct (map fl_name (sort_key fl_name AddFlags))"
    using flag_names_distinct by (simp add: distinct_map)
  show ?thesis
    using apply_env_loop_value [of f "sort_key fl_name AddFlags" parse lookup changed pre c] assms d
    by (simp add: ApplyEnvOverrides_def case_prod_beta)
qed

section \<open>Lemmas: the queue\<close>

lemma buildQueue_redis:
  assumes "ToLower (mc_Type (cf_Messaging c)) = ''redis''" and "ensureRedis (cf_Cache c) = Inr cli" and "key \<noteq> ''''"
  shows "buildQueue ensureRedis ensureKafka c key =
    ChosenRedis \<lparr>rs_key = key, rs_maxLen = mc_RedisStreamMaxLen (cf_Messaging c)\<rparr>"
  using assms by (simp add: buildQueue_def buildRedisQueue_def NewRedisStreamsWithClient_def)

lemma buildQueue_kafka:
  assumes "Validate c = []" and t: "ToLower (mc_Type (cf_Messaging c)) = ''kafka''"
    and "ensureKafka (mc_KafkaBrokers (cf_Messaging c)) = None" and "key \<noteq> ''''"
  obtains q where "buildQueue ensureRedis ensureKafka c key = ChosenKafka q" "kq_reader q = None"
    "kc_Topic (kq_cfg q) = key" "kc_GroupID (kq_cfg q) \<noteq> ''''"
proof -
  have "TrimSpace (mc_Type (cf_Messaging c)) = mc_Type (cf_Messaging c)"
  proof -
    from t have l: "map char_lower (mc_Type (cf_Messaging c)) = ''kafka''" by (simp add: ToLower_def)
    then have ne: "mc_Type (cf_Messaging c) \<noteq> []" by auto
    have s: "is_space x \<Longrightarrow> char_lower x = x" for x
      by (auto simp: char_lower_def is_space_def is_upper_def)
    have k: "\<not> is_space (CHR ''k'')" "\<not> is_space (CHR ''a'')" by code_simp+
    from l ne have "char_lower (hd (mc_Type (cf_Messaging c))) = CHR ''k''"
      and "char_lower (last (mc_Type (cf_Messaging c))) = CHR ''a''"
      by (auto simp flip: hd_map last_map)
    then have "\<not> is_space (hd (mc_Type (cf_Messaging c)))" "\<not> is_space (last (mc_Type (cf_Messaging c)))"
      using s k by metis+
    then show ?thesis by (simp add: TrimSpace_def trim_by_id)
  qed
  with assms(1) t have "mc_KafkaBrokers (cf_Messaging c) \<noteq> []"
    by (simp add: Validate_Nil messaging_ok_def Let_def)
  with assms(3,4) t that show thesis
    by (simp add: buildQueue_def buildKafkaQueue_def NewKafkaQueue_def Let_def)
qed

end
