(* ===== verification/Kube_Roles.thy ===== *)
theory Kube_Roles
  imports Kube_Settings Kube_Informer
begin

text \<open>
  What a replica of the server does: \<open>server.go\<close>, the detection of the number of replicas in
  \<open>utils/kube/replicas.go\<close> and the informer manager of \<open>infrastructure/informer/manager.go\<close>.
  Leader election calls the server back; the leader dispatches, and the followers work when
  there are three or more replicas. The callbacks, the ticks of the replica watcher, the loss
  of the leadership and the signals are steps; the lemmas bound the workers of a replica and
  say which roles it has.
\<close>

section \<open>Counting replicas\<close>

text \<open>The reads of the Kubernetes client; an owner reference is its kind and its name.\<close>

record replica_client =
  rp_Pod :: "string \<Rightarrow> string \<Rightarrow> string + (string \<times> string) list"
  rp_ReplicaSet :: "string \<Rightarrow> string \<Rightarrow> string + (string \<times> string) list \<times> int option"
  rp_Deployment :: "string \<Rightarrow> string \<Rightarrow> string + int option"
  rp_StatefulSet :: "string \<Rightarrow> string \<Rightarrow> string + int option"
  rp_DaemonSet :: "string \<Rightarrow> string \<Rightarrow> string + int"

definition orInt32 :: "int option \<Rightarrow> int \<Rightarrow> int" where
  "orInt32 p d = (case p of None \<Rightarrow> d | Some v \<Rightarrow> v)"

fun replicaset_owners ::
  "replica_client \<Rightarrow> string \<Rightarrow> int option \<Rightarrow> (string \<times> string) list \<Rightarrow> int" where
  "replicaset_owners client ns replicas [] = orInt32 replicas 1"
| "replicaset_owners client ns replicas ((kind, name) # owners) =
    (if kind = ''Deployment''
     then (case rp_Deployment client ns name of Inl err \<Rightarrow> 1 | Inr n \<Rightarrow> orInt32 n 1)
     else replicaset_owners client ns replicas owners)"

fun pod_owners :: "replica_client \<Rightarrow> string \<Rightarrow> (string \<times> string) list \<Rightarrow> int" where
  "pod_owners client ns [] = 1"
| "pod_owners client ns ((kind, name) # owners) =
    (if kind = ''ReplicaSet'' then
       (case rp_ReplicaSet client ns name of
          Inl err \<Rightarrow> 1
        | Inr (rsOwners, replicas) \<Rightarrow> replicaset_owners client ns replicas rsOwners)
     else if kind = ''StatefulSet'' then
       (case rp_StatefulSet client ns name of Inl err \<Rightarrow> 1 | Inr n \<Rightarrow> orInt32 n 1)
     else if kind = ''DaemonSet'' then
       (case rp_DaemonSet client ns name of Inl err \<Rightarrow> 1 | Inr n \<Rightarrow> n)
     else pod_owners client ns owners)"

text \<open>The name and the namespace of the pod come from the environment.\<close>

definition DetectReplicaCount :: "string \<Rightarrow> string \<Rightarrow> replica_client \<Rightarrow> int" where
  "DetectReplicaCount podName ns client =
    (if podName = '''' \<or> ns = '''' then 1
     else case rp_Pod client ns podName of
            Inl err \<Rightarrow> 1
          | Inr owners \<Rightarrow> pod_owners client ns owners)"

section \<open>Workers\<close>

text \<open>The context a worker subscription was started with.\<close>

datatype worker_ctx = Background | LeaderTerm nat

text \<open>
  \<open>sv_workers\<close> are the subscriptions whose context has not ended, numbered by the call of
  \<open>context.WithCancel\<close> that made it; \<open>sv_terms\<close> the terms of leadership that go on;
  \<open>sv_electing\<close> says that \<open>RunOrDie\<close> has not returned.
\<close>

record restServer =
  sv_workersStarted :: bool
  sv_workersCancel :: "nat option"
  sv_workers :: "(nat \<times> worker_ctx) list"
  sv_next :: nat
  sv_terms :: "nat list"
  sv_nextTerm :: nat
  sv_electing :: bool
  sv_exited :: bool

definition server_init :: restServer where
  "server_init = \<lparr>sv_workersStarted = False, sv_workersCancel = None, sv_workers = [], sv_next = 0,
     sv_terms = [], sv_nextTerm = 0, sv_electing = True, sv_exited = False\<rparr>"

fun ctx_alive :: "restServer \<Rightarrow> worker_ctx \<Rightarrow> bool" where
  "ctx_alive s Background = True"
| "ctx_alive s (LeaderTerm t) = (t \<in> set (sv_terms s))"

definition startWorkers :: "worker_ctx \<Rightarrow> restServer \<Rightarrow> restServer" where
  "startWorkers ctx s =
    (if sv_workersStarted s then s
     else s\<lparr>sv_workersStarted := True, sv_workersCancel := Some (sv_next s), sv_next := Suc (sv_next s),
            sv_workers := (if ctx_alive s ctx then (sv_next s, ctx) # sv_workers s else sv_workers s)\<rparr>)"

definition stopWorkers :: "restServer \<Rightarrow> restServer" where
  "stopWorkers s =
    (if \<not> sv_workersStarted s then s
     else
       let s1 = (case sv_workersCancel s of
                   Some i \<Rightarrow> s\<lparr>sv_workers := filter (\<lambda>(j, ctx). j \<noteq> i) (sv_workers s)\<rparr>
                 | None \<Rightarrow> s)
       in s1\<lparr>sv_workersStarted := False\<rparr>)"

definition reconcileWorkers :: "int \<Rightarrow> worker_ctx \<Rightarrow> restServer \<Rightarrow> restServer" where
  "reconcileWorkers cnt ctx s = (if cnt \<ge> 3 then stopWorkers s else startWorkers ctx s)"

definition OnNewLeader :: "string \<Rightarrow> string \<Rightarrow> int \<Rightarrow> restServer \<Rightarrow> restServer" where
  "OnNewLeader self identity cnt s =
    (if identity = self then s else if cnt \<ge> 3 then startWorkers Background s else s)"

text \<open>The part of \<open>onStartedLeading\<close> that concerns the role of worker.\<close>

definition onStartedLeading :: "nat \<Rightarrow> int \<Rightarrow> restServer \<Rightarrow> restServer" where
  "onStartedLeading term cnt s = reconcileWorkers cnt (LeaderTerm term) s"

text \<open>
  The end of the leadership: the context of the term ends, and with it what was started under
  it; \<open>OnStoppedLeading\<close> reports an error when the configuration says so, which ends the
  process. The election library returns from \<open>RunOrDie\<close> then, and the server does not call it
  again.
\<close>

definition leadership_lost :: "bool \<Rightarrow> nat \<Rightarrow> restServer \<Rightarrow> restServer" where
  "leadership_lost exitOnLostLeader term s =
    s\<lparr>sv_terms := removeAll term (sv_terms s),
      sv_workers := filter (\<lambda>(j, ctx). ctx \<noteq> LeaderTerm term) (sv_workers s),
      sv_electing := False, sv_exited := sv_exited s \<or> exitOnLostLeader\<rparr>"

text \<open>The counts are whatever \<open>DetectReplicaCount\<close> returns at that moment.\<close>

inductive server_step :: "Config \<Rightarrow> restServer \<Rightarrow> restServer \<Rightarrow> bool" for cfg :: Config where
  new_leader: "sv_electing s \<Longrightarrow> \<not> sv_exited s \<Longrightarrow>
     server_step cfg s (OnNewLeader (lc_ID (cf_LeaderConfig cfg)) identity cnt s)"
| started_leading: "sv_electing s \<Longrightarrow> \<not> sv_exited s \<Longrightarrow> sv_terms s = [] \<Longrightarrow>
     server_step cfg s (onStartedLeading (sv_nextTerm s) cnt
       (s\<lparr>sv_terms := [sv_nextTerm s], sv_nextTerm := Suc (sv_nextTerm s)\<rparr>))"
| replica_tick: "t \<in> set (sv_terms s) \<Longrightarrow> \<not> sv_exited s \<Longrightarrow>
     server_step cfg s (reconcileWorkers cnt (LeaderTerm t) s)"
| lost: "t \<in> set (sv_terms s) \<Longrightarrow> \<not> sv_exited s \<Longrightarrow>
     server_step cfg s (leadership_lost (cf_ExitOnLostLeader cfg) t s)"
| signalled: "\<not> sv_exited s \<Longrightarrow> server_step cfg s ((stopWorkers s)\<lparr>sv_exited := True\<rparr>)"

inductive_cases server_stepE: "server_step cfg s s'"

text \<open>\<open>Run\<close>: with an even number of replicas the process exits before anything starts.\<close>

datatype run_result = RunError string | ExitZero | Served restServer

definition server_Run :: "string option \<Rightarrow> int \<Rightarrow> string option \<Rightarrow> run_result" where
  "server_Run buildErr cnt electionErr =
    (case buildErr of
       Some err \<Rightarrow> RunError err
     | None \<Rightarrow>
        if cnt mod 2 = 0 then ExitZero
        else (case electionErr of Some err \<Rightarrow> RunError err | None \<Rightarrow> Served server_init))"

section \<open>Lemmas: workers\<close>

text \<open>
  The invariant: one subscription at most, the one the server can cancel; it is there exactly
  when the flag is set as long as the election goes on.
\<close>

definition server_wf :: "restServer \<Rightarrow> bool" where
  "server_wf s \<longleftrightarrow>
     length (sv_workers s) \<le> 1 \<and> length (sv_terms s) \<le> 1 \<and>
     (\<forall>(i, ctx)\<in>set (sv_workers s). sv_workersCancel s = Some i \<and> ctx_alive s ctx) \<and>
     (\<not> sv_workersStarted s \<longrightarrow> sv_workers s = []) \<and>
     (sv_workersStarted s \<longrightarrow> sv_electing s \<longrightarrow> sv_workers s \<noteq> []) \<and>
     (\<not> sv_electing s \<longrightarrow> sv_terms s = [])"

lemma server_init_wf: "server_wf server_init"
  by (simp add: server_wf_def server_init_def)

lemma list_le_1: "length xs \<le> 1 \<Longrightarrow> xs = [] \<or> (\<exists>x. xs = [x])"
  by (cases xs) auto

lemma startWorkers_wf:
  "server_wf s \<Longrightarrow> ctx_alive s ctx \<Longrightarrow> server_wf (startWorkers ctx s)"
  by (cases ctx) (auto simp: server_wf_def startWorkers_def)

lemma ctx_alive_cong: "sv_terms s = sv_terms s' \<Longrightarrow> ctx_alive s ctx = ctx_alive s' ctx"
  by (cases ctx) auto

lemma stopWorkers_wf:
  assumes "server_wf s"
  shows "server_wf (stopWorkers s)" and "sv_workers (stopWorkers s) = []"
    and "\<not> sv_workersStarted (stopWorkers s)" and "sv_terms (stopWorkers s) = sv_terms s"
    and "sv_electing (stopWorkers s) = sv_electing s"
proof -
  from assms have "length (sv_workers s) \<le> 1" by (simp add: server_wf_def)
  from list_le_1 [OF this] have "sv_workers s = [] \<or> (\<exists>x. sv_workers s = [x])" .
  with assms show w: "sv_workers (stopWorkers s) = []"
    by (auto simp: server_wf_def stopWorkers_def split: option.split)
  show f: "\<not> sv_workersStarted (stopWorkers s)" "sv_terms (stopWorkers s) = sv_terms s"
    "sv_electing (stopWorkers s) = sv_electing s"
    by (auto simp: stopWorkers_def Let_def split: option.split)
  with w assms show "server_wf (stopWorkers s)"
    by (simp add: server_wf_def)
qed

lemma reconcileWorkers_wf:
  "server_wf s \<Longrightarrow> ctx_alive s ctx \<Longrightarrow> server_wf (reconcileWorkers cnt ctx s)"
  by (simp add: reconcileWorkers_def startWorkers_wf stopWorkers_wf)

lemma leadership_lost_wf:
  assumes "server_wf s" and "t \<in> set (sv_terms s)"
  shows "server_wf (leadership_lost e t s)" and "sv_terms (leadership_lost e t s) = []"
proof -
  from assms have t: "sv_terms s = [t]"
    using list_le_1 [of "sv_terms s"] by (auto simp: server_wf_def)
  then show e: "sv_terms (leadership_lost e t s) = []" by (simp add: leadership_lost_def)
  have "length (filter P (sv_workers s)) \<le> 1" for P
    using assms(1) le_trans [OF length_filter_le] by (auto simp: server_wf_def)
  moreover have "ctx_alive (leadership_lost e t s) ctx" if "(i, ctx) \<in> set (sv_workers (leadership_lost e t s))" for i ctx
    using that assms(1) t by (cases ctx) (auto simp: server_wf_def leadership_lost_def)
  ultimately show "server_wf (leadership_lost e t s)"
    using assms(1) e by (auto simp: server_wf_def leadership_lost_def)
qed

lemma server_step_wf: "server_step cfg s s' \<Longrightarrow> server_wf s \<Longrightarrow> server_wf s'"
proof (induction rule: server_step.induct)
  case (new_leader s identity cnt)
  then show ?case by (simp add: OnNewLeader_def startWorkers_wf)
next
  case (started_leading s cnt)
  have "server_wf (s\<lparr>sv_terms := [sv_nextTerm s], sv_nextTerm := Suc (sv_nextTerm s)\<rparr>)"
  proof -
    from started_leading have "(i, ctx) \<in> set (sv_workers s) \<Longrightarrow> ctx = Background" for i ctx
      by (cases ctx) (auto simp: server_wf_def)
    with started_leading show ?thesis by (auto simp: server_wf_def) fastforce+
  qed
  then show ?case by (simp add: onStartedLeading_def reconcileWorkers_wf)
next
  case (replica_tick t s cnt)
  then show ?case by (simp add: reconcileWorkers_wf)
next
  case (lost t s)
  then show ?case by (simp add: leadership_lost_wf)
next
  case (signalled s)
  have "server_wf s0 \<Longrightarrow> server_wf (s0\<lparr>sv_exited := True\<rparr>)" for s0
    by (auto simp: server_wf_def ctx_alive_cong [of "s0\<lparr>sv_exited := True\<rparr>" s0])
  with signalled show ?case by (simp add: stopWorkers_wf)
qed

lemma server_reachable_wf: "(server_step cfg)\<^sup>*\<^sup>* server_init s \<Longrightarrow> server_wf s"
  by (induction rule: rtranclp_induct) (auto intro: server_init_wf server_step_wf)

text \<open>The roles after a reconciliation of the leader and after a follower hears of one.\<close>

lemma reconcile_roles:
  assumes "server_wf s" and "sv_electing s" and "ctx_alive s ctx"
  shows "3 \<le> cnt \<Longrightarrow> sv_workers (reconcileWorkers cnt ctx s) = []"
    and "cnt < 3 \<Longrightarrow> length (sv_workers (reconcileWorkers cnt ctx s)) = 1"
proof -
  show "3 \<le> cnt \<Longrightarrow> sv_workers (reconcileWorkers cnt ctx s) = []"
    using assms(1) by (simp add: reconcileWorkers_def stopWorkers_wf)
  assume "cnt < 3"
  then have r: "reconcileWorkers cnt ctx s = startWorkers ctx s" by (simp add: reconcileWorkers_def)
  have "sv_workersStarted (startWorkers ctx s)" "sv_electing (startWorkers ctx s)"
    using assms(2) by (simp_all add: startWorkers_def)
  with startWorkers_wf [OF assms(1,3)] have "sv_workers (startWorkers ctx s) \<noteq> []"
    and "length (sv_workers (startWorkers ctx s)) \<le> 1" by (auto simp: server_wf_def)
  with r list_le_1 show "length (sv_workers (reconcileWorkers cnt ctx s)) = 1" by fastforce
qed

lemma follower_works:
  assumes "server_wf s" and "sv_electing s" and "identity \<noteq> self" and "3 \<le> cnt"
  shows "length (sv_workers (OnNewLeader self identity cnt s)) = 1"
proof -
  let ?s = "startWorkers Background s"
  have "server_wf ?s" using startWorkers_wf [OF assms(1)] by simp
  moreover have "sv_workersStarted ?s" "sv_electing ?s" using assms(2) by (simp_all add: startWorkers_def)
  ultimately have "sv_workers ?s \<noteq> []" "length (sv_workers ?s) \<le> 1" by (auto simp: server_wf_def)
  with list_le_1 assms(3,4) show ?thesis by (fastforce simp: OnNewLeader_def)
qed

text \<open>A server that has lost the leadership never works or leads again.\<close>

definition retired :: "restServer \<Rightarrow> bool" where
  "retired s \<longleftrightarrow> \<not> sv_electing s \<and> sv_terms s = [] \<and>
     (\<forall>(i, ctx)\<in>set (sv_workers s). ctx = Background)"

lemma lost_retired: "server_wf s \<Longrightarrow> t \<in> set (sv_terms s) \<Longrightarrow> retired (leadership_lost e t s)"
  using leadership_lost_wf(2) [of s t e] list_le_1 [of "sv_terms s"]
  by (fastforce simp: retired_def leadership_lost_def server_wf_def elim!: ctx_alive.elims(2))

lemma retired_step:
  assumes "server_step cfg s s'" and "retired s"
  shows "retired s' \<and> set (sv_workers s') \<subseteq> set (sv_workers s)"
  using assms by (cases rule: server_step.cases)
    (auto simp: retired_def stopWorkers_def Let_def split: option.splits)

lemma retired_forever:
  "(server_step cfg)\<^sup>*\<^sup>* s s' \<Longrightarrow> retired s \<Longrightarrow>
   retired s' \<and> set (sv_workers s') \<subseteq> set (sv_workers s)"
  by (induction rule: rtranclp_induct) (auto dest: retired_step)

section \<open>The informer manager\<close>

datatype ManagerOption = WithResyncPeriod int | WithLabelSelector string

text \<open>
  \<open>im_factory\<close> is the label selector the informer factory was made with, \<open>im_stopped\<close> says that
  the stop channel is closed, \<open>im_watching\<close> that the goroutine that waits for the end of the
  context of a successful start is there.
\<close>

record informer_manager =
  im_resyncPeriod :: int
  im_labelSelector :: string
  im_factory :: "string option"
  im_started :: bool
  im_stopped :: bool
  im_watching :: bool

fun apply_manager_option :: "ManagerOption \<Rightarrow> informer_manager \<Rightarrow> informer_manager" where
  "apply_manager_option (WithResyncPeriod d) m = m\<lparr>im_resyncPeriod := d\<rparr>"
| "apply_manager_option (WithLabelSelector sel) m = m\<lparr>im_labelSelector := sel\<rparr>"

definition NewManager :: "ManagerOption list \<Rightarrow> informer_manager" where
  "NewManager opts =
    (let m = foldl (\<lambda>m opt. apply_manager_option opt m)
               \<lparr>im_resyncPeriod = 30 * Second, im_labelSelector = '''', im_factory = None,
                im_started = False, im_stopped = False, im_watching = False\<rparr> opts
     in if im_labelSelector m \<noteq> '''' then m\<lparr>im_factory := Some (im_labelSelector m)\<rparr> else m)"

text \<open>
  The arguments of \<open>Start\<close> are the answers of the client library: to the registration of the two
  handlers, and whether the cache of each type has synced, given whether the channel is closed.
\<close>

definition Manager_Start ::
  "string option \<Rightarrow> string option \<Rightarrow> (bool \<Rightarrow> (string \<times> bool) list) \<Rightarrow> informer_manager \<Rightarrow>
   string option \<times> informer_manager" where
  "Manager_Start addDeployment addStatefulSet synced m =
    (if im_started m then (None, m)
     else
       let m1 = m\<lparr>im_started := True\<rparr> in
       case addDeployment of
         Some err \<Rightarrow> (Some (''failed to add deployment event handler: '' @ err), m1)
       | None \<Rightarrow>
          (case addStatefulSet of
             Some err \<Rightarrow> (Some (''failed to add statefulset event handler: '' @ err), m1)
           | None \<Rightarrow>
              (case List.find (\<lambda>(typ, ok). \<not> ok) (synced (im_stopped m1)) of
                 Some (typ, ok) \<Rightarrow> (Some (''failed to sync cache for '' @ typ), m1)
               | None \<Rightarrow> (None, m1\<lparr>im_watching := True\<rparr>))))"

definition Manager_Stop :: "informer_manager \<Rightarrow> informer_manager outcome" where
  "Manager_Stop m =
    (if \<not> im_started m then Return m
     else if im_stopped m then Panic ''close of closed channel''
     else Return (m\<lparr>im_stopped := True, im_started := False\<rparr>))"

text \<open>The end of the context of a start whose goroutine is waiting for it.\<close>

definition context_ended :: "informer_manager \<Rightarrow> informer_manager outcome" where
  "context_ended m = (if im_watching m then Manager_Stop (m\<lparr>im_watching := False\<rparr>) else Return m)"

text \<open>
  The events of an informer and what its handlers make of them; an object of another type is
  ignored, a deletion may come as a tombstone.
\<close>

datatype 'q informer_object =
    ObjDeployment "'q workload kobj"
  | ObjStatefulSet "'q workload kobj"
  | Tombstone "'q informer_object"
  | ObjOther

datatype 'q informer_event =
    AddEvent "'q informer_object"
  | UpdateEvent "'q informer_object" "'q informer_object"
  | DeleteEvent "'q informer_object"

fun deployment_handlers ::
  "'q informer_event \<Rightarrow> ResourceReadyWaiter \<Rightarrow> ComponentStatusUpdate option \<times> ResourceReadyWaiter" where
  "deployment_handlers (AddEvent (ObjDeployment d)) w = OnDeploymentUpdate d w"
| "deployment_handlers (UpdateEvent (ObjDeployment old) (ObjDeployment d)) w = OnDeploymentUpdate d w"
| "deployment_handlers (DeleteEvent (ObjDeployment d)) w = OnDeploymentDelete d w"
| "deployment_handlers (DeleteEvent (Tombstone (ObjDeployment d))) w = OnDeploymentDelete d w"
| "deployment_handlers _ w = (None, w)"

fun statefulset_handlers ::
  "'q informer_event \<Rightarrow> ResourceReadyWaiter \<Rightarrow> ComponentStatusUpdate option \<times> ResourceReadyWaiter" where
  "statefulset_handlers (AddEvent (ObjStatefulSet d)) w = OnStatefulSetUpdate d w"
| "statefulset_handlers (UpdateEvent (ObjStatefulSet old) (ObjStatefulSet d)) w = OnStatefulSetUpdate d w"
| "statefulset_handlers (DeleteEvent (ObjStatefulSet d)) w = OnStatefulSetDelete d w"
| "statefulset_handlers (DeleteEvent (Tombstone (ObjStatefulSet d))) w = OnStatefulSetDelete d w"
| "statefulset_handlers _ w = (None, w)"

lemmas handler_defs = OnDeploymentUpdate_def OnDeploymentDelete_def OnStatefulSetUpdate_def OnStatefulSetDelete_def

text \<open>Every event is one step of the waiter, or none.\<close>

lemma handlers_step:
  "snd (deployment_handlers ev w) = w \<or> (\<exists>l. waiter_step w l (snd (deployment_handlers ev w)))"
  "snd (statefulset_handlers ev w) = w \<or> (\<exists>l. waiter_step w l (snd (statefulset_handlers ev w)))"
proof -
  show "snd (deployment_handlers ev w) = w \<or> (\<exists>l. waiter_step w l (snd (deployment_handlers ev w)))"
    by (induction ev w rule: deployment_handlers.induct)
      (auto simp: handler_defs intro: on_update_step on_delete_step)
  show "snd (statefulset_handlers ev w) = w \<or> (\<exists>l. waiter_step w l (snd (statefulset_handlers ev w)))"
    by (induction ev w rule: statefulset_handlers.induct)
      (auto simp: handler_defs intro: on_update_step on_delete_step)
qed

text \<open>
  The life of a manager: starts and ends of contexts in any order. With caches that do not sync
  once the channel is closed no close is repeated, because a second start fails.
\<close>

inductive manager_step ::
  "(bool \<Rightarrow> (string \<times> bool) list) \<Rightarrow> informer_manager \<Rightarrow> informer_manager \<Rightarrow> bool" for synced where
  manager_start: "manager_step synced m (snd (Manager_Start e1 e2 synced m))"
| manager_end: "context_ended m = Return m' \<Longrightarrow> manager_step synced m m'"

definition manager_wf :: "informer_manager \<Rightarrow> bool" where
  "manager_wf m \<longleftrightarrow> (im_stopped m \<longrightarrow> \<not> im_watching m)"

lemma NewManager_wf: "manager_wf (NewManager opts)"
proof -
  have "im_stopped (foldl (\<lambda>m opt. apply_manager_option opt m) m opts) = im_stopped m" for m
  proof (induction opts arbitrary: m)
    case (Cons opt opts)
    have "im_stopped (apply_manager_option opt m) = im_stopped m" by (cases opt) simp_all
    with Cons show ?case by simp
  qed simp
  then show ?thesis by (simp add: manager_wf_def NewManager_def Let_def)
qed

lemma find_exists: "\<exists>x\<in>set xs. P x \<Longrightarrow> \<exists>y. List.find P xs = Some y \<and> P y"
  by (induction xs) auto

lemma Manager_Start_closed:
  assumes "\<exists>(typ, ok)\<in>set (synced True). \<not> ok" and "im_stopped m"
  shows "im_watching (snd (Manager_Start e1 e2 synced m)) = im_watching m"
    and "\<not> im_started m \<Longrightarrow> fst (Manager_Start e1 e2 synced m) \<noteq> None"
proof -
  from assms(1) find_exists [of "synced True" "\<lambda>(typ, ok). \<not> ok"] obtain y where
    "List.find (\<lambda>(typ, ok). \<not> ok) (synced True) = Some y" by auto
  with assms(2) show "im_watching (snd (Manager_Start e1 e2 synced m)) = im_watching m"
    and "\<not> im_started m \<Longrightarrow> fst (Manager_Start e1 e2 synced m) \<noteq> None"
    by (auto simp: Manager_Start_def Let_def split: option.split prod.split)
qed

lemma Manager_Start_stopped [simp]: "im_stopped (snd (Manager_Start e1 e2 synced m)) = im_stopped m"
  by (simp add: Manager_Start_def Let_def split: option.split prod.split)

lemma manager_step_wf:
  "manager_step synced m m' \<Longrightarrow> \<exists>(typ, ok)\<in>set (synced True). \<not> ok \<Longrightarrow> manager_wf m \<Longrightarrow> manager_wf m'"
proof (induction rule: manager_step.induct)
  case (manager_start m e1 e2)
  then show ?case
    using Manager_Start_closed(1) [of synced m e1 e2] by (auto simp: manager_wf_def)
next
  case (manager_end m m')
  then show ?case
    by (auto simp: manager_wf_def context_ended_def Manager_Stop_def split: if_splits)
qed

lemma manager_never_panics:
  assumes "(manager_step synced)\<^sup>*\<^sup>* (NewManager opts) m" and "\<exists>(typ, ok)\<in>set (synced True). \<not> ok"
  shows "\<exists>m'. context_ended m = Return m'"
proof -
  from assms(1) have "manager_wf m"
  proof (induction rule: rtranclp_induct)
    case base
    show ?case by (rule NewManager_wf)
  next
    case (step y z)
    show ?case by (rule manager_step_wf [OF step(2) assms(2) step(3)])
  qed
  then show ?thesis by (auto simp: manager_wf_def context_ended_def Manager_Stop_def)
qed

end
