(* ===== verification/Kube_Cache.thy ===== *)
theory Kube_Cache
  imports Kube_Settings
begin

text \<open>
  The string cache of \<open>utils/cache\<close>: the interface \<open>Cache\<close>, the cache in memory with its expiry
  and its cleaner, the one over Redis, and how \<open>server.go\<close> chooses between them. The locale
  \<open>string_cache\<close> states what a user of a cache relies on; both implementations satisfy it.
\<close>

section \<open>The interface\<close>

text \<open>Every operation is given the time at which it runs.\<close>

record 'st Cache =
  ca_Store :: "string \<Rightarrow> string \<Rightarrow> int \<Rightarrow> 'st \<Rightarrow> string option \<times> 'st"
  ca_Load :: "string \<Rightarrow> int \<Rightarrow> 'st \<Rightarrow> (string \<times> string option) \<times> 'st"
  ca_Exists :: "string \<Rightarrow> int \<Rightarrow> 'st \<Rightarrow> bool \<times> 'st"
  ca_IsCacheDisabled :: bool
  ca_hasRedisClient :: bool

section \<open>The cache in memory\<close>

record cache_item =
  ci_value :: string
  ci_expiresAt :: "int option"

record MemCache =
  mm_noCache :: bool
  mm_items :: "(string \<times> cache_item) list"
  mm_ttl :: int

definition cache_expired :: "cache_item \<Rightarrow> int \<Rightarrow> bool" where
  "cache_expired i now = (case ci_expiresAt i of None \<Rightarrow> False | Some t \<Rightarrow> now > t)"

definition NewMemCache :: "bool \<Rightarrow> MemCache" where
  "NewMemCache noCache = \<lparr>mm_noCache = noCache, mm_items = [], mm_ttl = 24 * Hour\<rparr>"

definition mem_Store :: "string \<Rightarrow> string \<Rightarrow> int \<Rightarrow> MemCache \<Rightarrow> string option \<times> MemCache" where
  "mem_Store key data now m =
    (let expiresAt = (if mm_ttl m > 0 then Some (now + mm_ttl m) else None)
     in (None, m\<lparr>mm_items := AList.update key \<lparr>ci_value = data, ci_expiresAt = expiresAt\<rparr> (mm_items m)\<rparr>))"

definition mem_Load :: "string \<Rightarrow> int \<Rightarrow> MemCache \<Rightarrow> (string \<times> string option) \<times> MemCache" where
  "mem_Load key now m =
    (case map_of (mm_items m) key of
       None \<Rightarrow> (('''', None), m)
     | Some v \<Rightarrow>
        if \<not> cache_expired v now then ((ci_value v, None), m)
        else (('''', None), m\<lparr>mm_items := AList.delete key (mm_items m)\<rparr>))"

definition mem_List :: "MemCache \<Rightarrow> string list" where
  "mem_List m = map (\<lambda>(k, v). ci_value v) (mm_items m)"

definition mem_Exists :: "string \<Rightarrow> int \<Rightarrow> MemCache \<Rightarrow> bool \<times> MemCache" where
  "mem_Exists key now m =
    (case map_of (mm_items m) key of
       None \<Rightarrow> (False, m)
     | Some v \<Rightarrow>
        if \<not> cache_expired v now then (True, m)
        else (False, m\<lparr>mm_items := AList.delete key (mm_items m)\<rparr>))"

text \<open>A tick of the cleaner, once a second.\<close>

definition mem_clean :: "int \<Rightarrow> MemCache \<Rightarrow> MemCache" where
  "mem_clean now m = m\<lparr>mm_items := filter (\<lambda>(k, v). \<not> cache_expired v now) (mm_items m)\<rparr>"

definition MemCache_Cache :: "bool \<Rightarrow> MemCache Cache" where
  "MemCache_Cache noCache = \<lparr>ca_Store = mem_Store, ca_Load = mem_Load, ca_Exists = mem_Exists,
     ca_IsCacheDisabled = noCache, ca_hasRedisClient = False\<rparr>"

section \<open>The cache in Redis\<close>

text \<open>A value of \<open>MGET\<close>: the key may be gone or hold something else than a string.\<close>

datatype mget_value = MNil | MString string | MOther

text \<open>The commands of the client, with the time at the server.\<close>

record 's redis_kv =
  kv_Set :: "string \<Rightarrow> string \<Rightarrow> int \<Rightarrow> int \<Rightarrow> 's \<Rightarrow> redis_error option \<times> 's"
  kv_Get :: "string \<Rightarrow> int \<Rightarrow> 's \<Rightarrow> (redis_error + string) \<times> 's"
  kv_Exists :: "string \<Rightarrow> int \<Rightarrow> 's \<Rightarrow> (redis_error + int) \<times> 's"
  kv_Scan :: "int \<Rightarrow> string \<Rightarrow> int \<Rightarrow> 's \<Rightarrow> redis_error + string list \<times> int"
  kv_MGet :: "string list \<Rightarrow> 's \<Rightarrow> redis_error + mget_value list"

record RedisCache =
  rc_noCache :: bool
  rc_ttl :: int
  rc_keyPrefix :: string

definition defaultTTL :: int where "defaultTTL = 24 * Hour"

definition defaultKeyPrefix :: string where "defaultKeyPrefix = ''kubemin:cache:''"

definition NewRedisCache :: "bool \<Rightarrow> int \<Rightarrow> string \<Rightarrow> RedisCache" where
  "NewRedisCache noCache ttl pre =
    \<lparr>rc_noCache = noCache, rc_ttl = (if ttl \<le> 0 then defaultTTL else ttl),
     rc_keyPrefix = (if pre = '''' then defaultKeyPrefix else pre)\<rparr>"

definition rc_key :: "RedisCache \<Rightarrow> string \<Rightarrow> string" where
  "rc_key c k = rc_keyPrefix c @ k"

definition redis_Store ::
  "'s redis_kv \<Rightarrow> RedisCache \<Rightarrow> string \<Rightarrow> string \<Rightarrow> int \<Rightarrow> 's \<Rightarrow> string option \<times> 's" where
  "redis_Store cli c key data now s =
    (case kv_Set cli (rc_key c key) data (rc_ttl c) now s of (e, s') \<Rightarrow> (map_option redis_error_text e, s'))"

definition redis_Load ::
  "'s redis_kv \<Rightarrow> RedisCache \<Rightarrow> string \<Rightarrow> int \<Rightarrow> 's \<Rightarrow> (string \<times> string option) \<times> 's" where
  "redis_Load cli c key now s =
    (case kv_Get cli (rc_key c key) now s of
       (Inl e, s') \<Rightarrow> if e = RedisNil then (('''', None), s') else (('''', Some (redis_error_text e)), s')
     | (Inr v, s') \<Rightarrow> ((v, None), s'))"

definition redis_Exists :: "'s redis_kv \<Rightarrow> RedisCache \<Rightarrow> string \<Rightarrow> int \<Rightarrow> 's \<Rightarrow> bool \<times> 's" where
  "redis_Exists cli c key now s =
    (case kv_Exists cli (rc_key c key) now s of
       (Inl e, s') \<Rightarrow> (False, s')
     | (Inr n, s') \<Rightarrow> (n = 1, s'))"

fun mget_strings :: "mget_value list \<Rightarrow> string list" where
  "mget_strings [] = []"
| "mget_strings (MNil # vs) = mget_strings vs"
| "mget_strings (MString s # vs) = s # mget_strings vs"
| "mget_strings (MOther # vs) = mget_strings vs"

text \<open>
  The loop of \<open>List\<close>: \<open>None\<close> when the scan has not come back to the cursor 0 after \<open>fuel\<close> pages;
  otherwise the values so far with the error that ended it.
\<close>

fun scan_loop ::
  "'s redis_kv \<Rightarrow> string \<Rightarrow> 's \<Rightarrow> nat \<Rightarrow> int \<Rightarrow> string list \<Rightarrow>
   (string list \<times> string option) option" where
  "scan_loop cli pattern s 0 cursor out = None"
| "scan_loop cli pattern s (Suc n) cursor out =
    (case kv_Scan cli cursor pattern 100 s of
       Inl e \<Rightarrow> Some (out, Some (redis_error_text e))
     | Inr (keys, next) \<Rightarrow>
        if keys = [] then
          if next = 0 then Some (out, None) else scan_loop cli pattern s n next out
        else
          (case kv_MGet cli keys s of
             Inl e \<Rightarrow> Some (out, Some (redis_error_text e))
           | Inr vals \<Rightarrow>
              if next = 0 then Some (out @ mget_strings vals, None)
              else scan_loop cli pattern s n next (out @ mget_strings vals)))"

definition redis_List ::
  "'s redis_kv \<Rightarrow> RedisCache \<Rightarrow> nat \<Rightarrow> 's \<Rightarrow> (string list \<times> string option) option" where
  "redis_List cli c fuel s = scan_loop cli (rc_keyPrefix c @ ''*'') s fuel 0 []"

definition RedisCache_Cache :: "'s redis_kv \<Rightarrow> RedisCache \<Rightarrow> 's Cache" where
  "RedisCache_Cache cli c = \<lparr>ca_Store = redis_Store cli c, ca_Load = redis_Load cli c,
     ca_Exists = redis_Exists cli c, ca_IsCacheDisabled = rc_noCache c, ca_hasRedisClient = True\<rparr>"

section \<open>The choice of the cache\<close>

datatype cache_choice = InMemory MemCache | InRedis RedisCache

text \<open>\<open>NewRedisCacheWithClient\<close> and \<open>New\<close>; the flag says whether a client is there.\<close>

definition NewRedisCacheWithClient :: "bool \<Rightarrow> bool \<Rightarrow> cache_choice" where
  "NewRedisCacheWithClient hasClient noCache =
    (if \<not> hasClient then InMemory (NewMemCache noCache)
     else InRedis \<lparr>rc_noCache = noCache, rc_ttl = defaultTTL, rc_keyPrefix = defaultKeyPrefix\<rparr>)"

definition New_cache :: "bool \<Rightarrow> bool \<Rightarrow> string \<Rightarrow> cache_choice" where
  "New_cache hasClient noCache cacheType =
    (if cacheType = ''memory'' then InMemory (NewMemCache noCache)
     else if cacheType = ''redis'' then NewRedisCacheWithClient hasClient noCache
     else InMemory (NewMemCache noCache))"

text \<open>The cache that \<open>buildIoCContainer\<close> provides.\<close>

definition build_cache :: "(RedisCacheConfig \<Rightarrow> string option) \<Rightarrow> Config \<Rightarrow> cache_choice" where
  "build_cache ensureRedis c =
    (if ToLower (cc_CacheType (cf_Cache c)) = ''redis'' then
       (case ensureRedis (cf_Cache c) of
          Some err \<Rightarrow> New_cache False False ''memory''
        | None \<Rightarrow> InRedis (NewRedisCache False (cc_CacheTTL (cf_Cache c)) (cc_KeyPrefix (cf_Cache c))))
     else New_cache False False ''memory'')"

section \<open>What a cache promises\<close>

text \<open>\<open>live\<close> are the entries that have not expired at a time.\<close>

locale string_cache =
  fixes c :: "'st Cache" and live :: "int \<Rightarrow> 'st \<Rightarrow> string \<Rightarrow> string option"
  assumes store_law: "ca_Store c k v now st = (None, st') \<Longrightarrow> live now st' = (live now st)(k \<mapsto> v)"
    and load_law: "ca_Load c k now st = ((v, None), st') \<Longrightarrow>
      v = (case live now st k of Some x \<Rightarrow> x | None \<Rightarrow> '''')"
    and load_keeps: "ca_Load c k now st = (r, st') \<Longrightarrow> now \<le> now' \<Longrightarrow> live now' st' = live now' st"
    and exists_law: "ca_Exists c k now st = (True, st') \<Longrightarrow> live now st k \<noteq> None"
    and exists_keeps: "ca_Exists c k now st = (b, st') \<Longrightarrow> now \<le> now' \<Longrightarrow> live now' st' = live now' st"
    and expiry: "now \<le> now' \<Longrightarrow> live now' st \<subseteq>\<^sub>m live now st"
begin

text \<open>What is stored is read back at once, and other keys are not touched.\<close>

lemma load_after_store:
  assumes "ca_Store c k v now st = (None, st1)" and "ca_Load c k' now st1 = ((x, None), st2)"
  shows "x = (if k' = k then v else (case live now st k' of Some y \<Rightarrow> y | None \<Rightarrow> ''''))"
  using store_law [OF assms(1)] load_law [OF assms(2)] by simp

text \<open>Reading never changes what a later read sees.\<close>

lemma load_twice:
  assumes "ca_Load c k now st = ((x, None), st1)" and "ca_Load c k now' st1 = ((y, None), st2)" and "now \<le> now'"
  shows "y = x \<or> y = ''''"
proof -
  from load_keeps [OF assms(1,3)] load_law [OF assms(2)]
  have y: "y = (case live now' st k of Some z \<Rightarrow> z | None \<Rightarrow> '''')" by simp
  show ?thesis
  proof (cases "live now' st k")
    case (Some z)
    with expiry [OF assms(3), of st] have "live now st k = Some z" by (auto simp: map_le_def dom_def)
    with load_law [OF assms(1)] y Some show ?thesis by simp
  qed (simp add: y)
qed

end

section \<open>Both caches keep the promise\<close>

definition mem_live :: "int \<Rightarrow> MemCache \<Rightarrow> string \<Rightarrow> string option" where
  "mem_live now m k =
    (case map_of (mm_items m) k of
       None \<Rightarrow> None
     | Some v \<Rightarrow> if cache_expired v now then None else Some (ci_value v))"

lemma cache_expired_mono: "cache_expired v now \<Longrightarrow> now \<le> now' \<Longrightarrow> cache_expired v now'"
  by (auto simp: cache_expired_def split: option.splits)

lemma mem_live_delete:
  assumes "map_of (mm_items m) k = Some v" and "cache_expired v now" and "now \<le> now'"
  shows "mem_live now' (m\<lparr>mm_items := AList.delete k (mm_items m)\<rparr>) = mem_live now' m"
  using assms cache_expired_mono by (fastforce simp: mem_live_def delete_conv' split: option.split)

interpretation memory: string_cache "MemCache_Cache noCache" mem_live for noCache
proof
  fix k v now m m' assume "ca_Store (MemCache_Cache noCache) k v now m = (None, m')"
  then show "mem_live now m' = (mem_live now m)(k \<mapsto> v)"
    by (auto simp: MemCache_Cache_def mem_Store_def mem_live_def update_conv' cache_expired_def Let_def)
next
  fix k v now m m' assume "ca_Load (MemCache_Cache noCache) k now m = ((v, None), m')"
  then show "v = (case mem_live now m k of Some x \<Rightarrow> x | None \<Rightarrow> '''')"
    by (auto simp: MemCache_Cache_def mem_Load_def mem_live_def split: option.splits if_splits)
next
  fix k now m r m' now' assume "ca_Load (MemCache_Cache noCache) k now m = (r, m')" "now \<le> now'"
  then show "mem_live now' m' = mem_live now' m"
    by (auto simp: MemCache_Cache_def mem_Load_def mem_live_delete split: option.splits if_splits)
next
  fix k now m m' assume "ca_Exists (MemCache_Cache noCache) k now m = (True, m')"
  then show "mem_live now m k \<noteq> None"
    by (auto simp: MemCache_Cache_def mem_Exists_def mem_live_def split: option.splits if_splits)
next
  fix k now m b m' now' assume "ca_Exists (MemCache_Cache noCache) k now m = (b, m')" "now \<le> now'"
  then show "mem_live now' m' = mem_live now' m"
    by (auto simp: MemCache_Cache_def mem_Exists_def mem_live_delete split: option.splits if_splits)
next
  fix now now' m assume "(now :: int) \<le> now'"
  then show "mem_live now' m \<subseteq>\<^sub>m mem_live now m"
    using cache_expired_mono by (fastforce simp: map_le_def mem_live_def split: option.splits if_splits)
qed

text \<open>The cleaner removes only what no read would return any more.\<close>

lemma map_of_filter_distinct:
  "distinct (map fst xs) \<Longrightarrow>
   map_of (filter (\<lambda>(k, v). P v) xs) k = (case map_of xs k of Some v \<Rightarrow> if P v then Some v else None | None \<Rightarrow> None)"
  by (induction xs) (auto split: option.split simp: map_of_eq_None_iff image_iff)

lemma mem_clean_live:
  "distinct (map fst (mm_items m)) \<Longrightarrow> now \<le> now' \<Longrightarrow> mem_live now' (mem_clean now m) = mem_live now' m"
  using cache_expired_mono [of _ now now']
  by (auto simp: mem_live_def mem_clean_def map_of_filter_distinct fun_eq_iff split: option.split)

lemma mem_items_distinct:
  "distinct (map fst (mm_items m)) \<Longrightarrow> distinct (map fst (mm_items (snd (mem_Store k v now m))))"
  "distinct (map fst (mm_items m)) \<Longrightarrow> distinct (map fst (mm_items (snd (mem_Load k now m))))"
  "distinct (map fst (mm_items m)) \<Longrightarrow> distinct (map fst (mm_items (snd (mem_Exists k now m))))"
  "distinct (map fst (mm_items m)) \<Longrightarrow> distinct (map fst (mm_items (mem_clean now m)))"
  by (auto simp: mem_Store_def mem_Load_def mem_Exists_def mem_clean_def distinct_update distinct_delete
      distinct_map_filter split: option.split)

text \<open>The documented behaviour of the Redis commands the cache uses.\<close>

locale redis_keys =
  fixes cli :: "'s redis_kv" and kv :: "int \<Rightarrow> 's \<Rightarrow> string \<Rightarrow> string option"
  assumes set_law: "kv_Set cli k v ttl now s = (None, s') \<Longrightarrow> 0 < ttl \<Longrightarrow> kv now s' = (kv now s)(k \<mapsto> v)"
    and get_law: "kv_Get cli k now s = (r, s') \<Longrightarrow>
      (\<forall>v. r = Inr v \<longrightarrow> kv now s k = Some v) \<and> (r = Inl RedisNil \<longrightarrow> kv now s k = None) \<and>
      (\<forall>now'\<ge>now. kv now' s' = kv now' s)"
    and exists_kv: "kv_Exists cli k now s = (n, s') \<Longrightarrow>
      (n = Inr 1 \<longrightarrow> kv now s k \<noteq> None) \<and> (\<forall>now'\<ge>now. kv now' s' = kv now' s)"
    and kv_expiry: "now \<le> now' \<Longrightarrow> kv now' s \<subseteq>\<^sub>m kv now s"

lemma redis_Cache_sel:
  "ca_Store (RedisCache_Cache cli c) = redis_Store cli c" "ca_Load (RedisCache_Cache cli c) = redis_Load cli c"
  "ca_Exists (RedisCache_Cache cli c) = redis_Exists cli c"
  by (simp_all add: RedisCache_Cache_def)

lemma NewRedisCache_ttl: "0 < rc_ttl (NewRedisCache noCache ttl pre)"
  by (simp add: NewRedisCache_def defaultTTL_def Hour_def duration_defs)

sublocale redis_keys \<subseteq> cached: string_cache "RedisCache_Cache cli (NewRedisCache noCache ttl pre)"
  "\<lambda>now s k. kv now s (rc_key (NewRedisCache noCache ttl pre) k)" for noCache ttl pre
proof
  let ?c = "NewRedisCache noCache ttl pre"
  fix k v now s s' assume "ca_Store (RedisCache_Cache cli ?c) k v now s = (None, s')"
  then have "kv_Set cli (rc_key ?c k) v (rc_ttl ?c) now s = (None, s')"
    by (auto simp: redis_Cache_sel redis_Store_def split: prod.splits)
  from set_law [OF this NewRedisCache_ttl]
  show "(\<lambda>k. kv now s' (rc_key ?c k)) = (\<lambda>k. kv now s (rc_key ?c k))(k \<mapsto> v)"
    by (auto simp: rc_key_def)
next
  let ?c = "NewRedisCache noCache ttl pre"
  fix k v now s s' assume "ca_Load (RedisCache_Cache cli ?c) k now s = ((v, None), s')"
  then show "v = (case kv now s (rc_key ?c k) of Some x \<Rightarrow> x | None \<Rightarrow> '''')"
    using get_law [of "rc_key ?c k" now s]
    by (auto simp: redis_Cache_sel redis_Load_def split: prod.splits sum.splits if_splits)
next
  let ?c = "NewRedisCache noCache ttl pre"
  fix k now s r s' and now' :: int assume "ca_Load (RedisCache_Cache cli ?c) k now s = (r, s')" "now \<le> now'"
  then show "(\<lambda>k. kv now' s' (rc_key ?c k)) = (\<lambda>k. kv now' s (rc_key ?c k))"
    using get_law [of "rc_key ?c k" now s]
    by (auto simp: redis_Cache_sel redis_Load_def split: prod.splits sum.splits if_splits)
next
  let ?c = "NewRedisCache noCache ttl pre"
  fix k now s s' assume "ca_Exists (RedisCache_Cache cli ?c) k now s = (True, s')"
  then show "kv now s (rc_key ?c k) \<noteq> None"
    using exists_kv [of "rc_key ?c k" now s]
    by (auto simp: redis_Cache_sel redis_Exists_def split: prod.splits sum.splits)
next
  let ?c = "NewRedisCache noCache ttl pre"
  fix k now s b s' and now' :: int assume "ca_Exists (RedisCache_Cache cli ?c) k now s = (b, s')" "now \<le> now'"
  then show "(\<lambda>k. kv now' s' (rc_key ?c k)) = (\<lambda>k. kv now' s (rc_key ?c k))"
    using exists_kv [of "rc_key ?c k" now s]
    by (auto simp: redis_Cache_sel redis_Exists_def split: prod.splits sum.splits)
next
  let ?c = "NewRedisCache noCache ttl pre"
  fix now now' s assume "(now :: int) \<le> now'"
  then show "(\<lambda>k. kv now' s (rc_key ?c k)) \<subseteq>\<^sub>m (\<lambda>k. kv now s (rc_key ?c k))"
    using kv_expiry [of now now' s] by (auto simp: map_le_def dom_def)
qed

text \<open>An instance of the promise: keys with the time they expire at.\<close>

definition kv_server :: "(string \<Rightarrow> (string \<times> int) option) redis_kv" where
  "kv_server =
    \<lparr>kv_Set = (\<lambda>k v ttl now s. (None, s(k \<mapsto> (v, now + ttl)))),
     kv_Get = (\<lambda>k now s. (case s k of Some (v, t) \<Rightarrow> if now < t then Inr v else Inl RedisNil | None \<Rightarrow> Inl RedisNil, s)),
     kv_Exists = (\<lambda>k now s. (case s k of Some (v, t) \<Rightarrow> if now < t then Inr 1 else Inr 0 | None \<Rightarrow> Inr 0, s)),
     kv_Scan = (\<lambda>cursor pattern n s. Inr ([], 0)), kv_MGet = (\<lambda>ks s. Inr [])\<rparr>"

definition kv_live :: "int \<Rightarrow> (string \<Rightarrow> (string \<times> int) option) \<Rightarrow> string \<Rightarrow> string option" where
  "kv_live now s k = (case s k of Some (v, t) \<Rightarrow> if now < t then Some v else None | None \<Rightarrow> None)"

interpretation kvs: redis_keys kv_server kv_live
proof
  fix k v ttl now s s' assume "kv_Set kv_server k v ttl now s = (None, s')" "0 < ttl"
  then show "kv_live now s' = (kv_live now s)(k \<mapsto> v)"
    by (auto simp: kv_server_def kv_live_def)
next
  fix k now s r s' assume "kv_Get kv_server k now s = (r, s')"
  then show "(\<forall>v. r = Inr v \<longrightarrow> kv_live now s k = Some v) \<and> (r = Inl RedisNil \<longrightarrow> kv_live now s k = None) \<and>
      (\<forall>now'\<ge>now. kv_live now' s' = kv_live now' s)"
    by (auto simp: kv_server_def kv_live_def split: option.splits if_splits)
next
  fix k now s n s' assume "kv_Exists kv_server k now s = (n, s')"
  then show "(n = Inr 1 \<longrightarrow> kv_live now s k \<noteq> None) \<and> (\<forall>now'\<ge>now. kv_live now' s' = kv_live now' s)"
    by (auto simp: kv_server_def kv_live_def split: option.splits if_splits)
next
  fix now now' :: int and s assume "now \<le> now'"
  then show "kv_live now' s \<subseteq>\<^sub>m kv_live now s"
    by (auto simp: kv_live_def map_le_def split: option.splits if_splits)
qed

text \<open>
  The scan of \<open>List\<close>: when the cursors come back to 0 after \<open>n\<close> pages that fuel is enough, and
  the result is the values of the pages in their order.
\<close>

lemma scan_loop_pages:
  assumes "\<And>i. i < n \<Longrightarrow> kv_Scan cli (cur i) pattern 100 s = Inr (keys i, cur (Suc i))"
    and "\<And>i. i < n \<Longrightarrow> kv_MGet cli (keys i) s = Inr (vals i)" and "\<And>i. i < n \<Longrightarrow> keys i = [] \<Longrightarrow> vals i = []"
    and "\<And>i. 0 < i \<Longrightarrow> i < n \<Longrightarrow> cur i \<noteq> 0" and "cur n = 0" and "j < n"
  shows "scan_loop cli pattern s (n - j) (cur j) out =
    Some (out @ concat (map (\<lambda>i. mget_strings (vals i)) [j..<n]), None)"
  using assms(6)
proof (induction "n - j" arbitrary: j out)
  case (Suc m)
  then have nj: "n - j = Suc (n - Suc j)" by simp
  have pages: "[j..<n] = j # [Suc j..<n]" using Suc.prems by (simp add: upt_conv_Cons)
  show ?case
  proof (cases "Suc j = n")
    case True
    with assms(1) [OF Suc.prems] assms(2) [OF Suc.prems] assms(3) [OF Suc.prems] assms(5) show ?thesis
      unfolding nj pages by simp
  next
    case False
    with Suc.prems have "Suc j < n" by simp
    with assms(4) have "cur (Suc j) \<noteq> 0" by simp
    with Suc(1) [of "Suc j"] Suc(2) \<open>Suc j < n\<close> assms(1) [OF Suc.prems] assms(2) [OF Suc.prems] assms(3) [OF Suc.prems]
    show ?thesis unfolding nj pages by simp
  qed
qed simp

end
