(* ===== verification/Kube_Requests.thy ===== *)
theory Kube_Requests
  imports Kube_Service Kube_Created
begin

text \<open>
  The rest of the services and the repositories: \<open>CreateWorkflowTask\<close> with its roll-back and the
  delegating functions of \<open>domain/service/workflow.go\<close>, the lists of applications of
  \<open>domain/service/application.go\<close>, the checks of \<open>workflow/workflow.go\<close>, and the repository
  objects of \<open>domain/repository\<close>.
\<close>

section \<open>Repositories\<close>

text \<open>A repository object is the record of its methods over one datastore.\<close>

record 'db WorkflowRepository =
  rw_FindByID :: "'db \<Rightarrow> string \<Rightarrow> DBError + Workflow"
  rw_Create :: "int \<Rightarrow> 'db \<Rightarrow> Workflow \<Rightarrow> DBError option \<times> 'db"
  rw_Update :: "int \<Rightarrow> 'db \<Rightarrow> Workflow \<Rightarrow> DBError option \<times> 'db"
  rw_Delete :: "'db \<Rightarrow> Workflow \<Rightarrow> DBError option \<times> 'db"
  rw_DeleteByAppID :: "'db \<Rightarrow> string \<Rightarrow> DBError option \<times> 'db"
  rw_FindByAppID :: "'db \<Rightarrow> string \<Rightarrow> DBError + Workflow list"

definition repo_CreateWorkflow :: "'db AppStores \<Rightarrow> int \<Rightarrow> 'db \<Rightarrow> Workflow \<Rightarrow> DBError option \<times> 'db" where
  "repo_CreateWorkflow st now db workflow = ds_Add (as_Workflow st) now db workflow"

definition DelWorkflow :: "'db AppStores \<Rightarrow> 'db \<Rightarrow> Workflow \<Rightarrow> DBError option \<times> 'db" where
  "DelWorkflow st db workflow = ds_Delete (as_Workflow st) db workflow"

definition workflowRepository :: "'db AppStores \<Rightarrow> 'db WorkflowRepository" where
  "workflowRepository st =
    \<lparr>rw_FindByID = WorkflowByID (as_Workflow st), rw_Create = repo_CreateWorkflow st,
     rw_Update = ds_Put (as_Workflow st), rw_Delete = DelWorkflow st,
     rw_DeleteByAppID = DelWorkflowsByAppID st, rw_FindByAppID = FindWorkflowsByAppID st\<rparr>"

record 'db ComponentRepository =
  rc_Create :: "int \<Rightarrow> 'db \<Rightarrow> ApplicationComponent \<Rightarrow> DBError option \<times> 'db"
  rc_Update :: "int \<Rightarrow> 'db \<Rightarrow> ApplicationComponent \<Rightarrow> DBError option \<times> 'db"
  rc_Delete :: "'db \<Rightarrow> ApplicationComponent \<Rightarrow> DBError option \<times> 'db"
  rc_BatchAdd :: "int \<Rightarrow> 'db \<Rightarrow> ApplicationComponent list \<Rightarrow> DBError option \<times> 'db"
  rc_DeleteByAppID :: "'db \<Rightarrow> string \<Rightarrow> DBError option \<times> 'db"
  rc_FindByAppID :: "'db \<Rightarrow> string \<Rightarrow> DBError + ApplicationComponent list"
  rc_FindByName :: "'db \<Rightarrow> string \<Rightarrow> string \<Rightarrow> DBError + ApplicationComponent"

definition repo_CreateComponents ::
  "'db AppStores \<Rightarrow> int \<Rightarrow> 'db \<Rightarrow> ApplicationComponent \<Rightarrow> DBError option \<times> 'db" where
  "repo_CreateComponents st now db component = ds_Add (as_Component st) now db component"

definition FindComponentByName ::
  "'db AppStores \<Rightarrow> 'db \<Rightarrow> string \<Rightarrow> string \<Rightarrow> DBError + ApplicationComponent" where
  "FindComponentByName st db appID name =
    (case FindComponentsByAppID st db appID of
       Inl err \<Rightarrow> Inl err
     | Inr components \<Rightarrow>
        (case List.find (\<lambda>c. ac_Name c = name) components of
           Some found \<Rightarrow> Inr found
         | None \<Rightarrow> Inl ErrRecordNotExist))"

definition componentRepository :: "'db AppStores \<Rightarrow> 'db ComponentRepository" where
  "componentRepository st =
    \<lparr>rc_Create = repo_CreateComponents st, rc_Update = ds_Put (as_Component st),
     rc_Delete = ds_Delete (as_Component st), rc_BatchAdd = ds_BatchAdd (as_Component st),
     rc_DeleteByAppID = DelComponentsByAppID st, rc_FindByAppID = FindComponentsByAppID st,
     rc_FindByName = FindComponentByName st\<rparr>"

record 'db WorkflowQueueRepository =
  rq_Create :: "int \<Rightarrow> 'db \<Rightarrow> WorkflowQueue \<Rightarrow> DBError option \<times> 'db"
  rq_Update :: "int \<Rightarrow> 'db \<Rightarrow> WorkflowQueue \<Rightarrow> DBError option \<times> 'db"
  rq_FindByID :: "'db \<Rightarrow> string \<Rightarrow> DBError + WorkflowQueue"
  rq_FindWaiting :: "'db \<Rightarrow> DBError + WorkflowQueue list"
  rq_FindRunning :: "'db \<Rightarrow> DBError + WorkflowQueue list"
  rq_UpdateStatus :: "int \<Rightarrow> 'db \<Rightarrow> string \<Rightarrow> Status \<Rightarrow> Status \<Rightarrow> (DBError + bool) \<times> 'db"

definition workflowQueueRepository :: "('db, WorkflowQueue) DataStore \<Rightarrow> 'db WorkflowQueueRepository" where
  "workflowQueueRepository store =
    \<lparr>rq_Create = CreateWorkflowQueue store, rq_Update = UpdateTask store, rq_FindByID = TaskByID store,
     rq_FindWaiting = WaitingTasks store, rq_FindRunning = TaskRunning store,
     rq_UpdateStatus = UpdateTaskStatus store\<rparr>"

record 'db ApplicationRepository =
  ra_FindByID :: "'db \<Rightarrow> string \<Rightarrow> DBError + Applications"
  ra_FindByName :: "'db \<Rightarrow> string \<Rightarrow> DBError + Applications"
  ra_Create :: "int \<Rightarrow> 'db \<Rightarrow> Applications \<Rightarrow> DBError option \<times> 'db"
  ra_Update :: "int \<Rightarrow> 'db \<Rightarrow> Applications \<Rightarrow> DBError option \<times> 'db"
  ra_Delete :: "'db \<Rightarrow> Applications \<Rightarrow> DBError option \<times> 'db"
  ra_List :: "'db \<Rightarrow> ListOptions \<Rightarrow> DBError + Applications list"

definition repo_ListApplications :: "'db AppStores \<Rightarrow> 'db \<Rightarrow> ListOptions \<Rightarrow> DBError + Applications list" where
  "repo_ListApplications st db options = ds_List (as_App st) db (Some Applications_zero) (Some options)"

definition applicationRepository :: "'db AppStores \<Rightarrow> 'db ApplicationRepository" where
  "applicationRepository st =
    \<lparr>ra_FindByID = ApplicationByID st, ra_FindByName = ApplicationByName st,
     ra_Create = repo_CreateApplications st, ra_Update = ds_Put (as_App st),
     ra_Delete = ds_Delete (as_App st), ra_List = repo_ListApplications st\<rparr>"

section \<open>Creating a workflow by itself\<close>

text \<open>Steps of a workflow that is created by itself: the service does not read them.\<close>

record CreateWorkflowStepsRequest =
  cx_Name :: string
  cx_ComponentType :: JobType
  cx_Policies :: "string list"
  cx_Components :: "string list"
  cx_Mode :: string
  cx_SubSteps :: "CreateWorkflowSubStepRequest list"

record CreateWorkflowRequest =
  cw_Name :: string
  cw_Project :: string
  cw_Alias :: string
  cw_Description :: string
  cw_Labels :: "string \<rightharpoonup> string"
  cw_Component :: "CreateComponentRequest list"
  cw_Workflows :: "CreateWorkflowStepsRequest list"
  cw_TryRun :: bool

definition ConvertWorkflow :: "string \<Rightarrow> CreateWorkflowRequest \<Rightarrow> Workflow" where
  "ConvertWorkflow newID req =
    Workflow_zero\<lparr>wf_ID := newID, wf_Name := ToLower (cw_Name req), wf_Alias := cw_Alias req,
      wf_Disabled := True, wf_ProjectID := ToLower (cw_Project req), wf_Description := cw_Description req\<rparr>"

definition ConvertComponent :: "CreateComponentRequest \<Rightarrow> string \<Rightarrow> ApplicationComponent" where
  "ConvertComponent req appID =
    ApplicationComponent_zero\<lparr>ac_Name := cr_Name req, ac_AppID := appID, ac_Namespace := cr_Namespace req,
      ac_Image := cr_Image req, ac_Replicas := (if cr_Replicas req \<le> 0 then 1 else cr_Replicas req),
      ac_ComponentType := cr_ComponentType req\<rparr>"

definition workflow_char :: "char \<Rightarrow> bool" where
  "workflow_char c \<longleftrightarrow> is_lower c \<or> is_upper c \<or> is_digit c \<or> c = CHR ''-''"

definition WorkflowRegex :: rexp where
  "WorkflowRegex = RPlus (RCls workflow_char)"

text \<open>\<open>LintWorkflow\<close> lowers the name of the workflow in place; the result is its error.\<close>

definition LintWorkflow :: "Workflow \<Rightarrow> string option \<times> Workflow" where
  "LintWorkflow workflow0 =
    (let workflow = workflow0\<lparr>wf_Name := ToLower (wf_Name workflow0)\<rparr> in
     if wf_ProjectID workflow = '''' then (Some ''project should not be empty'', workflow)
     else if \<not> MatchString WorkflowRegex (wf_Name workflow)
     then (Some ''workflow identifier supports uppercase and lowercase letters, digits, and hyphens'', workflow)
     else (None, workflow))"

datatype create_error =
    CWorkflowExist | CCheckFailed DBError | CLint string | CCreateWorkflow | CCreateComponents

text \<open>The errors of a roll-back are only logged.\<close>

definition rollbackWorkflowCreation :: "'db AppStores \<Rightarrow> 'db \<Rightarrow> Workflow \<Rightarrow> 'db" where
  "rollbackWorkflowCreation st db workflow =
    snd (DelWorkflow st (snd (DelComponentsByAppID st db (wf_ID workflow))) workflow)"

definition rollbackApplicationCreation :: "'db AppStores \<Rightarrow> 'db \<Rightarrow> Applications \<Rightarrow> 'db" where
  "rollbackApplicationCreation st db application = snd (DelComponentsByAppID st db (ap_ID application))"

text \<open>The encoding of \<open>Properties\<close> does not fail.\<close>

fun create_components_loop ::
  "'db AppStores \<Rightarrow> int \<Rightarrow> Workflow \<Rightarrow> CreateComponentRequest list \<Rightarrow> 'db \<Rightarrow> create_error option \<times> 'db" where
  "create_components_loop st now workflow [] db = (None, db)"
| "create_components_loop st now workflow (component # components) db =
    (let nComponent = (ConvertComponent component (wf_ID workflow))
           \<lparr>ac_Properties := Some (encode_properties (cr_Properties component))\<rparr> in
     case repo_CreateComponents st now db nComponent of
       (Some err, db') \<Rightarrow> (Some CCreateComponents, rollbackWorkflowCreation st db' workflow)
     | (None, db') \<Rightarrow> create_components_loop st now workflow components db')"

definition CreateWorkflowTask ::
  "'db AppStores \<Rightarrow> int \<Rightarrow> string \<Rightarrow> CreateWorkflowRequest \<Rightarrow> 'db \<Rightarrow> (create_error + string) \<times> 'db" where
  "CreateWorkflowTask st now newID req db =
    (case ds_IsExist (as_Workflow st) db (Some (Workflow_zero\<lparr>wf_Name := cw_Name req\<rparr>)) of
       Inl err \<Rightarrow> (Inl (CCheckFailed err), db)
     | Inr True \<Rightarrow> (Inl CWorkflowExist, db)
     | Inr False \<Rightarrow>
        (case LintWorkflow (ConvertWorkflow newID req) of
           (Some err, workflow) \<Rightarrow> (Inl (CLint err), db)
         | (None, workflow) \<Rightarrow>
            (case repo_CreateWorkflow st now db workflow of
               (Some err, db1) \<Rightarrow> (Inl CCreateWorkflow, db1)
             | (None, db1) \<Rightarrow>
                (case create_components_loop st now workflow (cw_Component req) db1 of
                   (Some err, db2) \<Rightarrow> (Inl err, db2)
                 | (None, db2) \<Rightarrow> (Inr (wf_ID workflow), db2)))))"

section \<open>Delegating functions of the workflow service\<close>

definition service_WaitingTasks ::
  "('db, WorkflowQueue) DataStore \<Rightarrow> 'db \<Rightarrow> DBError + WorkflowQueue list" where
  "service_WaitingTasks store db = WaitingTasks store db"

definition service_UpdateTask ::
  "('db, WorkflowQueue) DataStore \<Rightarrow> int \<Rightarrow> 'db \<Rightarrow> WorkflowQueue \<Rightarrow> bool \<times> 'db" where
  "service_UpdateTask store now db task =
    (case UpdateTask store now db task of (Some err, db') \<Rightarrow> (False, db') | (None, db') \<Rightarrow> (True, db'))"

definition MarkTaskStatus ::
  "('db, WorkflowQueue) DataStore \<Rightarrow> int \<Rightarrow> 'db \<Rightarrow> string \<Rightarrow> Status \<Rightarrow> Status \<Rightarrow> (DBError + bool) \<times> 'db" where
  "MarkTaskStatus store now db taskID old new = UpdateTaskStatus store now db taskID old new"

definition service_TaskRunning ::
  "('db, WorkflowQueue) DataStore \<Rightarrow> 'db \<Rightarrow> DBError + WorkflowQueue list" where
  "service_TaskRunning store db = TaskRunning store db"

section \<open>Lists of applications\<close>

record ApplicationBase =
  ab_ID :: string
  ab_Name :: string
  ab_Namespace :: string
  ab_Alias :: string
  ab_Project :: string
  ab_Version :: string
  ab_Description :: string
  ab_CreateTime :: int
  ab_UpdateTime :: int
  ab_Icon :: string
  ab_WorkflowID :: string
  ab_TmpEnable :: bool

definition ConvertAppModelToBase :: "Applications \<Rightarrow> string \<Rightarrow> ApplicationBase" where
  "ConvertAppModelToBase app workflowID =
    \<lparr>ab_ID = ap_ID app, ab_Name = ap_Name app, ab_Namespace = ap_Namespace app, ab_Alias = ap_Alias app,
     ab_Project = ap_Project app, ab_Version = ap_Version app, ab_Description = ap_Description app,
     ab_CreateTime = ap_CreateTime app, ab_UpdateTime = ap_UpdateTime app, ab_Icon = ap_Icon app,
     ab_WorkflowID = workflowID, ab_TmpEnable = ap_TmpEnable app\<rparr>"

text \<open>
  \<open>sort.Slice\<close> does not say how it orders applications of one second; here they keep their order.
\<close>

definition newest_first :: "ApplicationBase list \<Rightarrow> ApplicationBase list" where
  "newest_first xs = sort_key (\<lambda>a. - unix_seconds (ab_UpdateTime a)) xs"

definition ListApplications :: "'db AppStores \<Rightarrow> 'db \<Rightarrow> DBError + ApplicationBase list" where
  "ListApplications st db =
    (case repo_ListApplications st db (noListOptions\<lparr>lo_Page := 0, lo_PageSize := 10\<rparr>) of
       Inl err \<Rightarrow> Inl err
     | Inr apps \<Rightarrow> Inr (newest_first (map (\<lambda>app. ConvertAppModelToBase app '''') apps)))"

definition ListTemplateApplications :: "'db AppStores \<Rightarrow> 'db \<Rightarrow> DBError + ApplicationBase list" where
  "ListTemplateApplications st db =
    (case repo_ListApplications st db (noListOptions\<lparr>lo_Page := 0, lo_PageSize := 0\<rparr>) of
       Inl err \<Rightarrow> Inl err
     | Inr apps \<Rightarrow> Inr (newest_first (map (\<lambda>app. ConvertAppModelToBase app '''') (filter ap_TmpEnable apps))))"

section \<open>Lemmas\<close>

lemma LintWorkflow_passes:
  "LintWorkflow w = (None, w') \<longleftrightarrow>
     w' = w\<lparr>wf_Name := ToLower (wf_Name w)\<rparr> \<and> wf_ProjectID w \<noteq> '''' \<and>
     wf_Name w' \<noteq> '''' \<and> list_all workflow_char (wf_Name w')"
  by (auto simp: LintWorkflow_def Let_def MatchString_iff WorkflowRegex_def)

lemma char_lower_idem: "char_lower (char_lower c) = char_lower c"
proof (cases "is_upper c")
  case True
  then have "char_code (char_of (char_code c + 32)) = char_code c + 32"
    by (simp add: is_upper_def char_code_def)
  with True show ?thesis by (simp add: char_lower_def is_upper_def)
qed (simp add: char_lower_def)

lemma ToLower_idem: "ToLower (ToLower s) = ToLower s"
  by (simp add: ToLower_def char_lower_idem)

lemma ConvertWorkflow_lint:
  "LintWorkflow (ConvertWorkflow newID req) = (None, w) \<Longrightarrow> w = ConvertWorkflow newID req"
  by (auto simp: LintWorkflow_passes ConvertWorkflow_def ToLower_idem)

text \<open>
  Limits: the page 0 that \<open>ListApplications\<close> asks for is no page for the driver, which then lists
  the whole table; the templates are the marked ones of that list.
\<close>

lemma Driver_List_page0:
  "Driver_List E cl db e (Some (opt\<lparr>lo_Page := 0, lo_PageSize := n\<rparr>)) =
   Driver_List E cl db e (Some (opt\<lparr>lo_Page := 0, lo_PageSize := 0\<rparr>))"
  by (cases e) (simp_all add: Driver_List_def list_query_def)

lemma newest_first_filter: "newest_first (filter P xs) = filter P (newest_first xs)"
  by (simp add: newest_first_def filter_sort)

lemma map_Convert_filter:
  "map (\<lambda>app. ConvertAppModelToBase app w) (filter ap_TmpEnable apps) =
   filter ab_TmpEnable (map (\<lambda>app. ConvertAppModelToBase app w) apps)"
  by (induction apps) (simp_all add: ConvertAppModelToBase_def)

lemma templates_listed:
  assumes "as_App st = Driver E cl"
  shows "ListTemplateApplications st db = map_sum id (filter ab_TmpEnable) (ListApplications st db)"
proof -
  have "repo_ListApplications st db (noListOptions\<lparr>lo_Page := 0, lo_PageSize := 10\<rparr>) =
      repo_ListApplications st db (noListOptions\<lparr>lo_Page := 0, lo_PageSize := 0\<rparr>)"
    by (simp only: repo_ListApplications_def assms Driver_def DataStore.simps Driver_List_page0 [where n = 10])
  then show ?thesis
    unfolding ListTemplateApplications_def ListApplications_def
    by (simp only: map_Convert_filter newest_first_filter split: sum.split) simp
qed

text \<open>
  The tables of a created workflow: an operation on components keeps the workflows, and the other
  way round.
\<close>

locale request_store = application_store +
  assumes component_add_frame: "ds_Add (as_Component st) now db c = (r, db') \<Longrightarrow> wrows db' = wrows db"
    and workflow_delete_frame: "ds_Delete (as_Workflow st) db w = (r, db') \<Longrightarrow> comps db' = comps db"
begin

lemma create_components_keep:
  "create_components_loop st now w cs db = (None, db') \<Longrightarrow> wrows db' = wrows db"
proof (induction cs arbitrary: db)
  case (Cons c cs)
  then obtain db1 where "ds_Add (as_Component st) now db ((ConvertComponent c (wf_ID w))
      \<lparr>ac_Properties := Some (encode_properties (cr_Properties c))\<rparr>) = (None, db1)"
    and "create_components_loop st now w cs db1 = (None, db')"
    by (auto simp: Let_def repo_CreateComponents_def split: prod.splits option.splits)
  with Cons.IH component_add_frame show ?case by metis
qed simp

text \<open>A created workflow is stored without steps and disabled, under the identifier of the reply.\<close>

lemma created_workflow:
  assumes "CreateWorkflowTask st now newID req db = (Inr i, db')"
  shows "i = newID" and "\<exists>w. wrows db' newID = Some w \<and> wf_Steps w = None \<and> wf_Disabled w \<and>
    wf_AppID w = '''' \<and> wf_Name w = ToLower (cw_Name req)"
proof -
  from assms obtain w db1 where l: "LintWorkflow (ConvertWorkflow newID req) = (None, w)"
    and a: "ds_Add (as_Workflow st) now db w = (None, db1)"
    and c: "create_components_loop st now w (cw_Component req) db1 = (None, db')" and i: "i = wf_ID w"
    by (auto simp: CreateWorkflowTask_def repo_CreateWorkflow_def split: sum.splits bool.splits prod.splits option.splits)
  from ConvertWorkflow_lint [OF l] have w: "w = ConvertWorkflow newID req" .
  with i show "i = newID" by (simp add: ConvertWorkflow_def)
  from wft.add_ok [OF a] create_components_keep [OF c] w
  have "wrows db' newID = Some (SetUpdateTime Workflow_Entity now (SetCreateTime Workflow_Entity now w))"
    by (simp add: ConvertWorkflow_def)
  with w show "\<exists>w. wrows db' newID = Some w \<and> wf_Steps w = None \<and> wf_Disabled w \<and>
      wf_AppID w = '''' \<and> wf_Name w = ToLower (cw_Name req)"
    by (simp add: Workflow_Entity_def ConvertWorkflow_def Workflow_zero_def)
qed

text \<open>Nothing can run it: a run is refused because there are no steps, or for another application.\<close>

lemma created_workflow_refused:
  assumes "CreateWorkflowTask st now newID req db = (Inr i, db')"
    and "WorkflowByID (as_Workflow st) db' i = Inr w"
  shows "ExecWorkflowTask store (as_Workflow st) now' taskID i db' = (Inl ErrExecWorkflow, db')"
    and "ExecWorkflowTaskForApp store (as_Workflow st) now' taskID appID i db' = (Inl ErrWorkflowNotExist, db')"
proof -
  from assms(2) wft.get_ok [of db' "Workflow_zero\<lparr>wf_ID := i\<rparr>" w] have "wrows db' i = Some w"
    by (simp add: WorkflowByID_def)
  with created_workflow [OF assms(1)] have "wf_Steps w = None" "wf_AppID w = ''''" by auto
  with assms(2) show "ExecWorkflowTask store (as_Workflow st) now' taskID i db' = (Inl ErrExecWorkflow, db')"
    and "ExecWorkflowTaskForApp store (as_Workflow st) now' taskID appID i db' = (Inl ErrWorkflowNotExist, db')"
    by (simp_all add: ExecWorkflowTask_def ExecWorkflowTaskForApp_def enqueueWorkflowTask_def)
qed

text \<open>A roll-back whose deletions succeed leaves neither the workflow nor a component of it.\<close>

lemma rollback_clears:
  assumes "DelComponentsByAppID st db (wf_ID w) = (None, db1)" and "DelWorkflow st db1 w = (None, db2)"
    and "wf_ID w \<noteq> ''''"
  shows "rollbackWorkflowCreation st db w = db2" and "wrows db2 (wf_ID w) = None"
    and "comps db2 = filter_mset (\<lambda>c. ac_AppID c \<noteq> wf_ID w) (comps db)"
proof -
  show "rollbackWorkflowCreation st db w = db2" using assms by (simp add: rollbackWorkflowCreation_def)
  from assms(2) have d: "ds_Delete (as_Workflow st) db1 w = (None, db2)" by (simp add: DelWorkflow_def)
  from wft.del_ok [OF d] show "wrows db2 (wf_ID w) = None" by simp
  from clear_components(1) [OF assms(1,3)] workflow_delete_frame [OF d]
  show "comps db2 = filter_mset (\<lambda>c. ac_AppID c \<noteq> wf_ID w) (comps db)" by simp
qed

end

text \<open>The tables in memory, behind the driver, are such a store.\<close>

interpretation requests: request_store mem_stores tb_comps tb_wrows
proof (intro request_store.intro request_store_axioms.intro)
  show "application_store mem_stores tb_comps tb_wrows" by (rule tables.application_store_axioms)
next
  have c: "client_keeps tb_component_client tb_wrows" by (rule keeps_on_field) simp
  fix now db c r db' assume "ds_Add (as_Component mem_stores) now db c = (r, db')"
  then show "tb_wrows db' = tb_wrows db"
    using Driver_keeps(1) [OF c] by (simp add: mem_stores_def Driver_stores_def)
next
  have w: "client_keeps tb_workflow_client tb_comps" by (rule keeps_on_field) simp
  fix db w r db' assume "ds_Delete (as_Workflow mem_stores) db w = (r, db')"
  then show "tb_comps db' = tb_comps db"
    using Driver_keeps(3) [OF w] by (simp add: mem_stores_def Driver_stores_def)
qed

end
