(* ===== verification/Kube_Http.thy ===== *)
theory Kube_Http
  imports Kube_Settings Kube_Validation
begin

text \<open>
  The edges of the HTTP interface: the error codes of \<open>utils/bcode\<close> and the reply they become, the
  parameter checks of \<open>interfaces/api/validate.go\<close>, the middleware of \<open>interfaces/api/middleware\<close>,
  the probes of \<open>interfaces/api/health.go\<close> and the table of routes. The router of gin and the
  validator package, which call these functions, are not modelled.
\<close>

section \<open>Error codes\<close>

record Bcode =
  bc_HTTPCode :: int
  bc_BusinessCode :: int
  bc_Message :: string

text \<open>The declarations of the package, as the arguments of \<open>NewBcode\<close>.\<close>

definition application_codes :: "(int \<times> int \<times> string) list" where
  "application_codes = [
     (400, 10000, ''application config does not comply with OAM specification''),
     (400, 10001, ''the image of the component has not been set..''),
     (400, 10002, ''application component build error''),
     (400, 10003, ''application name is exist''),
     (400, 10004, ''properties is invalid''),
     (404, 10005, ''application name is not exist''),
     (400, 10006, ''application workflow build error''),
     (400, 10007, ''template application is not enabled''),
     (400, 10008, ''template application has no components''),
     (400, 10009, ''template id is required''),
     (400, 10010, ''template target component not found or type mismatch''),
     (500, 10011, ''version update failed''),
     (400, 10012, ''invalid update strategy''),
     (404, 10013, ''component not found in application''),
     (400, 10014, ''no components available for update''),
     (400, 10015, ''component already exists''),
     (400, 10016, ''invalid component action, must be update, add, or remove''),
     (400, 10020, ''validation failed''),
     (400, 10021, ''component name must match DNS-1123 subdomain''),
     (400, 10022, ''trait configuration is invalid''),
     (400, 10023, ''required field is missing''),
     (400, 10024, ''invalid storage type''),
     (400, 10025, ''probe configuration is invalid''),
     (400, 10026, ''nested trait is forbidden in init/sidecar''),
     (400, 10027, ''workflow references a non-existent component''),
     (400, 10028, ''duplicate component name in application'')]"

definition workflow_codes :: "(int \<times> int \<times> string) list" where
  "workflow_codes = [
     (400, 20000, ''workflow config does not comply with OAM specification''),
     (400, 20001, ''workflow name is exist''),
     (400, 20002, ''workflow create failure''),
     (400, 20003, ''workflow components create failure''),
     (400, 20004, ''workflow exec failure''),
     (404, 20005, ''workflow not found''),
     (404, 20006, ''workflow task not found'')]"

definition general_codes :: "(int \<times> int \<times> string) list" where
  "general_codes = [
     (500, 500, ''The service has lapsed.''),
     (403, 403, ''403 Forbidden''),
     (401, 401, ''401 Unauthorized''),
     (404, 404, ''404 Not Found''),
     (502, 502, ''Upstream not found'')]"

text \<open>\<open>NewBcode\<close> panics on a code that is taken.\<close>

definition NewBcode :: "int \<times> int \<times> string \<Rightarrow> (int \<times> Bcode) list \<Rightarrow> (int \<times> Bcode) list outcome" where
  "NewBcode d bcodeMap =
    (case d of (httpCode, businessCode, message) \<Rightarrow>
      (if map_of bcodeMap businessCode \<noteq> None then Panic ''bcode business code is exist''
       else Return ((businessCode, \<lparr>bc_HTTPCode = httpCode, bc_BusinessCode = businessCode,
              bc_Message = message\<rparr>) # bcodeMap)))"

fun declare_bcodes ::
  "(int \<times> int \<times> string) list \<Rightarrow> (int \<times> Bcode) list \<Rightarrow> (int \<times> Bcode) list outcome" where
  "declare_bcodes [] bcodeMap = Return bcodeMap"
| "declare_bcodes (d # ds) bcodeMap =
    (case NewBcode d bcodeMap of Panic v \<Rightarrow> Panic v | Return m \<Rightarrow> declare_bcodes ds m)"

definition bcode_declarations :: "(int \<times> int \<times> string) list" where
  "bcode_declarations = application_codes @ workflow_codes @ general_codes"

text \<open>The code object of a business code.\<close>

definition bcode_of :: "int \<Rightarrow> Bcode" where
  "bcode_of code =
    (case map_of (map (\<lambda>(h, b, m). (b, (h, m))) bcode_declarations) code of
       Some (h, m) \<Rightarrow> \<lparr>bc_HTTPCode = h, bc_BusinessCode = code, bc_Message = m\<rparr>
     | None \<Rightarrow> \<lparr>bc_HTTPCode = 0, bc_BusinessCode = code, bc_Message = ''''\<rparr>)"

section \<open>Replies\<close>

text \<open>
  An error as \<open>ReturnError\<close> distinguishes it: with a code in its chain, the missing record, the
  failures of the validator, any other; the texts are those of \<open>Error()\<close>.
\<close>

datatype api_error = EBcode Bcode | ENotExist string | EValidation string | EOther string

text \<open>The three forms of an error body: a code with its message, a message, both with the HTTP code.\<close>

datatype error_body = BcodeBody int string | MessageBody string | ServerBody int int string

datatype 'a response = Reply int 'a | ErrorReply int error_body

definition ReturnError :: "api_error \<Rightarrow> 'a response" where
  "ReturnError err =
    (case err of
       EBcode b \<Rightarrow> ErrorReply (bc_HTTPCode b) (BcodeBody (bc_BusinessCode b) (bc_Message b))
     | ENotExist t \<Rightarrow> ErrorReply 404 (MessageBody t)
     | EValidation t \<Rightarrow> ErrorReply 400 (BcodeBody 400 t)
     | EOther t \<Rightarrow> ErrorReply 500 (ServerBody 500 500 t))"

fun status_code :: "'a response \<Rightarrow> int" where
  "status_code (Reply c b) = c"
| "status_code (ErrorReply c b) = c"

section \<open>Parameter checks\<close>

definition byte_in :: "nat \<Rightarrow> nat \<Rightarrow> char \<Rightarrow> bool" where
  "byte_in lo hi c \<longleftrightarrow> lo \<le> char_code c \<and> char_code c \<le> hi"

abbreviation RByte :: "nat \<Rightarrow> nat \<Rightarrow> rexp" where
  "RByte lo hi \<equiv> RCls (byte_in lo hi)"

text \<open>
  The dot of a pattern: one code point other than a newline. On bytes that is one byte, or the
  bytes of a longer UTF-8 sequence; a stray byte is a code point of its own.
\<close>

definition RDot :: rexp where
  "RDot = RAlts [RCls (\<lambda>c. char_code c \<noteq> 10), RSeq (RByte 194 223) (RByte 128 191),
     RSeq (RByte 224 224) (RSeq (RByte 160 191) (RByte 128 191)),
     RSeq (RAlt (RByte 225 236) (RByte 238 239)) (RSeq (RByte 128 191) (RByte 128 191)),
     RSeq (RByte 237 237) (RSeq (RByte 128 159) (RByte 128 191)),
     RSeq (RByte 240 240) (RSeq (RByte 144 191) (RSeq (RByte 128 191) (RByte 128 191))),
     RSeq (RByte 241 243) (RSeq (RByte 128 191) (RSeq (RByte 128 191) (RByte 128 191))),
     RSeq (RByte 244 244) (RSeq (RByte 128 143) (RSeq (RByte 128 191) (RByte 128 191)))]"

definition lower_alnum :: "char \<Rightarrow> bool" where
  "lower_alnum c \<longleftrightarrow> is_lower c \<or> is_digit c"

definition segment_rexp :: rexp where
  "segment_rexp = RSeq (RCls lower_alnum)
     (ROpt (RSeq (RStar (RCls (\<lambda>c. c = CHR ''-'' \<or> lower_alnum c))) (RCls lower_alnum)))"

text \<open>
  The pattern is a raw string, in which \<open>\\.\<close> stands for a backslash followed by any character.
\<close>

definition api_nameRegexp :: rexp where
  "api_nameRegexp = RSeq segment_rexp
     (RStar (RSeq (RCls (\<lambda>c. char_code c = 92)) (RSeq RDot segment_rexp)))"

definition email_char :: "char \<Rightarrow> bool" where
  "email_char c \<longleftrightarrow> lower_alnum c \<or> c \<in> set ''._%+-''"

definition emailRegexp :: rexp where
  "emailRegexp = RSeq (RPlus (RCls email_char)) (RSeq (RLit ''@'')
     (RSeq (RPlus (RCls (\<lambda>c. lower_alnum c \<or> c \<in> set ''.-''))) (RSeq (RLit ''.'')
        (RAlts [RSeq (RCls is_lower) (RCls is_lower),
                RSeq (RCls is_lower) (RSeq (RCls is_lower) (RCls is_lower)),
                RSeq (RCls is_lower) (RSeq (RCls is_lower) (RSeq (RCls is_lower) (RCls is_lower)))]))))"

definition PrimaryKeyMaxLength :: nat where "PrimaryKeyMaxLength = 31"

definition ValidateName :: "string \<Rightarrow> bool" where
  "ValidateName value =
    (if length value > PrimaryKeyMaxLength \<or> length value < 2 then False
     else MatchString api_nameRegexp value)"

definition ValidateAlias :: "string \<Rightarrow> bool" where
  "ValidateAlias value = (if value \<noteq> '''' \<and> (length value > 64 \<or> length value < 2) then False else True)"

definition ValidateEmail :: "string \<Rightarrow> bool" where
  "ValidateEmail value = (if value = '''' then True else MatchString emailRegexp value)"

text \<open>The code points of a string; a byte that starts no sequence is read as the replacement character.\<close>

abbreviation cont_byte :: "nat \<Rightarrow> bool" where
  "cont_byte b \<equiv> 128 \<le> b \<and> b \<le> 191"

fun runes :: "nat list \<Rightarrow> nat list" where
  "runes [] = []"
| "runes (b # bs) =
    (if b < 128 then b # runes bs
     else if 194 \<le> b \<and> b \<le> 223 \<and> 1 \<le> length bs \<and> cont_byte (bs ! 0)
     then ((b - 192) * 64 + (bs ! 0 - 128)) # runes (drop 1 bs)
     else if 224 \<le> b \<and> b \<le> 239 \<and> 2 \<le> length bs \<and> cont_byte (bs ! 0) \<and> cont_byte (bs ! 1) \<and>
             (b = 224 \<longrightarrow> 160 \<le> bs ! 0) \<and> (b = 237 \<longrightarrow> bs ! 0 \<le> 159)
     then ((b - 224) * 4096 + (bs ! 0 - 128) * 64 + (bs ! 1 - 128)) # runes (drop 2 bs)
     else if 240 \<le> b \<and> b \<le> 244 \<and> 3 \<le> length bs \<and> cont_byte (bs ! 0) \<and> cont_byte (bs ! 1) \<and>
             cont_byte (bs ! 2) \<and> (b = 240 \<longrightarrow> 144 \<le> bs ! 0) \<and> (b = 244 \<longrightarrow> bs ! 0 \<le> 143)
     then ((b - 240) * 262144 + (bs ! 0 - 128) * 4096 + (bs ! 1 - 128) * 64 + (bs ! 2 - 128)) # runes (drop 3 bs)
     else 65533 # runes bs)"

text \<open>\<open>isNumber\<close> and \<open>isLetter\<close> are the tables of the package \<open>unicode\<close>.\<close>

definition ValidatePassword :: "(nat \<Rightarrow> bool) \<Rightarrow> (nat \<Rightarrow> bool) \<Rightarrow> string \<Rightarrow> bool" where
  "ValidatePassword isNumber isLetter value =
    (if value = '''' then True
     else if length value < 8 \<or> length value > 16 then False
     else (case fold (\<lambda>c (letter, num).
                  if isNumber c then (letter, True) else if isLetter c then (True, num) else (letter, num))
                (runes (map char_code value)) (False, False) of
             (letter, num) \<Rightarrow> letter \<and> num))"

definition ValidateWorkflowMode :: "string \<Rightarrow> bool" where
  "ValidateWorkflowMode value =
    (if value = '''' then True else if value = ''DAG'' \<or> value = ''StepByStep'' then True else False)"

section \<open>Middleware\<close>

fun normalizeList :: "string list \<Rightarrow> string list" where
  "normalizeList [] = []"
| "normalizeList (v # vs) =
    (let item = TrimSpace v in if item = '''' then normalizeList vs else item # normalizeList vs)"

definition normalizeWithFallback :: "string list \<Rightarrow> string list \<Rightarrow> string list" where
  "normalizeWithFallback vals fallback =
    (let clean = normalizeList vals in if clean = [] then normalizeList fallback else clean)"

definition hasItem :: "string list \<Rightarrow> string \<Rightarrow> bool" where
  "hasItem xs value \<longleftrightarrow> list_ex (\<lambda>v. v = value) xs"

definition same_origin_text :: "string \<Rightarrow> string \<Rightarrow> bool" where
  "same_origin_text s t \<longleftrightarrow> ToLower s = ToLower t"

definition originAllowed :: "string \<Rightarrow> string list \<Rightarrow> bool" where
  "originAllowed origin allowed \<longleftrightarrow> list_ex (\<lambda>candidate. same_origin_text candidate origin) allowed"

text \<open>
  What CORS does with a request: the headers it sets, whether it adds \<open>Origin\<close> to \<open>Vary\<close>, and
  whether the handlers run or it answers with the status 204 itself.
\<close>

record cors_reply =
  co_headers :: "(string \<times> string) list"
  co_vary :: bool
  co_next :: bool

definition cors_common :: "CORSConfig \<Rightarrow> (string \<times> string) list" where
  "cors_common opts =
    (let methods = Join (normalizeWithFallback (co_AllowedMethods opts)
           [''GET'', ''POST'', ''PUT'', ''PATCH'', ''DELETE'', ''OPTIONS'']) '', '';
         hdrs = Join (normalizeWithFallback (co_AllowedHeaders opts)
           [''Content-Type'', ''Authorization'', ''Accept'', ''Origin'', ''X-Requested-With'']) '', '';
         exposed = Join (normalizeList (co_ExposedHeaders opts)) '', '';
         maxAge = (if co_MaxAge opts > 0 then int_str (co_MaxAge opts div Second) else '''')
     in (if co_AllowCredentials opts then [(''Access-Control-Allow-Credentials'', ''true'')] else []) @
        (if methods \<noteq> '''' then [(''Access-Control-Allow-Methods'', methods)] else []) @
        (if hdrs \<noteq> '''' then [(''Access-Control-Allow-Headers'', hdrs)] else []) @
        (if exposed \<noteq> '''' then [(''Access-Control-Expose-Headers'', exposed)] else []) @
        (if maxAge \<noteq> '''' then [(''Access-Control-Max-Age'', maxAge)] else []))"

definition CORS :: "CORSConfig \<Rightarrow> string \<Rightarrow> string \<Rightarrow> cors_reply" where
  "CORS opts meth origin =
    (let allowOrigins = normalizeList (co_AllowedOrigins opts);
         allowAllOrigins = hasItem allowOrigins ''*'';
         nothing = \<lparr>co_headers = [], co_vary = False, co_next = True\<rparr>;
         allowed = (\<lambda>value vary. \<lparr>co_headers = (''Access-Control-Allow-Origin'', value) # cors_common opts,
                       co_vary = vary, co_next = (meth \<noteq> ''OPTIONS'')\<rparr>)
     in if origin = '''' \<and> \<not> allowAllOrigins then nothing
        else if allowAllOrigins \<and> co_AllowCredentials opts \<and> origin \<noteq> '''' then allowed origin True
        else if allowAllOrigins then allowed ''*'' False
        else if originAllowed origin allowOrigins then allowed origin True
        else nothing\<lparr>co_next := (meth \<noteq> ''OPTIONS'')\<rparr>)"

text \<open>\<open>Gzip\<close>: whether it compresses, for the value of \<open>Accept-Encoding\<close> and of \<open>Content-Encoding\<close>.\<close>

definition Gzip :: "string \<Rightarrow> string \<Rightarrow> bool" where
  "Gzip acceptEncoding contentEncoding =
    (if \<not> Contains acceptEncoding ''gzip'' then False
     else if contentEncoding \<noteq> '''' then False else True)"

text \<open>\<open>ServeHTTP\<close> of the server: a path outside the interface is served as the root.\<close>

definition versionPrefix :: string where "versionPrefix = ''/api/v1''"

definition ServeHTTP :: "string \<Rightarrow> string" where
  "ServeHTTP path = (if list_ex (HasPrefix path) [versionPrefix] then path else ''/'')"

section \<open>Probes\<close>

text \<open>The queue of the server, with whether it is the empty one.\<close>

definition readinessCheck :: "(bool \<times> 'st Queue) option \<Rightarrow> 'st \<Rightarrow> string response \<times> 'st" where
  "readinessCheck queue st =
    (case queue of
       None \<Rightarrow> (Reply 200 ''ready'', st)
     | Some (isNoop, q) \<Rightarrow>
        if \<not> isNoop then
          (case q_Stats q ''workflow-workers'' st of
             ((bl, pd, Some err), st') \<Rightarrow> (Reply 503 ''not ready'', st')
           | ((bl, pd, None), st') \<Rightarrow> (Reply 200 ''ready'', st'))
        else (Reply 200 ''ready'', st))"

definition healthCheck :: "string response" where
  "healthCheck = Reply 200 ''healthy''"

section \<open>Routes\<close>

datatype handler =
    HHealth | HReady | HListApplications | HListTemplates | HCreateApplications | HListWorkflows
  | HListComponents | HUpdateWorkflow | HDeleteResources | HExecWorkflow | HCancelWorkflow | HTaskStatus
  | HUpdateVersion | HTryApplication | HTryWorkflow | HCreateWorkflow | HExecTask | HCancelTask

definition health_routes :: "(string \<times> string \<times> handler) list" where
  "health_routes = [(''GET'', ''/health'', HHealth), (''GET'', ''/healthz'', HHealth),
     (''GET'', ''/ready'', HReady), (''GET'', ''/readyz'', HReady)]"

definition application_routes :: "(string \<times> string \<times> handler) list" where
  "application_routes = [
     (''GET'', ''/applications'', HListApplications),
     (''GET'', ''/applications/templates'', HListTemplates),
     (''POST'', ''/applications'', HCreateApplications),
     (''GET'', ''/applications/:appID/workflows'', HListWorkflows),
     (''GET'', ''/applications/:appID/components'', HListComponents),
     (''PUT'', ''/applications/:appID/workflow'', HUpdateWorkflow),
     (''DELETE'', ''/applications/:appID/resources'', HDeleteResources),
     (''POST'', ''/applications/:appID/workflow/exec'', HExecWorkflow),
     (''POST'', ''/applications/:appID/workflow/cancel'', HCancelWorkflow),
     (''GET'', ''/workflow/tasks/:taskID/status'', HTaskStatus),
     (''POST'', ''/applications/:appID/version'', HUpdateVersion),
     (''POST'', ''/applications/try'', HTryApplication),
     (''POST'', ''/applications/:appID/workflow/try'', HTryWorkflow)]"

definition workflow_routes :: "(string \<times> string \<times> handler) list" where
  "workflow_routes = [
     (''POST'', ''/workflow'', HCreateWorkflow),
     (''POST'', ''/workflow/exec'', HExecTask),
     (''POST'', ''/workflow/cancel'', HCancelTask)]"

text \<open>\<open>RegisterAPIRoute\<close>: the probes are registered first, by an \<open>init\<close> function.\<close>

definition RegisterAPIRoute :: "(string \<times> string \<times> handler) list" where
  "RegisterAPIRoute =
    concat (map (\<lambda>pre. map (\<lambda>(meth, path, h). (meth, pre @ path, h))
      (health_routes @ application_routes @ workflow_routes)) [versionPrefix])"

text \<open>The three routes of a workflow by itself answer that they are not implemented.\<close>

definition createWorkflow :: "string response" where
  "createWorkflow = Reply 501 ''custom workflow execution API not implemented yet''"

definition execWorkflowTask :: "string response" where
  "execWorkflowTask = Reply 501 ''custom workflow execution API not implemented yet''"

definition cancelWorkflowTask_stub :: "string response" where
  "cancelWorkflowTask_stub = Reply 501 ''custom workflow cancellation API not implemented yet''"

section \<open>Lemmas: codes\<close>

text \<open>The initialisation of the package does not panic: no code is declared twice.\<close>

lemma declare_bcodes_ok:
  "distinct (map (\<lambda>(h, b, m). b) ds) \<Longrightarrow> (\<And>b. b \<in> set (map (\<lambda>(h, b, m). b) ds) \<Longrightarrow> map_of t b = None) \<Longrightarrow>
   \<exists>t'. declare_bcodes ds t = Return t' \<and> length t' = length t + length ds"
proof (induction ds arbitrary: t)
  case (Cons d ds)
  obtain h b m where d: "d = (h, b, m)" by (metis prod_cases3)
  let ?t = "(b, \<lparr>bc_HTTPCode = h, bc_BusinessCode = b, bc_Message = m\<rparr>) # t"
  from Cons.prems(1) d have "distinct (map (\<lambda>(h, b, m). b) ds)" and b: "b \<notin> set (map (\<lambda>(h, b, m). b) ds)"
    by simp_all
  moreover have "map_of ?t b' = None" if "b' \<in> set (map (\<lambda>(h, b, m). b) ds)" for b'
    using Cons.prems(2) [of b'] that b by (cases "b' = b") simp_all
  ultimately have "distinct (map (\<lambda>(h, b, m). b) ds)" and
    "\<And>b'. b' \<in> set (map (\<lambda>(h, b, m). b) ds) \<Longrightarrow> map_of ?t b' = None" by blast+
  from Cons.IH [OF this] obtain t' where "declare_bcodes ds ?t = Return t'" "length t' = Suc (length t + length ds)"
    by auto
  with Cons.prems d show ?case by (auto simp: NewBcode_def)
qed simp

lemma bcodes_distinct: "distinct (map (\<lambda>(h, b, m). b) bcode_declarations)"
  by (simp add: bcode_declarations_def application_codes_def workflow_codes_def general_codes_def)

lemma bcodes_declared: "\<exists>t. declare_bcodes bcode_declarations [] = Return t \<and> length t = 38"
proof -
  have "length bcode_declarations = 38"
    by (simp add: bcode_declarations_def application_codes_def workflow_codes_def general_codes_def)
  with declare_bcodes_ok [OF bcodes_distinct, of "[]"] show ?thesis by auto
qed

lemma bcode_errors: "(h, b, m) \<in> set bcode_declarations \<Longrightarrow> 400 \<le> h \<and> h \<le> 502"
  by (auto simp: bcode_declarations_def application_codes_def workflow_codes_def general_codes_def)

lemma bcode_of_error: "(h, b, m) \<in> set bcode_declarations \<Longrightarrow> 400 \<le> bc_HTTPCode (bcode_of b)"
proof -
  assume d: "(h, b, m) \<in> set bcode_declarations"
  then have "(b, (h, m)) \<in> set (map (\<lambda>(h, b, m). (b, (h, m))) bcode_declarations)"
    by (auto intro: image_eqI [where x = "(h, b, m)"])
  then have "b \<in> fst ` set (map (\<lambda>(h, b, m). (b, (h, m))) bcode_declarations)"
    by (rule image_eqI [rotated]) simp
  then have "map_of (map (\<lambda>(h, b, m). (b, (h, m))) bcode_declarations) b \<noteq> None"
    by (simp only: map_of_eq_None_iff not_not)
  then obtain h' m' where e: "map_of (map (\<lambda>(h, b, m). (b, (h, m))) bcode_declarations) b = Some (h', m')" by auto
  from map_of_SomeD [OF this] have "(h', b, m') \<in> set bcode_declarations" by auto
  with bcode_errors e show ?thesis by (auto simp: bcode_of_def)
qed

section \<open>Lemmas: names\<close>

text \<open>A name without a backslash is accepted exactly when it is a DNS label of 2 to 31 bytes.\<close>

lemma segment_iff: "rmatches segment_rexp s \<longleftrightarrow> is_dns1123_label s"
proof -
  have "alnum_char = lower_alnum" "rfc1123_char = (\<lambda>c. c = CHR ''-'' \<or> lower_alnum c)"
    by (auto simp: fun_eq_iff alnum_char_def lower_alnum_def rfc1123_char_def)
  then have "segment_rexp = nameRegexp" by (simp add: segment_rexp_def nameRegexp_def)
  with nameRegexp_iff show ?thesis by simp
qed

lemma star_empty: "rmatches (RStar (RSeq (RCls p) q)) s \<Longrightarrow> (\<And>c. c \<in> set s \<Longrightarrow> \<not> p c) \<Longrightarrow> s = []"
  by (erule rmatches_starE) auto

lemma api_name_plain:
  assumes "\<And>c. c \<in> set s \<Longrightarrow> char_code c \<noteq> 92"
  shows "rmatches api_nameRegexp s \<longleftrightarrow> is_dns1123_label s"
proof
  assume "rmatches api_nameRegexp s"
  then obtain u v where "s = u @ v" "rmatches segment_rexp u"
    "rmatches (RStar (RSeq (RCls (\<lambda>c. char_code c = 92)) (RSeq RDot segment_rexp))) v"
    by (auto simp: api_nameRegexp_def)
  moreover from this have "v = []" using assms by (intro star_empty) auto
  ultimately show "is_dns1123_label s" using segment_iff by simp
next
  assume "is_dns1123_label s"
  with rmatches.seq [OF _ rmatches.star0, of segment_rexp s] show "rmatches api_nameRegexp s"
    by (simp add: api_nameRegexp_def segment_iff)
qed

lemma ValidateName_iff:
  assumes "\<And>c. c \<in> set s \<Longrightarrow> char_code c \<noteq> 92"
  shows "ValidateName s \<longleftrightarrow> is_dns1123_label s \<and> 2 \<le> length s \<and> length s \<le> 31"
  using api_name_plain [OF assms]
  by (auto simp: ValidateName_def MatchString_iff PrimaryKeyMaxLength_def)

text \<open>A dotted name is refused, although the pattern was meant to allow it.\<close>

lemma dns1123_no_dot: "is_dns1123_label s \<Longrightarrow> CHR ''.'' \<notin> set s"
  by (auto simp: is_dns1123_label_def list_all_iff rfc1123_char_def is_lower_def is_digit_def char_code_def)

section \<open>Lemmas: middleware\<close>

lemma cors_common_origin: "(''Access-Control-Allow-Origin'', v) \<notin> set (cors_common opts)"
  by (auto simp: cors_common_def Let_def)

lemma cors_origin:
  assumes "(''Access-Control-Allow-Origin'', v) \<in> set (co_headers (CORS opts meth origin))"
  shows "v = ''*'' \<and> hasItem (normalizeList (co_AllowedOrigins opts)) ''*'' \<and>
       (\<not> co_AllowCredentials opts \<or> origin = '''') \<or>
     v = origin \<and> origin \<noteq> '''' \<and>
       (hasItem (normalizeList (co_AllowedOrigins opts)) ''*'' \<and> co_AllowCredentials opts \<or>
        originAllowed origin (normalizeList (co_AllowedOrigins opts)))"
proof -
  define key where "key = ''Access-Control-Allow-Origin''"
  let ?all = "hasItem (normalizeList (co_AllowedOrigins opts)) ''*''"
  have "co_headers (CORS opts meth origin) =
      (if origin = '''' \<and> \<not> ?all then []
       else if ?all \<and> co_AllowCredentials opts \<and> origin \<noteq> '''' then (key, origin) # cors_common opts
       else if ?all then (key, ''*'') # cors_common opts
       else if originAllowed origin (normalizeList (co_AllowedOrigins opts)) then (key, origin) # cors_common opts
       else [])"
    by (simp add: CORS_def Let_def key_def)
  moreover have "(key, v) \<notin> set (cors_common opts)" using cors_common_origin by (simp add: key_def)
  moreover have "(key, v) \<in> set (co_headers (CORS opts meth origin))" using assms by (simp only: key_def)
  ultimately show ?thesis
    by (cases ?all; cases "co_AllowCredentials opts"; cases "origin = ''''";
        cases "originAllowed origin (normalizeList (co_AllowedOrigins opts))") simp_all
qed

lemma cors_preflight: "origin \<noteq> '''' \<Longrightarrow> co_next (CORS opts ''OPTIONS'' origin) = False"
  by (simp add: CORS_def Let_def)

lemma cors_passes: "meth \<noteq> ''OPTIONS'' \<Longrightarrow> co_next (CORS opts meth origin)"
  by (simp add: CORS_def Let_def)

section \<open>Lemmas: routes\<close>

lemma routes_distinct: "distinct (map (\<lambda>(meth, path, h). (meth, path)) RegisterAPIRoute)"
  by (simp add: RegisterAPIRoute_def health_routes_def application_routes_def workflow_routes_def versionPrefix_def)

lemma routes_served: "(meth, path, h) \<in> set RegisterAPIRoute \<Longrightarrow> ServeHTTP path = path"
  by (auto simp: RegisterAPIRoute_def ServeHTTP_def)

end
