(* ===== verification/Kube_Api.thy ===== *)
theory Kube_Api
  imports Kube_Requests Kube_Http Kube_Cleanup
begin

text \<open>
  The handlers of the HTTP interface: \<open>interfaces/api/applications.go\<close> with the conversions of
  \<open>interfaces/api/assembler/v1/do2dto.go\<close>. A handler is given the parameters of its path and the
  result of \<open>c.Bind\<close>, \<open>None\<close> when the body could not be decoded, and returns the reply and the new
  state. \<open>etext\<close> is the text of an error without a code, \<open>vtext\<close> that of the validator for a field
  that fails its tag.
\<close>

section \<open>Errors of the services\<close>

fun app_api_error :: "(app_error \<Rightarrow> string) \<Rightarrow> app_error \<Rightarrow> api_error" where
  "app_api_error etext ErrApplicationNotExist = EBcode (bcode_of 10005)"
| "app_api_error etext ErrTemplateIDMissing = EBcode (bcode_of 10009)"
| "app_api_error etext ErrTemplateNotEnabled = EBcode (bcode_of 10007)"
| "app_api_error etext ErrTemplateComponentMissing = EBcode (bcode_of 10008)"
| "app_api_error etext ErrTemplateTargetNotFound = EBcode (bcode_of 10010)"
| "app_api_error etext ErrComponentNotImageSet = EBcode (bcode_of 10001)"
| "app_api_error etext ErrComponentBuild = EBcode (bcode_of 10002)"
| "app_api_error etext ErrCreateComponents = EBcode (bcode_of 20003)"
| "app_api_error etext ErrCreateWorkflow = EBcode (bcode_of 20002)"
| "app_api_error etext ErrWorkflowConfig = EBcode (bcode_of 20000)"
| "app_api_error etext ErrVersionUpdateFailed = EBcode (bcode_of 10011)"
| "app_api_error etext ErrNoSuchWorkflow = EBcode (bcode_of 20005)"
| "app_api_error etext (ErrMissingComponentRef name) = EBcode (bcode_of 20000)"
| "app_api_error etext (AppDB ErrRecordNotExist) = ENotExist (etext (AppDB ErrRecordNotExist))"
| "app_api_error etext e = EOther (etext e)"

fun service_api_error :: "(service_error \<Rightarrow> string) \<Rightarrow> service_error \<Rightarrow> api_error" where
  "service_api_error etext ErrWorkflowTaskNotExist = EBcode (bcode_of 20006)"
| "service_api_error etext ErrWorkflowNotExist = EBcode (bcode_of 20005)"
| "service_api_error etext ErrExecWorkflow = EBcode (bcode_of 20004)"
| "service_api_error etext (ServiceDB ErrRecordNotExist) = ENotExist (etext (ServiceDB ErrRecordNotExist))"
| "service_api_error etext e = EOther (etext e)"

section \<open>Conversions\<close>

record WorkflowSubStepDetail =
  ws_Name :: string
  ws_WorkflowType :: JobType
  ws_Components :: "string list"

record WorkflowStepDetail =
  wd_Name :: string
  wd_WorkflowType :: JobType
  wd_Mode :: WorkflowMode
  wd_Components :: "string list"
  wd_SubSteps :: "WorkflowSubStepDetail list"

record ApplicationWorkflow =
  aw_ID :: string
  aw_Name :: string
  aw_Alias :: string
  aw_Namespace :: string
  aw_ProjectID :: string
  aw_Description :: string
  aw_Status :: string
  aw_Disabled :: bool
  aw_Steps :: "WorkflowStepDetail list"
  aw_CreateTime :: int
  aw_UpdateTime :: int
  aw_WorkflowType :: string

record ComponentDTO =
  dt_ID :: int
  dt_AppID :: string
  dt_Name :: string
  dt_Namespace :: string
  dt_Image :: string
  dt_Replicas :: int
  dt_ComponentType :: JobType
  dt_Properties :: Properties
  dt_Traits :: Traits
  dt_CreateTime :: int
  dt_UpdateTime :: int

definition flattenPolicies :: "string list list \<Rightarrow> string list" where
  "flattenPolicies policies = concat policies"

definition substep_detail :: "WorkflowSubStep \<Rightarrow> WorkflowSubStepDetail" where
  "substep_detail sub = \<lparr>ws_Name = sub_Name sub, ws_WorkflowType = sub_WorkflowType sub,
     ws_Components = flattenPolicies (sub_Properties sub)\<rparr>"

definition step_detail :: "WorkflowStep \<Rightarrow> WorkflowStepDetail" where
  "step_detail step = \<lparr>wd_Name = step_Name step, wd_WorkflowType = step_WorkflowType step,
     wd_Mode = step_Mode step, wd_Components = flattenPolicies (step_Properties step),
     wd_SubSteps = map substep_detail (List.map_filter id (step_SubSteps step))\<rparr>"

text \<open>\<open>None\<close> is the error of the decoder; entries that are null are skipped.\<close>

definition convertWorkflowSteps :: "json option \<Rightarrow> WorkflowStepDetail list option" where
  "convertWorkflowSteps raw =
    (case raw of
       None \<Rightarrow> Some []
     | Some j \<Rightarrow> map_option (\<lambda>steps. map step_detail (List.map_filter id steps)) (decode_steps j))"

definition ConvertWorkflowModelToDTO :: "Workflow \<Rightarrow> ApplicationWorkflow option" where
  "ConvertWorkflowModelToDTO w =
    map_option (\<lambda>steps. \<lparr>aw_ID = wf_ID w, aw_Name = wf_Name w, aw_Alias = wf_Alias w,
      aw_Namespace = wf_Namespace w, aw_ProjectID = wf_ProjectID w, aw_Description = wf_Description w,
      aw_Status = Status_string (wf_Status w), aw_Disabled = wf_Disabled w, aw_Steps = steps,
      aw_CreateTime = wf_CreateTime w, aw_UpdateTime = wf_UpdateTime w, aw_WorkflowType = wf_WorkflowType w\<rparr>)
      (convertWorkflowSteps (wf_Steps w))"

definition ConvertComponentModelToDTO :: "ApplicationComponent \<Rightarrow> ComponentDTO option" where
  "ConvertComponentModelToDTO c =
    (case decodeJSONStruct properties_schema decode_properties Properties_zero (ac_Properties c) of
       None \<Rightarrow> None
     | Some props \<Rightarrow>
        (case decodeJSONStruct traits_schema decode_traits no_Traits (ac_Traits c) of
           None \<Rightarrow> None
         | Some traits \<Rightarrow> Some \<lparr>dt_ID = ac_ID c, dt_AppID = ac_AppID c, dt_Name = ac_Name c,
             dt_Namespace = ac_Namespace c, dt_Image = ac_Image c, dt_Replicas = ac_Replicas c,
             dt_ComponentType = ac_ComponentType c, dt_Properties = props, dt_Traits = traits,
             dt_CreateTime = ac_CreateTime c, dt_UpdateTime = ac_UpdateTime c\<rparr>))"

text \<open>The loop of the list handlers: the first conversion that fails ends it.\<close>

fun convert_all :: "('a \<Rightarrow> 'b option) \<Rightarrow> 'a list \<Rightarrow> 'b list option" where
  "convert_all f [] = Some []"
| "convert_all f (x # xs) =
    (case f x of None \<Rightarrow> None | Some y \<Rightarrow> map_option (\<lambda>ys. y # ys) (convert_all f xs))"

section \<open>Normalisation of requests\<close>

definition normalize_substep :: "CreateWorkflowSubStepRequest \<Rightarrow> CreateWorkflowSubStepRequest" where
  "normalize_substep s = s\<lparr>sr_Name := ToLower (sr_Name s), sr_Policies := map ToLower (sr_Policies s),
     sr_Components := map ToLower (sr_Components s)\<rparr>"

definition normalize_step :: "CreateWorkflowStepRequest \<Rightarrow> CreateWorkflowStepRequest" where
  "normalize_step s = s\<lparr>wr_Name := ToLower (wr_Name s), wr_Components := map ToLower (wr_Components s),
     wr_Policies := map ToLower (wr_Policies s), wr_SubSteps := map normalize_substep (wr_SubSteps s)\<rparr>"

definition normalizeWorkflowSteps :: "CreateWorkflowStepRequest list \<Rightarrow> CreateWorkflowStepRequest list" where
  "normalizeWorkflowSteps steps = map normalize_step steps"

definition normalize_component :: "CreateComponentRequest \<Rightarrow> CreateComponentRequest" where
  "normalize_component c = c\<lparr>cr_Name := ToLower (TrimSpace (cr_Name c))\<rparr>"

definition normalize_spec :: "ComponentUpdateSpec \<Rightarrow> ComponentUpdateSpec" where
  "normalize_spec c = c\<lparr>us_Name := ToLower (TrimSpace (us_Name c))\<rparr>"

text \<open>\<open>normalizeWorkflowRequest\<close> of \<open>interfaces/api/workflow.go\<close>.\<close>

definition normalizeWorkflowRequest :: "CreateWorkflowRequest \<Rightarrow> CreateWorkflowRequest" where
  "normalizeWorkflowRequest req = req\<lparr>cw_Name := ToLower (cw_Name req), cw_Project := ToLower (cw_Project req),
     cw_Component := map (\<lambda>c. c\<lparr>cr_Name := ToLower (cr_Name c), cr_Namespace := ToLower (cr_Namespace c)\<rparr>)
       (cw_Component req),
     cw_Workflows := map (\<lambda>s. s\<lparr>cx_Name := ToLower (cx_Name s)\<rparr>) (cw_Workflows req)\<rparr>"

section \<open>Handlers\<close>

abbreviation app_missing :: "'a response" where
  "app_missing \<equiv> ReturnError (EBcode (bcode_of 10005))"

definition createApplications ::
  "'db AppStores \<Rightarrow> (app_error \<Rightarrow> string) \<Rightarrow> (string \<Rightarrow> string) \<Rightarrow> bool \<Rightarrow> int \<Rightarrow> string \<Rightarrow> string \<Rightarrow>
   CreateApplicationsRequest option \<Rightarrow> 'db \<Rightarrow> ApplicationBase response \<times> 'db" where
  "createApplications st etext vtext transactional now appID wfID bound db =
    (case bound of
       None \<Rightarrow> (ReturnError (EBcode (bcode_of 10000)), db)
     | Some req \<Rightarrow>
        if \<not> ValidateName (ar_Name req) then (ReturnError (EValidation (vtext ''Name'')), db)
        else (case CreateApplications st transactional now appID wfID req db of
                (Inl err, db') \<Rightarrow> (ReturnError (app_api_error etext err), db')
              | (Inr (application, w), db') \<Rightarrow> (Reply 200 (ConvertAppModelToBase application w), db')))"

text \<open>The reply to a failure is a null body.\<close>

definition listApplications :: "'db AppStores \<Rightarrow> 'db \<Rightarrow> ApplicationBase list option response" where
  "listApplications st db =
    (case ListApplications st db of Inl err \<Rightarrow> Reply 500 None | Inr apps \<Rightarrow> Reply 200 (Some apps))"

definition listTemplateApplications ::
  "'db AppStores \<Rightarrow> (app_error \<Rightarrow> string) \<Rightarrow> 'db \<Rightarrow> ApplicationBase list response" where
  "listTemplateApplications st etext db =
    (case ListTemplateApplications st db of
       Inl err \<Rightarrow> ReturnError (app_api_error etext (AppDB err))
     | Inr apps \<Rightarrow> Reply 200 apps)"

definition listApplicationWorkflows ::
  "'db AppStores \<Rightarrow> (app_error \<Rightarrow> string) \<Rightarrow> 'db \<Rightarrow> string \<Rightarrow> ApplicationWorkflow list response" where
  "listApplicationWorkflows st etext db param =
    (let appID = TrimSpace param in
     if appID = '''' then app_missing
     else (case ListApplicationWorkflows st db appID of
             Inl err \<Rightarrow> ReturnError (app_api_error etext err)
           | Inr workflows \<Rightarrow>
              (case convert_all ConvertWorkflowModelToDTO workflows of
                 None \<Rightarrow> ReturnError (app_api_error etext ErrDecode)
               | Some resp \<Rightarrow> Reply 200 resp)))"

definition listApplicationComponents ::
  "'db AppStores \<Rightarrow> (app_error \<Rightarrow> string) \<Rightarrow> 'db \<Rightarrow> string \<Rightarrow> ComponentDTO list response" where
  "listApplicationComponents st etext db param =
    (let appID = TrimSpace param in
     if appID = '''' then app_missing
     else (case ListApplicationComponents st db appID of
             Inl err \<Rightarrow> ReturnError (app_api_error etext err)
           | Inr components \<Rightarrow>
              (case convert_all ConvertComponentModelToDTO components of
                 None \<Rightarrow> ReturnError (app_api_error etext ErrDecode)
               | Some resp \<Rightarrow> Reply 200 resp)))"

text \<open>A clean-up that failed in part replies with the status 500 and its report.\<close>

definition deleteApplicationResources ::
  "'db AppStores \<Rightarrow> (app_error \<Rightarrow> string) \<Rightarrow> 'x traits_proc \<Rightarrow>
   (object_ref \<Rightarrow> 'k \<Rightarrow> delete_result \<times> 'k) \<Rightarrow> 'db \<Rightarrow> string \<Rightarrow> 'k \<Rightarrow>
   (string \<times> cleanupReporter) response \<times> 'k" where
  "deleteApplicationResources st etext T del db param cluster =
    (let appID = TrimSpace param in
     if appID = '''' then (app_missing, cluster)
     else (case CleanupApplicationResources st T del db appID cluster of
             (Inl err, cluster') \<Rightarrow> (ReturnError (app_api_error etext err), cluster')
           | (Inr (i, summary, Some err), cluster') \<Rightarrow> (Reply 500 (i, summary), cluster')
           | (Inr (i, summary, None), cluster') \<Rightarrow> (Reply 200 (i, summary), cluster')))"

definition updateApplicationWorkflow ::
  "'db AppStores \<Rightarrow> (app_error \<Rightarrow> string) \<Rightarrow> (string \<Rightarrow> string) \<Rightarrow> int \<Rightarrow> string \<Rightarrow> string \<Rightarrow>
   UpdateApplicationWorkflowRequest option \<Rightarrow> 'db \<Rightarrow> string response \<times> 'db" where
  "updateApplicationWorkflow st etext vtext now newID param bound db =
    (let appID = TrimSpace param in
     if appID = '''' then (app_missing, db)
     else (case bound of
             None \<Rightarrow> (ReturnError (EBcode (bcode_of 20000)), db)
           | Some req0 \<Rightarrow>
              (let req = req0\<lparr>uw_Workflow := normalizeWorkflowSteps (uw_Workflow req0)\<rparr> in
               if uw_Workflow req = [] then (ReturnError (EValidation (vtext ''Workflow'')), db)
               else (case UpdateApplicationWorkflow st now newID appID req db of
                       (Inl err, db') \<Rightarrow> (ReturnError (app_api_error etext err), db')
                     | (Inr w, db') \<Rightarrow> (Reply 200 w, db')))))"

text \<open>The request to run a workflow has its identifier only.\<close>

definition execApplicationWorkflow ::
  "'db AppStores \<Rightarrow> (service_error \<Rightarrow> string) \<Rightarrow> (string \<Rightarrow> string) \<Rightarrow> int \<Rightarrow> string \<Rightarrow> string \<Rightarrow>
   string option \<Rightarrow> 'db \<Rightarrow> string response \<times> 'db" where
  "execApplicationWorkflow st etext vtext now newID param bound db =
    (let appID = TrimSpace param in
     if appID = '''' then (app_missing, db)
     else (case bound of
             None \<Rightarrow> (ReturnError (EBcode (bcode_of 20000)), db)
           | Some workflowID \<Rightarrow>
              if \<not> ValidateName workflowID then (ReturnError (EValidation (vtext ''WorkflowID'')), db)
              else (case ExecWorkflowTaskForApp (as_Queue st) (as_Workflow st) now newID appID workflowID db of
                      (Inl err, db') \<Rightarrow> (ReturnError (service_api_error etext err), db')
                    | (Inr taskID, db') \<Rightarrow> (Reply 200 taskID, db'))))"

record CancelWorkflowRequest =
  cq_TaskID :: string
  cq_User :: string
  cq_Reason :: string

definition DefaultTaskRevoker :: string where "DefaultTaskRevoker = ''system''"

definition cancelApplicationWorkflow ::
  "'db AppStores \<Rightarrow> (service_error \<Rightarrow> string) \<Rightarrow> (string \<Rightarrow> string) \<Rightarrow> 'r redis_client option \<Rightarrow> int \<Rightarrow> string \<Rightarrow>
   CancelWorkflowRequest option \<Rightarrow> 'db \<times> cancel_world \<times> 'r \<Rightarrow>
   (string \<times> string) response \<times> 'db \<times> cancel_world \<times> 'r" where
  "cancelApplicationWorkflow st etext vtext cli now param bound s =
    (let appID = TrimSpace param in
     if appID = '''' then (app_missing, s)
     else (case bound of
             None \<Rightarrow> (ReturnError (EBcode (bcode_of 20000)), s)
           | Some req \<Rightarrow>
              if cq_TaskID req = '''' then (ReturnError (EValidation (vtext ''TaskID'')), s)
              else
                let user = (if cq_User req = '''' then DefaultTaskRevoker else cq_User req) in
                (case CancelWorkflowTaskForApp (as_Queue st) cli now appID user (cq_TaskID req) (cq_Reason req) s of
                   (Some err, s') \<Rightarrow> (ReturnError (service_api_error etext err), s')
                 | (None, s') \<Rightarrow> (Reply 200 (cq_TaskID req, Status_string StatusCancelled), s'))))"

text \<open>A panic of the service is answered by the recovery of gin with the status 500 and no body.\<close>

definition getWorkflowTaskStatus ::
  "'db AppStores \<Rightarrow> ('db, JobInfo) DataStore \<Rightarrow> (service_error \<Rightarrow> string) \<Rightarrow> 'db \<Rightarrow> string \<Rightarrow>
   TaskStatusResponse response outcome" where
  "getWorkflowTaskStatus st jobStore etext db param =
    (let taskID = TrimSpace param in
     if taskID = '''' then Return (ReturnError (EBcode (bcode_of 20006)))
     else (case GetTaskStatus (as_Queue st) (as_Workflow st) jobStore db taskID of
             Panic v \<Rightarrow> Panic v
           | Return (Inl err) \<Rightarrow> Return (ReturnError (service_api_error etext err))
           | Return (Inr resp) \<Rightarrow> Return (Reply 200 resp)))"

definition updateVersion ::
  "'db AppStores \<Rightarrow> (app_error \<Rightarrow> string) \<Rightarrow> (string \<Rightarrow> string) \<Rightarrow> int \<Rightarrow> string \<Rightarrow> string \<Rightarrow>
   UpdateVersionRequest option \<Rightarrow> 'db \<Rightarrow> UpdateVersionResponse response \<times> 'db" where
  "updateVersion st etext vtext now taskID param bound db =
    (let appID = TrimSpace param in
     if appID = '''' then (app_missing, db)
     else (case bound of
             None \<Rightarrow> (ReturnError (EBcode (bcode_of 10000)), db)
           | Some req0 \<Rightarrow>
              (let req = req0\<lparr>uv_Components := map normalize_spec (uv_Components req0)\<rparr> in
               if uv_Version req = '''' then (ReturnError (EValidation (vtext ''Version'')), db)
               else (case UpdateVersion st now taskID appID req db of
                       (Inl err, db') \<Rightarrow> (ReturnError (app_api_error etext err), db')
                     | (Inr resp, db') \<Rightarrow> (Reply 200 resp, db')))))"

text \<open>The components of an application as the validation service reads them.\<close>

definition find_for_validation :: "'db AppStores \<Rightarrow> 'db \<Rightarrow> string \<Rightarrow> DBError + ApplicationComponent option list" where
  "find_for_validation st db appID = map_sum id (map Some) (FindComponentsByAppID st db appID)"

text \<open>The request of a trial is that of a creation with an identifier of an application.\<close>

definition tryApplication ::
  "'db AppStores \<Rightarrow> 'db \<Rightarrow> (CreateApplicationsRequest \<times> string) option \<Rightarrow> TryResponse response" where
  "tryApplication st db bound =
    (case bound of
       None \<Rightarrow> ReturnError (EBcode (bcode_of 10000))
     | Some (req0, reqAppID) \<Rightarrow>
        (let req = req0\<lparr>ar_Component := map normalize_component (ar_Component req0),
                       ar_WorkflowSteps := normalizeWorkflowSteps (ar_WorkflowSteps req0)\<rparr> in
         if TrimSpace reqAppID \<noteq> '''' then
           Reply 200 (TryWorkflow (find_for_validation st db) (TrimSpace reqAppID)
             \<lparr>tw_WorkflowID = '''', tw_Name = '''', tw_Alias = '''', tw_Workflow = ar_WorkflowSteps req\<rparr>)
         else Reply 200 (TryApplication req)))"

definition tryWorkflow ::
  "'db AppStores \<Rightarrow> 'db \<Rightarrow> string \<Rightarrow> TryWorkflowRequest option \<Rightarrow> TryResponse response" where
  "tryWorkflow st db param bound =
    (let appID = TrimSpace param in
     if appID = '''' then app_missing
     else (case bound of
             None \<Rightarrow> ReturnError (EBcode (bcode_of 20000))
           | Some req0 \<Rightarrow>
              Reply 200 (TryWorkflow (find_for_validation st db) appID
                (req0\<lparr>tw_Workflow := normalizeWorkflowSteps (tw_Workflow req0)\<rparr>))))"

section \<open>Lemmas: replies\<close>

lemma bcode_status [simp]:
  "bc_HTTPCode (bcode_of 10000) = 400" "bc_HTTPCode (bcode_of 10001) = 400" "bc_HTTPCode (bcode_of 10002) = 400"
  "bc_HTTPCode (bcode_of 10005) = 404" "bc_HTTPCode (bcode_of 10007) = 400" "bc_HTTPCode (bcode_of 10008) = 400"
  "bc_HTTPCode (bcode_of 10009) = 400" "bc_HTTPCode (bcode_of 10010) = 400" "bc_HTTPCode (bcode_of 10011) = 500"
  "bc_HTTPCode (bcode_of 20000) = 400" "bc_HTTPCode (bcode_of 20002) = 400" "bc_HTTPCode (bcode_of 20003) = 400"
  "bc_HTTPCode (bcode_of 20004) = 400" "bc_HTTPCode (bcode_of 20005) = 404" "bc_HTTPCode (bcode_of 20006) = 404"
  by code_simp+

lemma app_error_status: "status_code (ReturnError (app_api_error etext e)) \<in> {400, 404, 500}"
  by (induction etext e rule: app_api_error.induct) (simp_all add: ReturnError_def)

lemma service_error_status: "status_code (ReturnError (service_api_error etext e)) \<in> {400, 404, 500}"
  by (induction etext e rule: service_api_error.induct) (simp_all add: ReturnError_def)

lemma ReturnError_not_Reply [simp]: "ReturnError e \<noteq> Reply c x"
  by (simp add: ReturnError_def split: api_error.split)

section \<open>Lemmas: running and cancelling\<close>

text \<open>A run that is accepted belongs to the application of the path and is a new row of the queue.\<close>

lemma exec_accepted:
  assumes "execApplicationWorkflow st etext vtext now newID param (Some workflowID) db = (Reply c taskID, db')"
  shows "\<exists>w. WorkflowByID (as_Workflow st) db workflowID = Inr w \<and> wf_AppID w = TrimSpace param \<and>
    wf_Steps w \<noteq> None \<and> enqueueWorkflowTask (as_Queue st) now newID w db = (Inr taskID, db')"
  using assms
  by (auto simp: execApplicationWorkflow_def ExecWorkflowTaskForApp_def enqueueWorkflowTask_def Let_def
      split: if_splits sum.splits prod.splits option.splits)

text \<open>The workflow of another application is reported as missing, and nothing changes.\<close>

lemma exec_foreign:
  assumes "WorkflowByID (as_Workflow st) db workflowID = Inr w" and "wf_AppID w \<noteq> TrimSpace param"
    and "ValidateName workflowID"
  shows "status_code (fst (execApplicationWorkflow st etext vtext now newID param (Some workflowID) db)) = 404"
    and "snd (execApplicationWorkflow st etext vtext now newID param (Some workflowID) db) = db"
  using assms by (auto simp: execApplicationWorkflow_def ExecWorkflowTaskForApp_def Let_def ReturnError_def)

lemma cancel_foreign:
  assumes "TaskByID (as_Queue st) (fst s) (cq_TaskID req) = Inr task" and "wq_AppID task \<noteq> TrimSpace param"
    and "cq_TaskID req \<noteq> ''''"
  shows "status_code (fst (cancelApplicationWorkflow st etext vtext cli now param (Some req) s)) = 404"
    and "snd (cancelApplicationWorkflow st etext vtext cli now param (Some req) s) = s"
  using assms by (auto simp: cancelApplicationWorkflow_def CancelWorkflowTaskForApp_def Let_def ReturnError_def)

lemma cancel_accepted:
  assumes "cancelApplicationWorkflow st etext vtext cli now param (Some req) s = (Reply c x, s')"
  shows "\<exists>task. TaskByID (as_Queue st) (fst s) (cq_TaskID req) = Inr task \<and> wq_AppID task = TrimSpace param \<and>
    cancelWorkflowTask (as_Queue st) cli now task
      (if cq_User req = '''' then DefaultTaskRevoker else cq_User req) (cq_Reason req) s = (None, s')"
  using assms
  by (auto simp: cancelApplicationWorkflow_def CancelWorkflowTaskForApp_def Let_def
      split: if_splits sum.splits prod.splits option.splits)

section \<open>Lemmas: what is created is listed\<close>

lemma convert_all_Some: "convert_all f xs = Some ys \<longleftrightarrow> list_all2 (\<lambda>x y. f x = Some y) xs ys"
proof (induction xs arbitrary: ys)
  case (Cons x xs)
  then show ?case by (cases ys) (auto split: option.splits)
qed auto

lemma convert_all_total: "list_all (\<lambda>x. f x \<noteq> None) xs \<Longrightarrow> \<exists>ys. convert_all f xs = Some ys"
  by (induction xs) auto

text \<open>What a listed component and a requested one have in common.\<close>

definition dto_view :: "ComponentDTO \<Rightarrow> string \<times> string \<times> string \<times> int \<times> JobType \<times> Properties \<times> Traits" where
  "dto_view d = (dt_Name d, dt_Namespace d, dt_Image d, dt_Replicas d, dt_ComponentType d, dt_Properties d, dt_Traits d)"

definition request_view ::
  "string \<Rightarrow> CreateComponentRequest \<Rightarrow> string \<times> string \<times> string \<times> int \<times> JobType \<times> Properties \<times> Traits" where
  "request_view ns c = (cr_Name c, ns, cr_Image c, (if cr_Replicas c \<le> 0 then 1 else cr_Replicas c),
     cr_ComponentType c, cr_Properties c, cr_Traits c)"

definition component_view ::
  "ApplicationComponent \<Rightarrow> (string \<times> string \<times> string \<times> int \<times> JobType \<times> Properties \<times> Traits) option" where
  "component_view c = map_option dto_view (ConvertComponentModelToDTO c)"

lemma component_view_core: "component_view (core c) = component_view c"
  by (simp add: component_view_def ConvertComponentModelToDTO_def core_def dto_view_def split: option.split)

definition request_ints :: "CreateComponentRequest \<Rightarrow> bool" where
  "request_ints c \<longleftrightarrow> properties_ints (cr_Properties c) \<and> traits_ints (cr_Traits c)"

lemma decodeJSONStruct_encoded:
  "properties_ints p \<Longrightarrow>
     decodeJSONStruct properties_schema decode_properties Properties_zero (Some (encode_properties p)) = Some p"
  "traits_ints t \<Longrightarrow> decodeJSONStruct traits_schema decode_traits no_Traits (Some (encode_traits t)) = Some t"
proof -
  have "encode_properties p \<noteq> JNull" by (simp add: encode_properties_def jobj_def)
  moreover have "encode_traits t \<noteq> JNull" by (cases t) (simp add: jobj_def)
  ultimately show "properties_ints p \<Longrightarrow>
      decodeJSONStruct properties_schema decode_properties Properties_zero (Some (encode_properties p)) = Some p"
    "traits_ints t \<Longrightarrow> decodeJSONStruct traits_schema decode_traits no_Traits (Some (encode_traits t)) = Some t"
    by (simp_all add: decodeJSONStruct_def conforms_properties conforms_encode_traits decode_properties_encode
        decode_traits_encode)
qed

lemma prepared_view:
  "prepare_component a ns r = Inr c \<Longrightarrow> request_ints r \<Longrightarrow> component_view c = Some (request_view ns r)"
  by (simp add: prepare_component_Inr component_view_def ConvertComponentModelToDTO_def request_ints_def
      decodeJSONStruct_encoded dto_view_def request_view_def)

lemma mset_map_Some: "mset (map Some xs) = mset (map Some ys) \<Longrightarrow> mset xs = mset ys"
  by (drule arg_cong [where f = "image_mset the"]) (simp add: image_mset.compositionality comp_def)

lemma workflow_dto:
  "ConvertWorkflowModelToDTO w = Some d \<Longrightarrow> aw_ID d = wf_ID w \<and> convertWorkflowSteps (wf_Steps w) = Some (aw_Steps d)"
  by (auto simp: ConvertWorkflowModelToDTO_def)

lemma found_application:
  assumes "find_application st db i = Inr a"
  shows "i \<noteq> '''' \<and> ApplicationByID st db i = Inr a"
  using assms by (cases "ApplicationByID st db i") (auto simp: find_application_def split: if_splits DBError.splits)

lemma listed_components:
  assumes "ListApplicationComponents st db i = Inr cs"
  shows "\<exists>a xs. find_application st db i = Inr a \<and> FindComponentsByAppID st db (ap_ID a) = Inr xs \<and> mset cs = mset xs"
proof (cases "find_application st db i")
  case (Inr a)
  with assms show ?thesis
    by (cases "FindComponentsByAppID st db (ap_ID a)") (auto simp: ListApplicationComponents_def)
qed (use assms in \<open>simp add: ListApplicationComponents_def\<close>)

lemma listed_workflows:
  assumes "ListApplicationWorkflows st db i = Inr ws"
  shows "\<exists>a xs. find_application st db i = Inr a \<and> FindWorkflowsByAppID st db (ap_ID a) = Inr xs \<and> set ws = set xs"
proof (cases "find_application st db i")
  case (Inr a)
  with assms show ?thesis
    by (cases "FindWorkflowsByAppID st db (ap_ID a)") (auto simp: ListApplicationWorkflows_def)
qed (use assms in \<open>simp add: ListApplicationWorkflows_def\<close>)

context application_store
begin

text \<open>The components that a creation was asked for, templates resolved, are those the reply shows.\<close>

lemma created_listed:
  assumes c: "CreateApplications st tx now appID wfID req db = (Inr (app, w), db')" "ap_ID app \<noteq> ''''"
    and cs: "ListApplicationComponents st db' (ap_ID app) = Inr cs"
    and k: "TrimSpace (ap_ID app) = ap_ID app" "\<And>i a. ApplicationByID st db' i = Inr a \<Longrightarrow> ap_ID a = i"
    and i: "\<And>resolved. resolveComponents st db (ap_Namespace app) (ap_Name app) (ar_Component req) = Inr resolved \<Longrightarrow>
      list_all request_ints resolved"
  obtains resolved dtos where
    "resolveComponents st db (ap_Namespace app) (ap_Name app) (ar_Component req) = Inr resolved"
    "listApplicationComponents st etext db' (ap_ID app) = Reply 200 dtos"
    "mset (map dto_view dtos) = mset (map (request_view (ap_Namespace app)) resolved)"
proof (rule creation_stored [OF c])
  fix resolved components row
  assume r: "resolveComponents st db (ap_Namespace app) (ap_Name app) (ar_Component req) = Inr resolved"
    and p: "prepareComponents (ap_ID app) (ap_Namespace app) resolved = Inr components"
    and m: "image_mset core (filter_mset (\<lambda>c. ac_AppID c = ap_ID app) (comps db')) = mset (map core components)"

  from listed_components [OF cs] obtain a xs where a: "find_application st db' (ap_ID app) = Inr a"
    and x: "FindComponentsByAppID st db' (ap_ID a) = Inr xs" and s: "mset cs = mset xs" by blast
  from k(2) [OF conjunct2 [OF found_application [OF a]]] x c(2) have "mset xs = filter_mset (\<lambda>c. ac_AppID c = ap_ID app) (comps db')"
    using comp.list_ok by (simp add: FindComponentsByAppID_def)
  with s m have e: "image_mset core (mset cs) = mset (map core components)" by simp
  have v: "map component_view components = map (\<lambda>r. Some (request_view (ap_Namespace app) r)) resolved"
    using p i [OF r] prepared_view
    by (auto simp: prepareComponents_def map_err_Inr list_all2_conv_all_nth list_eq_iff_nth_eq list_all_length)
  have "component_view c \<noteq> None" if "c \<in> set cs" for c
  proof -
    from that have "core c \<in># image_mset core (mset cs)" by simp
    then obtain c' where "c' \<in> set components" "core c = core c'" unfolding e by auto
    moreover from this(1) have "component_view c' \<in> set (map component_view components)" by simp
    ultimately show ?thesis unfolding v using component_view_core by (metis (no_types, lifting) imageE list.set_map option.distinct(1))
  qed
  then have "list_all (\<lambda>c. ConvertComponentModelToDTO c \<noteq> None) cs" by (simp add: component_view_def list_all_iff)
  from convert_all_total [OF this] obtain dtos where d: "convert_all ConvertComponentModelToDTO cs = Some dtos" by blast
  with cs k(1) c(2) have reply: "listApplicationComponents st etext db' (ap_ID app) = Reply 200 dtos"
    by (simp add: listApplicationComponents_def)
  have "map component_view cs = map (\<lambda>d. Some (dto_view d)) dtos"
    using d by (simp add: convert_all_Some list_all2_conv_all_nth component_view_def list_eq_iff_nth_eq)
  then have "mset (map (\<lambda>d. Some (dto_view d)) dtos) = image_mset component_view (image_mset core (mset cs))"
    by (simp add: image_mset.compositionality comp_def component_view_core flip: mset_map)
  also have "\<dots> = mset (map component_view components)"
    unfolding e by (simp add: image_mset.compositionality comp_def component_view_core)
  also note v
  finally have "mset (map Some (map dto_view dtos)) = mset (map Some (map (request_view (ap_Namespace app)) resolved))"
    by (simp add: comp_def)
  from mset_map_Some [OF this] that [OF r reply] show thesis by simp
qed

text \<open>So is its workflow, with the steps of the request.\<close>

lemma created_workflow_listed:
  assumes c: "CreateApplications st tx now appID wfID req db = (Inr (app, w), db')" "ap_ID app \<noteq> ''''"
    and l: "listApplicationWorkflows st etext db' (ap_ID app) = Reply code dtos"
    and k: "TrimSpace (ap_ID app) = ap_ID app" "\<And>i a. ApplicationByID st db' i = Inr a \<Longrightarrow> ap_ID a = i"
    and i: "list_all request_canonical (ar_WorkflowSteps req)"
  obtains resolved dto where
    "resolveComponents st db (ap_Namespace app) (ap_Name app) (ar_Component req) = Inr resolved"
    "dto \<in> set dtos" "aw_ID dto = w" "aw_Steps dto = map step_detail (workflow_body req resolved)"
proof (rule creation_stored [OF c])
  fix resolved components row
  assume r: "resolveComponents st db (ap_Namespace app) (ap_Name app) (ar_Component req) = Inr resolved"
    and row: "wrows db' w = Some row" "wf_AppID row = ap_ID app"
      "wf_Steps row = Some (encode_steps (workflow_body req resolved))"
  from l k(1) c(2) obtain ws where
    ws: "ListApplicationWorkflows st db' (ap_ID app) = Inr ws" and d: "convert_all ConvertWorkflowModelToDTO ws = Some dtos"
    by (auto simp: listApplicationWorkflows_def Let_def split: sum.splits option.splits)
  from listed_workflows [OF ws] obtain a xs where a: "find_application st db' (ap_ID app) = Inr a"
    and x: "FindWorkflowsByAppID st db' (ap_ID a) = Inr xs" and s: "set ws = set xs" by blast
  from k(2) [OF conjunct2 [OF found_application [OF a]]] x c(2) have f: "FindWorkflowsByAppID st db' (ap_ID app) = Inr xs" by simp
  have "ToLower ''appid'' = ''appid''" by code_simp
  with c(2) have ix: "index_exprs Workflow_Entity (Workflow_zero\<lparr>wf_AppID := ap_ID app\<rparr>) = [ExprEq ''appid'' (SqlStr (ap_ID app))]"
    by (simp add: index_exprs_def Workflow_Entity_def Workflow_zero_def)
  from wft.lst_ok [of db' "Workflow_zero\<lparr>wf_AppID := ap_ID app\<rparr>" noListOptions xs] f ix
  have "set xs = {r. (\<exists>k. wrows db' k = Some r) \<and> expr_holds wf_col r (ExprEq ''appid'' (SqlStr (ap_ID app)))}"
    by (simp add: FindWorkflowsByAppID_def noListOptions_def noFilter_def applyFilterOptions_def)
  with row(1,2) have "row \<in> set xs" by (auto simp: wf_col_def)
  with s have "row \<in> set ws" by simp
  then obtain n where n: "n < length ws" "ws ! n = row" by (auto simp: in_set_conv_nth)
  with d have "n < length dtos" and v: "ConvertWorkflowModelToDTO row = Some (dtos ! n)"
    by (auto simp: convert_all_Some list_all2_conv_all_nth)
  moreover have "aw_ID (dtos ! n) = w" using wft.row_pk [OF row(1)] workflow_dto [OF v] by simp
  moreover have "decode_steps (encode_steps (workflow_body req resolved)) = Some (map Some (workflow_body req resolved))"
    using workflow_body_wf [OF i] by (simp add: decode_encode_steps)
  then have "aw_Steps (dtos ! n) = map step_detail (workflow_body req resolved)"
    using workflow_dto [OF v] row(3) by (simp add: convertWorkflowSteps_def map_filter_def comp_def)
  ultimately show thesis using that [OF r nth_mem] by blast
qed

end

end
