(* ===== verification/Kube_Profiles.thy ===== *)
theory Kube_Profiles
  imports Kube_Memory Kube_Spec
begin

text \<open>
  Profiles that applications share: the models \<open>domain/model/node_selector_profile.go\<close> and
  \<open>domain/model/rbac_profile.go\<close> and their repositories in \<open>domain/repository\<close>. The two
  repositories have the same code but for \<open>FindByID\<close>; what they share is stated once over the
  methods of the model. Affinity and tolerations are Kubernetes values the code only stores.
\<close>

section \<open>Models\<close>

record ('f, 't) NodeSelectionSpec =
  ns_NodeSelector :: "(string \<times> string) list"
  ns_Affinity :: "'f option"
  ns_Tolerations :: "'t list"

record ('f, 't) NodeSelectorProfile =
  np_ID :: string
  np_Name :: string
  np_Description :: string
  np_Selection :: "('f, 't) NodeSelectionSpec"
  np_CreateTime :: int
  np_UpdateTime :: int

record RBACProfile =
  rp_ID :: string
  rp_Name :: string
  rp_Description :: string
  rp_Policies :: "RBACPolicySpec list"
  rp_CreateTime :: int
  rp_UpdateTime :: int

definition NodeSelectorProfile_Index :: "('f, 't) NodeSelectorProfile \<Rightarrow> (string \<times> string) list" where
  "NodeSelectorProfile_Index n =
    (if np_ID n \<noteq> '''' then [(''id'', np_ID n)] else []) @
    (if np_Name n \<noteq> '''' then [(''name'', np_Name n)] else [])"

definition NodeSelectorProfile_Entity :: "('f, 't) NodeSelectorProfile Entity" where
  "NodeSelectorProfile_Entity =
    \<lparr>PrimaryKey = np_ID, TableName = (\<lambda>_. ''min_node_selector_profiles''),
     Index = NodeSelectorProfile_Index,
     SetCreateTime = (\<lambda>t n. n\<lparr>np_CreateTime := t\<rparr>), SetUpdateTime = (\<lambda>t n. n\<lparr>np_UpdateTime := t\<rparr>)\<rparr>"

definition RBACProfile_Index :: "RBACProfile \<Rightarrow> (string \<times> string) list" where
  "RBACProfile_Index r =
    (if rp_ID r \<noteq> '''' then [(''id'', rp_ID r)] else []) @
    (if rp_Name r \<noteq> '''' then [(''name'', rp_Name r)] else [])"

definition RBACProfile_Entity :: "RBACProfile Entity" where
  "RBACProfile_Entity =
    \<lparr>PrimaryKey = rp_ID, TableName = (\<lambda>_. ''min_rbac_profiles''), Index = RBACProfile_Index,
     SetCreateTime = (\<lambda>t r. r\<lparr>rp_CreateTime := t\<rparr>), SetUpdateTime = (\<lambda>t r. r\<lparr>rp_UpdateTime := t\<rparr>)\<rparr>"

definition NodeSelectorProfile_zero :: "('f, 't) NodeSelectorProfile" where
  "NodeSelectorProfile_zero =
    \<lparr>np_ID = '''', np_Name = '''', np_Description = '''',
     np_Selection = \<lparr>ns_NodeSelector = [], ns_Affinity = None, ns_Tolerations = []\<rparr>,
     np_CreateTime = 0, np_UpdateTime = 0\<rparr>"

definition RBACProfile_zero :: RBACProfile where
  "RBACProfile_zero =
    \<lparr>rp_ID = '''', rp_Name = '''', rp_Description = '''', rp_Policies = [], rp_CreateTime = 0, rp_UpdateTime = 0\<rparr>"

section \<open>Repositories\<close>

datatype profile_error = PStore DBError | PNameEmpty string | PNameEmptyExist string

text \<open>What the shared code uses of a model: its name, the zero value and the words of its errors.\<close>

record 'p profile_model =
  pm_Name :: "'p \<Rightarrow> string"
  pm_ID :: "'p \<Rightarrow> string"
  pm_set_ID :: "string \<Rightarrow> 'p \<Rightarrow> 'p"
  pm_named :: "string \<Rightarrow> 'p"
  pm_query :: 'p
  pm_words :: string

definition node_selector_model :: "('f, 't) NodeSelectorProfile profile_model" where
  "node_selector_model =
    \<lparr>pm_Name = np_Name, pm_ID = np_ID, pm_set_ID = (\<lambda>i p. p\<lparr>np_ID := i\<rparr>),
     pm_named = (\<lambda>n. NodeSelectorProfile_zero\<lparr>np_Name := n\<rparr>), pm_query = NodeSelectorProfile_zero,
     pm_words = ''node selector profile name is empty''\<rparr>"

definition rbac_model :: "RBACProfile profile_model" where
  "rbac_model =
    \<lparr>pm_Name = rp_Name, pm_ID = rp_ID, pm_set_ID = (\<lambda>i p. p\<lparr>rp_ID := i\<rparr>),
     pm_named = (\<lambda>n. RBACProfile_zero\<lparr>rp_Name := n\<rparr>), pm_query = RBACProfile_zero,
     pm_words = ''rbac profile name is empty''\<rparr>"

definition NodeSelectorProfile_FindByID ::
  "('db, ('f, 't) NodeSelectorProfile) DataStore \<Rightarrow> 'db \<Rightarrow> string \<Rightarrow> DBError + ('f, 't) NodeSelectorProfile" where
  "NodeSelectorProfile_FindByID store db i0 =
    (let i = TrimSpace i0 in
     if i = '''' then Inl ErrPrimaryEmpty else ds_Get store db (NodeSelectorProfile_zero\<lparr>np_ID := i\<rparr>))"

text \<open>The identifier is trimmed for the check only.\<close>

definition RBACProfile_FindByID :: "('db, RBACProfile) DataStore \<Rightarrow> 'db \<Rightarrow> string \<Rightarrow> DBError + RBACProfile" where
  "RBACProfile_FindByID store db i =
    (if TrimSpace i = '''' then Inl ErrPrimaryEmpty else ds_Get store db (RBACProfile_zero\<lparr>rp_ID := i\<rparr>))"

definition profile_FindByName ::
  "'p profile_model \<Rightarrow> ('db, 'p) DataStore \<Rightarrow> 'db \<Rightarrow> string \<Rightarrow> profile_error + 'p" where
  "profile_FindByName K store db name0 =
    (let name = TrimSpace name0 in
     if name = '''' then Inl (PNameEmpty (pm_words K))
     else (case ds_List store db (Some (pm_named K name)) (Some (noListOptions\<lparr>lo_Page := 1, lo_PageSize := 1\<rparr>)) of
             Inl err \<Rightarrow> Inl (PStore err)
           | Inr [] \<Rightarrow> Inl (PStore ErrRecordNotExist)
           | Inr (profile # _) \<Rightarrow> Inr profile))"

text \<open>\<open>Create\<close> writes the identifier of an existing profile into its argument, which is returned.\<close>

definition profile_Create ::
  "'p profile_model \<Rightarrow> ('db, 'p) DataStore \<Rightarrow> int \<Rightarrow> 'db \<Rightarrow> 'p option \<Rightarrow> profile_error option \<times> 'p option \<times> 'db" where
  "profile_Create K store now db entity =
    (case entity of
       None \<Rightarrow> (Some (PStore ErrNilEntity), None, db)
     | Some profile \<Rightarrow>
        (case ds_Add store now db profile of
           (None, db') \<Rightarrow> (None, Some profile, db')
         | (Some err, db') \<Rightarrow>
            if err \<noteq> ErrRecordExist then (Some (PStore err), Some profile, db')
            else if pm_Name K profile = '''' then (Some (PNameEmptyExist (pm_words K)), Some profile, db')
            else (case profile_FindByName K store db' (pm_Name K profile) of
                    Inl findErr \<Rightarrow> (Some (PStore err), Some profile, db')
                  | Inr existing \<Rightarrow>
                     (let profile' = pm_set_ID K (pm_ID K existing) profile in
                      case ds_Put store now db' profile' of
                        (e, db'') \<Rightarrow> (map_option PStore e, Some profile', db'')))))"

definition profile_List ::
  "'p profile_model \<Rightarrow> ('db, 'p) DataStore \<Rightarrow> 'db \<Rightarrow> ListOptions \<Rightarrow> DBError + 'p list" where
  "profile_List K store db options = ds_List store db (Some (pm_query K)) (Some options)"

record ('db, 'p) ProfileRepository =
  pr_FindByID :: "'db \<Rightarrow> string \<Rightarrow> DBError + 'p"
  pr_FindByName :: "'db \<Rightarrow> string \<Rightarrow> profile_error + 'p"
  pr_Create :: "int \<Rightarrow> 'db \<Rightarrow> 'p option \<Rightarrow> profile_error option \<times> 'p option \<times> 'db"
  pr_Update :: "int \<Rightarrow> 'db \<Rightarrow> 'p \<Rightarrow> DBError option \<times> 'db"
  pr_Delete :: "'db \<Rightarrow> 'p \<Rightarrow> DBError option \<times> 'db"
  pr_List :: "'db \<Rightarrow> ListOptions \<Rightarrow> DBError + 'p list"

definition nodeSelectorProfileRepository ::
  "('db, ('f, 't) NodeSelectorProfile) DataStore \<Rightarrow> ('db, ('f, 't) NodeSelectorProfile) ProfileRepository" where
  "nodeSelectorProfileRepository store =
    \<lparr>pr_FindByID = NodeSelectorProfile_FindByID store,
     pr_FindByName = profile_FindByName node_selector_model store,
     pr_Create = profile_Create node_selector_model store,
     pr_Update = ds_Put store, pr_Delete = ds_Delete store,
     pr_List = profile_List node_selector_model store\<rparr>"

definition rbacProfileRepository :: "('db, RBACProfile) DataStore \<Rightarrow> ('db, RBACProfile) ProfileRepository" where
  "rbacProfileRepository store =
    \<lparr>pr_FindByID = RBACProfile_FindByID store, pr_FindByName = profile_FindByName rbac_model store,
     pr_Create = profile_Create rbac_model store, pr_Update = ds_Put store, pr_Delete = ds_Delete store,
     pr_List = profile_List rbac_model store\<rparr>"


section \<open>What the repositories rely on\<close>

text \<open>Of the model: its key, its name, and how it is asked for by name.\<close>

locale named_model =
  fixes K :: "'p profile_model" and E :: "'p Entity"
  assumes key [simp]: "PrimaryKey E = pm_ID K"
    and table [simp]: "TableName E p \<noteq> ''''"
    and named: "n \<noteq> '''' \<Longrightarrow> Index E (pm_named K n) = [(''name'', n)]"
    and set_ID [simp]: "pm_ID K (pm_set_ID K i p) = i" "pm_Name K (pm_set_ID K i p) = pm_Name K p"
    and stamped [simp]: "pm_ID K (SetCreateTime E t p) = pm_ID K p" "pm_ID K (SetUpdateTime E t p) = pm_ID K p"
      "pm_Name K (SetCreateTime E t p) = pm_Name K p" "pm_Name K (SetUpdateTime E t p) = pm_Name K p"

interpretation node_selectors: named_model node_selector_model NodeSelectorProfile_Entity
  by unfold_locales (simp_all add: node_selector_model_def NodeSelectorProfile_Entity_def
    NodeSelectorProfile_Index_def NodeSelectorProfile_zero_def)

interpretation rbac_profiles: named_model rbac_model RBACProfile_Entity
  by unfold_locales (simp_all add: rbac_model_def RBACProfile_Entity_def RBACProfile_Index_def RBACProfile_zero_def)

definition name_used :: "'p profile_model \<Rightarrow> (string \<rightharpoonup> 'p) \<Rightarrow> string \<Rightarrow> bool" where
  "name_used K R n \<longleftrightarrow> (\<exists>k r. R k = Some r \<and> pm_Name K r = n)"

definition unique_names :: "'p profile_model \<Rightarrow> (string \<rightharpoonup> 'p) \<Rightarrow> bool" where
  "unique_names K R \<longleftrightarrow>
    (\<forall>k k' r r'. R k = Some r \<longrightarrow> R k' = Some r' \<longrightarrow> pm_Name K r = pm_Name K r' \<longrightarrow> k = k')"

text \<open>
  Of GORM over a table with a unique index on the name, for a column that compares exactly: an
  insertion is refused when the key or the name is taken, an update writes the non-zero fields and
  is refused when it would repeat a name, and a query for one row returns a matching one if there is any.
\<close>

locale named_backend = named_model +
  fixes cl :: "('db, 'a) gorm_client"
    and rows :: "'db \<Rightarrow> string \<Rightarrow> 'a option"
    and merged :: "'a \<Rightarrow> 'a \<Rightarrow> 'a"
    and col :: "'a \<Rightarrow> string \<Rightarrow> sqlval"
  assumes insert_ok: "g_Create cl db e = (None, db') \<Longrightarrow>
      rows db (pm_ID K e) = None \<and> \<not> name_used K (rows db) (pm_Name K e) \<and> rows db' = (rows db)(pm_ID K e \<mapsto> e)"
    and insert_err: "g_Create cl db e = (Some er, db') \<Longrightarrow> rows db' = rows db"
    and update_ok: "g_Updates cl db e = (None, db') \<Longrightarrow> rows db (pm_ID K e) = Some r \<Longrightarrow>
      rows db' = (rows db)(pm_ID K e \<mapsto> merged r e)"
    and update_unique: "g_Updates cl db e = (None, db') \<Longrightarrow> unique_names K (rows db) \<Longrightarrow> unique_names K (rows db')"
    and one_row: "g_Rows cl db q = Inr (map Inr xs, None) \<Longrightarrow> q_limit q = Some (1, 0) \<Longrightarrow>
      list_all expr_simple (q_where q) \<Longrightarrow>
      (case xs of
         [] \<Rightarrow> \<not> (\<exists>k r. rows db k = Some r \<and> list_all (expr_holds col r) (q_where q))
       | x # _ \<Rightarrow> list_all (expr_holds col x) (q_where q) \<and> (\<exists>k. rows db k = Some x))"
    and keyed: "rows db k = Some r \<Longrightarrow> pm_ID K r = k"
    and merged_name: "pm_Name K e \<noteq> '''' \<Longrightarrow> pm_Name K (merged r e) = pm_Name K e"
    and name_column: "col r ''name'' = SqlStr (pm_Name K r)"
begin

lemma FindByName_found:
  assumes "profile_FindByName K (Driver E cl) db name = Inr r"
  shows "rows db (pm_ID K r) = Some r \<and> pm_Name K r = TrimSpace name \<and> TrimSpace name \<noteq> ''''"
proof -
  let ?n = "TrimSpace name" and ?o = "noListOptions\<lparr>lo_Page := 1, lo_PageSize := 1\<rparr>"
  from assms obtain rest where n: "?n \<noteq> ''''" and "Driver_List E cl db (Some (pm_named K ?n)) (Some ?o) = Inr (r # rest)"
    by (auto simp: profile_FindByName_def Let_def Driver_def split: if_splits sum.splits list.splits)
  then obtain rs where "g_Rows cl db (list_query E (pm_named K ?n) (Some ?o)) = Inr (rs, None)"
    and "scan_rows rs [] = Inr (r # rest)"
    by (auto simp: Driver_List_def split: if_splits sum.splits prod.splits option.splits)
  with scan_rows_Inr have "g_Rows cl db (list_query E (pm_named K ?n) (Some ?o)) = Inr (map Inr (r # rest), None)"
    by fastforce
  moreover have "ToLower ''name'' = ''name''" by code_simp
  ultimately have "pm_Name K r = ?n \<and> (\<exists>k. rows db k = Some r)"
    using one_row [of db "list_query E (pm_named K ?n) (Some ?o)" "r # rest"] named [OF n] name_column
    by (simp add: list_query_def noListOptions_def noFilter_def applyFilterOptions_def index_exprs_def)
  with keyed n show ?thesis by auto
qed

lemma create_upserts:
  assumes c: "profile_Create K (Driver E cl) now db (Some p) = (None, Some p', db')"
    and n: "TrimSpace (pm_Name K p) = pm_Name K p" and u: "unique_names K (rows db)"
  shows "unique_names K (rows db') \<and> pm_Name K p' = pm_Name K p \<and>
    (\<exists>r. rows db' (pm_ID K p') = Some r \<and> pm_Name K r = pm_Name K p) \<and>
    (\<forall>k. k \<noteq> pm_ID K p' \<longrightarrow> rows db' k = rows db k) \<and>
    (if name_used K (rows db) (pm_Name K p) then rows db (pm_ID K p') \<noteq> None
     else p' = p \<and> rows db (pm_ID K p) = None)"
proof (cases "ds_Add (Driver E cl) now db p")
  case (Pair res db1)
  show ?thesis
  proof (cases res)
    case None
    with c Pair have e: "p' = p" "db' = db1" by (simp_all add: profile_Create_def)
    let ?e = "SetUpdateTime E now (SetCreateTime E now p)"
    from None Pair have "g_Create cl db ?e = (None, db1)"
      by (auto simp: Driver_def Driver_Add_def Let_def split: if_splits prod.splits option.splits gorm_error.splits)
    from insert_ok [OF this] have i: "rows db (pm_ID K p) = None" "\<not> name_used K (rows db) (pm_Name K p)"
      "rows db1 = (rows db)(pm_ID K p \<mapsto> ?e)" by simp_all
    then have "unique_names K (rows db1)" using u by (auto simp: unique_names_def name_used_def) metis
    with i e show ?thesis by simp
  next
    case (Some err)
    with c Pair obtain r where x: "err = ErrRecordExist" "pm_Name K p \<noteq> ''''"
      and f: "profile_FindByName K (Driver E cl) db1 (pm_Name K p) = Inr r"
      and p': "p' = pm_set_ID K (pm_ID K r) p" and put: "ds_Put (Driver E cl) now db1 p' = (None, db')"
      by (auto simp: profile_Create_def Let_def split: if_splits sum.splits prod.splits)
    have r1: "rows db1 = rows db" using Pair Some insert_err
      by (fastforce simp: Driver_def Driver_Add_def Let_def split: if_splits prod.splits option.splits gorm_error.splits)
    from FindByName_found [OF f] n r1 have r: "rows db (pm_ID K r) = Some r" "pm_Name K r = pm_Name K p" by simp_all
    from put have g: "g_Updates cl db1 (SetUpdateTime E now p') = (None, db')"
      by (auto simp: Driver_def Driver_Put_def split: if_splits prod.splits option.splits gorm_error.splits)
    from update_ok [OF g] r r1 p' have w: "rows db' = (rows db)(pm_ID K r \<mapsto> merged r (SetUpdateTime E now p'))" by simp
    have "pm_Name K (merged r (SetUpdateTime E now p')) = pm_Name K p" using x(2) p' by (simp add: merged_name)
    moreover have "name_used K (rows db) (pm_Name K p)" using r by (auto simp: name_used_def)
    ultimately show ?thesis using w r p' update_unique [OF g] u r1 by simp
  qed
qed

text \<open>A profile that was created is the one its name finds.\<close>

lemma created_found:
  assumes "profile_Create K (Driver E cl) now db (Some p) = (None, Some p', db')"
    and "TrimSpace (pm_Name K p) = pm_Name K p" and "unique_names K (rows db)"
    and "profile_FindByName K (Driver E cl) db' (pm_Name K p) = Inr r"
  shows "pm_ID K r = pm_ID K p'"
  using create_upserts [OF assms(1-3)] FindByName_found [OF assms(4)] assms(2) by (auto simp: unique_names_def)

end


section \<open>A table in memory with unique names\<close>

definition named_client ::
  "'p profile_model \<Rightarrow> 'p Entity \<Rightarrow> ('p \<Rightarrow> 'p \<Rightarrow> 'p) \<Rightarrow> ('p \<Rightarrow> string \<Rightarrow> sqlval) \<Rightarrow> ('p list, 'p) gorm_client" where
  "named_client K E merged col =
    (list_client E merged col (\<lambda>us p. p))
      \<lparr>g_Create := (\<lambda>db p. if list_rows E db (PrimaryKey E p) = None \<and> \<not> list_ex (\<lambda>r. pm_Name K r = pm_Name K p) db
                           then (None, db @ [p]) else (Some ErrDuplicatedKey, db)),
       g_Updates := (\<lambda>db p.
         (let db' = map (\<lambda>r. if PrimaryKey E r = PrimaryKey E p then merged r p else r) db in
          if distinct (map (pm_Name K) db') then (None, db') else (Some ErrDuplicatedKey, db))),
       g_Rows := (\<lambda>db q.
         (let found = filter (\<lambda>r. list_all (expr_holds col r) (q_where q)) (list_contents E db) in
          Inr (map Inr (case q_limit q of None \<Rightarrow> found | Some (n, k) \<Rightarrow> take (nat n) (drop (nat k) found)), None)))\<rparr>"

locale named_table = named_model +
  fixes merged :: "'a \<Rightarrow> 'a \<Rightarrow> 'a" and col :: "'a \<Rightarrow> string \<Rightarrow> sqlval"
  assumes key_merge [simp]: "pm_ID K (merged old new) = pm_ID K old"
    and name_merge: "pm_Name K e \<noteq> '''' \<Longrightarrow> pm_Name K (merged r e) = pm_Name K e"
    and name_col: "col r ''name'' = SqlStr (pm_Name K r)"

lemma distinct_unique_names:
  assumes "distinct (map (pm_Name K) db)"
  shows "unique_names K (list_rows E db)"
proof -
  have "r = r'" if "r \<in> set db" "r' \<in> set db" "pm_Name K r = pm_Name K r'" for r r'
    using assms that by (auto simp: distinct_map inj_on_def)
  then show ?thesis
    by (auto simp: unique_names_def list_rows_def find_Some_iff) (metis nth_mem)
qed

sublocale named_table \<subseteq> nt: named_backend K E "named_client K E merged col" "list_rows E" merged col
proof (unfold_locales, goal_cases)
  case (1 db e db')
  then have c: "list_rows E db (PrimaryKey E e) = None" "\<not> list_ex (\<lambda>r. pm_Name K r = pm_Name K e) db" "db' = db @ [e]"
    by (auto simp: named_client_def split: if_splits)
  have "\<not> name_used K (list_rows E db) (pm_Name K e)"
    using c(2) by (auto simp: name_used_def list_rows_def find_Some_iff list_ex_iff)
  moreover have "list_rows E db' = (list_rows E db)(pm_ID K e \<mapsto> e)"
    using c by (auto simp: list_rows_append fun_eq_iff split: option.splits) (auto simp: list_rows_def)
  ultimately show ?case using c by simp
next
  case (2 db e er db')
  then show ?case by (auto simp: named_client_def split: if_splits)
next
  case (3 db e db' r)
  then have "db' = map (\<lambda>r. if PrimaryKey E r = PrimaryKey E e then merged r e else r) db"
    by (auto simp: named_client_def Let_def split: if_splits)
  then have "list_rows E db' k = (if k = pm_ID K e then map_option (\<lambda>r. merged r e) (list_rows E db k) else list_rows E db k)" for k
    using list_rows_map [of E "\<lambda>r. merged r e" "PrimaryKey E e" db k] by simp
  with 3(2) show ?case by (simp add: fun_eq_iff)
next
  case (4 db e db')
  then have "distinct (map (pm_Name K) db')" by (auto simp: named_client_def Let_def split: if_splits)
  then show ?case by (rule distinct_unique_names)
next
  case (5 db q xs)
  let ?found = "filter (\<lambda>r. list_all (expr_holds col r) (q_where q)) (list_contents E db)"
  from 5 have xs: "xs = take 1 ?found" by (simp add: named_client_def Let_def)
  show ?case
  proof (cases xs)
    case Nil
    with xs have "?found = []" by (cases ?found) auto
    then show ?thesis using Nil set_list_contents [of E db] by (auto simp: filter_empty_conv)
  next
    case (Cons x r)
    then have "x \<in> set ?found" using xs by (metis in_set_takeD list.set_intros(1))
    then show ?thesis using Cons set_list_contents [of E db] by auto
  qed
next
  case (6 db k r)
  then show ?case using list_rows_key by fastforce
qed (simp_all add: name_merge name_col)

text \<open>The two tables: \<open>Updates\<close> keeps the old value of a zero field.\<close>

definition or_old :: "'v \<Rightarrow> 'v \<Rightarrow> 'v \<Rightarrow> 'v" where
  "or_old zero old new = (if new = zero then old else new)"

definition np_merge :: "('f, 't) NodeSelectorProfile \<Rightarrow> ('f, 't) NodeSelectorProfile \<Rightarrow> ('f, 't) NodeSelectorProfile" where
  "np_merge old new = old\<lparr>np_Name := or_old '''' (np_Name old) (np_Name new),
     np_Description := or_old '''' (np_Description old) (np_Description new),
     np_Selection := or_old (np_Selection NodeSelectorProfile_zero) (np_Selection old) (np_Selection new),
     np_UpdateTime := np_UpdateTime new\<rparr>"

definition np_col :: "('f, 't) NodeSelectorProfile \<Rightarrow> string \<Rightarrow> sqlval" where
  "np_col r c = (if c = ''name'' then SqlStr (np_Name r) else if c = ''id'' then SqlStr (np_ID r) else SqlStr '''')"

definition rp_merge :: "RBACProfile \<Rightarrow> RBACProfile \<Rightarrow> RBACProfile" where
  "rp_merge old new = old\<lparr>rp_Name := or_old '''' (rp_Name old) (rp_Name new),
     rp_Description := or_old '''' (rp_Description old) (rp_Description new),
     rp_Policies := or_old [] (rp_Policies old) (rp_Policies new), rp_UpdateTime := rp_UpdateTime new\<rparr>"

definition rp_col :: "RBACProfile \<Rightarrow> string \<Rightarrow> sqlval" where
  "rp_col r c = (if c = ''name'' then SqlStr (rp_Name r) else if c = ''id'' then SqlStr (rp_ID r) else SqlStr '''')"

interpretation selector_table: named_table node_selector_model NodeSelectorProfile_Entity np_merge np_col
  by unfold_locales (simp_all add: node_selector_model_def np_merge_def or_old_def np_col_def)

interpretation rbac_table: named_table rbac_model RBACProfile_Entity rp_merge rp_col
  by unfold_locales (simp_all add: rbac_model_def rp_merge_def or_old_def rp_col_def)

end
