(* ===== verification/Spec2Isabelle.thy ===== *)
theory Spec2Isabelle
  imports Kube_RBAC Kube_Configs Kube_Informer Kube_Dispatch Kube_Service Kube_Created Kube_Roles Kube_Cache Kube_Api Kube_Profiles
begin

text \<open>
  KubeMin-Cli is a server that keeps applications - components with traits, and workflows over
  them - in a SQL database and deploys them to a Kubernetes cluster. This development models the
  Go code under src/pkg/apiserver; source names below are relative to that directory.

  A request enters through the HTTP interface (interfaces/api), which binds it, calls a service and
  assembles the reply. The application service (domain/service/application.go)
  checks it (domain/service/validation.go), resolves templates, and stores the application, its
  components and its default workflow. A run of the workflow is a row of the task queue
  (domain/service/workflow.go, domain/model/workflow_queue.go). The dispatcher
  (event/workflow/dispatcher.go, workflow.go) claims waiting rows and hands them to workers; the
  controller (event/workflow/controller.go) generates the jobs of the task
  (event/workflow/job_builder.go), which includes the trait processors (workflow/traits), and runs
  them step by step (event/workflow/job/job.go), one after the other or in a pool. Every job is run
  by the controller of its type (event/workflow/job/job_*.go), which writes one object to the
  cluster, waits for it, and cleans up after a failure; workloads are awaited at the informer
  (infrastructure/informer), whose events also write the status of components. Tasks are cancelled
  through Redis (workflow/signal), shared resources are guarded by locks (infrastructure/locker).
  Dispatchers and workers meet at a queue (infrastructure/messaging): a Redis stream, a Kafka topic or
  none. Which replicas dispatch and which work is decided by leader election and the number of
  replicas (server.go); flags and the environment configure all this (config).

  Foundations.
  \<^item> \<open>Kube_Prelude\<close>: Go strings as byte strings, and the lemmas that the components share.
  \<^item> \<open>Kube_Config\<close>: the enumerations of config/consts.go and config/share.go and their parsers.
  \<^item> \<open>Kube_Naming\<close>: the derived resource names (utils, workflow/naming); bounds and shape.
  \<^item> \<open>Kube_Regexp\<close>: the regular expressions of the validator, decided by derivatives.
  \<^item> \<open>Kube_Json\<close>, \<open>Kube_Spec\<close>, \<open>Kube_Decode\<close>, \<open>Kube_Encode\<close>: stored documents
    (domain/model/model.go, workflow.go, domain/spec/traits.go), their decoding and encoding, and
    the round trips.

  Data and locks.
  \<^item> \<open>Kube_Store\<close>: the driver (infrastructure/datastore/sql) over a GORM client, which is a
    parameter with the locales \<open>gorm_backend\<close>, \<open>gorm_query\<close> and \<open>gorm_healthy\<close>; what it promises is
    the locale \<open>table_store\<close>. \<open>Kube_Memory\<close> interprets the client's locales by tables in memory.
  \<^item> \<open>Kube_Tasks\<close>: the task queue and domain/repository/workflow.go; a claim is won once.
  \<^item> \<open>Kube_Locker\<close>: memory, no-op, degraded and Redis locks; mutual exclusion as an invariant of
    a step relation. \<open>Kube_Shared\<close>: the cleanup tracker and the sharing of resources, over the
    locale \<open>share_lock\<close>.
  \<^item> \<open>Kube_Cancel\<close>: cancellation watchers and markers over a Redis client, locale \<open>redis_kv\<close>.

  Requests.
  \<^item> \<open>Kube_Validation\<close>: TryApplication and TryWorkflow, with an independent statement of what a
    valid request is.
  \<^item> \<open>Kube_Pod\<close>, \<open>Kube_Traits\<close>: the trait processors and what they make of a workload.
    \<open>Kube_Gap\<close> says when they succeed, compared with validation; \<open>Kube_Mounts\<close> follows mounts to
    their volumes, \<open>Kube_Rules\<close> the rules of ingresses.
  \<^item> \<open>Kube_Workflows\<close>, \<open>Kube_Templates\<close>, \<open>Kube_Application\<close>, \<open>Kube_Cleanup\<close>: the application service;
    \<open>Kube_Versions\<close>, \<open>Kube_Deploy\<close>, \<open>Kube_Created\<close>: what it leaves in the tables, and how that becomes
    jobs and is cleaned up again (locales \<open>component_store\<close>, \<open>application_store\<close>).
  \<^item> \<open>Kube_Service\<close>: enqueueing, cancelling and the status report. \<open>Kube_Requests\<close>: workflows created
    by themselves, the lists of applications, and the repositories as records of their methods
    (locale \<open>request_store\<close>). \<open>Kube_Profiles\<close>: shared profiles (domain/repository/*_profile.go) over a
    table with unique names (locales \<open>named_model\<close>, \<open>named_backend\<close>).
  \<^item> \<open>Kube_Http\<close>: codes and replies (utils/bcode), parameter checks (interfaces/api/validate.go),
    CORS, routes, health. \<open>Kube_Api\<close>: the handlers of interfaces/api/applications.go from the bound
    request to the reply, with the conversions of assembler/v1; what a creation asked for is listed.

  Running a task.
  \<^item> \<open>Kube_Builder\<close>: job_builder.go and the generators of objects. \<open>Kube_Runner\<close>: one job and the
    sequential loop. \<open>Kube_Pool\<close>: the pool as a step relation over all interleavings.
    \<open>Kube_Controller\<close>: RunJobs, the loops over steps and priorities, the final status.
    \<open>Kube_Dispatch\<close>: start-up, scanning, claiming, messages, the worker loop and the slots.
  \<^item> \<open>Kube_Cluster\<close>: what the job controllers share, over a typed Kubernetes client, which is a
    parameter with the locales \<open>kube_server\<close> (a failing call changes nothing, a write changes one
    object) and \<open>kube_api\<close> (and stores what it is given). \<open>Kube_RBAC\<close>: job_rbac.go. \<open>Kube_Workloads\<close>:
    deployments, stateful sets, claims and ingresses. \<open>Kube_Configs\<close>: config maps, secrets and
    services. The lemmas say what a run leaves in the cluster and that \<open>Clean\<close> undoes it.
  \<^item> \<open>Kube_Informer\<close>: the waiter as a step relation whose labels record what happened; and the
    status of components.

  The server.
  \<^item> \<open>Kube_Messaging\<close>: infrastructure/messaging as implementations of one record of methods, over
    clients that are parameters (locales \<open>stream_server\<close>, \<open>work_queue\<close>), and the worker loop over
    any of them: what is enqueued is kept, what is acknowledged was processed.
  \<^item> \<open>Kube_Settings\<close>: flags, environment and validation (config), the choice of the queue (server.go).
  \<^item> \<open>Kube_Roles\<close>: leader election and workers of a replica as a step relation; the informer manager.
  \<^item> \<open>Kube_Cache\<close>: the caches of utils/cache.

  This theory holds the properties: claims of tasks, created applications, jobs, controllers,
  validation and traits, the pool, the loops, locks, cancellation, dispatching, names, the informer,
  the queue, the configuration, the roles, the HTTP interface, profiles.

  Conventions. Errors are values of a sum or option; a Go panic is a constructor. The clock,
  generated identifiers, random suffixes and what other goroutines or the cluster do meanwhile are
  arguments. Loops are structural where Go ranges over a slice; a waiting or retrying loop takes the
  list of the branches its select takes, and is \<open>None\<close> while that list does not end it: theorems
  of termination say which lists do. The number loop of workflow names is bounded by the number of
  workflows plus one, which is proved to be enough. Integers are unbounded where the code cannot
  leave its width, as in counters, time stamps and replica counts.
  Go maps are association lists or maps; where the code ranges over a map, the order is that of the
  list and the statements do not depend on it.
  The Kubernetes object of a job is changed through a pointer by its controller; the model changes
  a copy, as nothing reads those fields afterwards. Errors that print the Go type of a value
  leave the type out.

  Not modelled. Binding and writing of HTTP bodies, request logging and the compression itself, which
  are gin and the standard library; the container of dependencies (utils/container, buildIoCContainer),
  tracing, profiling, log files and the opening of connections, which are input and output; the
  template engine (utils/template), which nothing calls; the random generators of utils/random.go,
  whose results are arguments; and functions without callers.
\<close>

section \<open>Data for the witnesses\<close>

definition sample_task :: WorkflowQueue where
  "sample_task = wq_zero\<lparr>wq_TaskID := ''t1'', wq_WorkflowID := ''w1'', wq_AppID := ''a1'',
     wq_WorkflowName := ''demo'', wq_Status := StatusWaiting\<rparr>"

definition sample_component :: ApplicationComponent where
  "sample_component = ApplicationComponent_zero\<lparr>ac_Name := ''web'', ac_AppID := ''a1'',
     ac_ComponentType := ConfJob\<rparr>"

definition sample_step :: WorkflowStep where
  "sample_step = \<lparr>step_Name = ''web'', step_Level = 0, step_WorkflowType = JobTypeOther '''',
     step_Mode = WorkflowModeStepByStep, step_Properties = [[''web'']], step_SubSteps = []\<rparr>"

definition sample_workflow :: Workflow where
  "sample_workflow = Workflow_zero\<lparr>wf_ID := ''w1'', wf_AppID := ''a1'',
     wf_Steps := Some (encode_steps [sample_step])\<rparr>"

text \<open>Two read-only stores and trait processing that adds nothing.\<close>

definition const_store :: "'e \<Rightarrow> (mem_db, 'e) DataStore" where
  "const_store x = \<lparr>ds_Add = (\<lambda>now db e. (None, db)), ds_BatchAdd = (\<lambda>now db es. (None, db)),
     ds_Put = (\<lambda>now db e. (None, db)), ds_Delete = (\<lambda>db e. (None, db)), ds_Get = (\<lambda>db e. Inr x),
     ds_List = (\<lambda>db e opt. Inr [x]), ds_IsExist = (\<lambda>db e. Inr True),
     ds_CompareAndSwap = (\<lambda>now db e f v us. (Inr False, db))\<rparr>"

definition no_traits :: "unit traits_proc" where
  "no_traits c obj = Inr ([], obj)"

lemma wf_sample_step: "wf_step sample_step"
  by (simp add: wf_step_def sample_step_def canonical_JobType_def canonical_Mode_def JobType_of_def
      WorkflowMode_of_def JobType_table_def)

section \<open>Claiming a task\<close>

text \<open>
  C1. Over every GORM library that behaves as documented, and however many replicas try to
  claim one waiting task in whatever order, at most one of the attempts succeeds.
\<close>

theorem claim_unique:
  assumes "gorm_query WorkflowQueue_Entity cl rows wq_merge wq_col wq_set_cols"
  shows "length (filter (\<lambda>r. r = Inr True)
      (fst (claim_attempts (Driver WorkflowQueue_Entity cl) t nows db))) \<le> 1"
  using task_store.claim_at_most_once [OF Driver_task_store [OF assms]] .

theorem claim_unique_witness:
  "length (filter (\<lambda>r. r = Inr True) (fst (claim_attempts mem_store ''t1'' [5, 6] [sample_task]))) \<le> 1"
  by (rule claim_unique [OF memt.lt.gorm_query_axioms])

text \<open>
  When the task is waiting and the database answers the first attempt, that attempt wins,
  and after all the other attempts the task is queued.
\<close>

theorem claim_succeeds:
  assumes "gorm_query WorkflowQueue_Entity cl rows wq_merge wq_col wq_set_cols"
    and "rows db t = Some r" and "wq_Status r = StatusWaiting"
    and "claim_attempts (Driver WorkflowQueue_Entity cl) t (now # nows) db = (a # rs, db')"
    and "\<forall>e. a \<noteq> Inl e"
  shows "a = Inr True \<and> (\<exists>q. rows db' t = Some q \<and> wq_Status q = StatusQueued)"
  using task_store.claim_first_wins [OF Driver_task_store [OF assms(1)] assms(2) _ assms(4,5)] assms(3)
  by simp

lemma sample_claims:
  "claim_attempts mem_store ''t1'' [5] [sample_task] =
     ([Inr True], [sample_task\<lparr>wq_Status := StatusQueued, wq_UpdateTime := 5\<rparr>])"
  by code_simp

theorem claim_succeeds_witness:
  "claim_attempts mem_store ''t1'' [5] [sample_task] =
     (Inr True # [], [sample_task\<lparr>wq_Status := StatusQueued, wq_UpdateTime := 5\<rparr>]) \<and>
   (\<exists>q. mem_rows [sample_task\<lparr>wq_Status := StatusQueued, wq_UpdateTime := 5\<rparr>] ''t1'' = Some q \<and>
        wq_Status q = StatusQueued)"
  using claim_succeeds [OF memt.lt.gorm_query_axioms _ _ sample_claims, of sample_task] sample_claims
  by (simp add: mem_rows_def sample_task_def)

text \<open>
  C2. A claimed task whose hand-over fails, with the task row left alone, goes back to waiting.
\<close>

theorem claim_reverted:
  assumes "gorm_query WorkflowQueue_Entity cl rows wq_merge wq_col wq_set_cols"
    and "UpdateTaskStatus (Driver WorkflowQueue_Entity cl) now0 db (wq_TaskID task) StatusWaiting
           StatusQueued = (Inr True, db1)"
    and "processor task db1 = (Some err, db2)"
    and "rows db2 (wq_TaskID task) = rows db1 (wq_TaskID task)"
    and "\<forall>e. fst (UpdateTaskStatus (Driver WorkflowQueue_Entity cl) now1 db2 (wq_TaskID task)
           StatusQueued StatusWaiting) \<noteq> Inl e"
    and "claimAndProcessTask (Driver WorkflowQueue_Entity cl) now0 now1 False task processor db = (handed, db')"
  shows "handed \<and> (\<exists>r. rows db' (wq_TaskID task) = Some r \<and> wq_Status r = StatusWaiting)"
  using task_store.claim_taken_back [OF Driver_task_store [OF assms(1)] assms(2-6)] .

definition queue_down :: "json \<Rightarrow> mem_db \<Rightarrow> (string + string) \<times> mem_db" where
  "queue_down payload db = (Inl ''connection refused'', db)"

lemma sample_revert:
  "UpdateTaskStatus mem_store 5 [sample_task] (wq_TaskID sample_task) StatusWaiting StatusQueued =
     (Inr True, [sample_task\<lparr>wq_Status := StatusQueued, wq_UpdateTime := 5\<rparr>])"
  "UpdateTaskStatus mem_store 6 [sample_task\<lparr>wq_Status := StatusQueued, wq_UpdateTime := 5\<rparr>]
     (wq_TaskID sample_task) StatusQueued StatusWaiting =
     (Inr True, [sample_task\<lparr>wq_Status := StatusWaiting, wq_UpdateTime := 6\<rparr>])"
  "claimAndProcessTask mem_store 5 6 False sample_task (dispatch_processor queue_down) [sample_task] =
     (True, [sample_task\<lparr>wq_Status := StatusWaiting, wq_UpdateTime := 6\<rparr>])"
  by code_simp+

theorem claim_reverted_witness:
  "\<exists>r. mem_rows (snd (claimAndProcessTask mem_store 5 6 False sample_task
        (dispatch_processor queue_down) [sample_task])) ''t1'' = Some r \<and> wq_Status r = StatusWaiting"
  using claim_reverted [OF memt.lt.gorm_query_axioms sample_revert(1) _ _ _ sample_revert(3),
      of "''enqueue task dispatch: connection refused''"
        "[sample_task\<lparr>wq_Status := StatusQueued, wq_UpdateTime := 5\<rparr>]"] sample_revert
  by (simp add: dispatch_processor_def queue_down_def) (simp add: sample_task_def)

section \<open>Generating the jobs of a workflow\<close>

text \<open>
  C7. When the workflow and its components are read and the steps have no null entry, the jobs
  of all executions together are exactly the jobs of the components the steps refer to, each as
  often as it is referred to, and no execution is empty.
\<close>

theorem generated_jobs_complete:
  assumes "ds_Get wfStore db (Workflow_zero\<lparr>wf_ID := wq_WorkflowID task\<rparr>) = Inr workflow"
    and "decode_steps (json_of_ptr (wf_Steps workflow)) = Some (map Some steps)"
    and "ds_List compStore db (Some (ApplicationComponent_zero\<lparr>ac_AppID := wq_AppID task\<rparr>))
           (Some noListOptions) = Inr comps"
  shows "\<exists>es. GenerateJobTasks T wfStore compStore db task timeout = Return es \<and>
    mset (execution_jobs es) =
      mset (concat (map (component_jobs T (component_map_of comps) task timeout)
        (concat (map step_refs steps)))) \<and>
    (\<forall>e\<in>set es. bucket_jobs (se_Jobs e) \<noteq> [])"
  by (rule GenerateJobTasks_jobs [OF assms]) blast

lemma sample_decode:
  "decode_steps (json_of_ptr (wf_Steps sample_workflow)) = Some (map Some [sample_step])"
  using decode_encode_steps [of "[sample_step]"] wf_sample_step
  by (simp add: sample_workflow_def json_of_ptr_def)

theorem generated_jobs_complete_witness:
  "\<exists>es. GenerateJobTasks no_traits (const_store sample_workflow) (const_store sample_component)
      [] sample_task 60 = Return es \<and>
    mset (execution_jobs es) = mset (concat (map (component_jobs no_traits
      (component_map_of [sample_component]) sample_task 60) (concat (map step_refs [sample_step])))) \<and>
    list_all (\<lambda>e. bucket_jobs (se_Jobs e) \<noteq> []) es"
  unfolding list_all_iff
  by (rule generated_jobs_complete [OF _ sample_decode]) (simp_all add: const_store_def)

text \<open>
  C8. Every generated job is queued at a priority that fits its type (configuration before
  objects the workload depends on before the workload and its service), carries the
  identifiers of its task, has the deploy timeout, starts as queued or skipped, and has a
  controller.
\<close>

lemma priority_types_deploy: "t \<in> set (priority_types p) \<Longrightarrow> t \<in> set deploy_types"
  by (auto simp: priority_types_def deploy_types_def split: if_splits)

theorem generated_jobs_wellformed:
  assumes "GenerateJobTasks T wfStore compStore db task timeout = Return es" and "e \<in> set es"
    and "j \<in> set (bucket_get (se_Jobs e) p)" and "env_store env" and "env_client env"
  shows "job_ok task p j \<and> initJobCtl env j \<noteq> None"
proof -
  have ok: "buckets_ok (job_ok task) (buildJobsForComponent T c task timeout)" for c
    using buildJobs_ok [of task c T timeout] by (simp add: buckets_ok_def)
  from assms(1) obtain cm ss where "steps_loop (step_executions T cm task timeout) ss [] = Return es \<or> es = []"
    by (auto simp: GenerateJobTasks_def split: sum.splits option.splits)
  with assms(2) obtain s where "e \<in> set (step_executions T cm task timeout s)"
    by (auto simp: steps_loop_Return)
  from step_executions_ok [OF ok this] assms(3) have j: "job_ok task p j"
    by (auto dest: buckets_okD)
  then obtain t where "t \<in> set (priority_types p)" "jt_JobType j = JobType_string t"
    by (auto simp: job_ok_def)
  with initJobCtl_deploy [OF assms(4,5) priority_types_deploy] j show ?thesis by auto
qed

definition idle_ctl :: "(unit, mem_db, unit) JobCtl" where
  "idle_ctl = \<lparr>ctl_Run = (\<lambda>cw j s. (Return None, j, s)), ctl_Clean = (\<lambda>j s. s),
     ctl_SaveInfo = (\<lambda>j s. (None, s))\<rparr>"

definition sample_env :: "(unit, mem_db, unit) job_env" where
  "sample_env = \<lparr>env_ctl = (\<lambda>_. idle_ctl), env_client = True, env_store = True,
     env_ack = (\<lambda>j s. s), env_redis = None, env_taskID = ''''\<rparr>"

theorem generated_jobs_wellformed_witness:
  "\<exists>es e j. GenerateJobTasks no_traits (const_store sample_workflow) (const_store sample_component)
      [] sample_task 60 = Return es \<and> e \<in> set es \<and> j \<in> set (bucket_get (se_Jobs e) JobPriorityMaxHigh) \<and>
      job_ok sample_task JobPriorityMaxHigh j \<and> initJobCtl sample_env j \<noteq> None"
proof -
  let ?f = "step_executions no_traits (component_map_of [sample_component]) sample_task 60"
  let ?e = "hd (?f sample_step)" and ?b = "se_Jobs (hd (?f sample_step))"
  have g: "GenerateJobTasks no_traits (const_store sample_workflow) (const_store sample_component)
      [] sample_task 60 = Return (?f sample_step)"
    using sample_decode by (simp add: GenerateJobTasks_def const_store_def)
  have c: "length (?f sample_step) = 1" "length (bucket_get ?b JobPriorityMaxHigh) = 1" by code_simp+
  then have e: "?e \<in> set (?f sample_step)" and
    j: "hd (bucket_get ?b JobPriorityMaxHigh) \<in> set (bucket_get ?b JobPriorityMaxHigh)"
    by (auto intro!: hd_in_set)
  from generated_jobs_wellformed [OF g e j, of sample_env] g e j show ?thesis
    by (auto simp: sample_env_def)
qed

text \<open>
  A component with a share trait: each of its jobs carries the share name, a DNS-1123 label
  of at most 63 bytes, and the normalised strategy in its labels, and its jobs are skipped
  exactly when the strategy is \<open>ignore\<close>.
\<close>

theorem component_jobs_shared:
  assumes "j \<in> set (bucket_get (buildJobsForComponent T c task timeout) p)"
  shows "(jt_Status j = StatusSkipped \<longleftrightarrow> share_ignore (shareConfigForComponent (with_namespace c))) \<and>
    (share_enabled (shareConfigForComponent (with_namespace c)) \<longrightarrow>
      (\<exists>info. jt_JobInfo j = Some info \<and>
         map_of (info_labels info) LabelShareName = Some (shareNameForComponent (with_namespace c)) \<and>
         is_dns1123_label (shareNameForComponent (with_namespace c)) \<and>
         length (shareNameForComponent (with_namespace c)) \<le> 63 \<and>
         (\<exists>st\<in>{ShareStrategyDefault, ShareStrategyIgnore, ShareStrategyForce}.
            map_of (info_labels info) LabelShareStrategy = Some st)))"
  using buckets_okD [OF buildJobs_ok assms] shareConfig_cases [of "with_namespace c"]
    shareNameForComponent_label [of "with_namespace c"]
  by (auto simp: job_shared_def)

definition shared_component :: ApplicationComponent where
  "shared_component = sample_component\<lparr>ac_Traits :=
     Some (JObj [(''share'', JObj [(''strategy'', JStr ''ignore'')])])\<rparr>"

theorem component_jobs_shared_witness:
  "\<exists>j\<in>set (bucket_get (buildJobsForComponent no_traits shared_component sample_task 60) JobPriorityMaxHigh).
     jt_Status j = StatusSkipped \<and> share_enabled (shareConfigForComponent (with_namespace shared_component))"
proof -
  let ?b = "bucket_get (buildJobsForComponent no_traits shared_component sample_task 60) JobPriorityMaxHigh"
  have c: "length ?b = 1" by code_simp
  have s: "share_ignore (shareConfigForComponent (with_namespace shared_component))"
    "share_enabled (shareConfigForComponent (with_namespace shared_component))" by code_simp+
  from c have "hd ?b \<in> set ?b" by (auto intro!: hd_in_set)
  with component_jobs_shared [OF this] s show ?thesis by blast
qed

text \<open>
  A workflow with a null entry among its steps makes the generation panic: no job runs.
\<close>

theorem null_step_panics:
  assumes "ds_Get wfStore db (Workflow_zero\<lparr>wf_ID := wq_WorkflowID task\<rparr>) = Inr workflow"
    and "decode_steps (json_of_ptr (wf_Steps workflow)) = Some steps" and "None \<in> set steps"
    and "ds_List compStore db (Some (ApplicationComponent_zero\<lparr>ac_AppID := wq_AppID task\<rparr>))
           (Some noListOptions) = Inr comps"
  shows "GenerateJobTasks T wfStore compStore db task timeout = Panic nil_deref"
  using assms by (simp add: GenerateJobTasks_def steps_loop_Panic)

theorem null_step_panics_witness:
  "GenerateJobTasks no_traits
     (const_store (sample_workflow\<lparr>wf_Steps := Some (JObj [(''steps'', JArr [JNull])])\<rparr>))
     (const_store sample_component) [] sample_task 60 = Panic nil_deref"
proof (rule null_step_panics [where steps = "[None]" and comps = "[sample_component]"])
  show "decode_steps (json_of_ptr (wf_Steps
      (sample_workflow\<lparr>wf_Steps := Some (JObj [(''steps'', JArr [JNull])])\<rparr>))) = Some [None]"
    by (simp add: decode_steps_def json_of_ptr_def steps_schema_def resolve_def field_of_def
        json_get_def decode_step_def)
qed (simp_all add: const_store_def)

section \<open>Running one job\<close>

definition queued_job :: "unit JobTask" where
  "queued_job = (NewJobTask ''web'' ''default'' ''w1'' '''' ''a1'' ''t1'' 60)
     \<lparr>jt_JobType := JobType_string JobDeploy\<rparr>"

definition sample_obs :: job_obs where
  "sample_obs = \<lparr>ob_token = ''tok'', ob_start = 10, ob_end = 20\<rparr>"

definition sample_world :: "mem_db \<Rightarrow> (mem_db, unit) run_world" where
  "sample_world db = \<lparr>rw_env = db, rw_cancel = cancel_init, rw_redis = (), rw_log = []\<rparr>"

lemma queued_job_ready:
  "jt_Status queued_job \<notin> {StatusPassed, StatusSkipped}" "initJobCtl sample_env queued_job = Some idle_ctl"
  by (simp add: queued_job_def NewJobTask_def)
    (use initJobCtl_deploy [of sample_env JobDeploy queued_job] in
      \<open>simp add: sample_env_def queued_job_def deploy_types_def\<close>)

text \<open>
  C9. The life of a job that is neither passed nor skipped and whose controller exists: its start
  is acknowledged, \<open>Run\<close> is called once, \<open>Clean\<close> is called at most once and certainly when the
  job ends in a failed status, and the final status is first acknowledged and then saved, both
  exactly once and both after the last change of the status.
\<close>

theorem runJob_protocol:
  assumes "jt_Status job \<notin> {StatusPassed, StatusSkipped}" and "initJobCtl env job = Some ctl"
    and "runJob env obs job w = (job', w')"
  shows "\<exists>pre clean post. pre \<in> {[], [EvWatch]} \<and> clean \<in> {[], [EvClean]} \<and> post \<in> {[], [EvStop]} \<and>
    rw_log w' = rw_log w @ pre @ [EvAck StatusPrepare, EvRun] @ clean @
      [EvAck (jt_Status job'), EvSave (jt_Status job')] @ post \<and>
    (jobStatusFailed (jt_Status job') \<longrightarrow> clean = [EvClean]) \<and> jt_EndTime job' = ob_end obs"
  by (rule runJob_log [OF assms])

theorem runJob_protocol_witness:
  "\<exists>pre clean post. rw_log (snd (runJob sample_env sample_obs queued_job (sample_world []))) =
     pre @ [EvAck StatusPrepare, EvRun] @ clean @
      [EvAck (jt_Status (fst (runJob sample_env sample_obs queued_job (sample_world [])))),
       EvSave (jt_Status (fst (runJob sample_env sample_obs queued_job (sample_world []))))] @ post"
proof -
  obtain j1 w1 where r: "runJob sample_env sample_obs queued_job (sample_world []) = (j1, w1)" by fastforce
  have "rw_log (sample_world []) = []" by (simp add: sample_world_def)
  with runJob_protocol [OF queued_job_ready r] show ?thesis
    unfolding r fst_conv snd_conv by auto
qed

text \<open>
  No executed job stays in progress: whether \<open>Run\<close> returns, fails or panics, the job ends in
  a status other than \<open>prepare\<close> and \<open>running\<close>, unless an error of the controller asks for one.
\<close>

theorem runJob_leaves_progress:
  assumes "jt_Status job \<notin> {StatusPassed, StatusSkipped}" and "initJobCtl env job = Some ctl"
    and "\<And>cw j s err j' s'. ctl_Run ctl cw j s = (Return (Some err), j', s') \<Longrightarrow>
           je_status err \<notin> {Some StatusPrepare, Some StatusRunning}"
  shows "jt_Status (fst (runJob env obs job w)) \<notin> {StatusPrepare, StatusRunning}"
  by (rule runJob_settles [OF assms])

theorem runJob_leaves_progress_witness:
  "jt_Status (fst (runJob sample_env sample_obs queued_job (sample_world []))) \<notin>
     {StatusPrepare, StatusRunning}"
  by (rule runJob_leaves_progress [OF queued_job_ready]) (simp add: idle_ctl_def)

text \<open>
  A panic of the controller never escapes: the job ends as failed, with the panic value in
  its error.
\<close>

theorem runJob_recovers:
  assumes "jt_Status job \<notin> {StatusPassed, StatusSkipped}" and "initJobCtl env job = Some ctl"
    and "\<And>cw j s. \<exists>j' s'. ctl_Run ctl cw j s = (Panic v, j', s')"
  shows "jt_Status (fst (runJob env obs job w)) = StatusFailed \<and>
    jt_Error (fst (runJob env obs job w)) = ''job panic: '' @ v"
proof -
  from runJob_executes [OF assms(1,2), of obs w] obtain watcher j w1 w2 where
    ex: "execute_job env obs ctl watcher j w1 = (fst (runJob env obs job w), w2)" by blast
  obtain j' e c r where "ctl_Run ctl watcher j (rw_env w1, rw_cancel w1, rw_redis w1) = (Panic v, j', e, c, r)"
    using assms(3) by (metis prod_cases3)
  with ex have "fst (runJob env obs job w) =
      j'\<lparr>jt_Status := StatusFailed, jt_Error := ''job panic: '' @ v, jt_EndTime := ob_end obs\<rparr>"
    by (auto simp: execute_job_def Let_def)
  then show ?thesis by simp
qed

definition panicking_env :: "(unit, mem_db, unit) job_env" where
  "panicking_env = sample_env\<lparr>env_ctl := (\<lambda>_. idle_ctl\<lparr>ctl_Run := (\<lambda>cw j s. (Panic nil_deref, j, s))\<rparr>)\<rparr>"

theorem runJob_recovers_witness:
  "jt_Status (fst (runJob panicking_env sample_obs queued_job (sample_world []))) = StatusFailed"
proof -
  have "initJobCtl panicking_env queued_job =
      Some (idle_ctl\<lparr>ctl_Run := (\<lambda>cw j s. (Panic nil_deref, j, s))\<rparr>)"
    using initJobCtl_deploy [of panicking_env JobDeploy queued_job]
    by (simp add: panicking_env_def sample_env_def queued_job_def deploy_types_def)
  moreover have "\<exists>j' s'. ctl_Run (idle_ctl\<lparr>ctl_Run := (\<lambda>cw j s. (Panic nil_deref, j, s))\<rparr>) cw j s =
      (Panic nil_deref, j', s')" for cw j s by (cases s) simp
  ultimately show ?thesis using runJob_recovers [OF queued_job_ready(1)] by blast
qed

text \<open>
  A skipped job stays skipped, and its controller's \<open>Run\<close> is not called.
\<close>

theorem runJob_skips:
  assumes "jt_Status job = StatusSkipped"
  shows "jt_Status (fst (runJob env obs job w)) = StatusSkipped \<and>
    (EvRun \<in> set (rw_log (snd (runJob env obs job w))) \<longleftrightarrow> EvRun \<in> set (rw_log w))"
  using runJob_skipped [OF assms] by blast

theorem runJob_skips_witness:
  "jt_Status (fst (runJob sample_env sample_obs (queued_job\<lparr>jt_Status := StatusSkipped\<rparr>) (sample_world [])))
     = StatusSkipped"
  using runJob_skips [of "queued_job\<lparr>jt_Status := StatusSkipped\<rparr>" sample_env sample_obs "sample_world []"]
  by simp

text \<open>
  Jobs that run one at a time: either none of them failed, or the first one that failed is
  the last one that was started and every later job is untouched.
\<close>

theorem sequential_stops_at_failure:
  assumes "run_sequential env obs i jobs w = (jobs', w')"
  shows "(\<forall>j\<in>set jobs'. \<not> jobStatusFailed (jt_Status j)) \<or>
    (\<exists>k<length jobs. jobStatusFailed (jt_Status (jobs' ! k)) \<and> drop (Suc k) jobs' = drop (Suc k) jobs \<and>
       (\<forall>m<k. \<not> jobStatusFailed (jt_Status (jobs' ! m))))"
  by (rule run_sequential_stops [OF assms])

theorem sequential_stops_at_failure_witness:
  "\<exists>k<2. jobStatusFailed (jt_Status (fst (run_sequential panicking_env (\<lambda>_. sample_obs) 0
       [queued_job, queued_job] (sample_world [])) ! k)) \<and>
     drop (Suc k) (fst (run_sequential panicking_env (\<lambda>_. sample_obs) 0 [queued_job, queued_job]
       (sample_world []))) = drop (Suc k) [queued_job, queued_job]"
proof -
  obtain j1 w1 where r: "runJob panicking_env sample_obs queued_job (sample_world []) = (j1, w1)" by fastforce
  have "fst (runJob panicking_env sample_obs queued_job (sample_world [])) =
      queued_job\<lparr>jt_Status := StatusFailed, jt_Error := ''job panic: '' @ nil_deref,
        jt_StartTime := 10, jt_EndTime := 20\<rparr>" by code_simp
  with r have f: "jobStatusFailed (jt_Status j1)" by (simp add: jobStatusFailed_def)
  with r have res: "run_sequential panicking_env (\<lambda>_. sample_obs) 0 [queued_job, queued_job] (sample_world [])
      = ([j1, queued_job], w1)" by simp
  from sequential_stops_at_failure [OF res] f obtain k where
    "k < length [queued_job, queued_job]" "jobStatusFailed (jt_Status ([j1, queued_job] ! k))"
    "drop (Suc k) [j1, queued_job] = drop (Suc k) [queued_job, queued_job]" by auto
  then show ?thesis unfolding res fst_conv by (intro exI [of _ k]) auto
qed

section \<open>The worker pool\<close>

text \<open>
  C26. In every reachable state of a pool no more than \<open>concurrency\<close> jobs run, the wait group
  counts the jobs handed out and not finished, and every job is in exactly one place: finished,
  with a worker, being sent, or still to do.
\<close>

theorem pool_safe:
  assumes "pool_reachable concurrency stopOnFailure jobs s"
  shows "length (ps_workers s) \<le> concurrency \<and>
    ps_wg s = length (ps_workers s) + length (sending (ps_pc s)) \<and>
    mset (ps_finished s) + mset (map worker_job (ps_workers s)) + mset (sending (ps_pc s)) +
      mset (ps_todo s) = mset jobs"
  using pool_reachable_inv [OF assms] by (simp add: pool_conserved_def pool_bounded_def)

theorem pool_safe_witness: "length (ps_workers (NewPool [0, 1, 2])) \<le> 2"
  using pool_safe [OF pool_start [of 2 True "[0, 1, 2]"]] by blast

text \<open>
  A pool that stops on failure hands at most one more job to a worker after its context
  was cancelled: the one whose send had begun.
\<close>

theorem pool_stops_promptly:
  assumes "pool_reachable concurrency True jobs s"
  shows "ps_late s \<le> 1"
  using pool_reachable_prompt [OF assms] by (simp add: pool_prompt_def)

theorem pool_stops_promptly_witness: "ps_late (NewPool [0, 1]) \<le> 1"
  by (rule pool_stops_promptly [OF pool_start [of 2]])

text \<open>
  C27. The pool terminates: every step decreases a weight, from every reachable state the
  return of \<open>Run\<close> can be reached, and a state without a step is one in which it has returned.
\<close>

theorem pool_terminates:
  assumes "pool_reachable concurrency stopOnFailure jobs s" and "0 < concurrency"
  shows "(\<forall>s'. pool_step concurrency stopOnFailure s s' \<longrightarrow> pool_weight s' < pool_weight s) \<and>
    (\<exists>s'. (pool_step concurrency stopOnFailure)\<^sup>*\<^sup>* s s' \<and> ps_pc s' = PReturned) \<and>
    (ps_pc s \<noteq> PReturned \<longrightarrow> (\<exists>s'. pool_step concurrency stopOnFailure s s'))"
  using pool_reachable_inv [OF assms(1)] pool_step_decreases pool_returns [OF _ assms(2)]
    pool_progress [OF _ assms(2)] by blast

theorem pool_terminates_witness:
  "\<exists>s'. (pool_step 2 False)\<^sup>*\<^sup>* (NewPool [0, 1, 2]) s' \<and> ps_pc s' = PReturned"
  using pool_terminates [OF pool_start [of 2 False "[0, 1, 2]"]] by simp

text \<open>
  When \<open>Run\<close> has returned, every job was run exactly once, provided the pool does not stop
  on failure, or no job failed and the caller's context was not cancelled.
\<close>

theorem pool_runs_all:
  assumes "pool_reachable concurrency stopOnFailure jobs s" and "ps_pc s = PReturned"
    and "\<not> stopOnFailure \<or> (\<not> ps_parent s \<and> ps_failures s = 0)"
  shows "mset (ps_finished s) = mset jobs"
  by (rule pool_finished [OF assms])


lemma pool_one_run:
  "\<exists>s. pool_reachable 1 False [7] s \<and> ps_pc s = PReturned"
proof -
  have r: "(pool_step 1 False)\<^sup>*\<^sup>* s s' \<Longrightarrow> pool_reachable 1 False [7] s \<Longrightarrow> pool_reachable 1 False [7] s'" for s s'
    by (induction rule: rtranclp_induct) (auto intro: pool_next)
  have "\<exists>s'. (pool_step 1 False)\<^sup>*\<^sup>* (NewPool [7]) s' \<and> ps_pc s' = PReturned"
    by (rule pool_returns) (simp_all add: NewPool_def pool_bounded_def)
  with r pool_start show ?thesis by blast
qed

theorem pool_runs_all_witness:
  "\<exists>s :: pool_state. ps_pc s = PReturned \<and> mset (ps_finished s) = {#7#}"
proof -
  obtain s where "pool_reachable 1 False [7] s" "ps_pc s = PReturned" using pool_one_run by blast
  with pool_runs_all [OF this] show ?thesis by auto
qed

section \<open>Running a workflow\<close>

text \<open>
  The nested loops over steps and priorities run one list of batches, step by step and
  within a step in the order of the priorities, each with its mode's concurrency, until a batch
  has a job that did not succeed.
\<close>

theorem run_order:
  "run_executions rj workflowName seqLimit k es w =
   run_batches rj workflowName seqLimit k (concat (map execution_batches es)) w"
  by (rule run_executions_batches)


definition sample_rj :: "WorkflowQueue \<Rightarrow> (unit, mem_db, unit) batch_run" where
  "sample_rj task k jobs c b w =
    RunJobs (sample_env\<lparr>env_ack := (\<lambda>j db. updateWorkflowTask mem_store 7 task db)\<rparr>) (\<lambda>_. sample_obs)
      (\<lambda>js c b v. (js, v)) jobs c b w"

definition failing_rj :: "WorkflowQueue \<Rightarrow> (unit, mem_db, unit) batch_run" where
  "failing_rj task k jobs c b w =
    RunJobs (panicking_env\<lparr>env_ack := (\<lambda>j db. updateWorkflowTask mem_store 7 task db)\<rparr>) (\<lambda>_. sample_obs)
      (\<lambda>js c b v. (js, v)) jobs c b w"

definition sample_executions :: "unit StepExecution list" where
  "sample_executions = [\<lparr>se_Name = ''web'', se_Mode = WorkflowModeStepByStep,
     se_Jobs = bucket_extend JobPriorityNormal [queued_job] newJobBuckets\<rparr>]"

lemma sample_runs:
  "map_prod id fst (run_executions (sample_rj sample_task) ''demo'' 1 0 sample_executions (sample_world [])) = (None, 1)"
  "map_prod id fst (run_executions (failing_rj sample_task) ''demo'' 1 0 sample_executions (sample_world [])) =
     (Some ''workflow demo failed at job web (status=failed)'', 1)"
  by code_simp+


text \<open>
  When the loops return an error, a job of the last batch that ran did not succeed, the
  error names that job, and no later batch was started.
\<close>

theorem run_failure:
  assumes "run_executions rj workflowName seqLimit 0 es w = (Some err, k, w')"
    and "bs = concat (map execution_batches es)"
  shows "0 < k \<and> k \<le> length bs \<and>
    (\<exists>v jobs' t. rj (k - 1) (snd (bs ! (k - 1)))
        (determineStepConcurrency (fst (bs ! (k - 1))) (int (length (snd (bs ! (k - 1))))) seqLimit)
        (\<not> IsParallel (fst (bs ! (k - 1)))) v = (jobs', w') \<and>
      t \<in> set jobs' \<and> \<not> isJobSuccessStatus (jt_Status t) \<and> err = job_failure workflowName t)"
  using run_batches_failure [OF assms(1) [unfolded run_executions_batches]] assms(2) by simp

theorem run_failure_witness:
  "\<exists>v jobs' w' t. failing_rj sample_task 0 [queued_job] 1 True v = (jobs', w') \<and> t \<in> set jobs' \<and>
     \<not> isJobSuccessStatus (jt_Status t) \<and>
     ''workflow demo failed at job web (status=failed)'' = job_failure ''demo'' t"
proof -
  obtain w' where r: "run_executions (failing_rj sample_task) ''demo'' 1 0 sample_executions (sample_world [])
      = (Some ''workflow demo failed at job web (status=failed)'', 1, w')"
    using sample_runs(2) by (cases "run_executions (failing_rj sample_task) ''demo'' 1 0 sample_executions (sample_world [])") auto
  have b: "concat (map execution_batches sample_executions) = [(WorkflowModeStepByStep, [queued_job])]"
    by (simp add: sample_executions_def execution_batches_def bucket_extend_def newJobBuckets_def
        bucket_get_def JobPriority_defs)
  have c: "determineStepConcurrency WorkflowModeStepByStep 1 1 = 1"
    by (simp add: determineStepConcurrency_def IsParallel_def)
  from run_failure [OF r b [symmetric]] c show ?thesis by (auto simp: IsParallel_def)
qed

text \<open>
  C29. A workflow run that returns no error leaves its task completed in the table, over every
  GORM library that behaves as documented and whose updates succeed, if the jobs do not delete
  the task.
\<close>

theorem run_completes_task:
  assumes "gorm_query WorkflowQueue_Entity cl rows wq_merge wq_col wq_set_cols"
    and "WorkflowCtl_Run (Driver WorkflowQueue_Entity cl) wfs cs T rj clock timeout conc task w =
           (Return None, task', w')"
    and "\<And>now db e. wq_TaskID e = wq_TaskID task \<Longrightarrow>
           fst (ds_Put (Driver WorkflowQueue_Entity cl) now db e) = None"
    and "rows (rw_env w) (wq_TaskID task) \<noteq> None"
    and "\<And>k jobs c b v jobs' v'.
       rj (task\<lparr>wq_Status := StatusRunning, wq_CreateTime := clock 0\<rparr>) k jobs c b v = (jobs', v') \<Longrightarrow>
       rows (rw_env v) (wq_TaskID task) \<noteq> None \<Longrightarrow> rows (rw_env v') (wq_TaskID task) \<noteq> None"
  shows "\<exists>r. rows (rw_env w') (wq_TaskID task) = Some r \<and> wq_Status r = StatusCompleted"
  by (rule task_store.Run_completes [OF Driver_task_store [OF assms(1)] assms(2-5)])

abbreviation sample_run ::
  "(WorkflowQueue \<Rightarrow> (unit, mem_db, unit) batch_run) \<Rightarrow> string option outcome \<times> WorkflowQueue \<times> (mem_db, unit) run_world" where
  "sample_run rj \<equiv> WorkflowCtl_Run mem_store (const_store sample_workflow) (const_store sample_component)
     no_traits rj (\<lambda>_. 7) 60 1 sample_task (sample_world [sample_task])"

abbreviation running_sample :: WorkflowQueue where
  "running_sample \<equiv> sample_task\<lparr>wq_Status := StatusRunning, wq_CreateTime := 7\<rparr>"

lemma mem_put_succeeds: "wq_TaskID e = wq_TaskID sample_task \<Longrightarrow> fst (ds_Put mem_store now db e) = None"
  by (simp add: Driver_def Driver_Put_def mem_client_def sample_task_def)

lemma sample_ack_running:
  assumes "mem_rows db (wq_TaskID sample_task) = Some r"
  shows "\<exists>r'. mem_rows (updateWorkflowTask mem_store 7 running_sample db) (wq_TaskID sample_task) = Some r' \<and>
    wq_Status r' = StatusRunning"
  using mem.ack_status [of 7 db running_sample r] mem_put_succeeds [of running_sample 7 db] assms
  by (simp add: isWorkflowTerminal_def Status_table_def)

lemma sample_env_keeps:
  assumes "\<And>db r. Q db \<Longrightarrow> mem_rows db (wq_TaskID sample_task) \<noteq> None"
    and "\<And>db r'. mem_rows db (wq_TaskID sample_task) = Some r' \<Longrightarrow> wq_Status r' = StatusRunning \<Longrightarrow> Q db"
  shows "env_keeps Q (sample_env\<lparr>env_ack := (\<lambda>j db. updateWorkflowTask mem_store 7 running_sample db)\<rparr>)"
    and "env_keeps Q (panicking_env\<lparr>env_ack := (\<lambda>j db. updateWorkflowTask mem_store 7 running_sample db)\<rparr>)"
proof -
  have "Q db \<Longrightarrow> Q (updateWorkflowTask mem_store 7 running_sample db)" for db
    using assms(1) [of db] sample_ack_running [of db] assms(2) by blast
  then show "env_keeps Q (sample_env\<lparr>env_ack := (\<lambda>j db. updateWorkflowTask mem_store 7 running_sample db)\<rparr>)"
    and "env_keeps Q (panicking_env\<lparr>env_ack := (\<lambda>j db. updateWorkflowTask mem_store 7 running_sample db)\<rparr>)"
    by (simp_all add: env_keeps_def sample_env_def panicking_env_def idle_ctl_def)
qed

lemma sample_run_results:
  "fst (sample_run sample_rj) = Return None"
  "fst (sample_run failing_rj) = Return (Some ''workflow demo failed at job web (status=failed)'')"
  by code_simp+

theorem run_completes_task_witness:
  "\<exists>r. mem_rows (rw_env (snd (snd (sample_run sample_rj)))) ''t1'' = Some r \<and> wq_Status r = StatusCompleted"
proof -
  obtain t' w' where r: "sample_run sample_rj = (Return None, t', w')"
    using sample_run_results(1) by (metis prod.collapse)
  have "\<exists>r. mem_rows (rw_env w') (wq_TaskID sample_task) = Some r \<and> wq_Status r = StatusCompleted"
  proof (rule run_completes_task [OF memt.lt.gorm_query_axioms r mem_put_succeeds])
    show "mem_rows (rw_env (sample_world [sample_task])) (wq_TaskID sample_task) \<noteq> None"
      by (simp add: sample_world_def mem_rows_def)
  next
    fix k jobs c b v jobs' v'
    assume "sample_rj running_sample k jobs c b v = (jobs', v')"
      and "mem_rows (rw_env v) (wq_TaskID sample_task) \<noteq> None"
    with RunJobs_env [OF sample_env_keeps(1) [of "\<lambda>db. mem_rows db (wq_TaskID sample_task) \<noteq> None"], of v
        "\<lambda>js c b v. (js, v)" "\<lambda>_. sample_obs" jobs c b]
    show "mem_rows (rw_env v') (wq_TaskID sample_task) \<noteq> None" by (simp add: sample_rj_def)
  qed
  then show ?thesis by (simp add: r) (simp add: sample_task_def)
qed



section \<open>Locks and shared resources\<close>





text \<open>
  \<open>Lock\<close> of the memory locker returns: with a non-negative retry count it needs no more
  turns of its loop than retries and one.
\<close>

theorem memory_lock_terminates:
  assumes "0 \<le> RetryCount (mm_options m)" and "RetryCount (mm_options m) < int (length obs)"
  shows "\<exists>r. MemoryMutex_Lock obs counter m e = Some r"
  using lock_loop_terminates [OF assms(1), of 0 obs counter e] assms by (simp add: MemoryMutex_Lock_def)

theorem memory_lock_terminates_witness:
  "\<exists>r. MemoryMutex_Lock
     (replicate 3 \<lparr>ob_done = False, ob_now = 5, ob_others = (\<lambda>x. x), ob_waitDone = False\<rparr>) 1
     \<lparr>mm_key = ''k'', mm_options = ApplyOptions [WithRetryCount 2], mm_ownerID = ''''\<rparr>
     \<lparr>le_held = True, le_owner = ''o'', le_expiresAt = None\<rparr> = Some r"
  by (rule memory_lock_terminates) (simp_all add: ApplyOptions_def WithRetryCount_def)





text \<open>
  The cleanup tracker lists a resource with the role of its first mention: it is to be
  deleted after a failure exactly when that mention said the job created it.
\<close>

theorem cleanup_first_mention:
  "r \<in> set (fold (\<lambda>ref t. tracker_add t ref) refs []) \<longleftrightarrow>
   find (\<lambda>x. rr_key x = rr_key r) refs = Some r"
  by (rule tracker_first_mention)

section \<open>Cancellation\<close>

text \<open>
  C33. Cancelling a watched task through Redis: once \<open>Cancel\<close> succeeded, the next tick of the
  watcher that can read the key ends the job's context and records the reason, and a later
  \<open>Stop\<close> of the watcher leaves the marker in place.
\<close>

theorem cancel_reaches_watcher:
  assumes "redis_kv rd kv" and "cw_key cw = cancelKeyPrefix @ taskID" and "cw_redis cw"
    and "CancelWithClient (Some rd) taskID reason w rs = (None, w1, rs1)"
    and "cancelMarker reason \<noteq> cw_token cw"
    and "CancelWatcher_step (Some rd) cw w1 rs1 = (w2, rs2)"
    and "\<forall>e. rd_Get rd rs1 (cw_key cw) \<noteq> RedisErr e"
    and "CancelWatcher_Stop (Some rd) cw w1 rs1 = (w3, rs3)"
  shows "ctx_cancelled w2 (cw_id cw) \<and>
    state_reason w2 (cw_id cw) = (if TrimSpace reason = '''' then ''cancelled'' else TrimSpace reason) \<and>
    kv rs3 (cancelKeyPrefix @ taskID) = Some (cancelMarker reason)"
proof -
  from assms(4) have "kv rs1 = (kv rs)(cancelKeyPrefix @ taskID \<mapsto> cancelMarker reason)"
    using redis_kv.Set_ok [OF assms(1)] by (auto simp: CancelWithClient_def split: prod.splits)
  then have k: "kv rs1 (cw_key cw) = Some (cancelMarker reason)" by (simp add: assms(2))
  from redis_kv.step_cancelled [OF assms(1) k assms(5,6,7)]
    redis_kv.Stop_keeps_marker [OF assms(1) k assms(5,3,8)] k
  show ?thesis by (simp add: extract_cancelMarker assms(2))
qed

definition sample_watcher :: CancelWatcher where
  "sample_watcher = \<lparr>cw_id = 0, cw_redis = True, cw_key = cancelKeyPrefix @ ''t1'', cw_token = ''tok'',
     cw_taskID = ''t1'', cw_hasCancelFn = True\<rparr>"

theorem cancel_reaches_watcher_witness:
  "\<exists>(w :: cancel_world) rs. ctx_cancelled w 0 \<and> state_reason w 0 = ''stop'' \<and>
     rs (cancelKeyPrefix @ ''t1'') = Some (cancelMarker ''stop'')"
proof -
  let ?rs = "[cancelKeyPrefix @ ''t1'' \<mapsto> cancelMarker ''stop'']"
  obtain w2 rs2 where s: "CancelWatcher_step (Some Kube_Cancel.mem_redis) sample_watcher cancel_init ?rs = (w2, rs2)"
    by fastforce
  obtain w3 rs3 where t: "CancelWatcher_Stop (Some Kube_Cancel.mem_redis) sample_watcher cancel_init ?rs = (w3, rs3)"
    by fastforce
  have c: "CancelWithClient (Some Kube_Cancel.mem_redis) ''t1'' ''stop'' cancel_init Map.empty = (None, cancel_init, ?rs)"
    by (simp add: CancelWithClient_def Kube_Cancel.mem_redis_def)
  have m: "cancelMarker ''stop'' \<noteq> cw_token sample_watcher" "TrimSpace ''stop'' = ''stop''" by code_simp+
  from cancel_reaches_watcher [OF memr.redis_kv_axioms _ _ c m(1) s _ t]
  show ?thesis
    by (auto simp: sample_watcher_def m Kube_Cancel.mem_redis_def)
qed

text \<open>
  Without Redis, \<open>Cancel\<close> reaches exactly the registered watchers of the task: their
  contexts end with the reason, the context of no other watcher changes.
\<close>

theorem local_cancel_exact:
  assumes "CancelWithClient None taskID reason w rs = (err, w', rs')"
  shows "err = None \<and>
    (\<forall>i. ctx_cancelled w' i \<longleftrightarrow>
       i \<in> set (case watchers w taskID of None \<Rightarrow> [] | Some ls \<Rightarrow> ls) \<or> ctx_cancelled w i) \<and>
    (\<forall>i \<in> set (case watchers w taskID of None \<Rightarrow> [] | Some ls \<Rightarrow> ls).
       state_reason w' i = (if TrimSpace reason = '''' then ''cancelled'' else TrimSpace reason)) \<and>
    watchers w' taskID = None"
  using assms by (auto simp: CancelWithClient_def extract_cancelMarker)

theorem local_cancel_exact_witness:
  "\<exists>w' :: cancel_world. ctx_cancelled w' 0 \<and> \<not> ctx_cancelled w' 1 \<and> watchers w' ''t1'' = None"
proof -
  let ?w = "cancel_init\<lparr>watchers := [''t1'' \<mapsto> [0], ''t2'' \<mapsto> [1]]\<rparr>"
  obtain err w' rs' where c: "CancelWithClient None ''t1'' ''stop'' ?w () = (err, w', rs')"
    by (metis prod_cases3)
  from local_cancel_exact [OF c] show ?thesis by (auto simp: cancel_init_def)
qed

section \<open>Dispatching\<close>

text \<open>
  Every message a worker reads is acknowledged, once and in order, whatever its payload is
  and whatever happens to its task: a message is never delivered again for a failed task.
\<close>

theorem messages_acknowledged: "fst (process_messages store cfg now ms db) = map msg_ID ms"
  by (rule process_messages_acks)

text \<open>
  A dispatch message carries its task over the queue unchanged.
\<close>

theorem dispatch_roundtrip: "UnmarshalTaskDispatch (Some (MarshalTaskDispatch t)) = Some t"
  by (rule Unmarshal_Marshal)

text \<open>
  The waiting tasks a scan returns are exactly the waiting rows, once each and oldest first.
\<close>

theorem waiting_scan_exact:
  assumes "gorm_query WorkflowQueue_Entity cl rows wq_merge wq_col wq_set_cols"
    and "WaitingTasks (Driver WorkflowQueue_Entity cl) db = Inr ts"
  shows "set ts = {r. (\<exists>k. rows db k = Some r) \<and> Status_string (wq_Status r) = ''waiting''} \<and>
    distinct (map wq_TaskID ts) \<and> sorted (map wq_CreateTime ts)"
  using task_store.WaitingTasks_exact [OF Driver_task_store [OF assms(1)] assms(2)] by blast

lemma sample_waiting:
  "WaitingTasks mem_store [sample_task\<lparr>wq_CreateTime := 5\<rparr>, sample_task\<lparr>wq_TaskID := ''t0'', wq_CreateTime := 3\<rparr>]
     = Inr [sample_task\<lparr>wq_TaskID := ''t0'', wq_CreateTime := 3\<rparr>, sample_task\<lparr>wq_CreateTime := 5\<rparr>]"
  by code_simp

theorem waiting_scan_exact_witness:
  "sorted (map wq_CreateTime [sample_task\<lparr>wq_TaskID := ''t0'', wq_CreateTime := 3\<rparr>,
     sample_task\<lparr>wq_CreateTime := 5\<rparr>])"
  using waiting_scan_exact [OF memt.lt.gorm_query_axioms sample_waiting] by blast

text \<open>
  At start-up every task in a status the program counts as in progress (waiting and queued
  ones and those without a status included) is waiting again, and every other task is left as
  it is, if the updates succeed.
\<close>

theorem startup_requeues:
  assumes "gorm_query WorkflowQueue_Entity cl rows wq_merge wq_col wq_set_cols"
    and "\<And>now db e. wq_TaskID e \<noteq> '''' \<Longrightarrow> fst (ds_Put (Driver WorkflowQueue_Entity cl) now db e) = None"
    and "TaskRunning (Driver WorkflowQueue_Entity cl) db = Inr ts"
    and "rows db k = Some r" and "rows db '''' = None"
  shows "if Status_string (wq_Status r) \<in> Status_string ` set running_statuses
    then \<exists>r'. rows (InitQueue (Driver WorkflowQueue_Entity cl) now db) k = Some r' \<and>
           wq_Status r' = StatusWaiting
    else rows (InitQueue (Driver WorkflowQueue_Entity cl) now db) k = Some r"
  using task_store.InitQueue_requeues [OF Driver_task_store [OF assms(1)] assms(2-5)] by auto

lemma sample_running:
  "TaskRunning mem_store [sample_task\<lparr>wq_Status := StatusRunning\<rparr>] = Inr [sample_task\<lparr>wq_Status := StatusRunning\<rparr>]"
  by code_simp

theorem startup_requeues_witness:
  "\<exists>r'. mem_rows (InitQueue mem_store 9 [sample_task\<lparr>wq_Status := StatusRunning\<rparr>]) ''t1'' = Some r' \<and>
     wq_Status r' = StatusWaiting"
proof -
  let ?db = "[sample_task\<lparr>wq_Status := StatusRunning\<rparr>]"
  have p: "wq_TaskID e \<noteq> '''' \<Longrightarrow> fst (ds_Put mem_store now db e) = None" for now db e
    by (simp add: Driver_def Driver_Put_def mem_client_def)
  have r: "mem_rows ?db ''t1'' = Some (sample_task\<lparr>wq_Status := StatusRunning\<rparr>)" "mem_rows ?db '''' = None"
    by (simp_all add: mem_rows_def sample_task_def)
  have "Status_string StatusRunning \<in> Status_string ` set running_statuses"
    by (simp add: running_statuses_def)
  with startup_requeues [OF memt.lt.gorm_query_axioms p sample_running r, of 9] show ?thesis
    by (simp split: if_splits)
qed

text \<open>
  The worker's delay between failing reads stays between its two limits, so doubling it
  never leaves the range of a duration; with no limit on the failures, whatever reads and
  claims fail, the worker stops only when its context ends.
\<close>

theorem worker_resilient:
  assumes "workerBackoffMin cfg \<le> workerBackoffMax cfg"
    and "workerMaxReadFailures cfg \<le> 0" and "workerMaxClaimFailures cfg \<le> 0"
  shows "(worker_run cfg evs (worker_init cfg) = None \<longleftrightarrow> (\<exists>ev\<in>set evs. ends_context ev)) \<and>
    (\<forall>s'. worker_run cfg evs (worker_init cfg) = Some s' \<longrightarrow>
       workerBackoffMin cfg \<le> ws_delay s' \<and> ws_delay s' \<le> workerBackoffMax cfg)"
  using worker_run_resilient [OF assms(2,3)] worker_run_delay [of cfg evs "worker_init cfg"] assms(1)
  by (auto simp: worker_init_def)

definition default_runtime :: WorkflowRuntimeConfig where
  "default_runtime = \<lparr>wr_SequentialMaxConcurrency = 1, wr_LocalPollInterval = 3 * Second,
     wr_DispatchPollInterval = 3 * Second, wr_WorkerStaleInterval = 15 * Second,
     wr_WorkerAutoClaimMinIdle = 60 * Second, wr_WorkerAutoClaimCount = 50, wr_WorkerReadCount = 10,
     wr_WorkerReadBlock = 2 * Second, wr_DefaultJobTimeout = 60 * Second,
     wr_MaxConcurrentWorkflows = DefaultMaxConcurrentWorkflows, wr_WorkerMaxReadFailures = 0,
     wr_WorkerMaxClaimFailures = 0, wr_WorkerBackoffMin = 200 * Millisecond,
     wr_WorkerBackoffMax = 5 * Minute\<rparr>"

theorem worker_resilient_witness:
  "worker_run (Some default_runtime) (replicate 100 (ReadFailed False)) (worker_init (Some default_runtime)) \<noteq> None"
proof -
  have "workerBackoffMin (Some default_runtime) \<le> workerBackoffMax (Some default_runtime)"
    "workerMaxReadFailures (Some default_runtime) \<le> 0" "workerMaxClaimFailures (Some default_runtime) \<le> 0"
    by (simp_all add: workerBackoffMin_def workerBackoffMax_def workerMaxReadFailures_def
        workerMaxClaimFailures_def positive_or_def default_runtime_def duration_defs)
  from worker_resilient [OF this, of "replicate 100 (ReadFailed False)"] show ?thesis by auto
qed

text \<open>
  With a limit on failing reads the worker gives up at exactly that many in a row.
\<close>

theorem worker_limit:
  assumes "0 < workerMaxReadFailures cfg"
  shows "worker_run cfg (replicate n (ReadFailed False)) (worker_init cfg) = None \<longleftrightarrow>
    workerMaxReadFailures cfg \<le> int n"
proof -
  have z: "ws_readFailures (worker_init cfg) = 0" by (simp add: worker_init_def)
  let ?N = "nat (workerMaxReadFailures cfg)"
  show ?thesis
  proof (cases "n < ?N")
    case True
    with worker_gives_up(2) [OF assms z True] show ?thesis by auto
  next
    case False
    then have "replicate n (ReadFailed False) = replicate ?N (ReadFailed False) @ replicate (n - ?N) (ReadFailed False)"
      by (simp flip: replicate_add)
    with worker_gives_up(1) [OF assms z] False show ?thesis by (auto simp: worker_run_append)
  qed
qed

theorem worker_limit_witness:
  "worker_run None (replicate 10 (ReadFailed False)) (worker_init None) = None"
  using worker_limit [of None 10]
  by (simp add: workerMaxReadFailures_def DefaultWorkerMaxReadFailures_def)



section \<open>Names and stored documents\<close>

text \<open>
  C38. Every derived resource name is a DNS-1123 label of at most 63 bytes, whatever the
  component name and the application identifier are.
\<close>

theorem resource_names_valid:
  "is_dns1123_label (buildResourceName prefx componentName appID) \<and>
   length (buildResourceName prefx componentName appID) \<le> 63"
  by (simp add: buildResourceName_clean clean_name_label buildResourceName_length)

text \<open>
  \<open>ToRFC1123Name\<close> is idempotent: a name it produced is not changed by it.
\<close>

theorem rfc1123_idempotent: "ToRFC1123Name (ToRFC1123Name s) = ToRFC1123Name s"
  by (rule ToRFC1123Name_id [OF ToRFC1123Name_clean])

text \<open>
  Workflow steps survive storage: decoding the stored document gives the steps back.
\<close>

theorem steps_roundtrip:
  assumes "\<forall>s\<in>set ss. wf_step s"
  shows "decode_steps (encode_steps ss) = Some (map Some ss)"
  by (rule decode_encode_steps [OF assms])

theorem steps_roundtrip_witness: "decode_steps (encode_steps [sample_step]) = Some [Some sample_step]"
  using steps_roundtrip [of "[sample_step]"] wf_sample_step by simp

text \<open>
  A failing \<open>BatchAdd\<close> of entities with distinct keys leaves no row behind, over every
  library whose reads and deletions of existing rows succeed.
\<close>

theorem batch_add_atomic:
  assumes "gorm_healthy E cl rows merged col set_cols"
    and "Driver_BatchAdd E cl now db es = (Some err, db')" and "distinct (map (PrimaryKey E) es)"
  shows "rows db' = rows db"
  by (rule gorm_healthy.BatchAdd_atomic [OF assms])

theorem batch_add_atomic_witness:
  "mem_rows (snd (Driver_BatchAdd WorkflowQueue_Entity mem_client 5 [sample_task]
     [sample_task\<lparr>wq_TaskID := ''t2''\<rparr>, sample_task])) = mem_rows [sample_task]"
proof -
  have "fst (Driver_BatchAdd WorkflowQueue_Entity mem_client 5 [sample_task]
      [sample_task\<lparr>wq_TaskID := ''t2''\<rparr>, sample_task]) = Some (DBErrorBatch ErrRecordExist)" by code_simp
  then obtain db' where "Driver_BatchAdd WorkflowQueue_Entity mem_client 5 [sample_task]
      [sample_task\<lparr>wq_TaskID := ''t2''\<rparr>, sample_task] = (Some (DBErrorBatch ErrRecordExist), db')"
    by (metis prod.collapse)
  from batch_add_atomic [OF memt.lh.gorm_healthy_axioms this] this show ?thesis
    by (simp add: sample_task_def)
qed


section \<open>The workflow service\<close>

text \<open>
  C39. The status report of a task. No two entries name one component, up to case. An entry
  whose component has job records carries a status of one of them that is at least as severe as
  every other, and their latest end time; an entry without records carries the default of the
  task's own status. Every job record and every component the workflow declares has its entry,
  and there are no others.
\<close>

theorem task_status_report:
  assumes "GetTaskStatus store wfStore jobStore db taskID = Return (Inr resp)"
    and "TaskByID store db (TrimSpace taskID) = Inr task"
    and "ds_List jobStore db (Some (JobInfo_zero\<lparr>ji_TaskID := TrimSpace taskID\<rparr>))
           (Some (noListOptions\<lparr>lo_SortBy := [(''updatetime'', SortOrderAscending),
                                               (''createtime'', SortOrderAscending)]\<rparr>)) = Inr jobs"
    and "WorkflowByID wfStore db (wq_WorkflowID task) = Inr workflow"
    and "collectWorkflowComponentNames workflow = Return names"
  shows "distinct (map (\<lambda>c. ToLower (ct_Name c)) (tr_Components resp)) \<and>
    (\<forall>c \<in> set (tr_Components resp).
       let js = filter (\<lambda>j. ToLower (ji_ServiceName j) = ToLower (ct_Name c)) jobs in
       if js = [] then ct_Status c = defaultComponentStatus (wq_Status task)
       else ct_Status c \<in> ji_Status ` set js \<and>
         agg_priority (ct_Status c) = Max (agg_priority ` ji_Status ` set js) \<and>
         ct_EndTime c = Max (ji_EndTime ` set js)) \<and>
    (\<lambda>c. ToLower (ct_Name c)) ` set (tr_Components resp) =
      ToLower ` (ji_ServiceName ` set jobs \<union> set names)"
proof -
  define as where "as = fold (fill_missing (defaultComponentStatus (wq_Status task))) names (fold agg_job jobs [])"
  have resp: "tr_Components resp = map snd as"
    using assms by (auto simp: GetTaskStatus_def Let_def as_def split: if_splits)
  have k: "keyed as" by (simp add: as_def keyed_filled keyed_jobs)
  show ?thesis
    using keyed_distinct [OF k] report_status [OF k as_def] report_names [OF k as_def]
    by (simp add: resp comp_def Let_def image_image)
qed

definition report_jobs :: "JobInfo list" where
  "report_jobs = [JobInfo_zero\<lparr>ji_ServiceName := ''Web'', ji_Status := ''completed'', ji_EndTime := 7\<rparr>,
     JobInfo_zero\<lparr>ji_ServiceName := ''web'', ji_Status := ''failed'', ji_EndTime := 5\<rparr>]"

definition report_job_store :: "(mem_db, JobInfo) DataStore" where
  "report_job_store = (const_store JobInfo_zero)\<lparr>ds_List := (\<lambda>db e opt. Inr report_jobs)\<rparr>"

lemma sample_names: "collectWorkflowComponentNames sample_workflow = Return [''web'']"
  by code_simp

lemma sample_report:
  "GetTaskStatus mem_store (const_store sample_workflow) report_job_store [sample_task] '' t1'' =
    Return (Inr \<lparr>tr_TaskID = ''t1'', tr_Status = ''waiting'', tr_WorkflowID = ''w1'',
      tr_WorkflowName = ''demo'', tr_AppID = ''a1'', tr_Type = [],
      tr_Components = [\<lparr>ct_Name = ''Web'', ct_Type = [], ct_Status = ''failed'', ct_Error = [],
        ct_StartTime = 0, ct_EndTime = 7\<rparr>]\<rparr>)"
  "TaskByID mem_store [sample_task] (TrimSpace '' t1'') = Inr sample_task"
  by code_simp+

theorem task_status_report_witness:
  "let js = filter (\<lambda>j. ToLower (ji_ServiceName j) = ToLower ''Web'') report_jobs in
   js \<noteq> [] \<and> agg_priority ''failed'' = Max (agg_priority ` ji_Status ` set js)"
proof -
  have js: "filter (\<lambda>j. ToLower (ji_ServiceName j) = ToLower ''Web'') report_jobs \<noteq> []"
    by code_simp
  have l: "ds_List report_job_store [sample_task] x y = Inr report_jobs" for x y
    by (simp add: report_job_store_def)
  have w: "WorkflowByID (const_store sample_workflow) [sample_task] i = Inr sample_workflow" for i
    by (simp add: WorkflowByID_def const_store_def)
  from task_status_report [OF sample_report l w sample_names] js show ?thesis
    unfolding Let_def by simp
qed

text \<open>
  A cancellation through the application's route. When it succeeds, the task belongs to
  that application, its row says cancelled, and the marker with the reason is in Redis, where
  every watcher of the task finds it. When it reports a foreign application, no row has
  changed. In every case the rows of the other tasks are as they were.
\<close>

theorem cancel_for_app:
  assumes "gorm_query WorkflowQueue_Entity cl rows wq_merge wq_col wq_set_cols" and "redis_kv rd kv"
    and "CancelWorkflowTaskForApp (Driver WorkflowQueue_Entity cl) (Some rd) now appID user taskID reason
           (db, w, rs) = (err, db', w', rs')"
  shows "(err = None \<longrightarrow>
      (\<exists>r r'. rows db taskID = Some r \<and> wq_AppID r = appID \<and> appID \<noteq> '''' \<and>
        rows db' taskID = Some r' \<and> wq_Status r' = StatusCancelled \<and> wq_AppID r' = appID) \<and>
      kv rs' (cancelKeyPrefix @ taskID) =
        Some (cancelMarker (if reason = '''' then ''cancelled by '' @ user else reason))) \<and>
    (err = Some ErrWorkflowNotExist \<longrightarrow> rows db' = rows db \<and> kv rs' = kv rs) \<and>
    (\<forall>k. k \<noteq> taskID \<longrightarrow> rows db' k = rows db k)"
  using task_store.cancel_for_app_rows [OF Driver_task_store [OF assms(1)] assms(2,3)] .

theorem cancel_for_app_witness:
  "\<exists>db' w' rs'. CancelWorkflowTaskForApp mem_store (Some Kube_Cancel.mem_redis) 9 ''a1'' ''bob'' ''t1'' ''''
       ([sample_task], cancel_init, Map.empty) = (None, db', w', rs') \<and>
     rs' (cancelKeyPrefix @ ''t1'') = Some (cancelMarker ''cancelled by bob'')"
proof -
  obtain err db' w' rs' where c: "CancelWorkflowTaskForApp mem_store (Some Kube_Cancel.mem_redis) 9 ''a1'' ''bob'' ''t1'' ''''
       ([sample_task], cancel_init, Map.empty) = (err, db', w', rs')"
    by (metis prod_cases4)
  have t: "TaskByID mem_store [sample_task] ''t1'' = Inr sample_task"
    "fst (UpdateTask mem_store 9 [sample_task]
       (sample_task\<lparr>wq_TaskRevoker := ''bob'', wq_Status := StatusCancelled\<rparr>)) = None"
    "wq_AppID sample_task = ''a1''"
    by code_simp+
  with c have "err = None"
    by (auto simp: CancelWorkflowTaskForApp_def cancelWorkflowTask_def Let_def CancelWithClient_def
        Kube_Cancel.mem_redis_def split: prod.splits option.splits)
  with cancel_for_app [OF memt.lt.gorm_query_axioms memr.redis_kv_axioms c] c show ?thesis by auto
qed

section \<open>From a request to the cluster\<close>














text \<open>
  The rules of an ingress. The processor turns routes into a table with one rule for each
  host that some route names, or the spec for those without one; the paths of a host are those of
  the routes that name it, in order and as often as they name it, each with the path type that
  the rewrite annotations set by the routes up to it ask for; the annotations are those of the
  spec with every rewrite applied.
\<close>

theorem ingress_rules:
  assumes "co_Spec (buildIngressFromSpec s :: 'q trait_object) = TraitSpec (IngressSpec io)"
  shows "distinct (map fst (io_Rules io)) \<and>
    fst ` set (io_Rules io) = (\<Union>r\<in>set (ing_Routes s). set (deriveHosts s r)) \<and>
    lookup_list (io_Rules io) h = host_paths s (ing_Routes s) (ing_Annotations s) h \<and>
    io_Annotations io = annotations_after (ing_Annotations s) (ing_Routes s)"
  using buildIngress_rules [OF assms] by blast

definition two_routes :: IngressTraitsSpec where
  "two_routes = \<lparr>ing_Name = ''web'', ing_Namespace = ''shop'', ing_Hosts = [''a.io''], ing_Label = [],
     ing_Annotations = [], ing_IngressClassName = '''', ing_DefaultPathType = '''', ing_TLS = [],
     ing_Routes =
       [\<lparr>ig_Path = ''/'', ig_PathType = '''', ig_Host = '''', ig_Backend = \<lparr>ir_ServiceName = ''web'', ir_ServicePort = 80,
           ir_Weight = 0, ir_Headers = []\<rparr>, ig_Rewrite = None\<rparr>,
        \<lparr>ig_Path = ''/api'', ig_PathType = '''', ig_Host = ''b.io'', ig_Backend = \<lparr>ir_ServiceName = ''api'', ir_ServicePort = 81,
           ir_Weight = 0, ir_Headers = []\<rparr>, ig_Rewrite = None\<rparr>]\<rparr>"

theorem ingress_rules_witness:
  "\<exists>io. co_Spec (buildIngressFromSpec two_routes :: string trait_object) = TraitSpec (IngressSpec io) \<and>
     fst ` set (io_Rules io) = {''a.io'', ''b.io''}"
proof -
  obtain io where io: "co_Spec (buildIngressFromSpec two_routes :: string trait_object) = TraitSpec (IngressSpec io)"
    by (simp add: buildIngressFromSpec_def Let_def split_def)
  have "(\<Union>r\<in>set (ing_Routes two_routes). set (deriveHosts two_routes r)) = {''a.io'', ''b.io''}"
    by code_simp
  with ingress_rules [OF io] io show ?thesis by auto
qed

section \<open>Applications, templates and versions\<close>

text \<open>
  C3. Creating an application and running it. Over a datastore that keeps its promises, and for a
  request whose step types are canonical, a successful creation leaves a workflow whose task runs
  what was asked for: the templates of the request resolve to components, those are prepared and
  are, up to the columns the database sets, the components listed for the application; generating
  the executions of a task for the new workflow succeeds, and its jobs are those of the listed
  components, once for every reference of the request. With distinct names, every reference
  finds the prepared component of its name.
\<close>

theorem created_application_runs:
  assumes "application_store st comps wrows"
    and "CreateApplications st tx now appID wfID req db = (Inr (app, w), db')" "ap_ID app \<noteq> ''''"
    and "list_all request_canonical (ar_WorkflowSteps req)"
    and "wq_AppID task = ap_ID app" "wq_WorkflowID task = w"
    and "ds_Get (as_Workflow st) db' (Workflow_zero\<lparr>wf_ID := w\<rparr>) = Inr wfl"
    and "FindComponentsByAppID st db' (ap_ID app) = Inr cs"
  shows "\<exists>resolved components es.
    resolveComponents st db (ap_Namespace app) (ap_Name app) (ar_Component req) = Inr resolved \<and>
    prepareComponents (ap_ID app) (ap_Namespace app) resolved = Inr components \<and>
    mset (map core cs) = mset (map core components) \<and>
    GenerateJobTasks T (as_Workflow st) (as_Component st) db' task timeout = Return es \<and>
    mset (execution_jobs es) = mset (concat (map (component_jobs T (component_map_of cs) task timeout)
       (requested_refs req resolved))) \<and>
    (distinct (map ac_Name components) \<longrightarrow>
      (\<lambda>n. map_option core (component_map_of cs n)) = map_of (map (\<lambda>c. (ac_Name c, core c)) components))"
  by (rule application_store.creation_runs [OF assms, of T timeout])
    (use component_map_of_core in blast)

definition demo_request :: CreateApplicationsRequest where
  "demo_request = \<lparr>ar_ID = '''', ar_Name = ''shop'', ar_Namespace = ''default'', ar_Alias = '''', ar_Version = '''',
     ar_Project = '''', ar_Description = '''', ar_Icon = '''',
     ar_Component = [\<lparr>cr_Name = ''settings'', cr_ComponentType = ConfJob, cr_Image = '''', cr_Namespace = '''',
       cr_Replicas = 1, cr_Properties = Properties_zero, cr_Traits = no_Traits, cr_Template = None\<rparr>],
     ar_WorkflowSteps = [], ar_TmpEnable = None\<rparr>"

definition demo_app :: Applications where
  "demo_app = Applications_zero\<lparr>ap_ID := ''a1'', ap_Name := ''shop'', ap_Namespace := ''default'', ap_Version := ''1.0.0''\<rparr>"

definition demo_db :: app_tables where
  "demo_db = snd (CreateApplications mem_stores True 5 ''a1'' ''w1'' demo_request no_tables)"

abbreviation demo_task :: WorkflowQueue where
  "demo_task \<equiv> sample_task\<lparr>wq_AppID := ''a1'', wq_WorkflowID := ''w1''\<rparr>"

lemma demo_created:
  "CreateApplications mem_stores True 5 ''a1'' ''w1'' demo_request no_tables = (Inr (demo_app, ''w1''), demo_db)"
proof -
  have "fst (CreateApplications mem_stores True 5 ''a1'' ''w1'' demo_request no_tables) = Inr (demo_app, ''w1'')"
    by code_simp
  then show ?thesis by (simp add: demo_db_def prod_eq_iff)
qed

lemma demo_rows:
  "\<not> isl (ds_Get (as_Workflow mem_stores) demo_db (Workflow_zero\<lparr>wf_ID := ''w1''\<rparr>))"
  "\<not> isl (FindComponentsByAppID mem_stores demo_db ''a1'')"
  by code_simp+

lemma demo_fields: "ap_ID demo_app = ''a1''" "ar_WorkflowSteps demo_request = []"
  by (simp_all add: demo_app_def demo_request_def)

theorem created_application_runs_witness:
  "\<exists>es. GenerateJobTasks (\<lambda>c w. Inr ([], w)) (as_Workflow mem_stores) (as_Component mem_stores) demo_db demo_task 30 =
     Return es"
proof -
  obtain wfl cs where "ds_Get (as_Workflow mem_stores) demo_db (Workflow_zero\<lparr>wf_ID := ''w1''\<rparr>) = Inr wfl"
    "FindComponentsByAppID mem_stores demo_db (ap_ID demo_app) = Inr cs"
    using demo_rows unfolding not_isl_iff demo_fields(1) by blast
  from created_application_runs [OF tables.application_store_axioms demo_created _ _ _ _ this,
      of demo_task "\<lambda>c w. Inr ([], w)" 30] show ?thesis
    by (auto simp: demo_fields)
qed

text \<open>
  C6. Creation is a transaction. When the datastore has transactions, a creation that reports an
  error has left the database as it was; a successful one, over a datastore that keeps its
  promises, has replaced the components of the application by the prepared ones, up to the
  columns the database sets, has left those of every other application alone, and has stored a
  workflow of the application with the steps of the request.
\<close>

theorem creation_atomic:
  assumes "application_store st comps wrows"
    and "CreateApplications st True now appID wfID req db = (res, db')"
    and "\<And>app w. res = Inr (app, w) \<Longrightarrow> ap_ID app \<noteq> ''''"
  shows "case res of
      Inl e \<Rightarrow> db' = db
    | Inr (app, w) \<Rightarrow> (\<exists>resolved components row.
        resolveComponents st db (ap_Namespace app) (ap_Name app) (ar_Component req) = Inr resolved \<and>
        prepareComponents (ap_ID app) (ap_Namespace app) resolved = Inr components \<and>
        image_mset core (filter_mset (\<lambda>c. ac_AppID c = ap_ID app) (comps db')) = mset (map core components) \<and>
        filter_mset (\<lambda>c. ac_AppID c \<noteq> ap_ID app) (comps db') =
          filter_mset (\<lambda>c. ac_AppID c \<noteq> ap_ID app) (comps db) \<and>
        wrows db' w = Some row \<and> wf_AppID row = ap_ID app \<and>
        wf_Steps row = Some (encode_steps (workflow_body req resolved)))"
proof (cases res)
  case (Inl e)
  then show ?thesis using creation_error assms(2) by fastforce
next
  case (Inr r)
  obtain app w where r: "r = (app, w)" by fastforce
  with Inr assms(2) have c: "CreateApplications st True now appID wfID req db = (Inr (app, w), db')" by simp
  show ?thesis
    unfolding Inr r sum.case prod.case
    by (rule application_store.creation_stored [OF assms(1) c assms(3)]) (use Inr r in blast)+
qed

theorem creation_atomic_witness:
  "\<exists>row. tb_wrows demo_db ''w1'' = Some row \<and> wf_AppID row = ''a1''"
  using creation_atomic [OF tables.application_store_axioms demo_created] by (auto simp: demo_fields)

text \<open>
  A workflow name that is free. The loop that appends numbers returns, for every list of
  workflows: the name is not in use, up to case, it is the wanted one when that is free, and
  otherwise the first free one of the numbered names.
\<close>

theorem workflow_name_unique:
  assumes "base \<noteq> ''''"
  shows "\<not> name_in_use workflows (ensureUniqueWorkflowName base workflows) \<and>
    (if name_in_use workflows base
     then \<exists>k\<ge>1. ensureUniqueWorkflowName base workflows = suffixed base k \<and>
       list_all (\<lambda>i. name_in_use workflows (suffixed base i)) [1..<k]
     else ensureUniqueWorkflowName base workflows = base)"
  using ensureUnique_cases [OF assms, of workflows]
  by (auto simp: list_all_iff ensureUniqueWorkflowName_def)

theorem workflow_name_unique_witness:
  "ensureUniqueWorkflowName ''demo'' [Some (Workflow_zero\<lparr>wf_Name := ''Demo''\<rparr>)] \<noteq> ''demo''"
proof -
  have "name_in_use [Some (Workflow_zero\<lparr>wf_Name := ''Demo''\<rparr>)] ''demo''" by code_simp
  with workflow_name_unique [of "''demo''" "[Some (Workflow_zero\<lparr>wf_Name := ''Demo''\<rparr>)]"]
  show ?thesis by auto
qed

text \<open>
  Instantiating a template. Only an application marked as a template can be instantiated; a
  successful instantiation gives one request for each component of the template, in order, of its
  type, with its image and replicas, in the namespace of the new application and without a
  template of its own; when the template is shared, the clones keep the names of the template
  and carry its share strategy.
\<close>

theorem template_clones:
  assumes "cloneComponentsFromTemplate st db ns i tr = Inr clones"
  shows "\<exists>app components. ApplicationByID st db i = Inr app \<and> ap_TmpEnable app \<and>
    FindComponentsByAppID st db (ap_ID app) = Inr components \<and>
    list_all2 (\<lambda>c r. cr_ComponentType r = ac_ComponentType c \<and> cr_Image r = ac_Image c \<and>
       cr_Replicas r = ac_Replicas c \<and> cr_Namespace r = ns \<and> cr_Template r = None \<and>
       (tq_share tr \<noteq> None \<longrightarrow> cr_Name r = ac_Name c \<and> t_Share (cr_Traits r) = tq_share tr)) components clones"
  by (rule clones_from_template [OF assms]) blast

definition template_db :: app_tables where
  "template_db = no_tables\<lparr>tb_apps := [Applications_zero\<lparr>ap_ID := ''t1'', ap_Name := ''base'', ap_TmpEnable := True\<rparr>],
     tb_components := [Some (ApplicationComponent_zero\<lparr>ac_AppID := ''t1'', ac_Name := ''base-db'',
       ac_ComponentType := StoreJob, ac_Image := ''mysql'', ac_Replicas := 1\<rparr>)]\<rparr>"

theorem template_clones_witness:
  "\<exists>clones. cloneComponentsFromTemplate mem_stores template_db ''shop'' ''t1''
      \<lparr>tq_baseName = ''shop'', tq_overrides = [], tq_share = None\<rparr> = Inr clones \<and> length clones = 1"
proof -
  let ?clone = "cloneComponentsFromTemplate mem_stores template_db ''shop'' ''t1''
      \<lparr>tq_baseName = ''shop'', tq_overrides = [], tq_share = None\<rparr>"
  let ?app = "Applications_zero\<lparr>ap_ID := ''t1'', ap_Name := ''base'', ap_TmpEnable := True\<rparr>"
  let ?c = "ApplicationComponent_zero\<lparr>ac_ID := 1, ac_AppID := ''t1'', ac_Name := ''base-db'',
       ac_ComponentType := StoreJob, ac_Image := ''mysql'', ac_Replicas := 1\<rparr>"
  have db: "ApplicationByID mem_stores template_db ''t1'' = Inr ?app"
    "FindComponentsByAppID mem_stores template_db ''t1'' = Inr [?c]"
    and trim: "TrimSpace ''shop'' = ''shop''"
    by code_simp+
  have "\<not> isl ?clone"
    by (simp add: cloneComponentsFromTemplate_def db trim pickOverride_def convertComponentFromTemplate_def
        decodeJSONStruct_def ApplicationComponent_zero_def Let_def)
  then obtain clones where c: "?clone = Inr clones" unfolding not_isl_iff by (elim exE)
  from template_clones [OF c] db have "length clones = 1"
    by (elim exE conjE) (drule list_all2_lengthD, auto)
  with c show ?thesis by (intro exI [of _ clones] conjI)
qed












section \<open>Job controllers\<close>

text \<open>
  C11. What a job of one of the five RBAC kinds leaves. When its run succeeds, its object is in
  the cluster and agrees with what is desired, unless the job was skipped or the object belongs
  to someone else; an object of someone else is not changed, nor is any other object of the kind;
  and where the object agrees already, as after a first run, a run writes nothing.
\<close>

theorem rbac_run_converges:
  assumes "kube_api cli objects" "settles rk"
    and "run_and_finish ops (rbac_run rk ops (Some cli)) job env = Some (None, job', env')"
    and "rbac_desired rk job = Some obj"
  shows "(jt_Status job' = StatusSkipped \<and> ce_cluster env' = ce_cluster env \<or>
      jt_Status job' = StatusCompleted \<and> settled rk (jt_AppID job) obj (objects (ce_cluster env') (rbac_key rk obj))) \<and>
    (\<forall>key. key \<noteq> rbac_key rk obj \<longrightarrow> objects (ce_cluster env') key = objects (ce_cluster env) key) \<and>
    (\<forall>o1. objects (ce_cluster env) (rbac_key rk obj) = Some o1 \<longrightarrow> \<not> isManagedResource o1 (jt_AppID job) \<longrightarrow>
      objects (ce_cluster env') (rbac_key rk obj) = Some o1) \<and>
    (settled rk (jt_AppID job) obj (objects (ce_cluster env) (rbac_key rk obj)) \<longrightarrow>
      ce_cluster env' = ce_cluster env)"
  using kube_api.rbac_converges [OF assms(1,3,4,2)] kube_api.rbac_settled_run [OF assms(1,3,4)] by blast

definition demo_ops :: "('x, unit, string list) ctl_ops" where
  "demo_ops = \<lparr>op_Lock = (\<lambda>key s. Some (None, s)), op_Unlock = (\<lambda>key s. s),
     op_lock_error = (\<lambda>e. plain_error ''lock''), op_ack = (\<lambda>job db. db @ [Status_string (jt_Status job)])\<rparr>"

definition demo_env :: "'k \<Rightarrow> ('k, unit, string list) ctl_env" where
  "demo_env k = \<lparr>ce_cluster = k, ce_lock = (), ce_tracker = Some [], ce_db = []\<rparr>"

definition demo_job :: "string \<Rightarrow> 'x job_info \<Rightarrow> 'x JobTask" where
  "demo_job name info = \<lparr>jt_Name = name, jt_Namespace = ''default'', jt_WorkflowID = ''w1'', jt_ProjectID = '''',
     jt_AppID = ''a1'', jt_TaskID = ''t1'', jt_JobInfo = Some info, jt_JobType = '''', jt_Status = StatusWaiting,
     jt_StartTime = 0, jt_EndTime = 0, jt_Error = '''', jt_Timeout = 600, jt_RetryCount = 0\<rparr>"

definition no_objects :: "'s mem_kube" where
  "no_objects = \<lparr>mk_objects = [], mk_next = 1\<rparr>"

definition demo_role_job :: "string trait_spec JobTask" where
  "demo_role_job = demo_job ''reader'' (InfoObject \<lparr>co_Kind = KindRole, co_Name = ''reader'', co_Namespace = '''',
     co_Labels = [], co_Spec = TraitSpec (RoleSpec [\<lparr>rr_APIGroups = [''''], rr_Resources = [''pods''],
       rr_ResourceNames = [], rr_NonResourceURLs = [], rr_Verbs = [''get'']\<rparr>])\<rparr>)"

definition demo_role_run ::
  "RBACRuleSpec list mem_kube \<Rightarrow> (job_error option \<times> string trait_spec JobTask \<times> (RBACRuleSpec list mem_kube, unit, string list) ctl_env) option" where
  "demo_role_run k = run_and_finish demo_ops (rbac_run role_kind demo_ops (Some mem_kube_client)) demo_role_job (demo_env k)"

lemma demo_role_created:
  "map_option (\<lambda>(err, job, env). (err, jt_Status job, map fst (mk_objects (ce_cluster env)))) (demo_role_run no_objects) =
   Some (None, StatusCompleted, [(''default'', ''reader'')])"
  by code_simp

lemma demo_role_desired: "rbac_desired role_kind demo_role_job \<noteq> None"
  by code_simp

theorem rbac_run_converges_witness:
  "\<exists>job' env' obj. demo_role_run no_objects = Some (None, job', env') \<and>
    settled (role_kind :: (string trait_spec, RBACRuleSpec list) rbac_kind) ''a1'' obj
      (map_of (mk_objects (ce_cluster env')) (''default'', ko_Name obj))"
proof -
  from demo_role_created obtain job' env' where r: "demo_role_run no_objects = Some (None, job', env')"
    and st: "jt_Status job' = StatusCompleted"
    by (auto split: prod.splits)
  from demo_role_desired obtain obj where d: "rbac_desired role_kind demo_role_job = Some obj" by blast
  have "jt_AppID demo_role_job = ''a1''" by (simp add: demo_role_job_def demo_job_def)
  with rbac_run_converges [OF mem_kube.kube_api_axioms kinds_settle(2) r [unfolded demo_role_run_def] d] st
  have s: "settled (role_kind :: (string trait_spec, RBACRuleSpec list) rbac_kind) ''a1'' obj
      (map_of (mk_objects (ce_cluster env')) (rbac_namespace (role_kind :: (string trait_spec, RBACRuleSpec list) rbac_kind) obj, ko_Name obj))"
    by simp
  have "rbac_namespace (role_kind :: (string trait_spec, RBACRuleSpec list) rbac_kind) obj = ''default''"
    using d by (auto simp: rbac_desired_def demo_role_job_def demo_job_def role_kind_def rbac_namespace_def
        ensureManagedLabel_def kobj_of_def)
  with r s show ?thesis by auto
qed


definition demo_quantities :: "string quantity_ops" where
  "demo_quantities = \<lparr>qo_String = (\<lambda>s. s), qo_IsZero = (\<lambda>s. s = ''0'')\<rparr>"

definition demo_deploy_job :: "string trait_spec JobTask" where
  "demo_deploy_job = demo_job ''web'' (InfoObject \<lparr>co_Kind = KindDeployment, co_Name = ''web'', co_Namespace = ''default'',
     co_Labels = [(LabelAppID, ''a1'')], co_Spec = WorkloadSpec \<lparr>wl_Replicas = 2, wl_ContainerName = ''web'',
       wl_Image = ''nginx'', wl_Ports = [80], wl_Env = [], wl_TerminationGracePeriodSeconds = None\<rparr>\<rparr>)"

definition demo_deployment :: "string workload kobj" where
  "demo_deployment = (case deployment_desired demo_deploy_job of Some d \<Rightarrow> d)"

lemma demo_deployment: "deployment_desired demo_deploy_job = Some demo_deployment" "ko_Namespace demo_deployment = ''default''"
  by (simp_all add: demo_deployment_def deployment_desired_def demo_deploy_job_def demo_job_def workload_kobj_def)

definition demo_rollout :: "int \<Rightarrow> (kube_error + string workload kobj) wait_obs" where
  "demo_rollout n = WaitTick (Inr (demo_deployment\<lparr>ko_Spec := (ko_Spec demo_deployment)\<lparr>wk_ReadyReplicas := n\<rparr>\<rparr>))"

definition demo_deploy_run ::
  "(kube_error + string workload kobj) wait_obs list \<Rightarrow>
   (job_error option \<times> string trait_spec JobTask \<times> (string workload mem_kube, unit, string list) ctl_env) option" where
  "demo_deploy_run obs = DeployJobCtl_Run demo_quantities demo_ops (Some mem_kube_client) None obs demo_deploy_job
     (demo_env no_objects)"






text \<open>
  C16. A deployment job returns. Where the share lock is granted or refused and the wait has an
  end - a global waiter that answers, or a polling loop whose context ends or whose timer fires -
  the run has a result, whatever the cluster answers; an error has set the status that it
  carries, and otherwise the job is completed or skipped.
\<close>

theorem deployment_run_returns:
  assumes "\<forall>key s. op_Lock ops key s \<noteq> None"
    and "waiter = Some (Some r) \<or> waiter = None \<and> list_ex (\<lambda>ob. case ob of WaitTick x \<Rightarrow> False | _ \<Rightarrow> True) obs"
  shows "\<exists>err job' env'. DeployJobCtl_Run qo ops client waiter obs job env = Some (err, job', env') \<and>
    (case err of None \<Rightarrow> jt_Status job' \<in> {StatusCompleted, StatusSkipped} \<and> jt_Error job' = ''''
     | Some e \<Rightarrow> jt_Status job' = (case je_status e of None \<Rightarrow> StatusFailed | Some st \<Rightarrow> st) \<and>
         jt_Error job' = je_text e)"
proof -
  have w: "\<forall>job1. DeployJobCtl_wait waiter obs job1 \<noteq> None"
    using assms(2) wait_loop_returns [of obs]
    by (elim disjE conjE)
      (simp_all add: DeployJobCtl_wait_def DeployJobCtl_waitPolling_def Let_def del: not_None_eq not_Some_eq)
  have "\<forall>job1 env1. DeployJobCtl_run qo ops client job1 env1 \<noteq> None"
    by (simp add: DeployJobCtl_run_def with_share_returns [OF assms(1)] del: not_None_eq split: option.split)
  with w have "DeployJobCtl_Run qo ops client waiter obs job env \<noteq> None"
    unfolding DeployJobCtl_Run_def by (rule run_and_wait_returns)
  then obtain err job' env' where r: "DeployJobCtl_Run qo ops client waiter obs job env = Some (err, job', env')"
    by (metis not_None_eq prod_cases3)
  from run_and_wait_status [OF r [unfolded DeployJobCtl_Run_def]] r show ?thesis by blast
qed

theorem deployment_run_returns_witness:
  "\<exists>err job' env'. demo_deploy_run [demo_rollout 1, WaitTimeout] = Some (err, job', env')"
  unfolding demo_deploy_run_def
  using deployment_run_returns [of demo_ops None None "[demo_rollout 1, WaitTimeout]" demo_quantities
      "Some mem_kube_client" demo_deploy_job "demo_env no_objects"]
  by (auto simp: demo_ops_def)

text \<open>
  C17. What a config map job leaves. A successful job that was not skipped leaves a config map
  with the labels of its input and, for an input without a URL, its data, of at most a megabyte
  and with no empty key, or else one file that holds the whole body of a response with status
  200; all other config maps are as before.
\<close>

theorem config_map_deployed:
  assumes "kube_api cli objects"
    and "DeployConfigMapJobCtl_Run get ops (Some cli) job env = Some (None, job', env')"
    and "jt_JobInfo job = Some (InfoConfigMap s)" "jt_Status job' \<noteq> StatusSkipped"
  shows "\<exists>data v.
    (\<forall>key. key \<noteq> (namespace_or (jt_Namespace job) (ci_Namespace s), ci_Name s) \<longrightarrow>
       objects (ce_cluster env') key = objects (ce_cluster env) key) \<and>
    objects (ce_cluster env') (namespace_or (jt_Namespace job) (ci_Namespace s), ci_Name s) =
      Some ((config_kobj s (jt_Namespace job) data)\<lparr>ko_ResourceVersion := v\<rparr>) \<and>
    (if ci_URL s = '''' then data = config_data s \<and> data_size data \<le> ConfigMapMaxSize \<and> '''' \<notin> fst ` set data
     else \<exists>file body. data = [(file, body)] \<and> length body \<le> ConfigMapMaxSize \<and> get (ci_URL s) = Inr (200, Inr body))"
proof -
  from DeployConfigMapJobCtl_deployed [OF assms(1-3)] obtain data v where
    d: "GenerateConf get s = Inr data"
      "\<forall>key. key \<noteq> (namespace_or (jt_Namespace job) (ci_Namespace s), ci_Name s) \<longrightarrow>
         objects (ce_cluster env') key = objects (ce_cluster env) key"
      "objects (ce_cluster env') (namespace_or (jt_Namespace job) (ci_Namespace s), ci_Name s) =
        Some ((config_kobj s (jt_Namespace job) data)\<lparr>ko_ResourceVersion := v\<rparr>)"
    unfolding if_not_P [OF assms(4)] by blast
  have "if ci_URL s = '''' then data = config_data s \<and> data_size data \<le> ConfigMapMaxSize \<and> '''' \<notin> fst ` set data
     else \<exists>file body. data = [(file, body)] \<and> length body \<le> ConfigMapMaxSize \<and> get (ci_URL s) = Inr (200, Inr body)"
    using GenerateConf_ok [OF d(1)] by (cases "ci_URL s = ''''") auto
  with d(2,3) show ?thesis by blast
qed

definition demo_config :: ConfigInput where
  "demo_config = \<lparr>ci_Name = ''settings'', ci_Namespace = '''', ci_Labels = [], ci_Data = None,
     ci_URL = ''http://files/app.ini'', ci_FileName = ''''\<rparr>"

definition demo_get :: http_get where
  "demo_get url = Inr (200, Inr ''mode=1'')"

definition demo_config_run ::
  "(job_error option \<times> string trait_spec JobTask \<times> ((string \<times> string) list mem_kube, unit, string list) ctl_env) option" where
  "demo_config_run = DeployConfigMapJobCtl_Run demo_get demo_ops (Some mem_kube_client)
     (demo_job ''settings'' (InfoConfigMap demo_config)) (demo_env no_objects)"

lemma demo_config_data: "GenerateConf demo_get demo_config = Inr [(''app.ini'', ''mode=1'')]"
proof -
  have u: "extractFileNameFromURLSimple ''http://files/app.ini'' = ''app.ini''" by code_simp
  show ?thesis
    by (simp add: GenerateConf_def demo_config_def config_data_def ReadFileFromURLSimple_def demo_get_def
        ConfigMapMaxSize_def HasPrefix_def Let_def u)
qed

lemma demo_config_completed:
  "map_option (\<lambda>(err, job, env). (err, jt_Status job)) demo_config_run = Some (None, StatusCompleted)"
proof -
  have f: "ci_Labels demo_config = []" by (simp add: demo_config_def)
  have s: "shareInfoFromLabels [] = ('''', '''')" by code_simp
  show ?thesis
    by (simp add: demo_config_run_def DeployConfigMapJobCtl_Run_def run_and_finish_def start_run_def Let_def
        DeployConfigMapJobCtl_run_def demo_job_def demo_config_data deployConfigMap_def with_share_def config_kobj_def f s
        resolveSharedResource_def deploy_completed_def deploy_with_def reconcile_def mem_kube_client_def no_objects_def
        demo_env_def ctl_ack_def mark_created_def mem_store_object_def)
qed

theorem config_map_deployed_witness:
  "\<exists>job' env' cm fname. demo_config_run = Some (None, job', env') \<and>
    map_of (mk_objects (ce_cluster env')) (''default'', ''settings'') = Some cm \<and> ko_Spec cm = [(fname, ''mode=1'')]"
proof -
  from demo_config_completed obtain job' env' where r: "demo_config_run = Some (None, job', env')"
    and st: "jt_Status job' \<noteq> StatusSkipped"
    by (auto split: prod.splits)
  have j: "jt_JobInfo (demo_job ''settings'' (InfoConfigMap demo_config) :: string trait_spec JobTask) =
      Some (InfoConfigMap demo_config)"
    "jt_Namespace (demo_job ''settings'' (InfoConfigMap demo_config) :: string trait_spec JobTask) = ''default''"
    by (simp_all add: demo_job_def)
  have c: "ci_URL demo_config \<noteq> ''''" "ci_Name demo_config = ''settings''" "ci_Namespace demo_config = ''''"
    by (simp_all add: demo_config_def)
  from config_map_deployed [OF mem_kube.kube_api_axioms r [unfolded demo_config_run_def] j(1) st] c j(2)
  obtain data v fname where "map_of (mk_objects (ce_cluster env')) (''default'', ''settings'') =
      Some ((config_kobj demo_config ''default'' data)\<lparr>ko_ResourceVersion := v\<rparr>)" "data = [(fname, ''mode=1'')]"
    by (auto simp: namespace_or_def demo_get_def)
  then have "map_of (mk_objects (ce_cluster env')) (''default'', ''settings'') =
      Some ((config_kobj demo_config ''default'' data)\<lparr>ko_ResourceVersion := v\<rparr>) \<and>
      ko_Spec ((config_kobj demo_config ''default'' data)\<lparr>ko_ResourceVersion := v\<rparr>) = [(fname, ''mode=1'')]"
    by (simp add: config_kobj_def)
  with r show ?thesis by blast
qed

section \<open>The informer\<close>

text \<open>
  C18. What the waiter of the informer answers. A call returns without an error only when an event
  since its registration showed the resource of its key with all replicas ready; it returns the
  status failed only when that resource was deleted since; every other error is a cancellation or
  a timeout.
\<close>

theorem waiter_answers:
  assumes "waiter_run (ls @ [Returned i key r]) w"
  shows "case r of None \<Rightarrow> since i key (\<lambda>l. l = Updated key True) ls
    | Some (st, e) \<Rightarrow> st \<in> {StatusCancelled, StatusTimeout} \<or>
        st = StatusFailed \<and> since i key (\<lambda>l. l = Deleted key) ls"
  by (rule waiter_run_Returned [OF assms])

definition demo_wait_key :: string where
  "demo_wait_key = buildKey ResourceTypeDeployment ''default'' ''web''"

definition demo_wait_start :: ResourceReadyWaiter where
  "demo_wait_start = wait_start ResourceTypeDeployment ''default'' ''web'' ''10m0s'' NewResourceReadyWaiter"

lemma demo_wait_registered: "waiter_run [Registered 0 demo_wait_key] demo_wait_start"
  using waiter_run.more [OF waiter_run.start waiter_step.register [of NewResourceReadyWaiter ResourceTypeDeployment "''default''" "''web''" "''10m0s''"]]
  by (simp add: demo_wait_key_def demo_wait_start_def NewResourceReadyWaiter_def)

lemma demo_wait_updated:
  "waiter_run [Registered 0 demo_wait_key, Updated demo_wait_key True] (notify_ready demo_wait_key True demo_wait_start)"
  using waiter_run.more [OF demo_wait_registered waiter_step.update [of _ ResourceTypeDeployment "''default''" "''web''" True]]
  by (simp add: demo_wait_key_def)

lemma demo_wait_entry:
  "wa_entries (notify_ready demo_wait_key True demo_wait_start) ! 0 =
     \<lparr>we_Key = demo_wait_key, we_what = ''Deployment default/web'', we_timeout = ''10m0s'', we_closed = True,
      we_Ready = True, we_Error = None\<rparr>"
  "wa_waiting (notify_ready demo_wait_key True demo_wait_start) = [0]"
  by (code_simp, code_simp)

theorem waiter_answers_witness:
  "since 0 demo_wait_key (\<lambda>l. l = Updated demo_wait_key True) [Registered 0 demo_wait_key, Updated demo_wait_key True]"
proof -
  let ?w = "notify_ready demo_wait_key True demo_wait_start"
  have "waiter_step ?w (Returned 0 (we_Key (wa_entries ?w ! 0)) None) (wait_return 0 ?w)"
    by (rule waiter_step.return [of _ _ BranchReady]) (simp_all add: demo_wait_entry)
  then have "waiter_step ?w (Returned 0 demo_wait_key None) (wait_return 0 ?w)" by (simp add: demo_wait_entry)
  from waiter_answers [OF waiter_run.more [OF demo_wait_updated this]] show ?thesis by simp
qed

text \<open>
  C19. A wait at the informer is not missed. When no other call with its key has been registered
  or has returned since a call was registered, and its resource has become ready or was deleted
  meanwhile, the call can return, ready or with the failure.
\<close>

theorem waiter_wakes:
  assumes "waiter_run (xs @ Registered i key # ys) w" "list_all (apart_from key) ys"
    and "Updated key True \<in> set ys \<or> Deleted key \<in> set ys"
  shows "wait_select (wa_entries w ! i) BranchReady = Some None \<or>
    (\<exists>e. wait_select (wa_entries w ! i) BranchError = Some (Some (StatusFailed, e)))"
  using waiter_wakes_aux [OF assms(1,2)] assms(3) by (simp add: woken_def)

theorem waiter_wakes_witness:
  "wait_select (wa_entries (notify_ready demo_wait_key True demo_wait_start) ! 0) BranchReady = Some None"
  using waiter_wakes [of "[]" 0 demo_wait_key "[Updated demo_wait_key True]" "notify_ready demo_wait_key True demo_wait_start"]
    demo_wait_updated
  by (simp add: apart_from_def demo_wait_entry)

text \<open>
  Two calls with one key: the second takes the place of the first in the table, and whatever
  happens afterwards, the first is neither ready nor failed; it ends with its context or its
  timeout.
\<close>

theorem second_waiter_hides_first:
  assumes "waiter_run (xs @ Registered i key # Registered j key # ys) w"
  shows "wait_select (wa_entries w ! i) BranchReady = None \<and> wait_select (wa_entries w ! i) BranchError = None"
  using overwritten_waits [OF assms] by simp




section \<open>The work queue\<close>








section \<open>Configuration\<close>







section \<open>Roles of the server\<close>



section \<open>Caches\<close>

text \<open>
  The cache in memory keeps a value for its time to live and no longer: what was stored under a
  key is read back until the day is over, later reads give the empty string, and other keys are read
  as before.
\<close>

theorem cache_keeps_for_ttl:
  assumes "now \<le> t"
  shows "fst (mem_Load k' t (snd (mem_Store k v now m))) =
    (if k' \<noteq> k then fst (mem_Load k' t m)
     else if 0 < mm_ttl m \<and> now + mm_ttl m < t then ('''', None) else (v, None))"
  using assms by (auto simp: mem_Load_def mem_Store_def cache_expired_def update_conv' Let_def split: option.split)

theorem cache_keeps_for_ttl_witness:
  "fst (mem_Load ''a'' 7 (snd (mem_Store ''a'' ''x'' 5 (NewMemCache False)))) = (''x'', None)"
  using cache_keeps_for_ttl [of 5 7 "''a''" "''a''" "''x''" "NewMemCache False"]
  by (simp add: NewMemCache_def Hour_def duration_defs)


section \<open>The HTTP interface\<close>

text \<open>
  C4. What a creation was asked for is what the interface lists. Over a datastore that keeps its
  promises, after a successful creation, when the components can be read, the reply to
  \<open>GET /applications/:appID/components\<close> is a success and holds, as a multiset, the requested
  components with the templates resolved: names, images, types, properties and traits as in the
  request, the namespace of the application and at least one replica.
\<close>

theorem created_components_listed:
  assumes "application_store st comps wrows"
    and "CreateApplications st tx now appID wfID req db = (Inr (app, w), db')" "ap_ID app \<noteq> ''''"
    and "ListApplicationComponents st db' (ap_ID app) = Inr cs"
    and "TrimSpace (ap_ID app) = ap_ID app" "\<And>i a. ApplicationByID st db' i = Inr a \<Longrightarrow> ap_ID a = i"
    and "\<And>resolved. resolveComponents st db (ap_Namespace app) (ap_Name app) (ar_Component req) = Inr resolved \<Longrightarrow>
      list_all request_ints resolved"
  shows "\<exists>resolved dtos.
    resolveComponents st db (ap_Namespace app) (ap_Name app) (ar_Component req) = Inr resolved \<and>
    listApplicationComponents st etext db' (ap_ID app) = Reply 200 dtos \<and>
    mset (map dto_view dtos) = mset (map (request_view (ap_Namespace app)) resolved)"
  by (rule application_store.created_listed [OF assms]) blast+

lemma mem_ApplicationByID:
  assumes "ApplicationByID mem_stores db i = Inr a"
  shows "ap_ID a = i"
proof -
  have k: "PrimaryKey Applications_Entity = ap_ID" by (simp add: Applications_Entity_def)
  have g: "g_First tb_app_client db e =
      (case list_rows Applications_Entity (tb_apps db) (ap_ID e) of None \<Rightarrow> Inl ErrRecordNotFound | Some r \<Rightarrow> Inr r)" for e
    by (simp add: on_field_def list_client_def k Let_def)
  from assms have "Driver_Get Applications_Entity tb_app_client db (Applications_zero\<lparr>ap_ID := i\<rparr>) = Inr a"
    by (simp add: ApplicationByID_def mem_stores_def Driver_stores_def Driver_def)
  then have "list_rows Applications_Entity (tb_apps db) i = Some a"
    unfolding Driver_Get_def g by (cases "list_rows Applications_Entity (tb_apps db) i") (simp_all split: if_splits)
  from list_rows_key [OF this] show ?thesis by (simp add: k)
qed

lemma demo_listed: "\<not> isl (ListApplicationComponents mem_stores demo_db ''a1'')"
  by code_simp

lemma demo_resolved:
  "resolveComponents mem_stores no_tables ns n (ar_Component demo_request) = Inr resolved \<Longrightarrow>
     resolved = ar_Component demo_request"
  by (auto simp: resolveComponents_def demo_request_def uses_template_def)

lemma demo_ints: "list_all request_ints (ar_Component demo_request)"
proof -
  have "properties_ints Properties_zero" "traits_ints no_Traits" by code_simp+
  then show ?thesis by (simp add: demo_request_def request_ints_def)
qed

theorem created_components_listed_witness:
  "\<exists>dtos. listApplicationComponents mem_stores (\<lambda>e. '''') demo_db ''a1'' = Reply 200 dtos \<and> length dtos = 1"
proof -
  obtain cs where cs: "ListApplicationComponents mem_stores demo_db (ap_ID demo_app) = Inr cs"
    using demo_listed unfolding not_isl_iff demo_fields by blast
  have "TrimSpace ''a1'' = ''a1''" by code_simp
  then obtain resolved dtos where
    r: "resolveComponents mem_stores no_tables (ap_Namespace demo_app) (ap_Name demo_app)
      (ar_Component demo_request) = Inr resolved"
    and d: "listApplicationComponents mem_stores (\<lambda>e. '''') demo_db (ap_ID demo_app) = Reply 200 dtos"
    and m: "mset (map dto_view dtos) = mset (map (request_view (ap_Namespace demo_app)) resolved)"
    using created_components_listed [OF tables.application_store_axioms demo_created _ cs, of "\<lambda>e. ''''"]
      mem_ApplicationByID demo_ints demo_resolved by (fastforce simp: demo_fields)
  from arg_cong [OF m, of size] demo_resolved [OF r] d show ?thesis by (simp add: demo_fields demo_request_def)
qed

text \<open>
  C34. An application is run and cancelled through its own path only. A request to run a workflow, or
  to cancel a task, of another application is answered with the status 404 and changes nothing:
  neither the database, nor the cancellation registry, nor Redis.
\<close>

theorem foreign_requests_refused:
  assumes "WorkflowByID (as_Workflow st) (fst s) workflowID = Inr w" and "wf_AppID w \<noteq> TrimSpace param"
    and "ValidateName workflowID"
    and "TaskByID (as_Queue st) (fst s) (cq_TaskID req) = Inr task" and "wq_AppID task \<noteq> TrimSpace param"
    and "cq_TaskID req \<noteq> ''''"
  shows "status_code (fst (execApplicationWorkflow st etext vtext now newID param (Some workflowID) (fst s))) = 404 \<and>
    snd (execApplicationWorkflow st etext vtext now newID param (Some workflowID) (fst s)) = fst s \<and>
    status_code (fst (cancelApplicationWorkflow st etext vtext cli now param (Some req) s)) = 404 \<and>
    snd (cancelApplicationWorkflow st etext vtext cli now param (Some req) s) = s"
  using exec_foreign [OF assms(1-3)] cancel_foreign [OF assms(4-6)] by auto

definition foreign_tables :: app_tables where
  "foreign_tables = no_tables\<lparr>tb_workflows := [Workflow_zero\<lparr>wf_ID := ''w1'', wf_AppID := ''a1''\<rparr>],
     tb_queue := [wq_zero\<lparr>wq_TaskID := ''t1'', wq_AppID := ''a1''\<rparr>]\<rparr>"

lemma foreign_rows:
  "WorkflowByID (as_Workflow mem_stores) foreign_tables ''w1'' = Inr (Workflow_zero\<lparr>wf_ID := ''w1'', wf_AppID := ''a1''\<rparr>)"
  "TaskByID (as_Queue mem_stores) foreign_tables ''t1'' = Inr (wq_zero\<lparr>wq_TaskID := ''t1'', wq_AppID := ''a1''\<rparr>)"
  "ValidateName ''w1''" "TrimSpace ''a2'' = ''a2''"
  by code_simp+

theorem foreign_requests_refused_witness:
  "snd (execApplicationWorkflow mem_stores (\<lambda>e. '''') (\<lambda>f. '''') 5 ''t2'' ''a2'' (Some ''w1'') foreign_tables) =
   foreign_tables"
  using foreign_requests_refused [of mem_stores "(foreign_tables, cancel_init, ())" "''w1''"
      "Workflow_zero\<lparr>wf_ID := ''w1'', wf_AppID := ''a1''\<rparr>" "''a2''"
      "\<lparr>cq_TaskID = ''t1'', cq_User = '''', cq_Reason = ''''\<rparr>" "wq_zero\<lparr>wq_TaskID := ''t1'', wq_AppID := ''a1''\<rparr>"
      "\<lambda>e. ''''" "\<lambda>f. ''''" 5 "''t2''" None]
    foreign_rows by simp

text \<open>
  Cross-origin replies. When a reply names an allowed origin, then it is either the wildcard,
  configured and without credentials, or the very origin of the request, and that origin is in the
  configured list, or everything is allowed with credentials.
\<close>

theorem cors_allows_configured:
  assumes "(''Access-Control-Allow-Origin'', v) \<in> set (co_headers (CORS opts meth origin))"
  shows "v = ''*'' \<and> hasItem (normalizeList (co_AllowedOrigins opts)) ''*'' \<and>
       (\<not> co_AllowCredentials opts \<or> origin = '''') \<or>
     v = origin \<and> origin \<noteq> '''' \<and>
       (hasItem (normalizeList (co_AllowedOrigins opts)) ''*'' \<and> co_AllowCredentials opts \<or>
        originAllowed origin (normalizeList (co_AllowedOrigins opts)))"
  using assms by (rule cors_origin)

definition demo_cors :: CORSConfig where
  "demo_cors = \<lparr>co_AllowedOrigins = ['' http://a ''], co_AllowedMethods = [''GET''], co_AllowedHeaders = [],
     co_ExposedHeaders = [], co_AllowCredentials = True, co_MaxAge = 0\<rparr>"

lemma demo_origins: "normalizeList (co_AllowedOrigins demo_cors) = [''http://a'']"
  by code_simp

lemma demo_cors_reply:
  "(''Access-Control-Allow-Origin'', ''http://a'') \<in> set (co_headers (CORS demo_cors ''GET'' ''http://a''))"
  "hasItem (normalizeList (co_AllowedOrigins demo_cors)) ''*'' = False"
proof -
  show n: "hasItem (normalizeList (co_AllowedOrigins demo_cors)) ''*'' = False"
    by (simp add: demo_origins hasItem_def)
  have "originAllowed ''http://a'' (normalizeList (co_AllowedOrigins demo_cors))"
    by (simp add: demo_origins originAllowed_def same_origin_text_def)
  with n show "(''Access-Control-Allow-Origin'', ''http://a'') \<in> set (co_headers (CORS demo_cors ''GET'' ''http://a''))"
    by (simp add: CORS_def Let_def)
qed

theorem cors_allows_configured_witness:
  "originAllowed ''http://a'' (normalizeList (co_AllowedOrigins demo_cors))"
  using cors_allows_configured [OF demo_cors_reply(1)] demo_cors_reply(2) by simp

section \<open>Workflows by themselves, and profiles\<close>

text \<open>
  A workflow that is created by itself cannot be run. It is stored without steps and belongs to
  no application, so every later request to run it, while it is stored, is refused and changes nothing.
\<close>

theorem standalone_workflow_refused:
  assumes "request_store st comps wrows"
    and "CreateWorkflowTask st now newID req db = (Inr i, db')"
    and "WorkflowByID (as_Workflow st) db' i = Inr w"
  shows "ExecWorkflowTask store (as_Workflow st) now' taskID i db' = (Inl ErrExecWorkflow, db') \<and>
    ExecWorkflowTaskForApp store (as_Workflow st) now' taskID appID i db' = (Inl ErrWorkflowNotExist, db')"
  using request_store.created_workflow_refused [OF assms] by blast

definition demo_workflow_request :: CreateWorkflowRequest where
  "demo_workflow_request = \<lparr>cw_Name = ''Flow'', cw_Project = ''p1'', cw_Alias = '''', cw_Description = '''',
     cw_Labels = (\<lambda>_. None), cw_Component = [], cw_Workflows = [], cw_TryRun = False\<rparr>"

lemma demo_workflow_created:
  "fst (CreateWorkflowTask mem_stores 5 ''w9'' demo_workflow_request no_tables) = Inr ''w9''"
  "\<not> isl (WorkflowByID (as_Workflow mem_stores)
     (snd (CreateWorkflowTask mem_stores 5 ''w9'' demo_workflow_request no_tables)) ''w9'')"
  by code_simp+

theorem standalone_workflow_refused_witness:
  "fst (ExecWorkflowTask (as_Queue mem_stores) (as_Workflow mem_stores) 6 ''t9'' ''w9''
     (snd (CreateWorkflowTask mem_stores 5 ''w9'' demo_workflow_request no_tables))) = Inl ErrExecWorkflow"
proof -
  let ?db = "snd (CreateWorkflowTask mem_stores 5 ''w9'' demo_workflow_request no_tables)"
  have "CreateWorkflowTask mem_stores 5 ''w9'' demo_workflow_request no_tables = (Inr ''w9'', ?db)"
    using demo_workflow_created(1) by (simp add: prod_eq_iff)
  moreover obtain w where "WorkflowByID (as_Workflow mem_stores) ?db ''w9'' = Inr w"
    using demo_workflow_created(2) unfolding not_isl_iff by blast
  ultimately show ?thesis
    using standalone_workflow_refused [OF requests.request_store_axioms, of 5 "''w9''" demo_workflow_request no_tables
        "''w9''" ?db w "as_Queue mem_stores" 6 "''t9''"] by simp
qed

text \<open>
  C36. Profiles are created under unique names. Over a table with a unique index on the name, a
  creation that succeeds, for a name without surrounding blanks, leaves the names unique, touches no
  other row, and leaves one row of that name: a new one when the name was free, and otherwise the
  row that had it, whose identifier the profile takes over.
\<close>

theorem profile_upserted:
  assumes "named_backend K E cl rows merged col"
    and "profile_Create K (Driver E cl) now db (Some p) = (None, Some p', db')"
    and "TrimSpace (pm_Name K p) = pm_Name K p" and "unique_names K (rows db)"
  shows "unique_names K (rows db') \<and>
    (\<exists>r. rows db' (pm_ID K p') = Some r \<and> pm_Name K r = pm_Name K p) \<and>
    (\<forall>k. k \<noteq> pm_ID K p' \<longrightarrow> rows db' k = rows db k) \<and>
    (if name_used K (rows db) (pm_Name K p) then rows db (pm_ID K p') \<noteq> None
     else p' = p \<and> rows db (pm_ID K p) = None)"
  using named_backend.create_upserts [OF assms] by auto

definition demo_profile :: "string \<Rightarrow> RBACProfile" where
  "demo_profile i = RBACProfile_zero\<lparr>rp_ID := i, rp_Name := ''admin''\<rparr>"

abbreviation profile_client :: "(RBACProfile list, RBACProfile) gorm_client" where
  "profile_client \<equiv> named_client rbac_model RBACProfile_Entity rp_merge rp_col"

lemma demo_profile_created:
  "profile_Create rbac_model (Driver RBACProfile_Entity profile_client) 5 [demo_profile ''p1''] (Some (demo_profile ''p2'')) =
     (None, Some (demo_profile ''p1''), [(demo_profile ''p1'')\<lparr>rp_UpdateTime := 5\<rparr>])"
  "TrimSpace (pm_Name rbac_model (demo_profile ''p2'')) = pm_Name rbac_model (demo_profile ''p2'')"
  by code_simp+

theorem profile_upserted_witness:
  "\<exists>r. list_rows RBACProfile_Entity [(demo_profile ''p1'')\<lparr>rp_UpdateTime := 5\<rparr>] ''p1'' = Some r \<and> rp_Name r = ''admin''"
proof -
  have "unique_names rbac_model (list_rows RBACProfile_Entity [demo_profile ''p1''])"
    by (rule distinct_unique_names) simp
  from profile_upserted [OF rbac_table.nt.named_backend_axioms demo_profile_created this]
  show ?thesis by (simp add: rbac_model_def demo_profile_def)
qed
end
